(* ===== verification/Prelude.thy ===== *)
theory Prelude
  imports Main "HOL-Library.Monad_Syntax"
begin

text \<open>
  Shared vocabulary of the development.

  Pointers: an address is a natural number, a C pointer is an \<open>addr option\<close>
  whose \<open>None\<close> is \<open>NULL\<close>. An operation of the code that touches memory is a
  function into \<open>option\<close>: \<open>None\<close> stands for undefined behaviour (a dereference of
  \<open>NULL\<close> or of an address that holds no object) and, for a loop, for not returning.
  A theorem that such a function yields \<open>Some\<close> therefore states memory safety and
  termination at once.

  Ordered collections are specified by lists of addresses that are strictly
  increasing in a key; the comparison callback of the C macros is a parameter, and the
  locale \<open>comparator\<close> states what the code relies on: it orders its arguments by a key.
\<close>

type_synonym addr = nat
type_synonym ptr = "addr option"

abbreviation NULL :: ptr where "NULL \<equiv> None"

named_theorems heap_simps \<open>symbolic execution of heap accesses\<close>
named_theorems order_simps \<open>facts about key-ordered lists\<close>

lemma bind_Some_iff [heap_simps]: "Option.bind (Some x) f = f x"
  by simp

lemma bind_eq_SomeE:
  assumes "Option.bind x f = Some y"
  obtains z where "x = Some z" and "f z = Some y"
  using assms by (cases x) auto

subsection \<open>Lists ordered by a key\<close>

definition key_sorted :: "(addr \<Rightarrow> 'k::linorder) \<Rightarrow> addr list \<Rightarrow> bool" where
  "key_sorted key xs \<longleftrightarrow> sorted_wrt (\<lambda>a b. key a < key b) xs"

definition key_insert :: "(addr \<Rightarrow> 'k::linorder) \<Rightarrow> addr \<Rightarrow> addr list \<Rightarrow> addr list" where
  "key_insert key x xs =
     takeWhile (\<lambda>a. key a < key x) xs @ x # dropWhile (\<lambda>a. key a < key x) xs"

definition key_find :: "(addr \<Rightarrow> 'k::linorder) \<Rightarrow> addr \<Rightarrow> addr list \<Rightarrow> ptr" where
  "key_find key x xs = List.find (\<lambda>a. key a = key x) xs"

definition key_nfind :: "(addr \<Rightarrow> 'k::linorder) \<Rightarrow> addr \<Rightarrow> addr list \<Rightarrow> ptr" where
  "key_nfind key x xs = List.find (\<lambda>a. key x \<le> key a) xs"

fun succ_in :: "addr list \<Rightarrow> addr \<Rightarrow> ptr" where
  "succ_in [] x = NULL"
| "succ_in [a] x = NULL"
| "succ_in (a # b # xs) x = (if a = x then Some b else succ_in (b # xs) x)"

definition first_of :: "addr list \<Rightarrow> ptr" where
  "first_of xs = (case xs of [] \<Rightarrow> NULL | a # _ \<Rightarrow> Some a)"

definition last_of :: "addr list \<Rightarrow> ptr" where
  "last_of xs = (if xs = [] then NULL else Some (last xs))"

lemma first_of_simps [simp]: "first_of [] = NULL" "first_of (a # xs) = Some a"
  by (simp_all add: first_of_def)

lemma last_of_simps [simp]: "last_of [] = NULL" "last_of (xs @ [a]) = Some a"
  by (simp_all add: last_of_def)

lemma first_of_append: "first_of (xs @ ys) = (if xs = [] then first_of ys else first_of xs)"
  by (cases xs) auto

lemma last_of_append: "last_of (xs @ ys) = (if ys = [] then last_of xs else last_of ys)"
  by (simp add: last_of_def)

lemma split_unique:
  assumes "distinct (us @ a # vs)" "us @ a # vs = us' @ a # vs'"
  shows "us = us' \<and> vs = vs'"
  using assms by (metis append_Cons_eq_iff distinct.simps(2) distinct_append not_distinct_conv_prefix)

lemma key_sorted_Nil [order_simps]: "key_sorted key []"
  by (simp add: key_sorted_def)

lemma key_sorted_Cons [order_simps]:
  "key_sorted key (x # xs) \<longleftrightarrow> (\<forall>y\<in>set xs. key x < key y) \<and> key_sorted key xs"
  by (simp add: key_sorted_def)

lemma key_sorted_append [order_simps]:
  "key_sorted key (xs @ ys) \<longleftrightarrow>
     key_sorted key xs \<and> key_sorted key ys \<and> (\<forall>x\<in>set xs. \<forall>y\<in>set ys. key x < key y)"
  by (auto simp: key_sorted_def sorted_wrt_append)

lemma key_sorted_distinct: "key_sorted key xs \<Longrightarrow> distinct xs"
  by (induction xs) (auto simp: order_simps)

lemma key_sorted_filter: "key_sorted key xs \<Longrightarrow> key_sorted key (filter P xs)"
  by (induction xs) (auto simp: order_simps)

lemma key_sorted_remove1: "key_sorted key xs \<Longrightarrow> key_sorted key (remove1 a xs)"
  using key_sorted_filter [of key xs "(\<noteq>) a"] distinct_remove1_removeAll [of xs a] key_sorted_distinct [of key xs]
  by (simp add: removeAll_filter_not_eq)

lemma key_sorted_inj:
  "key_sorted key xs \<Longrightarrow> a \<in> set xs \<Longrightarrow> b \<in> set xs \<Longrightarrow> key a = key b \<longleftrightarrow> a = b"
  by (induction xs) (auto simp: order_simps)

text \<open>A list split at the position of \<open>x\<close> determines the ordered operations.\<close>

lemma key_insert_split:
  assumes "\<forall>a\<in>set xs. key a < key x" and "\<forall>b\<in>set ys. key x < key b"
  shows "key_insert key x (xs @ ys) = xs @ x # ys"
proof -
  have "takeWhile (\<lambda>a. key a < key x) ys = []" "dropWhile (\<lambda>a. key a < key x) ys = ys"
    using assms(2) by (cases ys; auto)+
  then show ?thesis
    using assms(1) by (simp add: key_insert_def takeWhile_append dropWhile_append)
qed

lemma key_find_split:
  assumes "\<forall>a\<in>set xs. key a < key x" and "key y = key x"
  shows "key_find key x (xs @ y # ys) = Some y"
  using assms by (induction xs) (auto simp: key_find_def)

lemma key_find_None:
  assumes "\<forall>a\<in>set xs. key a \<noteq> key x"
  shows "key_find key x xs = None"
  using assms by (induction xs) (auto simp: key_find_def)

lemma key_nfind_split:
  assumes "\<forall>a\<in>set xs. key a < key x" and "\<forall>b\<in>set ys. key x \<le> key b"
  shows "key_nfind key x (xs @ ys) = first_of ys"
  using assms by (induction xs) (auto simp: key_nfind_def leD split: list.splits, cases ys, auto)

lemma key_insert_Nil [order_simps]: "key_insert key x [] = [x]"
  by (simp add: key_insert_def)

lemma key_insert_Cons [order_simps]:
  "key_insert key x (a # xs) = (if key a < key x then a # key_insert key x xs else x # a # xs)"
  by (simp add: key_insert_def)

lemma set_key_insert: "set (key_insert key x xs) = insert x (set xs)"
  by (induction xs) (auto simp: order_simps)

lemma key_sorted_insert:
  "key_sorted key xs \<Longrightarrow> \<forall>a\<in>set xs. key a \<noteq> key x \<Longrightarrow> key_sorted key (key_insert key x xs)"
  by (induction xs) (auto simp: order_simps set_key_insert neq_iff intro: order.strict_trans)

lemma succ_in_split:
  assumes "x \<notin> set xs"
  shows "succ_in (xs @ x # ys) x = first_of ys"
  using assms
proof (induction xs)
  case Nil
  then show ?case by (cases ys) auto
next
  case (Cons a xs)
  then show ?case by (cases xs) auto
qed

subsection \<open>The comparison callback\<close>

text \<open>
  \<open>cmp a b\<close> is the C callback \<open>cmp(a, b)\<close>. Every tree macro relies on its sign
  being that of a total order on keys.
\<close>

locale comparator =
  fixes cmp :: "addr \<Rightarrow> addr \<Rightarrow> int" and key :: "addr \<Rightarrow> 'k::linorder"
  assumes cmp_less: "cmp a b < 0 \<longleftrightarrow> key a < key b"
    and cmp_greater: "cmp a b > 0 \<longleftrightarrow> key b < key a"
begin

lemma cmp_zero: "cmp a b = 0 \<longleftrightarrow> key a = key b"
  using cmp_less [of a b] cmp_greater [of a b] by (metis less_irrefl linorder_neqE)

lemmas cmp_simps = cmp_less cmp_greater cmp_zero

end

text \<open>The usual three-way comparison of an integer field.\<close>

definition three_way :: "(addr \<Rightarrow> int) \<Rightarrow> addr \<Rightarrow> addr \<Rightarrow> int" where
  "three_way key a b = (if key a < key b then -1 else if key b < key a then 1 else 0)"

interpretation keyed: comparator "three_way key" key for key
  by unfold_locales (auto simp: three_way_def)

subsection \<open>Tables\<close>

text \<open>Two columns of a table, each without repetitions, identify the same rows.\<close>

lemma same_position:
  assumes "map f xs = map f ys" "distinct (map f xs)" "map g xs = map g ys" "distinct (map g xs)"
    "x \<in> set xs" "y \<in> set ys"
  shows "f x = f y \<longleftrightarrow> g x = g y"
proof -
  obtain j k where x: "j < length xs" "x = xs ! j" and y: "k < length ys" "y = ys ! k"
    using assms(5,6) by (auto simp: in_set_conv_nth)
  have l: "length xs = length ys" using assms(1) by (rule map_eq_imp_length_eq)
  have "f y = map f xs ! k" "g y = map g xs ! k" using y unfolding assms(1,3) by simp_all
  moreover have "f x = map f xs ! j" "g x = map g xs ! j" using x by simp_all
  ultimately show ?thesis
    using assms(2,4) x(1) y(1) l by (simp only: nth_eq_iff_index_eq length_map)
qed

end
