(* ===== verification/UvRbModel.thy ===== *)
theory UvRbModel
  imports Prelude
begin

text \<open>
  The red-black tree of \<open>node-js/include/node/uv/tree.h\<close> (the \<open>RB_*\<close> macros), as written:
  nodes in a heap with left, right and parent pointers and an integer colour, a head with
  the root pointer, and every macro as a function on that state. The pointer to the head
  and the name of the embedded field are implicit (one tree, one field); \<open>RB_AUGMENT\<close> is
  the header's default, which does nothing. Definitions carry the names of the macros;
  \<open>set_RB_X\<close> is the assignment to the lvalue \<open>RB_X(elm)\<close>.
\<close>

definition RB_BLACK :: int where "RB_BLACK = 0"
definition RB_RED :: int where "RB_RED = 1"

record rb_entry =
  rbe_left :: ptr
  rbe_right :: ptr
  rbe_parent :: ptr
  rbe_color :: int

record rb_state =
  rbh_root :: ptr
  rb_nodes :: "addr \<rightharpoonup> rb_entry"

subsection \<open>Field access\<close>

definition rb_get :: "(rb_entry \<Rightarrow> 'a) \<Rightarrow> ptr \<Rightarrow> rb_state \<Rightarrow> 'a option" where
  "rb_get f elm s = Option.bind elm (\<lambda>a. map_option f (rb_nodes s a))"

definition rb_put :: "(rb_entry \<Rightarrow> rb_entry) \<Rightarrow> ptr \<Rightarrow> rb_state \<Rightarrow> rb_state option" where
  "rb_put f elm s = do {
     a \<leftarrow> elm;
     e \<leftarrow> rb_nodes s a;
     Some (s\<lparr>rb_nodes := (rb_nodes s)(a \<mapsto> f e)\<rparr>)
   }"

definition RB_LEFT :: "ptr \<Rightarrow> rb_state \<Rightarrow> ptr option" where
  "RB_LEFT = rb_get rbe_left"
definition RB_RIGHT :: "ptr \<Rightarrow> rb_state \<Rightarrow> ptr option" where
  "RB_RIGHT = rb_get rbe_right"
definition RB_PARENT :: "ptr \<Rightarrow> rb_state \<Rightarrow> ptr option" where
  "RB_PARENT = rb_get rbe_parent"
definition RB_COLOR :: "ptr \<Rightarrow> rb_state \<Rightarrow> int option" where
  "RB_COLOR = rb_get rbe_color"

definition set_RB_LEFT :: "ptr \<Rightarrow> ptr \<Rightarrow> rb_state \<Rightarrow> rb_state option" where
  "set_RB_LEFT elm v = rb_put (rbe_left_update (\<lambda>_. v)) elm"
definition set_RB_RIGHT :: "ptr \<Rightarrow> ptr \<Rightarrow> rb_state \<Rightarrow> rb_state option" where
  "set_RB_RIGHT elm v = rb_put (rbe_right_update (\<lambda>_. v)) elm"
definition set_RB_PARENT :: "ptr \<Rightarrow> ptr \<Rightarrow> rb_state \<Rightarrow> rb_state option" where
  "set_RB_PARENT elm v = rb_put (rbe_parent_update (\<lambda>_. v)) elm"
definition set_RB_COLOR :: "ptr \<Rightarrow> int \<Rightarrow> rb_state \<Rightarrow> rb_state option" where
  "set_RB_COLOR elm v = rb_put (rbe_color_update (\<lambda>_. v)) elm"

definition RB_ROOT :: "rb_state \<Rightarrow> ptr" where
  "RB_ROOT s = rbh_root s"
definition RB_EMPTY :: "rb_state \<Rightarrow> bool" where
  "RB_EMPTY s \<longleftrightarrow> RB_ROOT s = NULL"

definition RB_INIT :: "rb_state \<Rightarrow> rb_state" where
  "RB_INIT s = s\<lparr>rbh_root := NULL\<rparr>"

definition RB_SET :: "ptr \<Rightarrow> ptr \<Rightarrow> rb_state \<Rightarrow> rb_state option" where
  "RB_SET elm parent s = do {
     s \<leftarrow> set_RB_PARENT elm parent s;
     s \<leftarrow> set_RB_RIGHT elm NULL s;
     s \<leftarrow> set_RB_LEFT elm NULL s;
     set_RB_COLOR elm RB_RED s
   }"

definition RB_SET_BLACKRED :: "ptr \<Rightarrow> ptr \<Rightarrow> rb_state \<Rightarrow> rb_state option" where
  "RB_SET_BLACKRED black red s = do {
     s \<leftarrow> set_RB_COLOR black RB_BLACK s;
     set_RB_COLOR red RB_RED s
   }"

text \<open>The tests \<open>p && RB_COLOR(p) == RB_RED\<close> and \<open>p == NULL || RB_COLOR(p) == RB_BLACK\<close>.\<close>

definition rb_is_red :: "ptr \<Rightarrow> rb_state \<Rightarrow> bool option" where
  "rb_is_red p s = (if p = NULL then Some False else map_option (\<lambda>c. c = RB_RED) (RB_COLOR p s))"

definition rb_is_black :: "ptr \<Rightarrow> rb_state \<Rightarrow> bool option" where
  "rb_is_black p s = (if p = NULL then Some True else map_option (\<lambda>c. c = RB_BLACK) (RB_COLOR p s))"

subsection \<open>Rotations\<close>

text \<open>The macro assigns its parameter \<open>tmp\<close>; the function returns that value with the state.\<close>

definition RB_ROTATE_LEFT :: "ptr \<Rightarrow> rb_state \<Rightarrow> (ptr \<times> rb_state) option" where
  "RB_ROTATE_LEFT elm s = do {
     tmp \<leftarrow> RB_RIGHT elm s;
     tl \<leftarrow> RB_LEFT tmp s;
     s \<leftarrow> set_RB_RIGHT elm tl s;
     s \<leftarrow> (if tl \<noteq> NULL
           then do { tl \<leftarrow> RB_LEFT tmp s; set_RB_PARENT tl elm s }
           else Some s);
     ep \<leftarrow> RB_PARENT elm s;
     s \<leftarrow> set_RB_PARENT tmp ep s;
     s \<leftarrow> (if ep \<noteq> NULL
           then do {
             ep \<leftarrow> RB_PARENT elm s;
             epl \<leftarrow> RB_LEFT ep s;
             if elm = epl then set_RB_LEFT ep tmp s else set_RB_RIGHT ep tmp s
           }
           else Some (s\<lparr>rbh_root := tmp\<rparr>));
     s \<leftarrow> set_RB_LEFT tmp elm s;
     s \<leftarrow> set_RB_PARENT elm tmp s;
     Some (tmp, s)
   }"

definition RB_ROTATE_RIGHT :: "ptr \<Rightarrow> rb_state \<Rightarrow> (ptr \<times> rb_state) option" where
  "RB_ROTATE_RIGHT elm s = do {
     tmp \<leftarrow> RB_LEFT elm s;
     tr \<leftarrow> RB_RIGHT tmp s;
     s \<leftarrow> set_RB_LEFT elm tr s;
     s \<leftarrow> (if tr \<noteq> NULL
           then do { tr \<leftarrow> RB_RIGHT tmp s; set_RB_PARENT tr elm s }
           else Some s);
     ep \<leftarrow> RB_PARENT elm s;
     s \<leftarrow> set_RB_PARENT tmp ep s;
     s \<leftarrow> (if ep \<noteq> NULL
           then do {
             ep \<leftarrow> RB_PARENT elm s;
             epl \<leftarrow> RB_LEFT ep s;
             if elm = epl then set_RB_LEFT ep tmp s else set_RB_RIGHT ep tmp s
           }
           else Some (s\<lparr>rbh_root := tmp\<rparr>));
     s \<leftarrow> set_RB_RIGHT tmp elm s;
     s \<leftarrow> set_RB_PARENT elm tmp s;
     Some (tmp, s)
   }"

subsection \<open>Insertion\<close>

text \<open>
  \<open>RB_INSERT_COLOR\<close>: one pass of the loop body for a red \<open>parent\<close>. It returns the
  \<open>elm\<close> and the state with which the loop is entered again, by \<open>continue\<close> or at the end
  of the body.
\<close>

definition RB_INSERT_COLOR_body :: "ptr \<Rightarrow> ptr \<Rightarrow> rb_state \<Rightarrow> (ptr \<times> rb_state) option" where
  "RB_INSERT_COLOR_body parent elm s = do {
     gparent \<leftarrow> RB_PARENT parent s;
     gl \<leftarrow> RB_LEFT gparent s;
     if parent = gl then do {
       tmp \<leftarrow> RB_RIGHT gparent s;
       red \<leftarrow> rb_is_red tmp s;
       if red then do {
         s \<leftarrow> set_RB_COLOR tmp RB_BLACK s;
         s \<leftarrow> RB_SET_BLACKRED parent gparent s;
         Some (gparent, s)
       } else do {
         pr \<leftarrow> RB_RIGHT parent s;
         (parent, elm, s) \<leftarrow>
           (if pr = elm
            then do { (_, s) \<leftarrow> RB_ROTATE_LEFT parent s; Some (elm, parent, s) }
            else Some (parent, elm, s));
         s \<leftarrow> RB_SET_BLACKRED parent gparent s;
         (_, s) \<leftarrow> RB_ROTATE_RIGHT gparent s;
         Some (elm, s)
       }
     } else do {
       tmp \<leftarrow> RB_LEFT gparent s;
       red \<leftarrow> rb_is_red tmp s;
       if red then do {
         s \<leftarrow> set_RB_COLOR tmp RB_BLACK s;
         s \<leftarrow> RB_SET_BLACKRED parent gparent s;
         Some (gparent, s)
       } else do {
         pl \<leftarrow> RB_LEFT parent s;
         (parent, elm, s) \<leftarrow>
           (if pl = elm
            then do { (_, s) \<leftarrow> RB_ROTATE_RIGHT parent s; Some (elm, parent, s) }
            else Some (parent, elm, s));
         s \<leftarrow> RB_SET_BLACKRED parent gparent s;
         (_, s) \<leftarrow> RB_ROTATE_LEFT gparent s;
         Some (elm, s)
       }
     }
   }"

partial_function (option) RB_INSERT_COLOR_loop :: "ptr \<Rightarrow> rb_state \<Rightarrow> rb_state option" where
  "RB_INSERT_COLOR_loop elm s = do {
     parent \<leftarrow> RB_PARENT elm s;
     if parent = NULL then Some s
     else do {
       pc \<leftarrow> RB_COLOR parent s;
       if pc = RB_RED
       then do {
         (elm, s) \<leftarrow> RB_INSERT_COLOR_body parent elm s;
         RB_INSERT_COLOR_loop elm s
       }
       else Some s
     }
   }"

definition RB_INSERT_COLOR :: "ptr \<Rightarrow> rb_state \<Rightarrow> rb_state option" where
  "RB_INSERT_COLOR elm s = do {
     s \<leftarrow> RB_INSERT_COLOR_loop elm s;
     set_RB_COLOR (rbh_root s) RB_BLACK s
   }"

text \<open>The search loop of \<open>RB_INSERT\<close>: \<open>Inl\<close> an equal node, \<open>Inr\<close> the last \<open>parent, comp\<close>.\<close>

partial_function (option) RB_INSERT_loop ::
    "(addr \<Rightarrow> addr \<Rightarrow> int) \<Rightarrow> addr \<Rightarrow> ptr \<Rightarrow> ptr \<Rightarrow> int \<Rightarrow> rb_state \<Rightarrow> (ptr + ptr \<times> int) option" where
  "RB_INSERT_loop cmp elm tmp parent cres s =
     (case tmp of
        None \<Rightarrow> Some (Inr (parent, cres))
      | Some t \<Rightarrow>
          (if cmp elm t < 0 then do { l \<leftarrow> RB_LEFT tmp s; RB_INSERT_loop cmp elm l tmp (cmp elm t) s }
           else if cmp elm t > 0 then do { r \<leftarrow> RB_RIGHT tmp s; RB_INSERT_loop cmp elm r tmp (cmp elm t) s }
           else Some (Inl tmp)))"

text \<open>Linking the new node below \<open>parent\<close>, on the side the last comparison chose.\<close>

definition RB_INSERT_link :: "ptr \<Rightarrow> ptr \<Rightarrow> int \<Rightarrow> rb_state \<Rightarrow> rb_state option" where
  "RB_INSERT_link elm parent cres s = do {
     s \<leftarrow> RB_SET elm parent s;
     if parent \<noteq> NULL
     then (if cres < 0 then set_RB_LEFT parent elm s else set_RB_RIGHT parent elm s)
     else Some (s\<lparr>rbh_root := elm\<rparr>)
   }"

definition RB_INSERT ::
    "(addr \<Rightarrow> addr \<Rightarrow> int) \<Rightarrow> addr \<Rightarrow> rb_state \<Rightarrow> (ptr \<times> rb_state) option" where
  "RB_INSERT cmp elm s = do {
     found \<leftarrow> RB_INSERT_loop cmp elm (RB_ROOT s) NULL 0 s;
     case found of
       Inl tmp \<Rightarrow> Some (tmp, s)
     | Inr (parent, cres) \<Rightarrow> do {
         s \<leftarrow> RB_INSERT_link (Some elm) parent cres s;
         s \<leftarrow> RB_INSERT_COLOR (Some elm) s;
         Some (NULL, s)
       }
   }"

subsection \<open>Removal\<close>

text \<open>
  \<open>RB_REMOVE_COLOR\<close>: one pass of the loop body, for \<open>elm\<close> on the left of \<open>parent\<close> or not,
  each in two parts: a red sibling \<open>tmp\<close> is rotated away; then the cases of a black
  sibling. The result is \<open>(parent, elm, s, again)\<close>,
  with \<open>again = False\<close> for the \<open>break\<close>.
\<close>

definition RB_REMOVE_COLOR_left_red :: "ptr \<Rightarrow> rb_state \<Rightarrow> (ptr \<times> rb_state) option" where
  "RB_REMOVE_COLOR_left_red parent s = do {
     tmp \<leftarrow> RB_RIGHT parent s;
     tc \<leftarrow> RB_COLOR tmp s;
     if tc = RB_RED
     then do {
       s \<leftarrow> RB_SET_BLACKRED tmp parent s;
       (_, s) \<leftarrow> RB_ROTATE_LEFT parent s;
       tmp \<leftarrow> RB_RIGHT parent s;
       Some (tmp, s)
     }
     else Some (tmp, s)
   }"

definition RB_REMOVE_COLOR_left_inner :: "ptr \<Rightarrow> ptr \<Rightarrow> rb_state \<Rightarrow> (ptr \<times> rb_state) option" where
  "RB_REMOVE_COLOR_left_inner parent tmp s = do {
     tr \<leftarrow> RB_RIGHT tmp s;
     rb \<leftarrow> rb_is_black tr s;
     if rb
     then do {
       oleft \<leftarrow> RB_LEFT tmp s;
       s \<leftarrow> (if oleft \<noteq> NULL then set_RB_COLOR oleft RB_BLACK s else Some s);
       s \<leftarrow> set_RB_COLOR tmp RB_RED s;
       (_, s) \<leftarrow> RB_ROTATE_RIGHT tmp s;
       tmp \<leftarrow> RB_RIGHT parent s;
       Some (tmp, s)
     }
     else Some (tmp, s)
   }"

definition RB_REMOVE_COLOR_left_outer ::
    "ptr \<Rightarrow> ptr \<Rightarrow> rb_state \<Rightarrow> (ptr \<times> ptr \<times> rb_state \<times> bool) option" where
  "RB_REMOVE_COLOR_left_outer parent tmp s = do {
     pc \<leftarrow> RB_COLOR parent s;
     s \<leftarrow> set_RB_COLOR tmp pc s;
     s \<leftarrow> set_RB_COLOR parent RB_BLACK s;
     tr \<leftarrow> RB_RIGHT tmp s;
     s \<leftarrow> (if tr \<noteq> NULL then set_RB_COLOR tr RB_BLACK s else Some s);
     (_, s) \<leftarrow> RB_ROTATE_LEFT parent s;
     Some (parent, RB_ROOT s, s, False)
   }"

definition RB_REMOVE_COLOR_left_black ::
    "ptr \<Rightarrow> ptr \<Rightarrow> rb_state \<Rightarrow> (ptr \<times> ptr \<times> rb_state \<times> bool) option" where
  "RB_REMOVE_COLOR_left_black parent tmp s = do {
     tl \<leftarrow> RB_LEFT tmp s;
     lb \<leftarrow> rb_is_black tl s;
     both \<leftarrow> (if lb then do { tr \<leftarrow> RB_RIGHT tmp s; rb_is_black tr s } else Some False);
     if both then do {
       s \<leftarrow> set_RB_COLOR tmp RB_RED s;
       parent' \<leftarrow> RB_PARENT parent s;
       Some (parent', parent, s, True)
     } else do {
       (tmp, s) \<leftarrow> RB_REMOVE_COLOR_left_inner parent tmp s;
       RB_REMOVE_COLOR_left_outer parent tmp s
     }
   }"

definition RB_REMOVE_COLOR_left ::
    "ptr \<Rightarrow> rb_state \<Rightarrow> (ptr \<times> ptr \<times> rb_state \<times> bool) option" where
  "RB_REMOVE_COLOR_left parent s = do {
     (tmp, s) \<leftarrow> RB_REMOVE_COLOR_left_red parent s;
     RB_REMOVE_COLOR_left_black parent tmp s
   }"

definition RB_REMOVE_COLOR_right_red :: "ptr \<Rightarrow> rb_state \<Rightarrow> (ptr \<times> rb_state) option" where
  "RB_REMOVE_COLOR_right_red parent s = do {
     tmp \<leftarrow> RB_LEFT parent s;
     tc \<leftarrow> RB_COLOR tmp s;
     if tc = RB_RED
     then do {
       s \<leftarrow> RB_SET_BLACKRED tmp parent s;
       (_, s) \<leftarrow> RB_ROTATE_RIGHT parent s;
       tmp \<leftarrow> RB_LEFT parent s;
       Some (tmp, s)
     }
     else Some (tmp, s)
   }"

definition RB_REMOVE_COLOR_right_inner :: "ptr \<Rightarrow> ptr \<Rightarrow> rb_state \<Rightarrow> (ptr \<times> rb_state) option" where
  "RB_REMOVE_COLOR_right_inner parent tmp s = do {
     tl \<leftarrow> RB_LEFT tmp s;
     lb \<leftarrow> rb_is_black tl s;
     if lb
     then do {
       oright \<leftarrow> RB_RIGHT tmp s;
       s \<leftarrow> (if oright \<noteq> NULL then set_RB_COLOR oright RB_BLACK s else Some s);
       s \<leftarrow> set_RB_COLOR tmp RB_RED s;
       (_, s) \<leftarrow> RB_ROTATE_LEFT tmp s;
       tmp \<leftarrow> RB_LEFT parent s;
       Some (tmp, s)
     }
     else Some (tmp, s)
   }"

definition RB_REMOVE_COLOR_right_outer ::
    "ptr \<Rightarrow> ptr \<Rightarrow> rb_state \<Rightarrow> (ptr \<times> ptr \<times> rb_state \<times> bool) option" where
  "RB_REMOVE_COLOR_right_outer parent tmp s = do {
     pc \<leftarrow> RB_COLOR parent s;
     s \<leftarrow> set_RB_COLOR tmp pc s;
     s \<leftarrow> set_RB_COLOR parent RB_BLACK s;
     tl \<leftarrow> RB_LEFT tmp s;
     s \<leftarrow> (if tl \<noteq> NULL then set_RB_COLOR tl RB_BLACK s else Some s);
     (_, s) \<leftarrow> RB_ROTATE_RIGHT parent s;
     Some (parent, RB_ROOT s, s, False)
   }"

definition RB_REMOVE_COLOR_right_black ::
    "ptr \<Rightarrow> ptr \<Rightarrow> rb_state \<Rightarrow> (ptr \<times> ptr \<times> rb_state \<times> bool) option" where
  "RB_REMOVE_COLOR_right_black parent tmp s = do {
     tl \<leftarrow> RB_LEFT tmp s;
     lb \<leftarrow> rb_is_black tl s;
     both \<leftarrow> (if lb then do { tr \<leftarrow> RB_RIGHT tmp s; rb_is_black tr s } else Some False);
     if both then do {
       s \<leftarrow> set_RB_COLOR tmp RB_RED s;
       parent' \<leftarrow> RB_PARENT parent s;
       Some (parent', parent, s, True)
     } else do {
       (tmp, s) \<leftarrow> RB_REMOVE_COLOR_right_inner parent tmp s;
       RB_REMOVE_COLOR_right_outer parent tmp s
     }
   }"

definition RB_REMOVE_COLOR_right ::
    "ptr \<Rightarrow> rb_state \<Rightarrow> (ptr \<times> ptr \<times> rb_state \<times> bool) option" where
  "RB_REMOVE_COLOR_right parent s = do {
     (tmp, s) \<leftarrow> RB_REMOVE_COLOR_right_red parent s;
     RB_REMOVE_COLOR_right_black parent tmp s
   }"

partial_function (option) RB_REMOVE_COLOR_loop ::
    "ptr \<Rightarrow> ptr \<Rightarrow> rb_state \<Rightarrow> (ptr \<times> rb_state) option" where
  "RB_REMOVE_COLOR_loop parent elm s = do {
     black \<leftarrow> rb_is_black elm s;
     if black \<and> elm \<noteq> RB_ROOT s
     then do {
       pl \<leftarrow> RB_LEFT parent s;
       (parent, elm, s, again) \<leftarrow>
         (if pl = elm then RB_REMOVE_COLOR_left parent s else RB_REMOVE_COLOR_right parent s);
       if again then RB_REMOVE_COLOR_loop parent elm s else Some (elm, s)
     }
     else Some (elm, s)
   }"

definition RB_REMOVE_COLOR :: "ptr \<Rightarrow> ptr \<Rightarrow> rb_state \<Rightarrow> rb_state option" where
  "RB_REMOVE_COLOR parent elm s = do {
     (elm, s) \<leftarrow> RB_REMOVE_COLOR_loop parent elm s;
     if elm \<noteq> NULL then set_RB_COLOR elm RB_BLACK s else Some s
   }"

text \<open>\<open>while ((left = RB_LEFT(elm)) != NULL) elm = left;\<close> and its mirror image.\<close>

partial_function (option) rb_leftmost :: "ptr \<Rightarrow> rb_state \<Rightarrow> ptr option" where
  "rb_leftmost elm s = do {
     left \<leftarrow> RB_LEFT elm s;
     if left \<noteq> NULL then rb_leftmost left s else Some elm
   }"

partial_function (option) rb_rightmost :: "ptr \<Rightarrow> rb_state \<Rightarrow> ptr option" where
  "rb_rightmost elm s = do {
     right \<leftarrow> RB_RIGHT elm s;
     if right \<noteq> NULL then rb_rightmost right s else Some elm
   }"

text \<open>The \<open>do \<dots> while\<close> walk to the root that calls the (empty) \<open>RB_AUGMENT\<close>.\<close>

partial_function (option) rb_augment_walk :: "ptr \<Rightarrow> rb_state \<Rightarrow> unit option" where
  "rb_augment_walk left s = do {
     left \<leftarrow> RB_PARENT left s;
     if left \<noteq> NULL then rb_augment_walk left s else Some ()
   }"

text \<open>
  Unlinking: \<open>child\<close> takes the place of \<open>elm\<close> below \<open>parent\<close>. The code has this
  fragment twice, for a node with at most one child and for the successor.
\<close>

definition rb_unlink :: "ptr \<Rightarrow> ptr \<Rightarrow> ptr \<Rightarrow> rb_state \<Rightarrow> rb_state option" where
  "rb_unlink parent elm child s = do {
     s \<leftarrow> (if child \<noteq> NULL then set_RB_PARENT child parent s else Some s);
     if parent \<noteq> NULL then do {
       pl \<leftarrow> RB_LEFT parent s;
       if pl = elm then set_RB_LEFT parent child s else set_RB_RIGHT parent child s
     }
     else Some (s\<lparr>rbh_root := child\<rparr>)
   }"

text \<open>The struct copy \<open>(elm)->field = (old)->field\<close>.\<close>

definition rb_copy_field :: "ptr \<Rightarrow> ptr \<Rightarrow> rb_state \<Rightarrow> rb_state option" where
  "rb_copy_field elm old s = do {
     e \<leftarrow> rb_get id old s;
     rb_put (\<lambda>_. e) elm s
   }"

text \<open>The copy and the pointer updates that put \<open>elm\<close> in the place of \<open>old\<close>.\<close>

definition rb_replace :: "ptr \<Rightarrow> ptr \<Rightarrow> rb_state \<Rightarrow> rb_state option" where
  "rb_replace elm old s = do {
     s \<leftarrow> rb_copy_field elm old s;
     op \<leftarrow> RB_PARENT old s;
     s \<leftarrow> (if op \<noteq> NULL then do {
             opl \<leftarrow> RB_LEFT op s;
             if opl = old then set_RB_LEFT op elm s else set_RB_RIGHT op elm s
           }
           else Some (s\<lparr>rbh_root := elm\<rparr>));
     ol \<leftarrow> RB_LEFT old s;
     s \<leftarrow> set_RB_PARENT ol elm s;
     or \<leftarrow> RB_RIGHT old s;
     if or \<noteq> NULL then set_RB_PARENT or elm s else Some s
   }"

text \<open>
  The removal of a node with two children: its successor \<open>elm\<close> is unlinked and put in
  its place. The result is \<open>parent, child, color, s\<close> as they are at the label \<open>color\<close>.
\<close>

definition RB_REMOVE_two ::
    "ptr \<Rightarrow> rb_state \<Rightarrow> (ptr \<times> ptr \<times> int \<times> rb_state) option" where
  "RB_REMOVE_two old s = do {
     elm \<leftarrow> RB_RIGHT old s;
     elm \<leftarrow> rb_leftmost elm s;
     child \<leftarrow> RB_RIGHT elm s;
     parent \<leftarrow> RB_PARENT elm s;
     color \<leftarrow> RB_COLOR elm s;
     s \<leftarrow> rb_unlink parent elm child s;
     ep \<leftarrow> RB_PARENT elm s;
     parent \<leftarrow> Some (if ep = old then elm else parent);
     s \<leftarrow> rb_replace elm old s;
     _ \<leftarrow> (if parent \<noteq> NULL then rb_augment_walk parent s else Some ());
     Some (parent, child, color, s)
   }"

definition RB_REMOVE :: "ptr \<Rightarrow> rb_state \<Rightarrow> (ptr \<times> rb_state) option" where
  "RB_REMOVE elm s = do {
     l \<leftarrow> RB_LEFT elm s;
     r \<leftarrow> RB_RIGHT elm s;
     (parent, child, color, s) \<leftarrow>
       (if l \<noteq> NULL \<and> r \<noteq> NULL then RB_REMOVE_two elm s
        else do {
          child \<leftarrow> Some (if l = NULL then r else l);
          parent \<leftarrow> RB_PARENT elm s;
          color \<leftarrow> RB_COLOR elm s;
          s \<leftarrow> rb_unlink parent elm child s;
          Some (parent, child, color, s)
        });
     s \<leftarrow> (if color = RB_BLACK then RB_REMOVE_COLOR parent child s else Some s);
     Some (elm, s)
   }"

subsection \<open>Queries and iteration\<close>

partial_function (option) RB_FIND_loop ::
    "(addr \<Rightarrow> addr \<Rightarrow> int) \<Rightarrow> addr \<Rightarrow> ptr \<Rightarrow> rb_state \<Rightarrow> ptr option" where
  "RB_FIND_loop cmp elm tmp s =
     (case tmp of
        None \<Rightarrow> Some NULL
      | Some t \<Rightarrow>
          (if cmp elm t < 0 then do { l \<leftarrow> RB_LEFT tmp s; RB_FIND_loop cmp elm l s }
           else if cmp elm t > 0 then do { r \<leftarrow> RB_RIGHT tmp s; RB_FIND_loop cmp elm r s }
           else Some tmp))"

definition RB_FIND :: "(addr \<Rightarrow> addr \<Rightarrow> int) \<Rightarrow> addr \<Rightarrow> rb_state \<Rightarrow> ptr option" where
  "RB_FIND cmp elm s = RB_FIND_loop cmp elm (RB_ROOT s) s"

partial_function (option) RB_NFIND_loop ::
    "(addr \<Rightarrow> addr \<Rightarrow> int) \<Rightarrow> addr \<Rightarrow> ptr \<Rightarrow> ptr \<Rightarrow> rb_state \<Rightarrow> ptr option" where
  "RB_NFIND_loop cmp elm tmp res s =
     (case tmp of
        None \<Rightarrow> Some res
      | Some t \<Rightarrow>
          (if cmp elm t < 0 then do { l \<leftarrow> RB_LEFT tmp s; RB_NFIND_loop cmp elm l tmp s }
           else if cmp elm t > 0 then do { r \<leftarrow> RB_RIGHT tmp s; RB_NFIND_loop cmp elm r res s }
           else Some tmp))"

definition RB_NFIND :: "(addr \<Rightarrow> addr \<Rightarrow> int) \<Rightarrow> addr \<Rightarrow> rb_state \<Rightarrow> ptr option" where
  "RB_NFIND cmp elm s = RB_NFIND_loop cmp elm (RB_ROOT s) NULL s"

text \<open>\<open>while (RB_PARENT(elm) && elm == RB_RIGHT(RB_PARENT(elm))) elm = RB_PARENT(elm);\<close>\<close>

partial_function (option) rb_climb_right :: "ptr \<Rightarrow> rb_state \<Rightarrow> ptr option" where
  "rb_climb_right elm s = do {
     p \<leftarrow> RB_PARENT elm s;
     if p = NULL then Some elm
     else do {
       pr \<leftarrow> RB_RIGHT p s;
       if elm = pr then rb_climb_right p s else Some elm
     }
   }"

partial_function (option) rb_climb_left :: "ptr \<Rightarrow> rb_state \<Rightarrow> ptr option" where
  "rb_climb_left elm s = do {
     p \<leftarrow> RB_PARENT elm s;
     if p = NULL then Some elm
     else do {
       pl \<leftarrow> RB_LEFT p s;
       if elm = pl then rb_climb_left p s else Some elm
     }
   }"

definition RB_NEXT :: "ptr \<Rightarrow> rb_state \<Rightarrow> ptr option" where
  "RB_NEXT elm s = do {
     r \<leftarrow> RB_RIGHT elm s;
     if r \<noteq> NULL then rb_leftmost r s
     else do {
       p \<leftarrow> RB_PARENT elm s;
       first \<leftarrow> (if p \<noteq> NULL then do { pl \<leftarrow> RB_LEFT p s; Some (elm = pl) } else Some False);
       if first then RB_PARENT elm s
       else do { elm \<leftarrow> rb_climb_right elm s; RB_PARENT elm s }
     }
   }"

definition RB_PREV :: "ptr \<Rightarrow> rb_state \<Rightarrow> ptr option" where
  "RB_PREV elm s = do {
     l \<leftarrow> RB_LEFT elm s;
     if l \<noteq> NULL then rb_rightmost l s
     else do {
       p \<leftarrow> RB_PARENT elm s;
       last \<leftarrow> (if p \<noteq> NULL then do { pr \<leftarrow> RB_RIGHT p s; Some (elm = pr) } else Some False);
       if last then RB_PARENT elm s
       else do { elm \<leftarrow> rb_climb_left elm s; RB_PARENT elm s }
     }
   }"

partial_function (option) RB_MINMAX_loop :: "int \<Rightarrow> ptr \<Rightarrow> ptr \<Rightarrow> rb_state \<Rightarrow> ptr option" where
  "RB_MINMAX_loop val tmp parent s =
     (if tmp = NULL then Some parent
      else if val < 0 then do { l \<leftarrow> RB_LEFT tmp s; RB_MINMAX_loop val l tmp s }
      else do { r \<leftarrow> RB_RIGHT tmp s; RB_MINMAX_loop val r tmp s })"

definition RB_MINMAX :: "int \<Rightarrow> rb_state \<Rightarrow> ptr option" where
  "RB_MINMAX val s = RB_MINMAX_loop val (RB_ROOT s) NULL s"

definition RB_NEGINF :: int where "RB_NEGINF = -1"
definition RB_INF :: int where "RB_INF = 1"

definition RB_MIN :: "rb_state \<Rightarrow> ptr option" where
  "RB_MIN = RB_MINMAX RB_NEGINF"
definition RB_MAX :: "rb_state \<Rightarrow> ptr option" where
  "RB_MAX = RB_MINMAX RB_INF"

text \<open>
  The loop macros, for a body \<open>f x\<close> that may change a state \<open>'b\<close> and the tree.
  \<open>RB_FOREACH\<close> computes the next node after the body has run, the \<open>_FROM\<close> and
  \<open>_SAFE\<close> forms before it, which is what lets their body remove the node.
\<close>

partial_function (option) RB_FOREACH_loop ::
    "(ptr \<Rightarrow> rb_state \<Rightarrow> ptr option) \<Rightarrow> (addr \<Rightarrow> 'b \<times> rb_state \<Rightarrow> ('b \<times> rb_state) option) \<Rightarrow>
     ptr \<Rightarrow> 'b \<times> rb_state \<Rightarrow> ('b \<times> rb_state) option" where
  "RB_FOREACH_loop nxt f x bs =
     (case x of
        None \<Rightarrow> Some bs
      | Some a \<Rightarrow> do {
          bs \<leftarrow> f a bs;
          x \<leftarrow> nxt x (snd bs);
          RB_FOREACH_loop nxt f x bs
        })"

partial_function (option) RB_FOREACH_FROM_loop ::
    "(ptr \<Rightarrow> rb_state \<Rightarrow> ptr option) \<Rightarrow> (addr \<Rightarrow> 'b \<times> rb_state \<Rightarrow> ('b \<times> rb_state) option) \<Rightarrow>
     ptr \<Rightarrow> 'b \<times> rb_state \<Rightarrow> ('b \<times> rb_state) option" where
  "RB_FOREACH_FROM_loop nxt f x bs =
     (case x of
        None \<Rightarrow> Some bs
      | Some a \<Rightarrow> do {
          y \<leftarrow> nxt x (snd bs);
          bs \<leftarrow> f a bs;
          RB_FOREACH_FROM_loop nxt f y bs
        })"

definition RB_FOREACH where
  "RB_FOREACH f bs = do { x \<leftarrow> RB_MIN (snd bs); RB_FOREACH_loop RB_NEXT f x bs }"
definition RB_FOREACH_FROM where
  "RB_FOREACH_FROM f y bs = RB_FOREACH_FROM_loop RB_NEXT f y bs"
definition RB_FOREACH_SAFE where
  "RB_FOREACH_SAFE f bs = do { x \<leftarrow> RB_MIN (snd bs); RB_FOREACH_FROM_loop RB_NEXT f x bs }"
definition RB_FOREACH_REVERSE where
  "RB_FOREACH_REVERSE f bs = do { x \<leftarrow> RB_MAX (snd bs); RB_FOREACH_loop RB_PREV f x bs }"
definition RB_FOREACH_REVERSE_FROM where
  "RB_FOREACH_REVERSE_FROM f y bs = RB_FOREACH_FROM_loop RB_PREV f y bs"
definition RB_FOREACH_REVERSE_SAFE where
  "RB_FOREACH_REVERSE_SAFE f bs = do { x \<leftarrow> RB_MAX (snd bs); RB_FOREACH_FROM_loop RB_PREV f x bs }"

end
