(* ===== verification/UvRbShape.thy ===== *)
theory UvRbShape
  imports UvRbModel
begin

text \<open>
  From heaps to trees. \<open>tree_at h p t\<close> says that the heap \<open>h\<close> holds the tree \<open>t\<close> whose
  root has the parent pointer \<open>p\<close>; \<open>ctx_at h p k\<close> says that it holds the one-hole
  context \<open>k\<close> (innermost frame first) with the pointer \<open>p\<close> in the hole. A loop that climbs
  from a node is then a recursion over the context. The frame lemmas say that writes to
  other addresses are invisible; the rotation lemmas are the macros' functional behaviour.
\<close>

datatype rb_color = Black | Red

fun color_code :: "rb_color \<Rightarrow> int" where
  "color_code Black = RB_BLACK"
| "color_code Red = RB_RED"

datatype rb_tree = Tip | Br rb_tree addr rb_color rb_tree

text \<open>A frame: is the hole on the left, the node with its colour, the other subtree.\<close>

datatype frame = Frame (hole_left: bool) (fnode: addr) (fcolor: rb_color) (fsib: rb_tree)

type_synonym ctx = "frame list"

fun root_of :: "rb_tree \<Rightarrow> ptr" where
  "root_of Tip = NULL"
| "root_of (Br l a c r) = Some a"

fun par_of :: "ctx \<Rightarrow> ptr" where
  "par_of [] = NULL"
| "par_of (Frame d a c s # k) = Some a"

fun inorder :: "rb_tree \<Rightarrow> addr list" where
  "inorder Tip = []"
| "inorder (Br l a c r) = inorder l @ a # inorder r"

fun node :: "bool \<Rightarrow> rb_tree \<Rightarrow> addr \<Rightarrow> rb_color \<Rightarrow> rb_tree \<Rightarrow> rb_tree" where
  "node True t a c s = Br t a c s"
| "node False t a c s = Br s a c t"

fun plug :: "ctx \<Rightarrow> rb_tree \<Rightarrow> rb_tree" where
  "plug [] t = t"
| "plug (Frame d a c s # k) t = plug k (node d t a c s)"

text \<open>The addresses to the left and to the right of the hole, in order.\<close>

fun lefts :: "ctx \<Rightarrow> addr list" where
  "lefts [] = []"
| "lefts (Frame d a c s # k) = lefts k @ (if d then [] else inorder s @ [a])"

fun rights :: "ctx \<Rightarrow> addr list" where
  "rights [] = []"
| "rights (Frame d a c s # k) = (if d then a # inorder s else []) @ rights k"

definition addrs :: "rb_tree \<Rightarrow> addr set" where
  "addrs t = set (inorder t)"

definition ctx_addrs :: "ctx \<Rightarrow> addr set" where
  "ctx_addrs k = set (lefts k) \<union> set (rights k)"

lemma set_inorder [simp]: "set (inorder t) = addrs t"
  by (simp add: addrs_def)

lemma addrs_simps [simp]:
  "addrs Tip = {}" "addrs (Br l a c r) = insert a (addrs l \<union> addrs r)"
  by (auto simp: set_inorder [symmetric] simp del: set_inorder)

lemma ctx_addrs_simps [simp]:
  "ctx_addrs [] = {}" "ctx_addrs (Frame d a c s # k) = insert a (addrs s \<union> ctx_addrs k)"
  by (auto simp: ctx_addrs_def)

lemma inorder_node: "inorder (node d t a c s) = (if d then inorder t @ a # inorder s else inorder s @ a # inorder t)"
  by (cases d) auto

lemma addrs_node [simp]: "addrs (node d t a c s) = insert a (addrs t \<union> addrs s)"
  by (cases d) auto

lemma root_of_node [simp]: "root_of (node d t a c s) = Some a"
  by (cases d) auto

lemma inorder_plug [simp]: "inorder (plug k t) = lefts k @ inorder t @ rights k"
  by (induction k t rule: plug.induct) (auto simp: inorder_node)

lemma root_of_eq_NULL [simp]: "root_of t = NULL \<longleftrightarrow> t = Tip"
  by (cases t) auto

lemma root_of_in: "root_of t = Some a \<Longrightarrow> a \<in> addrs t"
  by (cases t) auto

lemma root_of_fresh [simp]:
  "a \<notin> addrs t \<Longrightarrow> root_of t \<noteq> Some a" "a \<notin> addrs t \<Longrightarrow> Some a \<noteq> root_of t"
  using root_of_in by metis+

lemma par_of_fresh [simp]:
  "a \<notin> ctx_addrs k \<Longrightarrow> par_of k \<noteq> Some a" "a \<notin> ctx_addrs k \<Longrightarrow> Some a \<noteq> par_of k"
  by (cases k rule: par_of.cases; simp)+

lemma par_of_in: "par_of k = Some a \<Longrightarrow> a \<in> ctx_addrs k"
  by (cases k rule: par_of.cases) auto

lemma par_of_eq_NULL [simp]: "par_of k = NULL \<longleftrightarrow> k = []"
  by (cases k rule: par_of.cases) auto

lemma plug_append: "plug (k @ k') t = plug k' (plug k t)"
  by (induction k t rule: plug.induct) auto

lemma lefts_append [simp]: "lefts (k @ k') = lefts k' @ lefts k"
  by (induction k rule: lefts.induct) auto

lemma rights_append [simp]: "rights (k @ k') = rights k @ rights k'"
  by (induction k rule: rights.induct) auto

lemma plug_at: "a \<in> addrs t \<Longrightarrow> \<exists>k l c r. t = plug k (Br l a c r)"
proof (induction t)
  case (Br l b c r)
  consider "a = b" | "a \<in> addrs l" | "a \<in> addrs r" using Br.prems by auto
  then show ?case
  proof cases
    case 1
    then show ?thesis by (intro exI [of _ "[]"]) auto
  next
    case 2
    then obtain k l' c' r' where "l = plug k (Br l' a c' r')" using Br.IH(1) by blast
    then show ?thesis
      by (intro exI [of _ "k @ [Frame True b c r]"]) (auto simp: plug_append)
  next
    case 3
    then obtain k l' c' r' where "r = plug k (Br l' a c' r')" using Br.IH(2) by blast
    then show ?thesis
      by (intro exI [of _ "k @ [Frame False b c l]"]) (auto simp: plug_append)
  qed
qed simp

subsection \<open>The heap holds a tree, the heap holds a context\<close>

fun tree_at :: "(addr \<rightharpoonup> rb_entry) \<Rightarrow> ptr \<Rightarrow> rb_tree \<Rightarrow> bool" where
  "tree_at h p Tip \<longleftrightarrow> True"
| "tree_at h p (Br l a c r) \<longleftrightarrow>
     h a = Some \<lparr>rbe_left = root_of l, rbe_right = root_of r, rbe_parent = p, rbe_color = color_code c\<rparr>
     \<and> tree_at h (Some a) l \<and> tree_at h (Some a) r"

fun ctx_at :: "(addr \<rightharpoonup> rb_entry) \<Rightarrow> ptr \<Rightarrow> ctx \<Rightarrow> bool" where
  "ctx_at h p [] \<longleftrightarrow> True"
| "ctx_at h p (Frame d a c s # k) \<longleftrightarrow>
     h a = Some \<lparr>rbe_left = (if d then p else root_of s), rbe_right = (if d then root_of s else p),
                 rbe_parent = par_of k, rbe_color = color_code c\<rparr>
     \<and> tree_at h (Some a) s \<and> ctx_at h (Some a) k"

lemma tree_at_cong:
  "(\<And>a. a \<in> addrs t \<Longrightarrow> h' a = h a) \<Longrightarrow> tree_at h' p t = tree_at h p t"
  by (induction t arbitrary: p) auto

lemma ctx_at_cong:
  "(\<And>a. a \<in> ctx_addrs k \<Longrightarrow> h' a = h a) \<Longrightarrow> ctx_at h' p k = ctx_at h p k"
proof (induction h p k rule: ctx_at.induct)
  case (2 h p d a c s k)
  then show ?case using tree_at_cong [of s h' h] by auto
qed simp

lemma tree_at_upd [simp]: "a \<notin> addrs t \<Longrightarrow> tree_at (h(a := e)) p t = tree_at h p t"
  by (rule tree_at_cong) auto

lemma ctx_at_upd [simp]: "a \<notin> ctx_addrs k \<Longrightarrow> ctx_at (h(a := e)) p k = ctx_at h p k"
  by (rule ctx_at_cong) auto

lemma tree_at_node:
  "tree_at h p (node d t a c s) \<longleftrightarrow>
     h a = Some \<lparr>rbe_left = (if d then root_of t else root_of s),
                 rbe_right = (if d then root_of s else root_of t),
                 rbe_parent = p, rbe_color = color_code c\<rparr>
     \<and> tree_at h (Some a) t \<and> tree_at h (Some a) s"
  by (cases d) auto

lemma tree_at_plug:
  "tree_at h NULL (plug k t) \<longleftrightarrow> ctx_at h (root_of t) k \<and> tree_at h (par_of k) t"
  by (induction k t rule: plug.induct) (auto simp: tree_at_node)

lemma tree_at_in: "tree_at h p t \<Longrightarrow> a \<in> addrs t \<Longrightarrow> \<exists>e. h a = Some e"
  by (induction t arbitrary: p) auto

subsection \<open>States that hold a tree in focus\<close>

text \<open>
  \<open>focus s k t\<close>: the state holds the tree \<open>plug k t\<close>, all of whose nodes are distinct, and
  the root pointer points to it.
\<close>

fun ctx_ok :: "ctx \<Rightarrow> bool" where
  "ctx_ok [] \<longleftrightarrow> True"
| "ctx_ok (Frame d a c s # k) \<longleftrightarrow>
     a \<notin> addrs s \<and> a \<notin> ctx_addrs k \<and> addrs s \<inter> ctx_addrs k = {} \<and>
     distinct (inorder s) \<and> ctx_ok k"

fun top_of :: "ctx \<Rightarrow> ptr \<Rightarrow> ptr" where
  "top_of [] p = p"
| "top_of (Frame d a c s # k) p = top_of k (Some a)"

definition focus :: "rb_state \<Rightarrow> ctx \<Rightarrow> rb_tree \<Rightarrow> bool" where
  "focus s k t \<longleftrightarrow>
     rbh_root s = top_of k (root_of t) \<and>
     distinct (inorder t) \<and> ctx_ok k \<and> addrs t \<inter> ctx_addrs k = {} \<and>
     ctx_at (rb_nodes s) (root_of t) k \<and> tree_at (rb_nodes s) (par_of k) t"

lemma distinct_node:
  "distinct (inorder (node d l a c r)) \<longleftrightarrow>
     distinct (inorder l) \<and> distinct (inorder r) \<and> a \<notin> addrs l \<and> a \<notin> addrs r \<and>
     addrs l \<inter> addrs r = {}"
  by (cases d) auto

lemma ctx_ok_iff: "ctx_ok k \<longleftrightarrow> distinct (lefts k @ rights k)"
  by (induction k rule: ctx_ok.induct) (auto simp: ctx_addrs_def)

lemma root_of_plug: "root_of (plug k t) = top_of k (root_of t)"
  by (induction k t rule: plug.induct) auto

lemma addrs_plug [simp]: "addrs (plug k t) = addrs t \<union> ctx_addrs k"
  by (induction k t rule: plug.induct) auto

lemma focus_plug: "focus s (Frame d a c u # k) t \<longleftrightarrow> focus s k (node d t a c u)"
  by (auto simp: focus_def tree_at_node distinct_node)

lemma focus_plug_all: "focus s (k @ k') t \<longleftrightarrow> focus s k' (plug k t)"
  by (induction k t rule: plug.induct) (auto simp: focus_plug)

lemma focus_root: "focus s k t \<longleftrightarrow> focus s [] (plug k t)"
  using focus_plug_all [of s k "[]" t] by simp

lemma focus_distinct: "focus s k t \<Longrightarrow> distinct (inorder (plug k t))"
  by (auto simp: focus_def ctx_ok_iff ctx_addrs_def)

lemma focus_left: "focus s k (Br l a c r) \<longleftrightarrow> focus s (Frame True a c r # k) l"
  by (simp add: focus_plug)

lemma focus_right: "focus s k (Br l a c r) \<longleftrightarrow> focus s (Frame False a c l # k) r"
  by (simp add: focus_plug)

subsection \<open>Symbolic execution\<close>

lemmas rb_defs = RB_LEFT_def RB_RIGHT_def RB_PARENT_def RB_COLOR_def
  set_RB_LEFT_def set_RB_RIGHT_def set_RB_PARENT_def set_RB_COLOR_def

lemma rb_get_Some: "rb_get f (Some a) s = map_option f (rb_nodes s a)"
  by (simp add: rb_get_def)

lemma rb_put_Some:
  "rb_nodes s a = Some e \<Longrightarrow> rb_put f (Some a) s = Some (s\<lparr>rb_nodes := (rb_nodes s)(a \<mapsto> f e)\<rparr>)"
  by (simp add: rb_put_def)

lemmas rb_exec = rb_defs rb_get_Some rb_put_Some

definition writes_in :: "addr set \<Rightarrow> rb_state \<Rightarrow> rb_state \<Rightarrow> bool" where
  "writes_in A s s' \<longleftrightarrow> (\<forall>x. x \<notin> A \<longrightarrow> rb_nodes s' x = rb_nodes s x)"

lemma writes_in_refl [simp]: "writes_in A s s"
  by (simp add: writes_in_def)

lemma writes_in_trans: "writes_in A s s' \<Longrightarrow> writes_in A s' s'' \<Longrightarrow> writes_in A s s''"
  by (simp add: writes_in_def)

lemma writes_in_mono: "writes_in A s s' \<Longrightarrow> A \<subseteq> B \<Longrightarrow> writes_in B s s'"
  by (auto simp: writes_in_def)

text \<open>What the reads of a node in focus return.\<close>

lemma focus_reads:
  assumes "focus s k (Br l a c r)"
  shows "RB_LEFT (Some a) s = Some (root_of l)" "RB_RIGHT (Some a) s = Some (root_of r)"
    "RB_PARENT (Some a) s = Some (par_of k)" "RB_COLOR (Some a) s = Some (color_code c)"
  using assms by (auto simp: focus_def rb_exec)

lemma focus_swap: "focus s (Frame d a c u # k) t \<longleftrightarrow> focus s (Frame (\<not> d) a c t # k) u"
  by (cases d) (simp_all add: focus_plug)

lemma focus_fresh:
  assumes "focus s (Frame d a c u # k) t"
  shows "a \<notin> addrs t" "a \<notin> addrs u" "addrs t \<inter> addrs u = {}" "a \<notin> ctx_addrs k"
    "addrs t \<inter> ctx_addrs k = {}" "addrs u \<inter> ctx_addrs k = {}"
  using assms by (auto simp: focus_def)

subsection \<open>Rotations and recolouring of a node in focus\<close>

lemmas disj_simps = Int_Un_distrib Int_Un_distrib2 Int_commute

lemma rotate_left:
  assumes "focus s k (Br A a c (Br B b d C))"
  shows "\<exists>s'. RB_ROTATE_LEFT (Some a) s = Some (Some b, s') \<and> focus s' k (Br (Br A a c B) b d C)
    \<and> writes_in (addrs (plug k (Br A a c (Br B b d C)))) s s'"
proof (cases k)
  case Nil
  with assms show ?thesis
    by (cases B) (auto simp: focus_def RB_ROTATE_LEFT_def rb_exec writes_in_def)
next
  case (Cons f k')
  obtain e g cg u where f: "f = Frame e g cg u" by (cases f)
  show ?thesis using assms unfolding Cons f
    by (cases B; cases e)
      (simp_all add: focus_def RB_ROTATE_LEFT_def rb_exec writes_in_def disj_simps)
qed

lemma rotate_right:
  assumes "focus s k (Br (Br A a c B) b d C)"
  shows "\<exists>s'. RB_ROTATE_RIGHT (Some b) s = Some (Some a, s') \<and> focus s' k (Br A a c (Br B b d C))
    \<and> writes_in (addrs (plug k (Br (Br A a c B) b d C))) s s'"
proof (cases k)
  case Nil
  with assms show ?thesis
    by (cases B) (auto simp: focus_def RB_ROTATE_RIGHT_def rb_exec writes_in_def)
next
  case (Cons f k')
  obtain e g cg u where f: "f = Frame e g cg u" by (cases f)
  show ?thesis using assms unfolding Cons f
    by (cases B; cases e)
      (simp_all add: focus_def RB_ROTATE_RIGHT_def rb_exec writes_in_def disj_simps)
qed

text \<open>A rotation is undone, field by field, by the opposite one.\<close>

lemma rotate_back_left:
  assumes "focus s k (Br A a c (Br B b d C))"
  shows "\<exists>s'. RB_ROTATE_LEFT (Some a) s = Some (Some b, s') \<and> RB_ROTATE_RIGHT (Some b) s' = Some (Some a, s)"
proof (cases k)
  case Nil
  with assms show ?thesis
    by (cases B; cases s)
      (auto simp: focus_def RB_ROTATE_LEFT_def RB_ROTATE_RIGHT_def rb_exec fun_upd_def fun_eq_iff)
next
  case (Cons f k')
  obtain e g cg u where f: "f = Frame e g cg u" by (cases f)
  show ?thesis using assms unfolding Cons f
    by (cases B; cases e; cases s)
      (auto simp: focus_def RB_ROTATE_LEFT_def RB_ROTATE_RIGHT_def rb_exec disj_simps fun_upd_def fun_eq_iff)
qed

lemma set_color:
  assumes "focus s k (Br l a c r)"
  shows "\<exists>s'. set_RB_COLOR (Some a) (color_code c') s = Some s' \<and> focus s' k (Br l a c' r)
    \<and> writes_in (addrs (plug k (Br l a c r))) s s'"
  using assms by (simp add: focus_def rb_exec writes_in_def)
lemma RB_codes [simp]: "RB_BLACK \<noteq> RB_RED" "RB_RED \<noteq> RB_BLACK"
  by (simp_all add: RB_BLACK_def RB_RED_def)

lemma color_code_eq [simp]:
  "color_code c = RB_RED \<longleftrightarrow> c = Red" "color_code c = RB_BLACK \<longleftrightarrow> c = Black"
  by (cases c; simp)+

lemma ctx_reads:
  assumes "focus s (Frame d a c u # k) t"
  shows "RB_LEFT (Some a) s = Some (if d then root_of t else root_of u)"
    "RB_RIGHT (Some a) s = Some (if d then root_of u else root_of t)"
    "RB_PARENT (Some a) s = Some (par_of k)" "RB_COLOR (Some a) s = Some (color_code c)"
  using assms by (auto simp: focus_def rb_exec)

lemma set_blackred:
  assumes "focus s (Frame d g cg s2 # k) (node e l p c r)"
  shows "\<exists>s'. RB_SET_BLACKRED (Some p) (Some g) s = Some s' \<and>
    focus s' k (node d (node e l p Black r) g Red s2) \<and>
    writes_in (addrs (plug (Frame d g cg s2 # k) (node e l p c r))) s s'"
  using assms
  by (cases d; cases e) (simp_all add: focus_def rb_exec RB_SET_BLACKRED_def writes_in_def disj_simps)

text \<open>Both rotations as one: the node \<open>a\<close> goes down on side \<open>d\<close>, its child \<open>b\<close> comes up.\<close>

definition rb_rotate_up :: "bool \<Rightarrow> ptr \<Rightarrow> rb_state \<Rightarrow> (ptr \<times> rb_state) option" where
  "rb_rotate_up d = (if d then RB_ROTATE_RIGHT else RB_ROTATE_LEFT)"

lemma rotate_up:
  assumes "focus s k (node d (node d C b cb B) a ca A)"
  shows "\<exists>s'. rb_rotate_up d (Some a) s = Some (Some b, s') \<and> focus s' k (node d C b cb (node d B a ca A))
    \<and> writes_in (addrs (plug k (node d (node d C b cb B) a ca A))) s s'"
  using assms rotate_right [of s k C b cb B a ca A] rotate_left [of s k A a ca B b cb C]
  by (cases d) (simp_all add: rb_rotate_up_def)

end
