(* ===== verification/UvRbBalance.thy ===== *)
theory UvRbBalance
  imports UvRbShape
begin

text \<open>
  The red-black invariant on trees and on contexts, and the functional counterparts
  \<open>ins_fix\<close> and \<open>rem_fix\<close> of the two repair loops: they rebuild the tree around a
  position from its context, as the loops do by climbing parent pointers. Here is the
  algorithmic argument (order kept, invariant restored, height logarithmic); the theories
  \<open>UvRbInsert\<close> and \<open>UvRbRemove\<close> show that the pointer loops compute them.
\<close>

definition red_root :: "rb_tree \<Rightarrow> bool" where
  "red_root t \<longleftrightarrow> (case t of Tip \<Rightarrow> False | Br l a c r \<Rightarrow> c = Red)"

definition blacken :: "rb_tree \<Rightarrow> rb_tree" where
  "blacken t = (case t of Tip \<Rightarrow> Tip | Br l a c r \<Rightarrow> Br l a Black r)"

definition redden :: "rb_tree \<Rightarrow> rb_tree" where
  "redden t = (case t of Tip \<Rightarrow> Tip | Br l a c r \<Rightarrow> Br l a Red r)"

lemma red_root_simps [simp]: "red_root Tip = False" "red_root (Br l a c r) \<longleftrightarrow> c = Red"
  by (simp_all add: red_root_def)

lemma blacken_simps [simp]: "blacken Tip = Tip" "blacken (Br l a c r) = Br l a Black r"
  by (simp_all add: blacken_def)

lemma redden_simps [simp]: "redden Tip = Tip" "redden (Br l a c r) = Br l a Red r"
  by (simp_all add: redden_def)

lemma not_Black [simp]: "c \<noteq> Black \<longleftrightarrow> c = Red"
  by (cases c) auto

lemma not_Red [simp]: "c \<noteq> Red \<longleftrightarrow> c = Black"
  by (cases c) auto

lemma red_root_blacken [simp]: "\<not> red_root (blacken t)"
  by (cases t) auto

lemma red_root_node [simp]: "red_root (node d t a c s) \<longleftrightarrow> c = Red"
  by (cases d) auto

lemma inorder_blacken [simp]: "inorder (blacken t) = inorder t"
  by (cases t) auto

lemma root_of_blacken [simp]: "root_of (blacken t) = root_of t"
  by (cases t) auto

subsection \<open>The invariant\<close>

fun bh :: "rb_tree \<Rightarrow> nat" where
  "bh Tip = 0"
| "bh (Br l a c r) = bh l + (if c = Black then 1 else 0)"

fun bal :: "rb_tree \<Rightarrow> bool" where
  "bal Tip \<longleftrightarrow> True"
| "bal (Br l a c r) \<longleftrightarrow> bh l = bh r \<and> bal l \<and> bal r"

fun rr_free :: "rb_tree \<Rightarrow> bool" where
  "rr_free Tip \<longleftrightarrow> True"
| "rr_free (Br l a c r) \<longleftrightarrow> (c = Red \<longrightarrow> \<not> red_root l \<and> \<not> red_root r) \<and> rr_free l \<and> rr_free r"

definition rb_ok :: "rb_tree \<Rightarrow> bool" where
  "rb_ok t \<longleftrightarrow> bal t \<and> rr_free t \<and> \<not> red_root t"

text \<open>The same for a context: the hole expects black height \<open>n\<close>.\<close>

fun ctx_bal :: "nat \<Rightarrow> ctx \<Rightarrow> bool" where
  "ctx_bal n [] \<longleftrightarrow> True"
| "ctx_bal n (Frame d a c s # k) \<longleftrightarrow>
     bh s = n \<and> bal s \<and> ctx_bal (n + (if c = Black then 1 else 0)) k"

fun black_above :: "ctx \<Rightarrow> bool" where
  "black_above [] \<longleftrightarrow> False"
| "black_above (Frame d a c s # k) \<longleftrightarrow> c = Black"

fun ctx_rr :: "ctx \<Rightarrow> bool" where
  "ctx_rr [] \<longleftrightarrow> True"
| "ctx_rr (Frame d a c s # k) \<longleftrightarrow>
     rr_free s \<and> (c = Red \<longrightarrow> \<not> red_root s \<and> black_above k) \<and> ctx_rr k"

lemma bal_node: "bal (node d t a c s) \<longleftrightarrow> bh t = bh s \<and> bal t \<and> bal s"
  by (cases d) auto

lemma bh_node: "bh (node d t a c s) = (if d then bh t else bh s) + (if c = Black then 1 else 0)"
  by (cases d) auto

lemma rr_free_node:
  "rr_free (node d t a c s) \<longleftrightarrow> (c = Red \<longrightarrow> \<not> red_root t \<and> \<not> red_root s) \<and> rr_free t \<and> rr_free s"
  by (cases d) auto

lemma rr_free_blacken: "rr_free t \<Longrightarrow> rr_free (blacken t)"
  by (cases t) auto

lemma bal_blacken [simp]: "bal (blacken t) = bal t"
  by (cases t) auto

lemma bh_blacken: "bh (blacken t) = bh t + (if red_root t then 1 else 0)"
  by (cases t) auto

lemma rb_ok_blacken: "bal t \<Longrightarrow> rr_free t \<Longrightarrow> rb_ok (blacken t)"
  by (cases t) (auto simp: rb_ok_def)

lemma blacken_id: "\<not> red_root t \<Longrightarrow> blacken t = t"
  by (cases t) auto

text \<open>A tree is a context around a subtree: the invariant splits accordingly.\<close>

lemma rb_ok_plug:
  "rb_ok (plug k t) \<longleftrightarrow>
     bal t \<and> ctx_bal (bh t) k \<and> rr_free t \<and> ctx_rr k \<and> (red_root t \<longrightarrow> black_above k)"
proof (induction k t rule: plug.induct)
  case (1 t)
  then show ?case by (auto simp: rb_ok_def)
next
  case (2 d a c s k t)
  then show ?case by (auto simp: bal_node bh_node rr_free_node)
qed

subsection \<open>Height\<close>

fun rb_height :: "rb_tree \<Rightarrow> nat" where
  "rb_height Tip = 0"
| "rb_height (Br l a c r) = Suc (max (rb_height l) (rb_height r))"

lemma height_bh:
  "bal t \<Longrightarrow> rr_free t \<Longrightarrow> rb_height t \<le> 2 * bh t + (if red_root t then 1 else 0)"
proof (induction t)
  case (Br l a c r)
  then show ?case by (cases c) (auto split: if_splits)
qed simp

lemma bh_size: "bal t \<Longrightarrow> 2 ^ bh t \<le> length (inorder t) + 1"
proof (induction t)
  case (Br l a c r)
  then have "2 ^ bh l \<le> length (inorder l) + 1" "2 ^ bh l \<le> length (inorder r) + 1" by auto
  then show ?case by auto
qed simp

lemma rb_height_bound:
  assumes "rb_ok t"
  shows "2 ^ rb_height t \<le> (length (inorder t) + 1) ^ 2"
proof -
  have "rb_height t \<le> 2 * bh t"
    using height_bh [of t] assms by (auto simp: rb_ok_def)
  then have "(2::nat) ^ rb_height t \<le> 2 ^ (2 * bh t)"
    by (rule power_increasing) simp
  also have "\<dots> = (2 ^ bh t) ^ 2"
    by (simp add: power_mult [symmetric] mult.commute)
  also have "\<dots> \<le> (length (inorder t) + 1) ^ 2"
    using bh_size [of t] assms by (intro power_mono) (auto simp: rb_ok_def)
  finally show ?thesis .
qed

subsection \<open>The repair after an insertion\<close>

text \<open>The double rotation: \<open>x\<close>, the inner grandchild, becomes the root of the subtree.\<close>

fun zigzag :: "bool \<Rightarrow> rb_tree \<Rightarrow> addr \<Rightarrow> rb_tree \<Rightarrow> addr \<Rightarrow> rb_tree \<Rightarrow> rb_tree" where
  "zigzag d Tip p s1 g s2 = Tip"
| "zigzag True (Br xl x xc xr) p s1 g s2 = Br (Br s1 p Red xl) x Black (Br xr g Red s2)"
| "zigzag False (Br xl x xc xr) p s1 g s2 = Br (Br s2 g Red xl) x Black (Br xr p Red s1)"

fun ins_fix :: "ctx \<Rightarrow> rb_tree \<Rightarrow> rb_tree" where
  "ins_fix (Frame d1 p Red s1 # Frame d2 g c2 s2 # k) t =
     (if red_root s2
      then ins_fix k (node d2 (node d1 t p Black s1) g Red (blacken s2))
      else blacken (plug k
        (if d1 = d2 then node d1 t p Black (node d1 s1 g Red s2) else zigzag d2 t p s1 g s2)))"
| "ins_fix k t = blacken (plug k t)"

lemmas ins_fix_induct = ins_fix.induct [case_names red_red stop_Nil stop_black stop_root]

lemma inorder_zigzag:
  "t \<noteq> Tip \<Longrightarrow>
   inorder (zigzag d t p s1 g s2) =
     (if d then inorder s1 @ p # inorder t @ g # inorder s2
      else inorder s2 @ g # inorder t @ p # inorder s1)"
  by (cases t; cases d) auto

lemma inorder_ins_fix:
  "t \<noteq> Tip \<Longrightarrow> inorder (ins_fix k t) = lefts k @ inorder t @ rights k"
proof (induction k t rule: ins_fix_induct)
  case (red_red d1 p s1 d2 g c2 s2 k t)
  have "node d2 (node d1 t p Black s1) g Red (blacken s2) \<noteq> Tip"
    by (cases d2) auto
  with red_red show ?case by (auto simp: inorder_node inorder_zigzag)
qed auto

lemma ins_fix_ok:
  assumes "red_root t" "bal t" "rr_free t" "ctx_bal (bh t) k" "ctx_rr k"
  shows "rb_ok (ins_fix k t)"
  using assms
proof (induction k t rule: ins_fix_induct)
  case (red_red d1 p s1 d2 g c2 s2 k t)
  show ?case
  proof (cases "red_root s2")
    case True
    have "rb_ok (ins_fix k (node d2 (node d1 t p Black s1) g Red (blacken s2)))"
      by (rule red_red.IH) (use True red_red.prems in \<open>auto simp: bal_node bh_node rr_free_node bh_blacken rr_free_blacken\<close>)
    with True show ?thesis by simp
  next
    case False
    let ?u = "if d1 = d2 then node d1 t p Black (node d1 s1 g Red s2) else zigzag d2 t p s1 g s2"
    have "rb_ok (plug k ?u)"
      using False red_red.prems by (cases t; cases d1; cases d2) (auto simp: rb_ok_plug)
    then show ?thesis
      using False by (simp add: rb_ok_def blacken_id)
  qed
next
  case (stop_Nil t)
  then show ?case by (simp add: rb_ok_blacken)
next
  case (stop_black d a s k t)
  then have "rb_ok (plug (Frame d a Black s # k) t)"
    by (simp only: rb_ok_plug) simp
  then show ?case by (simp add: rb_ok_def blacken_id)
next
  case (stop_root f t)
  then have "rb_ok (plug [f] t)"
    by (cases f) (simp only: rb_ok_plug, auto)
  then show ?case by (simp add: rb_ok_def blacken_id)
qed

subsection \<open>The repair after a removal\<close>

text \<open>
  \<open>t\<close>, on side \<open>d\<close> of \<open>p\<close>, lacks one black node; its sibling is black. Either the
  sibling is recoloured and the shortage moves up to \<open>p\<close> (\<open>rem_up\<close>), or a red nephew
  allows rotations that end the repair (\<open>rem_end\<close>).
\<close>

fun near_of :: "bool \<Rightarrow> rb_tree \<Rightarrow> rb_tree" where
  "near_of d Tip = Tip"
| "near_of d (Br l a c r) = (if d then l else r)"

fun far_of :: "bool \<Rightarrow> rb_tree \<Rightarrow> rb_tree" where
  "far_of d Tip = Tip"
| "far_of d (Br l a c r) = (if d then r else l)"

fun addr_of :: "rb_tree \<Rightarrow> addr" where
  "addr_of Tip = 0"
| "addr_of (Br l a c r) = a"

definition nephews_black :: "rb_tree \<Rightarrow> bool" where
  "nephews_black sib \<longleftrightarrow> \<not> red_root (near_of True sib) \<and> \<not> red_root (far_of True sib)"

definition rem_inner :: "bool \<Rightarrow> rb_tree \<Rightarrow> rb_tree" where
  "rem_inner d sib =
     (if red_root (far_of d sib) then sib
      else let near = near_of d sib in
        node d (near_of d near) (addr_of near) Black
          (node d (far_of d near) (addr_of sib) Red (far_of d sib)))"

definition rem_outer :: "bool \<Rightarrow> rb_tree \<Rightarrow> addr \<Rightarrow> rb_color \<Rightarrow> rb_tree \<Rightarrow> rb_tree" where
  "rem_outer d t p pc sib =
     node d (node d t p Black (near_of d sib)) (addr_of sib) pc (blacken (far_of d sib))"

definition rem_end :: "bool \<Rightarrow> rb_tree \<Rightarrow> addr \<Rightarrow> rb_color \<Rightarrow> rb_tree \<Rightarrow> rb_tree" where
  "rem_end d t p pc sib = rem_outer d t p pc (rem_inner d sib)"

definition rem_up :: "bool \<Rightarrow> rb_tree \<Rightarrow> addr \<Rightarrow> rb_color \<Rightarrow> rb_tree \<Rightarrow> rb_tree" where
  "rem_up d t p pc sib = node d t p pc (redden sib)"

fun rem_fix :: "ctx \<Rightarrow> rb_tree \<Rightarrow> rb_tree" where
  "rem_fix [] t = blacken t"
| "rem_fix (Frame d p pc sib # k) t =
     (if red_root t then plug (Frame d p pc sib # k) (blacken t)
      else if red_root sib then
        (let sib' = near_of d sib; k' = Frame d (addr_of sib) Black (far_of d sib) # k in
         if nephews_black sib' then plug k' (blacken (rem_up d t p Red sib'))
         else blacken (plug k' (rem_end d t p Red sib')))
      else if nephews_black sib then rem_fix k (rem_up d t p pc sib)
      else blacken (plug k (rem_end d t p pc sib)))"

lemma node_cases:
  assumes "t \<noteq> Tip"
  obtains n c f where "t = node d n (addr_of t) c f" "near_of d t = n" "far_of d t = f" "c = Red \<longleftrightarrow> red_root t"
  using assms by (cases t; cases d) auto

lemma near_far_node [simp]:
  "near_of d (node d n a c f) = n" "far_of d (node d n a c f) = f" "addr_of (node d n a c f) = a"
  by (cases d; simp)+

lemma nephews_black_node: "nephews_black (node d n a c f) \<longleftrightarrow> \<not> red_root n \<and> \<not> red_root f"
  by (cases d) (auto simp: nephews_black_def)

lemma redden_node [simp]: "redden (node d n a c f) = node d n a Red f"
  by (cases d) auto

lemma blacken_node [simp]: "blacken (node d n a c f) = node d n a Black f"
  by (cases d) auto

lemma bh_pos_not_Tip: "0 < bh t \<Longrightarrow> t \<noteq> Tip"
  by auto

text \<open>Shape of a black sibling with a red nephew, and of the result.\<close>

lemma black_sib_shape:
  assumes "bal sib" "\<not> red_root sib" "0 < bh sib"
  obtains n x f where "sib = node d n x Black f" "bal n" "bal f" "bh n = bh f" "bh sib = bh n + 1"
proof -
  have "sib \<noteq> Tip" using assms(3) by auto
  then obtain n c f where s: "sib = node d n (addr_of sib) c f" "c = Red \<longleftrightarrow> red_root sib"
    by (rule node_cases [of sib d])
  then have "c = Black" using assms(2) by auto
  have "bal (node d n (addr_of sib) Black f)" "bh sib = bh (node d n (addr_of sib) Black f)"
    using assms(1) s(1) \<open>c = Black\<close> by simp_all
  then show ?thesis
    using that [of n "addr_of sib" f] s(1) \<open>c = Black\<close> by (simp add: bal_node bh_node)
qed

lemma rem_end_ok:
  assumes "bal sib" "rr_free sib" "\<not> red_root sib" "bh sib = bh t + 1" "\<not> nephews_black sib"
    "bal t" "rr_free t" "\<not> red_root t"
  shows "bal (rem_end d t p pc sib)" "rr_free (rem_end d t p pc sib)"
    "bh (rem_end d t p pc sib) = bh sib + (if pc = Black then 1 else 0)"
    "red_root (rem_end d t p pc sib) \<longleftrightarrow> pc = Red"
    "inorder (rem_end d t p pc sib) = inorder (node d t p pc sib)"
proof -
  obtain n x f where s: "sib = node d n x Black f" "bal n" "bal f" "bh n = bh f" "bh sib = bh n + 1"
    using black_sib_shape [of sib d] assms(1,3,4) by auto
  have "bal (rem_end d t p pc sib) \<and> rr_free (rem_end d t p pc sib) \<and>
    bh (rem_end d t p pc sib) = bh sib + (if pc = Black then 1 else 0) \<and>
    (red_root (rem_end d t p pc sib) \<longleftrightarrow> pc = Red) \<and>
    inorder (rem_end d t p pc sib) = inorder (node d t p pc sib)"
  proof (cases "red_root f")
    case True
    then show ?thesis using s assms
      by (cases f; cases d) (auto simp: rem_end_def rem_outer_def rem_inner_def)
  next
    case False
    then have "red_root n" using assms(5) s by (simp add: nephews_black_node)
    then show ?thesis using False s assms
      by (cases n; cases d) (auto simp: rem_end_def rem_outer_def rem_inner_def)
  qed
  then show "bal (rem_end d t p pc sib)" "rr_free (rem_end d t p pc sib)"
    "bh (rem_end d t p pc sib) = bh sib + (if pc = Black then 1 else 0)"
    "red_root (rem_end d t p pc sib) \<longleftrightarrow> pc = Red"
    "inorder (rem_end d t p pc sib) = inorder (node d t p pc sib)" by auto
qed

lemma rem_up_ok:
  assumes "bal sib" "rr_free sib" "\<not> red_root sib" "bh sib = bh t + 1" "nephews_black sib"
    "bal t" "rr_free t" "\<not> red_root t"
  shows "bal (rem_up d t p pc sib)" "rr_free (blacken (rem_up d t p pc sib))"
    "bh (rem_up d t p pc sib) = bh t + (if pc = Black then 1 else 0)"
    "red_root (rem_up d t p pc sib) \<longleftrightarrow> pc = Red"
    "inorder (rem_up d t p pc sib) = inorder (node d t p pc sib)"
proof -
  obtain n x f where s: "sib = node d n x Black f" "bal n" "bal f" "bh n = bh f" "bh sib = bh n + 1"
    using black_sib_shape [of sib d] assms(1,3,4) by auto
  have "bal (rem_up d t p pc sib) \<and> rr_free (blacken (rem_up d t p pc sib)) \<and>
    bh (rem_up d t p pc sib) = bh t + (if pc = Black then 1 else 0) \<and>
    (red_root (rem_up d t p pc sib) \<longleftrightarrow> pc = Red) \<and>
    inorder (rem_up d t p pc sib) = inorder (node d t p pc sib)"
    using s assms by (cases d) (auto simp: rem_up_def nephews_black_def)
  then show "bal (rem_up d t p pc sib)" "rr_free (blacken (rem_up d t p pc sib))"
    "bh (rem_up d t p pc sib) = bh t + (if pc = Black then 1 else 0)"
    "red_root (rem_up d t p pc sib) \<longleftrightarrow> pc = Red"
    "inorder (rem_up d t p pc sib) = inorder (node d t p pc sib)" by auto
qed

lemma rem_fix_ok:
  assumes "bal t" "rr_free (blacken t)" "ctx_bal (bh t + 1) k" "ctx_rr k"
  shows "rb_ok (rem_fix k t) \<and> inorder (rem_fix k t) = lefts k @ inorder t @ rights k"
  using assms
proof (induction k t rule: rem_fix.induct)
  case (1 t)
  then show ?case by (cases t) (auto simp: rb_ok_def)
next
  case (2 d p pc sib k t)
  show ?case
  proof (cases "red_root t")
    case True
    have "rb_ok (plug (Frame d p pc sib # k) (blacken t))"
      unfolding rb_ok_plug using 2 True by (auto simp: bh_blacken)
    with True show ?thesis by (auto simp: inorder_node)
  next
    case t: False
    then have rt: "rr_free t" using "2.prems" by (simp add: blacken_id)
    have sib: "bh sib = bh t + 1" "bal sib" "rr_free sib" using "2.prems" by auto
    show ?thesis
    proof (cases "red_root sib")
      case True
      have "sib \<noteq> Tip" using sib by auto
      then obtain n x f where s: "sib = node d n x Red f"
        using node_cases [of sib d] True by metis
      have pc: "pc = Black" using True "2.prems" by (cases pc) auto
      have n: "bal n" "rr_free n" "\<not> red_root n" "bh n = bh t + 1" "bal f" "rr_free f" "\<not> red_root f" "bh f = bh n"
        using sib s by (cases d; auto)+
      let ?k = "Frame d x Black f # k"
      have k: "ctx_bal (bh t + 1) ?k" "ctx_rr ?k" using "2.prems" n pc by auto
      show ?thesis
      proof (cases "nephews_black n")
        case b: True
        note u = rem_up_ok [OF n(1-4) b "2.prems"(1) rt t, of d p Red]
        have "rb_ok (plug ?k (blacken (rem_up d t p Red n)))"
          unfolding rb_ok_plug using u k n \<open>bal t\<close> by (auto simp: bh_blacken bh_node)
        then show ?thesis using u s t b by (auto simp: inorder_node Let_def)
      next
        case b: False
        note u = rem_end_ok [OF n(1-4) b "2.prems"(1) rt t, of d p Red]
        have ok: "rb_ok (plug ?k (rem_end d t p Red n))"
          unfolding rb_ok_plug using u k n \<open>bal t\<close> by (auto simp: bh_node)
        then have "blacken (plug ?k (rem_end d t p Red n)) = plug ?k (rem_end d t p Red n)"
          by (simp add: rb_ok_def blacken_id)
        then show ?thesis using ok u s t b by (auto simp: inorder_node Let_def)
      qed
    next
      case False
      show ?thesis
      proof (cases "nephews_black sib")
        case b: True
        note u = rem_up_ok [OF sib(2,3) False sib(1) b "2.prems"(1) rt t, of d p pc]
        have "rb_ok (rem_fix k (rem_up d t p pc sib)) \<and>
          inorder (rem_fix k (rem_up d t p pc sib)) = lefts k @ inorder (rem_up d t p pc sib) @ rights k"
          using "2.IH" [OF t False b u(1,2)] u(3) "2.prems" sib by (auto simp: bh_node)
        then show ?thesis using u t False b by (auto simp: inorder_node)
      next
        case b: False
        note u = rem_end_ok [OF sib(2,3) False sib(1) b "2.prems"(1) rt t, of d p pc]
        have ok: "rb_ok (plug k (rem_end d t p pc sib))"
          unfolding rb_ok_plug using u "2.prems" sib by (auto simp: bh_node)
        then have "blacken (plug k (rem_end d t p pc sib)) = plug k (rem_end d t p pc sib)"
          by (simp add: rb_ok_def blacken_id)
        then show ?thesis using ok u t False b by (auto simp: inorder_node)
      qed
    qed
  qed
qed

subsection \<open>Colour tests on a tree in focus\<close>

lemma focus_is_red: "focus s k t \<Longrightarrow> rb_is_red (root_of t) s = Some (red_root t)"
  by (cases t) (auto simp: rb_is_red_def focus_reads)

lemma focus_is_black: "focus s k t \<Longrightarrow> rb_is_black (root_of t) s = Some (\<not> red_root t)"
  by (cases t) (auto simp: rb_is_black_def focus_reads)

lemma focus_sib_is_red: "focus s (Frame d a c u # k) t \<Longrightarrow> rb_is_red (root_of u) s = Some (red_root u)"
  by (subst (asm) focus_swap) (rule focus_is_red)

lemma focus_sib_is_black: "focus s (Frame d a c u # k) t \<Longrightarrow> rb_is_black (root_of u) s = Some (\<not> red_root u)"
  by (subst (asm) focus_swap) (rule focus_is_black)

end
