(* ===== verification/UvRbInsert.thy ===== *)
theory UvRbInsert
  imports UvRbBalance
begin

text \<open>
  \<open>RB_INSERT\<close> and \<open>RB_INSERT_COLOR\<close> on the heap. Each way through the loop body is a step
  of \<open>ins_fix\<close> (recolour and climb; rotate once; rotate twice), so the loop computes
  \<open>ins_fix\<close>, and the whole insertion puts the node at its place in key order.
\<close>

subsection \<open>One pass of the repair loop\<close>

lemma insert_body_recolor:
  assumes f: "focus s (Frame d1 p Red s1 # Frame d2 g c2 (Br ul u Red ur) # k) (Br xl x xc xr)"
  shows "\<exists>s'. RB_INSERT_COLOR_body (Some p) (Some x) s = Some (Some g, s') \<and>
    focus s' k (node d2 (node d1 (Br xl x xc xr) p Black s1) g Red (Br ul u Black ur)) \<and>
    writes_in (addrs (plug k (node d2 (node d1 (Br xl x xc xr) p Black s1) g Red (Br ul u Black ur)))) s s'"
  using f
  by (cases d1; cases d2) (simp_all add: focus_def RB_INSERT_COLOR_body_def rb_exec rb_is_red_def RB_SET_BLACKRED_def writes_in_def disj_simps)


text \<open>Uncle black or missing: one rotation, or two.\<close>

lemma insert_body_outer:
  assumes f: "focus s (Frame d p Red s1 # Frame d g c2 s2 # k) (Br xl x xc xr)" and "\<not> red_root s2"
  shows "\<exists>s'. RB_INSERT_COLOR_body (Some p) (Some x) s = Some (Some x, s') \<and>
    focus s' k (node d (Br xl x xc xr) p Black (node d s1 g Red s2)) \<and>
    writes_in (addrs (plug k (node d (Br xl x xc xr) p Black (node d s1 g Red s2)))) s s'"
proof -
  let ?t = "Br xl x xc xr"
  have g: "focus s (Frame d g c2 s2 # k) (node d ?t p Red s1)"
    using f by (simp add: focus_plug)
  obtain s1' where 1: "RB_SET_BLACKRED (Some p) (Some g) s = Some s1'"
    "focus s1' k (node d (node d ?t p Black s1) g Red s2)"
    "writes_in (addrs (plug (Frame d g c2 s2 # k) (node d ?t p Red s1))) s s1'"
    using set_blackred [OF g] by blast
  obtain s2' where 2: "rb_rotate_up d (Some g) s1' = Some (Some p, s2')"
      "focus s2' k (node d ?t p Black (node d s1 g Red s2))"
      "writes_in (addrs (plug k (node d (node d ?t p Black s1) g Red s2))) s1' s2'"
    using rotate_up [OF 1(2)] by blast
  have "x \<notin> addrs s1" "p \<notin> addrs s2" 
    using focus_fresh [OF f] focus_fresh [OF g] by auto
  moreover have "rb_is_red (root_of s2) s = Some False"
    using focus_sib_is_red [OF g] assms(2) by simp
  ultimately have "RB_INSERT_COLOR_body (Some p) (Some x) s = Some (Some x, s2')"
    using ctx_reads [OF f] ctx_reads [OF g] 1(1) 2(1)
    by (cases d) (simp_all add: RB_INSERT_COLOR_body_def rb_rotate_up_def)
  moreover have "writes_in (addrs (plug k (node d ?t p Black (node d s1 g Red s2)))) s s2'"
    using 1(3) 2(3) by (simp add: writes_in_def)
  ultimately show ?thesis using 2(2) by blast
qed

lemma insert_body_inner:
  assumes f: "focus s (Frame (\<not> d) p Red s1 # Frame d g c2 s2 # k) (Br xl x xc xr)" and "\<not> red_root s2"
  shows "\<exists>s'. RB_INSERT_COLOR_body (Some p) (Some x) s = Some (Some p, s') \<and>
    focus s' k (zigzag d (Br xl x xc xr) p s1 g s2) \<and>
    writes_in (addrs (plug k (zigzag d (Br xl x xc xr) p s1 g s2))) s s'"
proof -
  let ?u = "if d then xl else xr" and ?w = "if d then xr else xl"
  let ?t = "node (\<not> d) ?w x xc ?u"
  have t: "Br xl x xc xr = ?t" by (cases d) auto
  have g: "focus s (Frame d g c2 s2 # k) (node (\<not> d) ?t p Red s1)"
    using f t by (simp add: focus_plug)
  obtain s0' where 0: "rb_rotate_up (\<not> d) (Some p) s = Some (Some x, s0')"
    "focus s0' (Frame d g c2 s2 # k) (node (\<not> d) ?w x xc (node (\<not> d) ?u p Red s1))"
    "writes_in (addrs (plug (Frame d g c2 s2 # k) (node (\<not> d) ?t p Red s1))) s s0'"
    using rotate_up [OF g] by blast
  have flip: "node (\<not> d) a n c b = node d b n c a" for a n c b
    by (cases d) auto
  obtain s1' where 1: "RB_SET_BLACKRED (Some x) (Some g) s0' = Some s1'"
    "focus s1' k (node d (node d (node d s1 p Red ?u) x Black ?w) g Red s2)"
    "writes_in (addrs (plug (Frame d g c2 s2 # k) (node d (node d s1 p Red ?u) x xc ?w))) s0' s1'"
    using set_blackred [of s0' d g c2 s2 k d] 0(2) unfolding flip by blast
  obtain s2' where 2: "rb_rotate_up d (Some g) s1' = Some (Some x, s2')"
      "focus s2' k (node d (node d s1 p Red ?u) x Black (node d ?w g Red s2))"
      "writes_in (addrs (plug k (node d (node d (node d s1 p Red ?u) x Black ?w) g Red s2))) s1' s2'"
    using rotate_up [OF 1(2)] by blast
  have "x \<notin> addrs s1" "p \<notin> addrs s2" 
    using focus_fresh [OF f] focus_fresh [OF g] by auto
  moreover have "rb_is_red (root_of s2) s = Some False"
    using focus_sib_is_red [OF g] assms(2) by simp
  ultimately have "RB_INSERT_COLOR_body (Some p) (Some x) s = Some (Some p, s2')"
    using ctx_reads [OF f] ctx_reads [OF g] 0(1) 1(1) 2(1)
    by (cases d) (simp_all add: RB_INSERT_COLOR_body_def rb_rotate_up_def)
  moreover have "zigzag d (Br xl x xc xr) p s1 g s2 = node d (node d s1 p Red ?u) x Black (node d ?w g Red s2)"
    by (cases d) auto
  moreover have "writes_in (addrs (plug k (zigzag d (Br xl x xc xr) p s1 g s2))) s s2'"
    using 0(3) 1(3) 2(3) by (cases d) (simp_all add: writes_in_def)
  ultimately show ?thesis using 2(2) by simp
qed
subsection \<open>The loop computes \<open>ins_fix\<close>\<close>

lemma RB_INSERT_COLOR_loop_stop:
  assumes "focus s k t" "root_of t = Some x" "k = [] \<or> black_above k"
  shows "RB_INSERT_COLOR_loop (Some x) s = Some s"
proof (cases k)
  case Nil
  with assms show ?thesis
    by (cases t) (auto simp: RB_INSERT_COLOR_loop.simps focus_reads)
next
  case (Cons f k')
  with assms(1) have p: "RB_PARENT (Some x) s = Some (par_of k)"
    using assms(2) by (cases t) (auto simp: focus_reads)
  with Cons assms show ?thesis
    by (cases f) (auto simp: RB_INSERT_COLOR_loop.simps [of "Some x"] ctx_reads)
qed

lemma RB_INSERT_COLOR_loop_fix:
  assumes "focus s k t" "red_root t" "root_of t = Some x" "ctx_rr k"
  shows "\<exists>s' t'. RB_INSERT_COLOR_loop (Some x) s = Some s' \<and> focus s' [] t' \<and>
    blacken t' = ins_fix k t \<and> writes_in (addrs (plug k t)) s s'"
  using assms
proof (induction k t arbitrary: s x rule: ins_fix_induct)
  case (red_red d1 p s1 d2 g c2 s2 k t)
  obtain xl xr where t: "t = Br xl x Red xr"
    using red_red.prems by (cases t) auto
  note f = red_red.prems(1)[unfolded t]
  have r: "RB_PARENT (Some x) s = Some (Some p)" "RB_COLOR (Some p) s = Some RB_RED"
    using focus_reads [OF f] ctx_reads [OF f] by auto
  have step: "RB_INSERT_COLOR_loop (Some x) s =
      Option.bind (RB_INSERT_COLOR_body (Some p) (Some x) s) (\<lambda>(elm, s). RB_INSERT_COLOR_loop elm s)"
    by (subst RB_INSERT_COLOR_loop.simps) (simp add: r)
  show ?case
  proof (cases "red_root s2")
    case True
    then obtain ul u ur where s2: "s2 = Br ul u Red ur" by (cases s2) auto
    let ?u = "node d2 (node d1 t p Black s1) g Red (blacken s2)"
    obtain s' where s': "RB_INSERT_COLOR_body (Some p) (Some x) s = Some (Some g, s')"
      "focus s' k ?u" "writes_in (addrs (plug k ?u)) s s'"
      using insert_body_recolor [OF f [unfolded s2]] s2 t by auto
    have "ctx_rr k" using red_red.prems(4) by simp
    then obtain s'' t' where "RB_INSERT_COLOR_loop (Some g) s' = Some s''" "focus s'' [] t'"
      "blacken t' = ins_fix k ?u" "writes_in (addrs (plug k ?u)) s' s''"
      using red_red.IH [OF True s'(2)] by auto
    with s' True show ?thesis
      by (intro exI [of _ s''] exI [of _ t']) (auto simp: step s2 t writes_in_def)
  next
    case False
    let ?v = "if d1 = d2 then node d1 t p Black (node d1 s1 g Red s2) else zigzag d2 t p s1 g s2"
    obtain s' y where s': "RB_INSERT_COLOR_body (Some p) (Some x) s = Some (Some y, s')"
      "focus s' k ?v" "writes_in (addrs (plug k ?v)) s s'" "y = (if d1 = d2 then x else p)"
      using insert_body_outer [of s d2 p s1 g c2 s2 k xl x Red xr]
        insert_body_inner [of s d2 p s1 g c2 s2 k xl x Red xr] f False t
      by (cases "d1 = d2") auto
    have stop: "RB_INSERT_COLOR_loop (Some y) s' = Some s'"
    proof (cases "d1 = d2")
      case True
      then show ?thesis
        using s'(2,4) t RB_INSERT_COLOR_loop_stop [of s' "Frame d1 p Black (node d1 s1 g Red s2) # k" t y]
        by (simp add: focus_plug)
    next
      case False
      then show ?thesis
        using s'(2,4) t
          RB_INSERT_COLOR_loop_stop [of s' "Frame True x Black (Br xr g Red s2) # k" "Br s1 p Red xl" y]
          RB_INSERT_COLOR_loop_stop [of s' "Frame False x Black (Br s2 g Red xl) # k" "Br xr p Red s1" y]
        by (cases d2) (simp_all add: focus_plug)
    qed
    have "focus s' [] (plug k ?v)" using s'(2) by (simp only: focus_root [symmetric])
    moreover have "addrs (plug k ?v) = addrs (plug (Frame d1 p Red s1 # Frame d2 g c2 s2 # k) t)"
      by (cases d2) (auto simp: t)
    ultimately show ?thesis using s' stop False by (auto simp: step)
  qed
next
  case (stop_Nil t)
  then show ?case using RB_INSERT_COLOR_loop_stop [of s "[]" t x] by auto
next
  case (stop_black d p u k t)
  let ?k = "Frame d p Black u # k"
  have "focus s [] (plug ?k t)" using stop_black.prems(1) by (simp only: focus_root [symmetric])
  then show ?case using stop_black.prems RB_INSERT_COLOR_loop_stop [of s ?k t x] by auto
next
  case (stop_root f t)
  have "focus s [] (plug [f] t)" using stop_root.prems(1) by (simp only: focus_root [symmetric])
  then show ?case using stop_root.prems RB_INSERT_COLOR_loop_stop [of s "[f]" t x] by (cases f) auto
qed
lemma set_color_root:
  assumes "focus s [] t" "t \<noteq> Tip"
  shows "\<exists>s'. set_RB_COLOR (rbh_root s) RB_BLACK s = Some s' \<and> focus s' [] (blacken t) \<and>
    writes_in (addrs t) s s'"
proof -
  obtain l a c r where t: "t = Br l a c r" using assms(2) by (cases t) auto
  then have "rbh_root s = Some a" using assms(1) by (simp add: focus_def)
  then show ?thesis using set_color [of s "[]" l a c r Black] assms(1) t by auto
qed

lemma ins_fix_not_Tip: "t \<noteq> Tip \<Longrightarrow> ins_fix k t \<noteq> Tip"
  using inorder_ins_fix [of t k] by (cases "ins_fix k t"; cases t) auto

lemma RB_INSERT_COLOR_fix:
  assumes "focus s k t" "red_root t" "root_of t = Some x" "ctx_rr k"
  shows "\<exists>s'. RB_INSERT_COLOR (Some x) s = Some s' \<and> focus s' [] (ins_fix k t) \<and>
    writes_in (addrs (plug k t)) s s'"
proof -
  obtain s1 t' where 1: "RB_INSERT_COLOR_loop (Some x) s = Some s1" "focus s1 [] t'"
    "blacken t' = ins_fix k t" "writes_in (addrs (plug k t)) s s1"
    using RB_INSERT_COLOR_loop_fix [OF assms] by blast
  have "t \<noteq> Tip" using assms(3) by auto
  have "addrs (ins_fix k t) = addrs (plug k t)"
    using inorder_ins_fix [OF \<open>t \<noteq> Tip\<close>, of k] by (auto simp: ctx_addrs_def set_inorder [symmetric] simp del: set_inorder)
  then have "addrs t' = addrs (plug k t)"
    using 1(3) inorder_blacken [of t'] by (auto simp: set_inorder [symmetric] simp del: set_inorder)
  moreover have "t' \<noteq> Tip" using 1(3) ins_fix_not_Tip [OF \<open>t \<noteq> Tip\<close>, of k] by auto
  ultimately show ?thesis
    using set_color_root [OF 1(2)] 1 by (auto simp: RB_INSERT_COLOR_def intro: writes_in_trans)
qed

subsection \<open>The search and the link\<close>

lemma link_leaf:
  assumes "focus s k Tip" "x \<notin> ctx_addrs k" "x \<in> dom (rb_nodes s)"
    "k \<noteq> [] \<longrightarrow> (hole_left (hd k) \<longleftrightarrow> c < 0)"
  shows "\<exists>s'. RB_INSERT_link (Some x) (par_of k) c s = Some s' \<and>
    focus s' k (Br Tip x Red Tip) \<and> writes_in (insert x (ctx_addrs k)) s s'"
proof (cases k)
  case Nil
  with assms show ?thesis
    by (auto simp: focus_def RB_INSERT_link_def RB_SET_def rb_exec writes_in_def)
next
  case (Cons f k')
  obtain d p cp u where f: "f = Frame d p cp u" by (cases f)
  show ?thesis using assms unfolding Cons f
    by (cases d) (auto simp: focus_def RB_INSERT_link_def RB_SET_def rb_exec writes_in_def)
qed

text \<open>An empty position of the tree where a node with the key of \<open>x\<close> belongs.\<close>

definition key_gap :: "(addr \<Rightarrow> 'k::linorder) \<Rightarrow> addr \<Rightarrow> ctx \<Rightarrow> bool" where
  "key_gap key x k \<longleftrightarrow> (\<forall>a\<in>set (lefts k). key a < key x) \<and> (\<forall>a\<in>set (rights k). key x < key a)"

definition side_ok :: "ctx \<Rightarrow> int \<Rightarrow> bool" where
  "side_ok k c \<longleftrightarrow> (k \<noteq> [] \<longrightarrow> (hole_left (hd k) \<longleftrightarrow> c < 0))"

text \<open>The rest of the insertion, once the search has found a gap; the order plays no part in it.\<close>

lemma RB_INSERT_at_gap:
  assumes "focus s [] t" "rb_ok t" "x \<notin> addrs t" "x \<in> dom (rb_nodes s)"
    "RB_INSERT_loop cmp x (RB_ROOT s) NULL 0 s = Some (Inr (par_of k, c))" "plug k Tip = t" "side_ok k c"
  shows "\<exists>s' t'. RB_INSERT cmp x s = Some (NULL, s') \<and> focus s' [] t' \<and> rb_ok t' \<and>
    inorder t' = lefts k @ x # rights k \<and> writes_in (insert x (addrs t)) s s'"
proof -
  have fk: "focus s k Tip"
    using assms(1,6) by (subst focus_root) simp
  have x: "x \<notin> ctx_addrs k"
    using assms(3,6) by auto
  obtain s2 where l: "RB_INSERT_link (Some x) (par_of k) c s = Some s2"
    "focus s2 k (Br Tip x Red Tip)" "writes_in (insert x (ctx_addrs k)) s s2"
    using link_leaf [OF fk x assms(4)] assms(7) unfolding side_ok_def by blast
  have ok: "ctx_bal 0 k" "ctx_rr k"
    using assms(2,6) rb_ok_plug [of k Tip] by auto
  obtain s3 where f: "RB_INSERT_COLOR (Some x) s2 = Some s3"
    "focus s3 [] (ins_fix k (Br Tip x Red Tip))" "writes_in (addrs (plug k (Br Tip x Red Tip))) s2 s3"
    using RB_INSERT_COLOR_fix [OF l(2)] ok(2) by auto
  have "RB_INSERT cmp x s = Some (NULL, s3)"
    using assms(5) l(1) f(1) by (simp add: RB_INSERT_def)
  moreover have "rb_ok (ins_fix k (Br Tip x Red Tip))"
    by (rule ins_fix_ok) (use ok in auto)
  moreover have "inorder (ins_fix k (Br Tip x Red Tip)) = lefts k @ x # rights k"
    by (simp add: inorder_ins_fix)
  moreover have "writes_in (insert x (addrs t)) s s3"
    using l(3) f(3) assms(6) by (auto simp: writes_in_def)
  ultimately show ?thesis using f(2) by blast
qed

context comparator
begin

lemma gap_left:
  assumes "key_sorted key (inorder (plug k (Br l a c r)))" "key_gap key x k" "key x < key a"
  shows "key_gap key x (Frame True a c r # k)"
  using assms by (auto simp: key_gap_def order_simps intro: order.strict_trans)

lemma gap_right:
  assumes "key_sorted key (inorder (plug k (Br l a c r)))" "key_gap key x k" "key a < key x"
  shows "key_gap key x (Frame False a c l # k)"
  using assms by (auto simp: key_gap_def order_simps intro: order.strict_trans)

lemma RB_INSERT_loop_find:
  assumes "focus s k t" "key_sorted key (inorder (plug k t))" "key_gap key x k" "side_ok k c"
  shows "(\<exists>y\<in>addrs t. key y = key x \<and>
            RB_INSERT_loop cmp x (root_of t) (par_of k) c s = Some (Inl (Some y))) \<or>
    (\<exists>k' c'. RB_INSERT_loop cmp x (root_of t) (par_of k) c s = Some (Inr (par_of k', c')) \<and>
       plug k' Tip = plug k t \<and> key_gap key x k' \<and> side_ok k' c')"
  using assms
proof (induction t arbitrary: k c)
  case Tip
  then show ?case by (intro disjI2 exI [of _ k] exI [of _ c]) (simp add: RB_INSERT_loop.simps)
next
  case (Br l a cl r)
  have fl: "focus s (Frame True a cl r # k) l" and fr: "focus s (Frame False a cl l # k) r"
    using Br.prems(1) by (simp_all add: focus_plug)
  note so = Br.prems(2)
  consider "key x < key a" | "key a < key x" | "key x = key a" by fastforce
  then show ?case
  proof cases
    case 1
    then have c: "cmp x a < 0" by (simp add: cmp_simps)
    have "RB_INSERT_loop cmp x (Some a) (par_of k) c s
        = RB_INSERT_loop cmp x (root_of l) (Some a) (cmp x a) s"
      using c focus_reads(1) [OF Br.prems(1)] by (simp add: RB_INSERT_loop.simps [of cmp x "Some a"])
    moreover have "side_ok (Frame True a cl r # k) (cmp x a)" using c by (simp add: side_ok_def)
    ultimately show ?thesis
      using Br.IH(1) [OF fl _ gap_left [OF so Br.prems(3) 1]] so by auto
  next
    case 2
    then have c: "cmp x a > 0" by (simp add: cmp_simps)
    have "RB_INSERT_loop cmp x (Some a) (par_of k) c s
        = RB_INSERT_loop cmp x (root_of r) (Some a) (cmp x a) s"
      using c focus_reads(2) [OF Br.prems(1)] by (simp add: RB_INSERT_loop.simps [of cmp x "Some a"])
    moreover have "side_ok (Frame False a cl l # k) (cmp x a)" using c by (simp add: side_ok_def)
    ultimately show ?thesis
      using Br.IH(2) [OF fr _ gap_right [OF so Br.prems(3) 2]] so by auto
  next
    case 3
    then have "cmp x a = 0" by (simp add: cmp_simps)
    with 3 show ?thesis by (intro disjI1) (simp add: RB_INSERT_loop.simps)
  qed
qed

lemma RB_INSERT_loop_root:
  assumes "focus s [] t" "key_sorted key (inorder t)"
  shows "(\<exists>y\<in>addrs t. key y = key x \<and>
            RB_INSERT_loop cmp x (RB_ROOT s) NULL 0 s = Some (Inl (Some y))) \<or>
    (\<exists>k' c'. RB_INSERT_loop cmp x (RB_ROOT s) NULL 0 s = Some (Inr (par_of k', c')) \<and>
       plug k' Tip = t \<and> key_gap key x k' \<and> side_ok k' c')"
  using RB_INSERT_loop_find [of s "[]" t x 0] assms
  by (simp add: RB_ROOT_def focus_def key_gap_def side_ok_def)

lemma RB_INSERT_new:
  assumes "focus s [] t" "rb_ok t" "key_sorted key (inorder t)"
    "\<forall>a\<in>addrs t. key a \<noteq> key x" "x \<in> dom (rb_nodes s)"
  shows "\<exists>s' t'. RB_INSERT cmp x s = Some (NULL, s') \<and> focus s' [] t' \<and> rb_ok t' \<and>
    inorder t' = key_insert key x (inorder t) \<and> writes_in (insert x (addrs t)) s s'"
proof -
  obtain k c where k: "RB_INSERT_loop cmp x (RB_ROOT s) NULL 0 s = Some (Inr (par_of k, c))"
    "plug k Tip = t" "key_gap key x k" "side_ok k c"
    using RB_INSERT_loop_root [OF assms(1,3), of x] assms(4) by blast
  have "x \<notin> addrs t" using assms(4) by auto
  moreover have "lefts k @ x # rights k = key_insert key x (inorder t)"
    using k(3) by (simp add: key_insert_split key_gap_def flip: k(2))
  ultimately show ?thesis using RB_INSERT_at_gap [OF assms(1,2) _ assms(5) k(1,2,4)] by simp
qed

lemma RB_INSERT_old:
  assumes "focus s [] t" "key_sorted key (inorder t)" "y \<in> addrs t" "key y = key x"
  shows "RB_INSERT cmp x s = Some (Some y, s)"
proof -
  have inj: "z = y" if "z \<in> addrs t" "key z = key x" for z
    using key_sorted_inj [OF assms(2), of z y] assms(3,4) that by auto
  have no_gap: "\<not> (plug k Tip = t \<and> key_gap key x k)" for k
    using assms(3,4) unfolding key_gap_def by (auto simp: ctx_addrs_def) (metis less_irrefl)+
  have "RB_INSERT_loop cmp x (RB_ROOT s) NULL 0 s = Some (Inl (Some y))"
    using RB_INSERT_loop_root [OF assms(1,2), of x] no_gap inj by metis
  then show ?thesis by (simp add: RB_INSERT_def)
qed

end

end
