(* ===== verification/UvRbRemove.thy ===== *)
theory UvRbRemove
  imports UvRbInsert
begin

text \<open>
  \<open>RB_REMOVE\<close> and \<open>RB_REMOVE_COLOR\<close> on the heap: the repair loop computes \<open>rem_fix\<close>, and
  the removal, also of a node with two children (which its successor replaces), deletes
  exactly that node from the ordered collection.
\<close>

subsection \<open>The parts of one pass of the repair loop\<close>

text \<open>The left and the right version of each part, as one function of the side \<open>d\<close> of \<open>elm\<close>.\<close>

definition rem_red where
  "rem_red d = (if d then RB_REMOVE_COLOR_left_red else RB_REMOVE_COLOR_right_red)"
definition rem_black where
  "rem_black d = (if d then RB_REMOVE_COLOR_left_black else RB_REMOVE_COLOR_right_black)"
definition rem_inner_op where
  "rem_inner_op d = (if d then RB_REMOVE_COLOR_left_inner else RB_REMOVE_COLOR_right_inner)"
definition rem_outer_op where
  "rem_outer_op d = (if d then RB_REMOVE_COLOR_left_outer else RB_REMOVE_COLOR_right_outer)"
definition rem_pass where
  "rem_pass d = (if d then RB_REMOVE_COLOR_left else RB_REMOVE_COLOR_right)"

lemma rem_pass_eq:
  "rem_pass d parent s = Option.bind (rem_red d parent s) (\<lambda>(tmp, s). rem_black d parent tmp s)"
  by (simp add: rem_pass_def rem_red_def rem_black_def
      RB_REMOVE_COLOR_left_def RB_REMOVE_COLOR_right_def)

lemma flip_node: "node (\<not> d) a n c b = node d b n c a"
  by (cases d) auto

lemma set_color_node:
  assumes "focus s k (node d l a c r)"
  shows "\<exists>s'. set_RB_COLOR (Some a) (color_code c') s = Some s' \<and> focus s' k (node d l a c' r)
    \<and> writes_in (addrs (plug k (node d l a c r))) s s'"
  using assms set_color [of s k l a c r c'] set_color [of s k r a c l c'] by (cases d) auto

lemma rem_red_black:
  assumes "focus s (Frame d p pc sib # k) t" "\<not> red_root sib" "sib \<noteq> Tip"
  shows "rem_red d (Some p) s = Some (root_of sib, s)"
proof -
  obtain l x r where sib: "sib = Br l x Black r" using assms(2,3) by (cases sib) auto
  have "RB_COLOR (root_of sib) s = Some RB_BLACK"
    using assms(1) sib by (subst (asm) focus_swap) (simp add: focus_reads)
  then show ?thesis
    using ctx_reads [OF assms(1)]
    by (simp add: rem_red_def RB_REMOVE_COLOR_left_red_def RB_REMOVE_COLOR_right_red_def)
qed

lemma rem_red_rotate:
  assumes f: "focus s (Frame d p pc (node d n x Red f) # k) t"
  shows "\<exists>s'. rem_red d (Some p) s = Some (root_of n, s') \<and>
    focus s' (Frame d p Red n # Frame d x Black f # k) t \<and>
    writes_in (addrs (plug (Frame d p pc (node d n x Red f) # k) t)) s s'"
proof -
  let ?sib = "node d n x Red f"
  have f': "focus s (Frame (\<not> d) p pc t # k) ?sib"
    using f by (simp add: focus_swap [of s d])
  have c: "RB_COLOR (Some x) s = Some RB_RED"
    using f' by (cases d) (simp_all add: focus_reads)
  obtain s1 where 1: "RB_SET_BLACKRED (Some x) (Some p) s = Some s1"
    "focus s1 k (node (\<not> d) (node d n x Black f) p Red t)"
    "writes_in (addrs (plug (Frame (\<not> d) p pc t # k) ?sib)) s s1"
    using set_blackred [OF f'] by blast
  have "node (\<not> d) (node d n x Black f) p Red t = node (\<not> d) (node (\<not> d) f x Black n) p Red t"
    by (cases d) auto
  with 1(2) obtain s2 where 2: "rb_rotate_up (\<not> d) (Some p) s1 = Some (Some x, s2)"
    "focus s2 k (node (\<not> d) f x Black (node (\<not> d) n p Red t))"
    "writes_in (addrs (plug k (node (\<not> d) (node (\<not> d) f x Black n) p Red t))) s1 s2"
    using rotate_up by metis
  have f2: "focus s2 (Frame d p Red n # Frame d x Black f # k) t"
    using 2(2) by (simp add: focus_plug flip_node)
  have "rem_red d (Some p) s = Some (root_of n, s2)"
    using c ctx_reads [OF f] ctx_reads [OF f2] 1(1) 2(1)
    by (cases d) (simp_all add: rem_red_def rb_rotate_up_def
        RB_REMOVE_COLOR_left_red_def RB_REMOVE_COLOR_right_red_def)
  moreover have "writes_in (addrs (plug (Frame d p pc ?sib # k) t)) s s2"
    using 1(3) 2(3) by (simp add: writes_in_def)
  ultimately show ?thesis using f2 by blast
qed

lemma rem_inner_noop:
  assumes f: "focus s (Frame d p pc (node d n x Black f) # k) t" "red_root f"
  shows "rem_inner_op d (Some p) (Some x) s = Some (Some x, s)"
proof -
  have f': "focus s (Frame (\<not> d) x Black n # Frame (\<not> d) p pc t # k) f"
    using f(1) by (simp add: focus_swap [of s d]) (simp add: focus_plug flip_node)
  then have "rb_is_black (root_of f) s = Some False"
    using focus_is_black [OF f'] f(2) by simp
  then show ?thesis
    using ctx_reads [OF f']
    by (cases d) (simp_all add: rem_inner_op_def RB_REMOVE_COLOR_left_inner_def RB_REMOVE_COLOR_right_inner_def)
qed

lemma rem_inner_rotate:
  assumes f: "focus s (Frame d p pc (node d n x Black f) # k) t" "\<not> red_root f" "red_root n"
  shows "\<exists>s'. rem_inner_op d (Some p) (Some x) s = Some (root_of n, s') \<and>
    focus s' (Frame d p pc (rem_inner d (node d n x Black f)) # k) t \<and>
    writes_in (addrs (plug (Frame d p pc (node d n x Black f) # k) t)) s s'"
proof -
  let ?k = "Frame (\<not> d) p pc t # k"
  obtain nn nf y where n: "n = node d nn y Red nf"
    using f(3) node_cases [of n d] by (metis red_root_simps(1))
  have f1: "focus s (Frame d x Black f # ?k) n"
    using f(1) by (simp add: focus_swap [of s d]) (simp add: focus_plug flip_node)
  have f2: "focus s (Frame (\<not> d) x Black n # ?k) f"
    using f1 by (simp add: focus_swap [of s d])
  have b: "rb_is_black (root_of f) s = Some True"
    using focus_is_black [OF f2] f(2) by simp
  obtain s1 where 1: "RB_SET_BLACKRED (Some y) (Some x) s = Some s1"
    "focus s1 ?k (node d (node d nn y Black nf) x Red f)"
    "writes_in (addrs (plug (Frame d x Black f # ?k) n)) s s1"
    using set_blackred [of s d x Black f ?k d nn y Red nf] f1 n by blast
  obtain s2 where 2: "rb_rotate_up d (Some x) s1 = Some (Some y, s2)"
    "focus s2 ?k (node d nn y Black (node d nf x Red f))"
    "writes_in (addrs (plug ?k (node d (node d nn y Black nf) x Red f))) s1 s2"
    using rotate_up [OF 1(2)] by blast
  have r: "rem_inner d (node d n x Black f) = node d nn y Black (node d nf x Red f)"
    using f(2) n by (simp add: rem_inner_def)
  have f3: "focus s2 (Frame d p pc (rem_inner d (node d n x Black f)) # k) t"
    using 2(2) r by (simp add: focus_swap [of s2 d])
  obtain s0 where 0: "set_RB_COLOR (Some y) RB_BLACK s = Some s0" "set_RB_COLOR (Some x) RB_RED s0 = Some s1"
    using 1(1) by (auto simp: RB_SET_BLACKRED_def bind_eq_Some_conv)
  have "rem_inner_op d (Some p) (Some x) s = Some (root_of n, s2)"
    using b n 0 ctx_reads [OF f1] ctx_reads [OF f2] ctx_reads [OF f3] 2(1) r
    by (cases d)
      (simp_all add: rem_inner_op_def rb_rotate_up_def
        RB_REMOVE_COLOR_left_inner_def RB_REMOVE_COLOR_right_inner_def)
  moreover have "writes_in (addrs (plug (Frame d p pc (node d n x Black f) # k) t)) s s2"
    using 1(3) 2(3) n by (simp add: writes_in_def)
  ultimately show ?thesis using f3 by blast
qed


lemma rem_outer_rotate:
  assumes f: "focus s (Frame d p pc (node d n x c f) # k) t" "red_root f"
  shows "\<exists>s'. rem_outer_op d (Some p) (Some x) s = Some (Some p, RB_ROOT s', s', False) \<and>
    focus s' k (rem_outer d t p pc (node d n x c f)) \<and>
    writes_in (addrs (plug (Frame d p pc (node d n x c f) # k) t)) s s'"
proof -
  obtain nn nf y where fy: "f = node d nn y Red nf"
    using f(2) node_cases [of f d] by (metis red_root_simps(1))
  have f1: "focus s (Frame (\<not> d) p pc t # k) (node d n x c f)"
    using f(1) by (simp add: focus_swap [of s d])
  obtain s1 where 1: "set_RB_COLOR (Some x) (color_code pc) s = Some s1"
    "focus s1 (Frame (\<not> d) p pc t # k) (node d n x pc f)"
    "writes_in (addrs (plug (Frame (\<not> d) p pc t # k) (node d n x c f))) s s1"
    using set_color_node [OF f1] by blast
  have f2: "focus s1 k (node d t p pc (node d n x pc f))"
    using 1(2) by (simp add: focus_plug flip_node)
  obtain s2 where 2: "set_RB_COLOR (Some p) RB_BLACK s1 = Some s2"
    "focus s2 k (node d t p Black (node d n x pc f))"
    "writes_in (addrs (plug k (node d t p pc (node d n x pc f)))) s1 s2"
    using set_color_node [OF f2, of Black] by auto
  have f3: "focus s2 (Frame (\<not> d) x pc n # Frame (\<not> d) p Black t # k) (node d nn y Red nf)"
    using 2(2) fy by (simp add: focus_plug flip_node)
  obtain s3 where 3: "set_RB_COLOR (Some y) RB_BLACK s2 = Some s3"
    "focus s3 (Frame (\<not> d) x pc n # Frame (\<not> d) p Black t # k) (node d nn y Black nf)"
    "writes_in (addrs (plug (Frame (\<not> d) x pc n # Frame (\<not> d) p Black t # k) (node d nn y Red nf))) s2 s3"
    using set_color_node [OF f3, of Black] by auto
  have "focus s3 k (node (\<not> d) (node (\<not> d) (blacken f) x pc n) p Black t)"
    using 3(2) fy by (simp add: focus_plug flip_node)
  then obtain s4 where 4: "rb_rotate_up (\<not> d) (Some p) s3 = Some (Some x, s4)"
    "focus s4 k (node (\<not> d) (blacken f) x pc (node (\<not> d) n p Black t))"
    "writes_in (addrs (plug k (node (\<not> d) (node (\<not> d) (blacken f) x pc n) p Black t))) s3 s4"
    using rotate_up by blast
  have "rem_outer_op d (Some p) (Some x) s = Some (Some p, RB_ROOT s4, s4, False)"
    using fy ctx_reads [OF f(1)] ctx_reads [OF f3] 1(1) 2(1) 3(1) 4(1)
    by (cases d)
      (simp_all add: rem_outer_op_def rb_rotate_up_def
        RB_REMOVE_COLOR_left_outer_def RB_REMOVE_COLOR_right_outer_def)
  moreover have "writes_in (addrs (plug (Frame d p pc (node d n x c f) # k) t)) s s4"
    using 1(3) 2(3) 3(3) 4(3) fy by (simp add: writes_in_def)
  moreover have "focus s4 k (rem_outer d t p pc (node d n x c f))"
    using 4(2) by (simp add: rem_outer_def flip_node)
  ultimately show ?thesis by blast
qed

lemma rem_black_up:
  assumes f: "focus s (Frame d p pc sib # k) t" "sib \<noteq> Tip" "nephews_black sib"
  shows "\<exists>s'. rem_black d (Some p) (root_of sib) s = Some (par_of k, Some p, s', True) \<and>
    focus s' k (rem_up d t p pc sib) \<and>
    writes_in (addrs (plug (Frame d p pc sib # k) t)) s s'"
proof -
  obtain l x c r where sib: "sib = Br l x c r" using f(2) by (cases sib) auto
  have f1: "focus s (Frame (\<not> d) p pc t # k) (Br l x c r)"
    using f(1) sib by (simp add: focus_swap [of s d])
  have fl: "focus s (Frame True x c r # Frame (\<not> d) p pc t # k) l"
    and fr: "focus s (Frame False x c l # Frame (\<not> d) p pc t # k) r"
    using f1 by (simp_all add: focus_plug)
  have b: "rb_is_black (root_of l) s = Some True" "rb_is_black (root_of r) s = Some True"
    using focus_is_black [OF fl] focus_is_black [OF fr] f(3) sib by (auto simp: nephews_black_def)
  obtain s1 where 1: "set_RB_COLOR (Some x) RB_RED s = Some s1"
    "focus s1 (Frame (\<not> d) p pc t # k) (Br l x Red r)"
    "writes_in (addrs (plug (Frame (\<not> d) p pc t # k) (Br l x c r))) s s1"
    using set_color [OF f1, of Red] by auto
  have "focus s1 k (rem_up d t p pc sib)"
    using 1(2) sib by (simp add: focus_plug flip_node rem_up_def)
  moreover have "rem_black d (Some p) (root_of sib) s = Some (par_of k, Some p, s1, True)"
    using b focus_reads [OF f1] 1(1) ctx_reads [OF 1(2)] sib
    by (cases d) (simp_all add: rem_black_def RB_REMOVE_COLOR_left_black_def RB_REMOVE_COLOR_right_black_def)
  moreover have "writes_in (addrs (plug (Frame d p pc sib # k) t)) s s1"
    using 1(3) sib by (simp add: writes_in_def)
  ultimately show ?thesis by blast
qed

lemma rem_black_end:
  assumes f: "focus s (Frame d p pc sib # k) t" "\<not> red_root sib" "\<not> nephews_black sib"
  shows "\<exists>s'. rem_black d (Some p) (root_of sib) s = Some (Some p, RB_ROOT s', s', False) \<and>
    focus s' k (rem_end d t p pc sib) \<and>
    writes_in (addrs (plug (Frame d p pc sib # k) t)) s s'"
proof -
  have "sib \<noteq> Tip" using f(3) by (auto simp: nephews_black_def)
  then obtain n x g where sib: "sib = node d n x Black g"
    using f(2) node_cases [of sib d] by (metis not_Red)
  have f1: "focus s (Frame (\<not> d) p pc t # k) (node d n x Black g)"
    using f(1) sib by (simp add: focus_swap [of s d])
  have fn: "focus s (Frame d x Black g # Frame (\<not> d) p pc t # k) n"
    and fg: "focus s (Frame (\<not> d) x Black n # Frame (\<not> d) p pc t # k) g"
    using f1 by (simp_all add: focus_plug flip_node)
  have b: "rb_is_black (root_of n) s = Some (\<not> red_root n)" "rb_is_black (root_of g) s = Some (\<not> red_root g)"
    using focus_is_black [OF fn] focus_is_black [OF fg] by auto
  have ng: "red_root n \<or> red_root g" using f(3) sib by (auto simp: nephews_black_node)
  have e: "rem_black d (Some p) (root_of sib) s =
      Option.bind (rem_inner_op d (Some p) (Some x) s) (\<lambda>(tmp, s). rem_outer_op d (Some p) tmp s)"
    using b ng ctx_reads [OF fn] ctx_reads [OF fg] sib
    by (cases d)
      (auto simp: rem_black_def rem_inner_op_def rem_outer_op_def
        RB_REMOVE_COLOR_left_black_def RB_REMOVE_COLOR_right_black_def)
  have "\<exists>s1 y m c h. rem_inner_op d (Some p) (Some x) s = Some (Some y, s1) \<and>
    rem_inner d sib = node d m y c h \<and> red_root h \<and>
    focus s1 (Frame d p pc (rem_inner d sib) # k) t \<and>
    writes_in (addrs (plug (Frame d p pc sib # k) t)) s s1"
  proof (cases "red_root g")
    case True
    then show ?thesis
      using rem_inner_noop [OF f(1) [unfolded sib] True] f(1) sib by (auto simp: rem_inner_def)
  next
    case False
    with ng have "red_root n" by simp
    then obtain y nn nf where n: "n = node d nn y Red nf"
      using node_cases [of n d] by (metis red_root_simps(1))
    obtain s1 where "rem_inner_op d (Some p) (Some x) s = Some (root_of n, s1)"
      "focus s1 (Frame d p pc (rem_inner d (node d n x Black g)) # k) t"
      "writes_in (addrs (plug (Frame d p pc (node d n x Black g) # k) t)) s s1"
      using rem_inner_rotate [OF f(1) [unfolded sib] False \<open>red_root n\<close>] by blast
    then show ?thesis
      using False n sib
      by (intro exI [of _ s1] exI [of _ y] exI [of _ nn] exI [of _ Black] exI [of _ "node d nf x Red g"])
        (simp add: rem_inner_def)
  qed
  then obtain s1 y m c h where i: "rem_inner_op d (Some p) (Some x) s = Some (Some y, s1)"
    "rem_inner d sib = node d m y c h" "red_root h"
    "focus s1 (Frame d p pc (node d m y c h) # k) t"
    "writes_in (addrs (plug (Frame d p pc sib # k) t)) s s1" by auto
  obtain s2 where o: "rem_outer_op d (Some p) (Some y) s1 = Some (Some p, RB_ROOT s2, s2, False)"
    "focus s2 k (rem_outer d t p pc (node d m y c h))"
    "writes_in (addrs (plug (Frame d p pc (node d m y c h) # k) t)) s1 s2"
    using rem_outer_rotate [OF i(4,3)] by blast
  have "addrs (rem_inner d sib) = addrs sib"
    using sib ng by (cases n; cases d) (auto simp: rem_inner_def)
  then have "writes_in (addrs (plug (Frame d p pc sib # k) t)) s s2"
    using i(2,5) o(3) by (simp add: writes_in_def)
  then show ?thesis
    using e i o by (auto simp: rem_end_def)
qed


subsection \<open>The loop computes \<open>rem_fix\<close>\<close>

lemma top_of_Some: "\<exists>a. top_of k (Some p) = Some a \<and> (a = p \<or> a \<in> ctx_addrs k)"
proof (induction k arbitrary: p)
  case (Cons f k)
  then show ?case by (cases f) force
qed simp

lemma focus_not_root:
  assumes "focus s (Frame d p pc sib # k) t"
  shows "root_of t \<noteq> RB_ROOT s"
proof -
  obtain a where a: "RB_ROOT s = Some a" "a = p \<or> a \<in> ctx_addrs k"
    using assms top_of_Some [of k p] by (auto simp: focus_def RB_ROOT_def)
  then have "a \<notin> addrs t" using focus_fresh [OF assms] by auto
  with a(1) show ?thesis by simp
qed

lemma RB_REMOVE_COLOR_step:
  assumes f: "focus s (Frame d p pc sib # k) t" and b: "\<not> red_root t" "sib \<noteq> Tip"
  shows "RB_REMOVE_COLOR_loop (Some p) (root_of t) s =
    Option.bind (rem_pass d (Some p) s)
      (\<lambda>(parent, elm, s, again). if again then RB_REMOVE_COLOR_loop parent elm s else Some (elm, s))"
proof -
  have "root_of sib \<noteq> root_of t"
    using focus_fresh(3) [OF f] b(2) by (cases t; cases sib) auto
  then show ?thesis
    using ctx_reads(1) [OF f] focus_is_black [OF f] focus_not_root [OF f] b
    by (subst RB_REMOVE_COLOR_loop.simps) (simp add: rem_pass_def)
qed

lemma RB_REMOVE_COLOR_stop:
  assumes "focus s k t" "red_root t \<or> k = []"
  shows "RB_REMOVE_COLOR_loop (par_of k) (root_of t) s = Some (root_of t, s)"
proof -
  have "RB_ROOT s = root_of t" if "k = []"
    using assms(1) that by (simp add: focus_def RB_ROOT_def)
  then show ?thesis
    using focus_is_black [OF assms(1)] assms(2)
    by (subst RB_REMOVE_COLOR_loop.simps) auto
qed

definition rem_finish :: "ptr \<Rightarrow> rb_state \<Rightarrow> rb_state option" where
  "rem_finish elm s = (if elm \<noteq> NULL then set_RB_COLOR elm RB_BLACK s else Some s)"

lemma RB_REMOVE_COLOR_eq:
  "RB_REMOVE_COLOR parent elm s =
     Option.bind (RB_REMOVE_COLOR_loop parent elm s) (\<lambda>(elm, s). rem_finish elm s)"
  by (simp add: RB_REMOVE_COLOR_def rem_finish_def)

lemma finish_black:
  assumes "focus s k t"
  shows "\<exists>s'. rem_finish (root_of t) s = Some s' \<and>
    focus s' k (blacken t) \<and> writes_in (addrs (plug k t)) s s'"
  using assms set_color [of s k _ _ _ _ Black] by (cases t) (auto simp: rem_finish_def)

lemma RB_REMOVE_COLOR_stop_fix:
  assumes "focus s k t" "red_root t \<or> k = []"
  shows "\<exists>s'. RB_REMOVE_COLOR (par_of k) (root_of t) s = Some s' \<and>
    focus s' [] (plug k (blacken t)) \<and> writes_in (addrs (plug k t)) s s'"
proof -
  obtain s' where "rem_finish (root_of t) s = Some s'"
    "focus s' k (blacken t)" "writes_in (addrs (plug k t)) s s'"
    using finish_black [OF assms(1)] by blast
  then show ?thesis
    using RB_REMOVE_COLOR_stop [OF assms]
    by (simp add: RB_REMOVE_COLOR_eq focus_root [of s' k])
qed

lemma finish_root:
  assumes "focus s k t"
  shows "\<exists>s'. rem_finish (RB_ROOT s) s = Some s' \<and>
    focus s' [] (blacken (plug k t)) \<and> writes_in (addrs (plug k t)) s s'"
proof -
  have r: "focus s [] (plug k t)" using assms by (subst (asm) focus_root)
  then have "RB_ROOT s = root_of (plug k t)" by (simp add: focus_def RB_ROOT_def)
  then show ?thesis using finish_black [OF r] by simp
qed

text \<open>The two ends of a pass, lifted to \<open>RB_REMOVE_COLOR\<close>.\<close>

lemma REMOVE_COLOR_again:
  assumes "focus s (Frame d p pc sib # k) t" "\<not> red_root t" "sib \<noteq> Tip"
    "rem_pass d (Some p) s = Some (parent, elm, s', True)"
  shows "RB_REMOVE_COLOR (Some p) (root_of t) s = RB_REMOVE_COLOR parent elm s'"
  using RB_REMOVE_COLOR_step [OF assms(1-3)] assms(4) by (simp add: RB_REMOVE_COLOR_eq)

lemma REMOVE_COLOR_break:
  assumes "focus s (Frame d p pc sib # k) t" "\<not> red_root t" "sib \<noteq> Tip"
    "rem_pass d (Some p) s = Some (parent, RB_ROOT s', s', False)"
  shows "RB_REMOVE_COLOR (Some p) (root_of t) s =
    rem_finish (RB_ROOT s') s'"
  using RB_REMOVE_COLOR_step [OF assms(1-3)] assms(4) by (simp add: RB_REMOVE_COLOR_eq)

lemma RB_REMOVE_COLOR_fix:
  assumes "focus s k t" "bal t" "rr_free (blacken t)" "ctx_bal (bh t + 1) k" "ctx_rr k"
  shows "\<exists>s'. RB_REMOVE_COLOR (par_of k) (root_of t) s = Some s' \<and> focus s' [] (rem_fix k t) \<and>
    writes_in (addrs (plug k t)) s s'"
  using assms
proof (induction k t arbitrary: s rule: rem_fix.induct)
  case (1 t)
  then show ?case using RB_REMOVE_COLOR_stop_fix [of s "[]" t] by auto
next
  case (2 d p pc sib k t)
  note f = "2.prems"(1)
  let ?k0 = "Frame d p pc sib # k"
  show ?case
  proof (cases "red_root t")
    case True
    then show ?thesis using RB_REMOVE_COLOR_stop_fix [OF f] by simp
  next
    case t: False
    then have rt: "rr_free t" using "2.prems" by (simp add: blacken_id)
    have sib: "bh sib = bh t + 1" "bal sib" "rr_free sib" "sib \<noteq> Tip" using "2.prems" by auto
    show ?thesis
    proof (cases "red_root sib")
      case True
      then obtain n x g where s: "sib = node d n x Red g"
        using node_cases [of sib d] sib(4) by metis
      have n: "\<not> red_root n" "bh n = bh t + 1" "bal n" "rr_free n" "n \<noteq> Tip"
        using sib s by (cases d; auto)+
      let ?k1 = "Frame d x Black g # k"
      obtain s1 where 1: "rem_red d (Some p) s = Some (root_of n, s1)"
        "focus s1 (Frame d p Red n # ?k1) t" "writes_in (addrs (plug ?k0 t)) s s1"
        using rem_red_rotate [OF f [unfolded s]] s by blast
      show ?thesis
      proof (cases "nephews_black n")
        case b: True
        obtain s2 where 2: "rem_black d (Some p) (root_of n) s1 = Some (par_of ?k1, Some p, s2, True)"
          "focus s2 ?k1 (rem_up d t p Red n)" "writes_in (addrs (plug (Frame d p Red n # ?k1) t)) s1 s2"
          using rem_black_up [OF 1(2) n(5) b] by blast
        have pass: "rem_pass d (Some p) s = Some (par_of ?k1, Some p, s2, True)"
          using 1(1) 2(1) by (simp add: rem_pass_eq)
        have u: "red_root (rem_up d t p Red n)" "root_of (rem_up d t p Red n) = Some p"
          by (simp_all add: rem_up_def)
        obtain s3 where 3: "RB_REMOVE_COLOR (par_of ?k1) (Some p) s2 = Some s3"
          "focus s3 [] (plug ?k1 (blacken (rem_up d t p Red n)))"
          "writes_in (addrs (plug ?k1 (rem_up d t p Red n))) s2 s3"
          using RB_REMOVE_COLOR_stop_fix [OF 2(2)] u by auto
        have "addrs (plug ?k1 (rem_up d t p Red n)) = addrs (plug ?k0 t)"
          using s n(5) by (cases n) (auto simp: rem_up_def)
        then have "writes_in (addrs (plug ?k0 t)) s s3"
          using 1(3) 2(3) 3(3) s by (simp add: writes_in_def)
        then show ?thesis
          using REMOVE_COLOR_again [OF f t sib(4) pass] 3 t True b s by auto
      next
        case b: False
        obtain s2 where 2: "rem_black d (Some p) (root_of n) s1 = Some (Some p, RB_ROOT s2, s2, False)"
          "focus s2 ?k1 (rem_end d t p Red n)" "writes_in (addrs (plug (Frame d p Red n # ?k1) t)) s1 s2"
          using rem_black_end [OF 1(2) n(1) b] by blast
        have pass: "rem_pass d (Some p) s = Some (Some p, RB_ROOT s2, s2, False)"
          using 1(1) 2(1) by (simp add: rem_pass_eq)
        obtain s3 where 3: "rem_finish (RB_ROOT s2) s2 = Some s3"
          "focus s3 [] (blacken (plug ?k1 (rem_end d t p Red n)))"
          "writes_in (addrs (plug ?k1 (rem_end d t p Red n))) s2 s3"
          using finish_root [OF 2(2)] by blast
        have "inorder (rem_end d t p Red n) = inorder (node d t p Red n)"
          by (rule rem_end_ok) (use n sib b t rt "2.prems" in auto)
        then have "addrs (rem_end d t p Red n) = addrs (node d t p Red n)"
          by (metis set_inorder)
        then have "writes_in (addrs (plug ?k0 t)) s s3"
          using 1(3) 2(3) 3(3) s by (simp add: writes_in_def)
        then show ?thesis
          using REMOVE_COLOR_break [OF f t sib(4) pass] 3 t True b s by (auto simp: Let_def)
      qed
    next
      case False
      have 1: "rem_red d (Some p) s = Some (root_of sib, s)"
        by (rule rem_red_black [OF f False sib(4)])
      show ?thesis
      proof (cases "nephews_black sib")
        case b: True
        obtain s2 where 2: "rem_black d (Some p) (root_of sib) s = Some (par_of k, Some p, s2, True)"
          "focus s2 k (rem_up d t p pc sib)" "writes_in (addrs (plug ?k0 t)) s s2"
          using rem_black_up [OF f sib(4) b] by blast
        have pass: "rem_pass d (Some p) s = Some (par_of k, Some p, s2, True)"
          using 1 2(1) by (simp add: rem_pass_eq)
        note u = rem_up_ok [OF sib(2,3) False sib(1) b "2.prems"(2) rt t, of d p pc]
        have r: "root_of (rem_up d t p pc sib) = Some p" by (simp add: rem_up_def)
        obtain s3 where 3: "RB_REMOVE_COLOR (par_of k) (Some p) s2 = Some s3"
          "focus s3 [] (rem_fix k (rem_up d t p pc sib))"
          "writes_in (addrs (plug k (rem_up d t p pc sib))) s2 s3"
          using "2.IH" [OF t False b 2(2) u(1,2)] u(3) r "2.prems" by auto
        have "addrs (rem_up d t p pc sib) = addrs (node d t p pc sib)"
          using u(5) by (metis set_inorder)
        then have "writes_in (addrs (plug ?k0 t)) s s3"
          using 2(3) 3(3) by (simp add: writes_in_def)
        then show ?thesis
          using REMOVE_COLOR_again [OF f t sib(4) pass] 3 t False b by auto
      next
        case b: False
        obtain s2 where 2: "rem_black d (Some p) (root_of sib) s = Some (Some p, RB_ROOT s2, s2, False)"
          "focus s2 k (rem_end d t p pc sib)" "writes_in (addrs (plug ?k0 t)) s s2"
          using rem_black_end [OF f False b] by blast
        have pass: "rem_pass d (Some p) s = Some (Some p, RB_ROOT s2, s2, False)"
          using 1 2(1) by (simp add: rem_pass_eq)
        obtain s3 where 3: "rem_finish (RB_ROOT s2) s2 = Some s3"
          "focus s3 [] (blacken (plug k (rem_end d t p pc sib)))"
          "writes_in (addrs (plug k (rem_end d t p pc sib))) s2 s3"
          using finish_root [OF 2(2)] by blast
        have "inorder (rem_end d t p pc sib) = inorder (node d t p pc sib)"
          by (rule rem_end_ok) (use sib b t rt "2.prems" False in auto)
        then have "addrs (rem_end d t p pc sib) = addrs (node d t p pc sib)"
          by (metis set_inorder)
        then have "writes_in (addrs (plug ?k0 t)) s s3"
          using 2(3) 3(3) by (simp add: writes_in_def)
        then show ?thesis
          using REMOVE_COLOR_break [OF f t sib(4) pass] 3 t False b by auto
      qed
    qed
  qed
qed

subsection \<open>Unlinking a node, replacing a node\<close>

lemma unlink_focus:
  assumes "focus s k (Br l a c r)" "ch = (if l = Tip then r else l)" "l = Tip \<or> r = Tip"
  shows "\<exists>s'. rb_unlink (par_of k) (Some a) (root_of ch) s = Some s' \<and> focus s' k ch \<and>
    rb_nodes s' a = rb_nodes s a \<and> writes_in (addrs (plug k (Br l a c r))) s s'"
proof (cases k)
  case Nil
  with assms show ?thesis
    by (cases ch; cases l) (auto simp: focus_def rb_unlink_def rb_exec writes_in_def)
next
  case (Cons f k')
  obtain d p cp u where f: "f = Frame d p cp u" by (cases f)
  show ?thesis using assms unfolding Cons f
    by (cases ch; cases d; cases l) (auto simp: focus_def rb_unlink_def rb_exec writes_in_def disj_simps)
qed

lemma leftmost_focus:
  assumes "focus s k t" "t \<noteq> Tip"
  shows "\<exists>k' m c r. t = plug k' (Br Tip m c r) \<and> lefts k' = [] \<and> rb_leftmost (root_of t) s = Some (Some m)"
  using assms
proof (induction t arbitrary: k)
  case (Br l a c r)
  have e: "rb_leftmost (Some a) s = (if l = Tip then Some (Some a) else rb_leftmost (root_of l) s)"
    using focus_reads(1) [OF Br.prems(1)] by (subst rb_leftmost.simps) auto
  show ?case
  proof (cases "l = Tip")
    case True
    then show ?thesis using e by (intro exI [of _ "[]"]) auto
  next
    case False
    have "focus s (Frame True a c r # k) l" using Br.prems(1) by (simp add: focus_plug)
    then obtain k' m cm mr where *: "l = plug k' (Br Tip m cm mr)" "lefts k' = []"
      "rb_leftmost (root_of l) s = Some (Some m)"
      using Br.IH(1) False by blast
    then show ?thesis using e False
      by (intro exI [of _ "k' @ [Frame True a c r]"] exI [of _ m] exI [of _ cm] exI [of _ mr])
        (simp add: plug_append)
  qed
qed simp

lemma rightmost_focus:
  assumes "focus s k t" "t \<noteq> Tip"
  shows "\<exists>k' m c l. t = plug k' (Br l m c Tip) \<and> rights k' = [] \<and> rb_rightmost (root_of t) s = Some (Some m)"
  using assms
proof (induction t arbitrary: k)
  case (Br l a c r)
  have e: "rb_rightmost (Some a) s = (if r = Tip then Some (Some a) else rb_rightmost (root_of r) s)"
    using focus_reads(2) [OF Br.prems(1)] by (subst rb_rightmost.simps) auto
  show ?case
  proof (cases "r = Tip")
    case True
    then show ?thesis using e by (intro exI [of _ "[]"]) auto
  next
    case False
    have "focus s (Frame False a c l # k) r" using Br.prems(1) by (simp add: focus_plug)
    then obtain k' m cm ml where *: "r = plug k' (Br ml m cm Tip)" "rights k' = []"
      "rb_rightmost (root_of r) s = Some (Some m)"
      using Br.IH(2) False by blast
    then show ?thesis using e False
      by (intro exI [of _ "k' @ [Frame False a c l]"] exI [of _ m] exI [of _ cm] exI [of _ ml])
        (simp add: plug_append)
  qed
qed simp

lemma augment_walk_focus:
  assumes "focus s k t" "k \<noteq> []"
  shows "rb_augment_walk (par_of k) s = Some ()"
  using assms
proof (induction k arbitrary: t)
  case (Cons f k)
  obtain d p cp u where f: "f = Frame d p cp u" by (cases f)
  have "focus s k (node d t p cp u)" using Cons.prems f by (simp add: focus_plug)
  then have "k \<noteq> [] \<Longrightarrow> rb_augment_walk (par_of k) s = Some ()" using Cons.IH by blast
  moreover have "par_of k = NULL \<longleftrightarrow> k = []" by simp
  ultimately show ?case
    using ctx_reads(3) [OF Cons.prems(1) [unfolded f]] f
    by (subst rb_augment_walk.simps) (cases "k = []"; simp del: par_of_eq_NULL not_None_eq)
qed simp

lemma replace_focus:
  assumes "focus s k (Br l a c r)" "l \<noteq> Tip" "m \<in> dom (rb_nodes s)" "m \<notin> addrs (plug k (Br l a c r))"
  shows "\<exists>s'. rb_replace (Some m) (Some a) s = Some s' \<and> focus s' k (Br l m c r) \<and>
    writes_in (insert m (addrs (plug k (Br l a c r)))) s s'"
proof -
  obtain ll b cb lr where l: "l = Br ll b cb lr" using assms(2) by (cases l) auto
  show ?thesis
  proof (cases k)
    case Nil
    with assms l show ?thesis
      by (cases r) (auto simp: focus_def rb_replace_def rb_copy_field_def rb_exec writes_in_def)
  next
    case (Cons f k')
    obtain d p cp u where f: "f = Frame d p cp u" by (cases f)
    show ?thesis using assms unfolding Cons f l
      by (cases d; cases r)
        (auto simp: focus_def rb_replace_def rb_copy_field_def rb_exec writes_in_def disj_simps)
  qed
qed


subsection \<open>Colours after unlinking\<close>

lemma unlink_black:
  assumes "rb_ok (plug k (Br l a Black r))" "ch = (if l = Tip then r else l)" "l = Tip \<or> r = Tip"
  shows "bal ch" "rr_free (blacken ch)" "ctx_bal (bh ch + 1) k" "ctx_rr k"
  using assms unfolding rb_ok_plug by (auto simp: rr_free_blacken)

lemma unlink_red:
  assumes "rb_ok (plug k (Br l a Red r))" "ch = (if l = Tip then r else l)" "l = Tip \<or> r = Tip"
  shows "rb_ok (plug k ch)"
  using assms unfolding rb_ok_plug by (auto split: if_splits)

definition rem_result :: "rb_color \<Rightarrow> ctx \<Rightarrow> rb_tree \<Rightarrow> rb_tree" where
  "rem_result c k ch = (if c = Black then rem_fix k ch else plug k ch)"

lemma rem_result_ok:
  assumes "rb_ok (plug k (Br l a c r))" "ch = (if l = Tip then r else l)" "l = Tip \<or> r = Tip"
  shows "rb_ok (rem_result c k ch) \<and> inorder (rem_result c k ch) = lefts k @ inorder ch @ rights k"
proof (cases c)
  case Black
  note u = unlink_black [OF assms(1) [unfolded Black] assms(2,3)]
  show ?thesis using rem_fix_ok [OF u] Black by (simp add: rem_result_def)
next
  case Red
  then show ?thesis using unlink_red [OF assms(1) [unfolded Red] assms(2,3)] by (simp add: rem_result_def)
qed

text \<open>The end of \<open>RB_REMOVE\<close>, from the label \<open>color\<close>.\<close>

lemma remove_tail:
  assumes "focus s k ch" "rb_ok (plug k (Br l a c r))" "ch = (if l = Tip then r else l)" "l = Tip \<or> r = Tip"
  shows "\<exists>s'. (if color_code c = RB_BLACK then RB_REMOVE_COLOR (par_of k) (root_of ch) s else Some s) = Some s' \<and>
    focus s' [] (rem_result c k ch) \<and> writes_in (addrs (plug k ch)) s s'"
proof (cases c)
  case Black
  note u = unlink_black [OF assms(2) [unfolded Black] assms(3,4)]
  show ?thesis using RB_REMOVE_COLOR_fix [OF assms(1) u] Black by (simp add: rem_result_def)
next
  case Red
  then show ?thesis using assms(1) by (simp add: rem_result_def focus_root [of s k])
qed

lemma ctx_rename:
  "ctx_bal n (k @ Frame d a c s # k') \<longleftrightarrow> ctx_bal n (k @ Frame d b c s # k')"
  "black_above (k @ Frame d a c s # k') \<longleftrightarrow> black_above (k @ Frame d b c s # k')"
  "ctx_rr (k @ Frame d a c s # k') \<longleftrightarrow> ctx_rr (k @ Frame d b c s # k')"
proof -
  show b: "black_above (k @ Frame d a c s # k') \<longleftrightarrow> black_above (k @ Frame d b c s # k')" for k
    by (cases k rule: black_above.cases) auto
  show "ctx_bal n (k @ Frame d a c s # k') \<longleftrightarrow> ctx_bal n (k @ Frame d b c s # k')"
    by (induction n k rule: ctx_bal.induct) auto
  show "ctx_rr (k @ Frame d a c s # k') \<longleftrightarrow> ctx_rr (k @ Frame d b c s # k')"
    using b by (induction k rule: ctx_rr.induct) auto
qed

lemma rb_ok_rename:
  "rb_ok (plug (k @ Frame d a c s # k') t) \<longleftrightarrow> rb_ok (plug (k @ Frame d b c s # k') t)"
  unfolding rb_ok_plug using ctx_rename by metis

subsection \<open>\<open>RB_REMOVE\<close>\<close>

lemma RB_REMOVE_simple:
  assumes f: "focus s k (Br l a c r)" and ok: "rb_ok (plug k (Br l a c r))" and lr: "l = Tip \<or> r = Tip"
  shows "\<exists>s' t'. RB_REMOVE (Some a) s = Some (Some a, s') \<and> focus s' [] t' \<and> rb_ok t' \<and>
    inorder t' = lefts k @ inorder l @ inorder r @ rights k \<and>
    writes_in (addrs (plug k (Br l a c r))) s s'"
proof -
  define ch where "ch = (if l = Tip then r else l)"
  obtain s1 where 1: "rb_unlink (par_of k) (Some a) (root_of ch) s = Some s1" "focus s1 k ch"
    "writes_in (addrs (plug k (Br l a c r))) s s1"
    using unlink_focus [OF f ch_def lr] by blast
  obtain s2 where 2: "(if color_code c = RB_BLACK then RB_REMOVE_COLOR (par_of k) (root_of ch) s1 else Some s1) = Some s2"
    "focus s2 [] (rem_result c k ch)" "writes_in (addrs (plug k ch)) s1 s2"
    using remove_tail [OF 1(2) ok ch_def lr] by blast
  have "(if root_of l = NULL then root_of r else root_of l) = root_of ch"
    using lr by (auto simp: ch_def)
  then have "RB_REMOVE (Some a) s = Some (Some a, s2)"
    using focus_reads [OF f] 1(1) 2(1) lr by (auto simp: RB_REMOVE_def)
  moreover have "writes_in (addrs (plug k (Br l a c r))) s s2"
    using 1(3) 2(3) by (auto simp: writes_in_def ch_def)
  moreover have "inorder ch = inorder l @ inorder r" using lr by (auto simp: ch_def)
  ultimately show ?thesis
    using 2(2) rem_result_ok [OF ok ch_def lr] by auto
qed

lemma RB_REMOVE_two_children:
  assumes f: "focus s k (Br l a c r)" and ok: "rb_ok (plug k (Br l a c r))" and lr: "l \<noteq> Tip" "r \<noteq> Tip"
  shows "\<exists>s' t'. RB_REMOVE (Some a) s = Some (Some a, s') \<and> focus s' [] t' \<and> rb_ok t' \<and>
    inorder t' = lefts k @ inorder l @ inorder r @ rights k \<and>
    writes_in (addrs (plug k (Br l a c r))) s s'"
proof -
  have fr: "focus s (Frame False a c l # k) r" using f by (simp add: focus_plug)
  obtain k2 m cm mr where m: "r = plug k2 (Br Tip m cm mr)" "lefts k2 = []"
    "rb_leftmost (root_of r) s = Some (Some m)"
    using leftmost_focus [OF fr lr(2)] by blast
  let ?ka = "k2 @ Frame False a c l # k" and ?km = "k2 @ Frame False m c l # k"
  have fm: "focus s ?ka (Br Tip m cm mr)" using fr m(1) by (simp add: focus_plug_all)
  obtain s1 where 1: "rb_unlink (par_of ?ka) (Some m) (root_of mr) s = Some s1" "focus s1 ?ka mr"
    "rb_nodes s1 m = rb_nodes s m" "writes_in (addrs (plug ?ka (Br Tip m cm mr))) s s1"
    using unlink_focus [OF fm, of mr] by auto
  have ep: "RB_PARENT (Some m) s1 = Some (par_of ?ka)"
    using focus_reads(3) [OF fm] 1(3) by (simp add: rb_exec)
  have fa: "focus s1 k (Br l a c (plug k2 mr))"
    using 1(2) by (simp add: focus_plug_all focus_plug)
  have fresh: "m \<notin> addrs (plug k (Br l a c (plug k2 mr)))" "a \<notin> ctx_addrs k2" "m \<in> dom (rb_nodes s1)"
    using focus_distinct [OF fm] 1(3) focus_reads(1) [OF fm]
    by (auto simp: ctx_addrs_def plug_append rb_exec simp flip: set_inorder)
  obtain s2 where 2: "rb_replace (Some m) (Some a) s1 = Some s2" "focus s2 k (Br l m c (plug k2 mr))"
    "writes_in (insert m (addrs (plug k (Br l a c (plug k2 mr))))) s1 s2"
    using replace_focus [OF fa lr(1) fresh(3,1)] by blast
  have f2: "focus s2 ?km mr" using 2(2) by (simp add: focus_plug_all focus_plug)
  have okm: "rb_ok (plug ?km (Br Tip m cm mr))"
    using ok m(1) rb_ok_rename [of k2 False a c l k "Br Tip m cm mr" m] by (simp add: plug_append)
  obtain s3 where 3: "(if color_code cm = RB_BLACK then RB_REMOVE_COLOR (par_of ?km) (root_of mr) s2 else Some s2) = Some s3"
    "focus s3 [] (rem_result cm ?km mr)" "writes_in (addrs (plug ?km mr)) s2 s3"
    using remove_tail [OF f2 okm] by auto
  have par: "(if par_of ?ka = Some a then Some m else par_of ?ka) = par_of ?km"
    using fresh(2) by (cases k2 rule: par_of.cases) auto
  have "RB_REMOVE_two (Some a) s = Some (par_of ?km, root_of mr, color_code cm, s2)"
    using focus_reads(2) [OF f] focus_reads [OF fm] m(3) 1(1) ep par 2(1) augment_walk_focus [OF f2]
    by (simp add: RB_REMOVE_two_def)
  then have "RB_REMOVE (Some a) s = Some (Some a, s3)"
    using focus_reads [OF f] 3(1) lr by (simp add: RB_REMOVE_def)
  moreover have "writes_in (addrs (plug k (Br l a c r))) s s3"
    using 1(4) 2(3) 3(3) m(1) by (auto simp: writes_in_def plug_append)
  moreover have "rb_ok (rem_result cm ?km mr) \<and>
      inorder (rem_result cm ?km mr) = lefts ?km @ inorder mr @ rights ?km"
    by (rule rem_result_ok [OF okm]) auto
  moreover have "lefts ?km @ inorder mr @ rights ?km = lefts k @ inorder l @ inorder r @ rights k"
    using m(1,2) by simp
  ultimately show ?thesis using 3(2) by metis
qed

lemma RB_REMOVE_node:
  assumes "focus s [] t" "rb_ok t" "a \<in> addrs t"
  shows "\<exists>s' t'. RB_REMOVE (Some a) s = Some (Some a, s') \<and> focus s' [] t' \<and> rb_ok t' \<and>
    inorder t' = remove1 a (inorder t) \<and> writes_in (addrs t) s s'"
proof -
  obtain k l c r where t: "t = plug k (Br l a c r)"
    using plug_at [OF assms(3)] by blast
  have f: "focus s k (Br l a c r)" using assms(1) t by (simp flip: focus_root)
  have "a \<notin> set (lefts k @ inorder l)" using focus_distinct [OF assms(1)] t by auto
  then have "remove1 a (inorder t) = lefts k @ inorder l @ inorder r @ rights k"
    using t by (simp add: remove1_append)
  then show ?thesis
    using RB_REMOVE_simple [OF f] RB_REMOVE_two_children [OF f] assms(2) t by metis
qed

end
