(* ===== verification/UvRbQuery.thy ===== *)
theory UvRbQuery
  imports UvRbRemove
begin

text \<open>
  Searches, neighbours, extremes and the loop macros of the red-black tree, as operations
  on the ordered list of its nodes. None of them writes.
\<close>

subsection \<open>Searches\<close>

context comparator
begin

lemma key_find_left:
  "key_sorted key (xs @ a # ys) \<Longrightarrow> key x < key a \<Longrightarrow> key_find key x (xs @ a # ys) = key_find key x xs"
proof (induction xs)
  case Nil
  then show ?case using key_find_None [of "a # ys" key x]
    by (auto simp: order_simps key_find_def find_None_iff)
next
  case (Cons b xs)
  then show ?case by (auto simp: order_simps key_find_def)
qed

lemma key_find_right:
  "key_sorted key (xs @ a # ys) \<Longrightarrow> key a < key x \<Longrightarrow> key_find key x (xs @ a # ys) = key_find key x ys"
  by (induction xs) (auto simp: order_simps key_find_def)

lemma RB_FIND_loop_eq:
  assumes "focus s k t" "key_sorted key (inorder t)"
  shows "RB_FIND_loop cmp x (root_of t) s = Some (key_find key x (inorder t))"
  using assms
proof (induction t arbitrary: k)
  case Tip
  then show ?case by (simp add: RB_FIND_loop.simps key_find_def)
next
  case (Br l a c r)
  have fl: "focus s (Frame True a c r # k) l" and fr: "focus s (Frame False a c l # k) r"
    using Br.prems(1) by (simp_all add: focus_plug)
  have so: "key_sorted key (inorder l @ a # inorder r)" using Br.prems(2) by simp
  consider "key x < key a" | "key a < key x" | "key x = key a" by fastforce
  then show ?case
  proof cases
    case 1
    then have "cmp x a < 0" by (simp add: cmp_simps)
    then show ?thesis
      using focus_reads(1) [OF Br.prems(1)] Br.IH(1) [OF fl] so key_find_left [OF so 1]
      by (subst RB_FIND_loop.simps) (simp add: order_simps)
  next
    case 2
    then have "cmp x a > 0" by (simp add: cmp_simps)
    then show ?thesis
      using focus_reads(2) [OF Br.prems(1)] Br.IH(2) [OF fr] so key_find_right [OF so 2]
      by (subst RB_FIND_loop.simps) (simp add: order_simps)
  next
    case 3
    then have "cmp x a = 0" by (simp add: cmp_simps)
    moreover have "key_find key x (inorder l @ a # inorder r) = Some a"
      by (rule key_find_split) (use so 3 in \<open>auto simp: order_simps\<close>)
    ultimately show ?thesis by (subst RB_FIND_loop.simps) simp
  qed
qed

lemma RB_NFIND_loop_eq:
  assumes "focus s k t" "key_sorted key (inorder t)"
  shows "RB_NFIND_loop cmp x (root_of t) res s =
    Some (case key_nfind key x (inorder t) of None \<Rightarrow> res | Some a \<Rightarrow> Some a)"
  using assms
proof (induction t arbitrary: k res)
  case Tip
  then show ?case by (simp add: RB_NFIND_loop.simps key_nfind_def)
next
  case (Br l a c r)
  have fl: "focus s (Frame True a c r # k) l" and fr: "focus s (Frame False a c l # k) r"
    using Br.prems(1) by (simp_all add: focus_plug)
  have so: "key_sorted key (inorder l @ a # inorder r)" using Br.prems(2) by simp
  consider "key x < key a" | "key a < key x" | "key x = key a" by fastforce
  then show ?case
  proof cases
    case 1
    then have "cmp x a < 0" by (simp add: cmp_simps)
    moreover have "key_nfind key x (xs @ a # ys) =
        (case key_nfind key x xs of None \<Rightarrow> Some a | Some b \<Rightarrow> Some b)" for xs ys
      using 1 by (induction xs) (auto simp: key_nfind_def)
    ultimately show ?thesis
      using focus_reads(1) [OF Br.prems(1)] Br.IH(1) [OF fl] so
      by (subst RB_NFIND_loop.simps) (simp add: order_simps split: option.split)
  next
    case 2
    then have "cmp x a > 0" by (simp add: cmp_simps)
    moreover have "key_nfind key x (xs @ a # ys) = key_nfind key x ys"
      if "key_sorted key (xs @ a # ys)" for xs ys
      using 2 that by (induction xs) (auto simp: key_nfind_def order_simps)
    ultimately show ?thesis
      using focus_reads(2) [OF Br.prems(1)] Br.IH(2) [OF fr] so
      by (subst RB_NFIND_loop.simps) (simp add: order_simps)
  next
    case 3
    then have "cmp x a = 0" by (simp add: cmp_simps)
    moreover have "key_nfind key x (inorder l @ a # inorder r) = first_of (a # inorder r)"
      by (rule key_nfind_split) (use so 3 in \<open>auto simp: order_simps\<close>)
    ultimately show ?thesis by (subst RB_NFIND_loop.simps) simp
  qed
qed

end

subsection \<open>Extremes and neighbours\<close>

lemma RB_MINMAX_loop_min:
  assumes "focus s k t"
  shows "RB_MINMAX_loop RB_NEGINF (root_of t) p s = Some (if t = Tip then p else first_of (inorder t))"
  using assms
proof (induction t arbitrary: k p)
  case (Br l a c r)
  have fl: "focus s (Frame True a c r # k) l" using Br.prems by (simp add: focus_plug)
  show ?case
    using focus_reads(1) [OF Br.prems] Br.IH(1) [OF fl]
    by (subst RB_MINMAX_loop.simps) (cases "inorder l"; cases l; simp add: RB_NEGINF_def)
qed (simp add: RB_MINMAX_loop.simps)

lemma RB_MINMAX_loop_max:
  assumes "focus s k t"
  shows "RB_MINMAX_loop RB_INF (root_of t) p s = Some (if t = Tip then p else last_of (inorder t))"
  using assms
proof (induction t arbitrary: k p)
  case (Br l a c r)
  have fr: "focus s (Frame False a c l # k) r" using Br.prems by (simp add: focus_plug)
  show ?case
    using focus_reads(2) [OF Br.prems] Br.IH(2) [OF fr]
    by (subst RB_MINMAX_loop.simps) (cases r; simp add: RB_INF_def last_of_def)
qed (simp add: RB_MINMAX_loop.simps)

lemma climb_right:
  assumes "focus s k t" "t \<noteq> Tip"
  shows "\<exists>e. rb_climb_right (root_of t) s = Some e \<and> RB_PARENT e s = Some (first_of (rights k))"
  using assms
proof (induction k arbitrary: t)
  case Nil
  then obtain l a c r where t: "t = Br l a c r" by (cases t) auto
  have p: "RB_PARENT (Some a) s = Some NULL" using focus_reads(3) [OF Nil(1) [unfolded t]] by simp
  show ?case using t p by (subst rb_climb_right.simps) simp
next
  case (Cons f k)
  obtain d p cp u where f: "f = Frame d p cp u" by (cases f)
  obtain l a c r where t: "t = Br l a c r" using Cons.prems by (cases t) auto
  note fo = Cons.prems(1) [unfolded f]
  have pa: "RB_PARENT (Some a) s = Some (Some p)" using focus_reads(3) [OF fo [unfolded t]] by simp
  show ?case
  proof (cases d)
    case True
    have "Some a \<noteq> root_of u" using focus_fresh [OF fo] t by auto
    then show ?thesis using t f True pa ctx_reads(2) [OF fo] by (subst rb_climb_right.simps) simp
  next
    case False
    have fk: "focus s k (node d t p cp u)" using fo by (simp add: focus_plug)
    have "node d t p cp u \<noteq> Tip" by (cases d) auto
    then obtain e where "rb_climb_right (Some p) s = Some e" "RB_PARENT e s = Some (first_of (rights k))"
      using Cons.IH [OF fk] by auto
    then show ?thesis using t f False pa ctx_reads(2) [OF fo] by (subst rb_climb_right.simps) simp
  qed
qed

lemma climb_left:
  assumes "focus s k t" "t \<noteq> Tip"
  shows "\<exists>e. rb_climb_left (root_of t) s = Some e \<and> RB_PARENT e s = Some (last_of (lefts k))"
  using assms
proof (induction k arbitrary: t)
  case Nil
  then obtain l a c r where t: "t = Br l a c r" by (cases t) auto
  have p: "RB_PARENT (Some a) s = Some NULL" using focus_reads(3) [OF Nil(1) [unfolded t]] by simp
  show ?case using t p by (subst rb_climb_left.simps) simp
next
  case (Cons f k)
  obtain d p cp u where f: "f = Frame d p cp u" by (cases f)
  obtain l a c r where t: "t = Br l a c r" using Cons.prems by (cases t) auto
  note fo = Cons.prems(1) [unfolded f]
  have pa: "RB_PARENT (Some a) s = Some (Some p)" using focus_reads(3) [OF fo [unfolded t]] by simp
  show ?case
  proof (cases d)
    case False
    have "Some a \<noteq> root_of u" using focus_fresh [OF fo] t by auto
    then show ?thesis
      using t f False pa ctx_reads(1) [OF fo] by (subst rb_climb_left.simps) (simp add: last_of_def)
  next
    case True
    have fk: "focus s k (node d t p cp u)" using fo by (simp add: focus_plug)
    have "node d t p cp u \<noteq> Tip" by (cases d) auto
    then obtain e where "rb_climb_left (Some p) s = Some e" "RB_PARENT e s = Some (last_of (lefts k))"
      using Cons.IH [OF fk] by auto
    then show ?thesis using t f True pa ctx_reads(1) [OF fo] by (subst rb_climb_left.simps) simp
  qed
qed

lemma RB_NEXT_focus:
  assumes f: "focus s k (Br l a c r)"
  shows "RB_NEXT (Some a) s = Some (first_of (inorder r @ rights k))"
proof (cases "r = Tip")
  case False
  have fr: "focus s (Frame False a c l # k) r" using f by (simp add: focus_plug)
  obtain k' m cm mr where *: "r = plug k' (Br Tip m cm mr)" "lefts k' = []"
    "rb_leftmost (root_of r) s = Some (Some m)"
    using leftmost_focus [OF fr False] by blast
  then show ?thesis using focus_reads(2) [OF f] False by (simp add: RB_NEXT_def)
next
  case True
  obtain e where e: "rb_climb_right (Some a) s = Some e" "RB_PARENT e s = Some (first_of (rights k))"
    using climb_right [OF f] by auto
  show ?thesis
  proof (cases k)
    case Nil
    then show ?thesis using True e focus_reads [OF f] by (simp add: RB_NEXT_def)
  next
    case (Cons g k')
    obtain d p cp u where g: "g = Frame d p cp u" by (cases g)
    note fo = f [unfolded Cons g]
    have "Some a \<noteq> root_of u" using focus_fresh [OF fo] by auto
    then show ?thesis
      using True e focus_reads [OF f] ctx_reads [OF fo] Cons g by (auto simp: RB_NEXT_def)
  qed
qed

lemma RB_PREV_focus:
  assumes f: "focus s k (Br l a c r)"
  shows "RB_PREV (Some a) s = Some (last_of (lefts k @ inorder l))"
proof (cases "l = Tip")
  case False
  have fl: "focus s (Frame True a c r # k) l" using f by (simp add: focus_plug)
  obtain k' m cm ml where *: "l = plug k' (Br ml m cm Tip)" "rights k' = []"
    "rb_rightmost (root_of l) s = Some (Some m)"
    using rightmost_focus [OF fl False] by blast
  then show ?thesis
    using focus_reads(1) [OF f] False by (simp add: RB_PREV_def last_of_def)
next
  case True
  obtain e where e: "rb_climb_left (Some a) s = Some e" "RB_PARENT e s = Some (last_of (lefts k))"
    using climb_left [OF f] by auto
  show ?thesis
  proof (cases k)
    case Nil
    then show ?thesis using True e focus_reads [OF f] by (simp add: RB_PREV_def)
  next
    case (Cons g k')
    obtain d p cp u where g: "g = Frame d p cp u" by (cases g)
    note fo = f [unfolded Cons g]
    have "Some a \<noteq> root_of u" using focus_fresh [OF fo] by auto
    then show ?thesis
      using True e focus_reads [OF f] ctx_reads [OF fo] Cons g
      by (auto simp: RB_PREV_def last_of_def)
  qed
qed

end
