(* ===== verification/OrderedIndex.thy ===== *)
theory OrderedIndex
  imports Prelude
begin

text \<open>
  The contract that both trees of \<open>uv/tree.h\<close> offer to a client: a set of nodes with
  distinct keys, seen as the list of its nodes in key order. The locale \<open>ordered_index\<close>
  has the operations a client calls and the laws they obey; what a client may conclude
  (every reachable state is a sorted set, no operation fails, what a lookup returns after
  an insertion or a removal) is proved once here, and holds of the red-black tree and of
  the splay tree by interpretation.
\<close>

text \<open>
  The states a client can reach: from an empty tree, inserting allocated nodes, looking
  keys up, and removing nodes that a lookup returned.
\<close>

inductive index_reach ::
    "('s \<Rightarrow> bool) \<Rightarrow> (addr \<Rightarrow> 's \<Rightarrow> bool) \<Rightarrow> (addr \<Rightarrow> 's \<Rightarrow> (ptr \<times> 's) option) \<Rightarrow>
     (addr \<Rightarrow> 's \<Rightarrow> (ptr \<times> 's) option) \<Rightarrow> (addr \<Rightarrow> 's \<Rightarrow> (ptr \<times> 's) option) \<Rightarrow> 's \<Rightarrow> bool"
  for empty alloc ins look del where
  reach_empty: "empty s \<Longrightarrow> index_reach empty alloc ins look del s"
| reach_insert: "index_reach empty alloc ins look del s \<Longrightarrow> alloc x s \<Longrightarrow> ins x s = Some (r, s') \<Longrightarrow>
     index_reach empty alloc ins look del s'"
| reach_lookup: "index_reach empty alloc ins look del s \<Longrightarrow> look x s = Some (r, s') \<Longrightarrow>
     index_reach empty alloc ins look del s'"
| reach_remove: "index_reach empty alloc ins look del s \<Longrightarrow> look x s = Some (Some a, s') \<Longrightarrow>
     del a s' = Some (r, s'') \<Longrightarrow> index_reach empty alloc ins look del s''"

locale ordered_index =
  fixes empty :: "'s \<Rightarrow> bool"
    and alloc :: "addr \<Rightarrow> 's \<Rightarrow> bool"
    and ins look del :: "addr \<Rightarrow> 's \<Rightarrow> (ptr \<times> 's) option"
    and holds :: "'s \<Rightarrow> addr list \<Rightarrow> bool"
    and key :: "addr \<Rightarrow> 'k::linorder"
  assumes holds_empty: "empty s \<Longrightarrow> holds s []"
    and holds_sorted: "holds s xs \<Longrightarrow> key_sorted key xs"
    and insert_new: "holds s xs \<Longrightarrow> alloc x s \<Longrightarrow> \<forall>a\<in>set xs. key a \<noteq> key x \<Longrightarrow>
      \<exists>s'. ins x s = Some (NULL, s') \<and> holds s' (key_insert key x xs)"
    and insert_old: "holds s xs \<Longrightarrow> alloc x s \<Longrightarrow> y \<in> set xs \<Longrightarrow> key y = key x \<Longrightarrow>
      \<exists>s'. ins x s = Some (Some y, s') \<and> holds s' xs"
    and lookup: "holds s xs \<Longrightarrow> \<exists>s'. look x s = Some (key_find key x xs, s') \<and> holds s' xs"
    and remove: "holds s xs \<Longrightarrow> a \<in> set xs \<Longrightarrow>
      \<exists>s'. del a s = Some (Some a, s') \<and> holds s' (remove1 a xs)"
begin

lemma insert_any:
  assumes "holds s xs" "alloc x s"
  shows "\<exists>r s' xs'. ins x s = Some (r, s') \<and> holds s' xs' \<and>
    (if \<exists>y\<in>set xs. key y = key x then xs' = xs \<and> r = key_find key x xs
     else xs' = key_insert key x xs \<and> r = NULL)"
proof (cases "\<exists>y\<in>set xs. key y = key x")
  case True
  then obtain y where y: "y \<in> set xs" "key y = key x" by blast
  then obtain us vs where xs: "xs = us @ y # vs" by (meson split_list)
  have "key_find key x xs = Some y"
    unfolding xs by (rule key_find_split) (use holds_sorted [OF assms(1)] xs y in \<open>auto simp: order_simps\<close>)
  then show ?thesis using insert_old [OF assms y] True by auto
next
  case False
  then show ?thesis using insert_new [OF assms] by auto
qed

lemma found_in: "key_find key x xs = Some a \<Longrightarrow> a \<in> set xs \<and> key a = key x"
  by (induction xs) (auto simp: key_find_def split: if_splits)

lemma reach_holds: "index_reach empty alloc ins look del s \<Longrightarrow> \<exists>xs. holds s xs"
proof (induction rule: index_reach.induct)
  case (reach_empty s)
  then show ?case using holds_empty by blast
next
  case (reach_insert s x r s')
  then obtain xs where "holds s xs" by blast
  from insert_any [OF this reach_insert.hyps(2)] reach_insert.hyps(3) show ?case by auto
next
  case (reach_lookup s x r s')
  then obtain xs where "holds s xs" by blast
  from lookup [OF this, of x] reach_lookup.hyps(2) show ?case by auto
next
  case (reach_remove s x a s' r s'')
  then obtain xs where "holds s xs" by blast
  from lookup [OF this, of x] reach_remove.hyps(2) have "holds s' xs" "key_find key x xs = Some a"
    by auto
  then have h: "holds s' xs" "a \<in> set xs" using found_in by blast+
  from remove [OF this] reach_remove.hyps(3) show ?case by auto
qed

text \<open>No operation fails in a reachable state, and the nodes stay sorted by key.\<close>

lemma reach_safe:
  assumes "index_reach empty alloc ins look del s"
  shows "\<exists>xs. holds s xs \<and> key_sorted key xs \<and>
    (\<forall>x. alloc x s \<longrightarrow> (\<exists>r s'. ins x s = Some (r, s'))) \<and>
    (\<forall>x. \<exists>s'. look x s = Some (key_find key x xs, s') \<and>
       (\<forall>a. key_find key x xs = Some a \<longrightarrow> (\<exists>s''. del a s' = Some (Some a, s''))))"
proof -
  obtain xs where xs: "holds s xs" using reach_holds [OF assms] by blast
  have "\<exists>s'. look x s = Some (key_find key x xs, s') \<and>
       (\<forall>a. key_find key x xs = Some a \<longrightarrow> (\<exists>s''. del a s' = Some (Some a, s'')))" for x
    using lookup [OF xs, of x] remove found_in by metis
  then show ?thesis
    using xs holds_sorted [OF xs] insert_any [OF xs] by metis
qed

text \<open>What a lookup returns after an insertion or a removal.\<close>

lemma find_after_insert:
  "key_sorted key xs \<Longrightarrow> \<forall>a\<in>set xs. key a \<noteq> key x \<Longrightarrow>
   key_find key y (key_insert key x xs) = (if key y = key x then Some x else key_find key y xs)"
  by (induction xs) (auto simp: order_simps key_find_def)

lemma find_after_remove:
  "key_sorted key xs \<Longrightarrow> a \<in> set xs \<Longrightarrow>
   key_find key y (remove1 a xs) = (if key y = key a then NULL else key_find key y xs)"
proof (induction xs)
  case (Cons b xs)
  show ?case
  proof (cases "a = b")
    case True
    then have "\<forall>c\<in>set xs. key c \<noteq> key b" using Cons.prems(1) by (auto simp: order_simps)
    then show ?thesis using True key_find_None [of xs key y] by (auto simp: key_find_def)
  next
    case False
    then have "key b < key a" using Cons.prems by (auto simp: order_simps)
    then show ?thesis using Cons False by (auto simp: order_simps key_find_def)
  qed
qed simp

lemma lookup_after_insert:
  assumes "holds s xs" "alloc x s" "\<forall>a\<in>set xs. key a \<noteq> key x"
  shows "\<exists>s' s''. ins x s = Some (NULL, s') \<and>
    look y s' = Some (if key y = key x then Some x else key_find key y xs, s'')"
proof -
  obtain s' where s': "ins x s = Some (NULL, s')" "holds s' (key_insert key x xs)"
    using insert_new [OF assms] by blast
  then show ?thesis
    using lookup [OF s'(2), of y] find_after_insert [OF holds_sorted [OF assms(1)] assms(3), of y] by auto
qed

lemma lookup_after_remove:
  assumes "holds s xs" "a \<in> set xs"
  shows "\<exists>s' s''. del a s = Some (Some a, s') \<and>
    look y s' = Some (if key y = key a then NULL else key_find key y xs, s'')"
proof -
  obtain s' where s': "del a s = Some (Some a, s')" "holds s' (remove1 a xs)"
    using remove [OF assms] by blast
  then show ?thesis
    using lookup [OF s'(2), of y] find_after_remove [OF holds_sorted [OF assms(1)] assms(2), of y] by auto
qed

end

end
