(* ===== verification/UvRb.thy ===== *)
theory UvRb
  imports UvRbQuery OrderedIndex
begin

text \<open>
  The red-black tree as its client sees it: \<open>rb_holds s xs\<close> says that the state holds a
  red-black tree whose nodes are \<open>xs\<close> in order. The properties of the component.
\<close>

definition rb_holds :: "rb_state \<Rightarrow> addr list \<Rightarrow> bool" where
  "rb_holds s xs \<longleftrightarrow> (\<exists>t. focus s [] t \<and> rb_ok t \<and> inorder t = xs)"

definition rb_index :: "(addr \<Rightarrow> 'k::linorder) \<Rightarrow> rb_state \<Rightarrow> addr list \<Rightarrow> bool" where
  "rb_index key s xs \<longleftrightarrow> rb_holds s xs \<and> key_sorted key xs"

definition rb_alloc :: "addr \<Rightarrow> rb_state \<Rightarrow> bool" where
  "rb_alloc x s \<longleftrightarrow> x \<in> dom (rb_nodes s)"

definition rb_lookup :: "(addr \<Rightarrow> addr \<Rightarrow> int) \<Rightarrow> addr \<Rightarrow> rb_state \<Rightarrow> (ptr \<times> rb_state) option" where
  "rb_lookup cmp x s = map_option (\<lambda>p. (p, s)) (RB_FIND cmp x s)"

definition rb_remove :: "addr \<Rightarrow> rb_state \<Rightarrow> (ptr \<times> rb_state) option" where
  "rb_remove a = RB_REMOVE (Some a)"

lemma rb_holds_init: "RB_EMPTY s \<Longrightarrow> rb_holds s []"
  by (auto simp: rb_holds_def focus_def rb_ok_def RB_EMPTY_def RB_ROOT_def intro!: exI [of _ Tip])

lemma rb_holds_remove:
  assumes "rb_holds s xs" "a \<in> set xs"
  shows "\<exists>s'. RB_REMOVE (Some a) s = Some (Some a, s') \<and> rb_holds s' (remove1 a xs) \<and> writes_in (set xs) s s'"
proof -
  obtain t where t: "focus s [] t" "rb_ok t" "inorder t = xs" using assms(1) by (auto simp: rb_holds_def)
  then have "a \<in> addrs t" "addrs t = set xs" using assms(2) set_inorder [of t] by auto
  then show ?thesis using RB_REMOVE_node [OF t(1,2)] t(3) by (metis rb_holds_def)
qed

lemma rb_holds_root: "rb_holds s xs \<Longrightarrow> \<exists>t. focus s [] t \<and> rb_ok t \<and> inorder t = xs \<and> RB_ROOT s = root_of t"
  by (auto simp: rb_holds_def focus_def RB_ROOT_def)

context comparator
begin

lemma rb_insert_new:
  assumes "rb_holds s xs" "key_sorted key xs" "x \<in> dom (rb_nodes s)" "\<forall>a\<in>set xs. key a \<noteq> key x"
  shows "\<exists>s'. RB_INSERT cmp x s = Some (NULL, s') \<and> rb_holds s' (key_insert key x xs) \<and>
    writes_in (insert x (set xs)) s s'"
proof -
  obtain t where t: "focus s [] t" "rb_ok t" "inorder t = xs" using assms(1) by (auto simp: rb_holds_def)
  moreover have "addrs t = set xs" using t(3) set_inorder [of t] by simp
  ultimately show ?thesis using RB_INSERT_new [of s t x] assms(2-4) by (metis rb_holds_def)
qed

lemma rb_insert_old:
  assumes "rb_holds s xs" "key_sorted key xs" "y \<in> set xs" "key y = key x"
  shows "RB_INSERT cmp x s = Some (Some y, s)"
proof -
  obtain t where t: "focus s [] t" "inorder t = xs" using assms(1) by (auto simp: rb_holds_def)
  moreover have "addrs t = set xs" using t(2) set_inorder [of t] by simp
  ultimately show ?thesis using RB_INSERT_old [of s t y x] assms(2-4) by simp
qed

lemma rb_find:
  assumes "rb_holds s xs" "key_sorted key xs"
  shows "RB_FIND cmp x s = Some (key_find key x xs)"
  using rb_holds_root [OF assms(1)] assms(2) RB_FIND_loop_eq by (auto simp: RB_FIND_def)

lemma rb_nfind:
  assumes "rb_holds s xs" "key_sorted key xs"
  shows "RB_NFIND cmp x s = Some (key_nfind key x xs)"
  using rb_holds_root [OF assms(1)] assms(2) RB_NFIND_loop_eq [of s "[]"]
  by (auto simp: RB_NFIND_def split: option.split)

lemma rb_ordered_index:
  "ordered_index RB_EMPTY rb_alloc (RB_INSERT cmp) (rb_lookup cmp) rb_remove (rb_index key) key"
proof
  fix s :: rb_state and xs :: "addr list" and x :: addr
  assume h: "rb_index key s xs" and "rb_alloc x s" and "\<forall>a\<in>set xs. key a \<noteq> key x"
  then show "\<exists>s'. RB_INSERT cmp x s = Some (NULL, s') \<and> rb_index key s' (key_insert key x xs)"
    using rb_insert_new [of s xs x] key_sorted_insert [of key xs x] by (auto simp: rb_index_def rb_alloc_def)
next
  fix s :: rb_state and xs :: "addr list" and a :: addr
  assume "rb_index key s xs" and "a \<in> set xs"
  then show "\<exists>s'. rb_remove a s = Some (Some a, s') \<and> rb_index key s' (remove1 a xs)"
    using rb_holds_remove [of s xs a] key_sorted_remove1 [of key xs a] by (auto simp: rb_index_def rb_remove_def)
qed (auto simp: rb_index_def rb_alloc_def rb_lookup_def rb_holds_init rb_find rb_insert_old order_simps)

end

sublocale comparator \<subseteq> rb: ordered_index RB_EMPTY rb_alloc "RB_INSERT cmp" "rb_lookup cmp" rb_remove
    "rb_index key" key
  by (rule rb_ordered_index)

interpretation rb_three_way: ordered_index RB_EMPTY rb_alloc "RB_INSERT (three_way key)"
    "rb_lookup (three_way key)" rb_remove "rb_index key" key for key
  by (rule keyed.rb_ordered_index)

end
