(* ===== verification/UvRbIterate.thy ===== *)
theory UvRbIterate
  imports UvRb
begin

text \<open>
  Iteration over a red-black tree, seen as a list: the successor and the predecessor of a
  node are its neighbours in the list, and the loop macros visit the list from one end to
  the other. \<open>rb_sweep P\<close> is the body that clients of \<open>RB_FOREACH_SAFE\<close> write: it
  removes the visited node when \<open>P\<close> holds and collects what it removed.
\<close>

definition rb_sweep :: "(addr \<Rightarrow> bool) \<Rightarrow> addr \<Rightarrow> addr list \<times> rb_state \<Rightarrow> (addr list \<times> rb_state) option" where
  "rb_sweep P a bs =
     (if P a then do { (_, s) \<leftarrow> RB_REMOVE (Some a) (snd bs); Some (a # fst bs, s) } else Some bs)"

subsection \<open>Neighbours\<close>

lemma rb_holds_distinct: "rb_holds s xs \<Longrightarrow> distinct xs"
  by (auto simp: rb_holds_def dest: focus_distinct)

lemma rb_holds_at:
  assumes "rb_holds s (us @ a # vs)"
  shows "\<exists>k l c r. focus s k (Br l a c r) \<and> us = lefts k @ inorder l \<and> vs = inorder r @ rights k"
proof -
  obtain t where t: "focus s [] t" "inorder t = us @ a # vs" using assms by (auto simp: rb_holds_def)
  then have "a \<in> addrs t" by (metis in_set_conv_decomp set_inorder)
  then obtain k l c r where k: "t = plug k (Br l a c r)" using plug_at by blast
  then have "us @ a # vs = (lefts k @ inorder l) @ a # (inorder r @ rights k)" using t(2) by simp
  then have "us = lefts k @ inorder l \<and> vs = inorder r @ rights k"
    using split_unique rb_holds_distinct [OF assms] by metis
  moreover have "focus s k (Br l a c r)" using t(1) k focus_root by metis
  ultimately show ?thesis by blast
qed

lemma rb_holds_next: "rb_holds s (us @ a # vs) \<Longrightarrow> RB_NEXT (Some a) s = Some (first_of vs)"
  by (auto dest!: rb_holds_at simp: RB_NEXT_focus)

lemma rb_holds_prev: "rb_holds s (us @ a # vs) \<Longrightarrow> RB_PREV (Some a) s = Some (last_of us)"
  by (auto dest!: rb_holds_at simp: RB_PREV_focus)

lemma rb_holds_min: "rb_holds s xs \<Longrightarrow> RB_MIN s = Some (first_of xs)"
  by (auto dest!: rb_holds_root simp: RB_MIN_def RB_MINMAX_def RB_MINMAX_loop_min)

lemma rb_holds_max: "rb_holds s xs \<Longrightarrow> RB_MAX s = Some (last_of xs)"
  by (auto dest!: rb_holds_root simp: RB_MAX_def RB_MINMAX_def RB_MINMAX_loop_max)

subsection \<open>Loops that only read the tree\<close>

lemma foreach_loop_read:
  assumes "rb_holds s (us @ vs)" "\<forall>a\<in>set vs. \<forall>b. f a (b, s) = Some (g a b, s)"
  shows "RB_FOREACH_loop RB_NEXT f (first_of vs) (b, s) = Some (fold g vs b, s)"
  using assms
proof (induction vs arbitrary: us b)
  case Nil
  then show ?case by (simp add: RB_FOREACH_loop.simps)
next
  case (Cons a vs)
  have "rb_holds s ((us @ [a]) @ vs)" using Cons.prems(1) by simp
  from Cons.IH [OF this] Cons.prems show ?case
    by (simp add: RB_FOREACH_loop.simps [of _ _ "Some a"] rb_holds_next)
qed

lemma foreach_loop_read_reverse:
  assumes "rb_holds s (us @ vs)" "\<forall>a\<in>set us. \<forall>b. f a (b, s) = Some (g a b, s)"
  shows "RB_FOREACH_loop RB_PREV f (last_of us) (b, s) = Some (fold g (rev us) b, s)"
  using assms
proof (induction us arbitrary: vs b rule: rev_induct)
  case Nil
  then show ?case by (simp add: RB_FOREACH_loop.simps)
next
  case (snoc a us)
  have "rb_holds s (us @ a # vs)" using snoc.prems(1) by simp
  from snoc.IH [OF this] snoc.prems rb_holds_prev [OF this] show ?case
    by (simp add: RB_FOREACH_loop.simps [of _ _ "Some a"])
qed

subsection \<open>Loops whose body removes nodes\<close>

lemma rb_sweep_holds:
  assumes "rb_holds s (us @ a # vs)"
  shows "\<exists>s'. rb_sweep P a (b, s) = Some ((if P a then a # b else b), s') \<and>
    rb_holds s' (us @ (if P a then vs else a # vs))"
proof (cases "P a")
  case True
  obtain s' where "RB_REMOVE (Some a) s = Some (Some a, s')" "rb_holds s' (remove1 a (us @ a # vs))"
    using rb_holds_remove [OF assms, of a] by auto
  then show ?thesis
    using True rb_holds_distinct [OF assms] by (auto simp: rb_sweep_def remove1_append)
qed (use assms in \<open>auto simp: rb_sweep_def\<close>)

lemma foreach_from_sweep:
  "rb_holds s (us @ vs) \<Longrightarrow>
   \<exists>s'. RB_FOREACH_FROM_loop RB_NEXT (rb_sweep P) (first_of vs) (b, s) = Some (rev (filter P vs) @ b, s') \<and>
     rb_holds s' (us @ filter (\<lambda>a. \<not> P a) vs)"
proof (induction vs arbitrary: us b s)
  case Nil
  then show ?case by (simp add: RB_FOREACH_FROM_loop.simps)
next
  case (Cons a vs)
  obtain s1 where s1: "rb_sweep P a (b, s) = Some ((if P a then a # b else b), s1)"
    "rb_holds s1 (us @ (if P a then vs else a # vs))"
    using rb_sweep_holds [OF Cons.prems] by blast
  have "rb_holds s1 ((us @ (if P a then [] else [a])) @ vs)" using s1(2) by (simp split: if_splits)
  from Cons.IH [OF this] s1(1) rb_holds_next [OF Cons.prems] show ?case
    by (simp add: RB_FOREACH_FROM_loop.simps [of _ _ "Some a"] split: if_splits)
qed

lemma foreach_from_sweep_reverse:
  "rb_holds s (us @ vs) \<Longrightarrow>
   \<exists>s'. RB_FOREACH_FROM_loop RB_PREV (rb_sweep P) (last_of us) (b, s) = Some (filter P us @ b, s') \<and>
     rb_holds s' (filter (\<lambda>a. \<not> P a) us @ vs)"
proof (induction us arbitrary: vs b s rule: rev_induct)
  case Nil
  then show ?case by (simp add: RB_FOREACH_FROM_loop.simps)
next
  case (snoc a us)
  have p: "rb_holds s (us @ a # vs)" using snoc.prems by simp
  obtain s1 where s1: "rb_sweep P a (b, s) = Some ((if P a then a # b else b), s1)"
    "rb_holds s1 (us @ (if P a then vs else a # vs))"
    using rb_sweep_holds [OF p] by blast
  from snoc.IH [OF s1(2)] s1(1) rb_holds_prev [OF p] show ?case
    by (simp add: RB_FOREACH_FROM_loop.simps [of _ _ "Some a"] split: if_splits)
qed

end
