(* ===== verification/UvRbTheorems.thy ===== *)
theory UvRbTheorems
  imports UvRbIterate
begin

text \<open>
  The properties of the red-black tree of \<open>uv/tree.h\<close>. \<open>rb_holds s xs\<close> is the shape
  invariant (well-formed heap, red-black balance) together with the abstraction \<open>xs\<close>;
  a result of the form \<open>op s = Some r\<close> says that the operation returns and never
  dereferences an invalid pointer. \<open>rb_demo\<close> is the state used by the witnesses: three
  nodes in a tree, one more outside.
\<close>

definition rb_demo_nodes :: "addr \<rightharpoonup> rb_entry" where
  "rb_demo_nodes =
     [2 \<mapsto> \<lparr>rbe_left = NULL, rbe_right = NULL, rbe_parent = Some 4, rbe_color = 1\<rparr>,
      4 \<mapsto> \<lparr>rbe_left = Some 2, rbe_right = Some 6, rbe_parent = NULL, rbe_color = 0\<rparr>,
      6 \<mapsto> \<lparr>rbe_left = NULL, rbe_right = NULL, rbe_parent = Some 4, rbe_color = 1\<rparr>,
      7 \<mapsto> \<lparr>rbe_left = Some 99, rbe_right = Some 7, rbe_parent = NULL, rbe_color = 7\<rparr>]"

definition rb_demo :: rb_state where
  "rb_demo = \<lparr>rbh_root = Some 4, rb_nodes = rb_demo_nodes\<rparr>"

abbreviation rb_demo_tree :: rb_tree where
  "rb_demo_tree \<equiv> Br (Br Tip 2 Red Tip) 4 Black (Br Tip 6 Red Tip)"

lemma focus_demo: "focus rb_demo [] rb_demo_tree"
  by (simp add: focus_def rb_demo_def rb_demo_nodes_def RB_RED_def RB_BLACK_def)

lemma rb_holds_demo: "rb_holds rb_demo [2, 4, 6]"
  unfolding rb_holds_def
  by (rule exI [of _ rb_demo_tree]) (simp add: focus_demo rb_ok_def)

lemma rb_demo_alloc: "7 \<in> dom (rb_nodes rb_demo)"
  by (simp add: rb_demo_def rb_demo_nodes_def)

text \<open>Nodes compared by their address.\<close>

abbreviation by_addr :: "addr \<Rightarrow> addr \<Rightarrow> int" where
  "by_addr \<equiv> three_way int"

lemma demo_sorted: "key_sorted int [2, 4, 6]"
  by (simp add: order_simps)

lemma rb_demo_reach:
  "index_reach RB_EMPTY rb_alloc (RB_INSERT by_addr) (rb_lookup by_addr) rb_remove (RB_INIT rb_demo)"
  by (rule reach_empty) (simp add: RB_EMPTY_def RB_ROOT_def RB_INIT_def)

text \<open>
  C1. \<open>RB_INSERT\<close> of an allocated node returns. When its key is not in the tree the result is
  \<open>NULL\<close> and a red-black tree whose nodes are the old ones with the new node at its place in
  key order; the node need not have been initialised, and no address outside the tree and
  the node is written. When the key is in the tree the result is the node that has it, and
  the whole state is as it was.
\<close>

theorem RB_INSERT_correct:
  assumes "comparator cmp key" "rb_holds s xs" "key_sorted key xs" "x \<in> dom (rb_nodes s)"
  shows "\<exists>r s' xs'. RB_INSERT cmp x s = Some (r, s') \<and> rb_holds s' xs' \<and> key_sorted key xs' \<and>
    (if \<exists>y\<in>set xs. key y = key x then r = key_find key x xs \<and> s' = s \<and> xs' = xs
     else r = NULL \<and> xs' = key_insert key x xs \<and> writes_in (insert x (set xs)) s s')"
proof (cases "\<exists>y\<in>set xs. key y = key x")
  case True
  then obtain y where y: "y \<in> set xs" "key y = key x" by blast
  then obtain us vs where xs: "xs = us @ y # vs" by (meson split_list)
  have "key_find key x xs = Some y"
    unfolding xs by (rule key_find_split) (use assms(3) xs y in \<open>auto simp: order_simps\<close>)
  then show ?thesis using comparator.rb_insert_old [OF assms(1-3) y] assms(2,3) True by auto
next
  case False
  then show ?thesis
    using comparator.rb_insert_new [OF assms] key_sorted_insert [OF assms(3)] by auto
qed

theorem RB_INSERT_correct_witness:
  "\<exists>s'. RB_INSERT by_addr 7 rb_demo = Some (NULL, s') \<and> rb_holds s' [2, 4, 6, 7] \<and>
     RB_INSERT (three_way (\<lambda>a. int (a div 2))) 7 rb_demo = Some (Some 6, rb_demo)"
  using RB_INSERT_correct [OF keyed.comparator_axioms rb_holds_demo demo_sorted rb_demo_alloc]
    RB_INSERT_correct [OF keyed.comparator_axioms rb_holds_demo, of "\<lambda>a. int (a div 2)", OF _ rb_demo_alloc]
  by (auto simp: order_simps key_find_def)

text \<open>
  C2. \<open>RB_REMOVE\<close> of a node of the tree returns that node and leaves a red-black tree of
  the other nodes in the same order; only nodes of the tree are written.
\<close>

theorem RB_REMOVE_correct:
  assumes "rb_holds s xs" "a \<in> set xs"
  shows "\<exists>s'. RB_REMOVE (Some a) s = Some (Some a, s') \<and> rb_holds s' (remove1 a xs) \<and>
    writes_in (set xs) s s'"
  by (rule rb_holds_remove [OF assms])

theorem RB_REMOVE_correct_witness:
  "\<exists>s'. RB_REMOVE (Some 4) rb_demo = Some (Some 4, s') \<and> rb_holds s' [2, 6]"
  using RB_REMOVE_correct [OF rb_holds_demo, of 4] by auto

text \<open>
  C3. \<open>RB_FIND\<close> returns the node of the tree whose key equals that of the argument, or
  \<open>NULL\<close> when there is none; \<open>RB_NFIND\<close> returns the first node, in key order, whose key is
  at least that of the argument, or \<open>NULL\<close> when every key is smaller. The argument itself
  need not be in the tree.
\<close>

theorem RB_FIND_correct:
  assumes "comparator cmp key" "rb_holds s xs" "key_sorted key xs"
  shows "RB_FIND cmp x s = Some (key_find key x xs) \<and> RB_NFIND cmp x s = Some (key_nfind key x xs)"
  using comparator.rb_find [OF assms] comparator.rb_nfind [OF assms] by blast

theorem RB_FIND_correct_witness:
  "RB_FIND by_addr 6 rb_demo = Some (Some 6) \<and> RB_FIND by_addr 5 rb_demo = Some NULL \<and>
   RB_NFIND by_addr 5 rb_demo = Some (Some 6) \<and> RB_NFIND by_addr 8 rb_demo = Some NULL"
  using RB_FIND_correct [OF keyed.comparator_axioms rb_holds_demo demo_sorted]
  by (simp add: key_find_def key_nfind_def)

text \<open>
  C4. \<open>RB_NEXT\<close> and \<open>RB_PREV\<close> of a node of the tree are its neighbours in key order,
  \<open>NULL\<close> at the ends; \<open>RB_MIN\<close> and \<open>RB_MAX\<close> are the ends, \<open>NULL\<close> for the empty tree.
\<close>

theorem RB_NEXT_PREV_correct:
  assumes "rb_holds s (us @ a # vs)"
  shows "RB_NEXT (Some a) s = Some (first_of vs) \<and> RB_PREV (Some a) s = Some (last_of us) \<and>
    RB_MIN s = Some (first_of (us @ [a])) \<and> RB_MAX s = Some (last_of (a # vs))"
  using rb_holds_next [OF assms] rb_holds_prev [OF assms] rb_holds_min [OF assms] rb_holds_max [OF assms]
  by (simp add: first_of_append last_of_append)

theorem RB_NEXT_PREV_correct_witness:
  "RB_NEXT (Some 2) rb_demo = Some (Some 4) \<and> RB_PREV (Some 2) rb_demo = Some NULL \<and>
   RB_MAX rb_demo = Some (Some 6)"
  using RB_NEXT_PREV_correct [of rb_demo "[]" 2 "[4, 6]"] rb_holds_demo by (simp add: last_of_def)

text \<open>
  C5. \<open>RB_FOREACH\<close> and \<open>RB_FOREACH_REVERSE\<close> run a body that leaves the tree alone once
  on every node, in key order and in the opposite order. \<open>RB_FOREACH_SAFE\<close> and
  \<open>RB_FOREACH_REVERSE_SAFE\<close> allow the body to remove the visited node: they visit every node
  once, in order, and the nodes that the body did not remove are still a red-black tree.
\<close>

theorem RB_FOREACH_correct:
  assumes "rb_holds s xs" "\<forall>a\<in>set xs. \<forall>b. f a (b, s) = Some (g a b, s)"
  shows "RB_FOREACH f (b, s) = Some (fold g xs b, s) \<and>
    RB_FOREACH_REVERSE f (b, s) = Some (fold g (rev xs) b, s) \<and>
    (\<exists>s1 s2.
      RB_FOREACH_SAFE (rb_sweep P) ([], s) = Some (rev (filter P xs), s1) \<and>
      rb_holds s1 (filter (\<lambda>a. \<not> P a) xs) \<and>
      RB_FOREACH_REVERSE_SAFE (rb_sweep P) ([], s) = Some (filter P xs, s2) \<and>
      rb_holds s2 (filter (\<lambda>a. \<not> P a) xs))"
proof -
  note ends = rb_holds_min [OF assms(1)] rb_holds_max [OF assms(1)]
  have "RB_FOREACH f (b, s) = Some (fold g xs b, s)" "RB_FOREACH_REVERSE f (b, s) = Some (fold g (rev xs) b, s)"
    using ends foreach_loop_read [of s "[]" xs f g b] foreach_loop_read_reverse [of s xs "[]" f g b] assms
    by (simp_all add: RB_FOREACH_def RB_FOREACH_REVERSE_def)
  moreover have "\<exists>s1 s2. RB_FOREACH_SAFE (rb_sweep P) ([], s) = Some (rev (filter P xs), s1) \<and>
      rb_holds s1 (filter (\<lambda>a. \<not> P a) xs) \<and>
      RB_FOREACH_REVERSE_SAFE (rb_sweep P) ([], s) = Some (filter P xs, s2) \<and>
      rb_holds s2 (filter (\<lambda>a. \<not> P a) xs)"
    using foreach_from_sweep [of s "[]" xs P "[]"] foreach_from_sweep_reverse [of s xs "[]" P "[]"] ends assms(1)
    by (auto simp: RB_FOREACH_SAFE_def RB_FOREACH_REVERSE_SAFE_def)
  ultimately show ?thesis by blast
qed

theorem RB_FOREACH_correct_witness:
  "RB_FOREACH (\<lambda>a bs. Some (a # fst bs, snd bs)) ([], rb_demo) = Some ([6, 4, 2], rb_demo) \<and>
   (\<exists>s1. RB_FOREACH_SAFE (rb_sweep (\<lambda>a. a < 5)) ([], rb_demo) = Some ([4, 2], s1) \<and> rb_holds s1 [6])"
  using RB_FOREACH_correct [OF rb_holds_demo, of "\<lambda>a bs. Some (a # fst bs, snd bs)" "(#)" "[]" "\<lambda>a. a < 5"]
  by auto

text \<open>
  C6. Every state that a client can reach from an empty tree by inserting allocated nodes,
  looking keys up and removing found nodes is a tree sorted by key, and in it no such
  operation fails.
\<close>

theorem rb_reachable_safe:
  assumes "comparator cmp key"
    "index_reach RB_EMPTY rb_alloc (RB_INSERT cmp) (rb_lookup cmp) rb_remove s"
  shows "\<exists>xs. rb_holds s xs \<and> key_sorted key xs \<and>
    (\<forall>x. rb_alloc x s \<longrightarrow> (\<exists>r s'. RB_INSERT cmp x s = Some (r, s'))) \<and>
    (\<forall>x. RB_FIND cmp x s = Some (key_find key x xs)) \<and>
    (\<forall>a\<in>set xs. \<exists>s'. RB_REMOVE (Some a) s = Some (Some a, s'))"
  using ordered_index.reach_safe [OF comparator.rb_ordered_index [OF assms(1)] assms(2)]
    comparator.rb_find [OF assms(1)] rb_holds_remove
  by (metis rb_index_def)

theorem rb_reachable_safe_witness:
  "\<exists>xs. rb_holds (RB_INIT rb_demo) xs \<and> (\<exists>r s'. RB_INSERT by_addr 4 (RB_INIT rb_demo) = Some (r, s'))"
  using rb_reachable_safe [OF keyed.comparator_axioms rb_demo_reach]
  by (auto simp: rb_alloc_def RB_INIT_def rb_demo_def rb_demo_nodes_def)

text \<open>
  A lookup sees the last update: after \<open>RB_INSERT\<close> of a node with a new key,
  \<open>RB_FIND\<close> returns that node for its key and what it returned before for every other
  key; after \<open>RB_REMOVE\<close> of a node it returns \<open>NULL\<close> for its key and what it returned
  before for every other key.
\<close>

lemma RB_FIND_after_update:
  assumes "comparator cmp key" "rb_holds s xs" "key_sorted key xs"
    "x \<in> dom (rb_nodes s)" "\<forall>a\<in>set xs. key a \<noteq> key x" "d \<in> set xs"
  shows "\<exists>s1 s2. RB_INSERT cmp x s = Some (NULL, s1) \<and>
      RB_FIND cmp y s1 = (if key y = key x then Some (Some x) else RB_FIND cmp y s) \<and>
      RB_REMOVE (Some d) s = Some (Some d, s2) \<and>
      RB_FIND cmp y s2 = (if key y = key d then Some NULL else RB_FIND cmp y s)"
proof -
  note o = comparator.rb_ordered_index [OF assms(1)]
  have h: "rb_index key s xs" "rb_alloc x s" using assms by (auto simp: rb_index_def rb_alloc_def)
  show ?thesis
    using ordered_index.lookup_after_insert [OF o h assms(5), of y]
      ordered_index.lookup_after_remove [OF o h(1) assms(6), of y]
      comparator.rb_find [OF assms(1-3), of y]
    by (auto simp: rb_lookup_def rb_remove_def)
qed

text \<open>
  C7. The comment's bound, the maximum height is \<open>2 lg (n + 1)\<close>: every tree that a
  client can reach has, for its \<open>n\<close> nodes, a height \<open>h\<close> with \<open>2 ^ h \<le> (n + 1) ^ 2\<close>.
\<close>

theorem rb_reachable_height:
  assumes "comparator cmp key"
    "index_reach RB_EMPTY rb_alloc (RB_INSERT cmp) (rb_lookup cmp) rb_remove s"
  shows "\<exists>t. focus s [] t \<and> 2 ^ rb_height t \<le> (length (inorder t) + 1) ^ 2"
proof -
  obtain xs where "rb_index key s xs"
    using ordered_index.reach_holds [OF comparator.rb_ordered_index [OF assms(1)] assms(2)] by blast
  then show ?thesis using rb_height_bound by (auto simp: rb_index_def rb_holds_def)
qed

theorem rb_reachable_height_witness:
  "\<exists>t. focus (RB_INIT rb_demo) [] t \<and> 2 ^ rb_height t \<le> (length (inorder t) + 1) ^ 2"
  by (rule rb_reachable_height [OF keyed.comparator_axioms rb_demo_reach])

text \<open>
  The rotations are inverse to each other on the memory, not only on the abstract
  tree: at a node of a well-formed tree, wherever it is, rotating left and then right at
  the child that came up restores every field of every node and the root pointer.
\<close>

lemma RB_ROTATE_inverse:
  assumes "focus s k (Br A a c (Br B b d C))"
  shows "\<exists>s'. RB_ROTATE_LEFT (Some a) s = Some (Some b, s') \<and>
    focus s' k (Br (Br A a c B) b d C) \<and> RB_ROTATE_RIGHT (Some b) s' = Some (Some a, s)"
  using rotate_left [OF assms] rotate_back_left [OF assms] by auto

end
