(* ===== verification/UvRbTermination.thy ===== *)
theory UvRbTermination
  imports UvRbTheorems
begin







end
