(* ===== verification/UvSplayModel.thy ===== *)
theory UvSplayModel
  imports Prelude
begin

text \<open>
  The splay tree of \<open>node-js/include/node/uv/tree.h\<close> (the \<open>SPLAY_*\<close> macros), as written:
  nodes with left and right pointers, a head with the root pointer. The top-down splay
  builds its two side trees below a local variable \<open>__node\<close>; here that object lives at
  address \<open>0\<close> while the function runs, an address that no object of a C program has.
  A comparison with a \<open>NULL\<close> argument is undefined, as the callback reads its argument.
\<close>

record spl_entry =
  spe_left :: ptr
  spe_right :: ptr

record spl_state =
  sph_root :: ptr
  spl_nodes :: "addr \<rightharpoonup> spl_entry"

definition spl_get :: "(spl_entry \<Rightarrow> 'a) \<Rightarrow> ptr \<Rightarrow> spl_state \<Rightarrow> 'a option" where
  "spl_get f elm s = Option.bind elm (\<lambda>a. map_option f (spl_nodes s a))"

definition spl_put :: "(spl_entry \<Rightarrow> spl_entry) \<Rightarrow> ptr \<Rightarrow> spl_state \<Rightarrow> spl_state option" where
  "spl_put f elm s = do {
     a \<leftarrow> elm;
     e \<leftarrow> spl_nodes s a;
     Some (s\<lparr>spl_nodes := (spl_nodes s)(a \<mapsto> f e)\<rparr>)
   }"

definition SPLAY_LEFT :: "ptr \<Rightarrow> spl_state \<Rightarrow> ptr option" where
  "SPLAY_LEFT = spl_get spe_left"
definition SPLAY_RIGHT :: "ptr \<Rightarrow> spl_state \<Rightarrow> ptr option" where
  "SPLAY_RIGHT = spl_get spe_right"
definition set_SPLAY_LEFT :: "ptr \<Rightarrow> ptr \<Rightarrow> spl_state \<Rightarrow> spl_state option" where
  "set_SPLAY_LEFT elm v = spl_put (spe_left_update (\<lambda>_. v)) elm"
definition set_SPLAY_RIGHT :: "ptr \<Rightarrow> ptr \<Rightarrow> spl_state \<Rightarrow> spl_state option" where
  "set_SPLAY_RIGHT elm v = spl_put (spe_right_update (\<lambda>_. v)) elm"

definition SPLAY_ROOT :: "spl_state \<Rightarrow> ptr" where
  "SPLAY_ROOT s = sph_root s"
definition set_SPLAY_ROOT :: "ptr \<Rightarrow> spl_state \<Rightarrow> spl_state" where
  "set_SPLAY_ROOT p s = s\<lparr>sph_root := p\<rparr>"
definition SPLAY_EMPTY :: "spl_state \<Rightarrow> bool" where
  "SPLAY_EMPTY s \<longleftrightarrow> SPLAY_ROOT s = NULL"
definition SPLAY_INIT :: "spl_state \<Rightarrow> spl_state" where
  "SPLAY_INIT s = set_SPLAY_ROOT NULL s"

definition spl_cmp :: "(addr \<Rightarrow> addr \<Rightarrow> int) \<Rightarrow> addr \<Rightarrow> ptr \<Rightarrow> int option" where
  "spl_cmp cmp elm p = map_option (cmp elm) p"

subsection \<open>Rotations and links\<close>

definition SPLAY_ROTATE_RIGHT :: "ptr \<Rightarrow> spl_state \<Rightarrow> spl_state option" where
  "SPLAY_ROTATE_RIGHT tmp s = do {
     tr \<leftarrow> SPLAY_RIGHT tmp s;
     s \<leftarrow> set_SPLAY_LEFT (SPLAY_ROOT s) tr s;
     s \<leftarrow> set_SPLAY_RIGHT tmp (SPLAY_ROOT s) s;
     Some (set_SPLAY_ROOT tmp s)
   }"

definition SPLAY_ROTATE_LEFT :: "ptr \<Rightarrow> spl_state \<Rightarrow> spl_state option" where
  "SPLAY_ROTATE_LEFT tmp s = do {
     tl \<leftarrow> SPLAY_LEFT tmp s;
     s \<leftarrow> set_SPLAY_RIGHT (SPLAY_ROOT s) tl s;
     s \<leftarrow> set_SPLAY_LEFT tmp (SPLAY_ROOT s) s;
     Some (set_SPLAY_ROOT tmp s)
   }"

text \<open>The link macros assign their argument \<open>tmp\<close>: they return it with the state.\<close>

definition SPLAY_LINKLEFT :: "ptr \<Rightarrow> spl_state \<Rightarrow> (ptr \<times> spl_state) option" where
  "SPLAY_LINKLEFT tmp s = do {
     s \<leftarrow> set_SPLAY_LEFT tmp (SPLAY_ROOT s) s;
     tmp \<leftarrow> Some (SPLAY_ROOT s);
     l \<leftarrow> SPLAY_LEFT (SPLAY_ROOT s) s;
     Some (tmp, set_SPLAY_ROOT l s)
   }"

definition SPLAY_LINKRIGHT :: "ptr \<Rightarrow> spl_state \<Rightarrow> (ptr \<times> spl_state) option" where
  "SPLAY_LINKRIGHT tmp s = do {
     s \<leftarrow> set_SPLAY_RIGHT tmp (SPLAY_ROOT s) s;
     tmp \<leftarrow> Some (SPLAY_ROOT s);
     r \<leftarrow> SPLAY_RIGHT (SPLAY_ROOT s) s;
     Some (tmp, set_SPLAY_ROOT r s)
   }"

definition SPLAY_ASSEMBLE :: "ptr \<Rightarrow> ptr \<Rightarrow> ptr \<Rightarrow> spl_state \<Rightarrow> spl_state option" where
  "SPLAY_ASSEMBLE node left right s = do {
     hl \<leftarrow> SPLAY_LEFT (SPLAY_ROOT s) s;
     s \<leftarrow> set_SPLAY_RIGHT left hl s;
     hr \<leftarrow> SPLAY_RIGHT (SPLAY_ROOT s) s;
     s \<leftarrow> set_SPLAY_LEFT right hr s;
     nr \<leftarrow> SPLAY_RIGHT node s;
     s \<leftarrow> set_SPLAY_LEFT (SPLAY_ROOT s) nr s;
     nl \<leftarrow> SPLAY_LEFT node s;
     set_SPLAY_RIGHT (SPLAY_ROOT s) nl s
   }"

subsection \<open>The splay operation\<close>

text \<open>\<open>struct type __node\<close> with both pointers set to \<open>NULL\<close>, and its end of life.\<close>

definition spl_local :: addr where "spl_local = 0"

definition spl_enter :: "spl_state \<Rightarrow> spl_state" where
  "spl_enter s =
     s\<lparr>spl_nodes := (spl_nodes s)(spl_local \<mapsto> \<lparr>spe_left = NULL, spe_right = NULL\<rparr>)\<rparr>"

definition spl_leave :: "spl_state \<Rightarrow> spl_state" where
  "spl_leave s = s\<lparr>spl_nodes := (spl_nodes s)(spl_local := None)\<rparr>"

text \<open>
  The branches of the loop body for a negative and a positive comparison. \<open>again\<close> is
  \<open>False\<close> when the code leaves the loop by \<open>break\<close>; \<open>c2\<close> is the second comparison.
\<close>

definition spl_go_left ::
    "(ptr \<Rightarrow> int option) \<Rightarrow> ptr \<Rightarrow> spl_state \<Rightarrow> (ptr \<times> spl_state \<times> bool) option" where
  "spl_go_left c2 right s = do {
     tmp \<leftarrow> SPLAY_LEFT (SPLAY_ROOT s) s;
     if tmp = NULL then Some (right, s, False)
     else do {
       c \<leftarrow> c2 tmp;
       (s, stop) \<leftarrow>
         (if c < 0 then do {
            s \<leftarrow> SPLAY_ROTATE_RIGHT tmp s;
            l \<leftarrow> SPLAY_LEFT (SPLAY_ROOT s) s;
            Some (s, l = NULL)
          } else Some (s, False));
       if stop then Some (right, s, False)
       else do {
         (right, s) \<leftarrow> SPLAY_LINKLEFT right s;
         Some (right, s, True)
       }
     }
   }"

definition spl_go_right ::
    "(ptr \<Rightarrow> int option) \<Rightarrow> ptr \<Rightarrow> spl_state \<Rightarrow> (ptr \<times> spl_state \<times> bool) option" where
  "spl_go_right c2 left s = do {
     tmp \<leftarrow> SPLAY_RIGHT (SPLAY_ROOT s) s;
     if tmp = NULL then Some (left, s, False)
     else do {
       c \<leftarrow> c2 tmp;
       (s, stop) \<leftarrow>
         (if c > 0 then do {
            s \<leftarrow> SPLAY_ROTATE_LEFT tmp s;
            r \<leftarrow> SPLAY_RIGHT (SPLAY_ROOT s) s;
            Some (s, r = NULL)
          } else Some (s, False));
       if stop then Some (left, s, False)
       else do {
         (left, s) \<leftarrow> SPLAY_LINKRIGHT left s;
         Some (left, s, True)
       }
     }
   }"

partial_function (option) SPLAY_loop ::
    "(addr \<Rightarrow> addr \<Rightarrow> int) \<Rightarrow> addr \<Rightarrow> ptr \<Rightarrow> ptr \<Rightarrow> spl_state \<Rightarrow> (ptr \<times> ptr \<times> spl_state) option" where
  "SPLAY_loop cmp elm left right s = do {
     cv \<leftarrow> spl_cmp cmp elm (SPLAY_ROOT s);
     if cv < 0 then do {
       (right, s, again) \<leftarrow> spl_go_left (spl_cmp cmp elm) right s;
       if again then SPLAY_loop cmp elm left right s else Some (left, right, s)
     } else if cv > 0 then do {
       (left, s, again) \<leftarrow> spl_go_right (spl_cmp cmp elm) left s;
       if again then SPLAY_loop cmp elm left right s else Some (left, right, s)
     } else Some (left, right, s)
   }"

definition SPLAY :: "(addr \<Rightarrow> addr \<Rightarrow> int) \<Rightarrow> addr \<Rightarrow> spl_state \<Rightarrow> spl_state option" where
  "SPLAY cmp elm s = do {
     s \<leftarrow> Some (spl_enter s);
     (left, right, s) \<leftarrow> SPLAY_loop cmp elm (Some spl_local) (Some spl_local) s;
     s \<leftarrow> SPLAY_ASSEMBLE (Some spl_local) left right s;
     Some (spl_leave s)
   }"

text \<open>
  In \<open>SPLAY_MINMAX\<close> the comparison is the constant \<open>__comp\<close>, in both tests; for
  \<open>__comp = 0\<close> the loop has no exit.
\<close>

partial_function (option) SPLAY_MINMAX_loop ::
    "int \<Rightarrow> ptr \<Rightarrow> ptr \<Rightarrow> spl_state \<Rightarrow> (ptr \<times> ptr \<times> spl_state) option" where
  "SPLAY_MINMAX_loop cv left right s =
     (if cv < 0 then do {
        (right, s, again) \<leftarrow> spl_go_left (\<lambda>_. Some cv) right s;
        if again then SPLAY_MINMAX_loop cv left right s else Some (left, right, s)
      } else if cv > 0 then do {
        (left, s, again) \<leftarrow> spl_go_right (\<lambda>_. Some cv) left s;
        if again then SPLAY_MINMAX_loop cv left right s else Some (left, right, s)
      } else SPLAY_MINMAX_loop cv left right s)"

definition SPLAY_MINMAX :: "int \<Rightarrow> spl_state \<Rightarrow> spl_state option" where
  "SPLAY_MINMAX cv s = do {
     s \<leftarrow> Some (spl_enter s);
     (left, right, s) \<leftarrow> SPLAY_MINMAX_loop cv (Some spl_local) (Some spl_local) s;
     s \<leftarrow> SPLAY_ASSEMBLE (Some spl_local) left right s;
     Some (spl_leave s)
   }"

subsection \<open>Insertion, removal, lookup, iteration\<close>

definition SPLAY_INSERT :: "(addr \<Rightarrow> addr \<Rightarrow> int) \<Rightarrow> addr \<Rightarrow> spl_state \<Rightarrow> (ptr \<times> spl_state) option" where
  "SPLAY_INSERT cmp elm s =
     (if SPLAY_EMPTY s then do {
        s \<leftarrow> set_SPLAY_RIGHT (Some elm) NULL s;
        s \<leftarrow> set_SPLAY_LEFT (Some elm) NULL s;
        Some (NULL, set_SPLAY_ROOT (Some elm) s)
      } else do {
        s \<leftarrow> SPLAY cmp elm s;
        cv \<leftarrow> spl_cmp cmp elm (SPLAY_ROOT s);
        if cv < 0 then do {
          rl \<leftarrow> SPLAY_LEFT (SPLAY_ROOT s) s;
          s \<leftarrow> set_SPLAY_LEFT (Some elm) rl s;
          s \<leftarrow> set_SPLAY_RIGHT (Some elm) (SPLAY_ROOT s) s;
          s \<leftarrow> set_SPLAY_LEFT (SPLAY_ROOT s) NULL s;
          Some (NULL, set_SPLAY_ROOT (Some elm) s)
        } else if cv > 0 then do {
          rr \<leftarrow> SPLAY_RIGHT (SPLAY_ROOT s) s;
          s \<leftarrow> set_SPLAY_RIGHT (Some elm) rr s;
          s \<leftarrow> set_SPLAY_LEFT (Some elm) (SPLAY_ROOT s) s;
          s \<leftarrow> set_SPLAY_RIGHT (SPLAY_ROOT s) NULL s;
          Some (NULL, set_SPLAY_ROOT (Some elm) s)
        } else Some (SPLAY_ROOT s, s)
      })"

definition SPLAY_REMOVE :: "(addr \<Rightarrow> addr \<Rightarrow> int) \<Rightarrow> addr \<Rightarrow> spl_state \<Rightarrow> (ptr \<times> spl_state) option" where
  "SPLAY_REMOVE cmp elm s =
     (if SPLAY_EMPTY s then Some (NULL, s)
      else do {
        s \<leftarrow> SPLAY cmp elm s;
        cv \<leftarrow> spl_cmp cmp elm (SPLAY_ROOT s);
        if cv = 0 then do {
          l \<leftarrow> SPLAY_LEFT (SPLAY_ROOT s) s;
          s \<leftarrow> (if l = NULL then do {
                  r \<leftarrow> SPLAY_RIGHT (SPLAY_ROOT s) s;
                  Some (set_SPLAY_ROOT r s)
                } else do {
                  tmp \<leftarrow> SPLAY_RIGHT (SPLAY_ROOT s) s;
                  l \<leftarrow> SPLAY_LEFT (SPLAY_ROOT s) s;
                  s \<leftarrow> SPLAY cmp elm (set_SPLAY_ROOT l s);
                  set_SPLAY_RIGHT (SPLAY_ROOT s) tmp s
                });
          Some (Some elm, s)
        } else Some (NULL, s)
      })"

definition SPLAY_FIND :: "(addr \<Rightarrow> addr \<Rightarrow> int) \<Rightarrow> addr \<Rightarrow> spl_state \<Rightarrow> (ptr \<times> spl_state) option" where
  "SPLAY_FIND cmp elm s =
     (if SPLAY_EMPTY s then Some (NULL, s)
      else do {
        s \<leftarrow> SPLAY cmp elm s;
        cv \<leftarrow> spl_cmp cmp elm (SPLAY_ROOT s);
        if cv = 0 then Some (SPLAY_ROOT s, s) else Some (NULL, s)
      })"

text \<open>\<open>while (SPLAY_LEFT(elm) != NULL) elm = SPLAY_LEFT(elm);\<close>\<close>

partial_function (option) spl_leftmost :: "ptr \<Rightarrow> spl_state \<Rightarrow> ptr option" where
  "spl_leftmost elm s = do {
     l \<leftarrow> SPLAY_LEFT elm s;
     if l \<noteq> NULL then spl_leftmost l s else Some elm
   }"

definition SPLAY_NEXT :: "(addr \<Rightarrow> addr \<Rightarrow> int) \<Rightarrow> addr \<Rightarrow> spl_state \<Rightarrow> (ptr \<times> spl_state) option" where
  "SPLAY_NEXT cmp elm s = do {
     s \<leftarrow> SPLAY cmp elm s;
     r \<leftarrow> SPLAY_RIGHT (Some elm) s;
     if r \<noteq> NULL then do { elm \<leftarrow> spl_leftmost r s; Some (elm, s) } else Some (NULL, s)
   }"

definition SPLAY_MIN_MAX :: "int \<Rightarrow> spl_state \<Rightarrow> (ptr \<times> spl_state) option" where
  "SPLAY_MIN_MAX val s = do { s \<leftarrow> SPLAY_MINMAX val s; Some (SPLAY_ROOT s, s) }"

definition SPLAY_NEGINF :: int where "SPLAY_NEGINF = -1"
definition SPLAY_INF :: int where "SPLAY_INF = 1"

definition SPLAY_MIN :: "spl_state \<Rightarrow> (ptr \<times> spl_state) option" where
  "SPLAY_MIN s = (if SPLAY_EMPTY s then Some (NULL, s) else SPLAY_MIN_MAX SPLAY_NEGINF s)"
definition SPLAY_MAX :: "spl_state \<Rightarrow> (ptr \<times> spl_state) option" where
  "SPLAY_MAX s = (if SPLAY_EMPTY s then Some (NULL, s) else SPLAY_MIN_MAX SPLAY_INF s)"

partial_function (option) SPLAY_FOREACH_loop ::
    "(addr \<Rightarrow> addr \<Rightarrow> int) \<Rightarrow> (addr \<Rightarrow> 'b \<times> spl_state \<Rightarrow> ('b \<times> spl_state) option) \<Rightarrow>
     ptr \<Rightarrow> 'b \<times> spl_state \<Rightarrow> ('b \<times> spl_state) option" where
  "SPLAY_FOREACH_loop cmp f x bs =
     (case x of
        None \<Rightarrow> Some bs
      | Some a \<Rightarrow> do {
          (b, s) \<leftarrow> f a bs;
          (x, s) \<leftarrow> SPLAY_NEXT cmp a s;
          SPLAY_FOREACH_loop cmp f x (b, s)
        })"

definition SPLAY_FOREACH where
  "SPLAY_FOREACH cmp f bs = do {
     (x, s) \<leftarrow> SPLAY_MIN (snd bs);
     SPLAY_FOREACH_loop cmp f x (fst bs, s)
   }"

end
