(* ===== verification/UvSplayShape.thy ===== *)
theory UvSplayShape
  imports UvSplayModel "HOL-Library.Tree"
begin

text \<open>
  The splay tree's heap as trees. While the top-down splay runs there are three parts: the
  current tree, the left tree (smaller nodes), a right spine that ends in \<open>__left\<close>, and the
  right tree (greater nodes), a left spine that ends in \<open>__right\<close>. A spine is the list of
  its nodes with their finished subtrees, the end of the spine first; the pointer that
  leaves its last node is stale until the next link. \<open>splay_down\<close> is the loop on these
  parts; the theorems here say that the pointer loop computes it.
\<close>

fun spl_root :: "addr tree \<Rightarrow> ptr" where
  "spl_root Leaf = NULL"
| "spl_root (Node l a r) = Some a"

type_synonym spine = "(addr \<times> addr tree) list"

fun spl_tree :: "(addr \<rightharpoonup> spl_entry) \<Rightarrow> addr tree \<Rightarrow> bool" where
  "spl_tree h Leaf \<longleftrightarrow> True"
| "spl_tree h (Node l a r) \<longleftrightarrow>
     h a = Some \<lparr>spe_left = spl_root l, spe_right = spl_root r\<rparr> \<and> spl_tree h l \<and> spl_tree h r"

text \<open>The last node of a spine: \<open>__left\<close> or \<open>__right\<close>.\<close>

fun spine_end :: "spine \<Rightarrow> addr" where
  "spine_end [] = spl_local"
| "spine_end ((a, t) # sp) = a"

fun left_spine :: "(addr \<rightharpoonup> spl_entry) \<Rightarrow> spine \<Rightarrow> bool" where
  "left_spine h [] \<longleftrightarrow> True"
| "left_spine h ((a, l) # sp) \<longleftrightarrow>
     (\<exists>x. h a = Some \<lparr>spe_left = spl_root l, spe_right = x\<rparr>) \<and> spl_tree h l \<and>
     (\<exists>y. h (spine_end sp) = Some \<lparr>spe_left = y, spe_right = Some a\<rparr>) \<and> left_spine h sp"

fun right_spine :: "(addr \<rightharpoonup> spl_entry) \<Rightarrow> spine \<Rightarrow> bool" where
  "right_spine h [] \<longleftrightarrow> True"
| "right_spine h ((a, r) # sp) \<longleftrightarrow>
     (\<exists>x. h a = Some \<lparr>spe_left = x, spe_right = spl_root r\<rparr>) \<and> spl_tree h r \<and>
     (\<exists>y. h (spine_end sp) = Some \<lparr>spe_left = Some a, spe_right = y\<rparr>) \<and> right_spine h sp"

fun plug_left :: "spine \<Rightarrow> addr tree \<Rightarrow> addr tree" where
  "plug_left [] t = t"
| "plug_left ((a, l) # sp) t = plug_left sp (Node l a t)"

fun plug_right :: "spine \<Rightarrow> addr tree \<Rightarrow> addr tree" where
  "plug_right [] t = t"
| "plug_right ((a, r) # sp) t = plug_right sp (Node t a r)"

fun spine_set :: "spine \<Rightarrow> addr set" where
  "spine_set [] = {}"
| "spine_set ((a, t) # sp) = insert a (set_tree t \<union> spine_set sp)"

fun spine_distinct :: "spine \<Rightarrow> bool" where
  "spine_distinct [] \<longleftrightarrow> True"
| "spine_distinct ((a, t) # sp) \<longleftrightarrow>
     a \<notin> set_tree t \<and> a \<notin> spine_set sp \<and> set_tree t \<inter> spine_set sp = {} \<and>
     distinct (inorder t) \<and> spine_distinct sp"

lemma spl_root_NULL [simp]: "spl_root t = NULL \<longleftrightarrow> t = Leaf"
  by (cases t) auto

lemma spine_end_fresh [simp]:
  assumes "a \<notin> spine_set sp" "a \<noteq> spl_local"
  shows "spine_end sp \<noteq> a" "a \<noteq> spine_end sp"
  using assms by (cases sp; auto)+

lemma spine_end_in: "sp \<noteq> [] \<Longrightarrow> spine_end sp \<in> spine_set sp"
  by (cases sp) auto

lemma spl_tree_upd [simp]: "a \<notin> set_tree t \<Longrightarrow> spl_tree (h(a := e)) t = spl_tree h t"
  by (induction t) auto

lemma left_spine_upd [simp]:
  "a \<notin> spine_set sp \<Longrightarrow> a \<noteq> spl_local \<Longrightarrow> left_spine (h(a := e)) sp = left_spine h sp"
  by (induction sp rule: spine_set.induct) auto

lemma right_spine_upd [simp]:
  "a \<notin> spine_set sp \<Longrightarrow> a \<noteq> spl_local \<Longrightarrow> right_spine (h(a := e)) sp = right_spine h sp"
  by (induction sp rule: spine_set.induct) auto

text \<open>The parts of a running splay.\<close>

definition spl_parts :: "spl_state \<Rightarrow> spine \<Rightarrow> addr tree \<Rightarrow> spine \<Rightarrow> bool" where
  "spl_parts s ls t rs \<longleftrightarrow>
     sph_root s = spl_root t \<and> spl_tree (spl_nodes s) t \<and>
     left_spine (spl_nodes s) ls \<and> right_spine (spl_nodes s) rs \<and>
     spl_local \<in> dom (spl_nodes s) \<and>
     spl_local \<notin> set_tree t \<union> spine_set ls \<union> spine_set rs \<and>
     distinct (inorder t) \<and> spine_distinct ls \<and> spine_distinct rs \<and>
     set_tree t \<inter> spine_set ls = {} \<and> set_tree t \<inter> spine_set rs = {} \<and>
     spine_set ls \<inter> spine_set rs = {}"

text \<open>The addresses that a running splay may write, and the frame condition.\<close>

definition parts_set :: "spine \<Rightarrow> addr tree \<Rightarrow> spine \<Rightarrow> addr set" where
  "parts_set ls t rs = insert spl_local (set_tree t \<union> spine_set ls \<union> spine_set rs)"

definition spl_frame :: "addr set \<Rightarrow> spl_state \<Rightarrow> spl_state \<Rightarrow> bool" where
  "spl_frame A s s' \<longleftrightarrow> (\<forall>b. b \<notin> A \<longrightarrow> spl_nodes s' b = spl_nodes s b)"

lemma spl_frame_refl [simp]: "spl_frame A s s"
  by (simp add: spl_frame_def)

lemma spl_frame_trans: "spl_frame A s s' \<Longrightarrow> spl_frame A s' s'' \<Longrightarrow> spl_frame A s s''"
  by (simp add: spl_frame_def)

lemma spl_frame_mono: "spl_frame A s s' \<Longrightarrow> A \<subseteq> B \<Longrightarrow> spl_frame B s s'"
  by (auto simp: spl_frame_def)

lemma spine_end_parts [simp]: "spine_end ls \<in> parts_set ls t rs" "spine_end rs \<in> parts_set ls t rs"
  using spine_end_in [of ls] spine_end_in [of rs] by (cases ls; cases rs; auto simp: parts_set_def)+

lemmas spl_defs = SPLAY_LEFT_def SPLAY_RIGHT_def set_SPLAY_LEFT_def set_SPLAY_RIGHT_def
  SPLAY_ROOT_def set_SPLAY_ROOT_def

lemma spl_get_Some: "spl_get f (Some a) s = map_option f (spl_nodes s a)"
  by (simp add: spl_get_def)

lemma spl_put_Some:
  "spl_nodes s a = Some e \<Longrightarrow> spl_put f (Some a) s = Some (s\<lparr>spl_nodes := (spl_nodes s)(a \<mapsto> f e)\<rparr>)"
  by (simp add: spl_put_def)

lemmas spl_exec = spl_defs spl_get_Some spl_put_Some

subsection \<open>Rotations\<close>

lemma splay_rotate_right:
  assumes "spl_parts s ls (Node (Node ll b lr) a r) rs"
  shows "\<exists>s'. SPLAY_ROTATE_RIGHT (Some b) s = Some s' \<and> spl_parts s' ls (Node ll b (Node lr a r)) rs \<and>
    spl_frame (parts_set ls (Node (Node ll b lr) a r) rs) s s'"
  using assms by (auto simp: spl_parts_def SPLAY_ROTATE_RIGHT_def spl_exec spl_frame_def parts_set_def)

lemma splay_rotate_left:
  assumes "spl_parts s ls (Node l a (Node rl b rr)) rs"
  shows "\<exists>s'. SPLAY_ROTATE_LEFT (Some b) s = Some s' \<and> spl_parts s' ls (Node (Node l a rl) b rr) rs \<and>
    spl_frame (parts_set ls (Node l a (Node rl b rr)) rs) s s'"
  using assms by (auto simp: spl_parts_def SPLAY_ROTATE_LEFT_def spl_exec spl_frame_def parts_set_def)

subsection \<open>Links\<close>

lemma right_spine_end:
  assumes "right_spine h rs" "spl_local \<in> dom h"
  shows "\<exists>x y. h (spine_end rs) = Some \<lparr>spe_left = x, spe_right = y\<rparr>"
  using assms by (cases rs rule: spine_set.cases) (auto, metis spl_entry.cases)

lemma left_spine_end:
  assumes "left_spine h ls" "spl_local \<in> dom h"
  shows "\<exists>x y. h (spine_end ls) = Some \<lparr>spe_left = x, spe_right = y\<rparr>"
  using assms by (cases ls rule: spine_set.cases) (auto, metis spl_entry.cases)

text \<open>
  Writing the stale pointer at the end of a spine leaves that spine as it is, and the other
  one too, even when the end is the local node.
\<close>

lemma right_spine_hook:
  "right_spine h rs \<Longrightarrow> spine_distinct rs \<Longrightarrow> spl_local \<notin> spine_set rs \<Longrightarrow> h (spine_end rs) = Some e \<Longrightarrow>
   right_spine (h(spine_end rs \<mapsto> e\<lparr>spe_left := p\<rparr>)) rs"
  by (cases rs rule: spine_set.cases) auto

lemma left_spine_hook:
  "left_spine h ls \<Longrightarrow> spine_distinct ls \<Longrightarrow> spl_local \<notin> spine_set ls \<Longrightarrow> h (spine_end ls) = Some e \<Longrightarrow>
   left_spine (h(spine_end ls \<mapsto> e\<lparr>spe_right := p\<rparr>)) ls"
  by (cases ls rule: spine_set.cases) auto

lemma left_spine_local:
  "left_spine h ls \<Longrightarrow> spl_local \<notin> spine_set ls \<Longrightarrow> h spl_local = Some e \<Longrightarrow>
   left_spine (h(spl_local \<mapsto> e\<lparr>spe_left := p\<rparr>)) ls"
  by (induction ls rule: spine_set.induct) auto

lemma right_spine_local:
  "right_spine h rs \<Longrightarrow> spl_local \<notin> spine_set rs \<Longrightarrow> h spl_local = Some e \<Longrightarrow>
   right_spine (h(spl_local \<mapsto> e\<lparr>spe_right := p\<rparr>)) rs"
  by (induction rs rule: spine_set.induct) auto

lemma spine_end_notin:
  "spl_local \<notin> A \<Longrightarrow> A \<inter> spine_set sp = {} \<Longrightarrow> spine_end sp \<notin> A"
  by (cases sp rule: spine_set.cases) auto

lemma left_spine_hook_other:
  assumes "left_spine h ls" "spl_local \<notin> spine_set ls" "spl_local \<notin> spine_set rs"
    "h (spine_end rs) = Some e" "spine_set ls \<inter> spine_set rs = {}"
  shows "left_spine (h(spine_end rs \<mapsto> e\<lparr>spe_left := p\<rparr>)) ls"
proof (cases "rs = []")
  case True
  then show ?thesis using left_spine_local assms by simp
next
  case False
  then have "spine_end rs \<notin> spine_set ls" "spine_end rs \<noteq> spl_local"
    using spine_end_in [OF False] assms by auto
  then show ?thesis using assms(1) by simp
qed

lemma right_spine_hook_other:
  assumes "right_spine h rs" "spl_local \<notin> spine_set rs" "spl_local \<notin> spine_set ls"
    "h (spine_end ls) = Some e" "spine_set ls \<inter> spine_set rs = {}"
  shows "right_spine (h(spine_end ls \<mapsto> e\<lparr>spe_right := p\<rparr>)) rs"
proof (cases "ls = []")
  case True
  then show ?thesis using right_spine_local assms by simp
next
  case False
  then have "spine_end ls \<notin> spine_set rs" "spine_end ls \<noteq> spl_local"
    using spine_end_in [OF False] assms by auto
  then show ?thesis using assms(1) by simp
qed

text \<open>Writing the stale pointers leaves the parts as they are.\<close>

lemma hook_right:
  assumes "spl_parts s ls t rs"
  shows "\<exists>s1 y. set_SPLAY_LEFT (Some (spine_end rs)) p s = Some s1 \<and> spl_parts s1 ls t rs \<and>
    spl_nodes s1 (spine_end rs) = Some \<lparr>spe_left = p, spe_right = y\<rparr> \<and>
    (\<forall>b. map_option spe_right (spl_nodes s1 b) = map_option spe_right (spl_nodes s b)) \<and>
    (\<forall>b. b \<noteq> spine_end rs \<longrightarrow> spl_nodes s1 b = spl_nodes s b)"
proof -
  have a: "right_spine (spl_nodes s) rs" "left_spine (spl_nodes s) ls" "spl_local \<in> dom (spl_nodes s)"
    using assms by (auto simp: spl_parts_def)
  obtain x y where e: "spl_nodes s (spine_end rs) = Some \<lparr>spe_left = x, spe_right = y\<rparr>"
    using right_spine_end [OF a(1,3)] by blast
  have "spine_end rs \<notin> set_tree t"
    using assms by (intro spine_end_notin) (auto simp: spl_parts_def)
  then show ?thesis
    using assms e right_spine_hook [OF a(1) _ _ e] left_spine_hook_other [OF a(2) _ _ e]
    by (auto simp: spl_parts_def spl_exec)
qed

lemma hook_left:
  assumes "spl_parts s ls t rs"
  shows "\<exists>s1 y. set_SPLAY_RIGHT (Some (spine_end ls)) p s = Some s1 \<and> spl_parts s1 ls t rs \<and>
    spl_nodes s1 (spine_end ls) = Some \<lparr>spe_left = y, spe_right = p\<rparr> \<and>
    (\<forall>b. map_option spe_left (spl_nodes s1 b) = map_option spe_left (spl_nodes s b)) \<and>
    (\<forall>b. b \<noteq> spine_end ls \<longrightarrow> spl_nodes s1 b = spl_nodes s b)"
proof -
  have a: "right_spine (spl_nodes s) rs" "left_spine (spl_nodes s) ls" "spl_local \<in> dom (spl_nodes s)"
    using assms by (auto simp: spl_parts_def)
  obtain x y where e: "spl_nodes s (spine_end ls) = Some \<lparr>spe_left = x, spe_right = y\<rparr>"
    using left_spine_end [OF a(2,3)] by blast
  have "spine_end ls \<notin> set_tree t"
    using assms by (intro spine_end_notin) (auto simp: spl_parts_def)
  then show ?thesis
    using assms e left_spine_hook [OF a(2) _ _ e] right_spine_hook_other [OF a(1) _ _ e]
    by (auto simp: spl_parts_def spl_exec)
qed

lemma splay_linkleft:
  assumes "spl_parts s ls (Node l a r) rs"
  shows "\<exists>s'. SPLAY_LINKLEFT (Some (spine_end rs)) s = Some (Some a, s') \<and> spl_parts s' ls l ((a, r) # rs) \<and>
    spl_frame (parts_set ls (Node l a r) rs) s s'"
proof -
  obtain s1 y where "set_SPLAY_LEFT (Some (spine_end rs)) (Some a) s = Some s1"
    "spl_parts s1 ls (Node l a r) rs"
    "spl_nodes s1 (spine_end rs) = Some \<lparr>spe_left = Some a, spe_right = y\<rparr>"
    "spl_frame (parts_set ls (Node l a r) rs) s s1"
    using hook_right [OF assms] spine_end_parts unfolding spl_frame_def by metis
  then show ?thesis
    using assms by (auto simp: spl_frame_def spl_parts_def SPLAY_LINKLEFT_def spl_defs spl_get_Some)
qed

lemma splay_linkright:
  assumes "spl_parts s ls (Node l a r) rs"
  shows "\<exists>s'. SPLAY_LINKRIGHT (Some (spine_end ls)) s = Some (Some a, s') \<and> spl_parts s' ((a, l) # ls) r rs \<and>
    spl_frame (parts_set ls (Node l a r) rs) s s'"
proof -
  obtain s1 y where "set_SPLAY_RIGHT (Some (spine_end ls)) (Some a) s = Some s1"
    "spl_parts s1 ls (Node l a r) rs"
    "spl_nodes s1 (spine_end ls) = Some \<lparr>spe_left = y, spe_right = Some a\<rparr>"
    "spl_frame (parts_set ls (Node l a r) rs) s s1"
    using hook_left [OF assms] spine_end_parts unfolding spl_frame_def by metis
  then show ?thesis
    using assms by (auto simp: spl_frame_def spl_parts_def SPLAY_LINKRIGHT_def spl_defs spl_get_Some)
qed

subsection \<open>Assembling the three parts\<close>

lemma plug_left_heap:
  "left_spine h ls \<Longrightarrow> spl_tree h t \<Longrightarrow> map_option spe_right (h (spine_end ls)) = Some (spl_root t) \<Longrightarrow>
   spl_tree h (plug_left ls t) \<and> map_option spe_right (h spl_local) = Some (spl_root (plug_left ls t))"
  by (induction ls t rule: plug_left.induct) auto

lemma plug_right_heap:
  "right_spine h rs \<Longrightarrow> spl_tree h t \<Longrightarrow> map_option spe_left (h (spine_end rs)) = Some (spl_root t) \<Longrightarrow>
   spl_tree h (plug_right rs t) \<and> map_option spe_left (h spl_local) = Some (spl_root (plug_right rs t))"
  by (induction rs t rule: plug_right.induct) auto

lemma set_plug_left [simp]: "set_tree (plug_left ls t) = set_tree t \<union> spine_set ls"
  by (induction ls t rule: plug_left.induct) auto

lemma set_plug_right [simp]: "set_tree (plug_right rs t) = set_tree t \<union> spine_set rs"
  by (induction rs t rule: plug_right.induct) auto

lemma distinct_plug_left:
  "distinct (inorder (plug_left ls t)) \<longleftrightarrow>
     distinct (inorder t) \<and> spine_distinct ls \<and> set_tree t \<inter> spine_set ls = {}"
  by (induction ls t rule: plug_left.induct) auto

lemma distinct_plug_right:
  "distinct (inorder (plug_right rs t)) \<longleftrightarrow>
     distinct (inorder t) \<and> spine_distinct rs \<and> set_tree t \<inter> spine_set rs = {}"
  by (induction rs t rule: plug_right.induct) auto

text \<open>A splay tree at rest.\<close>

definition spl_at :: "spl_state \<Rightarrow> addr tree \<Rightarrow> bool" where
  "spl_at s t \<longleftrightarrow> sph_root s = spl_root t \<and> spl_tree (spl_nodes s) t \<and> distinct (inorder t) \<and>
     spl_local \<notin> set_tree t"

lemma splay_enter: "spl_at s t \<Longrightarrow> spl_parts (spl_enter s) [] t []"
  by (auto simp: spl_at_def spl_parts_def spl_enter_def)

lemma splay_assemble:
  assumes "spl_parts s ls (Node l a r) rs"
  shows "\<exists>s'. SPLAY_ASSEMBLE (Some spl_local) (Some (spine_end ls)) (Some (spine_end rs)) s = Some s' \<and>
    spl_at (spl_leave s') (Node (plug_left ls l) a (plug_right rs r)) \<and>
    spl_frame (parts_set ls (Node l a r) rs) s s'"
proof -
  obtain s1 y where s1: "set_SPLAY_RIGHT (Some (spine_end ls)) (spl_root l) s = Some s1"
    "spl_parts s1 ls (Node l a r) rs"
    "spl_nodes s1 (spine_end ls) = Some \<lparr>spe_left = y, spe_right = spl_root l\<rparr>"
    "spl_frame (parts_set ls (Node l a r) rs) s s1"
    using hook_left [OF assms] spine_end_parts unfolding spl_frame_def by metis
  obtain s2 z where s2: "set_SPLAY_LEFT (Some (spine_end rs)) (spl_root r) s1 = Some s2"
    "spl_parts s2 ls (Node l a r) rs"
    "spl_nodes s2 (spine_end rs) = Some \<lparr>spe_left = spl_root r, spe_right = z\<rparr>"
    "map_option spe_right (spl_nodes s2 (spine_end ls)) = Some (spl_root l)"
    "spl_frame (parts_set ls (Node l a r) rs) s1 s2"
    using hook_right [OF s1(2)] s1(3) spine_end_parts unfolding spl_frame_def
    by (metis option.simps(9) spl_entry.select_convs(2))
  let ?h = "spl_nodes s2"
  have L: "spl_tree ?h (plug_left ls l)" "map_option spe_right (?h spl_local) = Some (spl_root (plug_left ls l))"
    using plug_left_heap [of ?h ls l] s2(2,4) by (auto simp: spl_parts_def)
  have R: "spl_tree ?h (plug_right rs r)" "map_option spe_left (?h spl_local) = Some (spl_root (plug_right rs r))"
    using plug_right_heap [of ?h rs r] s2(2,3) by (auto simp: spl_parts_def)
  have "SPLAY_LEFT (SPLAY_ROOT s) s = Some (spl_root l)" "SPLAY_RIGHT (SPLAY_ROOT s1) s1 = Some (spl_root r)"
    "SPLAY_ROOT s2 = Some a"
    using assms s1(2) s2(2) by (auto simp: spl_parts_def spl_exec)
  then show ?thesis
    using s1(1) s2(1,2) L R s1(4) s2(5)
    by (auto simp: SPLAY_ASSEMBLE_def spl_exec spl_leave_def spl_at_def spl_parts_def
        distinct_plug_left distinct_plug_right spl_frame_def parts_set_def)
qed

end
