(* ===== verification/UvSplayFix.thy ===== *)
theory UvSplayFix
  imports UvSplayShape
begin

text \<open>
  The splay as a function on trees. \<open>splay_down c\<close> is the loop for a comparison \<open>c\<close> of
  the sought key with a node; the pointer loops of \<open>SPLAY\<close> and \<open>SPLAY_MINMAX\<close> compute it
  (the latter with a constant comparison), so both terminate. It keeps the order of the
  nodes, and it brings to the root the node that compares equal, or a neighbour of where
  the key would be.
\<close>

fun splay_down :: "(addr \<Rightarrow> int) \<Rightarrow> spine \<Rightarrow> addr tree \<Rightarrow> spine \<Rightarrow> spine \<times> addr tree \<times> spine" where
  "splay_down c ls Leaf rs = (ls, Leaf, rs)"
| "splay_down c ls (Node l a r) rs =
     (if c a < 0 then
        (case l of
           Leaf \<Rightarrow> (ls, Node l a r, rs)
         | Node ll b lr \<Rightarrow>
             (if c b < 0 then
                (if ll = Leaf then (ls, Node ll b (Node lr a r), rs)
                 else splay_down c ls ll ((b, Node lr a r) # rs))
              else splay_down c ls l ((a, r) # rs)))
      else if c a > 0 then
        (case r of
           Leaf \<Rightarrow> (ls, Node l a r, rs)
         | Node rl b rr \<Rightarrow>
             (if c b > 0 then
                (if rr = Leaf then (ls, Node (Node l a rl) b rr, rs)
                 else splay_down c ((b, Node l a rl) # ls) rr rs)
              else splay_down c ((a, l) # ls) r rs))
      else (ls, Node l a r, rs))"

definition splay_join :: "spine \<times> addr tree \<times> spine \<Rightarrow> addr tree" where
  "splay_join p = (case p of (ls, t, rs) \<Rightarrow>
     (case t of Leaf \<Rightarrow> Leaf | Node l a r \<Rightarrow> Node (plug_left ls l) a (plug_right rs r)))"

definition splay_tree :: "(addr \<Rightarrow> int) \<Rightarrow> addr tree \<Rightarrow> addr tree" where
  "splay_tree c t = splay_join (splay_down c [] t [])"

subsection \<open>The pointer loops compute it\<close>

lemma go_left:
  assumes p: "spl_parts s ls (Node l a r) rs" and c2: "\<And>b. c2 (Some b) = Some (c b)"
  shows "\<exists>s' t' rs' again. spl_go_left c2 (Some (spine_end rs)) s = Some (Some (spine_end rs'), s', again) \<and>
    spl_parts s' ls t' rs' \<and> t' \<noteq> Leaf \<and> (again \<longrightarrow> size t' < size (Node l a r)) \<and>
    spl_frame (parts_set ls (Node l a r) rs) s s' \<and> parts_set ls t' rs' = parts_set ls (Node l a r) rs \<and>
    (c a < 0 \<longrightarrow> (if again then splay_down c ls (Node l a r) rs = splay_down c ls t' rs'
                  else splay_down c ls (Node l a r) rs = (ls, t', rs')))"
proof (cases l)
  case Leaf
  then show ?thesis using p
    by (intro exI [of _ s] exI [of _ "Node l a r"] exI [of _ rs] exI [of _ False])
      (auto simp: spl_go_left_def spl_parts_def spl_exec)
next
  case (Node ll b lr)
  have tmp: "SPLAY_LEFT (SPLAY_ROOT s) s = Some (Some b)"
    using p Node by (auto simp: spl_parts_def spl_exec)
  show ?thesis
  proof (cases "c b < 0")
    case False
    obtain s' where "SPLAY_LINKLEFT (Some (spine_end rs)) s = Some (Some a, s')" "spl_parts s' ls l ((a, r) # rs)"
      "spl_frame (parts_set ls (Node l a r) rs) s s'"
      using splay_linkleft [OF p] by blast
    then show ?thesis
      using False tmp c2 Node
      by (intro exI [of _ s'] exI [of _ l] exI [of _ "(a, r) # rs"] exI [of _ True])
        (auto simp: spl_go_left_def parts_set_def)
  next
    case True
    obtain s1 where s1: "SPLAY_ROTATE_RIGHT (Some b) s = Some s1" "spl_parts s1 ls (Node ll b (Node lr a r)) rs"
      "spl_frame (parts_set ls (Node l a r) rs) s s1"
      using Node splay_rotate_right [OF p [unfolded Node]] by blast
    have same: "parts_set ls (Node ll b (Node lr a r)) rs = parts_set ls (Node l a r) rs"
      using Node by (auto simp: parts_set_def)
    have root: "SPLAY_LEFT (SPLAY_ROOT s1) s1 = Some (spl_root ll)"
      using s1(2) by (auto simp: spl_parts_def spl_exec)
    show ?thesis
    proof (cases "ll = Leaf")
      case True
      then show ?thesis
        using s1 root tmp c2 Node \<open>c b < 0\<close>
        by (intro exI [of _ s1] exI [of _ "Node ll b (Node lr a r)"] exI [of _ rs] exI [of _ False])
          (auto simp: spl_go_left_def parts_set_def)
    next
      case False
      obtain s' where "SPLAY_LINKLEFT (Some (spine_end rs)) s1 = Some (Some b, s')"
        "spl_parts s' ls ll ((b, Node lr a r) # rs)"
        "spl_frame (parts_set ls (Node l a r) rs) s s'"
        using splay_linkleft [OF s1(2)] s1(3) unfolding same by (blast intro: spl_frame_trans)
      then show ?thesis
        using False s1 root tmp c2 Node \<open>c b < 0\<close>
        by (intro exI [of _ s'] exI [of _ ll] exI [of _ "(b, Node lr a r) # rs"] exI [of _ True])
          (auto simp: spl_go_left_def parts_set_def)
    qed
  qed
qed

lemma go_right:
  assumes p: "spl_parts s ls (Node l a r) rs" and c2: "\<And>b. c2 (Some b) = Some (c b)"
  shows "\<exists>s' t' ls' again. spl_go_right c2 (Some (spine_end ls)) s = Some (Some (spine_end ls'), s', again) \<and>
    spl_parts s' ls' t' rs \<and> t' \<noteq> Leaf \<and> (again \<longrightarrow> size t' < size (Node l a r)) \<and>
    spl_frame (parts_set ls (Node l a r) rs) s s' \<and> parts_set ls' t' rs = parts_set ls (Node l a r) rs \<and>
    (c a > 0 \<longrightarrow> (if again then splay_down c ls (Node l a r) rs = splay_down c ls' t' rs
                  else splay_down c ls (Node l a r) rs = (ls', t', rs)))"
proof (cases r)
  case Leaf
  then show ?thesis using p
    by (intro exI [of _ s] exI [of _ "Node l a r"] exI [of _ ls] exI [of _ False])
      (auto simp: spl_go_right_def spl_parts_def spl_exec)
next
  case (Node rl b rr)
  have tmp: "SPLAY_RIGHT (SPLAY_ROOT s) s = Some (Some b)"
    using p Node by (auto simp: spl_parts_def spl_exec)
  show ?thesis
  proof (cases "c b > 0")
    case False
    obtain s' where "SPLAY_LINKRIGHT (Some (spine_end ls)) s = Some (Some a, s')" "spl_parts s' ((a, l) # ls) r rs"
      "spl_frame (parts_set ls (Node l a r) rs) s s'"
      using splay_linkright [OF p] by blast
    then show ?thesis
      using False tmp c2 Node
      by (intro exI [of _ s'] exI [of _ r] exI [of _ "(a, l) # ls"] exI [of _ True])
        (auto simp: spl_go_right_def parts_set_def)
  next
    case True
    obtain s1 where s1: "SPLAY_ROTATE_LEFT (Some b) s = Some s1" "spl_parts s1 ls (Node (Node l a rl) b rr) rs"
      "spl_frame (parts_set ls (Node l a r) rs) s s1"
      using Node splay_rotate_left [OF p [unfolded Node]] by blast
    have same: "parts_set ls (Node (Node l a rl) b rr) rs = parts_set ls (Node l a r) rs"
      using Node by (auto simp: parts_set_def)
    have root: "SPLAY_RIGHT (SPLAY_ROOT s1) s1 = Some (spl_root rr)"
      using s1(2) by (auto simp: spl_parts_def spl_exec)
    show ?thesis
    proof (cases "rr = Leaf")
      case True
      then show ?thesis
        using s1 root tmp c2 Node \<open>c b > 0\<close>
        by (intro exI [of _ s1] exI [of _ "Node (Node l a rl) b rr"] exI [of _ ls] exI [of _ False])
          (auto simp: spl_go_right_def parts_set_def)
    next
      case False
      obtain s' where "SPLAY_LINKRIGHT (Some (spine_end ls)) s1 = Some (Some b, s')"
        "spl_parts s' ((b, Node l a rl) # ls) rr rs"
        "spl_frame (parts_set ls (Node l a r) rs) s s'"
        using splay_linkright [OF s1(2)] s1(3) unfolding same by (blast intro: spl_frame_trans)
      then show ?thesis
        using False s1 root tmp c2 Node \<open>c b > 0\<close>
        by (intro exI [of _ s'] exI [of _ rr] exI [of _ "(b, Node l a rl) # ls"] exI [of _ True])
          (auto simp: spl_go_right_def parts_set_def)
    qed
  qed
qed

lemma SPLAY_loop_down:
  assumes "spl_parts s ls t rs" "t \<noteq> Leaf"
  shows "\<exists>s' ls' t' rs'. SPLAY_loop cmp x (Some (spine_end ls)) (Some (spine_end rs)) s =
      Some (Some (spine_end ls'), Some (spine_end rs'), s') \<and>
    spl_parts s' ls' t' rs' \<and> splay_down (cmp x) ls t rs = (ls', t', rs') \<and> t' \<noteq> Leaf \<and>
    spl_frame (parts_set ls t rs) s s' \<and> parts_set ls' t' rs' = parts_set ls t rs"
  using assms
proof (induction "size t" arbitrary: s ls t rs rule: less_induct)
  case less
  then obtain l a r where t: "t = Node l a r" by (cases t) auto
  note p = less.prems(1) [unfolded t]
  have root: "SPLAY_ROOT s = Some a" using p by (auto simp: spl_parts_def SPLAY_ROOT_def)
  have c2: "spl_cmp cmp x (Some b) = Some (cmp x b)" for b by (simp add: spl_cmp_def)
  consider "cmp x a < 0" | "cmp x a > 0" | "cmp x a = 0" by linarith
  then show ?case
  proof cases
    case 1
    obtain s' t' rs' again where
      "spl_go_left (spl_cmp cmp x) (Some (spine_end rs)) s = Some (Some (spine_end rs'), s', again)"
      "spl_parts s' ls t' rs'" "t' \<noteq> Leaf" "again \<Longrightarrow> size t' < size t"
      "spl_frame (parts_set ls t rs) s s'" "parts_set ls t' rs' = parts_set ls t rs"
      "if again then splay_down (cmp x) ls t rs = splay_down (cmp x) ls t' rs'
       else splay_down (cmp x) ls t rs = (ls, t', rs')"
      using go_left [of s ls l a r rs "spl_cmp cmp x" "cmp x", OF p c2] 1 unfolding t by blast
    then show ?thesis
      using less.hyps [of t' s' ls rs'] 1 root c2 by (cases again) (auto intro: spl_frame_trans simp: SPLAY_loop.simps [of _ _ _ _ s])
  next
    case 2
    obtain s' t' ls' again where
      "spl_go_right (spl_cmp cmp x) (Some (spine_end ls)) s = Some (Some (spine_end ls'), s', again)"
      "spl_parts s' ls' t' rs" "t' \<noteq> Leaf" "again \<Longrightarrow> size t' < size t"
      "spl_frame (parts_set ls t rs) s s'" "parts_set ls' t' rs = parts_set ls t rs"
      "if again then splay_down (cmp x) ls t rs = splay_down (cmp x) ls' t' rs
       else splay_down (cmp x) ls t rs = (ls', t', rs)"
      using go_right [of s ls l a r rs "spl_cmp cmp x" "cmp x", OF p c2] 2 unfolding t by blast
    then show ?thesis
      using less.hyps [of t' s' ls' rs] 2 root c2 by (cases again) (auto intro: spl_frame_trans simp: SPLAY_loop.simps [of _ _ _ _ s])
  next
    case 3
    then show ?thesis using p root c2 unfolding t by (auto simp: SPLAY_loop.simps [of _ _ _ _ s])
  qed
qed

lemma SPLAY_MINMAX_loop_down:
  assumes "spl_parts s ls t rs" "t \<noteq> Leaf" "c \<noteq> 0"
  shows "\<exists>s' ls' t' rs'. SPLAY_MINMAX_loop c (Some (spine_end ls)) (Some (spine_end rs)) s =
      Some (Some (spine_end ls'), Some (spine_end rs'), s') \<and>
    spl_parts s' ls' t' rs' \<and> splay_down (\<lambda>_. c) ls t rs = (ls', t', rs') \<and> t' \<noteq> Leaf \<and>
    spl_frame (parts_set ls t rs) s s' \<and> parts_set ls' t' rs' = parts_set ls t rs"
  using assms(1,2)
proof (induction "size t" arbitrary: s ls t rs rule: less_induct)
  case less
  then obtain l a r where t: "t = Node l a r" by (cases t) auto
  note p = less.prems(1) [unfolded t]
  consider "c < 0" | "c > 0" using assms(3) by linarith
  then show ?case
  proof cases
    case 1
    obtain s' t' rs' again where
      "spl_go_left (\<lambda>_. Some c) (Some (spine_end rs)) s = Some (Some (spine_end rs'), s', again)"
      "spl_parts s' ls t' rs'" "t' \<noteq> Leaf" "again \<Longrightarrow> size t' < size t"
      "spl_frame (parts_set ls t rs) s s'" "parts_set ls t' rs' = parts_set ls t rs"
      "if again then splay_down (\<lambda>_. c) ls t rs = splay_down (\<lambda>_. c) ls t' rs'
       else splay_down (\<lambda>_. c) ls t rs = (ls, t', rs')"
      using go_left [of s ls l a r rs "\<lambda>_. Some c" "\<lambda>_. c", OF p refl] 1 unfolding t by blast
    then show ?thesis
      using less.hyps [of t' s' ls rs'] 1 by (cases again) (auto intro: spl_frame_trans simp: SPLAY_MINMAX_loop.simps [of _ _ _ s])
  next
    case 2
    obtain s' t' ls' again where
      "spl_go_right (\<lambda>_. Some c) (Some (spine_end ls)) s = Some (Some (spine_end ls'), s', again)"
      "spl_parts s' ls' t' rs" "t' \<noteq> Leaf" "again \<Longrightarrow> size t' < size t"
      "spl_frame (parts_set ls t rs) s s'" "parts_set ls' t' rs = parts_set ls t rs"
      "if again then splay_down (\<lambda>_. c) ls t rs = splay_down (\<lambda>_. c) ls' t' rs
       else splay_down (\<lambda>_. c) ls t rs = (ls', t', rs)"
      using go_right [of s ls l a r rs "\<lambda>_. Some c" "\<lambda>_. c", OF p refl] 2 unfolding t by blast
    then show ?thesis
      using less.hyps [of t' s' ls' rs] 2 by (cases again) (auto intro: spl_frame_trans simp: SPLAY_MINMAX_loop.simps [of _ _ _ s])
  qed
qed

lemma parts_set_Nil [simp]: "parts_set [] t [] = insert spl_local (set_tree t)"
  by (auto simp: parts_set_def)

lemma spl_frame_enter_leave:
  assumes "spl_frame (insert spl_local A) (spl_enter s) s1" "spl_frame (insert spl_local A) s1 s2"
  shows "spl_frame (insert spl_local A) s (spl_leave s2)"
  using assms by (auto simp: spl_frame_def spl_enter_def spl_leave_def)

lemma SPLAY_splay_tree:
  assumes "spl_at s t" "t \<noteq> Leaf"
  shows "\<exists>s'. SPLAY cmp x s = Some s' \<and> spl_at s' (splay_tree (cmp x) t) \<and>
    spl_frame (insert spl_local (set_tree t)) s s'"
proof -
  obtain s1 ls t' rs where 1: "SPLAY_loop cmp x (Some (spine_end [])) (Some (spine_end [])) (spl_enter s) =
      Some (Some (spine_end ls), Some (spine_end rs), s1)" "spl_parts s1 ls t' rs"
    "splay_down (cmp x) [] t [] = (ls, t', rs)" "t' \<noteq> Leaf"
    "spl_frame (parts_set [] t []) (spl_enter s) s1" "parts_set ls t' rs = parts_set [] t []"
    using SPLAY_loop_down [OF splay_enter [OF assms(1)] assms(2)] by blast
  then obtain l a r where t': "t' = Node l a r" by (cases t') auto
  obtain s2 where 2: "SPLAY_ASSEMBLE (Some spl_local) (Some (spine_end ls)) (Some (spine_end rs)) s1 = Some s2"
    "spl_at (spl_leave s2) (Node (plug_left ls l) a (plug_right rs r))" "spl_frame (parts_set ls t' rs) s1 s2"
    using splay_assemble [OF 1(2) [unfolded t']] unfolding t' by blast
  have "spl_frame (insert spl_local (set_tree t)) s (spl_leave s2)"
    using 1(5,6) 2(3) by (intro spl_frame_enter_leave [of _ _ s1]) simp_all
  then show ?thesis
    using 1 2 t' by (auto simp: SPLAY_def splay_tree_def splay_join_def)
qed

lemma SPLAY_MINMAX_splay_tree:
  assumes "spl_at s t" "t \<noteq> Leaf" "c \<noteq> 0"
  shows "\<exists>s'. SPLAY_MINMAX c s = Some s' \<and> spl_at s' (splay_tree (\<lambda>_. c) t) \<and>
    spl_frame (insert spl_local (set_tree t)) s s'"
proof -
  obtain s1 ls t' rs where 1: "SPLAY_MINMAX_loop c (Some (spine_end [])) (Some (spine_end [])) (spl_enter s) =
      Some (Some (spine_end ls), Some (spine_end rs), s1)" "spl_parts s1 ls t' rs"
    "splay_down (\<lambda>_. c) [] t [] = (ls, t', rs)" "t' \<noteq> Leaf"
    "spl_frame (parts_set [] t []) (spl_enter s) s1" "parts_set ls t' rs = parts_set [] t []"
    using SPLAY_MINMAX_loop_down [OF splay_enter [OF assms(1)] assms(2,3)] by blast
  then obtain l a r where t': "t' = Node l a r" by (cases t') auto
  obtain s2 where 2: "SPLAY_ASSEMBLE (Some spl_local) (Some (spine_end ls)) (Some (spine_end rs)) s1 = Some s2"
    "spl_at (spl_leave s2) (Node (plug_left ls l) a (plug_right rs r))" "spl_frame (parts_set ls t' rs) s1 s2"
    using splay_assemble [OF 1(2) [unfolded t']] unfolding t' by blast
  have "spl_frame (insert spl_local (set_tree t)) s (spl_leave s2)"
    using 1(5,6) 2(3) by (intro spl_frame_enter_leave [of _ _ s1]) simp_all
  then show ?thesis
    using 1 2 t' by (auto simp: SPLAY_MINMAX_def splay_tree_def splay_join_def)
qed

subsection \<open>Order is kept, and the sought key comes to the root\<close>

fun left_list :: "spine \<Rightarrow> addr list" where
  "left_list [] = []"
| "left_list ((a, l) # sp) = left_list sp @ inorder l @ [a]"

fun right_list :: "spine \<Rightarrow> addr list" where
  "right_list [] = []"
| "right_list ((a, r) # sp) = a # inorder r @ right_list sp"

lemma inorder_plug_left: "inorder (plug_left ls t) = left_list ls @ inorder t"
  by (induction ls t rule: plug_left.induct) auto

lemma inorder_plug_right: "inorder (plug_right rs t) = inorder t @ right_list rs"
  by (induction rs t rule: plug_right.induct) auto

text \<open>
  The induction principle of the loop: what the rotations and the links keep holds at the
  end, where the root compares equal or has no child on the side of the sought key.
\<close>

definition splay_stop :: "(addr \<Rightarrow> int) \<Rightarrow> addr tree \<Rightarrow> bool" where
  "splay_stop c t \<longleftrightarrow> (\<exists>l a r. t = Node l a r \<and> (c a < 0 \<longrightarrow> l = Leaf) \<and> (c a > 0 \<longrightarrow> r = Leaf))"

lemma splay_stop_simps [simp]:
  "\<not> splay_stop c Leaf"
  "splay_stop c (Node l a r) \<longleftrightarrow> (c a < 0 \<longrightarrow> l = Leaf) \<and> (c a > 0 \<longrightarrow> r = Leaf)"
  by (simp_all add: splay_stop_def)

lemma splay_down_stop: "splay_stop c t \<Longrightarrow> splay_down c ls t rs = (ls, t, rs)"
  by (cases t) auto

declare splay_down.simps [simp del]

lemma splay_down_inv:
  assumes rot_right: "\<And>ls ll b lr a r rs. c a < 0 \<Longrightarrow> c b < 0 \<Longrightarrow>
      P ls (Node (Node ll b lr) a r) rs \<Longrightarrow> P ls (Node ll b (Node lr a r)) rs"
    and rot_left: "\<And>ls l a rl b rr rs. c a > 0 \<Longrightarrow> c b > 0 \<Longrightarrow>
      P ls (Node l a (Node rl b rr)) rs \<Longrightarrow> P ls (Node (Node l a rl) b rr) rs"
    and link_left: "\<And>ls l a r rs. c a < 0 \<Longrightarrow> l \<noteq> Leaf \<Longrightarrow> P ls (Node l a r) rs \<Longrightarrow> P ls l ((a, r) # rs)"
    and link_right: "\<And>ls l a r rs. c a > 0 \<Longrightarrow> r \<noteq> Leaf \<Longrightarrow> P ls (Node l a r) rs \<Longrightarrow> P ((a, l) # ls) r rs"
    and start: "P ls t rs" "t \<noteq> Leaf"
  shows "\<exists>ls' t' rs'. splay_down c ls t rs = (ls', t', rs') \<and> P ls' t' rs' \<and> splay_stop c t'"
  using start
proof (induction "size t" arbitrary: ls t rs rule: less_induct)
  case less
  then obtain l a r where t: "t = Node l a r" by (cases t) auto
  note p = less.prems(1) [unfolded t]
  consider (stop) "splay_stop c t"
    | (left) ll b lr where "c a < 0" "l = Node ll b lr"
    | (right) rl b rr where "c a > 0" "r = Node rl b rr"
    unfolding t by (cases l; cases r) auto
  then show ?case
  proof cases
    case stop
    then show ?thesis using less.prems splay_down_stop by auto
  next
    case left
    have step: "splay_down c ls t rs =
        (if c b < 0 then if ll = Leaf then (ls, Node ll b (Node lr a r), rs) else splay_down c ls ll ((b, Node lr a r) # rs)
         else splay_down c ls l ((a, r) # rs))"
      using left unfolding t by (simp add: splay_down.simps(2) [of c ls "Node ll b lr"])
    show ?thesis
    proof (cases "c b < 0")
      case False
      then show ?thesis
        using left less.hyps [of l ls "(a, r) # rs"] link_left [OF left(1) _ p] t step by simp
    next
      case True
      have q: "P ls (Node ll b (Node lr a r)) rs" using rot_right left True p by blast
      then show ?thesis
        using left True less.hyps [of ll ls "(b, Node lr a r) # rs"] link_left [OF True _ q] q t step
        by (cases "ll = Leaf") simp_all
    qed
  next
    case right
    have step: "splay_down c ls t rs =
        (if c b > 0 then if rr = Leaf then (ls, Node (Node l a rl) b rr, rs) else splay_down c ((b, Node l a rl) # ls) rr rs
         else splay_down c ((a, l) # ls) r rs)"
      using right unfolding t by (simp add: splay_down.simps(2) [of c ls _ a "Node rl b rr"])
    show ?thesis
    proof (cases "c b > 0")
      case False
      then show ?thesis
        using right less.hyps [of r "(a, l) # ls" rs] link_right [OF right(1) _ p] t step by simp
    next
      case True
      have q: "P ls (Node (Node l a rl) b rr) rs" using rot_left right True p by blast
      then show ?thesis
        using right True less.hyps [of rr "(b, Node l a rl) # ls" rs] link_right [OF True _ q] q t step
        by (cases "rr = Leaf") simp_all
    qed
  qed
qed

lemma inorder_splay_join:
  "t \<noteq> Leaf \<Longrightarrow> inorder (splay_join (ls, t, rs)) = left_list ls @ inorder t @ right_list rs"
  by (cases t) (simp_all add: splay_join_def inorder_plug_left inorder_plug_right)

lemma inorder_splay_tree: "inorder (splay_tree c t) = inorder t"
proof (cases "t = Leaf")
  case False
  obtain ls' t' rs' where "splay_down c [] t [] = (ls', t', rs')" "splay_stop c t'"
    "left_list ls' @ inorder t' @ right_list rs' = inorder t"
    using splay_down_inv [of c "\<lambda>ls u rs. left_list ls @ inorder u @ right_list rs = inorder t" "[]" t "[]"] False
    by auto
  then show ?thesis by (auto simp: splay_tree_def splay_stop_def inorder_splay_join)
qed (simp add: splay_tree_def splay_join_def splay_down.simps)

lemma splay_tree_not_Leaf: "t \<noteq> Leaf \<Longrightarrow> splay_tree c t \<noteq> Leaf"
  using inorder_splay_tree [of c t] by (cases "splay_tree c t"; cases t) auto

context comparator
begin

lemma splay_tree_order:
  assumes "t \<noteq> Leaf" "key_sorted key (inorder t)"
  shows "\<exists>l a r. splay_tree (cmp x) t = Node l a r \<and>
    (\<forall>b\<in>set_tree l. key b < key x) \<and> (\<forall>b\<in>set_tree r. key x < key b)"
proof -
  let ?P = "\<lambda>ls u rs. key_sorted key (inorder u) \<and>
    (\<forall>b\<in>set (left_list ls). key b < key x) \<and> (\<forall>b\<in>set (right_list rs). key x < key b)"
  have "\<exists>ls u rs. splay_down (cmp x) [] t [] = (ls, u, rs) \<and> ?P ls u rs \<and> splay_stop (cmp x) u"
    by (rule splay_down_inv [where P = ?P])
      (use assms in \<open>auto simp: order_simps cmp_simps intro: order.strict_trans\<close>)
  then obtain ls u rs where
    d: "splay_down (cmp x) [] t [] = (ls, u, rs)" "splay_stop (cmp x) u" "?P ls u rs" by blast
  then obtain l a r where u: "u = Node l a r" "cmp x a < 0 \<longrightarrow> l = Leaf" "cmp x a > 0 \<longrightarrow> r = Leaf"
    by (auto simp: splay_stop_def)
  have l: "\<forall>b\<in>set_tree l. key b < key x"
    using d(3) u(1,2) by (cases "key x < key a") (auto simp: order_simps cmp_simps not_less)
  have r: "\<forall>b\<in>set_tree r. key x < key b"
    using d(3) u(1,3) by (cases "key a < key x") (auto simp: order_simps cmp_simps not_less)
  have "set_tree (plug_left ls l) = set (left_list ls @ inorder l)"
    "set_tree (plug_right rs r) = set (inorder r @ right_list rs)"
    by (metis inorder_plug_left set_inorder, metis inorder_plug_right set_inorder)
  then show ?thesis using d l r u(1) by (auto simp: splay_tree_def splay_join_def)
qed

end

text \<open>With a constant comparison the first or the last node comes to the root.\<close>

lemma splay_tree_min:
  assumes "c < 0" "t \<noteq> Leaf"
  shows "\<exists>a r. splay_tree (\<lambda>_. c) t = Node Leaf a r"
proof -
  have "\<exists>ls u rs. splay_down (\<lambda>_. c) [] t [] = (ls, u, rs) \<and> ls = [] \<and> splay_stop (\<lambda>_. c) u"
    by (rule splay_down_inv [where P = "\<lambda>ls _ _. ls = []"]) (use assms in auto)
  then show ?thesis using assms(1) by (auto simp: splay_tree_def splay_join_def splay_stop_def)
qed

lemma splay_tree_max:
  assumes "c > 0" "t \<noteq> Leaf"
  shows "\<exists>l a. splay_tree (\<lambda>_. c) t = Node l a Leaf"
proof -
  have "\<exists>ls u rs. splay_down (\<lambda>_. c) [] t [] = (ls, u, rs) \<and> rs = [] \<and> splay_stop (\<lambda>_. c) u"
    by (rule splay_down_inv [where P = "\<lambda>_ _ rs. rs = []"]) (use assms in auto)
  then show ?thesis using assms(1) by (auto simp: splay_tree_def splay_join_def splay_stop_def)
qed

end
