(* ===== verification/UvSplay.thy ===== *)
theory UvSplay
  imports UvSplayFix OrderedIndex
begin

text \<open>
  The splay tree as its client sees it: \<open>spl_holds s xs\<close> says that the state holds a splay
  tree whose nodes are \<open>xs\<close> in order. Every operation, lookups too, restructures the
  tree; what it holds does not change. The tree is an \<open>ordered_index\<close>, as the red-black
  tree is.
\<close>

definition spl_holds :: "spl_state \<Rightarrow> addr list \<Rightarrow> bool" where
  "spl_holds s xs \<longleftrightarrow> (\<exists>t. spl_at s t \<and> inorder t = xs)"

definition spl_index :: "(addr \<Rightarrow> 'k::linorder) \<Rightarrow> spl_state \<Rightarrow> addr list \<Rightarrow> bool" where
  "spl_index key s xs \<longleftrightarrow> spl_holds s xs \<and> key_sorted key xs"

definition spl_alloc :: "addr \<Rightarrow> spl_state \<Rightarrow> bool" where
  "spl_alloc x s \<longleftrightarrow> x \<noteq> spl_local \<and> x \<in> dom (spl_nodes s)"

lemma spl_holdsI: "spl_at s t \<Longrightarrow> inorder t = xs \<Longrightarrow> spl_holds s xs"
  by (auto simp: spl_holds_def)

lemma spl_at_Leaf: "spl_at s Leaf \<longleftrightarrow> SPLAY_EMPTY s"
  by (auto simp: spl_at_def SPLAY_EMPTY_def SPLAY_ROOT_def)

lemma spl_at_empty: "spl_at s t \<Longrightarrow> SPLAY_EMPTY s \<longleftrightarrow> t = Leaf"
  by (auto simp: spl_at_def SPLAY_EMPTY_def SPLAY_ROOT_def)

lemma spl_holds_empty: "SPLAY_EMPTY s \<Longrightarrow> spl_holds s []"
  unfolding spl_holds_def by (rule exI [of _ Leaf]) (simp add: spl_at_Leaf)

lemma spl_at_reads:
  assumes "spl_at s (Node l a r)"
  shows "SPLAY_ROOT s = Some a" "SPLAY_LEFT (Some a) s = Some (spl_root l)"
    "SPLAY_RIGHT (Some a) s = Some (spl_root r)" "spl_nodes s a = Some \<lparr>spe_left = spl_root l, spe_right = spl_root r\<rparr>"
  using assms by (auto simp: spl_at_def spl_exec)

lemma spl_set_right:
  assumes "spl_at s (Node l a Leaf)" "spl_tree (spl_nodes s) r" "distinct (inorder r)" "spl_local \<notin> set_tree r"
    "a \<notin> set_tree r" "set_tree l \<inter> set_tree r = {}"
  shows "\<exists>s'. set_SPLAY_RIGHT (Some a) (spl_root r) s = Some s' \<and> spl_at s' (Node l a r)"
  using assms by (auto simp: spl_at_def spl_exec)

lemma spl_alloc_frame: "spl_alloc x s \<Longrightarrow> spl_frame (insert spl_local A) s s' \<Longrightarrow> x \<notin> A \<Longrightarrow> spl_alloc x s'"
  by (auto simp: spl_alloc_def spl_frame_def dom_def)

text \<open>Insertion once the node of the root is known; the order plays no part in it.\<close>

lemma spl_insert_at:
  assumes "\<not> SPLAY_EMPTY s" "SPLAY cmp x s = Some s1" "spl_at s1 (Node l a r)" "x \<notin> set_tree (Node l a r)" "spl_alloc x s1"
  shows "cmp x a < 0 \<Longrightarrow> \<exists>s'. SPLAY_INSERT cmp x s = Some (NULL, s') \<and> spl_at s' (Node l x (Node Leaf a r))"
    "cmp x a > 0 \<Longrightarrow> \<exists>s'. SPLAY_INSERT cmp x s = Some (NULL, s') \<and> spl_at s' (Node (Node l a Leaf) x r)"
    "cmp x a = 0 \<Longrightarrow> SPLAY_INSERT cmp x s = Some (Some a, s1)"
proof -
  obtain e where e: "spl_nodes s1 x = Some e" "x \<noteq> spl_local" using assms(5) by (auto simp: spl_alloc_def)
  show "\<exists>s'. SPLAY_INSERT cmp x s = Some (NULL, s') \<and> spl_at s' (Node l x (Node Leaf a r))" if "cmp x a < 0"
    using assms(1-4) e that by (auto simp: SPLAY_INSERT_def spl_exec spl_cmp_def spl_at_def)
  show "\<exists>s'. SPLAY_INSERT cmp x s = Some (NULL, s') \<and> spl_at s' (Node (Node l a Leaf) x r)" if "cmp x a > 0"
    using assms(1-4) e that by (auto simp: SPLAY_INSERT_def spl_exec spl_cmp_def spl_at_def)
  show "SPLAY_INSERT cmp x s = Some (Some a, s1)" if "cmp x a = 0"
    using assms(1-3) that spl_at_reads(1) [OF assms(3)] by (simp add: SPLAY_INSERT_def spl_cmp_def)
qed

lemma spl_insert_first:
  assumes "SPLAY_EMPTY s" "spl_alloc x s"
  shows "\<exists>s'. SPLAY_INSERT cmp x s = Some (NULL, s') \<and> spl_at s' (Node Leaf x Leaf)"
proof -
  obtain e where e: "spl_nodes s x = Some e" using assms(2) by (auto simp: spl_alloc_def)
  show ?thesis using assms e by (cases e) (auto simp: SPLAY_INSERT_def spl_exec spl_at_def spl_alloc_def)
qed

context comparator
begin

text \<open>After a splay the root splits the other nodes at the sought key.\<close>

lemma splay_sorted:
  assumes "spl_at s t" "t \<noteq> Leaf" "key_sorted key (inorder t)"
  shows "\<exists>s' l a r. SPLAY cmp x s = Some s' \<and> spl_at s' (Node l a r) \<and>
    inorder t = inorder l @ a # inorder r \<and> spl_frame (insert spl_local (set_tree t)) s s' \<and>
    (\<forall>b\<in>set_tree l. key b < key x) \<and> (\<forall>b\<in>set_tree r. key x < key b)"
proof -
  obtain l a r where n: "splay_tree (cmp x) t = Node l a r"
    "\<forall>b\<in>set_tree l. key b < key x" "\<forall>b\<in>set_tree r. key x < key b"
    using splay_tree_order [OF assms(2,3)] by blast
  obtain s' where "SPLAY cmp x s = Some s'" "spl_at s' (Node l a r)" "spl_frame (insert spl_local (set_tree t)) s s'"
    using SPLAY_splay_tree [OF assms(1,2), of cmp x] n(1) by auto
  moreover have "inorder t = inorder l @ a # inorder r"
    using n(1) inorder_splay_tree [of "cmp x" t] by simp
  ultimately show ?thesis using n by blast
qed

lemma spl_find:
  assumes "spl_holds s xs" "key_sorted key xs"
  shows "\<exists>s'. SPLAY_FIND cmp x s = Some (key_find key x xs, s') \<and> spl_holds s' xs"
proof -
  obtain t where t: "spl_at s t" "inorder t = xs" using assms(1) by (auto simp: spl_holds_def)
  show ?thesis
  proof (cases "t = Leaf")
    case True
    then show ?thesis
      using t assms(1) spl_at_empty [OF t(1)] by (auto simp: SPLAY_FIND_def key_find_def)
  next
    case False
    obtain s' l a r where s': "SPLAY cmp x s = Some s'" "spl_at s' (Node l a r)" "xs = inorder l @ a # inorder r"
      "\<forall>b\<in>set_tree l. key b < key x" "\<forall>b\<in>set_tree r. key x < key b"
      using splay_sorted [OF t(1) False] assms(2) t(2) by metis
    have "spl_holds s' xs" unfolding spl_holds_def using s'(2,3) by (intro exI [of _ "Node l a r"]) simp
    moreover have "key_find key x xs = (if key a = key x then Some a else NULL)"
    proof (cases "key a = key x")
      case True
      then show ?thesis using key_find_split [of "inorder l" key x a] s'(3,4) by simp
    next
      case False
      then have "\<forall>b\<in>set xs. key b \<noteq> key x" using s'(3-5) by auto
      then show ?thesis using False by (simp add: key_find_None)
    qed
    ultimately show ?thesis
      using s'(1) spl_at_reads(1) [OF s'(2)] spl_at_empty [OF t(1)] False cmp_zero
      by (auto simp: SPLAY_FIND_def spl_cmp_def)
  qed
qed

lemma spl_insert_new:
  assumes "spl_holds s xs" "key_sorted key xs" "spl_alloc x s" "\<forall>a\<in>set xs. key a \<noteq> key x"
  shows "\<exists>s'. SPLAY_INSERT cmp x s = Some (NULL, s') \<and> spl_holds s' (key_insert key x xs)"
proof -
  obtain t where t: "spl_at s t" "inorder t = xs" using assms(1) by (auto simp: spl_holds_def)
  show ?thesis
  proof (cases "t = Leaf")
    case True
    then have "key_insert key x xs = inorder (Node Leaf x Leaf)" "SPLAY_EMPTY s"
      using t spl_at_empty [OF t(1)] by (auto simp: order_simps)
    then show ?thesis using spl_insert_first [OF _ assms(3), of cmp] spl_holdsI by metis
  next
    case False
    obtain s1 l a r where s1: "SPLAY cmp x s = Some s1" "spl_at s1 (Node l a r)" "xs = inorder l @ a # inorder r"
      "spl_frame (insert spl_local (set_tree t)) s s1"
      "\<forall>b\<in>set_tree l. key b < key x" "\<forall>b\<in>set_tree r. key x < key b"
      using splay_sorted [OF t(1) False] assms(2) t(2) by metis
    have x: "x \<notin> set_tree (Node l a r)" "x \<notin> set_tree t"
      using assms(4) s1(3) t(2) by (auto simp: set_inorder [symmetric] simp del: set_inorder)
    note ins = spl_insert_at [OF _ s1(1,2) x(1) spl_alloc_frame [OF assms(3) s1(4) x(2)]]
    have ne: "\<not> SPLAY_EMPTY s" using False spl_at_empty [OF t(1)] by simp
    have "key a \<noteq> key x" using assms(4) s1(3) by auto
    then consider "key x < key a" | "key a < key x" by fastforce
    then show ?thesis
    proof cases
      case 1
      have "key_insert key x xs = inorder l @ x # a # inorder r"
        unfolding s1(3) using 1 s1(5,6) by (intro key_insert_split) auto
      then show ?thesis using ins(1) [OF ne] 1 cmp_simps [of x a] by (auto dest!: spl_holdsI [OF _ refl])
    next
      case 2
      have "key_insert key x xs = (inorder l @ [a]) @ x # inorder r"
        using key_insert_split [of "inorder l @ [a]" key x "inorder r"] s1(3,5,6) 2 by auto
      then show ?thesis using ins(2) [OF ne] 2 cmp_simps [of x a] by (auto dest!: spl_holdsI [OF _ refl])
    qed
  qed
qed

lemma spl_insert_old:
  assumes "spl_holds s xs" "key_sorted key xs" "y \<in> set xs" "key y = key x"
  shows "\<exists>s'. SPLAY_INSERT cmp x s = Some (Some y, s') \<and> spl_holds s' xs"
proof -
  obtain t where t: "spl_at s t" "inorder t = xs" using assms(1) by (auto simp: spl_holds_def)
  then have False: "t \<noteq> Leaf" using assms(3) by auto
  obtain s1 l a r where s1: "SPLAY cmp x s = Some s1" "spl_at s1 (Node l a r)" "xs = inorder l @ a # inorder r"
    "\<forall>b\<in>set_tree l. key b < key x" "\<forall>b\<in>set_tree r. key x < key b"
    using splay_sorted [OF t(1) False] assms(2) t(2) by metis
  then have "y = a" using assms(3,4) by auto
  moreover have "spl_holds s1 xs" unfolding spl_holds_def using s1(2,3) by (intro exI [of _ "Node l a r"]) simp
  ultimately show ?thesis
    using s1(1) spl_at_reads(1) [OF s1(2)] False spl_at_empty [OF t(1)] cmp_zero [of x a] assms(4)
    by (auto simp: SPLAY_INSERT_def spl_cmp_def)
qed

lemma spl_remove:
  assumes "spl_holds s xs" "key_sorted key xs" "y \<in> set xs" "key y = key x"
  shows "\<exists>s'. SPLAY_REMOVE cmp x s = Some (Some x, s') \<and> spl_holds s' (remove1 y xs)"
proof -
  obtain t where t: "spl_at s t" "inorder t = xs" using assms(1) by (auto simp: spl_holds_def)
  then have False: "t \<noteq> Leaf" using assms(3) by auto
  obtain s1 l a r where s1: "SPLAY cmp x s = Some s1" "spl_at s1 (Node l a r)" "xs = inorder l @ a # inorder r"
    "\<forall>b\<in>set_tree l. key b < key x" "\<forall>b\<in>set_tree r. key x < key b"
    using splay_sorted [OF t(1) False] assms(2) t(2) by metis
  then have "y = a" using assms(3,4) by auto
  moreover have "a \<notin> set_tree l" using s1(2) by (auto simp: spl_at_def)
  ultimately have rest: "remove1 y xs = inorder l @ inorder r" using s1(3) by (simp add: remove1_append)
  have root: "SPLAY_ROOT s1 = Some a" "cmp x a = 0"
    using spl_at_reads(1) [OF s1(2)] cmp_zero [of x a] assms(4) \<open>y = a\<close> by auto
  have start: "\<not> SPLAY_EMPTY s" using False spl_at_empty [OF t(1)] by simp
  show ?thesis
  proof (cases "l = Leaf")
    case True
    have "spl_at (set_SPLAY_ROOT (spl_root r) s1) r" using s1(2) by (auto simp: spl_at_def set_SPLAY_ROOT_def)
    then have "spl_holds (set_SPLAY_ROOT (spl_root r) s1) (remove1 y xs)" using rest True by (auto intro: spl_holdsI)
    then show ?thesis
      using True s1(1) root start spl_at_reads [OF s1(2)] by (simp add: SPLAY_REMOVE_def spl_cmp_def)
  next
    case False
    let ?s = "set_SPLAY_ROOT (spl_root l) s1"
    have at: "spl_at ?s l" "key_sorted key (inorder l)"
      using s1(2,3) assms(2) by (auto simp: spl_at_def set_SPLAY_ROOT_def order_simps)
    obtain s2 ll b lr where s2: "SPLAY cmp x ?s = Some s2" "spl_at s2 (Node ll b lr)"
      "inorder l = inorder ll @ b # inorder lr" "spl_frame (insert spl_local (set_tree l)) ?s s2"
      "\<forall>d\<in>set_tree lr. key x < key d"
      using splay_sorted [OF at(1) False at(2)] by metis
    have set_l: "set_tree l = set_tree ll \<union> insert b (set_tree lr)"
      using arg_cong [OF s2(3), of set] by auto
    have "lr = Leaf"
    proof (rule ccontr)
      assume "lr \<noteq> Leaf"
      then obtain d where "d \<in> set_tree lr" by (cases lr) auto
      then show False using bspec [OF s1(4), of d] bspec [OF s2(5), of d] unfolding set_l by simp
    qed
    have fresh: "set_tree l \<inter> set_tree r = {}" "spl_local \<notin> set_tree r" "spl_tree (spl_nodes s1) r" "distinct (inorder r)"
      using s1(2) by (auto simp: spl_at_def)
    have same: "spl_nodes s2 d = spl_nodes s1 d" if "d \<in> set_tree r" for d
    proof -
      have "d \<notin> insert spl_local (set_tree l)" using that fresh(1,2) by auto
      then show ?thesis using s2(4) by (simp add: spl_frame_def set_SPLAY_ROOT_def)
    qed
    have "spl_tree (spl_nodes s2) u = spl_tree (spl_nodes s1) u" if "set_tree u \<subseteq> set_tree r" for u
      using that by (induction u) (auto simp: same)
    then have tr: "spl_tree (spl_nodes s2) r" using fresh(3) by blast
    have "b \<notin> set_tree r" "set_tree ll \<inter> set_tree r = {}" using fresh(1) set_l by auto
    then obtain s3 where s3: "set_SPLAY_RIGHT (Some b) (spl_root r) s2 = Some s3" "spl_at s3 (Node ll b r)"
      using spl_set_right [OF s2(2) [unfolded \<open>lr = Leaf\<close>] tr fresh(4,2)] by blast
    have "spl_holds s3 (remove1 y xs)" using rest s2(3) \<open>lr = Leaf\<close> by (intro spl_holdsI [OF s3(2)]) simp
    then show ?thesis
      using False s1(1) root start s2(1) s3(1) spl_at_reads(2,3) [OF s1(2)] spl_at_reads(1) [OF s2(2)]
      by (simp add: SPLAY_REMOVE_def spl_cmp_def)
  qed
qed

lemma spl_remove_absent:
  assumes "spl_holds s xs" "key_sorted key xs" "\<forall>y\<in>set xs. key y \<noteq> key x"
  shows "\<exists>s'. SPLAY_REMOVE cmp x s = Some (NULL, s') \<and> spl_holds s' xs"
proof -
  obtain t where t: "spl_at s t" "inorder t = xs" using assms(1) by (auto simp: spl_holds_def)
  show ?thesis
  proof (cases "t = Leaf")
    case True
    then show ?thesis using assms(1) spl_at_empty [OF t(1)] by (auto simp: SPLAY_REMOVE_def)
  next
    case False
    obtain s1 l a r where s1: "SPLAY cmp x s = Some s1" "spl_at s1 (Node l a r)" "xs = inorder l @ a # inorder r"
      using splay_sorted [OF t(1) False] assms(2) t(2) by metis
    then have "spl_holds s1 xs" unfolding spl_holds_def by (intro exI [of _ "Node l a r"]) simp
    then show ?thesis
      using s1 assms(3) spl_at_reads(1) [OF s1(2)] spl_at_empty [OF t(1)] False cmp_zero [of x a]
      by (auto simp: SPLAY_REMOVE_def spl_cmp_def)
  qed
qed

lemma leftmost_first:
  assumes "spl_tree (spl_nodes s) t" "t \<noteq> Leaf"
  shows "spl_leftmost (spl_root t) s = Some (first_of (inorder t))"
  using assms
proof (induction t)
  case (Node l a r)
  then show ?case
    by (cases "l = Leaf") (auto simp: spl_leftmost.simps [of "Some a"] spl_exec first_of_append)
qed simp

lemma spl_next:
  assumes "spl_holds s (us @ x # vs)" "key_sorted key (us @ x # vs)"
  shows "\<exists>s'. SPLAY_NEXT cmp x s = Some (first_of vs, s') \<and> spl_holds s' (us @ x # vs)"
proof -
  obtain t where t: "spl_at s t" "inorder t = us @ x # vs" using assms(1) by (auto simp: spl_holds_def)
  then have False: "t \<noteq> Leaf" by auto
  obtain s1 l a r where s1: "SPLAY cmp x s = Some s1" "spl_at s1 (Node l a r)" "us @ x # vs = inorder l @ a # inorder r"
    "\<forall>b\<in>set_tree l. key b < key x" "\<forall>b\<in>set_tree r. key x < key b"
    using splay_sorted [OF t(1) False] assms(2) t(2) by metis
  have "x \<in> set (us @ x # vs)" by simp
  then have x: "a = x" unfolding s1(3) using s1(4,5) by auto
  then have "vs = inorder r"
    using s1(3) split_unique [OF key_sorted_distinct [OF assms(2)]] by metis
  moreover have "spl_holds s1 (us @ x # vs)"
    unfolding spl_holds_def using s1(2,3) by (intro exI [of _ "Node l a r"]) simp
  moreover have "spl_tree (spl_nodes s1) r" using s1(2) by (auto simp: spl_at_def)
  ultimately show ?thesis
    using s1(1) spl_at_reads [OF s1(2)] x leftmost_first [of s1 r]
    by (cases "r = Leaf") (simp_all add: SPLAY_NEXT_def)
qed

end

lemma spl_minmax:
  assumes "spl_holds s xs"
  shows "\<exists>s'. SPLAY_MIN s = Some (first_of xs, s') \<and> spl_holds s' xs"
    and "\<exists>s'. SPLAY_MAX s = Some (last_of xs, s') \<and> spl_holds s' xs"
proof -
  obtain t where t: "spl_at s t" "inorder t = xs" using assms by (auto simp: spl_holds_def)
  have "(\<exists>s'. SPLAY_MIN s = Some (first_of xs, s') \<and> spl_holds s' xs) \<and>
    (\<exists>s'. SPLAY_MAX s = Some (last_of xs, s') \<and> spl_holds s' xs)"
  proof (cases "t = Leaf")
    case True
    then show ?thesis using assms t spl_at_empty [OF t(1)] by (auto simp: SPLAY_MIN_def SPLAY_MAX_def)
  next
    case False
    obtain a r where mn: "splay_tree (\<lambda>_. SPLAY_NEGINF) t = Node Leaf a r"
      using splay_tree_min [of SPLAY_NEGINF t] False by (auto simp: SPLAY_NEGINF_def)
    obtain l b where mx: "splay_tree (\<lambda>_. SPLAY_INF) t = Node l b Leaf"
      using splay_tree_max [of SPLAY_INF t] False by (auto simp: SPLAY_INF_def)
    obtain s1 where s1: "SPLAY_MINMAX SPLAY_NEGINF s = Some s1" "spl_at s1 (Node Leaf a r)"
      using SPLAY_MINMAX_splay_tree [OF t(1) False, of SPLAY_NEGINF] mn by (auto simp: SPLAY_NEGINF_def)
    obtain s2 where s2: "SPLAY_MINMAX SPLAY_INF s = Some s2" "spl_at s2 (Node l b Leaf)"
      using SPLAY_MINMAX_splay_tree [OF t(1) False, of SPLAY_INF] mx by (auto simp: SPLAY_INF_def)
    have x: "xs = inorder (Node Leaf a r)" "xs = inorder (Node l b Leaf)"
      using inorder_splay_tree [of "\<lambda>_. SPLAY_NEGINF" t] inorder_splay_tree [of "\<lambda>_. SPLAY_INF" t] mn mx t(2)
      by simp_all
    have "first_of xs = Some a" unfolding x(1) by simp
    moreover have "last_of xs = Some b" unfolding x(2) by simp
    moreover have "spl_holds s1 xs" by (rule spl_holdsI [OF s1(2) x(1) [symmetric]])
    moreover have "spl_holds s2 xs" by (rule spl_holdsI [OF s2(2) x(2) [symmetric]])
    ultimately show ?thesis
      using s1(1) s2(1) False spl_at_empty [OF t(1)] spl_at_reads(1) [OF s1(2)] spl_at_reads(1) [OF s2(2)]
      by (simp add: SPLAY_MIN_def SPLAY_MAX_def SPLAY_MIN_MAX_def)
  qed
  then show "\<exists>s'. SPLAY_MIN s = Some (first_of xs, s') \<and> spl_holds s' xs"
    "\<exists>s'. SPLAY_MAX s = Some (last_of xs, s') \<and> spl_holds s' xs" by blast+
qed

context comparator
begin

lemma spl_ordered_index:
  "ordered_index SPLAY_EMPTY spl_alloc (SPLAY_INSERT cmp) (SPLAY_FIND cmp) (SPLAY_REMOVE cmp) (spl_index key) key"
proof
  fix s :: spl_state and xs :: "addr list" and x :: addr
  assume "spl_index key s xs" and "spl_alloc x s" and "\<forall>a\<in>set xs. key a \<noteq> key x"
  then show "\<exists>s'. SPLAY_INSERT cmp x s = Some (NULL, s') \<and> spl_index key s' (key_insert key x xs)"
    using spl_insert_new [of s xs x] key_sorted_insert [of key xs x] by (auto simp: spl_index_def)
next
  fix s :: spl_state and xs :: "addr list" and x y :: addr
  assume "spl_index key s xs" and "spl_alloc x s" and "y \<in> set xs" and "key y = key x"
  then show "\<exists>s'. SPLAY_INSERT cmp x s = Some (Some y, s') \<and> spl_index key s' xs"
    using spl_insert_old [of s xs y x] by (auto simp: spl_index_def)
next
  fix s :: spl_state and xs :: "addr list" and x :: addr
  assume "spl_index key s xs"
  then show "\<exists>s'. SPLAY_FIND cmp x s = Some (key_find key x xs, s') \<and> spl_index key s' xs"
    using spl_find [of s xs x] by (auto simp: spl_index_def)
next
  fix s :: spl_state and xs :: "addr list" and a :: addr
  assume "spl_index key s xs" and "a \<in> set xs"
  then show "\<exists>s'. SPLAY_REMOVE cmp a s = Some (Some a, s') \<and> spl_index key s' (remove1 a xs)"
    using spl_remove [of s xs a a] key_sorted_remove1 [of key xs a] by (auto simp: spl_index_def)
qed (auto simp: spl_index_def spl_holds_empty order_simps)

end

sublocale comparator \<subseteq> spl: ordered_index SPLAY_EMPTY spl_alloc "SPLAY_INSERT cmp" "SPLAY_FIND cmp"
    "SPLAY_REMOVE cmp" "spl_index key" key
  by (rule spl_ordered_index)

interpretation spl_three_way: ordered_index SPLAY_EMPTY spl_alloc "SPLAY_INSERT (three_way key)"
    "SPLAY_FIND (three_way key)" "SPLAY_REMOVE (three_way key)" "spl_index key" key for key
  by (rule keyed.spl_ordered_index)

end
