(* ===== verification/UvSplayTheorems.thy ===== *)
theory UvSplayTheorems
  imports UvSplay
begin

text \<open>
  The properties of the splay tree of \<open>uv/tree.h\<close>. \<open>spl_demo\<close> is the state used by the
  witnesses: a degenerate tree of three nodes, and one node outside it.
\<close>

definition spl_demo :: spl_state where
  "spl_demo = \<lparr>sph_root = Some 6, spl_nodes =
     [6 \<mapsto> \<lparr>spe_left = Some 4, spe_right = NULL\<rparr>, 4 \<mapsto> \<lparr>spe_left = Some 2, spe_right = NULL\<rparr>,
      2 \<mapsto> \<lparr>spe_left = NULL, spe_right = NULL\<rparr>, 7 \<mapsto> \<lparr>spe_left = Some 9, spe_right = Some 7\<rparr>]\<rparr>"

lemma spl_holds_demo: "spl_holds spl_demo [2, 4, 6]"
  by (rule spl_holdsI [of _ "Node (Node (Node Leaf 2 Leaf) 4 Leaf) 6 Leaf"])
    (simp_all add: spl_at_def spl_demo_def spl_local_def)

lemma spl_demo_sorted: "key_sorted int [2, 4, 6]"
  by (simp add: order_simps)

lemma spl_demo_alloc: "spl_alloc 7 spl_demo"
  by (simp add: spl_alloc_def spl_demo_def spl_local_def)

lemma spl_demo_reach:
  "index_reach SPLAY_EMPTY spl_alloc (SPLAY_INSERT (three_way int)) (SPLAY_FIND (three_way int))
     (SPLAY_REMOVE (three_way int)) (SPLAY_INIT spl_demo)"
  by (rule reach_empty) (simp add: SPLAY_EMPTY_def SPLAY_ROOT_def SPLAY_INIT_def set_SPLAY_ROOT_def)

text \<open>
  C9. \<open>SPLAY\<close> on a non-empty tree returns, keeps the nodes and their order, touches no
  object outside the tree, and brings to the root the node with the sought key or, when
  there is none, a node with no other key between its own and the sought one.
\<close>

theorem SPLAY_correct:
  assumes "comparator cmp key" "spl_holds s xs" "key_sorted key xs" "xs \<noteq> []"
  shows "\<exists>s' a. SPLAY cmp x s = Some s' \<and> spl_holds s' xs \<and> spl_frame (insert spl_local (set xs)) s s' \<and>
    SPLAY_ROOT s' = Some a \<and> a \<in> set xs \<and>
    (\<forall>b\<in>set xs. key b = key x \<longrightarrow> a = b) \<and>
    (\<forall>b\<in>set xs. \<not> (key a < key b \<and> key b < key x) \<and> \<not> (key x < key b \<and> key b < key a))"
proof -
  obtain t where t: "spl_at s t" "inorder t = xs" using assms(2) by (auto simp: spl_holds_def)
  have ne: "t \<noteq> Leaf" using t(2) assms(4) by auto
  obtain s' l a r where s': "SPLAY cmp x s = Some s'" "spl_at s' (Node l a r)" "xs = inorder l @ a # inorder r"
    "spl_frame (insert spl_local (set_tree t)) s s'"
    "\<forall>b\<in>set_tree l. key b < key x" "\<forall>b\<in>set_tree r. key x < key b"
    using comparator.splay_sorted [OF assms(1) t(1) ne] assms(3) t(2) by metis
  have ord: "\<forall>b\<in>set_tree l. key b < key a" "\<forall>b\<in>set_tree r. key a < key b"
    using assms(3) s'(3) by (auto simp: order_simps)
  have "\<not> (key a < key b \<and> key b < key x) \<and> \<not> (key x < key b \<and> key b < key a) \<and> (key b = key x \<longrightarrow> a = b)"
    if "b \<in> set xs" for b
  proof -
    consider "b = a" | "b \<in> set_tree l" | "b \<in> set_tree r" using \<open>b \<in> set xs\<close> s'(3) by auto
    then show ?thesis
      by cases (simp, use ord(1) s'(5) in \<open>fastforce dest: bspec\<close>, use ord(2) s'(6) in \<open>fastforce dest: bspec\<close>)
  qed
  moreover have "spl_holds s' xs" using s'(2,3) by (auto intro: spl_holdsI)
  moreover have "set_tree t = set xs" using t(2) by auto
  ultimately show ?thesis using s' spl_at_reads(1) [OF s'(2)] by auto
qed

theorem SPLAY_correct_witness:
  "\<exists>s' a. SPLAY (three_way int) 4 spl_demo = Some s' \<and> SPLAY_ROOT s' = Some a \<and> a = 4"
  using SPLAY_correct [OF keyed.comparator_axioms spl_holds_demo spl_demo_sorted, of 4] by auto

text \<open>
  C10. \<open>SPLAY_INSERT\<close> of an allocated node with a new key returns \<open>NULL\<close> and puts the
  node at its place in key order; with a key that is in the tree it returns the node that
  has it and the nodes stay the same.
\<close>

theorem SPLAY_INSERT_correct:
  assumes "comparator cmp key" "spl_holds s xs" "key_sorted key xs" "spl_alloc x s"
  shows "\<exists>r s' xs'. SPLAY_INSERT cmp x s = Some (r, s') \<and> spl_holds s' xs' \<and> key_sorted key xs' \<and>
    (if \<exists>y\<in>set xs. key y = key x then xs' = xs \<and> r = key_find key x xs
     else xs' = key_insert key x xs \<and> r = NULL)"
  using ordered_index.insert_any [OF comparator.spl_ordered_index [OF assms(1)], of s xs x] assms(2-4)
  unfolding spl_index_def by blast

theorem SPLAY_INSERT_correct_witness:
  "\<exists>s'. SPLAY_INSERT (three_way int) 7 spl_demo = Some (NULL, s') \<and> spl_holds s' [2, 4, 6, 7]"
  using SPLAY_INSERT_correct [OF keyed.comparator_axioms spl_holds_demo spl_demo_sorted spl_demo_alloc]
  by (auto simp: order_simps)

text \<open>
  C11. \<open>SPLAY_REMOVE\<close> takes the node whose key equals that of its argument out of the tree
  and returns its argument, which need not be that node; when there is no such node it
  returns \<open>NULL\<close> and the nodes stay the same.
\<close>

theorem SPLAY_REMOVE_correct:
  assumes "comparator cmp key" "spl_holds s xs" "key_sorted key xs"
  shows "\<exists>s'. (case key_find key x xs of
      None \<Rightarrow> SPLAY_REMOVE cmp x s = Some (NULL, s') \<and> spl_holds s' xs
    | Some y \<Rightarrow> SPLAY_REMOVE cmp x s = Some (Some x, s') \<and> spl_holds s' (remove1 y xs))"
proof (cases "key_find key x xs")
  case None
  then have "\<forall>y\<in>set xs. key y \<noteq> key x" by (simp add: key_find_def find_None_iff)
  then show ?thesis using comparator.spl_remove_absent [OF assms] None by simp
next
  case (Some y)
  then have "y \<in> set xs" "key y = key x" by (auto simp: key_find_def find_Some_iff)
  then show ?thesis using comparator.spl_remove [OF assms] Some by simp
qed

theorem SPLAY_REMOVE_correct_witness:
  "\<exists>s'. SPLAY_REMOVE (three_way (\<lambda>a. int (a div 2))) 5 spl_demo = Some (Some 5, s') \<and> spl_holds s' [2, 6]"
  using SPLAY_REMOVE_correct [OF keyed.comparator_axioms spl_holds_demo, of "\<lambda>a. int (a div 2)" 5]
  by (simp add: order_simps key_find_def)

text \<open>
  C12. Iteration: \<open>SPLAY_MIN\<close> and \<open>SPLAY_NEXT\<close> return the first node and the next one in
  key order and restructure the tree on the way; \<open>SPLAY_FOREACH\<close> nevertheless runs a body
  that leaves the tree alone once on every node in key order, and what the tree holds is
  the same at the end.
\<close>

theorem SPLAY_FOREACH_correct:
  assumes "comparator cmp key" "spl_holds s xs" "key_sorted key xs"
    "\<forall>a\<in>set xs. \<forall>b s. f a (b, s) = Some (g a b, s)"
  shows "\<exists>s'. SPLAY_FOREACH cmp f (b, s) = Some ((fold g xs b), s') \<and> spl_holds s' xs"
proof -
  have loop: "\<exists>s'. SPLAY_FOREACH_loop cmp f (first_of vs) (b, s) = Some (fold g vs b, s') \<and> spl_holds s' xs"
    if "xs = us @ vs" "spl_holds s xs" for us vs b s
    using that
  proof (induction vs arbitrary: us b s)
    case Nil
    then show ?case by (simp add: SPLAY_FOREACH_loop.simps)
  next
    case (Cons a vs)
    obtain s1 where s1: "SPLAY_NEXT cmp a s = Some (first_of vs, s1)" "spl_holds s1 xs"
      using comparator.spl_next [OF assms(1), of s us a vs] Cons.prems assms(3) by auto
    have "xs = (us @ [a]) @ vs" using Cons.prems(1) by simp
    from Cons.IH [OF this s1(2)] s1(1) assms(4) Cons.prems(1) show ?case
      by (simp add: SPLAY_FOREACH_loop.simps [of _ _ "Some a"])
  qed
  obtain s1 where "SPLAY_MIN s = Some (first_of xs, s1)" "spl_holds s1 xs"
    using spl_minmax(1) [OF assms(2)] by blast
  then show ?thesis using loop [of "[]" xs s1 b] by (simp add: SPLAY_FOREACH_def)
qed

theorem SPLAY_FOREACH_correct_witness:
  "\<exists>s'. SPLAY_FOREACH (three_way int) (\<lambda>a bs. Some (a # fst bs, snd bs)) ([], spl_demo) = Some ([6, 4, 2], s')"
  using SPLAY_FOREACH_correct [OF keyed.comparator_axioms spl_holds_demo spl_demo_sorted,
      of "\<lambda>a bs. Some (a # fst bs, snd bs)" "(#)" "[]"] by auto

text \<open>
  C13. Every state that a client can reach from an empty splay tree by insertions, lookups
  and removals of found nodes is a tree sorted by key, and in it no such operation fails;
  \<open>SPLAY_FIND\<close> returns the node with the key, if there is one.
\<close>

theorem spl_reachable_safe:
  assumes "comparator cmp key"
    "index_reach SPLAY_EMPTY spl_alloc (SPLAY_INSERT cmp) (SPLAY_FIND cmp) (SPLAY_REMOVE cmp) s"
  shows "\<exists>xs. spl_holds s xs \<and> key_sorted key xs \<and>
    (\<forall>x. spl_alloc x s \<longrightarrow> (\<exists>r s'. SPLAY_INSERT cmp x s = Some (r, s'))) \<and>
    (\<forall>x. \<exists>s'. SPLAY_FIND cmp x s = Some (key_find key x xs, s') \<and>
       (\<forall>a. key_find key x xs = Some a \<longrightarrow> (\<exists>s''. SPLAY_REMOVE cmp a s' = Some (Some a, s''))))"
  using ordered_index.reach_safe [OF comparator.spl_ordered_index [OF assms(1)] assms(2)]
  by (auto simp: spl_index_def)

theorem spl_reachable_safe_witness:
  "\<exists>xs. spl_holds (SPLAY_INIT spl_demo) xs \<and>
    (\<exists>r s'. SPLAY_INSERT (three_way int) 7 (SPLAY_INIT spl_demo) = Some (r, s'))"
proof -
  have "spl_alloc 7 (SPLAY_INIT spl_demo)"
    using spl_demo_alloc by (simp add: spl_alloc_def SPLAY_INIT_def set_SPLAY_ROOT_def)
  then show ?thesis using spl_reachable_safe [OF keyed.comparator_axioms spl_demo_reach] by blast
qed

text \<open>
  \<open>SPLAY_MIN\<close> and \<open>SPLAY_MAX\<close> return the ends of the order, \<open>NULL\<close> for the empty
  tree, and after them the root is the node returned.
\<close>

lemma SPLAY_MIN_MAX_correct:
  assumes "spl_holds s xs"
  shows "(\<exists>s1. SPLAY_MIN s = Some (first_of xs, s1) \<and> spl_holds s1 xs \<and> SPLAY_ROOT s1 = first_of xs) \<and>
    (\<exists>s2. SPLAY_MAX s = Some (last_of xs, s2) \<and> spl_holds s2 xs \<and> SPLAY_ROOT s2 = last_of xs)"
proof -
  obtain s1 where s1: "SPLAY_MIN s = Some (first_of xs, s1)" "spl_holds s1 xs"
    using spl_minmax(1) [OF assms] by blast
  obtain s2 where s2: "SPLAY_MAX s = Some (last_of xs, s2)" "spl_holds s2 xs"
    using spl_minmax(2) [OF assms] by blast
  have "SPLAY_ROOT s1 = first_of xs" "SPLAY_ROOT s2 = last_of xs"
    using s1(1) s2(1)
    by (auto simp: SPLAY_MIN_def SPLAY_MAX_def SPLAY_MIN_MAX_def SPLAY_EMPTY_def split: if_splits elim!: bind_eq_SomeE)
  then show ?thesis using s1 s2 by blast
qed

end
