(* ===== verification/UvSplayTermination.thy ===== *)
theory UvSplayTermination
  imports UvSplayTheorems
begin








end
