(* ===== verification/UvErrno.thy ===== *)
theory UvErrno
  imports Main
begin

text \<open>
  The error codes of libuv: \<open>uv/errno.h\<close> gives every error name a negative code, the negated
  \<open>errno\<close> of the platform where there is one, a number of its own otherwise; \<open>uv.h\<close> lists the
  names with their messages and makes them the enumeration \<open>uv_errno_t\<close>. The platform (its
  \<open>errno.h\<close>, and which system it is) is a parameter.
\<close>

record platform =
  errno_macro :: "string \<rightharpoonup> int"
  EDOM :: int
  win32 :: bool
  bsd :: bool

definition UV__ERR :: "platform \<Rightarrow> int \<Rightarrow> int" where
  "UV__ERR p x = (if EDOM p > 0 then - x else x)"

text \<open>The codes that do not depend on the platform.\<close>

definition UV_const :: "(string \<times> int) list" where
  "UV_const = [
     (''EOF'', -4095), (''UNKNOWN'', -4094), (''EAI_ADDRFAMILY'', -3000), (''EAI_AGAIN'', -3001),
     (''EAI_BADFLAGS'', -3002), (''EAI_CANCELED'', -3003), (''EAI_FAIL'', -3004),
     (''EAI_FAMILY'', -3005), (''EAI_MEMORY'', -3006), (''EAI_NODATA'', -3007),
     (''EAI_NONAME'', -3008), (''EAI_OVERFLOW'', -3009), (''EAI_SERVICE'', -3010),
     (''EAI_SOCKTYPE'', -3011), (''EAI_BADHINTS'', -3013), (''EAI_PROTOCOL'', -3014)]"

text \<open>\<open>#if defined(X) && !defined(_WIN32)\<close>: the names with their codes in the other case.\<close>

definition UV_sys_1 :: "(string \<times> int) list" where
  "UV_sys_1 = [
     (''E2BIG'', -4093), (''EACCES'', -4092), (''EADDRINUSE'', -4091), (''EADDRNOTAVAIL'', -4090),
     (''EAFNOSUPPORT'', -4089), (''EAGAIN'', -4088), (''EALREADY'', -4084), (''EBADF'', -4083),
     (''EBUSY'', -4082), (''ECANCELED'', -4081), (''ECHARSET'', -4080), (''ECONNABORTED'', -4079),
     (''ECONNREFUSED'', -4078), (''ECONNRESET'', -4077), (''EDESTADDRREQ'', -4076),
     (''EEXIST'', -4075), (''EFAULT'', -4074), (''EHOSTUNREACH'', -4073), (''EINTR'', -4072),
     (''EINVAL'', -4071), (''EIO'', -4070), (''EISCONN'', -4069), (''EISDIR'', -4068),
     (''ELOOP'', -4067), (''EMFILE'', -4066)]"

definition UV_sys_2 :: "(string \<times> int) list" where
  "UV_sys_2 = [
     (''EMSGSIZE'', -4065), (''ENAMETOOLONG'', -4064), (''ENETDOWN'', -4063),
     (''ENETUNREACH'', -4062), (''ENFILE'', -4061), (''ENOBUFS'', -4060), (''ENODEV'', -4059),
     (''ENOENT'', -4058), (''ENOMEM'', -4057), (''ENONET'', -4056), (''ENOSPC'', -4055),
     (''ENOSYS'', -4054), (''ENOTCONN'', -4053), (''ENOTDIR'', -4052), (''ENOTEMPTY'', -4051),
     (''ENOTSOCK'', -4050), (''ENOTSUP'', -4049), (''EPERM'', -4048), (''EPIPE'', -4047),
     (''EPROTO'', -4046), (''EPROTONOSUPPORT'', -4045), (''EPROTOTYPE'', -4044), (''EROFS'', -4043),
     (''ESHUTDOWN'', -4042), (''ESPIPE'', -4041)]"

definition UV_sys_3 :: "(string \<times> int) list" where
  "UV_sys_3 = [
     (''ESRCH'', -4040), (''ETIMEDOUT'', -4039), (''ETXTBSY'', -4038), (''EXDEV'', -4037),
     (''EFBIG'', -4036), (''ENOPROTOOPT'', -4035), (''ERANGE'', -4034), (''ENXIO'', -4033),
     (''EMLINK'', -4032), (''EREMOTEIO'', -4030), (''ENOTTY'', -4029), (''EFTYPE'', -4028),
     (''EILSEQ'', -4027), (''EOVERFLOW'', -4026), (''ESOCKTNOSUPPORT'', -4025)]"

definition UV_sys :: "(string \<times> int) list" where
  "UV_sys = UV_sys_1 @ UV_sys_2 @ UV_sys_3"

definition system_code :: "platform \<Rightarrow> string \<Rightarrow> int \<Rightarrow> int" where
  "system_code p name fallback =
     (if win32 p then fallback
      else case errno_macro p name of Some e \<Rightarrow> UV__ERR p e | None \<Rightarrow> fallback)"

definition UV__EHOSTDOWN :: "platform \<Rightarrow> int" where
  "UV__EHOSTDOWN p = system_code p ''EHOSTDOWN'' (if bsd p then -64 else -4031)"

text \<open>The macro \<open>UV__<name>\<close>; \<open>None\<close> when there is none.\<close>

definition UV_code :: "platform \<Rightarrow> string \<Rightarrow> int option" where
  "UV_code p name =
     (case map_of UV_const name of
        Some c \<Rightarrow> Some c
      | None \<Rightarrow>
          (if name = ''EHOSTDOWN'' then Some (UV__EHOSTDOWN p)
           else map_option (system_code p name) (map_of UV_sys name)))"

definition UV_ERRNO_MAP :: "(string \<times> string) list" where
  "UV_ERRNO_MAP = [
     (''E2BIG'', ''argument list too long''), (''EACCES'', ''permission denied''),
     (''EADDRINUSE'', ''address already in use''), (''EADDRNOTAVAIL'', ''address not available''),
     (''EAFNOSUPPORT'', ''address family not supported''),
     (''EAGAIN'', ''resource temporarily unavailable''),
     (''EAI_ADDRFAMILY'', ''address family not supported''), (''EAI_AGAIN'', ''temporary failure''),
     (''EAI_BADFLAGS'', ''bad ai_flags value''), (''EAI_BADHINTS'', ''invalid value for hints''),
     (''EAI_CANCELED'', ''request canceled''), (''EAI_FAIL'', ''permanent failure''),
     (''EAI_FAMILY'', ''ai_family not supported''), (''EAI_MEMORY'', ''out of memory''),
     (''EAI_NODATA'', ''no address''), (''EAI_NONAME'', ''unknown node or service''),
     (''EAI_OVERFLOW'', ''argument buffer overflow''),
     (''EAI_PROTOCOL'', ''resolved protocol is unknown''),
     (''EAI_SERVICE'', ''service not available for socket type''),
     (''EAI_SOCKTYPE'', ''socket type not supported''),
     (''EALREADY'', ''connection already in progress''), (''EBADF'', ''bad file descriptor''),
     (''EBUSY'', ''resource busy or locked''), (''ECANCELED'', ''operation canceled''),
     (''ECHARSET'', ''invalid Unicode character''),
     (''ECONNABORTED'', ''software caused connection abort''),
     (''ECONNREFUSED'', ''connection refused''), (''ECONNRESET'', ''connection reset by peer''),
     (''EDESTADDRREQ'', ''destination address required''), (''EEXIST'', ''file already exists''),
     (''EFAULT'', ''bad address in system call argument''), (''EFBIG'', ''file too large''),
     (''EHOSTUNREACH'', ''host is unreachable''), (''EINTR'', ''interrupted system call''),
     (''EINVAL'', ''invalid argument''), (''EIO'', ''i/o error''),
     (''EISCONN'', ''socket is already connected''),
     (''EISDIR'', ''illegal operation on a directory''),
     (''ELOOP'', ''too many symbolic links encountered''), (''EMFILE'', ''too many open files''),
     (''EMSGSIZE'', ''message too long''), (''ENAMETOOLONG'', ''name too long''),
     (''ENETDOWN'', ''network is down''), (''ENETUNREACH'', ''network is unreachable''),
     (''ENFILE'', ''file table overflow''), (''ENOBUFS'', ''no buffer space available''),
     (''ENODEV'', ''no such device''), (''ENOENT'', ''no such file or directory''),
     (''ENOMEM'', ''not enough memory''), (''ENONET'', ''machine is not on the network''),
     (''ENOPROTOOPT'', ''protocol not available''), (''ENOSPC'', ''no space left on device''),
     (''ENOSYS'', ''function not implemented''), (''ENOTCONN'', ''socket is not connected''),
     (''ENOTDIR'', ''not a directory''), (''ENOTEMPTY'', ''directory not empty''),
     (''ENOTSOCK'', ''socket operation on non-socket''),
     (''ENOTSUP'', ''operation not supported on socket''),
     (''EOVERFLOW'', ''value too large for defined data type''),
     (''EPERM'', ''operation not permitted''), (''EPIPE'', ''broken pipe''),
     (''EPROTO'', ''protocol error''), (''EPROTONOSUPPORT'', ''protocol not supported''),
     (''EPROTOTYPE'', ''protocol wrong type for socket''), (''ERANGE'', ''result too large''),
     (''EROFS'', ''read-only file system''),
     (''ESHUTDOWN'', ''cannot send after transport endpoint shutdown''),
     (''ESPIPE'', ''invalid seek''), (''ESRCH'', ''no such process''),
     (''ETIMEDOUT'', ''connection timed out''), (''ETXTBSY'', ''text file is busy''),
     (''EXDEV'', ''cross-device link not permitted''), (''UNKNOWN'', ''unknown error''),
     (''EOF'', ''end of file''), (''ENXIO'', ''no such device or address''),
     (''EMLINK'', ''too many links''), (''EHOSTDOWN'', ''host is down''),
     (''EREMOTEIO'', ''remote I/O error''), (''ENOTTY'', ''inappropriate ioctl for device''),
     (''EFTYPE'', ''inappropriate file type or format''), (''EILSEQ'', ''illegal byte sequence''),
     (''ESOCKTNOSUPPORT'', ''socket type not supported'')]"

text \<open>The enumeration \<open>uv_errno_t\<close>.\<close>

definition uv_errno_t :: "platform \<Rightarrow> (string \<times> int option) list" where
  "uv_errno_t p = map (\<lambda>(code, _). (code, UV_code p code)) UV_ERRNO_MAP"

definition UV_ERRNO_MAX :: int where "UV_ERRNO_MAX = -4095 - 1"

end
