(* ===== verification/UvErrnoTheorems.thy ===== *)
theory UvErrnoTheorems
  imports UvErrno
begin

text \<open>
  The error codes of libuv are negative and unambiguous on every platform whose \<open>errno\<close>
  macros are as POSIX asks.
\<close>

subsection \<open>The codes without a platform\<close>








subsection \<open>The codes on a platform\<close>












end
