(* ===== verification/V8Memory.thy ===== *)
theory V8Memory
  imports Prelude "HOL-Library.Word"
begin

text \<open>
  The memory that the inline functions of \<open>node-js/include/node/v8-internal.h\<close> read and
  write through casts of integers to pointers: bytes at 64-bit addresses, words of any
  width in little-endian order. An access to an address that holds no byte is undefined
  (\<open>None\<close>). \<open>cells\<close> is the interface that the header's functions rely on, for any width:
  a read after a write returns what was written, and a write does not change cells apart
  from its own.
\<close>

type_synonym mem = "64 word \<rightharpoonup> 8 word"

subsection \<open>Read-modify-write on cells\<close>

locale cells =
  fixes rd :: "'m \<Rightarrow> 'a \<Rightarrow> 'v option"
    and wr :: "'m \<Rightarrow> 'a \<Rightarrow> 'v \<Rightarrow> 'm option"
    and sep :: "'a \<Rightarrow> 'a \<Rightarrow> bool"
  assumes rd_wr: "rd m a = Some v \<Longrightarrow> \<exists>m'. wr m a w = Some m' \<and> rd m' a = Some w"
    and rd_wr_sep: "wr m a w = Some m' \<Longrightarrow> sep a b \<Longrightarrow> rd m' b = rd m b"
begin

definition upd :: "('v \<Rightarrow> 'v) \<Rightarrow> 'm \<Rightarrow> 'a \<Rightarrow> 'm option" where
  "upd f m a = Option.bind (rd m a) (\<lambda>v. wr m a (f v))"

lemma upd_rd: "rd m a = Some v \<Longrightarrow> \<exists>m'. upd f m a = Some m' \<and> rd m' a = Some (f v)"
  using rd_wr by (auto simp: upd_def)

lemma upd_None: "rd m a = None \<Longrightarrow> upd f m a = None"
  by (simp add: upd_def)

lemma upd_sep: "upd f m a = Some m' \<Longrightarrow> sep a b \<Longrightarrow> rd m' b = rd m b"
  by (auto simp: upd_def elim!: bind_eq_SomeE dest: rd_wr_sep)

lemma upd_upd:
  assumes "rd m a = Some v"
  shows "\<exists>m' m''. upd f m a = Some m' \<and> upd g m' a = Some m'' \<and> rd m'' a = Some (g (f v))"
  using upd_rd [OF assms] upd_rd by metis

end

subsection \<open>Bytes\<close>

fun load_bytes :: "nat \<Rightarrow> mem \<Rightarrow> 64 word \<Rightarrow> 8 word list option" where
  "load_bytes 0 m a = Some []"
| "load_bytes (Suc n) m a = do { b \<leftarrow> m a; bs \<leftarrow> load_bytes n m (a + 1); Some (b # bs) }"

fun put_bytes :: "8 word list \<Rightarrow> mem \<Rightarrow> 64 word \<Rightarrow> mem" where
  "put_bytes [] m a = m"
| "put_bytes (b # bs) m a = (put_bytes bs m (a + 1))(a \<mapsto> b)"

definition load :: "mem \<Rightarrow> 64 word \<Rightarrow> 'a::len word option" where
  "load m a = map_option (\<lambda>bs. word_rcat (rev bs)) (load_bytes (LENGTH('a) div 8) m a)"

definition le_bytes :: "'a::len word \<Rightarrow> 8 word list" where
  "le_bytes w = map (\<lambda>i. ucast (drop_bit (8 * i) w)) [0..<LENGTH('a) div 8]"

definition store :: "mem \<Rightarrow> 64 word \<Rightarrow> 'a::len word \<Rightarrow> mem option" where
  "store m a w = map_option (\<lambda>_. put_bytes (le_bytes w) m a) (load_bytes (LENGTH('a) div 8) m a)"

definition apart :: "nat \<Rightarrow> 64 word \<Rightarrow> nat \<Rightarrow> 64 word \<Rightarrow> bool" where
  "apart n a k b \<longleftrightarrow> (\<forall>i<n. \<forall>j<k. a + of_nat i \<noteq> b + of_nat j)"

lemma put_bytes_other:
  "\<forall>i<length bs. b \<noteq> a + of_nat i \<Longrightarrow> put_bytes bs m a b = m b"
proof (induction bs arbitrary: a)
  case (Cons c bs)
  have "\<forall>i<length bs. b \<noteq> (a + 1) + of_nat i"
    using Cons.prems by (auto dest: spec [of _ "Suc _"] simp: add.assoc)
  then show ?case using Cons.IH Cons.prems by (auto dest: spec [of _ 0])
qed simp

lemma load_bytes_cong:
  "(\<And>i. i < n \<Longrightarrow> m (a + of_nat i) = m' (a + of_nat i)) \<Longrightarrow> load_bytes n m a = load_bytes n m' a"
proof (induction n arbitrary: a)
  case (Suc n)
  have "m a = m' a" using Suc.prems [of 0] by simp
  moreover have "load_bytes n m (a + 1) = load_bytes n m' (a + 1)"
    using Suc.prems [of "Suc _"] by (intro Suc.IH) (simp add: add.assoc)
  ultimately show ?case by simp
qed simp

lemma load_put_bytes:
  "length bs \<le> 2 ^ 64 \<Longrightarrow> load_bytes (length bs) (put_bytes bs m a) a = Some bs"
proof (induction bs arbitrary: a)
  case (Cons b bs)
  let ?m = "put_bytes bs m (a + 1)"
  have "a + 1 + of_nat i \<noteq> a" if "i < length bs" for i
  proof
    assume "a + 1 + of_nat i = a"
    then have "(of_nat (Suc i) :: 64 word) = 0" by (simp add: add.assoc)
    then have "2 ^ 64 dvd Suc i" by (simp add: word_of_nat_eq_0_iff del: of_nat_Suc)
    then show False using that Cons.prems by (auto dest: dvd_imp_le)
  qed
  then have "load_bytes (length bs) (?m(a \<mapsto> b)) (a + 1) = load_bytes (length bs) ?m (a + 1)"
    by (intro load_bytes_cong) simp
  also have "\<dots> = Some bs" using Cons by simp
  finally have "load_bytes (length bs) (?m(a \<mapsto> b)) (a + 1) = Some bs" .
  then have "load_bytes (Suc (length bs)) (?m(a \<mapsto> b)) a = Some (b # bs)"
    by (simp del: fun_upd_apply add: fun_upd_same)
  then show ?case by (simp del: fun_upd_apply)
qed simp

lemma load_bytes_length: "load_bytes n m a = Some bs \<Longrightarrow> length bs = n"
  by (induction n arbitrary: a bs) (auto elim!: bind_eq_SomeE)

lemma length_le_bytes [simp]: "length (le_bytes (w :: 'a::len word)) = LENGTH('a) div 8"
  by (simp add: le_bytes_def)

lemma le_bytes_value:
  assumes "LENGTH('a::len) mod 8 = 0"
  shows "word_rcat (rev (le_bytes w)) = (w :: 'a word)"
proof (rule bit_word_eqI)
  fix n assume n: "n < LENGTH('a)"
  have "n div 8 < LENGTH('a) div 8" using n assms by (auto elim!: dvdE simp: mod_eq_0_iff_dvd)
  moreover have "8 * (n div 8) + n mod 8 = n" by simp
  ultimately show "bit (word_rcat (rev (le_bytes w)) :: 'a word) n \<longleftrightarrow> bit w n"
    using n bit_horner_sum_uint_exp_iff [of "le_bytes w" n]
    by (simp add: word_rcat_def bit_of_int_iff bit_simps le_bytes_def)
qed

subsection \<open>Words\<close>

lemma load_store:
  assumes "LENGTH('a::len) mod 8 = 0" "LENGTH('a) div 8 \<le> 2 ^ 64" "load m a = Some (v :: 'a word)"
  shows "\<exists>m'. store m a (w :: 'a word) = Some m' \<and> load m' a = Some w"
proof -
  let ?n = "LENGTH('a) div 8"
  have "load_bytes ?n (put_bytes (le_bytes w) m a) a = Some (le_bytes w)"
    using load_put_bytes [of "le_bytes w"] assms(2) by simp
  then show ?thesis
    using assms(3) le_bytes_value [OF assms(1), of w] by (auto simp: load_def store_def)
qed

lemma load_store_apart:
  assumes "store m a (w :: 'a::len word) = Some m'" "apart (LENGTH('a) div 8) a (LENGTH('b::len) div 8) b"
  shows "(load m' b :: 'b word option) = load m b"
proof -
  have "load_bytes (LENGTH('b) div 8) m' b = load_bytes (LENGTH('b) div 8) m b"
  proof (rule load_bytes_cong)
    fix j assume "j < LENGTH('b) div 8"
    then have "\<forall>i<length (le_bytes w). b + of_nat j \<noteq> a + of_nat i"
      using assms(2) unfolding apart_def length_le_bytes by metis
    then show "m' (b + of_nat j) = m (b + of_nat j)"
      using assms(1) put_bytes_other [of "le_bytes w" "b + of_nat j" a m] by (auto simp: store_def)
  qed
  then show ?thesis by (simp add: load_def)
qed

interpretation byte_cells: cells "load :: mem \<Rightarrow> 64 word \<Rightarrow> 8 word option" store "\<lambda>a b. apart 1 a 1 b"
proof
  show "\<exists>m'. store m a w = Some m' \<and> load m' a = Some w" if "load m a = Some v" for m a and v w :: "8 word"
    using load_store [OF _ _ that] by simp
  show "load m' b = (load m b :: 8 word option)" if "store m a w = Some m'" "apart 1 a 1 b" for m m' a b and w :: "8 word"
    using load_store_apart [OF that(1), where 'b = 8] that(2) by simp
qed

interpretation word_cells: cells "load :: mem \<Rightarrow> 64 word \<Rightarrow> 64 word option" store "\<lambda>a b. apart 8 a 8 b"
proof
  show "\<exists>m'. store m a w = Some m' \<and> load m' a = Some w" if "load m a = Some v" for m a and v w :: "64 word"
    using load_store [OF _ _ that] by simp
  show "load m' b = (load m b :: 64 word option)" if "store m a w = Some m'" "apart 8 a 8 b" for m m' a b and w :: "64 word"
    using load_store_apart [OF that(1), where 'b = 64] that(2) by simp
qed

lemma apart_offset:
  assumes "n \<le> unat (b - a)" "unat (b - a) + k \<le> 2 ^ 64"
  shows "apart n a k b"
  unfolding apart_def
proof (intro allI impI notI)
  fix i j assume ij: "i < n" "j < k" "a + of_nat i = b + of_nat j"
  then have "of_nat i = b - a + of_nat j" by (simp add: algebra_simps)
  then have "(of_nat i :: 64 word) = of_nat (unat (b - a) + j)" by simp
  then have "take_bit 64 i = take_bit 64 (unat (b - a) + j)"
    unfolding word_of_nat_eq_iff by simp
  moreover have "i < 2 ^ 64" "unat (b - a) + j < 2 ^ 64" using ij assms by auto
  ultimately have "i = unat (b - a) + j"
    by (simp add: take_bit_nat_eq_self_iff [THEN iffD2])
  then show False using ij assms(1) by simp
qed

lemma apart_commute: "apart n a k b \<longleftrightarrow> apart k b n a"
  unfolding apart_def by metis

end
