(* ===== verification/V8Internal.thy ===== *)
theory V8Internal
  imports V8Memory
begin

unbundle bit_operations_syntax

text \<open>
  The inline functions and constants of \<open>node-js/include/node/v8-internal.h\<close> on a 64-bit
  target. The preprocessor switches are the fields of \<open>v8_config\<close>; the shipped
  \<open>config.gypi\<close> has them all off (\<open>node_config\<close>). \<open>Address\<close> and \<open>intptr_t\<close> are 64-bit
  words, \<open>int\<close> values of JavaScript small integers (Smis) are 32-bit words; constants
  of type \<open>int\<close> that are only offsets or enumerators are integers.
\<close>

record v8_config =
  V8_COMPRESS_POINTERS :: bool
  V8_31BIT_SMIS_ON_64BIT_ARCH :: bool
  V8_SANDBOXED_EXTERNAL_POINTERS :: bool
  V8_MAP_PACKING :: bool

definition node_config :: v8_config where
  "node_config = \<lparr>V8_COMPRESS_POINTERS = False, V8_31BIT_SMIS_ON_64BIT_ARCH = False,
     V8_SANDBOXED_EXTERNAL_POINTERS = False, V8_MAP_PACKING = False\<rparr>"

type_synonym Address = "64 word"

definition KB :: int where "KB = 1024"
definition MB :: int where "MB = KB * 1024"
definition GB :: int where "GB = MB * 1024"
definition TB :: int where "TB = GB * 1024"

definition kApiSystemPointerSize :: int where "kApiSystemPointerSize = 8"
definition kApiDoubleSize :: int where "kApiDoubleSize = 8"
definition kApiInt32Size :: int where "kApiInt32Size = 4"
definition kApiInt64Size :: int where "kApiInt64Size = 8"
definition kApiSizetSize :: int where "kApiSizetSize = 8"

subsection \<open>Tags\<close>

definition kHeapObjectTag :: Address where "kHeapObjectTag = 1"
definition kWeakHeapObjectTag :: Address where "kWeakHeapObjectTag = 3"
definition kHeapObjectTagSize :: nat where "kHeapObjectTagSize = 2"
definition kHeapObjectTagMask :: Address where "kHeapObjectTagMask = push_bit kHeapObjectTagSize 1 - 1"
definition kForwardingTag :: Address where "kForwardingTag = 0"
definition kForwardingTagSize :: nat where "kForwardingTagSize = 2"
definition kForwardingTagMask :: Address where "kForwardingTagMask = push_bit kForwardingTagSize 1 - 1"
definition kSmiTag :: Address where "kSmiTag = 0"
definition kSmiTagSize :: nat where "kSmiTagSize = 1"
definition kSmiTagMask :: Address where "kSmiTagMask = push_bit kSmiTagSize 1 - 1"

definition kUintptrAllBitsSet :: Address where "kUintptrAllBitsSet = - 1"

subsection \<open>Small integers\<close>

text \<open>\<open>SmiTagging<4>\<close>: a 32-bit tagged value, 31 payload bits.\<close>

definition SmiTagging4_kSmiShiftSize :: nat where "SmiTagging4_kSmiShiftSize = 0"
definition SmiTagging4_kSmiValueSize :: nat where "SmiTagging4_kSmiValueSize = 31"

definition SmiTagging4_kSmiMinValue :: "64 word" where
  "SmiTagging4_kSmiMinValue = push_bit (SmiTagging4_kSmiValueSize - 1) kUintptrAllBitsSet"
definition SmiTagging4_kSmiMaxValue :: "64 word" where
  "SmiTagging4_kSmiMaxValue = - (SmiTagging4_kSmiMinValue + 1)"

definition SmiTagging4_SmiToInt :: "Address \<Rightarrow> 32 word" where
  "SmiTagging4_SmiToInt value = signed_drop_bit (kSmiTagSize + SmiTagging4_kSmiShiftSize) (ucast value)"

definition SmiTagging4_IsValidSmi :: "64 word \<Rightarrow> bool" where
  "SmiTagging4_IsValidSmi value \<longleftrightarrow>
     value - SmiTagging4_kSmiMinValue \<le> SmiTagging4_kSmiMaxValue - SmiTagging4_kSmiMinValue"

text \<open>\<open>SmiTagging<8>\<close>: a 64-bit tagged value, 32 payload bits.\<close>

definition SmiTagging8_kSmiShiftSize :: nat where "SmiTagging8_kSmiShiftSize = 31"
definition SmiTagging8_kSmiValueSize :: nat where "SmiTagging8_kSmiValueSize = 32"

definition SmiTagging8_kSmiMinValue :: "64 word" where
  "SmiTagging8_kSmiMinValue = push_bit (SmiTagging8_kSmiValueSize - 1) kUintptrAllBitsSet"
definition SmiTagging8_kSmiMaxValue :: "64 word" where
  "SmiTagging8_kSmiMaxValue = - (SmiTagging8_kSmiMinValue + 1)"

definition SmiTagging8_SmiToInt :: "Address \<Rightarrow> 32 word" where
  "SmiTagging8_SmiToInt value = ucast (signed_drop_bit (kSmiTagSize + SmiTagging8_kSmiShiftSize) value)"

definition SmiTagging8_IsValidSmi :: "64 word \<Rightarrow> bool" where
  "SmiTagging8_IsValidSmi value \<longleftrightarrow> value = scast (ucast value :: 32 word)"

text \<open>Pointer compression, and the tagging that the platform uses.\<close>

definition kPtrComprCageReservationSize :: int where "kPtrComprCageReservationSize = 2 ^ 32"
definition kPtrComprCageBaseAlignment :: int where "kPtrComprCageBaseAlignment = 2 ^ 32"

definition kApiTaggedSize :: "v8_config \<Rightarrow> int" where
  "kApiTaggedSize cfg = (if V8_COMPRESS_POINTERS cfg then kApiInt32Size else kApiSystemPointerSize)"

definition PointerCompressionIsEnabled :: "v8_config \<Rightarrow> bool" where
  "PointerCompressionIsEnabled cfg \<longleftrightarrow> kApiTaggedSize cfg \<noteq> kApiSystemPointerSize"

definition PlatformSmiTagging :: "v8_config \<Rightarrow> int" where
  "PlatformSmiTagging cfg = (if V8_31BIT_SMIS_ON_64BIT_ARCH cfg then kApiInt32Size else kApiTaggedSize cfg)"

definition kSmiShiftSize :: "v8_config \<Rightarrow> nat" where
  "kSmiShiftSize cfg = (if PlatformSmiTagging cfg = 4 then SmiTagging4_kSmiShiftSize else SmiTagging8_kSmiShiftSize)"
definition kSmiValueSize :: "v8_config \<Rightarrow> nat" where
  "kSmiValueSize cfg = (if PlatformSmiTagging cfg = 4 then SmiTagging4_kSmiValueSize else SmiTagging8_kSmiValueSize)"
definition kSmiMinValue :: "v8_config \<Rightarrow> 32 word" where
  "kSmiMinValue cfg = ucast (if PlatformSmiTagging cfg = 4 then SmiTagging4_kSmiMinValue else SmiTagging8_kSmiMinValue)"
definition kSmiMaxValue :: "v8_config \<Rightarrow> 32 word" where
  "kSmiMaxValue cfg = ucast (if PlatformSmiTagging cfg = 4 then SmiTagging4_kSmiMaxValue else SmiTagging8_kSmiMaxValue)"

definition SmiValuesAre31Bits :: "v8_config \<Rightarrow> bool" where
  "SmiValuesAre31Bits cfg \<longleftrightarrow> kSmiValueSize cfg = 31"
definition SmiValuesAre32Bits :: "v8_config \<Rightarrow> bool" where
  "SmiValuesAre32Bits cfg \<longleftrightarrow> kSmiValueSize cfg = 32"

definition IntToSmi :: "v8_config \<Rightarrow> 32 word \<Rightarrow> Address" where
  "IntToSmi cfg value = push_bit (kSmiTagSize + kSmiShiftSize cfg) (scast value) OR kSmiTag"

definition SmiValue :: "v8_config \<Rightarrow> Address \<Rightarrow> 32 word" where
  "SmiValue cfg value = (if PlatformSmiTagging cfg = 4 then SmiTagging4_SmiToInt value else SmiTagging8_SmiToInt value)"

definition IsValidSmi :: "v8_config \<Rightarrow> 64 word \<Rightarrow> bool" where
  "IsValidSmi cfg value = (if PlatformSmiTagging cfg = 4 then SmiTagging4_IsValidSmi value else SmiTagging8_IsValidSmi value)"

definition HasHeapObjectTag :: "Address \<Rightarrow> bool" where
  "HasHeapObjectTag value \<longleftrightarrow> value AND kHeapObjectTagMask = kHeapObjectTag"

subsection \<open>The sandbox\<close>

definition kSandboxSizeLog2 :: nat where "kSandboxSizeLog2 = 40"
definition kSandboxSize :: int where "kSandboxSize = 2 ^ kSandboxSizeLog2"
definition kSandboxAlignment :: int where "kSandboxAlignment = kPtrComprCageBaseAlignment"
definition kSandboxedPointerShift :: nat where "kSandboxedPointerShift = 64 - kSandboxSizeLog2"
definition kSandboxGuardRegionSize :: int where "kSandboxGuardRegionSize = 32 * GB"
definition kSandboxMinimumSize :: int where "kSandboxMinimumSize = 32 * GB"
definition kSandboxMinimumReservationSize :: int where "kSandboxMinimumReservationSize = 8 * GB"
definition kExternalPointerTableReservationSize :: int where
  "kExternalPointerTableReservationSize = 128 * MB"
definition kMaxSandboxedExternalPointers :: int where
  "kMaxSandboxedExternalPointers = kExternalPointerTableReservationSize div kApiSystemPointerSize"
definition kExternalPointerIndexShift :: nat where "kExternalPointerIndexShift = 8"

subsection \<open>External pointer tags\<close>

definition kExternalPointerTagMask :: "64 word" where "kExternalPointerTagMask = 0xffff000000000000"
definition kExternalPointerTagShift :: nat where "kExternalPointerTagShift = 48"
definition MAKE_TAG :: "64 word \<Rightarrow> 64 word" where "MAKE_TAG v = push_bit kExternalPointerTagShift v"

datatype ExternalPointerTag =
    kExternalPointerNullTag
  | kExternalPointerFreeEntryTag
  | kExternalStringResourceTag
  | kExternalStringResourceDataTag
  | kForeignForeignAddressTag
  | kNativeContextMicrotaskQueueTag
  | kEmbedderDataSlotPayloadTag
  | kCodeEntryPointTag
  | kExternalObjectValueTag

fun tag_value :: "ExternalPointerTag \<Rightarrow> 64 word" where
  "tag_value kExternalPointerNullTag = MAKE_TAG 0b0000000000000000"
| "tag_value kExternalPointerFreeEntryTag = MAKE_TAG 0b0111111110000000"
| "tag_value kExternalStringResourceTag = MAKE_TAG 0b1000000011111111"
| "tag_value kExternalStringResourceDataTag = MAKE_TAG 0b1000000101111111"
| "tag_value kForeignForeignAddressTag = MAKE_TAG 0b1000000110111111"
| "tag_value kNativeContextMicrotaskQueueTag = MAKE_TAG 0b1000000111011111"
| "tag_value kEmbedderDataSlotPayloadTag = MAKE_TAG 0b1000000111101111"
| "tag_value kCodeEntryPointTag = MAKE_TAG 0b1000000111110111"
| "tag_value kExternalObjectValueTag = MAKE_TAG 0b1000000111111011"

end
