(* ===== verification/V8Heap.thy ===== *)
theory V8Heap
  imports V8Internal
begin

text \<open>
  Class \<open>Internals\<close> of \<open>v8-internal.h\<close>: the layout constants that the inline API shares
  with the engine, and the functions that read tagged objects, handle nodes and isolate
  data from raw memory; with them the type tests of \<open>v8-value.h\<close>. The functions that are
  exported by the engine (\<open>DecodeExternalPointerImpl\<close>) are parameters.
\<close>

subsection \<open>Layout\<close>

definition kHeapObjectMapOffset :: int where "kHeapObjectMapOffset = 0"
definition kMapInstanceTypeOffset :: "v8_config \<Rightarrow> int" where
  "kMapInstanceTypeOffset cfg = 1 * kApiTaggedSize cfg + kApiInt32Size"
definition kStringResourceOffset :: "v8_config \<Rightarrow> int" where
  "kStringResourceOffset cfg = 1 * kApiTaggedSize cfg + 2 * kApiInt32Size"
definition kOddballKindOffset :: "v8_config \<Rightarrow> int" where
  "kOddballKindOffset cfg = 4 * kApiTaggedSize cfg + kApiDoubleSize"
definition kJSObjectHeaderSize :: "v8_config \<Rightarrow> int" where
  "kJSObjectHeaderSize cfg = 3 * kApiTaggedSize cfg"
definition kFixedArrayHeaderSize :: "v8_config \<Rightarrow> int" where
  "kFixedArrayHeaderSize cfg = 2 * kApiTaggedSize cfg"
definition kEmbedderDataArrayHeaderSize :: "v8_config \<Rightarrow> int" where
  "kEmbedderDataArrayHeaderSize cfg = 2 * kApiTaggedSize cfg"
definition kEmbedderDataSlotSize :: int where "kEmbedderDataSlotSize = kApiSystemPointerSize"
definition kEmbedderDataSlotRawPayloadOffset :: "v8_config \<Rightarrow> int" where
  "kEmbedderDataSlotRawPayloadOffset cfg = kApiTaggedSize cfg"
definition kNativeContextEmbedderDataOffset :: "v8_config \<Rightarrow> int" where
  "kNativeContextEmbedderDataOffset cfg = 6 * kApiTaggedSize cfg"

definition kStringRepresentationAndEncodingMask :: "32 word" where "kStringRepresentationAndEncodingMask = 0x0f"
definition kStringEncodingMask :: "32 word" where "kStringEncodingMask = 0x8"
definition kExternalTwoByteRepresentationTag :: "32 word" where "kExternalTwoByteRepresentationTag = 0x02"
definition kExternalOneByteRepresentationTag :: "32 word" where "kExternalOneByteRepresentationTag = 0x0a"

definition kNumIsolateDataSlots :: int where "kNumIsolateDataSlots = 4"
definition kStackGuardSize :: int where "kStackGuardSize = 7 * kApiSystemPointerSize"
definition kBuiltinTier0EntryTableSize :: int where "kBuiltinTier0EntryTableSize = 10 * kApiSystemPointerSize"
definition kBuiltinTier0TableSize :: int where "kBuiltinTier0TableSize = 10 * kApiSystemPointerSize"

definition kIsolateCageBaseOffset :: int where "kIsolateCageBaseOffset = 0"
definition kIsolateStackGuardOffset :: int where
  "kIsolateStackGuardOffset = kIsolateCageBaseOffset + kApiSystemPointerSize"
definition kBuiltinTier0EntryTableOffset :: int where
  "kBuiltinTier0EntryTableOffset = kIsolateStackGuardOffset + kStackGuardSize"
definition kBuiltinTier0TableOffset :: int where
  "kBuiltinTier0TableOffset = kBuiltinTier0EntryTableOffset + kBuiltinTier0EntryTableSize"
definition kIsolateEmbedderDataOffset :: int where
  "kIsolateEmbedderDataOffset = kBuiltinTier0TableOffset + kBuiltinTier0TableSize"
definition kIsolateFastCCallCallerFpOffset :: int where
  "kIsolateFastCCallCallerFpOffset = kIsolateEmbedderDataOffset + kNumIsolateDataSlots * kApiSystemPointerSize"
definition kIsolateFastCCallCallerPcOffset :: int where
  "kIsolateFastCCallCallerPcOffset = kIsolateFastCCallCallerFpOffset + kApiSystemPointerSize"
definition kIsolateFastApiCallTargetOffset :: int where
  "kIsolateFastApiCallTargetOffset = kIsolateFastCCallCallerPcOffset + kApiSystemPointerSize"
definition kIsolateLongTaskStatsCounterOffset :: int where
  "kIsolateLongTaskStatsCounterOffset = kIsolateFastApiCallTargetOffset + kApiSystemPointerSize"
definition kIsolateRootsOffset :: int where
  "kIsolateRootsOffset = kIsolateLongTaskStatsCounterOffset + kApiSizetSize"

lemmas isolate_offset_defs = kNumIsolateDataSlots_def kStackGuardSize_def kBuiltinTier0EntryTableSize_def
  kBuiltinTier0TableSize_def kIsolateCageBaseOffset_def kIsolateStackGuardOffset_def
  kBuiltinTier0EntryTableOffset_def kBuiltinTier0TableOffset_def kIsolateEmbedderDataOffset_def
  kIsolateFastCCallCallerFpOffset_def kIsolateFastCCallCallerPcOffset_def
  kIsolateFastApiCallTargetOffset_def kIsolateLongTaskStatsCounterOffset_def kIsolateRootsOffset_def
  kApiSystemPointerSize_def kApiSizetSize_def

definition kExternalPointerTableBufferOffset :: int where "kExternalPointerTableBufferOffset = 0"
definition kExternalPointerTableCapacityOffset :: int where
  "kExternalPointerTableCapacityOffset = kExternalPointerTableBufferOffset + kApiSystemPointerSize"
definition kExternalPointerTableFreelistHeadOffset :: int where
  "kExternalPointerTableFreelistHeadOffset = kExternalPointerTableCapacityOffset + kApiInt32Size"

definition kUndefinedValueRootIndex :: int where "kUndefinedValueRootIndex = 4"
definition kTheHoleValueRootIndex :: int where "kTheHoleValueRootIndex = 5"
definition kNullValueRootIndex :: int where "kNullValueRootIndex = 6"
definition kTrueValueRootIndex :: int where "kTrueValueRootIndex = 7"
definition kFalseValueRootIndex :: int where "kFalseValueRootIndex = 8"
definition kEmptyStringRootIndex :: int where "kEmptyStringRootIndex = 9"

definition kNodeClassIdOffset :: int where "kNodeClassIdOffset = 1 * kApiSystemPointerSize"
definition kNodeFlagsOffset :: int where "kNodeFlagsOffset = 1 * kApiSystemPointerSize + 3"
definition kNodeStateMask :: "8 word" where "kNodeStateMask = 0x7"
definition kNodeStateIsWeakValue :: "8 word" where "kNodeStateIsWeakValue = 2"
definition kNodeStateIsPendingValue :: "8 word" where "kNodeStateIsPendingValue = 3"

definition kFirstNonstringType :: int where "kFirstNonstringType = 0x80"
definition kOddballType :: int where "kOddballType = 0x83"
definition kForeignType :: int where "kForeignType = 0xcc"
definition kJSSpecialApiObjectType :: int where "kJSSpecialApiObjectType = 0x410"
definition kJSObjectType :: int where "kJSObjectType = 0x421"
definition kFirstJSApiObjectType :: int where "kFirstJSApiObjectType = 0x422"
definition kLastJSApiObjectType :: int where "kLastJSApiObjectType = 0x80A"
definition kUndefinedOddballKind :: int where "kUndefinedOddballKind = 5"
definition kNullOddballKind :: int where "kNullOddballKind = 3"

definition kThrowOnError :: int where "kThrowOnError = 0"
definition kDontThrow :: int where "kDontThrow = 1"
definition kInferShouldThrowMode :: int where "kInferShouldThrowMode = 2"
definition kExternalAllocationSoftLimit :: int where "kExternalAllocationSoftLimit = 64 * 1024 * 1024"

definition kMapWordMetadataMask :: Address where "kMapWordMetadataMask = push_bit 48 0xffff"
definition kMapWordXorMask :: Address where "kMapWordXorMask = 0b11"
definition kMapWordSignature :: Address where "kMapWordSignature = 0b10"

definition UnpackMapWord :: "Address \<Rightarrow> Address" where
  "UnpackMapWord mapword = mapword XOR kMapWordXorMask"

subsection \<open>Reading fields\<close>

definition field_addr :: "Address \<Rightarrow> int \<Rightarrow> Address" where
  "field_addr heap_object_ptr offset = heap_object_ptr + word_of_int offset - kHeapObjectTag"

definition ReadRawField :: "mem \<Rightarrow> Address \<Rightarrow> int \<Rightarrow> 'a::len word option" where
  "ReadRawField m heap_object_ptr offset = load m (field_addr heap_object_ptr offset)"

definition GetPtrComprCageBaseFromOnHeapAddress :: "Address \<Rightarrow> Address" where
  "GetPtrComprCageBaseFromOnHeapAddress addr = addr AND (- word_of_int kPtrComprCageBaseAlignment)"

definition DecompressTaggedAnyField :: "Address \<Rightarrow> 32 word \<Rightarrow> Address" where
  "DecompressTaggedAnyField heap_object_ptr value =
     GetPtrComprCageBaseFromOnHeapAddress heap_object_ptr + ucast value"

definition ReadTaggedPointerField :: "v8_config \<Rightarrow> mem \<Rightarrow> Address \<Rightarrow> int \<Rightarrow> Address option" where
  "ReadTaggedPointerField cfg m heap_object_ptr offset =
     (if V8_COMPRESS_POINTERS cfg then do {
        value \<leftarrow> ReadRawField m heap_object_ptr offset;
        base \<leftarrow> Some (GetPtrComprCageBaseFromOnHeapAddress heap_object_ptr);
        Some (base + ucast (value :: 32 word))
      } else ReadRawField m heap_object_ptr offset)"

definition ReadTaggedSignedField :: "v8_config \<Rightarrow> mem \<Rightarrow> Address \<Rightarrow> int \<Rightarrow> Address option" where
  "ReadTaggedSignedField cfg m heap_object_ptr offset =
     (if V8_COMPRESS_POINTERS cfg then do {
        value \<leftarrow> ReadRawField m heap_object_ptr offset;
        Some (ucast (value :: 32 word))
      } else ReadRawField m heap_object_ptr offset)"

text \<open>
  \<open>decode\<close> is \<open>DecodeExternalPointerImpl\<close> of the engine, for the isolate and the tag. The
  raw pointer is read as 32 bits with sandboxed external pointers, as 64 bits without.
\<close>

definition ReadExternalPointerField ::
    "v8_config \<Rightarrow> (32 word \<Rightarrow> Address) \<Rightarrow> mem \<Rightarrow> Address \<Rightarrow> int \<Rightarrow> Address option" where
  "ReadExternalPointerField cfg decode m heap_object_ptr offset =
     (if V8_SANDBOXED_EXTERNAL_POINTERS cfg then do {
        encoded_value \<leftarrow> ReadRawField m heap_object_ptr offset;
        Some (if encoded_value \<noteq> 0 then decode encoded_value else 0)
      } else ReadRawField m heap_object_ptr offset)"

definition GetInstanceType :: "v8_config \<Rightarrow> mem \<Rightarrow> Address \<Rightarrow> int option" where
  "GetInstanceType cfg m obj = do {
     mapw \<leftarrow> ReadTaggedPointerField cfg m obj kHeapObjectMapOffset;
     mapw \<leftarrow> Some (if V8_MAP_PACKING cfg then UnpackMapWord mapw else mapw);
     t \<leftarrow> ReadRawField m mapw (kMapInstanceTypeOffset cfg);
     Some (uint (t :: 16 word))
   }"

definition GetOddballKind :: "v8_config \<Rightarrow> mem \<Rightarrow> Address \<Rightarrow> int option" where
  "GetOddballKind cfg m obj =
     map_option (\<lambda>v. sint (SmiValue cfg v)) (ReadTaggedSignedField cfg m obj (kOddballKindOffset cfg))"

definition IsExternalTwoByteString :: "32 word \<Rightarrow> bool" where
  "IsExternalTwoByteString instance_type \<longleftrightarrow>
     instance_type AND kStringRepresentationAndEncodingMask = kExternalTwoByteRepresentationTag"

subsection \<open>Handle nodes\<close>

definition node_flags_addr :: "Address \<Rightarrow> Address" where
  "node_flags_addr obj = obj + word_of_int kNodeFlagsOffset"

definition GetNodeFlag :: "mem \<Rightarrow> Address \<Rightarrow> nat \<Rightarrow> 8 word option" where
  "GetNodeFlag m obj shift = map_option (\<lambda>b. b AND push_bit shift 1) (load m (node_flags_addr obj))"

definition UpdateNodeFlag :: "mem \<Rightarrow> Address \<Rightarrow> bool \<Rightarrow> nat \<Rightarrow> mem option" where
  "UpdateNodeFlag m obj value shift = do {
     mask \<leftarrow> Some (push_bit shift 1 :: 8 word);
     b \<leftarrow> load m (node_flags_addr obj);
     store m (node_flags_addr obj) ((b AND NOT mask) OR push_bit shift (of_bool value))
   }"

definition GetNodeState :: "mem \<Rightarrow> Address \<Rightarrow> 8 word option" where
  "GetNodeState m obj = map_option (\<lambda>b. b AND kNodeStateMask) (load m (node_flags_addr obj))"

definition UpdateNodeState :: "mem \<Rightarrow> Address \<Rightarrow> 8 word \<Rightarrow> mem option" where
  "UpdateNodeState m obj value = do {
     b \<leftarrow> load m (node_flags_addr obj);
     store m (node_flags_addr obj) ((b AND NOT kNodeStateMask) OR value)
   }"

subsection \<open>Isolate data\<close>

definition embedder_slot :: "Address \<Rightarrow> 32 word \<Rightarrow> Address" where
  "embedder_slot isolate slot =
     isolate + word_of_int kIsolateEmbedderDataOffset + ucast (slot * word_of_int kApiSystemPointerSize)"

definition SetEmbedderData :: "mem \<Rightarrow> Address \<Rightarrow> 32 word \<Rightarrow> 64 word \<Rightarrow> mem option" where
  "SetEmbedderData m isolate slot data = store m (embedder_slot isolate slot) data"

definition GetEmbedderData :: "mem \<Rightarrow> Address \<Rightarrow> 32 word \<Rightarrow> 64 word option" where
  "GetEmbedderData m isolate slot = load m (embedder_slot isolate slot)"

definition long_tasks_counter :: "Address \<Rightarrow> Address" where
  "long_tasks_counter isolate = isolate + word_of_int kIsolateLongTaskStatsCounterOffset"

definition IncrementLongTasksStatsCounter :: "mem \<Rightarrow> Address \<Rightarrow> mem option" where
  "IncrementLongTasksStatsCounter m isolate = do {
     n \<leftarrow> load m (long_tasks_counter isolate);
     store m (long_tasks_counter isolate) ((n :: 64 word) + 1)
   }"

definition GetRoot :: "Address \<Rightarrow> int \<Rightarrow> Address" where
  "GetRoot isolate index =
     isolate + word_of_int kIsolateRootsOffset + word_of_int (index * kApiSystemPointerSize)"

subsection \<open>The type tests of \<open>v8-value.h\<close>\<close>

text \<open>\<open>this\<close> is a handle: the address of a slot that holds the tagged value.\<close>

definition QuickIsUndefined :: "v8_config \<Rightarrow> mem \<Rightarrow> Address \<Rightarrow> bool option" where
  "QuickIsUndefined cfg m this = do {
     obj \<leftarrow> load m this;
     if \<not> HasHeapObjectTag obj then Some False
     else do {
       t \<leftarrow> GetInstanceType cfg m obj;
       if t \<noteq> kOddballType then Some False
       else do { k \<leftarrow> GetOddballKind cfg m obj; Some (k = kUndefinedOddballKind) }
     }
   }"

definition QuickIsNull :: "v8_config \<Rightarrow> mem \<Rightarrow> Address \<Rightarrow> bool option" where
  "QuickIsNull cfg m this = do {
     obj \<leftarrow> load m this;
     if \<not> HasHeapObjectTag obj then Some False
     else do {
       t \<leftarrow> GetInstanceType cfg m obj;
       if t \<noteq> kOddballType then Some False
       else do { k \<leftarrow> GetOddballKind cfg m obj; Some (k = kNullOddballKind) }
     }
   }"

definition QuickIsNullOrUndefined :: "v8_config \<Rightarrow> mem \<Rightarrow> Address \<Rightarrow> bool option" where
  "QuickIsNullOrUndefined cfg m this = do {
     obj \<leftarrow> load m this;
     if \<not> HasHeapObjectTag obj then Some False
     else do {
       t \<leftarrow> GetInstanceType cfg m obj;
       if t \<noteq> kOddballType then Some False
       else do {
         kind \<leftarrow> GetOddballKind cfg m obj;
         Some (kind = kNullOddballKind \<or> kind = kUndefinedOddballKind)
       }
     }
   }"

definition QuickIsString :: "v8_config \<Rightarrow> mem \<Rightarrow> Address \<Rightarrow> bool option" where
  "QuickIsString cfg m this = do {
     obj \<leftarrow> load m this;
     if \<not> HasHeapObjectTag obj then Some False
     else do { t \<leftarrow> GetInstanceType cfg m obj; Some (t < kFirstNonstringType) }
   }"

end
