(* ===== verification/V8Callback.thy ===== *)
theory V8Callback
  imports V8Heap
begin

text \<open>
  The inline functions of \<open>v8-function-callback.h\<close> (class \<open>ReturnValue\<close>, \<open>FunctionCallbackInfo\<close>
  and \<open>PropertyCallbackInfo\<close>) and the root handles of \<open>v8-primitive.h\<close>, on raw memory: a
  callback receives a block of tagged values on the stack, and these classes read and
  write it by index. A handle is the address of the slot it names, \<open>0\<close> when it is empty.
  Functions exported by the engine that allocate (\<open>Integer::New\<close>, \<open>HandleScope::CreateHandle\<close>
  and the like) are parameters: they map the isolate, an argument and the memory to a
  handle and the memory afterwards.
\<close>

type_synonym 'a allocator = "Address \<Rightarrow> 'a \<Rightarrow> mem \<Rightarrow> (Address \<times> mem) option"

text \<open>Pointer arithmetic on \<open>Address*\<close>: the address of element \<open>i\<close>.\<close>

definition elem :: "Address \<Rightarrow> int \<Rightarrow> Address" where
  "elem p i = p + word_of_int (kApiSystemPointerSize * i)"

subsection \<open>The roots\<close>

definition Undefined :: "Address \<Rightarrow> Address" where
  "Undefined isolate = GetRoot isolate kUndefinedValueRootIndex"
definition Null :: "Address \<Rightarrow> Address" where
  "Null isolate = GetRoot isolate kNullValueRootIndex"
definition V8_True :: "Address \<Rightarrow> Address" where
  "V8_True isolate = GetRoot isolate kTrueValueRootIndex"
definition V8_False :: "Address \<Rightarrow> Address" where
  "V8_False isolate = GetRoot isolate kFalseValueRootIndex"
definition Boolean_New :: "Address \<Rightarrow> bool \<Rightarrow> Address" where
  "Boolean_New isolate value = (if value then V8_True isolate else V8_False isolate)"

text \<open>\<open>Local<T>::New(isolate, T* that)\<close>.\<close>

definition Local_New :: "Address allocator \<Rightarrow> Address \<Rightarrow> Address \<Rightarrow> mem \<Rightarrow> (Address \<times> mem) option" where
  "Local_New CreateHandle isolate that m =
     (if that = 0 then Some (0, m)
      else do { p \<leftarrow> load m that; CreateHandle isolate p m })"

subsection \<open>Class \<open>ReturnValue\<close>\<close>

text \<open>An object of the class is its one field \<open>value_\<close>, here \<open>slot\<close>.\<close>

definition ReturnValue_GetIsolate :: "mem \<Rightarrow> Address \<Rightarrow> Address option" where
  "ReturnValue_GetIsolate m slot = load m (elem slot (-2))"

definition ReturnValue_GetDefaultValue :: "mem \<Rightarrow> Address \<Rightarrow> Address option" where
  "ReturnValue_GetDefaultValue m slot = load m (elem slot (-1))"

definition ReturnValue_SetInternal :: "mem \<Rightarrow> Address \<Rightarrow> Address \<Rightarrow> mem option" where
  "ReturnValue_SetInternal m slot value = store m slot value"

text \<open>\<open>Set\<close> of a \<open>Local\<close>, of a \<open>Global\<close> and of a \<open>BasicTracedReference\<close> have one body.\<close>

definition ReturnValue_Set :: "mem \<Rightarrow> Address \<Rightarrow> Address \<Rightarrow> mem option" where
  "ReturnValue_Set m slot handle =
     (if handle = 0 then do { d \<leftarrow> ReturnValue_GetDefaultValue m slot; store m slot d }
      else do { v \<leftarrow> load m handle; store m slot (v :: Address) })"

definition ReturnValue_Set_double :: "64 word allocator \<Rightarrow> mem \<Rightarrow> Address \<Rightarrow> 64 word \<Rightarrow> mem option" where
  "ReturnValue_Set_double Number_New m slot i = do {
     isolate \<leftarrow> ReturnValue_GetIsolate m slot;
     (handle, m) \<leftarrow> Number_New isolate i m;
     ReturnValue_Set m slot handle
   }"

definition ReturnValue_Set_int32 ::
    "v8_config \<Rightarrow> 32 word allocator \<Rightarrow> mem \<Rightarrow> Address \<Rightarrow> 32 word \<Rightarrow> mem option" where
  "ReturnValue_Set_int32 cfg Integer_New m slot i =
     (if IsValidSmi cfg (scast i) then store m slot (IntToSmi cfg i)
      else do {
        isolate \<leftarrow> ReturnValue_GetIsolate m slot;
        (handle, m) \<leftarrow> Integer_New isolate i m;
        ReturnValue_Set m slot handle
      })"

definition ReturnValue_Set_uint32 ::
    "v8_config \<Rightarrow> 32 word allocator \<Rightarrow> 32 word allocator \<Rightarrow> mem \<Rightarrow> Address \<Rightarrow> 32 word \<Rightarrow> mem option" where
  "ReturnValue_Set_uint32 cfg Integer_New Integer_NewFromUnsigned m slot i =
     (let fits_into_int32_t = (i AND push_bit 31 1 = 0) in
      if fits_into_int32_t then ReturnValue_Set_int32 cfg Integer_New m slot i
      else do {
        isolate \<leftarrow> ReturnValue_GetIsolate m slot;
        (handle, m) \<leftarrow> Integer_NewFromUnsigned isolate i m;
        ReturnValue_Set m slot handle
      })"

text \<open>The root setters copy the value of a root into the slot.\<close>

definition ReturnValue_set_root :: "mem \<Rightarrow> Address \<Rightarrow> int \<Rightarrow> mem option" where
  "ReturnValue_set_root m slot root_index = do {
     isolate \<leftarrow> ReturnValue_GetIsolate m slot;
     v \<leftarrow> load m (GetRoot isolate root_index);
     store m slot (v :: Address)
   }"

definition ReturnValue_Set_bool :: "mem \<Rightarrow> Address \<Rightarrow> bool \<Rightarrow> mem option" where
  "ReturnValue_Set_bool m slot value =
     ReturnValue_set_root m slot (if value then kTrueValueRootIndex else kFalseValueRootIndex)"

definition ReturnValue_SetNull :: "mem \<Rightarrow> Address \<Rightarrow> mem option" where
  "ReturnValue_SetNull m slot = ReturnValue_set_root m slot kNullValueRootIndex"

definition ReturnValue_SetUndefined :: "mem \<Rightarrow> Address \<Rightarrow> mem option" where
  "ReturnValue_SetUndefined m slot = ReturnValue_set_root m slot kUndefinedValueRootIndex"

definition ReturnValue_SetEmptyString :: "mem \<Rightarrow> Address \<Rightarrow> mem option" where
  "ReturnValue_SetEmptyString m slot = ReturnValue_set_root m slot kEmptyStringRootIndex"

definition ReturnValue_Get :: "Address allocator \<Rightarrow> mem \<Rightarrow> Address \<Rightarrow> (Address \<times> mem) option" where
  "ReturnValue_Get CreateHandle m slot = do {
     v \<leftarrow> load m slot;
     isolate \<leftarrow> ReturnValue_GetIsolate m slot;
     hole \<leftarrow> load m (GetRoot isolate kTheHoleValueRootIndex);
     if v = (hole :: Address) then Some (Undefined isolate, m)
     else Local_New CreateHandle isolate slot m
   }"

subsection \<open>Class \<open>FunctionCallbackInfo\<close>\<close>

definition kHolderIndex :: int where "kHolderIndex = 0"
definition kIsolateIndex :: int where "kIsolateIndex = 1"
definition kReturnValueDefaultValueIndex :: int where "kReturnValueDefaultValueIndex = 2"
definition kReturnValueIndex :: int where "kReturnValueIndex = 3"
definition kDataIndex :: int where "kDataIndex = 4"
definition kNewTargetIndex :: int where "kNewTargetIndex = 5"
definition kArgsLength :: int where "kArgsLength = 6"

record callback_info =
  implicit_args :: Address
  args_values :: Address
  args_length :: "32 word"

definition FCI_GetIsolate :: "mem \<Rightarrow> callback_info \<Rightarrow> Address option" where
  "FCI_GetIsolate m info = load m (elem (implicit_args info) kIsolateIndex)"

text \<open>\<open>operator[]\<close>: the handle of argument \<open>i\<close>, an \<open>int\<close>.\<close>

definition FCI_argument :: "mem \<Rightarrow> callback_info \<Rightarrow> 32 word \<Rightarrow> Address option" where
  "FCI_argument m info i =
     (if sint i < 0 \<or> sint (args_length info) \<le> sint i
      then do { isolate \<leftarrow> FCI_GetIsolate m info; Some (Undefined isolate) }
      else Some (elem (args_values info) (sint i)))"

definition FCI_This :: "callback_info \<Rightarrow> Address" where
  "FCI_This info = elem (args_values info) (-1)"
definition FCI_Holder :: "callback_info \<Rightarrow> Address" where
  "FCI_Holder info = elem (implicit_args info) kHolderIndex"
definition FCI_NewTarget :: "callback_info \<Rightarrow> Address" where
  "FCI_NewTarget info = elem (implicit_args info) kNewTargetIndex"
definition FCI_Data :: "callback_info \<Rightarrow> Address" where
  "FCI_Data info = elem (implicit_args info) kDataIndex"
definition FCI_GetReturnValue :: "callback_info \<Rightarrow> Address" where
  "FCI_GetReturnValue info = elem (implicit_args info) kReturnValueIndex"
definition FCI_Length :: "callback_info \<Rightarrow> 32 word" where
  "FCI_Length info = args_length info"

definition FCI_IsConstructCall :: "v8_config \<Rightarrow> mem \<Rightarrow> callback_info \<Rightarrow> bool option" where
  "FCI_IsConstructCall cfg m info = map_option Not (QuickIsUndefined cfg m (FCI_NewTarget info))"

subsection \<open>Class \<open>PropertyCallbackInfo\<close>\<close>

text \<open>An object of the class is its one field \<open>args_\<close>.\<close>

definition PCI_kShouldThrowOnErrorIndex :: int where "PCI_kShouldThrowOnErrorIndex = 0"
definition PCI_kHolderIndex :: int where "PCI_kHolderIndex = 1"
definition PCI_kIsolateIndex :: int where "PCI_kIsolateIndex = 2"
definition PCI_kReturnValueDefaultValueIndex :: int where "PCI_kReturnValueDefaultValueIndex = 3"
definition PCI_kReturnValueIndex :: int where "PCI_kReturnValueIndex = 4"
definition PCI_kDataIndex :: int where "PCI_kDataIndex = 5"
definition PCI_kThisIndex :: int where "PCI_kThisIndex = 6"
definition PCI_kArgsLength :: int where "PCI_kArgsLength = 7"

definition PCI_GetIsolate :: "mem \<Rightarrow> Address \<Rightarrow> Address option" where
  "PCI_GetIsolate m args = load m (elem args PCI_kIsolateIndex)"
definition PCI_Data :: "Address \<Rightarrow> Address" where
  "PCI_Data args = elem args PCI_kDataIndex"
definition PCI_This :: "Address \<Rightarrow> Address" where
  "PCI_This args = elem args PCI_kThisIndex"
definition PCI_Holder :: "Address \<Rightarrow> Address" where
  "PCI_Holder args = elem args PCI_kHolderIndex"
definition PCI_GetReturnValue :: "Address \<Rightarrow> Address" where
  "PCI_GetReturnValue args = elem args PCI_kReturnValueIndex"

text \<open>\<open>infer\<close> is the exported \<open>v8::internal::ShouldThrowOnError\<close>.\<close>

definition PCI_ShouldThrowOnError ::
    "v8_config \<Rightarrow> (Address \<Rightarrow> bool) \<Rightarrow> mem \<Rightarrow> Address \<Rightarrow> bool option" where
  "PCI_ShouldThrowOnError cfg infer m args = do {
     v \<leftarrow> load m (elem args PCI_kShouldThrowOnErrorIndex);
     if v \<noteq> IntToSmi cfg (word_of_int kInferShouldThrowMode)
     then Some (v \<noteq> IntToSmi cfg (word_of_int kDontThrow))
     else do { isolate \<leftarrow> PCI_GetIsolate m args; Some (infer isolate) }
   }"

end
