(* ===== verification/V8Handles.thy ===== *)
theory V8Handles
  imports V8Callback
begin

text \<open>
  The handle classes of \<open>v8-persistent-handle.h\<close> and \<open>v8-local-handle.h\<close>. A \<open>Local\<close> is passed
  by value: it is the address of a slot, \<open>0\<close> when empty. A \<open>Persistent\<close>, \<open>Global\<close> or \<open>Eternal\<close> is
  an object of the embedder with the one field \<open>val_\<close>; such objects live at locations of
  their own, so that two references may name the same object. The nodes that \<open>val_\<close> points
  to are in raw memory, where \<open>IsWeak\<close> and the class identifiers read and write them. The
  functions that the engine exports (\<open>api_internal\<close>) are the fields of \<open>engine\<close>.
\<close>

type_synonym loc = nat

record hstate =
  vals :: "loc \<rightharpoonup> Address"
  hmem :: mem

record engine =
  GlobalizeReference :: "Address \<Rightarrow> Address \<Rightarrow> mem \<Rightarrow> (Address \<times> mem) option"
  CopyGlobalReference :: "Address \<Rightarrow> mem \<Rightarrow> (Address \<times> mem) option"
  DisposeGlobal :: "Address \<Rightarrow> mem \<Rightarrow> mem option"
  api_MakeWeak :: "Address \<Rightarrow> loc \<Rightarrow> mem \<Rightarrow> mem option"
  api_MakePhantom :: "loc \<Rightarrow> Address \<Rightarrow> mem \<Rightarrow> mem option"
  api_ClearWeak :: "Address \<Rightarrow> mem \<Rightarrow> (loc \<times> mem) option"
  AnnotateStrongRetainer :: "Address \<Rightarrow> string \<Rightarrow> mem \<Rightarrow> mem option"
  MoveGlobalReference :: "loc \<Rightarrow> loc \<Rightarrow> Address \<Rightarrow> mem \<Rightarrow> mem option"
  Eternalize :: "Address \<Rightarrow> Address \<Rightarrow> mem \<Rightarrow> (Address \<times> mem) option"

definition set_val :: "loc \<Rightarrow> Address \<Rightarrow> hstate \<Rightarrow> hstate" where
  "set_val this v s = s\<lparr>vals := (vals s)(this \<mapsto> v)\<rparr>"

subsection \<open>Comparison\<close>

text \<open>
  \<open>operator==\<close> of \<open>Local\<close> and \<open>PersistentBase\<close> in all combinations: two empty handles are
  equal, otherwise the objects decide.
\<close>

definition handle_eq :: "mem \<Rightarrow> Address \<Rightarrow> Address \<Rightarrow> bool option" where
  "handle_eq m a b =
     (if a = 0 then Some (b = 0)
      else if b = 0 then Some False
      else do { x \<leftarrow> load m a; y \<leftarrow> load m b; Some ((x :: Address) = y) })"

definition PB_eq :: "loc \<Rightarrow> loc \<Rightarrow> hstate \<Rightarrow> bool option" where
  "PB_eq this that s = do { a \<leftarrow> vals s this; b \<leftarrow> vals s that; handle_eq (hmem s) a b }"

definition PB_ne :: "loc \<Rightarrow> loc \<Rightarrow> hstate \<Rightarrow> bool option" where
  "PB_ne this that s = map_option Not (PB_eq this that s)"

subsection \<open>Class \<open>PersistentBase\<close>\<close>

definition PB_IsEmpty :: "loc \<Rightarrow> hstate \<Rightarrow> bool option" where
  "PB_IsEmpty this s = map_option (\<lambda>v. v = 0) (vals s this)"

definition PB_Empty :: "loc \<Rightarrow> hstate \<Rightarrow> hstate option" where
  "PB_Empty this s = do { _ \<leftarrow> vals s this; Some (set_val this 0 s) }"

definition PB_Get :: "Address allocator \<Rightarrow> Address \<Rightarrow> loc \<Rightarrow> hstate \<Rightarrow> (Address \<times> hstate) option" where
  "PB_Get CreateHandle isolate this s = do {
     v \<leftarrow> vals s this;
     (h, m) \<leftarrow> Local_New CreateHandle isolate v (hmem s);
     Some (h, s\<lparr>hmem := m\<rparr>)
   }"

definition PB_New :: "engine \<Rightarrow> Address \<Rightarrow> Address \<Rightarrow> hstate \<Rightarrow> (Address \<times> hstate) option" where
  "PB_New eng isolate that s =
     (if that = 0 then Some (0, s)
      else do { (n, m) \<leftarrow> GlobalizeReference eng isolate that (hmem s); Some (n, s\<lparr>hmem := m\<rparr>) })"

definition PB_Reset :: "engine \<Rightarrow> loc \<Rightarrow> hstate \<Rightarrow> hstate option" where
  "PB_Reset eng this s = do {
     v \<leftarrow> vals s this;
     if v = 0 then Some s
     else do { m \<leftarrow> DisposeGlobal eng v (hmem s); Some (set_val this 0 (s\<lparr>hmem := m\<rparr>)) }
   }"

text \<open>\<open>Reset(isolate, const Local<S>& other)\<close>.\<close>

definition PB_Reset_Local :: "engine \<Rightarrow> Address \<Rightarrow> loc \<Rightarrow> Address \<Rightarrow> hstate \<Rightarrow> hstate option" where
  "PB_Reset_Local eng isolate this other s = do {
     s \<leftarrow> PB_Reset eng this s;
     if other = 0 then Some s
     else do { (n, s) \<leftarrow> PB_New eng isolate other s; Some (set_val this n s) }
   }"

text \<open>\<open>Reset(isolate, const PersistentBase<S>& other)\<close>: \<open>other\<close> may be the same object.\<close>

definition PB_Reset_PB :: "engine \<Rightarrow> Address \<Rightarrow> loc \<Rightarrow> loc \<Rightarrow> hstate \<Rightarrow> hstate option" where
  "PB_Reset_PB eng isolate this other s = do {
     s \<leftarrow> PB_Reset eng this s;
     v \<leftarrow> vals s other;
     if v = 0 then Some s
     else do { (n, s) \<leftarrow> PB_New eng isolate v s; Some (set_val this n s) }
   }"

text \<open>\<open>parameter\<close> is the object that the callback will be given.\<close>

definition PB_SetWeak :: "engine \<Rightarrow> loc \<Rightarrow> loc \<Rightarrow> hstate \<Rightarrow> hstate option" where
  "PB_SetWeak eng this parameter s = do {
     v \<leftarrow> vals s this;
     m \<leftarrow> api_MakeWeak eng v parameter (hmem s);
     Some (s\<lparr>hmem := m\<rparr>)
   }"

definition PB_SetWeak_phantom :: "engine \<Rightarrow> loc \<Rightarrow> hstate \<Rightarrow> hstate option" where
  "PB_SetWeak_phantom eng this s = do {
     v \<leftarrow> vals s this;
     m \<leftarrow> api_MakePhantom eng this v (hmem s);
     Some (s\<lparr>hmem := m\<rparr>)
   }"

definition PB_ClearWeak :: "engine \<Rightarrow> loc \<Rightarrow> hstate \<Rightarrow> (loc \<times> hstate) option" where
  "PB_ClearWeak eng this s = do {
     v \<leftarrow> vals s this;
     (p, m) \<leftarrow> api_ClearWeak eng v (hmem s);
     Some (p, s\<lparr>hmem := m\<rparr>)
   }"

definition PB_AnnotateStrongRetainer :: "engine \<Rightarrow> loc \<Rightarrow> string \<Rightarrow> hstate \<Rightarrow> hstate option" where
  "PB_AnnotateStrongRetainer eng this label s = do {
     v \<leftarrow> vals s this;
     m \<leftarrow> AnnotateStrongRetainer eng v label (hmem s);
     Some (s\<lparr>hmem := m\<rparr>)
   }"

definition PB_IsWeak :: "loc \<Rightarrow> hstate \<Rightarrow> bool option" where
  "PB_IsWeak this s = do {
     v \<leftarrow> vals s this;
     if v = 0 then Some False
     else do { b \<leftarrow> GetNodeState (hmem s) v; Some (b = kNodeStateIsWeakValue) }
   }"

definition PB_SetWrapperClassId :: "loc \<Rightarrow> 16 word \<Rightarrow> hstate \<Rightarrow> hstate option" where
  "PB_SetWrapperClassId this class_id s = do {
     v \<leftarrow> vals s this;
     if v = 0 then Some s
     else do { m \<leftarrow> store (hmem s) (v + word_of_int kNodeClassIdOffset) class_id; Some (s\<lparr>hmem := m\<rparr>) }
   }"

definition PB_WrapperClassId :: "loc \<Rightarrow> hstate \<Rightarrow> 16 word option" where
  "PB_WrapperClassId this s = do {
     v \<leftarrow> vals s this;
     if v = 0 then Some 0 else load (hmem s) (v + word_of_int kNodeClassIdOffset)
   }"

subsection \<open>Class \<open>Persistent\<close>\<close>

text \<open>
  Construction creates the object; \<open>Copy\<close> is also copy assignment and, on a new object, copy
  construction. \<open>kResetInDestructor\<close> is the flag of the traits class \<open>M\<close>.
\<close>

definition Persistent_new :: "loc \<Rightarrow> hstate \<Rightarrow> hstate" where
  "Persistent_new this s = set_val this 0 s"

definition Persistent_new_Local :: "engine \<Rightarrow> Address \<Rightarrow> loc \<Rightarrow> Address \<Rightarrow> hstate \<Rightarrow> hstate option" where
  "Persistent_new_Local eng isolate this that s = do {
     (n, s) \<leftarrow> PB_New eng isolate that s;
     Some (set_val this n s)
   }"

definition Persistent_Copy :: "engine \<Rightarrow> loc \<Rightarrow> loc \<Rightarrow> hstate \<Rightarrow> hstate option" where
  "Persistent_Copy eng this that s = do {
     s \<leftarrow> PB_Reset eng this s;
     v \<leftarrow> vals s that;
     if v = 0 then Some s
     else do {
       (n, m) \<leftarrow> CopyGlobalReference eng v (hmem s);
       Some (set_val this n (s\<lparr>hmem := m\<rparr>))
     }
   }"

definition Persistent_delete :: "engine \<Rightarrow> bool \<Rightarrow> loc \<Rightarrow> hstate \<Rightarrow> hstate option" where
  "Persistent_delete eng kResetInDestructor this s = do {
     s \<leftarrow> (if kResetInDestructor then PB_Reset eng this s else Some s);
     Some (s\<lparr>vals := (vals s)(this := None)\<rparr>)
   }"

subsection \<open>Class \<open>Global\<close>\<close>

text \<open>Move construction; \<open>this\<close> is the new object.\<close>

definition Global_move :: "engine \<Rightarrow> loc \<Rightarrow> loc \<Rightarrow> hstate \<Rightarrow> hstate option" where
  "Global_move eng this other s = do {
     v \<leftarrow> vals s other;
     s \<leftarrow> Some (set_val this v s);
     if v \<noteq> 0 then do {
       m \<leftarrow> MoveGlobalReference eng other this v (hmem s);
       Some (set_val other 0 (s\<lparr>hmem := m\<rparr>))
     } else Some s
   }"

definition Global_assign :: "engine \<Rightarrow> loc \<Rightarrow> loc \<Rightarrow> hstate \<Rightarrow> hstate option" where
  "Global_assign eng this rhs s =
     (if this \<noteq> rhs then do {
        s \<leftarrow> PB_Reset eng this s;
        v \<leftarrow> vals s rhs;
        if v \<noteq> 0 then do {
          s \<leftarrow> Some (set_val this v s);
          m \<leftarrow> MoveGlobalReference eng rhs this v (hmem s);
          Some (set_val rhs 0 (s\<lparr>hmem := m\<rparr>))
        } else Some s
      } else Some s)"

definition Global_delete :: "engine \<Rightarrow> loc \<Rightarrow> hstate \<Rightarrow> hstate option" where
  "Global_delete eng this s = do {
     s \<leftarrow> PB_Reset eng this s;
     Some (s\<lparr>vals := (vals s)(this := None)\<rparr>)
   }"

subsection \<open>Class \<open>Eternal\<close>\<close>

definition Eternal_Set :: "engine \<Rightarrow> Address \<Rightarrow> loc \<Rightarrow> Address \<Rightarrow> hstate \<Rightarrow> hstate option" where
  "Eternal_Set eng isolate this handle s = do {
     (v, m) \<leftarrow> Eternalize eng isolate handle (hmem s);
     Some (set_val this v (s\<lparr>hmem := m\<rparr>))
   }"

definition Eternal_Get :: "loc \<Rightarrow> hstate \<Rightarrow> Address option" where
  "Eternal_Get this s = vals s this"

subsection \<open>Classes \<open>Local\<close> and \<open>MaybeLocal\<close>\<close>

definition Local_IsEmpty :: "Address \<Rightarrow> bool" where
  "Local_IsEmpty val \<longleftrightarrow> val = 0"

text \<open>\<open>out\<close> is the handle that \<open>ToLocal\<close> is given to fill; the result is the handle afterwards.\<close>

definition MaybeLocal_ToLocal :: "Address \<Rightarrow> Address \<Rightarrow> Address \<times> bool" where
  "MaybeLocal_ToLocal val out =
     (let out = (if Local_IsEmpty val then 0 else val) in (out, \<not> Local_IsEmpty val))"

text \<open>\<open>ToLocalChecked\<close> crashes the process on an empty handle: \<open>None\<close>.\<close>

definition MaybeLocal_ToLocalChecked :: "Address \<Rightarrow> Address option" where
  "MaybeLocal_ToLocalChecked val = (if val = 0 then None else Some val)"

definition MaybeLocal_FromMaybe :: "Address \<Rightarrow> Address \<Rightarrow> Address" where
  "MaybeLocal_FromMaybe val default_value = (if Local_IsEmpty val then default_value else val)"

end
