(* ===== verification/V8Objects.thy ===== *)
theory V8Objects
  imports V8Callback
begin

text \<open>
  The inline fast paths of \<open>v8-object.h\<close>, \<open>v8-context.h\<close>, \<open>v8-isolate.h\<close> and \<open>v8-primitive.h\<close>
  that read embedder data and string resources straight from the heap. The exported
  \<open>CanHaveInternalField\<close> and the slow paths are parameters, as are the decoder of external
  pointers and the allocation of handles.
\<close>

text \<open>\<open>this\<close> is a handle; \<open>slow\<close> is the exported function for the object and the index.\<close>

definition Object_GetInternalField ::
    "v8_config \<Rightarrow> (int \<Rightarrow> bool) \<Rightarrow> Address allocator \<Rightarrow> (Address \<Rightarrow> Address) \<Rightarrow>
     (Address \<Rightarrow> int \<Rightarrow> mem \<Rightarrow> (Address \<times> mem) option) \<Rightarrow> Address \<Rightarrow> int \<Rightarrow> mem \<Rightarrow> (Address \<times> mem) option" where
  "Object_GetInternalField cfg CanHaveInternalField CreateHandle IsolateFromNeverReadOnlySpaceObject slow this index m = do {
     obj \<leftarrow> load m this;
     instance_type \<leftarrow> GetInstanceType cfg m obj;
     if CanHaveInternalField instance_type then do {
       value \<leftarrow> ReadRawField m obj (kJSObjectHeaderSize cfg + kEmbedderDataSlotSize * index);
       value \<leftarrow> Some (if V8_COMPRESS_POINTERS cfg then DecompressTaggedAnyField obj (ucast value) else value);
       CreateHandle (IsolateFromNeverReadOnlySpaceObject obj) value m
     }
     else slow this index m
   }"

definition Object_GetAlignedPointerFromInternalField ::
    "v8_config \<Rightarrow> (int \<Rightarrow> bool) \<Rightarrow> (32 word \<Rightarrow> Address) \<Rightarrow> (Address \<Rightarrow> int \<Rightarrow> mem \<Rightarrow> Address option) \<Rightarrow>
     Address \<Rightarrow> int \<Rightarrow> mem \<Rightarrow> Address option" where
  "Object_GetAlignedPointerFromInternalField cfg CanHaveInternalField decode slow this index m = do {
     obj \<leftarrow> load m this;
     instance_type \<leftarrow> GetInstanceType cfg m obj;
     if CanHaveInternalField instance_type then do {
       offset \<leftarrow> Some (kJSObjectHeaderSize cfg + kEmbedderDataSlotSize * index +
         (if V8_SANDBOXED_EXTERNAL_POINTERS cfg then kEmbedderDataSlotRawPayloadOffset cfg else 0));
       ReadExternalPointerField cfg decode m obj offset
     }
     else slow this index m
   }"

text \<open>
  \<open>String::GetExternalStringResourceBase\<close>: the encoding that it reports and the resource,
  which is read from the string only when the representation bits say that it is external.
\<close>

definition String_GetExternalStringResourceBase ::
    "v8_config \<Rightarrow> (32 word \<Rightarrow> Address) \<Rightarrow> (Address \<Rightarrow> mem \<Rightarrow> (Address \<times> 32 word) option) \<Rightarrow>
     Address \<Rightarrow> mem \<Rightarrow> (Address \<times> 32 word) option" where
  "String_GetExternalStringResourceBase cfg decode slow this m = do {
     obj \<leftarrow> load m this;
     t \<leftarrow> GetInstanceType cfg m obj;
     type \<leftarrow> Some (word_of_int t AND kStringRepresentationAndEncodingMask);
     encoding \<leftarrow> Some (type AND kStringEncodingMask);
     if type = kExternalOneByteRepresentationTag \<or> type = kExternalTwoByteRepresentationTag then do {
       value \<leftarrow> ReadExternalPointerField cfg decode m obj (kStringResourceOffset cfg);
       Some (value, encoding)
     }
     else slow this m
   }"

definition String_GetExternalStringResource ::
    "v8_config \<Rightarrow> (32 word \<Rightarrow> Address) \<Rightarrow> (Address \<Rightarrow> mem \<Rightarrow> Address option) \<Rightarrow> Address \<Rightarrow> mem \<Rightarrow> Address option" where
  "String_GetExternalStringResource cfg decode slow this m = do {
     obj \<leftarrow> load m this;
     t \<leftarrow> GetInstanceType cfg m obj;
     if IsExternalTwoByteString (word_of_int t) then ReadExternalPointerField cfg decode m obj (kStringResourceOffset cfg)
     else slow this m
   }"

definition String_Empty :: "Address \<Rightarrow> Address" where
  "String_Empty isolate = GetRoot isolate kEmptyStringRootIndex"

text \<open>
  \<open>Context::GetEmbedderData\<close> and \<open>GetAlignedPointerFromEmbedderData\<close>: the embedder data is an
  array that the context refers to.
\<close>

definition Context_GetEmbedderData ::
    "v8_config \<Rightarrow> Address allocator \<Rightarrow> (Address \<Rightarrow> Address) \<Rightarrow> Address \<Rightarrow> int \<Rightarrow> mem \<Rightarrow> (Address \<times> mem) option" where
  "Context_GetEmbedderData cfg CreateHandle IsolateFromNeverReadOnlySpaceObject this index m = do {
     ctx \<leftarrow> load m this;
     embedder_data \<leftarrow> ReadTaggedPointerField cfg m ctx (kNativeContextEmbedderDataOffset cfg);
     value_offset \<leftarrow> Some (kEmbedderDataArrayHeaderSize cfg + kEmbedderDataSlotSize * index);
     value \<leftarrow> ReadRawField m embedder_data value_offset;
     value \<leftarrow> Some (if V8_COMPRESS_POINTERS cfg then DecompressTaggedAnyField embedder_data (ucast value) else value);
     CreateHandle (IsolateFromNeverReadOnlySpaceObject ctx) value m
   }"

definition Context_GetAlignedPointerFromEmbedderData ::
    "v8_config \<Rightarrow> (32 word \<Rightarrow> Address) \<Rightarrow> Address \<Rightarrow> int \<Rightarrow> mem \<Rightarrow> Address option" where
  "Context_GetAlignedPointerFromEmbedderData cfg decode this index m = do {
     ctx \<leftarrow> load m this;
     embedder_data \<leftarrow> ReadTaggedPointerField cfg m ctx (kNativeContextEmbedderDataOffset cfg);
     value_offset \<leftarrow> Some (kEmbedderDataArrayHeaderSize cfg + kEmbedderDataSlotSize * index +
       (if V8_SANDBOXED_EXTERNAL_POINTERS cfg then kEmbedderDataSlotRawPayloadOffset cfg else 0));
     ReadExternalPointerField cfg decode m embedder_data value_offset
   }"

text \<open>\<open>Isolate::SetData\<close>, \<open>GetData\<close> and \<open>GetNumberOfDataSlots\<close>.\<close>

definition Isolate_SetData :: "mem \<Rightarrow> Address \<Rightarrow> 32 word \<Rightarrow> 64 word \<Rightarrow> mem option" where
  "Isolate_SetData m isolate slot data = SetEmbedderData m isolate slot data"

definition Isolate_GetData :: "mem \<Rightarrow> Address \<Rightarrow> 32 word \<Rightarrow> 64 word option" where
  "Isolate_GetData m isolate slot = GetEmbedderData m isolate slot"

definition Isolate_GetNumberOfDataSlots :: int where
  "Isolate_GetNumberOfDataSlots = kNumIsolateDataSlots"

end
