(* ===== verification/ObjectWrap.thy ===== *)
theory ObjectWrap
  imports V8Handles V8Objects
begin

text \<open>
  Class \<open>ObjectWrap\<close> of \<open>node_object_wrap.h\<close>: a native object that lives as long as the
  JavaScript object it is wrapped in, or as long as it is attached to an event loop. The
  world has many of them; the one at location \<open>w\<close> has the counter \<open>refs_\<close> in \<open>refs\<close> and its
  handle object \<open>handle_\<close> at location \<open>w\<close> of the handle state. A failed \<open>assert\<close>, and the
  overflow of the \<open>int\<close> counter, is \<open>None\<close>. \<open>WeakCallback\<close> is the function the engine calls
  with the parameter of a weak handle; its last statement is \<open>delete wrap\<close>.
\<close>

record world =
  hs :: hstate
  refs :: "loc \<rightharpoonup> int"

text \<open>The exported functions on objects that \<open>Wrap\<close> and \<open>Unwrap\<close> call.\<close>

record object_api =
  GetCurrent :: Address
  InternalFieldCount :: "Address \<Rightarrow> mem \<Rightarrow> int option"
  SetAlignedPointerInInternalField :: "Address \<Rightarrow> int \<Rightarrow> loc \<Rightarrow> mem \<Rightarrow> mem option"

definition assert' :: "bool \<Rightarrow> unit option" where
  "assert' b = (if b then Some () else None)"

definition OW_new :: "loc \<Rightarrow> world \<Rightarrow> world" where
  "OW_new w s = s\<lparr>hs := Persistent_new w (hs s), refs := (refs s)(w \<mapsto> 0)\<rparr>"

text \<open>
  \<open>delete\<close>: the destructor, then that of the member \<open>handle_\<close> (a \<open>Persistent\<close> with the
  default traits, which do not reset it), then the memory is gone.
\<close>

definition OW_delete :: "engine \<Rightarrow> loc \<Rightarrow> world \<Rightarrow> world option" where
  "OW_delete eng w s = do {
     _ \<leftarrow> refs s w;
     empty \<leftarrow> PB_IsEmpty w (hs s);
     h \<leftarrow> (if empty then Some (hs s)
           else do { (_, h) \<leftarrow> PB_ClearWeak eng w (hs s); PB_Reset eng w h });
     h \<leftarrow> Persistent_delete eng False w h;
     Some (s\<lparr>hs := h, refs := (refs s)(w := None)\<rparr>)
   }"

definition OW_MakeWeak :: "engine \<Rightarrow> loc \<Rightarrow> world \<Rightarrow> world option" where
  "OW_MakeWeak eng w s = do { h \<leftarrow> PB_SetWeak eng w w (hs s); Some (s\<lparr>hs := h\<rparr>) }"

definition OW_Wrap :: "engine \<Rightarrow> object_api \<Rightarrow> loc \<Rightarrow> Address \<Rightarrow> world \<Rightarrow> world option" where
  "OW_Wrap eng api w handle s = do {
     empty \<leftarrow> PB_IsEmpty w (hs s);
     _ \<leftarrow> assert' empty;
     count \<leftarrow> InternalFieldCount api handle (hmem (hs s));
     _ \<leftarrow> assert' (count > 0);
     m \<leftarrow> SetAlignedPointerInInternalField api handle 0 w (hmem (hs s));
     h \<leftarrow> PB_Reset_Local eng (GetCurrent api) w handle ((hs s)\<lparr>hmem := m\<rparr>);
     OW_MakeWeak eng w (s\<lparr>hs := h\<rparr>)
   }"

definition OW_Unwrap ::
    "v8_config \<Rightarrow> (int \<Rightarrow> bool) \<Rightarrow> (32 word \<Rightarrow> Address) \<Rightarrow> (Address \<Rightarrow> int \<Rightarrow> mem \<Rightarrow> Address option) \<Rightarrow>
     object_api \<Rightarrow> Address \<Rightarrow> world \<Rightarrow> Address option" where
  "OW_Unwrap cfg CanHaveInternalField decode slow api handle s = do {
     _ \<leftarrow> assert' (\<not> Local_IsEmpty handle);
     count \<leftarrow> InternalFieldCount api handle (hmem (hs s));
     _ \<leftarrow> assert' (count > 0);
     Object_GetAlignedPointerFromInternalField cfg CanHaveInternalField decode slow handle 0 (hmem (hs s))
   }"

text \<open>\<open>handle(isolate)\<close>: a new local handle to the wrapped object.\<close>

definition OW_handle :: "Address allocator \<Rightarrow> Address \<Rightarrow> loc \<Rightarrow> world \<Rightarrow> (Address \<times> world) option" where
  "OW_handle CreateHandle isolate w s = do {
     (a, h) \<leftarrow> PB_Get CreateHandle isolate w (hs s);
     Some (a, s\<lparr>hs := h\<rparr>)
   }"

definition OW_Ref :: "engine \<Rightarrow> loc \<Rightarrow> world \<Rightarrow> world option" where
  "OW_Ref eng w s = do {
     empty \<leftarrow> PB_IsEmpty w (hs s);
     _ \<leftarrow> assert' (\<not> empty);
     (_, h) \<leftarrow> PB_ClearWeak eng w (hs s);
     n \<leftarrow> refs s w;
     _ \<leftarrow> assert' (n + 1 < 2 ^ 31);
     Some (s\<lparr>hs := h, refs := (refs s)(w \<mapsto> n + 1)\<rparr>)
   }"

definition OW_Unref :: "engine \<Rightarrow> loc \<Rightarrow> world \<Rightarrow> world option" where
  "OW_Unref eng w s = do {
     empty \<leftarrow> PB_IsEmpty w (hs s);
     _ \<leftarrow> assert' (\<not> empty);
     weak \<leftarrow> PB_IsWeak w (hs s);
     _ \<leftarrow> assert' (\<not> weak);
     n \<leftarrow> refs s w;
     _ \<leftarrow> assert' (n > 0);
     s \<leftarrow> Some (s\<lparr>refs := (refs s)(w \<mapsto> n - 1)\<rparr>);
     if n - 1 = 0 then OW_MakeWeak eng w s else Some s
   }"

definition OW_WeakCallback :: "engine \<Rightarrow> loc \<Rightarrow> world \<Rightarrow> world option" where
  "OW_WeakCallback eng wrap s = do {
     n \<leftarrow> refs s wrap;
     _ \<leftarrow> assert' (n = 0);
     h \<leftarrow> PB_Reset eng wrap (hs s);
     OW_delete eng wrap (s\<lparr>hs := h\<rparr>)
   }"

subsection \<open>Runs\<close>

text \<open>
  What may happen: clients construct, wrap, attach (while the counter has room), detach
  (when attached) and delete wraps; and the garbage collector, at any time, calls the
  callback of a handle that is weak.
\<close>

inductive wrap_step :: "engine \<Rightarrow> object_api \<Rightarrow> world \<Rightarrow> world \<Rightarrow> bool" for eng api where
  construct: "refs s w = None \<Longrightarrow> vals (hs s) w = None \<Longrightarrow> wrap_step eng api s (OW_new w s)"
| wrap: "refs s w \<noteq> None \<Longrightarrow> handle \<noteq> 0 \<Longrightarrow> OW_Wrap eng api w handle s = Some t \<Longrightarrow> wrap_step eng api s t"
| attach: "OW_Ref eng w s = Some t \<Longrightarrow> wrap_step eng api s t"
| detach: "OW_Unref eng w s = Some t \<Longrightarrow> wrap_step eng api s t"
| collect: "PB_IsWeak w (hs s) = Some True \<Longrightarrow> OW_WeakCallback eng w s = Some t \<Longrightarrow> wrap_step eng api s t"
| destroy: "OW_delete eng w s = Some t \<Longrightarrow> wrap_step eng api s t"

inductive wrap_reach :: "engine \<Rightarrow> object_api \<Rightarrow> world \<Rightarrow> world \<Rightarrow> bool" for eng api s where
  start: "wrap_reach eng api s s"
| step: "wrap_reach eng api s t \<Longrightarrow> wrap_step eng api t u \<Longrightarrow> wrap_reach eng api s u"

end
