(* ===== verification/V8Smi.thy ===== *)
theory V8Smi
  imports V8Heap
begin

text \<open>
  Small integers. The lemmas turn the bit-level definitions of \<open>SmiTagging\<close> into
  integer arithmetic; the properties are the round trip of \<open>IntToSmi\<close> and \<open>SmiToInt\<close>,
  the range test, and the separation of Smis from pointers, in every configuration.
\<close>

lemmas smi4_defs = SmiTagging4_SmiToInt_def SmiTagging4_IsValidSmi_def SmiTagging4_kSmiMinValue_def
  SmiTagging4_kSmiMaxValue_def SmiTagging4_kSmiShiftSize_def SmiTagging4_kSmiValueSize_def
  kUintptrAllBitsSet_def kSmiTagSize_def kSmiTag_def

lemmas smi8_defs = SmiTagging8_SmiToInt_def SmiTagging8_IsValidSmi_def SmiTagging8_kSmiMinValue_def
  SmiTagging8_kSmiMaxValue_def SmiTagging8_kSmiShiftSize_def SmiTagging8_kSmiValueSize_def
  kUintptrAllBitsSet_def kSmiTagSize_def kSmiTag_def

lemma platform_cases: "PlatformSmiTagging cfg = 4 \<or> PlatformSmiTagging cfg = 8"
  by (simp add: PlatformSmiTagging_def kApiTaggedSize_def kApiInt32Size_def kApiSystemPointerSize_def)

subsection \<open>Words as integers\<close>

lemma sint64: "sint (w :: 64 word) = (if uint w < 2 ^ 63 then uint w else uint w - 2 ^ 64)"
proof (cases "uint w < 2 ^ 63")
  case False
  then have "uint w div 2 ^ 63 = 1" using uint_lt2p [of w] by (simp add: div_pos_geq)
  then show ?thesis using False
    by (simp add: sint_uint signed_take_bit_eq_take_bit_minus take_bit_eq_mod bit_iff_odd)
qed (simp add: sint_uint signed_take_bit_eq_take_bit_minus take_bit_eq_mod bit_iff_odd)

lemma sint_scast64: "sint (scast (v :: 32 word) :: 64 word) = sint v"
  by (rule bit_eqI) (auto simp: bit_simps min_def)

lemma sint_eq_iff: "sint v = sint w \<longleftrightarrow> v = w" for v w :: "'a::len word"
  by (auto intro: signed_word_eqI)

lemma fits_31: "signed_take_bit 30 (x :: int) = x \<longleftrightarrow> - (2 ^ 30) \<le> x \<and> x < 2 ^ 30"
  using signed_take_bit_int_eq_self_iff [of 30 x] by simp

lemma fits_32: "signed_take_bit 31 (x :: int) = x \<longleftrightarrow> - (2 ^ 31) \<le> x \<and> x < 2 ^ 31"
  using signed_take_bit_int_eq_self_iff [of 31 x] by simp

lemma sint32_range: "- (2 ^ 31) \<le> sint (v :: 32 word) \<and> sint v < 2 ^ 31"
  using sint_ge [of v] sint_lt [of v] by simp

subsection \<open>31-bit Smis\<close>

lemma smi4_bounds: "SmiTagging4_kSmiMinValue = - 1073741824" "SmiTagging4_kSmiMaxValue = 1073741823"
  by (simp_all add: smi4_defs not_eq_complement mask_eq_exp_minus_1)

text \<open>The range test by one unsigned comparison.\<close>

lemma unsigned_range:
  assumes "0 \<le> x" "x < 2 ^ 64"
  shows "(x + 1073741824) mod 2 ^ 64 \<le> 2147483647 \<longleftrightarrow>
    - (2 ^ 30) \<le> (if x < 2 ^ 63 then x else x - 2 ^ 64) \<and> (if x < 2 ^ 63 then x else x - 2 ^ 64) < (2 ^ 30 :: int)"
  using assms by (cases "x + 1073741824 < 2 ^ 64") (auto simp: mod_pos_geq)

lemma smi4_valid: "SmiTagging4_IsValidSmi w \<longleftrightarrow> - (2 ^ 30) \<le> sint w \<and> sint w < 2 ^ 30"
proof -
  have "uint (w + 1073741824) = (uint w + 1073741824) mod 2 ^ 64"
    by (simp add: uint_word_ariths)
  then have "SmiTagging4_IsValidSmi w \<longleftrightarrow> (uint w + 1073741824) mod 2 ^ 64 \<le> 2147483647"
    unfolding SmiTagging4_IsValidSmi_def smi4_bounds by (simp add: word_le_def)
  also have "\<dots> \<longleftrightarrow> - (2 ^ 30) \<le> sint w \<and> sint w < 2 ^ 30"
    unfolding sint64 using unsigned_range [of "uint w"] uint_lt2p [of w] by simp
  finally show ?thesis .
qed

lemma smi4_low: "SmiTagging4_SmiToInt w = signed_drop_bit 1 (ucast w)"
  by (simp add: smi4_defs)

lemma smi4_shift: "SmiTagging4_SmiToInt (push_bit 1 (scast (v :: 32 word))) = signed_drop_bit 1 (push_bit 1 v)"
proof -
  have "ucast (push_bit 1 (scast v :: 64 word)) = push_bit 1 v"
    by (rule bit_word_eqI) (auto simp: bit_simps simp del: push_bit_Suc)
  then show ?thesis unfolding smi4_defs by simp
qed

lemma smi4_trunc: "sint (signed_drop_bit 1 (push_bit 1 (v :: 32 word))) = signed_take_bit 30 (sint v)"
proof (rule bit_eqI)
  fix n :: nat
  consider "n < 30" | "n = 30" | "31 \<le> n" by linarith
  then show "bit (sint (signed_drop_bit 1 (push_bit 1 v))) n \<longleftrightarrow> bit (signed_take_bit 30 (sint v)) n"
    by cases (auto simp: bit_simps min_def simp del: push_bit_Suc)
qed

lemma smi4_roundtrip:
  "SmiTagging4_SmiToInt (push_bit 1 (scast v)) = v \<longleftrightarrow> SmiTagging4_IsValidSmi (scast v)"
  unfolding smi4_shift sint_eq_iff [symmetric, of _ v] smi4_trunc smi4_valid sint_scast64 fits_31 ..

subsection \<open>32-bit Smis\<close>

lemma smi8_bounds: "SmiTagging8_kSmiMinValue = - 2147483648" "SmiTagging8_kSmiMaxValue = 2147483647"
  by (simp_all add: smi8_defs not_eq_complement mask_eq_exp_minus_1)

lemma smi8_roundtrip: "SmiTagging8_SmiToInt (push_bit 32 (scast (v :: 32 word))) = v"
  unfolding smi8_defs by (rule bit_word_eqI) (auto simp: bit_simps)

lemma smi8_valid: "SmiTagging8_IsValidSmi w \<longleftrightarrow> - (2 ^ 31) \<le> sint w \<and> sint w < 2 ^ 31"
proof -
  have "sint (scast (ucast w :: 32 word) :: 64 word) = signed_take_bit 31 (sint w)"
    by (rule bit_eqI) (auto simp: bit_simps min_def)
  then show ?thesis
    unfolding SmiTagging8_IsValidSmi_def sint_eq_iff [symmetric, of w] by (metis fits_32)
qed

subsection \<open>The properties\<close>

lemmas platform_defs = SmiValue_def IntToSmi_def IsValidSmi_def kSmiShiftSize_def kSmiMinValue_def kSmiMaxValue_def

lemma smi_roundtrip_iff: "SmiValue cfg (IntToSmi cfg v) = v \<longleftrightarrow> IsValidSmi cfg (scast v)"
proof (cases "PlatformSmiTagging cfg = 4")
  case True
  then show ?thesis using smi4_roundtrip [of v] by (simp add: platform_defs smi4_defs)
next
  case False
  then show ?thesis
    using smi8_roundtrip [of v] smi8_valid [of "scast v"] sint32_range [of v]
    by (simp add: platform_defs smi8_defs(6,7) SmiTagging8_kSmiShiftSize_def kSmiTagSize_def kSmiTag_def sint_scast64)
qed

lemma smi_no_tag: "\<not> HasHeapObjectTag (IntToSmi cfg i)"
proof -
  have "\<not> bit (IntToSmi cfg i) 0"
    by (auto simp: IntToSmi_def kSmiTagSize_def kSmiTag_def bit_simps simp del: push_bit_Suc)
  moreover have "bit (IntToSmi cfg i AND kHeapObjectTagMask) 0 = bit (IntToSmi cfg i) 0"
    by (simp add: kHeapObjectTagMask_def kHeapObjectTagSize_def bit_simps)
  ultimately show ?thesis
    by (metis HasHeapObjectTag_def bit_1_0 kHeapObjectTag_def)
qed

text \<open>
  C17. Encoding an \<open>int\<close> as a Smi and decoding it gives the \<open>int\<close> back exactly when
  \<open>IsValidSmi\<close> accepts it, in every configuration; in the shipped one it accepts all. No
  encoded \<open>int\<close>, valid or not, carries the tag of a heap object.
\<close>

theorem Smi_roundtrip:
  "(SmiValue cfg (IntToSmi cfg v) = v \<longleftrightarrow> IsValidSmi cfg (scast v)) \<and>
   SmiValue node_config (IntToSmi node_config v) = v \<and> \<not> HasHeapObjectTag (IntToSmi cfg v)"
proof -
  have "IsValidSmi node_config (scast v)"
    using smi8_valid [of "scast v"] sint32_range [of v]
    by (simp add: IsValidSmi_def node_config_def PlatformSmiTagging_def kApiTaggedSize_def
        kApiSystemPointerSize_def sint_scast64)
  then show ?thesis using smi_roundtrip_iff smi_no_tag by blast
qed

text \<open>
  \<open>IsValidSmi\<close>, an unsigned comparison after a subtraction or a comparison with a
  truncated copy, is the range test between \<open>kSmiMinValue\<close> and \<open>kSmiMaxValue\<close> on signed
  values, for every 64-bit value; the two bounds are those of \<open>kSmiValueSize\<close> bits.
\<close>

lemma IsValidSmi_range:
  "(IsValidSmi cfg w \<longleftrightarrow> sint (kSmiMinValue cfg) \<le> sint w \<and> sint w \<le> sint (kSmiMaxValue cfg)) \<and>
   sint (kSmiMinValue cfg) = - (2 ^ (kSmiValueSize cfg - 1)) \<and>
   sint (kSmiMaxValue cfg) = 2 ^ (kSmiValueSize cfg - 1) - 1"
proof (cases "PlatformSmiTagging cfg = 4")
  case True
  have "sint (kSmiMinValue cfg) = - (2 ^ 30)" "sint (kSmiMaxValue cfg) = 2 ^ 30 - 1"
    using True by (simp_all add: kSmiMinValue_def kSmiMaxValue_def smi4_bounds)
  then show ?thesis
    using True smi4_valid [of w] by (auto simp: IsValidSmi_def kSmiValueSize_def SmiTagging4_kSmiValueSize_def)
next
  case False
  have "sint (kSmiMinValue cfg) = - (2 ^ 31)" "sint (kSmiMaxValue cfg) = 2 ^ 31 - 1"
    using False by (simp_all add: kSmiMinValue_def kSmiMaxValue_def smi8_bounds)
  then show ?thesis
    using False smi8_valid [of w] by (auto simp: IsValidSmi_def kSmiValueSize_def SmiTagging8_kSmiValueSize_def)
qed

text \<open>
  A Smi is never taken for a pointer: \<open>HasHeapObjectTag\<close> rejects every encoded
  \<open>int\<close>, valid or not, and accepts an 8-byte aligned address with the tag added.
\<close>

lemma Smi_no_heap_tag:
  "\<not> HasHeapObjectTag (IntToSmi cfg v) \<and> HasHeapObjectTag (push_bit 3 a + kHeapObjectTag)"
proof
  show "\<not> HasHeapObjectTag (IntToSmi cfg v)" by (rule smi_no_tag)
  have "push_bit 3 a + 1 = push_bit 3 a OR 1"
    by (rule disjunctive_add) (auto simp: bit_simps simp del: push_bit_Suc)
  moreover have "(push_bit 3 a OR 1) AND mask 2 = (1 :: 64 word)"
    by (rule bit_word_eqI) (auto simp: bit_simps simp del: push_bit_Suc)
  ultimately show "HasHeapObjectTag (push_bit 3 a + kHeapObjectTag)"
    by (simp add: HasHeapObjectTag_def kHeapObjectTag_def kHeapObjectTagMask_def kHeapObjectTagSize_def
        mask_eq_exp_minus_1)
qed

end
