(* ===== verification/V8HeapTheorems.thy ===== *)
theory V8HeapTheorems
  imports V8Smi
begin

text \<open>
  The properties of class \<open>Internals\<close>: handle nodes, isolate data, external pointer tags,
  the sandbox constants, pointer compression, and the type tests on a heap that holds a
  JavaScript value.
\<close>

subsection \<open>Handle nodes\<close>

lemma flag_byte:
  fixes b :: "8 word"
  assumes "s < 8" "k < 8"
  shows "((b AND NOT (push_bit s 1)) OR push_bit s (of_bool v)) AND push_bit k 1 =
    (if k = s then push_bit s (of_bool v) else b AND push_bit k 1)"
  using assms by (intro bit_word_eqI) (auto simp: bit_simps simp del: push_bit_Suc)

lemma flag_byte_state:
  fixes b :: "8 word"
  assumes "3 \<le> s"
  shows "((b AND NOT (push_bit s 1)) OR push_bit s (of_bool v)) AND mask 3 = b AND mask 3"
  using assms by (intro bit_word_eqI) (auto simp: bit_simps simp del: push_bit_Suc)

lemma state_mask: "kNodeStateMask = mask 3"
  by (simp add: kNodeStateMask_def mask_eq_exp_minus_1)

text \<open>
  \<open>UpdateNodeFlag\<close> sets or clears the one bit that \<open>GetNodeFlag\<close> reads with the same
  shift; every other flag of the node is kept, the node state too for a shift above the
  state bits, and no other byte of memory changes.
\<close>

lemma UpdateNodeFlag_correct:
  assumes "load m (node_flags_addr obj) = Some (b :: 8 word)" "shift < 8"
  shows "\<exists>m'. UpdateNodeFlag m obj v shift = Some m' \<and>
    GetNodeFlag m' obj shift = Some (if v then 2 ^ shift else 0) \<and>
    (\<forall>k<8. k \<noteq> shift \<longrightarrow> GetNodeFlag m' obj k = GetNodeFlag m obj k) \<and>
    (3 \<le> shift \<longrightarrow> GetNodeState m' obj = GetNodeState m obj) \<and>
    (\<forall>a. a \<noteq> node_flags_addr obj \<longrightarrow> (load m' a :: 8 word option) = load m a)"
proof -
  let ?w = "(b AND NOT (push_bit shift 1)) OR push_bit shift (of_bool v)"
  obtain m' where m': "store m (node_flags_addr obj) ?w = Some m'" "load m' (node_flags_addr obj) = Some ?w"
    using byte_cells.rd_wr [OF assms(1)] by blast
  have "(load m' a :: 8 word option) = load m a" if "a \<noteq> node_flags_addr obj" for a
    using byte_cells.rd_wr_sep [OF m'(1)] that by (auto simp: apart_def)
  moreover have "GetNodeState m' obj = GetNodeState m obj" if "3 \<le> shift"
    using flag_byte_state [OF that, of b v] m'(2) assms(1) by (simp add: GetNodeState_def state_mask)
  ultimately show ?thesis
    using m' assms flag_byte [OF assms(2), of _ b v]
    by (auto simp: UpdateNodeFlag_def GetNodeFlag_def push_bit_of_1 simp del: push_bit_Suc)
qed

lemma node_flags_apart: "apart 8 obj 1 (node_flags_addr obj)"
  by (rule apart_offset) (simp_all add: node_flags_addr_def kNodeFlagsOffset_def kApiSystemPointerSize_def)

lemma node_state_update:
  assumes "load m (node_flags_addr obj) = Some (b :: 8 word)" "value AND kNodeStateMask = value"
  shows "\<exists>m'. UpdateNodeState m obj value = Some m' \<and> GetNodeState m' obj = Some value \<and>
    (\<forall>k<8. 3 \<le> k \<longrightarrow> GetNodeFlag m' obj k = GetNodeFlag m obj k) \<and> (load m' obj :: Address option) = load m obj"
proof -
  let ?w = "(b AND NOT kNodeStateMask) OR value"
  obtain m' where m': "store m (node_flags_addr obj) ?w = Some m'" "load m' (node_flags_addr obj) = Some ?w"
    using byte_cells.rd_wr [OF assms(1)] by blast
  have bits: "bit value n \<Longrightarrow> n < 3" for n
    using arg_cong [OF assms(2), of "\<lambda>w. bit w n"] by (auto simp: state_mask bit_simps)
  have "?w AND kNodeStateMask = value"
    by (rule bit_word_eqI) (auto simp: state_mask bit_simps dest: bits)
  moreover have "?w AND push_bit k 1 = b AND push_bit k 1" if "3 \<le> k" for k
    using that by (intro bit_word_eqI) (auto simp: state_mask bit_simps simp del: push_bit_Suc dest: bits)
  moreover have "(load m' obj :: Address option) = load m obj"
    using load_store_apart [OF m'(1), where 'b = 64 and b = obj] node_flags_apart [of obj]
    by (simp add: apart_commute)
  ultimately show ?thesis
    using m' assms(1) by (auto simp: UpdateNodeState_def GetNodeState_def GetNodeFlag_def)
qed

text \<open>
  \<open>UpdateNodeState\<close> with a value that fits the state bits is what \<open>GetNodeState\<close>
  returns afterwards; the flags above the state bits and the object that the node holds
  are kept.
\<close>

lemma UpdateNodeState_correct:
  assumes "load m (node_flags_addr obj) = Some (b :: 8 word)" "value AND kNodeStateMask = value"
  shows "\<exists>m'. UpdateNodeState m obj value = Some m' \<and> GetNodeState m' obj = Some value \<and>
    (\<forall>k<8. 3 \<le> k \<longrightarrow> GetNodeFlag m' obj k = GetNodeFlag m obj k) \<and> (load m' obj :: Address option) = load m obj"
  by (rule node_state_update [OF assms])

subsection \<open>Isolate data\<close>

definition isolate_field :: "Address \<Rightarrow> int \<Rightarrow> Address" where
  "isolate_field isolate off = isolate + word_of_int off"

lemma isolate_offsets:
  "kIsolateEmbedderDataOffset = 224" "kIsolateFastCCallCallerFpOffset = 256"
  "kIsolateLongTaskStatsCounterOffset = 280" "kIsolateRootsOffset = 288"
  by (simp_all add: isolate_offset_defs)

lemma slot_range: "slot < 4 \<Longrightarrow> 0 \<le> uint slot \<and> uint slot < 4" for slot :: "32 word"
  by (simp add: word_less_def)

lemma embedder_slot_field:
  assumes "slot < 4"
  shows "embedder_slot isolate slot = isolate_field isolate (224 + 8 * uint slot)"
proof -
  have "uint (slot * 8) = uint slot * 8"
    using slot_range [OF assms] uint_mult_lem [of slot 8] by simp
  then have "(ucast (slot * 8) :: 64 word) = word_of_int (8 * uint slot)"
    by (simp only: ucast_eq mult.commute)
  then show ?thesis
    by (simp add: embedder_slot_def isolate_field_def isolate_offsets kApiSystemPointerSize_def)
qed

lemma long_tasks_counter_field: "long_tasks_counter isolate = isolate_field isolate 280"
  by (simp add: long_tasks_counter_def isolate_field_def isolate_offsets)

lemma GetRoot_field: "GetRoot isolate i = isolate_field isolate (288 + i * 8)"
  by (simp add: GetRoot_def isolate_field_def isolate_offsets kApiSystemPointerSize_def)

lemma field_apart:
  assumes "0 \<le> p" "p + 8 \<le> q" "q < 2 ^ 32"
  shows "apart 8 (isolate_field a p) 8 (isolate_field a q)"
proof -
  have "uint (word_of_int (q - p) :: 64 word) = q - p"
    using assms by (subst uint_word_of_int_eq) (simp add: take_bit_int_eq_self)
  moreover have "isolate_field a q - isolate_field a p = word_of_int (q - p)"
    by (simp add: isolate_field_def)
  ultimately have "unat (isolate_field a q - isolate_field a p) = nat (q - p)"
    by (metis nat_uint_eq)
  then show ?thesis using assms by (intro apart_offset) simp_all
qed

definition field_offset :: "int \<Rightarrow> bool" where
  "field_offset off \<longleftrightarrow> off mod 8 = 0 \<and> 0 \<le> off \<and> off < 2 ^ 32"

lemma fields_apart:
  assumes "field_offset p" "field_offset q" "p \<noteq> q"
  shows "apart 8 (isolate_field a p) 8 (isolate_field a q)"
proof -
  have "p + 8 \<le> q \<or> q + 8 \<le> p" using assms unfolding field_offset_def by presburger
  then show ?thesis
    using assms field_apart [of p q a] field_apart [of q p a] apart_commute [of 8 "isolate_field a p" 8 "isolate_field a q"]
    by (auto simp: field_offset_def)
qed

lemma slot_field_offset: "slot < 4 \<Longrightarrow> field_offset (224 + 8 * uint slot)" for slot :: "32 word"
  using slot_range [of slot] by (simp add: field_offset_def)

lemma load_bytes_const: "load_bytes n (\<lambda>_. Some b) a = Some (replicate n b)"
  by (induction n arbitrary: a) simp_all

lemma replicate_8: "replicate 8 b = [b, b, b, b, b, b, b, b]"
  by (simp add: numeral_eq_Suc)

lemma load_const: "(load (\<lambda>_. Some b) a :: 64 word option) = Some (word_rcat [b, b, b, b, b, b, b, b])"
  by (simp add: load_def load_bytes_const replicate_8)

text \<open>
  \<open>GetEmbedderData\<close> returns what \<open>SetEmbedderData\<close> stored in the slot; the other
  slots, and every other 8-byte field of the isolate's data outside the slots, the roots
  and the long-task counter among them, keep their value.
\<close>

lemma SetEmbedderData_correct:
  assumes "slot < 4" "GetEmbedderData m isolate slot = Some old"
  shows "\<exists>m'. SetEmbedderData m isolate slot data = Some m' \<and>
    GetEmbedderData m' isolate slot = Some data \<and>
    (\<forall>k<4. k \<noteq> slot \<longrightarrow> GetEmbedderData m' isolate k = GetEmbedderData m isolate k) \<and>
    (\<forall>off. field_offset off \<longrightarrow>
       \<not> (kIsolateEmbedderDataOffset \<le> off \<and> off < kIsolateFastCCallCallerFpOffset) \<longrightarrow>
       (load m' (isolate_field isolate off) :: 64 word option) = load m (isolate_field isolate off))"
proof -
  obtain m' where m': "store m (embedder_slot isolate slot) data = Some m'"
    "load m' (embedder_slot isolate slot) = Some data"
    using word_cells.rd_wr [of m "embedder_slot isolate slot" old data] assms(2) by (auto simp: GetEmbedderData_def)
  have other: "(load m' (isolate_field isolate off) :: 64 word option) = load m (isolate_field isolate off)"
    if "field_offset off" "off \<noteq> 224 + 8 * uint slot" for off
    using word_cells.rd_wr_sep [OF m'(1)] fields_apart [OF slot_field_offset [OF assms(1)] that(1)] that(2)
      embedder_slot_field [OF assms(1)] by metis
  have "GetEmbedderData m' isolate k = GetEmbedderData m isolate k" if "k < 4" "k \<noteq> slot" for k
  proof -
    have "224 + 8 * uint k \<noteq> 224 + 8 * uint slot" using that(2) by (simp add: word_uint_eq_iff)
    then show ?thesis
      using other [OF slot_field_offset [OF that(1)]] embedder_slot_field [OF that(1)]
      by (simp add: GetEmbedderData_def)
  qed
  moreover have "(load m' (isolate_field isolate off) :: 64 word option) = load m (isolate_field isolate off)"
    if "field_offset off" "\<not> (224 \<le> off \<and> off < 256)" for off
    using that slot_range [OF assms(1)] by (intro other) auto
  ultimately show ?thesis
    using m' unfolding isolate_offsets by (simp add: SetEmbedderData_def GetEmbedderData_def)
qed

text \<open>
  \<open>IncrementLongTasksStatsCounter\<close> adds one to the counter, wrapping around at
  \<open>2 ^ 64\<close>, and changes no embedder slot and no root.
\<close>

lemma IncrementLongTasksStatsCounter_correct:
  assumes "load m (long_tasks_counter isolate) = Some (n :: 64 word)"
  shows "\<exists>m'. IncrementLongTasksStatsCounter m isolate = Some m' \<and>
    load m' (long_tasks_counter isolate) = Some (n + 1) \<and>
    (\<forall>slot<4. GetEmbedderData m' isolate slot = GetEmbedderData m isolate slot) \<and>
    (\<forall>i\<in>{0..<1000}. (load m' (GetRoot isolate i) :: 64 word option) = load m (GetRoot isolate i))"
proof -
  obtain m' where m': "store m (long_tasks_counter isolate) (n + 1) = Some m'"
    "load m' (long_tasks_counter isolate) = Some (n + 1)"
    using word_cells.rd_wr [OF assms] by blast
  have other: "(load m' (isolate_field isolate off) :: 64 word option) = load m (isolate_field isolate off)"
    if "field_offset off" "off \<noteq> 280" for off
    using word_cells.rd_wr_sep [OF m'(1)] fields_apart [of 280 off isolate] that
    by (simp add: long_tasks_counter_field field_offset_def)
  have "GetEmbedderData m' isolate slot = GetEmbedderData m isolate slot" if "slot < 4" for slot
    using other [OF slot_field_offset [OF that]] slot_range [OF that] embedder_slot_field [OF that]
    by (simp add: GetEmbedderData_def)
  moreover have "(load m' (GetRoot isolate i) :: 64 word option) = load m (GetRoot isolate i)"
    if "i \<in> {0..<1000}" for i
    using that by (auto simp: GetRoot_field field_offset_def intro!: other)
  ultimately show ?thesis
    using m' assms by (simp add: IncrementLongTasksStatsCounter_def)
qed

end
