(* ===== verification/V8Pointers.thy ===== *)
theory V8Pointers
  imports V8HeapTheorems
begin

text \<open>
  The pointer encodings of \<open>v8-internal.h\<close> (external pointer tags, sandboxed offsets,
  compressed pointers) and the type tests of \<open>v8-value.h\<close> against an abstract JavaScript
  value: \<open>js_at cfg m this v\<close> says that the slot \<open>this\<close> of memory \<open>m\<close> holds \<open>v\<close> in
  the layout of the configuration.
\<close>

subsection \<open>External pointer tags\<close>





subsection \<open>The sandbox\<close>

lemma uint_drop_bit_le: "uint x \<le> b \<Longrightarrow> uint (drop_bit n x) \<le> b div 2 ^ n" for x :: "'a::len word"
  unfolding unsigned_drop_bit_eq by (simp add: drop_bit_eq_div zdiv_mono1 bintr_uint)

lemmas sandbox_defs = kSandboxSizeLog2_def kSandboxSize_def kSandboxAlignment_def kSandboxedPointerShift_def
  kSandboxGuardRegionSize_def kSandboxMinimumSize_def kSandboxMinimumReservationSize_def
  kExternalPointerTableReservationSize_def kMaxSandboxedExternalPointers_def kExternalPointerIndexShift_def
  kPtrComprCageReservationSize_def kPtrComprCageBaseAlignment_def kApiSystemPointerSize_def
  GB_def MB_def KB_def

text \<open>
  The \<open>static_assert\<close>s of the sandbox constants hold, and the two shifts do what the
  comments claim: a sandboxed pointer shifted right is always an offset below the size of
  the sandbox, and a stored external pointer shifted right is always an index below the
  size of the external pointer table, so that no bounds check is needed.
\<close>

lemma sandbox_bounds:
  "kSandboxGuardRegionSize mod kSandboxAlignment = 0 \<and>
   kSandboxMinimumSize \<le> kSandboxSize \<and>
   kSandboxMinimumSize > kPtrComprCageReservationSize \<and>
   kSandboxMinimumReservationSize > kPtrComprCageReservationSize \<and>
   2 ^ (32 - kExternalPointerIndexShift) = kMaxSandboxedExternalPointers \<and>
   uint (drop_bit kSandboxedPointerShift (x :: 64 word)) < kSandboxSize \<and>
   uint (drop_bit kExternalPointerIndexShift (i :: 32 word)) < kMaxSandboxedExternalPointers"
proof -
  have "uint x \<le> 2 ^ 64 - 1" "uint i \<le> 2 ^ 32 - 1" using uint_lt2p [of x] uint_lt2p [of i] by simp_all
  then show ?thesis
    using uint_drop_bit_le [of x "2 ^ 64 - 1" 24] uint_drop_bit_le [of i "2 ^ 32 - 1" 8]
    by (simp add: sandbox_defs)
qed

subsection \<open>Compressed pointers\<close>

definition same_cage :: "Address \<Rightarrow> Address \<Rightarrow> bool" where
  "same_cage p q \<longleftrightarrow> drop_bit 32 p = drop_bit 32 q"

lemma cage_base: "GetPtrComprCageBaseFromOnHeapAddress a = push_bit 32 (drop_bit 32 a)"
proof -
  have "(- word_of_int kPtrComprCageBaseAlignment :: 64 word) = NOT (mask 32)"
    by (simp add: kPtrComprCageBaseAlignment_def not_eq_complement mask_eq_exp_minus_1)
  then show ?thesis
    unfolding GetPtrComprCageBaseFromOnHeapAddress_def
    by (intro bit_word_eqI) (auto simp: bit_simps simp del: push_bit_Suc dest: bit_imp_le_length)
qed

lemma decompress_or: "DecompressTaggedAnyField a v = push_bit 32 (drop_bit 32 a) OR ucast v"
  unfolding DecompressTaggedAnyField_def cage_base
  by (rule disjunctive_add) (auto simp: bit_simps simp del: push_bit_Suc dest: bit_imp_le_length)

lemma decompress_in_cage: "same_cage (DecompressTaggedAnyField a v) a"
  unfolding same_cage_def decompress_or
  by (rule bit_word_eqI) (auto simp: bit_simps simp del: push_bit_Suc dest: bit_imp_le_length)

lemma decompress_compress: "same_cage p a \<Longrightarrow> DecompressTaggedAnyField a (ucast p) = p"
proof -
  assume "same_cage p a"
  then have "bit (drop_bit 32 p) n = bit (drop_bit 32 a) n" for n by (simp add: same_cage_def)
  then have "bit p (n + 32) = bit a (n + 32)" for n by (simp add: bit_drop_bit_eq add.commute)
  then have "32 \<le> n \<Longrightarrow> bit p n = bit a n" for n by (metis le_add_diff_inverse2)
  then show ?thesis
    unfolding decompress_or by (intro bit_word_eqI) (auto simp: bit_simps simp del: push_bit_Suc dest: bit_imp_le_length)
qed

text \<open>
  Pointer compression is lossless inside a cage: the low half of a tagged pointer,
  decompressed next to any address of the same 4 GB cage, is the pointer again; a
  decompressed value never leaves the cage, whatever the 32 bits are, and only a pointer
  of the cage survives compression.
\<close>

lemma decompress_roundtrip:
  "(DecompressTaggedAnyField a (ucast p) = p \<longleftrightarrow> same_cage p a) \<and>
   same_cage (DecompressTaggedAnyField a v) a \<and> ucast (DecompressTaggedAnyField a v) = v"
proof -
  have "ucast (DecompressTaggedAnyField a v) = v"
    unfolding decompress_or by (rule bit_word_eqI) (auto simp: bit_simps simp del: push_bit_Suc dest: bit_imp_le_length)
  then show ?thesis using decompress_compress decompress_in_cage [of a v] decompress_in_cage [of a "ucast p"] by metis
qed

subsection \<open>Type tests\<close>

text \<open>
  A JavaScript value as the type tests see it: a Smi, an oddball (\<open>undefined\<close>, \<open>null\<close>,
  \<open>true\<close> and the like) of a kind, any other object with its instance type.
\<close>

datatype js_value = JSmi "32 word" | JOddball "32 word" | JObject "16 word"

text \<open>A tagged value in a field: its low half, or the whole word without compression.\<close>

definition field_holds :: "v8_config \<Rightarrow> mem \<Rightarrow> Address \<Rightarrow> Address \<Rightarrow> bool" where
  "field_holds cfg m a w \<longleftrightarrow>
     (if V8_COMPRESS_POINTERS cfg then load m a = Some (ucast w :: 32 word) else load m a = Some w)"

definition packed_map :: "v8_config \<Rightarrow> Address \<Rightarrow> Address" where
  "packed_map cfg mp = (if V8_MAP_PACKING cfg then mp XOR kMapWordXorMask else mp)"

definition object_at :: "v8_config \<Rightarrow> mem \<Rightarrow> Address \<Rightarrow> 16 word \<Rightarrow> bool" where
  "object_at cfg m obj t \<longleftrightarrow> HasHeapObjectTag obj \<and>
     (\<exists>mp. (V8_COMPRESS_POINTERS cfg \<longrightarrow> same_cage (packed_map cfg mp) obj) \<and>
        field_holds cfg m (obj + word_of_int kHeapObjectMapOffset - kHeapObjectTag) (packed_map cfg mp) \<and>
        load m (mp + word_of_int (kMapInstanceTypeOffset cfg) - kHeapObjectTag) = Some t)"

definition js_at :: "v8_config \<Rightarrow> mem \<Rightarrow> Address \<Rightarrow> js_value \<Rightarrow> bool" where
  "js_at cfg m this v \<longleftrightarrow> (case v of
     JSmi i \<Rightarrow> load m this = Some (IntToSmi cfg i)
   | JOddball k \<Rightarrow> (\<exists>obj. load m this = Some obj \<and> object_at cfg m obj (word_of_int kOddballType) \<and>
       IsValidSmi cfg (scast k) \<and>
       field_holds cfg m (obj + word_of_int (kOddballKindOffset cfg) - kHeapObjectTag) (IntToSmi cfg k))
   | JObject t \<Rightarrow> t \<noteq> word_of_int kOddballType \<and>
       (\<exists>obj. load m this = Some obj \<and> object_at cfg m obj t))"

lemma unpack_packed: "(if V8_MAP_PACKING cfg then UnpackMapWord (packed_map cfg mp) else packed_map cfg mp) = mp"
  by (simp add: UnpackMapWord_def packed_map_def xor.assoc)

lemma ReadTaggedPointerField_holds:
  assumes "field_holds cfg m (obj + word_of_int off - kHeapObjectTag) w" "V8_COMPRESS_POINTERS cfg \<longrightarrow> same_cage w obj"
  shows "ReadTaggedPointerField cfg m obj off = Some w"
  using assms decompress_compress [of w obj]
  by (auto simp: field_holds_def ReadTaggedPointerField_def ReadRawField_def field_addr_def DecompressTaggedAnyField_def)

lemma GetInstanceType_object:
  assumes "object_at cfg m obj t"
  shows "GetInstanceType cfg m obj = Some (uint t)"
proof -
  obtain mp where "ReadTaggedPointerField cfg m obj kHeapObjectMapOffset = Some (packed_map cfg mp)"
    "load m (mp + word_of_int (kMapInstanceTypeOffset cfg) - kHeapObjectTag) = Some t"
    using assms ReadTaggedPointerField_holds unfolding object_at_def by blast
  then show ?thesis
    using unpack_packed [of cfg mp] by (simp add: GetInstanceType_def ReadRawField_def field_addr_def)
qed

lemma SmiValue_low:
  assumes "V8_COMPRESS_POINTERS cfg"
  shows "SmiValue cfg (ucast (ucast w :: 32 word)) = SmiValue cfg w"
proof -
  have "PlatformSmiTagging cfg = 4"
    using assms by (simp add: PlatformSmiTagging_def kApiTaggedSize_def kApiInt32Size_def)
  moreover have "(ucast (ucast (ucast w :: 32 word) :: 64 word) :: 32 word) = ucast w"
    by (rule bit_word_eqI) (auto simp: bit_simps)
  ultimately show ?thesis by (simp add: SmiValue_def smi4_low)
qed

lemma GetOddballKind_holds:
  assumes "field_holds cfg m (obj + word_of_int (kOddballKindOffset cfg) - kHeapObjectTag) (IntToSmi cfg k)"
    "IsValidSmi cfg (scast k)"
  shows "GetOddballKind cfg m obj = Some (sint k)"
  using assms SmiValue_low [of cfg "IntToSmi cfg k"] smi_roundtrip_iff [of cfg k]
  by (auto simp: field_holds_def GetOddballKind_def ReadTaggedSignedField_def ReadRawField_def field_addr_def)

lemma object_at_tag: "object_at cfg m obj t \<Longrightarrow> HasHeapObjectTag obj"
  by (simp add: object_at_def)

lemmas quick_defs = QuickIsUndefined_def QuickIsNull_def QuickIsNullOrUndefined_def QuickIsString_def

lemma uint_oddball: "uint (word_of_int kOddballType :: 16 word) = kOddballType"
  by (simp add: kOddballType_def)

lemma sint_kind: "sint (k :: 32 word) = 5 \<longleftrightarrow> k = 5" "sint (k :: 32 word) = 3 \<longleftrightarrow> k = 3"
  using sint_eq_iff [of k 5] sint_eq_iff [of k 3] by simp_all

text \<open>
  C19. The type tests answer correctly, and read only mapped memory, on every slot that
  holds a JavaScript value: \<open>QuickIsUndefined\<close> is true of the oddball of kind 5 only,
  \<open>QuickIsNull\<close> of kind 3 only, \<open>QuickIsNullOrUndefined\<close> of these two, \<open>QuickIsString\<close> of
  objects whose type is below the first non-string type; none is true of a Smi. This
  holds in every configuration of pointer compression, Smi size and map packing.
\<close>

theorem Quick_tests_correct:
  assumes "js_at cfg m this v"
  shows "QuickIsUndefined cfg m this = Some (v = JOddball 5) \<and>
    QuickIsNull cfg m this = Some (v = JOddball 3) \<and>
    QuickIsNullOrUndefined cfg m this = Some (v = JOddball 3 \<or> v = JOddball 5) \<and>
    QuickIsString cfg m this = Some (case v of JObject t \<Rightarrow> uint t < 0x80 | _ \<Rightarrow> False)"
proof (cases v)
  case (JSmi i)
  then show ?thesis using assms smi_no_tag [of cfg i] by (simp add: js_at_def quick_defs)
next
  case (JOddball k)
  then obtain obj where "load m this = Some obj" "object_at cfg m obj (word_of_int kOddballType)"
    "GetOddballKind cfg m obj = Some (sint k)"
    using assms GetOddballKind_holds by (auto simp: js_at_def)
  then show ?thesis
    using JOddball GetInstanceType_object [of cfg m obj "word_of_int kOddballType"] object_at_tag uint_oddball sint_kind [of k]
    by (auto simp: quick_defs kUndefinedOddballKind_def kNullOddballKind_def kFirstNonstringType_def kOddballType_def)
next
  case (JObject t)
  then obtain obj where "load m this = Some obj" "object_at cfg m obj t" "t \<noteq> word_of_int kOddballType"
    using assms by (auto simp: js_at_def)
  moreover have "uint t \<noteq> kOddballType"
    using calculation(3) by (metis word_of_int_uint)
  ultimately show ?thesis
    using JObject GetInstanceType_object [of cfg m obj t] object_at_tag
    by (auto simp: quick_defs kFirstNonstringType_def)
qed

text \<open>A heap with \<open>undefined\<close> at \<open>0x1000\<close>, its map at \<open>0x2000\<close>, a handle to it at \<open>0\<close>.\<close>

definition undefined_heap :: mem where
  "undefined_heap = (\<lambda>_. Some 0)(0 \<mapsto> 0x01, 1 \<mapsto> 0x10, 0x1000 \<mapsto> 0x01, 0x1001 \<mapsto> 0x20,
     0x102c \<mapsto> 5, 0x200c \<mapsto> 0x83)"

lemma load_bytes_2: "load_bytes 2 m a = do { b0 \<leftarrow> m a; b1 \<leftarrow> m (a + 1); Some [b0, b1] }"
  by (simp add: numeral_2_eq_2)

lemma load_bytes_8:
  "load_bytes 8 m a = do { b0 \<leftarrow> m a; b1 \<leftarrow> m (a + 1); b2 \<leftarrow> m (a + 2); b3 \<leftarrow> m (a + 3);
     b4 \<leftarrow> m (a + 4); b5 \<leftarrow> m (a + 5); b6 \<leftarrow> m (a + 6); b7 \<leftarrow> m (a + 7);
     Some [b0, b1, b2, b3, b4, b5, b6, b7] }"
  by (simp add: numeral_eq_Suc add.assoc)

lemma undefined_heap_loads:
  "(load undefined_heap 0 :: 64 word option) = Some 0x1001"
  "(load undefined_heap 0x1000 :: 64 word option) = Some 0x2001"
  "(load undefined_heap 0x1028 :: 64 word option) = Some 0x500000000"
  "(load undefined_heap 0x200c :: 16 word option) = Some 0x83"
  by (simp_all add: load_def load_bytes_2 load_bytes_8 undefined_heap_def word_rcat_def)

lemma undefined_heap_at: "js_at node_config undefined_heap 0 (JOddball 5)"
proof -
  have c: "kMapInstanceTypeOffset node_config = 12" "kOddballKindOffset node_config = 40"
    "IntToSmi node_config 5 = 0x500000000" "IsValidSmi node_config 5" "\<not> V8_COMPRESS_POINTERS node_config"
    "packed_map node_config mp = mp" for mp
    by (simp_all add: kMapInstanceTypeOffset_def kOddballKindOffset_def node_config_def kApiTaggedSize_def
        kApiInt32Size_def kApiDoubleSize_def kApiSystemPointerSize_def IntToSmi_def IsValidSmi_def kSmiShiftSize_def
        PlatformSmiTagging_def smi8_defs packed_map_def)
  have "object_at node_config undefined_heap 0x1001 (word_of_int kOddballType)"
    unfolding object_at_def using c undefined_heap_loads
    by (intro conjI exI [of _ "0x2001"])
      (simp_all add: field_holds_def HasHeapObjectTag_def kHeapObjectTag_def kHeapObjectTagMask_def
        kHeapObjectTagSize_def kHeapObjectMapOffset_def kOddballType_def)
  then show ?thesis
    using c undefined_heap_loads by (simp add: js_at_def field_holds_def kHeapObjectTag_def)
qed

theorem Quick_tests_correct_witness:
  "QuickIsUndefined node_config undefined_heap 0 = Some True \<and>
   QuickIsNull node_config undefined_heap 0 = Some False \<and> QuickIsString node_config undefined_heap 0 = Some False"
  using Quick_tests_correct [OF undefined_heap_at] by simp

end
