(* ===== verification/WordBits.thy ===== *)
theory WordBits
  imports Prelude "HOL-Library.Word"
begin

text \<open>Single bits of machine words, as the code tests them with masks.\<close>

unbundle bit_operations_syntax

lemma and_push_bit_1: "w AND push_bit k 1 = (if bit w k then push_bit k 1 else 0)" for w :: "'a::len word"
  by (rule bit_word_eqI) (auto simp: bit_simps simp del: push_bit_Suc)

lemma and_push_bit_1_eq_0: "k < LENGTH('a) \<Longrightarrow> w AND push_bit k 1 = 0 \<longleftrightarrow> \<not> bit w k" for w :: "'a::len word"
  unfolding and_push_bit_1 by (simp add: push_bit_of_1 del: push_bit_Suc)

lemma top_bit_clear: "\<not> bit w (LENGTH('a) - 1) \<longleftrightarrow> uint w < 2 ^ (LENGTH('a) - 1)" for w :: "'a::len word"
proof -
  have "bit w (LENGTH('a) - 1) \<longleftrightarrow> odd (uint w div 2 ^ (LENGTH('a) - 1))"
    by (subst bit_iff_odd [symmetric]) (simp add: bit_uint_iff)
  also have "uint w div 2 ^ (LENGTH('a) - 1) = (if uint w < 2 ^ (LENGTH('a) - 1) then 0 else 1)"
  proof (cases "uint w < 2 ^ (LENGTH('a) - 1)")
    case False
    have "uint w < 2 ^ (LENGTH('a) - 1) * 2"
      using uint_lt2p [of w] by (metis len_gt_0 power_minus_mult)
    then have "uint w div 2 ^ (LENGTH('a) - 1) = 1"
      using False by (intro int_div_pos_eq [of _ _ _ "uint w - 2 ^ (LENGTH('a) - 1)"]) simp_all
    then show ?thesis using False by simp
  qed (simp add: div_pos_pos_trivial)
  finally show ?thesis by simp
qed

end
