(* ===== verification/V8CallbackTheorems.thy ===== *)
theory V8CallbackTheorems
  imports V8Callback V8Pointers WordBits
begin

text \<open>
  The properties of the callback classes: what a setter leaves in the return slot, which
  slot an argument index names, and when a property callback should throw.
\<close>

lemma elem_field: "elem p j = isolate_field (elem p i) (8 * (j - i))"
  by (simp add: elem_def isolate_field_def kApiSystemPointerSize_def right_diff_distrib)

lemma elem_0 [simp]: "elem p 0 = p"
  by (simp add: elem_def)

lemma elem_elem: "elem (elem p i) j = elem p (i + j)"
  by (simp add: elem_def distrib_left)

lemma elem_apart:
  assumes "i \<noteq> j" "\<bar>i - j\<bar> < 2 ^ 20"
  shows "apart 8 (elem p i) 8 (elem p j)"
proof -
  have le: "apart 8 (elem p i) 8 (elem p j)" if "i < j" "j - i < 2 ^ 20" for i j
    using field_apart [of 0 "8 * (j - i)" "elem p i"] that elem_field [of p j i] elem_field [of p i i] by simp
  show ?thesis
    using assms le [of i j] le [of j i] apart_commute [of 8 "elem p i" 8 "elem p j"] by (cases "i < j") auto
qed

subsection \<open>The return slot\<close>

text \<open>
  The slot of a return value as the callback machinery lays it out: a cell, with the
  default value and the isolate in the two cells below.
\<close>

definition return_slot :: "mem \<Rightarrow> Address \<Rightarrow> Address \<Rightarrow> Address \<Rightarrow> bool" where
  "return_slot m slot isolate d \<longleftrightarrow>
     (\<exists>v. load m slot = Some (v :: Address)) \<and> ReturnValue_GetIsolate m slot = Some isolate \<and>
     ReturnValue_GetDefaultValue m slot = Some d"

text \<open>A successful setter: the slot holds \<open>v\<close>, the cells around it are as they were.\<close>

definition slot_set :: "mem option \<Rightarrow> Address \<Rightarrow> Address \<Rightarrow> Address \<Rightarrow> Address \<Rightarrow> bool" where
  "slot_set r slot isolate d v \<longleftrightarrow>
     (\<exists>m'. r = Some m' \<and> load m' slot = Some v \<and> return_slot m' slot isolate d)"

lemma slot_set_store:
  assumes "return_slot m slot isolate d"
  shows "slot_set (store m slot v) slot isolate d v"
proof -
  obtain m' where m': "store m slot v = Some m'" "load m' slot = Some v"
    using assms word_cells.rd_wr [of m slot _ v] by (auto simp: return_slot_def)
  have "(load m' (elem slot k) :: Address option) = load m (elem slot k)" if "k \<noteq> 0" "\<bar>k\<bar> < 2 ^ 20" for k
    using word_cells.rd_wr_sep [OF m'(1)] elem_apart [of 0 k slot] that by simp
  from this [of "- 1"] this [of "- 2"] show ?thesis
    using assms m' by (simp add: slot_set_def return_slot_def ReturnValue_GetIsolate_def ReturnValue_GetDefaultValue_def)
qed

lemma slot_set_Set:
  assumes "return_slot m slot isolate d" "h \<noteq> 0" "load m h = Some v"
  shows "slot_set (ReturnValue_Set m slot h) slot isolate d v"
  using assms slot_set_store [OF assms(1), of v] by (simp add: ReturnValue_Set_def)

lemma slot_set_empty:
  assumes "return_slot m slot isolate d"
  shows "slot_set (ReturnValue_Set m slot 0) slot isolate d d"
  using slot_set_store [OF assms, of d] assms by (simp add: ReturnValue_Set_def return_slot_def)

lemma fits_int32: "u AND push_bit 31 1 = 0 \<longleftrightarrow> uint u < 2 ^ 31" for u :: "32 word"
  using and_push_bit_1_eq_0 [of 31 u] top_bit_clear [of u] by simp

text \<open>What an engine function that allocates has to deliver: a handle to a slot that holds \<open>v\<close>.\<close>

definition allocates :: "'a allocator \<Rightarrow> mem \<Rightarrow> Address \<Rightarrow> 'a \<Rightarrow> Address \<Rightarrow> Address \<Rightarrow> Address \<Rightarrow> bool" where
  "allocates New m isolate i slot d v \<longleftrightarrow>
     (\<exists>h m1. New isolate i m = Some (h, m1) \<and> h \<noteq> 0 \<and> load m1 h = Some v \<and> return_slot m1 slot isolate d)"

lemma slot_set_allocates:
  assumes "return_slot m slot isolate d" "allocates New m isolate i slot d v"
  shows "slot_set (do { isolate \<leftarrow> ReturnValue_GetIsolate m slot; (handle, m) \<leftarrow> New isolate i m;
    ReturnValue_Set m slot handle }) slot isolate d v"
  using assms slot_set_Set by (auto simp: allocates_def return_slot_def)

lemma slot_set_root:
  assumes "return_slot m slot isolate d" "load m (GetRoot isolate k) = Some r"
  shows "slot_set (ReturnValue_set_root m slot k) slot isolate d r"
  using assms slot_set_store [OF assms(1), of r] by (simp add: ReturnValue_set_root_def return_slot_def)

text \<open>
  C21. What \<open>ReturnValue::Set\<close> leaves in the return slot, next to an untouched default value
  and isolate, in every configuration. An \<open>int\<close> that \<open>IsValidSmi\<close> accepts is stored as a
  Smi that decodes to it, without the engine; any other \<open>int\<close> is the number that
  \<open>Integer::New\<close> allocates. An \<open>unsigned\<close> below \<open>2 ^ 31\<close> is stored as the \<open>int\<close> of the same
  value, a greater one as the number \<open>Integer::NewFromUnsigned\<close> allocates, so that none
  turns negative. A \<open>bool\<close> is the matching root, and an empty handle the default value.
\<close>

theorem ReturnValue_Set_correct:
  assumes "return_slot m slot isolate d"
  shows "(IsValidSmi cfg (scast i) \<longrightarrow>
      slot_set (ReturnValue_Set_int32 cfg New m slot i) slot isolate d (IntToSmi cfg i) \<and>
      SmiValue cfg (IntToSmi cfg i) = i \<and> \<not> HasHeapObjectTag (IntToSmi cfg i)) \<and>
    (\<not> IsValidSmi cfg (scast i) \<and> allocates New m isolate i slot d v \<longrightarrow>
      slot_set (ReturnValue_Set_int32 cfg New m slot i) slot isolate d v) \<and>
    (uint u < 2 ^ 31 \<longrightarrow>
      ReturnValue_Set_uint32 cfg New NewU m slot u = ReturnValue_Set_int32 cfg New m slot u \<and> sint u = uint u) \<and>
    (2 ^ 31 \<le> uint u \<and> allocates NewU m isolate u slot d v \<longrightarrow>
      slot_set (ReturnValue_Set_uint32 cfg New NewU m slot u) slot isolate d v) \<and>
    (load m (if b then V8_True isolate else V8_False isolate) = Some r \<longrightarrow>
      slot_set (ReturnValue_Set_bool m slot b) slot isolate d r) \<and>
    slot_set (ReturnValue_Set m slot 0) slot isolate d d"
proof -
  have "sint u = uint u" if "uint u < 2 ^ 31"
  proof -
    have "- (2 ^ 31) \<le> uint u" by (rule order_trans [OF _ uint_ge_0]) simp
    then show ?thesis using that by (simp add: sint_uint signed_take_bit_int_eq_self)
  qed
  then show ?thesis
    using slot_set_store [OF assms, of "IntToSmi cfg i"] slot_set_allocates [OF assms, of New i v]
      slot_set_allocates [OF assms, of NewU u v] slot_set_root [OF assms] slot_set_empty [OF assms]
      smi_roundtrip_iff [of cfg i] smi_no_tag [of cfg i] fits_int32 [of u]
    unfolding ReturnValue_Set_int32_def ReturnValue_Set_uint32_def ReturnValue_Set_bool_def V8_True_def V8_False_def
    by (cases b) (auto simp: Let_def)
qed

lemma zero_memory: "(load (\<lambda>_. Some 0) a :: Address option) = Some 0"
  by (simp add: load_const word_rcat_def)

lemma return_slot_zero: "return_slot (\<lambda>_. Some 0) slot 0 0"
  by (simp add: return_slot_def ReturnValue_GetIsolate_def ReturnValue_GetDefaultValue_def zero_memory)

text \<open>The compressed configuration, in which not every \<open>int\<close> is a Smi.\<close>

definition compressed_config :: v8_config where
  "compressed_config = node_config\<lparr>V8_COMPRESS_POINTERS := True\<rparr>"

theorem ReturnValue_Set_correct_witness:
  "slot_set (ReturnValue_Set_int32 node_config (\<lambda>_ _ _. None) (\<lambda>_. Some 0) 4096 7) 4096 0 0 0x700000000 \<and>
   slot_set (ReturnValue_Set_int32 compressed_config (\<lambda>_ _ m. Some (8192, m)) (\<lambda>_. Some 0) 4096 0x40000000) 4096 0 0 0 \<and>
   slot_set (ReturnValue_Set_uint32 node_config (\<lambda>_ _ _. None) (\<lambda>_ _ m. Some (8192, m)) (\<lambda>_. Some 0) 4096 0x80000000)
     4096 0 0 0"
proof -
  let ?m = "\<lambda>_. Some 0 :: 8 word option" and ?none = "\<lambda>(_ :: Address) (_ :: 32 word) (_ :: mem). None :: (Address \<times> mem) option"
  let ?new = "\<lambda>(_ :: Address) (_ :: 32 word) (m :: mem). Some (8192 :: Address, m)"
  have "IsValidSmi node_config (scast (7 :: 32 word))" "IntToSmi node_config 7 = 0x700000000"
    by (simp_all add: node_config_def kApiTaggedSize_def kApiInt32Size_def kApiSystemPointerSize_def IntToSmi_def
        IsValidSmi_def kSmiShiftSize_def PlatformSmiTagging_def smi8_defs)
  moreover have "\<not> IsValidSmi compressed_config (scast (0x40000000 :: 32 word))"
    by (simp add: compressed_config_def node_config_def kApiTaggedSize_def kApiInt32Size_def kApiSystemPointerSize_def
        IsValidSmi_def PlatformSmiTagging_def smi4_valid)
  moreover have "allocates ?new ?m 0 i 4096 0 0" for i
    by (simp add: allocates_def zero_memory return_slot_zero)
  ultimately show ?thesis
    using ReturnValue_Set_correct [OF return_slot_zero [of 4096], where cfg = node_config and i = 7 and New = ?none
        and u = "0x80000000" and NewU = ?new and v = 0]
      ReturnValue_Set_correct [OF return_slot_zero [of 4096], where cfg = compressed_config and i = "0x40000000"
        and New = ?new and v = 0]
    by auto
qed

subsection \<open>Callback arguments\<close>

text \<open>
  A function callback as the engine calls it: the isolate and the new target among the
  implicit arguments, \<open>vs\<close> in the argument slots, \<open>undefined\<close> among the roots.
\<close>

definition callback_frame :: "mem \<Rightarrow> callback_info \<Rightarrow> Address \<Rightarrow> Address \<Rightarrow> Address list \<Rightarrow> bool" where
  "callback_frame m info isolate undef vs \<longleftrightarrow>
     load m (elem (implicit_args info) kIsolateIndex) = Some isolate \<and>
     load m (Undefined isolate) = Some undef \<and>
     length vs < 2 ^ 31 \<and> args_length info = of_nat (length vs) \<and>
     (\<forall>k<length vs. load m (elem (args_values info) (int k)) = Some (vs ! k))"

lemma sint_of_nat: "n < 2 ^ 31 \<Longrightarrow> sint (of_nat n :: 32 word) = int n"
  by (simp add: sint_uint unsigned_of_nat signed_take_bit_int_eq_self take_bit_nat_eq_self)

text \<open>
  C22. An index in range names the argument's slot and any other \<open>int\<close>, negative ones
  included, names \<open>undefined\<close>: whatever the index, the handle can be read and never names a
  slot beyond the arguments. \<open>IsConstructCall\<close> holds exactly when the new target is not
  \<open>undefined\<close>. The return value object of the callback finds in the cells below its slot
  the isolate and the default value of this callback.
\<close>

theorem FunctionCallbackInfo_correct:
  assumes "callback_frame m info isolate undef vs" "js_at cfg m (FCI_NewTarget info) target"
  shows "(\<exists>h. FCI_argument m info i = Some h \<and>
      load m h = Some (if 0 \<le> sint i \<and> sint i < int (length vs) then vs ! nat (sint i) else undef)) \<and>
    FCI_IsConstructCall cfg m info = Some (target \<noteq> JOddball 5) \<and>
    ReturnValue_GetIsolate m (FCI_GetReturnValue info) = FCI_GetIsolate m info \<and>
    ReturnValue_GetDefaultValue m (FCI_GetReturnValue info) =
      load m (elem (implicit_args info) kReturnValueDefaultValueIndex)"
proof -
  have len: "sint (args_length info) = int (length vs)"
    using assms(1) sint_of_nat [of "length vs"] by (simp add: callback_frame_def)
  have "\<exists>h. FCI_argument m info i = Some h \<and>
      load m h = Some (if 0 \<le> sint i \<and> sint i < int (length vs) then vs ! nat (sint i) else undef)"
  proof (cases "0 \<le> sint i \<and> sint i < int (length vs)")
    case True
    then have "load m (elem (args_values info) (int (nat (sint i)))) = Some (vs ! nat (sint i))"
      using assms(1) unfolding callback_frame_def by (metis nat_less_iff)
    then show ?thesis using True len by (simp add: FCI_argument_def)
  next
    case False
    then show ?thesis
      using assms(1) len by (auto simp: FCI_argument_def FCI_GetIsolate_def callback_frame_def)
  qed
  then show ?thesis
    using Quick_tests_correct [OF assms(2)]
    by (auto simp: FCI_IsConstructCall_def ReturnValue_GetIsolate_def ReturnValue_GetDefaultValue_def FCI_GetIsolate_def
        FCI_GetReturnValue_def elem_elem kReturnValueIndex_def kIsolateIndex_def kReturnValueDefaultValueIndex_def)
qed

text \<open>A call with two arguments and \<open>new.target\<close> undefined, on the heap of the type tests.\<close>

definition demo_call :: callback_info where
  "demo_call = \<lparr>implicit_args = - 40, args_values = 0x3000, args_length = 2\<rparr>"

lemma demo_call_loads:
  "(load undefined_heap (- 32) :: 64 word option) = Some 0" "(load undefined_heap 320 :: 64 word option) = Some 0"
  "(load undefined_heap 0x3000 :: 64 word option) = Some 0" "(load undefined_heap 0x3008 :: 64 word option) = Some 0"
  by (simp_all add: load_def load_bytes_8 undefined_heap_def word_rcat_def)

lemma demo_call_addresses:
  "elem (implicit_args demo_call) kIsolateIndex = - 32" "Undefined 0 = 320"
  "elem (args_values demo_call) 0 = 0x3000" "elem (args_values demo_call) 1 = 0x3008"
  by (simp_all add: demo_call_def elem_def kApiSystemPointerSize_def kIsolateIndex_def Undefined_def GetRoot_def
      isolate_offsets kUndefinedValueRootIndex_def)

lemma demo_call_frame: "callback_frame undefined_heap demo_call 0 0 [0, 0]"
proof -
  have "load undefined_heap (elem (args_values demo_call) (int k)) = Some ([0, 0] ! k :: Address)" if "k < 2" for k
  proof -
    have "k = 0 \<or> k = 1" using that by auto
    then show ?thesis using demo_call_addresses(3,4) demo_call_loads(3,4) by auto
  qed
  then show ?thesis
    using demo_call_loads(1,2) unfolding callback_frame_def demo_call_addresses
    by (simp add: demo_call_def)
qed

theorem FunctionCallbackInfo_correct_witness:
  "(\<exists>h. FCI_argument undefined_heap demo_call (- 1) = Some h \<and> load undefined_heap h = Some (0 :: Address)) \<and>
   FCI_IsConstructCall node_config undefined_heap demo_call = Some False"
proof -
  have "FCI_NewTarget demo_call = 0"
    by (simp add: FCI_NewTarget_def demo_call_def elem_def kApiSystemPointerSize_def kNewTargetIndex_def)
  then show ?thesis
    using FunctionCallbackInfo_correct [OF demo_call_frame, of node_config "JOddball 5" "- 1"] undefined_heap_at by simp
qed

subsection \<open>Property callbacks\<close>

lemma small_smi: "v = 0 \<or> v = 1 \<or> v = 2 \<Longrightarrow> SmiValue cfg (IntToSmi cfg v) = v"
  unfolding smi_roundtrip_iff using platform_cases [of cfg]
  by (auto simp: IsValidSmi_def smi4_valid smi8_valid sint_scast64)

lemma small_smi_inj:
  "v = 0 \<or> v = 1 \<or> v = 2 \<Longrightarrow> w = 0 \<or> w = 1 \<or> w = 2 \<Longrightarrow> IntToSmi cfg v = IntToSmi cfg w \<longleftrightarrow> v = w"
  using small_smi [of v cfg] small_smi [of w cfg] by metis

text \<open>
  A property callback finds its mode in the first cell: \<open>ShouldThrowOnError\<close> is true for
  \<open>kThrowOnError\<close>, false for \<open>kDontThrow\<close>, and asks the engine, with the isolate of the
  callback, only for \<open>kInferShouldThrowMode\<close>, in every configuration of Smis. The return
  value object finds in the cells below its slot the isolate and the default value.
\<close>

lemma PropertyCallbackInfo_correct:
  assumes "load m (elem args PCI_kShouldThrowOnErrorIndex) = Some (IntToSmi cfg (word_of_int mode))"
    "mode = kThrowOnError \<or> mode = kDontThrow \<or> mode = kInferShouldThrowMode"
    "PCI_GetIsolate m args = Some isolate"
  shows "PCI_ShouldThrowOnError cfg infer m args =
      Some (if mode = kThrowOnError then True else if mode = kDontThrow then False else infer isolate) \<and>
    ReturnValue_GetIsolate m (PCI_GetReturnValue args) = Some isolate \<and>
    ReturnValue_GetDefaultValue m (PCI_GetReturnValue args) = load m (elem args PCI_kReturnValueDefaultValueIndex)"
  using assms small_smi_inj [of _ _ cfg]
  by (auto simp: PCI_ShouldThrowOnError_def PCI_GetIsolate_def PCI_GetReturnValue_def ReturnValue_GetIsolate_def
      ReturnValue_GetDefaultValue_def elem_elem kThrowOnError_def kDontThrow_def kInferShouldThrowMode_def
      PCI_kReturnValueIndex_def PCI_kIsolateIndex_def PCI_kReturnValueDefaultValueIndex_def)

end
