(* ===== verification/V8HandleTheorems.thy ===== *)
theory V8HandleTheorems
  imports V8Handles V8CallbackTheorems
begin

text \<open>
  Ownership of global handles. \<open>nodes m\<close> is the set of nodes that the engine has given out;
  \<open>global_handles\<close> is what the engine's documentation promises of the exported functions.
  Then every client program made of handle operations keeps a bijection between non-empty
  handle objects and nodes: no node is leaked, freed twice, or used after it was freed.
\<close>

subsection \<open>The contract of the exported functions\<close>

text \<open>The nodes of \<open>K\<close> keep their object and their state.\<close>

definition keeps :: "Address set \<Rightarrow> mem \<Rightarrow> mem \<Rightarrow> bool" where
  "keeps K m m' \<longleftrightarrow>
     (\<forall>n\<in>K. (load m' n :: Address option) = load m n \<and> GetNodeState m' n = GetNodeState m n)"

definition allocates_node :: "(mem \<Rightarrow> Address set) \<Rightarrow> mem \<Rightarrow> Address \<Rightarrow> mem \<Rightarrow> bool" where
  "allocates_node nodes m n m' \<longleftrightarrow>
     n \<notin> nodes m \<and> nodes m' = insert n (nodes m) \<and> keeps (nodes m) m m' \<and>
     (\<exists>b. GetNodeState m' n = Some b \<and> b \<noteq> kNodeStateIsWeakValue)"

text \<open>The operation on node \<open>n\<close> changes its state only.\<close>

definition changes_node :: "(mem \<Rightarrow> Address set) \<Rightarrow> mem \<Rightarrow> Address \<Rightarrow> mem \<Rightarrow> bool" where
  "changes_node nodes m n m' \<longleftrightarrow>
     nodes m' = nodes m \<and> keeps (nodes m - {n}) m m' \<and> (load m' n :: Address option) = load m n"

definition global_handles :: "engine \<Rightarrow> (mem \<Rightarrow> Address set) \<Rightarrow> bool" where
  "global_handles eng nodes \<longleftrightarrow>
     (\<forall>m. 0 \<notin> nodes m) \<and>
     (\<forall>m. \<forall>n\<in>nodes m. GetNodeState m n \<noteq> None) \<and>
     (\<forall>isolate p m n m'. GlobalizeReference eng isolate p m = Some (n, m') \<longrightarrow>
        allocates_node nodes m n m' \<and> (load m' n :: Address option) = load m p) \<and>
     (\<forall>p m n m'. p \<in> nodes m \<longrightarrow> CopyGlobalReference eng p m = Some (n, m') \<longrightarrow>
        allocates_node nodes m n m' \<and> (load m' n :: Address option) = load m p) \<and>
     (\<forall>m. \<forall>n\<in>nodes m. \<exists>m'. DisposeGlobal eng n m = Some m' \<and>
        nodes m' = nodes m - {n} \<and> keeps (nodes m - {n}) m m') \<and>
     (\<forall>p m. \<forall>n\<in>nodes m. \<exists>m'. api_MakeWeak eng n p m = Some m' \<and>
        changes_node nodes m n m' \<and> GetNodeState m' n = Some kNodeStateIsWeakValue) \<and>
     (\<forall>m. \<forall>n\<in>nodes m. \<exists>p m'. api_ClearWeak eng n m = Some (p, m') \<and>
        changes_node nodes m n m' \<and> (\<exists>b. GetNodeState m' n = Some b \<and> b \<noteq> kNodeStateIsWeakValue)) \<and>
     (\<forall>a b m. \<forall>n\<in>nodes m. \<exists>m'. MoveGlobalReference eng a b n m = Some m' \<and>
        nodes m' = nodes m \<and> keeps (nodes m) m m')"

lemma keepsD:
  assumes "keeps K m m'" "n \<in> K"
  shows "(load m' n :: Address option) = load m n" "GetNodeState m' n = GetNodeState m n"
  using assms by (simp_all add: keeps_def)

lemma allocates_nodeD:
  assumes "allocates_node nodes m n m'"
  shows "n \<notin> nodes m" "nodes m' = insert n (nodes m)" "keeps (nodes m) m m'"
    "\<exists>b. GetNodeState m' n = Some b \<and> b \<noteq> kNodeStateIsWeakValue"
  using assms by (simp_all add: allocates_node_def)

lemma engine_facts:
  assumes "global_handles eng nodes"
  shows "0 \<notin> nodes m"
    "n \<in> nodes m \<Longrightarrow> \<exists>b. GetNodeState m n = Some b"
    "GlobalizeReference eng isolate p m = Some (n, m') \<Longrightarrow>
       allocates_node nodes m n m' \<and> (load m' n :: Address option) = load m p"
    "p \<in> nodes m \<Longrightarrow> CopyGlobalReference eng p m = Some (n, m') \<Longrightarrow>
       allocates_node nodes m n m' \<and> (load m' n :: Address option) = load m p"
    "n \<in> nodes m \<Longrightarrow> \<exists>m'. DisposeGlobal eng n m = Some m' \<and> nodes m' = nodes m - {n} \<and> keeps (nodes m - {n}) m m'"
    "n \<in> nodes m \<Longrightarrow> \<exists>m'. api_MakeWeak eng n q m = Some m' \<and> changes_node nodes m n m' \<and>
       GetNodeState m' n = Some kNodeStateIsWeakValue"
    "n \<in> nodes m \<Longrightarrow> \<exists>q m'. api_ClearWeak eng n m = Some (q, m') \<and> changes_node nodes m n m' \<and>
       (\<exists>b. GetNodeState m' n = Some b \<and> b \<noteq> kNodeStateIsWeakValue)"
    "n \<in> nodes m \<Longrightarrow> \<exists>m'. MoveGlobalReference eng a b n m = Some m' \<and> nodes m' = nodes m \<and> keeps (nodes m) m m'"
proof -
  note g = assms [unfolded global_handles_def]
  note c2 = g [THEN conjunct2] note c3 = c2 [THEN conjunct2] note c4 = c3 [THEN conjunct2]
  note c5 = c4 [THEN conjunct2] note c6 = c5 [THEN conjunct2] note c7 = c6 [THEN conjunct2] note c8 = c7 [THEN conjunct2]
  show "0 \<notin> nodes m" using g [THEN conjunct1] by blast
  show "\<exists>b. GetNodeState m n = Some b" if "n \<in> nodes m" using c2 [THEN conjunct1] that by blast
  show "allocates_node nodes m n m' \<and> (load m' n :: Address option) = load m p"
    if "GlobalizeReference eng isolate p m = Some (n, m')" using c3 [THEN conjunct1] that by blast
  show "allocates_node nodes m n m' \<and> (load m' n :: Address option) = load m p"
    if "p \<in> nodes m" "CopyGlobalReference eng p m = Some (n, m')" using c4 [THEN conjunct1] that by blast
  show "\<exists>m'. DisposeGlobal eng n m = Some m' \<and> nodes m' = nodes m - {n} \<and> keeps (nodes m - {n}) m m'"
    if "n \<in> nodes m" using c5 [THEN conjunct1] that by blast
  show "\<exists>m'. api_MakeWeak eng n q m = Some m' \<and> changes_node nodes m n m' \<and>
       GetNodeState m' n = Some kNodeStateIsWeakValue"
    if "n \<in> nodes m" using c6 [THEN conjunct1] that by blast
  show "\<exists>q m'. api_ClearWeak eng n m = Some (q, m') \<and> changes_node nodes m n m' \<and>
       (\<exists>b. GetNodeState m' n = Some b \<and> b \<noteq> kNodeStateIsWeakValue)"
    if "n \<in> nodes m" using c7 [THEN conjunct1] that by blast
  show "\<exists>m'. MoveGlobalReference eng a b n m = Some m' \<and> nodes m' = nodes m \<and> keeps (nodes m) m m'"
    if "n \<in> nodes m" using c8 that by blast
qed

subsection \<open>Ownership\<close>

definition handles_ok :: "(mem \<Rightarrow> Address set) \<Rightarrow> hstate \<Rightarrow> bool" where
  "handles_ok nodes s \<longleftrightarrow>
     (\<forall>h v. vals s h = Some v \<longrightarrow> v \<noteq> 0 \<longrightarrow> v \<in> nodes (hmem s)) \<and>
     (\<forall>n\<in>nodes (hmem s). \<exists>h. vals s h = Some n) \<and>
     (\<forall>h h' v. vals s h = Some v \<longrightarrow> vals s h' = Some v \<longrightarrow> v \<noteq> 0 \<longrightarrow> h = h')"

lemma handles_okD:
  assumes "handles_ok nodes s"
  shows "vals s h = Some v \<Longrightarrow> v \<noteq> 0 \<Longrightarrow> v \<in> nodes (hmem s)"
    "n \<in> nodes (hmem s) \<Longrightarrow> \<exists>h. vals s h = Some n"
    "vals s h = Some v \<Longrightarrow> vals s h' = Some v \<Longrightarrow> v \<noteq> 0 \<Longrightarrow> h = h'"
  using assms unfolding handles_ok_def by blast+

lemma handles_okI:
  assumes "\<And>h v. vals s h = Some v \<Longrightarrow> v \<noteq> 0 \<Longrightarrow> v \<in> nodes (hmem s)"
    "\<And>n. n \<in> nodes (hmem s) \<Longrightarrow> \<exists>h. vals s h = Some n"
    "\<And>h h' v. vals s h = Some v \<Longrightarrow> vals s h' = Some v \<Longrightarrow> v \<noteq> 0 \<Longrightarrow> h = h'"
  shows "handles_ok nodes s"
  using assms unfolding handles_ok_def by blast

lemma set_val_simps [simp]:
  "vals (set_val h v s) = (vals s)(h \<mapsto> v)" "hmem (set_val h v s) = hmem s"
  by (simp_all add: set_val_def)

lemma reset_ok:
  assumes e: "global_handles eng nodes" and ok: "handles_ok nodes s" and v: "vals s h = Some v"
  shows "\<exists>s'. PB_Reset eng h s = Some s' \<and> handles_ok nodes s' \<and> vals s' = (vals s)(h \<mapsto> 0) \<and>
    nodes (hmem s') = nodes (hmem s) - {v} \<and> keeps (nodes (hmem s) - {v}) (hmem s) (hmem s')"
proof (cases "v = 0")
  case True
  then have "(vals s)(h \<mapsto> 0) = vals s" "nodes (hmem s) - {v} = nodes (hmem s)"
    using v engine_facts(1) [OF e, of "hmem s"] by (simp_all add: fun_upd_idem)
  then show ?thesis using ok v True by (simp add: PB_Reset_def keeps_def)
next
  case False
  obtain m' where m': "DisposeGlobal eng v (hmem s) = Some m'" "nodes m' = nodes (hmem s) - {v}"
    "keeps (nodes (hmem s) - {v}) (hmem s) m'"
    using engine_facts(5) [OF e handles_okD(1) [OF ok v False]] by (elim exE conjE)
  have own: "h' = h" if "vals s h' = Some v" for h' using handles_okD(3) [OF ok that v False] .
  have "handles_ok nodes (set_val h 0 (s\<lparr>hmem := m'\<rparr>))"
  proof (rule handles_okI)
    show "w \<in> nodes (hmem (set_val h 0 (s\<lparr>hmem := m'\<rparr>)))"
      if "vals (set_val h 0 (s\<lparr>hmem := m'\<rparr>)) h' = Some w" "w \<noteq> 0" for h' w
    proof -
      have w: "h' \<noteq> h" "vals s h' = Some w" using that by (auto split: if_splits)
      then have "w \<noteq> v" using own by blast
      then show ?thesis using handles_okD(1) [OF ok w(2) that(2)] m'(2) by simp
    qed
    show "\<exists>h'. vals (set_val h 0 (s\<lparr>hmem := m'\<rparr>)) h' = Some n"
      if n: "n \<in> nodes (hmem (set_val h 0 (s\<lparr>hmem := m'\<rparr>)))" for n
    proof -
      obtain h' where h': "vals s h' = Some n" using handles_okD(2) [OF ok, of n] n m'(2) by auto
      have "n \<noteq> v" using n m'(2) by simp
      then have "h' \<noteq> h" using h' v by auto
      then show ?thesis using h' by (intro exI [of _ h']) simp
    qed
    show "h1 = h2" if "vals (set_val h 0 (s\<lparr>hmem := m'\<rparr>)) h1 = Some w"
      "vals (set_val h 0 (s\<lparr>hmem := m'\<rparr>)) h2 = Some w" "w \<noteq> 0" for h1 h2 w
      using that handles_okD(3) [OF ok, of h1 w h2] by (auto split: if_splits)
  qed
  then show ?thesis using m' v False by (simp add: PB_Reset_def)
qed

lemma add_node:
  assumes e: "global_handles eng nodes" and ok: "handles_ok nodes s" and h: "vals s h = None \<or> vals s h = Some 0"
    and a: "allocates_node nodes (hmem s) n m"
  shows "handles_ok nodes (set_val h n (s\<lparr>hmem := m\<rparr>))"
proof (rule handles_okI)
  have m: "n \<notin> nodes (hmem s)" "nodes m = insert n (nodes (hmem s))" "n \<noteq> 0"
    using a engine_facts(1) [OF e, of m] by (auto simp: allocates_node_def)
  show "w \<in> nodes (hmem (set_val h n (s\<lparr>hmem := m\<rparr>)))"
    if "vals (set_val h n (s\<lparr>hmem := m\<rparr>)) h' = Some w" "w \<noteq> 0" for h' w
    using that handles_okD(1) [OF ok, of h' w] m(2) by (auto split: if_splits)
  show "\<exists>h'. vals (set_val h n (s\<lparr>hmem := m\<rparr>)) h' = Some k"
    if k: "k \<in> nodes (hmem (set_val h n (s\<lparr>hmem := m\<rparr>)))" for k
  proof (cases "k = n")
    case False
    then have "k \<in> nodes (hmem s)" "k \<noteq> 0" using k m(2) engine_facts(1) [OF e, of "hmem s"] by auto
    then obtain h' where h': "vals s h' = Some k" using handles_okD(2) [OF ok] by blast
    then have "h' \<noteq> h" using h \<open>k \<noteq> 0\<close> by auto
    then show ?thesis using h' by (intro exI [of _ h']) simp
  qed auto
  show "h1 = h2" if "vals (set_val h n (s\<lparr>hmem := m\<rparr>)) h1 = Some w"
    "vals (set_val h n (s\<lparr>hmem := m\<rparr>)) h2 = Some w" "w \<noteq> 0" for h1 h2 w
    using that handles_okD(3) [OF ok, of h1 w h2] handles_okD(1) [OF ok, of _ w] m(1) by (auto split: if_splits)
qed

lemma set_empty:
  assumes e: "global_handles eng nodes" and ok: "handles_ok nodes s" and h: "vals s h = None \<or> vals s h = Some 0"
  shows "handles_ok nodes (set_val h 0 s)"
proof (rule handles_okI)
  show "\<exists>h'. vals (set_val h 0 s) h' = Some n" if n: "n \<in> nodes (hmem (set_val h 0 s))" for n
  proof -
    obtain h' where h': "vals s h' = Some n" using handles_okD(2) [OF ok] n by auto
    moreover have "n \<noteq> 0" using n engine_facts(1) [OF e] by auto
    ultimately have "h' \<noteq> h" using h by auto
    then show ?thesis using h' by (intro exI [of _ h']) simp
  qed
qed (use handles_okD [OF ok] in \<open>auto split: if_splits\<close>)

lemma new_node:
  assumes e: "global_handles eng nodes" and ok: "handles_ok nodes s" and h: "vals s h = None \<or> vals s h = Some 0"
    and n: "PB_New eng isolate p s = Some (n, t)"
  shows "handles_ok nodes (set_val h n t)"
proof (cases "p = 0")
  case True
  then show ?thesis using n set_empty [OF e ok h] by (simp add: PB_New_def)
next
  case False
  then obtain m where "GlobalizeReference eng isolate p (hmem s) = Some (n, m)" "t = s\<lparr>hmem := m\<rparr>"
    using n by (auto simp: PB_New_def elim!: bind_eq_SomeE)
  then show ?thesis using add_node [OF e ok h] engine_facts(3) [OF e] by simp
qed

lemma change_node: "handles_ok nodes s \<Longrightarrow> nodes m = nodes (hmem s) \<Longrightarrow> handles_ok nodes (s\<lparr>hmem := m\<rparr>)"
  by (simp add: handles_ok_def)

lemma remove_empty:
  assumes "handles_ok nodes s" "global_handles eng nodes" "vals s h = Some 0"
  shows "handles_ok nodes (s\<lparr>vals := (vals s)(h := None)\<rparr>)"
proof (rule handles_okI)
  show "\<exists>h'. vals (s\<lparr>vals := (vals s)(h := None)\<rparr>) h' = Some n"
    if n: "n \<in> nodes (hmem (s\<lparr>vals := (vals s)(h := None)\<rparr>))" for n
  proof -
    obtain h' where h': "vals s h' = Some n" using handles_okD(2) [OF assms(1)] n by auto
    moreover have "n \<noteq> 0" using n engine_facts(1) [OF assms(2)] by auto
    ultimately have "h' \<noteq> h" using assms(3) by auto
    then show ?thesis using h' by (intro exI [of _ h']) simp
  qed
qed (use handles_okD [OF assms(1)] in \<open>auto split: if_splits\<close>)

text \<open>Moving a node from one handle object to another.\<close>

lemma move_node:
  assumes ok: "handles_ok nodes s" and ne: "a \<noteq> b" and a: "vals s a = Some v" and b: "vals s b = None \<or> vals s b = Some 0"
    and m: "nodes m = nodes (hmem s)" and e: "global_handles eng nodes"
  shows "handles_ok nodes (set_val a 0 ((set_val b v s)\<lparr>hmem := m\<rparr>))"
proof (rule handles_okI)
  show "w \<in> nodes (hmem (set_val a 0 ((set_val b v s)\<lparr>hmem := m\<rparr>)))"
    if "vals (set_val a 0 ((set_val b v s)\<lparr>hmem := m\<rparr>)) h = Some w" "w \<noteq> 0" for h w
    using that a ne handles_okD(1) [OF ok, of _ w] m by (auto simp: set_val_def split: if_splits)
  show "\<exists>h. vals (set_val a 0 ((set_val b v s)\<lparr>hmem := m\<rparr>)) h = Some n"
    if n: "n \<in> nodes (hmem (set_val a 0 ((set_val b v s)\<lparr>hmem := m\<rparr>)))" for n
  proof -
    obtain h where h: "vals s h = Some n" using handles_okD(2) [OF ok] n m by auto
    have "n \<noteq> 0" using n engine_facts(1) [OF e] by auto
    then have "h \<noteq> b" using h b by auto
    then show ?thesis using h a ne
      by (intro exI [of _ "if h = a then b else h"]) (auto simp: set_val_def)
  qed
  show "h1 = h2" if "vals (set_val a 0 ((set_val b v s)\<lparr>hmem := m\<rparr>)) h1 = Some w"
    "vals (set_val a 0 ((set_val b v s)\<lparr>hmem := m\<rparr>)) h2 = Some w" "w \<noteq> 0" for h1 h2 w
    using that a ne handles_okD(3) [OF ok, of _ w] by (auto simp: set_val_def split: if_splits)
qed

subsection \<open>Programs over handles\<close>

text \<open>
  One operation of a client: it names existing objects, constructs new ones where there is
  none, and makes only non-empty handles weak or strong, as the documentation demands.
\<close>

inductive handle_step :: "engine \<Rightarrow> hstate \<Rightarrow> hstate \<Rightarrow> bool" for eng where
  new: "vals s h = None \<Longrightarrow> handle_step eng s (Persistent_new h s)"
| new_local: "vals s h = None \<Longrightarrow> Persistent_new_Local eng isolate h p s = Some t \<Longrightarrow> handle_step eng s t"
| reset: "PB_Reset eng h s = Some t \<Longrightarrow> handle_step eng s t"
| reset_local: "PB_Reset_Local eng isolate h p s = Some t \<Longrightarrow> handle_step eng s t"
| reset_from: "PB_Reset_PB eng isolate h h' s = Some t \<Longrightarrow> handle_step eng s t"
| copy: "Persistent_Copy eng h h' s = Some t \<Longrightarrow> handle_step eng s t"
| move_new: "vals s h = None \<Longrightarrow> Global_move eng h h' s = Some t \<Longrightarrow> handle_step eng s t"
| move: "Global_assign eng h h' s = Some t \<Longrightarrow> handle_step eng s t"
| make_weak: "PB_IsEmpty h s = Some False \<Longrightarrow> PB_SetWeak eng h p s = Some t \<Longrightarrow> handle_step eng s t"
| clear_weak: "PB_IsEmpty h s = Some False \<Longrightarrow> PB_ClearWeak eng h s = Some (p, t) \<Longrightarrow> handle_step eng s t"
| delete: "Global_delete eng h s = Some t \<Longrightarrow> handle_step eng s t"

inductive handle_reach :: "engine \<Rightarrow> hstate \<Rightarrow> hstate \<Rightarrow> bool" for eng s where
  start: "handle_reach eng s s"
| step: "handle_reach eng s t \<Longrightarrow> handle_step eng t u \<Longrightarrow> handle_reach eng s u"

lemma reset_result:
  assumes "global_handles eng nodes" "handles_ok nodes s" "PB_Reset eng h s = Some t"
  shows "handles_ok nodes t" "vals t h = Some 0" "h' \<noteq> h \<Longrightarrow> vals t h' = vals s h'"
proof -
  obtain v where v: "vals s h = Some v" using assms(3) by (auto simp: PB_Reset_def elim!: bind_eq_SomeE)
  show "handles_ok nodes t" "vals t h = Some 0" "h' \<noteq> h \<Longrightarrow> vals t h' = vals s h'"
    using reset_ok [OF assms(1,2) v] assms(3) by auto
qed

lemma reset_from_ok:
  assumes e: "global_handles eng nodes" and ok: "handles_ok nodes s" and reset_from: "PB_Reset_PB eng isolate h h' s = Some t"
  shows "handles_ok nodes t"
proof -
  obtain r where r: "PB_Reset eng h s = Some r"
    "t = r \<or> (\<exists>v n u. PB_New eng isolate v r = Some (n, u) \<and> t = set_val h n u)"
    using reset_from by (auto simp: PB_Reset_PB_def split: if_splits elim!: bind_eq_SomeE) blast
  then show ?thesis using reset_result [OF e ok r(1)] new_node [OF e] by blast
qed

lemma copy_ok:
  assumes e: "global_handles eng nodes" and ok: "handles_ok nodes s" and copy: "Persistent_Copy eng h h' s = Some t"
  shows "handles_ok nodes t"
proof -
  obtain r v where r: "PB_Reset eng h s = Some r" "vals r h' = Some v"
    "t = r \<or> v \<noteq> 0 \<and> (\<exists>n m. CopyGlobalReference eng v (hmem r) = Some (n, m) \<and> t = set_val h n (r\<lparr>hmem := m\<rparr>))"
    using copy by (auto simp: Persistent_Copy_def split: if_splits elim!: bind_eq_SomeE)
  note rr = reset_result [OF e ok r(1)]
  show ?thesis
    using r(3) rr add_node [OF e rr(1)] engine_facts(4) [OF e handles_okD(1) [OF rr(1) r(2)]] by blast
qed

lemma move_new_ok:
  assumes e: "global_handles eng nodes" and ok: "handles_ok nodes s" and move_new: "vals s h = None" "Global_move eng h h' s = Some t"
  shows "handles_ok nodes t"
proof -
  obtain v where v: "vals s h' = Some v"
    "t = set_val h v s \<and> v = 0 \<or>
     v \<noteq> 0 \<and> (\<exists>m. MoveGlobalReference eng h' h v (hmem s) = Some m \<and> t = set_val h' 0 ((set_val h v s)\<lparr>hmem := m\<rparr>))"
    using move_new by (auto simp: Global_move_def split: if_splits elim!: bind_eq_SomeE)
  have ne: "h' \<noteq> h" using v(1) move_new by auto
  from v(2) show ?thesis
  proof
    assume "t = set_val h v s \<and> v = 0"
    then show ?thesis using set_empty [OF e ok] move_new by simp
  next
    assume "v \<noteq> 0 \<and> (\<exists>m. MoveGlobalReference eng h' h v (hmem s) = Some m \<and> t = set_val h' 0 ((set_val h v s)\<lparr>hmem := m\<rparr>))"
    then show ?thesis
      using move_node [OF ok ne v(1) _ _ e] move_new engine_facts(8) [OF e handles_okD(1) [OF ok v(1)], of h' h] by auto
  qed
qed

lemma assign_ok:
  assumes e: "global_handles eng nodes" and ok: "handles_ok nodes s" and move: "Global_assign eng h h' s = Some t"
  shows "handles_ok nodes t"
proof -
  show ?thesis
  proof (cases "h = h'")
    case True
    then show ?thesis using move ok by (simp add: Global_assign_def)
  next
    case False
    then obtain r v where r: "PB_Reset eng h s = Some r" "vals r h' = Some v"
      "t = r \<or> v \<noteq> 0 \<and> (\<exists>m. MoveGlobalReference eng h' h v (hmem r) = Some m \<and>
         t = set_val h' 0 ((set_val h v r)\<lparr>hmem := m\<rparr>))"
      using move by (auto simp: Global_assign_def split: if_splits elim!: bind_eq_SomeE)
    note rr = reset_result [OF e ok r(1)]
    from r(3) show ?thesis
    proof
      assume "v \<noteq> 0 \<and> (\<exists>m. MoveGlobalReference eng h' h v (hmem r) = Some m \<and>
         t = set_val h' 0 ((set_val h v r)\<lparr>hmem := m\<rparr>))"
      then show ?thesis
        using move_node [OF rr(1) _ r(2) _ _ e, of h] False rr(2) engine_facts(8) [OF e handles_okD(1) [OF rr(1) r(2)], of h' h]
        by auto
    qed (use rr in simp)
  qed
qed

lemma handle_step_ok:
  assumes e: "global_handles eng nodes" and step: "handle_step eng s t" and ok: "handles_ok nodes s"
  shows "handles_ok nodes t"
  using step
proof cases
  case (new h)
  then show ?thesis using set_empty [OF e ok] by (simp add: Persistent_new_def)
next
  case (new_local h isolate p)
  then show ?thesis using new_node [OF e ok] by (auto simp: Persistent_new_Local_def elim!: bind_eq_SomeE)
next
  case (reset h)
  then show ?thesis using reset_result [OF e ok] by simp
next
  case (reset_local isolate h p)
  then obtain r where r: "PB_Reset eng h s = Some r" "t = r \<or> (\<exists>n u. PB_New eng isolate p r = Some (n, u) \<and> t = set_val h n u)"
    by (auto simp: PB_Reset_Local_def split: if_splits elim!: bind_eq_SomeE)
  then show ?thesis using reset_result [OF e ok r(1)] new_node [OF e] by blast
next
  case (reset_from isolate h h')
  then show ?thesis by (intro reset_from_ok [OF e ok])
next
  case (copy h h')
  then show ?thesis by (intro copy_ok [OF e ok])
next
  case (move_new h h')
  then show ?thesis by (intro move_new_ok [OF e ok])
next
  case (move h h')
  then show ?thesis by (intro assign_ok [OF e ok])
next
  case (make_weak h p)
  then obtain v m where "vals s h = Some v" "v \<noteq> 0" "api_MakeWeak eng v p (hmem s) = Some m" "t = s\<lparr>hmem := m\<rparr>"
    by (auto simp: PB_IsEmpty_def PB_SetWeak_def elim!: bind_eq_SomeE)
  then show ?thesis
    using change_node [OF ok] engine_facts(6) [OF e handles_okD(1) [OF ok], of h v p] by (auto simp: changes_node_def)
next
  case (clear_weak h p)
  then obtain v m where "vals s h = Some v" "v \<noteq> 0" "api_ClearWeak eng v (hmem s) = Some (p, m)" "t = s\<lparr>hmem := m\<rparr>"
    by (auto simp: PB_IsEmpty_def PB_ClearWeak_def elim!: bind_eq_SomeE)
  then show ?thesis
    using change_node [OF ok] engine_facts(7) [OF e handles_okD(1) [OF ok], of h v] by (auto simp: changes_node_def)
next
  case (delete h)
  then obtain r where r: "PB_Reset eng h s = Some r" "t = r\<lparr>vals := (vals r)(h := None)\<rparr>"
    by (auto simp: Global_delete_def elim!: bind_eq_SomeE)
  then show ?thesis using reset_result [OF e ok r(1)] remove_empty [OF _ e] by simp
qed

end
