(* ===== verification/V8Ownership.thy ===== *)
theory V8Ownership
  imports V8HandleTheorems
begin

text \<open>
  The properties of the handle classes: ownership in every reachable state, and what copying,
  assigning and comparing handles does, also when both sides are one object. The witnesses
  run on \<open>demo_engine\<close>, an engine with room for one node, at address 256, whose state is the
  node's state bits in memory: it satisfies the contract of the exported functions.
\<close>

definition demo_nodes :: "mem \<Rightarrow> Address set" where
  "demo_nodes m = (if (case GetNodeState m 256 of None \<Rightarrow> False | Some b \<Rightarrow> b \<noteq> 0) then {256} else {})"

definition demo_engine :: engine where
  "demo_engine = \<lparr>
     GlobalizeReference = (\<lambda>isolate p m.
       if 256 \<in> demo_nodes m then None
       else do { v \<leftarrow> load m p; m \<leftarrow> store m 256 (v :: Address); m \<leftarrow> UpdateNodeState m 256 1; Some (256, m) }),
     CopyGlobalReference = (\<lambda>p m. None),
     DisposeGlobal = (\<lambda>n m. UpdateNodeState m n 0),
     api_MakeWeak = (\<lambda>n p m. UpdateNodeState m n kNodeStateIsWeakValue),
     api_MakePhantom = (\<lambda>h n m. UpdateNodeState m n kNodeStateIsWeakValue),
     api_ClearWeak = (\<lambda>n m. map_option (Pair 0) (UpdateNodeState m n 1)),
     AnnotateStrongRetainer = (\<lambda>n label m. Some m),
     MoveGlobalReference = (\<lambda>a b n m. Some m),
     Eternalize = (\<lambda>isolate p m. None)\<rparr>"

lemma demo_nodes_iff: "n \<in> demo_nodes m \<longleftrightarrow> n = 256 \<and> (\<exists>b. GetNodeState m 256 = Some b \<and> b \<noteq> 0)"
  by (auto simp: demo_nodes_def split: option.splits)

lemma state_byte: "GetNodeState m n = Some b \<Longrightarrow> \<exists>c. load m (node_flags_addr n) = Some (c :: 8 word)"
  by (auto simp: GetNodeState_def)

text \<open>Setting the state of node 256, where the state can be read.\<close>

lemma demo_update:
  assumes "GetNodeState m 256 = Some b" "value AND kNodeStateMask = value"
  shows "\<exists>m'. UpdateNodeState m 256 value = Some m' \<and> GetNodeState m' 256 = Some value \<and>
    (load m' 256 :: Address option) = load m 256 \<and> demo_nodes m' = (if value = 0 then {} else {256})"
proof -
  obtain c :: "8 word" where "load m (node_flags_addr 256) = Some c" using state_byte [OF assms(1)] by blast
  from node_state_update [OF this assms(2)] obtain m' where "UpdateNodeState m 256 value = Some m'"
    "GetNodeState m' 256 = Some value" "(load m' 256 :: Address option) = load m 256" by blast
  then show ?thesis by (intro exI [of _ m']) (simp add: demo_nodes_def)
qed

lemma state_values:
  "0 AND kNodeStateMask = 0" "1 AND kNodeStateMask = 1" "kNodeStateIsWeakValue AND kNodeStateMask = kNodeStateIsWeakValue"
  "kNodeStateIsWeakValue \<noteq> 0" "1 \<noteq> kNodeStateIsWeakValue"
  by (simp_all add: kNodeStateMask_def kNodeStateIsWeakValue_def)

lemma demo_globalize:
  assumes "GlobalizeReference demo_engine isolate p m = Some (n, m')"
  shows "allocates_node demo_nodes m n m' \<and> (load m' n :: Address option) = load m p"
proof -
  obtain v m1 where v: "256 \<notin> demo_nodes m" "load m p = Some (v :: Address)" "store m 256 v = Some m1"
    "UpdateNodeState m1 256 1 = Some m'" "n = 256"
    using assms by (auto simp: demo_engine_def split: if_splits elim!: bind_eq_SomeE)
  have empty: "demo_nodes m = {}" using v(1) by (auto simp: demo_nodes_iff)
  obtain b where b: "GetNodeState m1 256 = Some b"
    using v(4) by (auto simp: UpdateNodeState_def GetNodeState_def elim!: bind_eq_SomeE)
  obtain old :: Address where "load m 256 = Some old"
    using v(3) by (auto simp: store_def load_def)
  then have "load m1 256 = Some v" using word_cells.rd_wr [of m 256 old v] v(3) by auto
  then show ?thesis
    using demo_update [OF b state_values(2)] v(2,4,5) empty state_values
    by (auto simp: allocates_node_def keeps_def)
qed

lemma demo_engine_ok: "global_handles demo_engine demo_nodes"
proof -
  have st: "\<exists>b. GetNodeState m 256 = Some b" if "n \<in> demo_nodes m" for n m using that by (auto simp: demo_nodes_iff)
  have n: "n = 256 \<and> demo_nodes m = {256}" if "n \<in> demo_nodes m" for n m
    using that by (auto simp: demo_nodes_def split: if_splits)
  have "\<exists>m'. UpdateNodeState m n v = Some m' \<and> GetNodeState m' n = Some v \<and>
      (load m' n :: Address option) = load m n \<and> demo_nodes m' = (if v = 0 then {} else {256})"
    if "n \<in> demo_nodes m" "v AND kNodeStateMask = v" for n m v
    using demo_update [OF _ that(2)] st [OF that(1)] n [OF that(1)] by blast
  note upd = this
  show ?thesis
    unfolding global_handles_def
  proof (intro conjI allI ballI impI)
    fix m n assume d: "n \<in> demo_nodes m"
    show "GetNodeState m n \<noteq> None" using st [OF d] n [OF d] by auto
    show "\<exists>m'. DisposeGlobal demo_engine n m = Some m' \<and> demo_nodes m' = demo_nodes m - {n} \<and>
        keeps (demo_nodes m - {n}) m m'"
      using upd [OF d state_values(1)] n [OF d] by (auto simp: demo_engine_def keeps_def)
    show "\<exists>m'. api_MakeWeak demo_engine n p m = Some m' \<and> changes_node demo_nodes m n m' \<and>
        GetNodeState m' n = Some kNodeStateIsWeakValue" for p
      using upd [OF d state_values(3)] n [OF d] state_values(4) by (auto simp: demo_engine_def keeps_def changes_node_def)
    show "\<exists>p m'. api_ClearWeak demo_engine n m = Some (p, m') \<and> changes_node demo_nodes m n m' \<and>
        (\<exists>b. GetNodeState m' n = Some b \<and> b \<noteq> kNodeStateIsWeakValue)"
      using upd [OF d state_values(2)] n [OF d] state_values(5) by (auto simp: demo_engine_def keeps_def changes_node_def)
    show "\<exists>m'. MoveGlobalReference demo_engine a b n m = Some m' \<and> demo_nodes m' = demo_nodes m \<and>
        keeps (demo_nodes m) m m'" for a b
      by (simp add: demo_engine_def keeps_def)
  qed (use demo_globalize in \<open>auto simp: demo_nodes_iff demo_engine_def\<close>)
qed

subsection \<open>The properties\<close>


text \<open>A memory in which node 256 is free, and every word is zero.\<close>

definition empty_handles :: hstate where
  "empty_handles = \<lparr>vals = Map.empty, hmem = (\<lambda>_. Some 0)\<rparr>"

lemma demo_state_zero: "GetNodeState (\<lambda>_. Some 0) n = Some 0"
  by (simp add: GetNodeState_def load_def word_rcat_def)

lemma empty_handles_nodes: "vals empty_handles = Map.empty" "demo_nodes (hmem empty_handles) = {}"
  by (simp_all add: empty_handles_def demo_nodes_def demo_state_zero)

lemma demo_new_local:
  "\<exists>t. Persistent_new_Local demo_engine 0 1 512 empty_handles = Some t \<and> vals t = [1 \<mapsto> 256] \<and>
     load (hmem t) 256 = Some (0 :: Address) \<and> demo_nodes (hmem t) = {256}"
proof -
  obtain m1 where m1: "store (\<lambda>_. Some 0) 256 (0 :: Address) = Some m1" "load m1 256 = Some (0 :: Address)"
    using word_cells.rd_wr [OF zero_memory] by blast
  have "(load m1 (node_flags_addr 256) :: 8 word option) = load (\<lambda>_. Some 0) (node_flags_addr 256)"
    using load_store_apart [OF m1(1), where 'b = 8 and b = "node_flags_addr 256"] node_flags_apart [of 256] by simp
  then have "GetNodeState m1 256 = Some 0"
    using demo_state_zero [of 256] by (simp add: GetNodeState_def)
  from demo_update [OF this state_values(2)] obtain m2 where m2: "UpdateNodeState m1 256 1 = Some m2"
    "(load m2 256 :: Address option) = load m1 256" "demo_nodes m2 = {256}" by auto
  have "256 \<notin> demo_nodes (\<lambda>_. Some 0)" using empty_handles_nodes(2) by (simp add: empty_handles_def)
  then show ?thesis
    using m1 m2 by (simp add: Persistent_new_Local_def PB_New_def demo_engine_def empty_handles_def zero_memory)
qed


lemma copy_distinct:
  assumes e: "global_handles eng nodes" and ok: "handles_ok nodes s" and p: "vals s p = Some v" "v \<noteq> 0"
    "load (hmem s) v = Some (obj :: Address)" and ne: "q \<noteq> p" and copy: "Persistent_Copy eng q p s = Some t"
  shows "PB_eq q p t = Some True \<and> vals t p = Some v \<and> load (hmem t) v = Some obj"
proof -
  obtain r where r: "PB_Reset eng q s = Some r" using copy by (auto simp: Persistent_Copy_def elim!: bind_eq_SomeE)
  obtain u where u: "vals s q = Some u" using r by (auto simp: PB_Reset_def elim!: bind_eq_SomeE)
  have k: "keeps (nodes (hmem s) - {u}) (hmem s) (hmem r)" "handles_ok nodes r" "vals r p = Some v"
    using reset_ok [OF e ok u] r ne p(1) by auto
  have "v \<noteq> u" using handles_okD(3) [OF ok p(1) _ p(2), of q] u ne by auto
  then have v: "v \<in> nodes (hmem s) - {u}" "v \<in> nodes (hmem r)"
    using handles_okD(1) [OF ok p(1,2)] handles_okD(1) [OF k(2,3) p(2)] by simp_all
  then have obj: "load (hmem r) v = Some obj" using keepsD(1) [OF k(1) v(1)] p(3) by simp
  have "do { (n, m) \<leftarrow> CopyGlobalReference eng v (hmem r); Some (set_val q n (r\<lparr>hmem := m\<rparr>)) } = Some t"
    using copy r k(3) p(2) by (simp add: Persistent_Copy_def)
  then obtain n m where n: "CopyGlobalReference eng v (hmem r) = Some (n, m)" "t = set_val q n (r\<lparr>hmem := m\<rparr>)"
    by (auto elim!: bind_eq_SomeE)
  note m = conjunct1 [OF engine_facts(4) [OF e v(2) n(1)]] conjunct2 [OF engine_facts(4) [OF e v(2) n(1)], unfolded obj]
  have "load m v = Some obj"
    using keepsD(1) [OF allocates_nodeD(3) [OF m(1)] v(2)] obj by simp
  moreover have "n \<noteq> 0" using allocates_nodeD(2) [OF m(1)] engine_facts(1) [OF e, of m] by auto
  ultimately show ?thesis using n(2) k(3) ne m(2) p(2) by (simp add: PB_eq_def handle_eq_def)
qed

text \<open>
  C24. Copies and aliases. After copying a handle to another object the two compare equal and
  the source still names its node and object. Copying a handle to itself (copy assignment
  \<open>p = p\<close>, or \<open>p.Reset(isolate, p)\<close>) frees its node and leaves it empty, as both reset the
  target before they read the source, while move assignment of a \<open>Global\<close> to itself changes
  nothing.
\<close>

theorem Persistent_copy_alias:
  assumes "global_handles eng nodes" "handles_ok nodes s" "vals s p = Some v" "v \<noteq> 0"
    "load (hmem s) v = Some (obj :: Address)"
  shows "(q \<noteq> p \<and> Persistent_Copy eng q p s = Some t \<longrightarrow>
      PB_eq q p t = Some True \<and> vals t p = Some v \<and> load (hmem t) v = Some obj) \<and>
    (\<exists>t. Persistent_Copy eng p p s = Some t \<and> PB_Reset_PB eng isolate p p s = Some t \<and>
       vals t p = Some 0 \<and> nodes (hmem t) = nodes (hmem s) - {v}) \<and>
    Global_assign eng p p s = Some s"
proof -
  obtain r where "PB_Reset eng p s = Some r" "vals r = (vals s)(p \<mapsto> 0)" "nodes (hmem r) = nodes (hmem s) - {v}"
    using reset_ok [OF assms(1,2,3)] by (elim exE conjE)
  then have "Persistent_Copy eng p p s = Some r" "PB_Reset_PB eng isolate p p s = Some r"
    "vals r p = Some 0" "nodes (hmem r) = nodes (hmem s) - {v}"
    by (simp_all add: Persistent_Copy_def PB_Reset_PB_def)
  then show ?thesis using copy_distinct [OF assms, of q t] unfolding Global_assign_def by auto
qed

theorem Persistent_copy_alias_witness:
  "\<exists>s t. vals s 1 = Some 256 \<and> Persistent_Copy demo_engine 1 1 s = Some t \<and> vals t 1 = Some 0 \<and>
     demo_nodes (hmem t) = {} \<and> Global_assign demo_engine 1 1 s = Some s"
proof -
  obtain s where s: "Persistent_new_Local demo_engine 0 1 512 empty_handles = Some s" "vals s = [1 \<mapsto> 256]"
    "load (hmem s) 256 = Some (0 :: Address)" "demo_nodes (hmem s) = {256}" using demo_new_local by blast
  have "handles_ok demo_nodes s" using s(2,4) by (auto simp: handles_ok_def split: if_splits)
  from Persistent_copy_alias [OF demo_engine_ok this, of 1 256 0] s show ?thesis by fastforce
qed

end
