(* ===== verification/ObjectWrapTheorems.thy ===== *)
theory ObjectWrapTheorems
  imports ObjectWrap V8Ownership
begin

text \<open>
  Life cycle of wrapped objects: the invariant of all runs, the results of every operation
  in it, that no assertion of \<open>node_object_wrap.h\<close> fails when the client respects the
  documented protocol, and that a wrap which is detached often enough is freed.
\<close>

subsection \<open>The invariant\<close>

text \<open>
  A wrap that holds no object is not attached; one that holds an object has a weak handle
  exactly while it is not attached.
\<close>

definition wrap_state :: "mem \<Rightarrow> Address \<Rightarrow> int \<Rightarrow> bool" where
  "wrap_state m v n \<longleftrightarrow> 0 \<le> n \<and> n < 2 ^ 31 \<and>
     (if v = 0 then n = 0 else (\<exists>b. GetNodeState m v = Some b \<and> (b = kNodeStateIsWeakValue \<longleftrightarrow> n = 0)))"

definition wraps_ok :: "(mem \<Rightarrow> Address set) \<Rightarrow> world \<Rightarrow> bool" where
  "wraps_ok nodes s \<longleftrightarrow> handles_ok nodes (hs s) \<and> dom (vals (hs s)) = dom (refs s) \<and>
     (\<forall>w n v. refs s w = Some n \<longrightarrow> vals (hs s) w = Some v \<longrightarrow> wrap_state (hmem (hs s)) v n)"

text \<open>What the model asks of the exported functions on objects: they leave the nodes alone.\<close>

definition object_functions :: "object_api \<Rightarrow> (mem \<Rightarrow> Address set) \<Rightarrow> bool" where
  "object_functions api nodes \<longleftrightarrow>
     (\<forall>obj i p m m'. SetAlignedPointerInInternalField api obj i p m = Some m' \<longrightarrow>
        nodes m' = nodes m \<and> keeps (nodes m) m m')"

lemma wraps_okD:
  assumes "wraps_ok nodes s"
  shows "handles_ok nodes (hs s)" "dom (vals (hs s)) = dom (refs s)"
    "refs s w = Some n \<Longrightarrow> vals (hs s) w = Some v \<Longrightarrow> wrap_state (hmem (hs s)) v n"
    "refs s w = Some n \<Longrightarrow> \<exists>v. vals (hs s) w = Some v"
    "vals (hs s) w = Some v \<Longrightarrow> \<exists>n. refs s w = Some n"
proof -
  show h: "handles_ok nodes (hs s)" and d: "dom (vals (hs s)) = dom (refs s)"
    and "refs s w = Some n \<Longrightarrow> vals (hs s) w = Some v \<Longrightarrow> wrap_state (hmem (hs s)) v n"
    using assms by (simp_all add: wraps_ok_def)
  show "\<exists>v. vals (hs s) w = Some v" if "refs s w = Some n" using that d by (metis domI domD)
  show "\<exists>n. refs s w = Some n" if "vals (hs s) w = Some v" using that d by (metis domI domD)
qed

lemma wraps_ok_update:
  assumes ok: "wraps_ok nodes s" and v: "vals (hs s) w = Some v \<or> v = 0"
    and keeps: "keeps (nodes (hmem (hs s)) - {v}) (hmem (hs s)) (hmem h)" and h: "handles_ok nodes h"
    and vals: "vals h = (vals (hs s))(w := x)" and some: "x = None \<longleftrightarrow> y = None"
    and state: "\<And>v' n'. x = Some v' \<Longrightarrow> y = Some n' \<Longrightarrow> wrap_state (hmem h) v' n'"
  shows "wraps_ok nodes (s\<lparr>hs := h, refs := (refs s)(w := y)\<rparr>)"
proof -
  have "wrap_state (hmem h) v' n'" if "((refs s)(w := y)) w' = Some n'" "((vals (hs s))(w := x)) w' = Some v'" for w' n' v'
  proof (cases "w' = w")
    case True
    then show ?thesis using that state by simp
  next
    case False
    then have w': "refs s w' = Some n'" "vals (hs s) w' = Some v'" using that by simp_all
    note st = wraps_okD(3) [OF ok w']
    show ?thesis
    proof (cases "v' = 0")
      case True
      then show ?thesis using st by (simp add: wrap_state_def)
    next
      case nz: False
      have "v' \<noteq> v" using v handles_okD(3) [OF wraps_okD(1) [OF ok] w'(2) _ nz, of w] False nz by blast
      then have "v' \<in> nodes (hmem (hs s)) - {v}" using handles_okD(1) [OF wraps_okD(1) [OF ok] w'(2) nz] by simp
      then show ?thesis using st keepsD(2) [OF keeps] nz by (simp add: wrap_state_def)
    qed
  qed
  moreover have "dom ((vals (hs s))(w := x)) = dom ((refs s)(w := y))"
    using wraps_okD(2) [OF ok] some by (auto split: if_splits)
  ultimately show ?thesis using h by (simp add: wraps_ok_def vals)
qed

subsection \<open>The operations\<close>

lemma world_update_commute: "s\<lparr>refs := r, hs := h\<rparr> = s\<lparr>hs := h, refs := r\<rparr>" for s :: world
  by (cases s) simp

lemma new_wraps: "global_handles eng nodes \<Longrightarrow> wraps_ok nodes s \<Longrightarrow> refs s w = None \<Longrightarrow> vals (hs s) w = None \<Longrightarrow>
    wraps_ok nodes (OW_new w s)"
  unfolding OW_new_def Persistent_new_def
  by (rule wraps_ok_update [where v = 0 and x = "Some 0"])
    (simp_all add: keeps_def wrap_state_def set_empty wraps_okD(1))

lemma set_val_update: "(set_val w n h)\<lparr>hmem := m\<rparr> = set_val w n (h\<lparr>hmem := m\<rparr>)"
  by (cases h) (simp add: set_val_def)

text \<open>\<open>SetWeak\<close> on a handle that holds a node.\<close>

lemma set_weak:
  assumes e: "global_handles eng nodes" and h: "handles_ok nodes h" and v: "vals h w = Some v" "v \<noteq> 0"
  shows "\<exists>m. PB_SetWeak eng w p h = Some (h\<lparr>hmem := m\<rparr>) \<and> nodes m = nodes (hmem h) \<and>
    keeps (nodes (hmem h) - {v}) (hmem h) m \<and> GetNodeState m v = Some kNodeStateIsWeakValue"
  using engine_facts(6) [OF e handles_okD(1) [OF h v], of p] v(1)
  by (auto simp: PB_SetWeak_def changes_node_def)

lemma clear_weak:
  assumes e: "global_handles eng nodes" and h: "handles_ok nodes h" and v: "vals h w = Some v" "v \<noteq> 0"
  shows "\<exists>p m b. PB_ClearWeak eng w h = Some (p, h\<lparr>hmem := m\<rparr>) \<and> nodes m = nodes (hmem h) \<and>
    keeps (nodes (hmem h) - {v}) (hmem h) m \<and> GetNodeState m v = Some b \<and> b \<noteq> kNodeStateIsWeakValue"
proof -
  obtain p m b where m: "api_ClearWeak eng v (hmem h) = Some (p, m)" "changes_node nodes (hmem h) v m"
    "GetNodeState m v = Some b" "b \<noteq> kNodeStateIsWeakValue"
    using engine_facts(7) [OF e handles_okD(1) [OF h v]] by (elim exE conjE)
  then show ?thesis using v(1)
    by (intro exI [of _ p] exI [of _ m] exI [of _ b]) (simp add: PB_ClearWeak_def changes_node_def)
qed

lemma ref_result:
  assumes e: "global_handles eng nodes" and ok: "wraps_ok nodes s" and n: "refs s w = Some n" "n + 1 < 2 ^ 31"
    and v: "vals (hs s) w = Some v" "v \<noteq> 0"
  shows "\<exists>t. OW_Ref eng w s = Some t \<and> wraps_ok nodes t \<and> refs t = (refs s)(w \<mapsto> n + 1) \<and>
    vals (hs t) = vals (hs s)"
proof -
  obtain p m b where m: "PB_ClearWeak eng w (hs s) = Some (p, (hs s)\<lparr>hmem := m\<rparr>)" "nodes m = nodes (hmem (hs s))"
    "keeps (nodes (hmem (hs s)) - {v}) (hmem (hs s)) m" "GetNodeState m v = Some b" "b \<noteq> kNodeStateIsWeakValue"
    using clear_weak [OF e wraps_okD(1) [OF ok] v] by (elim exE conjE)
  have n0: "0 \<le> n" using wraps_okD(3) [OF ok n(1) v(1)] by (simp add: wrap_state_def)
  have "wraps_ok nodes (s\<lparr>hs := (hs s)\<lparr>hmem := m\<rparr>, refs := (refs s)(w := Some (n + 1))\<rparr>)"
    by (rule wraps_ok_update [where v = v and x = "Some v"])
      (use ok v m n n0 in \<open>simp_all add: wraps_okD(1) change_node fun_upd_idem wrap_state_def\<close>)
  then show ?thesis using m(1) n v by (simp add: OW_Ref_def PB_IsEmpty_def assert'_def)
qed

lemma unref_result:
  assumes e: "global_handles eng nodes" and ok: "wraps_ok nodes s" and n: "refs s w = Some n" "n > 0"
    and v: "vals (hs s) w = Some v"
  shows "\<exists>t. OW_Unref eng w s = Some t \<and> wraps_ok nodes t \<and> refs t = (refs s)(w \<mapsto> n - 1) \<and>
    vals (hs t) = vals (hs s)"
proof -
  note st = wraps_okD(3) [OF ok n(1) v]
  have nz: "v \<noteq> 0" using st n(2) by (auto simp: wrap_state_def)
  obtain b where b: "GetNodeState (hmem (hs s)) v = Some b" "b \<noteq> kNodeStateIsWeakValue"
    using st n(2) nz by (auto simp: wrap_state_def)
  have w: "PB_IsEmpty w (hs s) = Some False" "PB_IsWeak w (hs s) = Some False"
    using v nz b by (simp_all add: PB_IsEmpty_def PB_IsWeak_def)
  show ?thesis
  proof (cases "n = 1")
    case True
    obtain m where m: "PB_SetWeak eng w w (hs s) = Some ((hs s)\<lparr>hmem := m\<rparr>)" "nodes m = nodes (hmem (hs s))"
      "keeps (nodes (hmem (hs s)) - {v}) (hmem (hs s)) m" "GetNodeState m v = Some kNodeStateIsWeakValue"
      using set_weak [OF e wraps_okD(1) [OF ok] v nz, of w] by (elim exE conjE)
    have "wraps_ok nodes (s\<lparr>hs := (hs s)\<lparr>hmem := m\<rparr>, refs := (refs s)(w := Some 0)\<rparr>)"
      by (rule wraps_ok_update [where v = v and x = "Some v"])
        (use ok v m in \<open>simp_all add: wraps_okD(1) change_node fun_upd_idem wrap_state_def\<close>)
    then show ?thesis using m(1) n v w True
      by (simp add: OW_Unref_def OW_MakeWeak_def assert'_def world_update_commute)
  next
    case False
    have "wraps_ok nodes (s\<lparr>hs := hs s, refs := (refs s)(w := Some (n - 1))\<rparr>)"
      by (rule wraps_ok_update [where v = v and x = "Some v"])
        (use ok v n st b nz False in \<open>simp_all add: wraps_okD(1) fun_upd_idem wrap_state_def keeps_def\<close>)
    then show ?thesis using n v w False by (simp add: OW_Unref_def assert'_def)
  qed
qed

lemma wrap_result:
  assumes e: "global_handles eng nodes" and a: "object_functions api nodes" and ok: "wraps_ok nodes s"
    and h: "handle \<noteq> 0" and w: "OW_Wrap eng api w handle s = Some t" "refs s w \<noteq> None"
  shows "wraps_ok nodes t \<and> refs t = refs s \<and> refs s w = Some 0 \<and>
    (\<exists>v. v \<noteq> 0 \<and> vals (hs t) = (vals (hs s))(w \<mapsto> v))"
proof -
  obtain m n h1 m1 where
    v: "vals (hs s) w = Some 0" and m: "SetAlignedPointerInInternalField api handle 0 w (hmem (hs s)) = Some m"
    and n: "GlobalizeReference eng (GetCurrent api) handle m = Some (n, m1)"
    and t: "OW_MakeWeak eng w (s\<lparr>hs := set_val w n ((hs s)\<lparr>hmem := m1\<rparr>)\<rparr>) = Some t"
    using w h by (auto simp: OW_Wrap_def PB_IsEmpty_def assert'_def PB_Reset_Local_def PB_Reset_def PB_New_def
      split: if_splits elim!: bind_eq_SomeE)
  have m': "nodes m = nodes (hmem (hs s))" "keeps (nodes (hmem (hs s))) (hmem (hs s)) m"
    using a m unfolding object_functions_def by blast+
  have a: "allocates_node nodes m n m1" using engine_facts(3) [OF e n] by simp
  have k1: "nodes m1 = insert n (nodes (hmem (hs s)))" "n \<notin> nodes (hmem (hs s))"
    "keeps (nodes (hmem (hs s))) (hmem (hs s)) m1" "n \<noteq> 0"
    using allocates_nodeD [OF a] m' engine_facts(1) [OF e, of m1] by (auto simp: keeps_def)
  have ok1: "handles_ok nodes (set_val w n ((hs s)\<lparr>hmem := m1\<rparr>))"
    using add_node [OF e change_node [OF wraps_okD(1) [OF ok] m'(1)], of w n m1] v a by simp
  obtain m2 where m2: "PB_SetWeak eng w w (set_val w n ((hs s)\<lparr>hmem := m1\<rparr>)) = Some (set_val w n ((hs s)\<lparr>hmem := m2\<rparr>))"
    "nodes m2 = nodes m1" "keeps (nodes m1 - {n}) m1 m2" "GetNodeState m2 n = Some kNodeStateIsWeakValue"
    using set_weak [OF e ok1 _ k1(4), of w w] by (auto simp: set_val_update)
  have z: "refs s w = Some 0"
    using w(2) wraps_okD(3) [OF ok _ v] by (auto simp: wrap_state_def)
  have keeps: "keeps (nodes (hmem (hs s)) - {0}) (hmem (hs s)) m2"
    using k1(1,2,3) m2(3) by (auto simp: keeps_def)
  have "wraps_ok nodes (s\<lparr>hs := set_val w n ((hs s)\<lparr>hmem := m2\<rparr>), refs := (refs s)(w := Some 0)\<rparr>)"
    by (rule wraps_ok_update [where v = 0 and x = "Some n"])
      (use ok keeps m2 change_node [OF ok1, of m2] k1(4) in \<open>simp_all add: wrap_state_def set_val_update\<close>)
  moreover have "t = s\<lparr>hs := set_val w n ((hs s)\<lparr>hmem := m2\<rparr>)\<rparr>"
    using t m2(1) by (simp add: OW_MakeWeak_def)
  then have "t = s\<lparr>hs := set_val w n ((hs s)\<lparr>hmem := m2\<rparr>), refs := (refs s)(w := Some 0)\<rparr>"
    using z by (cases s) (simp add: fun_upd_idem)
  moreover have "vals (hs t) = (vals (hs s))(w \<mapsto> n)" using calculation(2) by simp
  ultimately show ?thesis using z k1(4) by (auto simp: fun_upd_idem)
qed

text \<open>The destructor: the node of the handle is freed and the wrap is gone.\<close>

lemma drop_wrap:
  assumes e: "global_handles eng nodes" and ok: "wraps_ok nodes s" and h: "handles_ok nodes h"
    and v: "vals (hs s) w = Some v" "vals h = (vals (hs s))(w \<mapsto> 0)"
    and k: "keeps (nodes (hmem (hs s)) - {v}) (hmem (hs s)) (hmem h)"
  shows "\<exists>h'. Persistent_delete eng False w h = Some h' \<and> hmem h' = hmem h \<and>
    wraps_ok nodes (s\<lparr>hs := h', refs := (refs s)(w := None)\<rparr>)"
proof -
  have "handles_ok nodes (h\<lparr>vals := (vals h)(w := None)\<rparr>)" by (rule remove_empty [OF h e]) (simp add: v(2))
  then have "wraps_ok nodes (s\<lparr>hs := h\<lparr>vals := (vals h)(w := None)\<rparr>, refs := (refs s)(w := None)\<rparr>)"
    by (intro wraps_ok_update [OF ok, where v = v and x = None]) (simp_all add: v k)
  then show ?thesis by (simp add: Persistent_delete_def)
qed

lemma delete_result:
  assumes e: "global_handles eng nodes" and ok: "wraps_ok nodes s" and n: "refs s w = Some n"
    and v: "vals (hs s) w = Some v"
  shows "\<exists>t. OW_delete eng w s = Some t \<and> wraps_ok nodes t \<and> refs t = (refs s)(w := None) \<and>
    nodes (hmem (hs t)) = nodes (hmem (hs s)) - {v}"
proof (cases "v = 0")
  case True
  obtain h where "Persistent_delete eng False w (hs s) = Some h" "hmem h = hmem (hs s)"
    "wraps_ok nodes (s\<lparr>hs := h, refs := (refs s)(w := None)\<rparr>)"
    using drop_wrap [OF e ok wraps_okD(1) [OF ok] v] v True by (auto simp: keeps_def fun_upd_idem)
  then show ?thesis using n v True engine_facts(1) [OF e, of "hmem (hs s)"] by (simp add: OW_delete_def PB_IsEmpty_def)
next
  case False
  obtain p m b where m: "PB_ClearWeak eng w (hs s) = Some (p, (hs s)\<lparr>hmem := m\<rparr>)" "nodes m = nodes (hmem (hs s))"
    "keeps (nodes (hmem (hs s)) - {v}) (hmem (hs s)) m" "GetNodeState m v = Some b" "b \<noteq> kNodeStateIsWeakValue"
    using clear_weak [OF e wraps_okD(1) [OF ok] v False] by (elim exE conjE)
  have v': "vals ((hs s)\<lparr>hmem := m\<rparr>) w = Some v" using v by simp
  obtain h where h: "PB_Reset eng w ((hs s)\<lparr>hmem := m\<rparr>) = Some h" "handles_ok nodes h"
    "vals h = (vals (hs s))(w \<mapsto> 0)" "nodes (hmem h) = nodes m - {v}" "keeps (nodes m - {v}) m (hmem h)"
    using reset_ok [OF e change_node [OF wraps_okD(1) [OF ok] m(2)] v'] by auto
  have k: "keeps (nodes (hmem (hs s)) - {v}) (hmem (hs s)) (hmem h)" using m(2,3) h(5) by (auto simp: keeps_def)
  from drop_wrap [OF e ok h(2) v h(3) k] obtain h' where "Persistent_delete eng False w h = Some h'" "hmem h' = hmem h"
    "wraps_ok nodes (s\<lparr>hs := h', refs := (refs s)(w := None)\<rparr>)" by (elim exE conjE)
  then show ?thesis using n v False m(1,2) h(1,4) by (simp add: OW_delete_def PB_IsEmpty_def)
qed

lemma collect_result:
  assumes e: "global_handles eng nodes" and ok: "wraps_ok nodes s" and weak: "PB_IsWeak w (hs s) = Some True"
  shows "\<exists>v t. vals (hs s) w = Some v \<and> v \<in> nodes (hmem (hs s)) \<and> refs s w = Some 0 \<and>
    OW_WeakCallback eng w s = Some t \<and> wraps_ok nodes t \<and> refs t = (refs s)(w := None) \<and>
    nodes (hmem (hs t)) = nodes (hmem (hs s)) - {v}"
proof -
  obtain v where v: "vals (hs s) w = Some v" "v \<noteq> 0" "GetNodeState (hmem (hs s)) v = Some kNodeStateIsWeakValue"
    using weak by (auto simp: PB_IsWeak_def split: if_splits elim!: bind_eq_SomeE)
  obtain n where n: "refs s w = Some n" using wraps_okD(5) [OF ok v(1)] by blast
  then have z: "refs s w = Some 0" using wraps_okD(3) [OF ok n v(1)] v(2,3) by (simp add: wrap_state_def)
  obtain h where h: "PB_Reset eng w (hs s) = Some h" "handles_ok nodes h" "vals h = (vals (hs s))(w \<mapsto> 0)"
    "nodes (hmem h) = nodes (hmem (hs s)) - {v}" "keeps (nodes (hmem (hs s)) - {v}) (hmem (hs s)) (hmem h)"
    using reset_ok [OF e wraps_okD(1) [OF ok] v(1)] by (elim exE conjE)
  from drop_wrap [OF e ok h(2) v(1) h(3,5)] obtain h' where h': "Persistent_delete eng False w h = Some h'" "hmem h' = hmem h"
    "wraps_ok nodes (s\<lparr>hs := h', refs := (refs s)(w := None)\<rparr>)" by (elim exE conjE)
  then have "OW_WeakCallback eng w s = Some (s\<lparr>hs := h', refs := (refs s)(w := None)\<rparr>)"
    using z h(1,3) by (simp add: OW_WeakCallback_def OW_delete_def PB_IsEmpty_def assert'_def)
  then show ?thesis using h'(2,3) h(4) v(1) z handles_okD(1) [OF wraps_okD(1) [OF ok] v(1,2)] by auto
qed

subsection \<open>Runs\<close>

inductive_cases wrap_stepE: "wrap_step eng api s t"

lemma wrap_step_ok:
  assumes e: "global_handles eng nodes" and a: "object_functions api nodes"
    and step: "wrap_step eng api s t" and ok: "wraps_ok nodes s"
  shows "wraps_ok nodes t"
  using step
proof cases
  case (construct w)
  then show ?thesis using new_wraps [OF e ok] by simp
next
  case (wrap w handle)
  then show ?thesis using wrap_result [OF e a ok, of handle w t] by simp
next
  case (attach w)
  obtain n v where n: "refs s w = Some n" "n + 1 < 2 ^ 31" "vals (hs s) w = Some v" "v \<noteq> 0"
    using attach by (auto simp: OW_Ref_def PB_IsEmpty_def assert'_def split: if_splits elim!: bind_eq_SomeE)
  then show ?thesis using ref_result [OF e ok n] attach by auto
next
  case (detach w)
  obtain n v where n: "refs s w = Some n" "n > 0" "vals (hs s) w = Some v"
    using detach by (auto simp: OW_Unref_def PB_IsEmpty_def assert'_def split: if_splits elim!: bind_eq_SomeE)
  then show ?thesis using unref_result [OF e ok n] detach by auto
next
  case (collect w)
  then show ?thesis using collect_result [OF e ok, of w] by auto
next
  case (destroy w)
  obtain n where n: "refs s w = Some n" using destroy by (auto simp: OW_delete_def elim!: bind_eq_SomeE)
  obtain v where v: "vals (hs s) w = Some v" using wraps_okD(4) [OF ok n] by blast
  show ?thesis using delete_result [OF e ok n v] destroy by auto
qed

lemma wrap_reach_ok:
  assumes "global_handles eng nodes" "object_functions api nodes" "wrap_reach eng api s t" "wraps_ok nodes s"
  shows "wraps_ok nodes t"
  using assms(3,4) by induction (use wrap_step_ok [OF assms(1,2)] in auto)

text \<open>A world without wraps.\<close>

definition no_wraps :: "(mem \<Rightarrow> Address set) \<Rightarrow> world \<Rightarrow> bool" where
  "no_wraps nodes s \<longleftrightarrow> refs s = Map.empty \<and> vals (hs s) = Map.empty \<and> nodes (hmem (hs s)) = {}"

lemma no_wraps_ok: "no_wraps nodes s \<Longrightarrow> wraps_ok nodes s"
  by (simp add: no_wraps_def wraps_ok_def handles_ok_def)

fun detach_times :: "engine \<Rightarrow> loc \<Rightarrow> nat \<Rightarrow> world \<Rightarrow> world option" where
  "detach_times eng w 0 s = Some s"
| "detach_times eng w (Suc k) s = do { s \<leftarrow> OW_Unref eng w s; detach_times eng w k s }"

lemma detach_times_result:
  assumes e: "global_handles eng nodes"
  shows "wraps_ok nodes s \<Longrightarrow> refs s w = Some (int k) \<Longrightarrow> vals (hs s) w = Some v \<Longrightarrow>
    \<exists>t. detach_times eng w k s = Some t \<and> wraps_ok nodes t \<and> refs t = (refs s)(w \<mapsto> 0) \<and> vals (hs t) = vals (hs s)"
proof (induction k arbitrary: s)
  case 0
  then show ?case by (simp add: fun_upd_idem)
next
  case (Suc k)
  obtain t where t: "OW_Unref eng w s = Some t" "wraps_ok nodes t" "refs t = (refs s)(w \<mapsto> int k)" "vals (hs t) = vals (hs s)"
    using unref_result [OF e Suc.prems(1,2) _ Suc.prems(3)] by auto
  have "\<exists>u. detach_times eng w k t = Some u \<and> wraps_ok nodes u \<and> refs u = (refs t)(w \<mapsto> 0) \<and> vals (hs u) = vals (hs t)"
    by (rule Suc.IH) (use t Suc.prems(3) in simp_all)
  then show ?case using t by auto
qed

lemma detached_weak:
  assumes "wraps_ok nodes s" "refs s w = Some n" "vals (hs s) w = Some v" "v \<noteq> 0"
  shows "PB_IsWeak w (hs s) = Some (n = 0)"
  using wraps_okD(3) [OF assms(1-3)] assms(3,4) by (auto simp: wrap_state_def PB_IsWeak_def)

text \<open>
  A concrete world for the examples: objects with one internal field, an engine with one node
  (\<open>demo_engine\<close>), and a wrap at location 7 that has wrapped the object at 512.
\<close>

definition demo_api :: object_api where
  "demo_api = \<lparr>GetCurrent = 0, InternalFieldCount = (\<lambda>_ _. Some 1),
     SetAlignedPointerInInternalField = (\<lambda>_ _ _ m. Some m)\<rparr>"

definition demo_world :: world where
  "demo_world = \<lparr>hs = empty_handles, refs = Map.empty\<rparr>"

lemma demo_api_ok: "object_functions demo_api demo_nodes"
  by (simp add: object_functions_def demo_api_def keeps_def)

lemma demo_world_ok: "no_wraps demo_nodes demo_world"
  by (simp add: no_wraps_def demo_world_def empty_handles_nodes)

lemma demo_wrapped:
  "\<exists>s. wrap_reach demo_engine demo_api demo_world s \<and> refs s = [7 \<mapsto> 0] \<and> vals (hs s) = [7 \<mapsto> 256]"
proof -
  define s where "s = OW_new 7 demo_world"
  have s: "refs s = [7 \<mapsto> 0]" "vals (hs s) = [7 \<mapsto> 0]" "hmem (hs s) = hmem empty_handles"
    by (simp_all add: s_def OW_new_def Persistent_new_def demo_world_def empty_handles_def)
  have "wrap_step demo_engine demo_api demo_world s"
    unfolding s_def by (rule wrap_step.construct) (simp_all add: demo_world_def empty_handles_def)
  note reach = wrap_reach.step [OF wrap_reach.start this]
  obtain t where t: "Persistent_new_Local demo_engine 0 1 512 empty_handles = Some t" "vals t = [1 \<mapsto> 256]"
    "demo_nodes (hmem t) = {256}" using demo_new_local by blast
  then have g: "GlobalizeReference demo_engine 0 512 (hmem empty_handles) = Some (256, hmem t)"
    by (auto simp: Persistent_new_Local_def PB_New_def set_val_def demo_engine_def split: if_splits elim!: bind_eq_SomeE)
  obtain m where m: "api_MakeWeak demo_engine 256 7 (hmem t) = Some m"
    using engine_facts(6) [OF demo_engine_ok, of 256 "hmem t" 7] t(3) by auto
  have "\<exists>u. OW_Wrap demo_engine demo_api 7 512 s = Some u \<and> refs u = refs s \<and> vals (hs u) = [7 \<mapsto> 256]"
    using s g m by (simp add: OW_Wrap_def PB_IsEmpty_def assert'_def demo_api_def PB_Reset_Local_def PB_Reset_def
      PB_New_def OW_MakeWeak_def PB_SetWeak_def)
  then obtain u where u: "OW_Wrap demo_engine demo_api 7 512 s = Some u" "refs u = refs s" "vals (hs u) = [7 \<mapsto> 256]"
    by (elim exE conjE)
  have "wrap_step demo_engine demo_api s u" by (rule wrap_step.wrap [OF _ _ u(1)]) (simp_all add: s)
  then show ?thesis using wrap_reach.step [OF reach] u s(1) by auto
qed

lemma demo_attached:
  "\<exists>s. wrap_reach demo_engine demo_api demo_world s \<and> refs s = [7 \<mapsto> 1] \<and> vals (hs s) = [7 \<mapsto> 256]"
proof -
  obtain s where s: "wrap_reach demo_engine demo_api demo_world s" "refs s = [7 \<mapsto> 0]" "vals (hs s) = [7 \<mapsto> 256]"
    using demo_wrapped by (elim exE conjE)
  have ok: "wraps_ok demo_nodes s"
    by (rule wrap_reach_ok [OF demo_engine_ok demo_api_ok s(1) no_wraps_ok [OF demo_world_ok]])
  obtain t where "OW_Ref demo_engine 7 s = Some t" "refs t = [7 \<mapsto> 1]" "vals (hs t) = vals (hs s)"
    using ref_result [OF demo_engine_ok ok, of 7 0 256] s(2,3) by auto
  then show ?thesis using wrap_reach.step [OF s(1) wrap_step.attach] s(3) by auto
qed



text \<open>
  C28. Detached wraps are freed. From every reachable world, a wrap that holds an object and
  has been attached \<open>n\<close> more times than it was detached can be detached \<open>n\<close> times, no
  assertion failing; then its handle is weak, the next step of the collector for it completes,
  and after that neither the wrap nor its node exists, while the other wraps keep their counts.
\<close>

theorem ObjectWrap_freed:
  assumes "global_handles eng nodes" "object_functions api nodes" "no_wraps nodes s" "wrap_reach eng api s t"
    "refs t w = Some n" "vals (hs t) w = Some v" "v \<noteq> 0"
  shows "\<exists>u x. detach_times eng w (nat n) t = Some u \<and> PB_IsWeak w (hs u) = Some True \<and>
    OW_WeakCallback eng w u = Some x \<and> wrap_step eng api u x \<and>
    refs x = (refs t)(w := None) \<and> v \<notin> nodes (hmem (hs x))"
proof -
  have ok: "wraps_ok nodes t" by (rule wrap_reach_ok [OF assms(1,2,4) no_wraps_ok [OF assms(3)]])
  have "0 \<le> n" using wraps_okD(3) [OF ok assms(5,6)] by (simp add: wrap_state_def)
  then have n: "refs t w = Some (int (nat n))" using assms(5) by simp
  obtain u where u: "detach_times eng w (nat n) t = Some u" "wraps_ok nodes u" "refs u = (refs t)(w \<mapsto> 0)"
    "vals (hs u) = vals (hs t)" using detach_times_result [OF assms(1) ok n assms(6)] by (elim exE conjE)
  have weak: "PB_IsWeak w (hs u) = Some True"
    using detached_weak [OF u(2), of w 0 v] u(3,4) assms(6,7) by simp
  obtain v' x where x: "vals (hs u) w = Some v'" "OW_WeakCallback eng w u = Some x" "refs x = (refs u)(w := None)"
    "nodes (hmem (hs x)) = nodes (hmem (hs u)) - {v'}"
    using collect_result [OF assms(1) u(2) weak] by (elim exE conjE)
  then have "refs x = (refs t)(w := None)" "v \<notin> nodes (hmem (hs x))" using u(3,4) assms(6) by simp_all
  then show ?thesis using u(1) weak x(2) wrap_step.collect [OF weak x(2)] by blast
qed

theorem ObjectWrap_freed_witness:
  "\<exists>t u x. wrap_reach demo_engine demo_api demo_world t \<and> refs t 7 = Some 1 \<and> detach_times demo_engine 7 1 t = Some u \<and>
     OW_WeakCallback demo_engine 7 u = Some x \<and> refs x 7 = None \<and> 256 \<notin> demo_nodes (hmem (hs x))"
proof -
  obtain t where t: "wrap_reach demo_engine demo_api demo_world t" "refs t = [7 \<mapsto> 1]" "vals (hs t) = [7 \<mapsto> 256]"
    using demo_attached by (elim exE conjE)
  then have n: "refs t 7 = Some 1" "vals (hs t) 7 = Some 256" by simp_all
  from ObjectWrap_freed [OF demo_engine_ok demo_api_ok demo_world_ok t(1) n] obtain u x where
    "detach_times demo_engine 7 (nat 1) t = Some u" "OW_WeakCallback demo_engine 7 u = Some x"
    "refs x = (refs t)(7 := None)" "256 \<notin> demo_nodes (hmem (hs x))" by auto
  then show ?thesis using t(1) n(1) by (intro exI [of _ t] exI [of _ u] exI [of _ x]) simp
qed

end
