(* ===== verification/V8ObjectTheorems.thy ===== *)
theory V8ObjectTheorems
  imports V8Objects V8Pointers
begin












end
