(* ===== verification/V8Maybe.thy ===== *)
theory V8Maybe
  imports V8Handles WordBits
begin

text \<open>
  The value classes of \<open>v8-maybe.h\<close> and \<open>v8-message.h\<close>: \<open>Maybe<T>\<close>, whose value field is
  uninitialised in a \<open>Nothing\<close>, and the packed \<open>ScriptOriginOptions\<close>. \<open>MaybeLocal\<close> is with the
  handles.
\<close>

unbundle bit_operations_syntax

subsection \<open>Class \<open>Maybe\<close>\<close>

record 'a maybe =
  has_value :: bool
  value_field :: 'a

text \<open>\<open>junk\<close> is whatever the memory of the field contains.\<close>

definition Nothing :: "'a \<Rightarrow> 'a maybe" where
  "Nothing junk = \<lparr>has_value = False, value_field = junk\<rparr>"

definition Just :: "'a \<Rightarrow> 'a maybe" where
  "Just t = \<lparr>has_value = True, value_field = t\<rparr>"

definition IsNothing :: "'a maybe \<Rightarrow> bool" where
  "IsNothing m \<longleftrightarrow> \<not> has_value m"

definition IsJust :: "'a maybe \<Rightarrow> bool" where
  "IsJust m \<longleftrightarrow> has_value m"

text \<open>\<open>FromJustIsNothing\<close> ends the process: \<open>None\<close>.\<close>

definition FromJust :: "'a maybe \<Rightarrow> 'a option" where
  "FromJust m = (if \<not> IsJust m then None else Some (value_field m))"

definition ToChecked :: "'a maybe \<Rightarrow> 'a option" where
  "ToChecked m = FromJust m"

definition Check :: "'a maybe \<Rightarrow> unit option" where
  "Check m = (if \<not> IsJust m then None else Some ())"

definition To :: "'a maybe \<Rightarrow> 'a \<Rightarrow> 'a \<times> bool" where
  "To m out = (let out = (if IsJust m then value_field m else out) in (out, IsJust m))"

definition FromMaybe :: "'a maybe \<Rightarrow> 'a \<Rightarrow> 'a" where
  "FromMaybe m default_value = (if has_value m then value_field m else default_value)"

definition Maybe_eq :: "'a maybe \<Rightarrow> 'a maybe \<Rightarrow> bool" where
  "Maybe_eq m other \<longleftrightarrow> IsJust m = IsJust other \<and> (\<not> IsJust m \<or> FromJust m = FromJust other)"

definition Maybe_ne :: "'a maybe \<Rightarrow> 'a maybe \<Rightarrow> bool" where
  "Maybe_ne m other \<longleftrightarrow> \<not> Maybe_eq m other"

text \<open>The abstract value.\<close>

definition maybe_abs :: "'a maybe \<Rightarrow> 'a option" where
  "maybe_abs m = (if has_value m then Some (value_field m) else None)"

definition local_abs :: "Address \<Rightarrow> Address option" where
  "local_abs val = (if val = 0 then None else Some val)"

lemmas maybe_defs = Nothing_def Just_def IsNothing_def IsJust_def FromJust_def ToChecked_def Check_def To_def
  FromMaybe_def Maybe_eq_def Maybe_ne_def maybe_abs_def

text \<open>
  \<open>Maybe\<close> and \<open>MaybeLocal\<close> are optional values, whatever an empty one has in its value
  field: equality compares the values only, the accessors return the value, or crash, or
  fall back to the default. They differ in one point: for a missing value \<open>Maybe::To\<close> leaves
  its argument as it was, but \<open>MaybeLocal::ToLocal\<close> makes it an empty handle.
\<close>

lemma Maybe_correct:
  "maybe_abs (Nothing junk) = None \<and> maybe_abs (Just t) = Some t \<and>
   (Maybe_eq m other \<longleftrightarrow> maybe_abs m = maybe_abs other) \<and> (Maybe_ne m other \<longleftrightarrow> maybe_abs m \<noteq> maybe_abs other) \<and>
   (IsNothing m \<longleftrightarrow> maybe_abs m = None) \<and> FromJust m = maybe_abs m \<and> ToChecked m = maybe_abs m \<and>
   Check m = map_option (\<lambda>_. ()) (maybe_abs m) \<and> FromMaybe m d = (case maybe_abs m of None \<Rightarrow> d | Some v \<Rightarrow> v) \<and>
   To m out = (case maybe_abs m of None \<Rightarrow> (out, False) | Some v \<Rightarrow> (v, True)) \<and>
   MaybeLocal_ToLocal val p = (case local_abs val of None \<Rightarrow> (0, False) | Some v \<Rightarrow> (v, True)) \<and>
   MaybeLocal_ToLocalChecked val = local_abs val \<and>
   MaybeLocal_FromMaybe val q = (case local_abs val of None \<Rightarrow> q | Some v \<Rightarrow> v)"
  by (auto simp: maybe_defs local_abs_def MaybeLocal_ToLocal_def MaybeLocal_ToLocalChecked_def
      MaybeLocal_FromMaybe_def Local_IsEmpty_def Let_def)

subsection \<open>Class \<open>ScriptOriginOptions\<close>\<close>

definition kIsSharedCrossOrigin :: "32 word" where "kIsSharedCrossOrigin = 1"
definition kIsOpaque :: "32 word" where "kIsOpaque = push_bit 1 1"
definition kIsWasm :: "32 word" where "kIsWasm = push_bit 2 1"
definition kIsModule :: "32 word" where "kIsModule = push_bit 3 1"

text \<open>The two constructors; the object is its flags.\<close>

definition ScriptOriginOptions :: "bool \<Rightarrow> bool \<Rightarrow> bool \<Rightarrow> bool \<Rightarrow> 32 word" where
  "ScriptOriginOptions is_shared_cross_origin is_opaque is_wasm is_module =
     (if is_shared_cross_origin then kIsSharedCrossOrigin else 0) OR
     (if is_wasm then kIsWasm else 0) OR (if is_opaque then kIsOpaque else 0) OR
     (if is_module then kIsModule else 0)"

definition ScriptOriginOptions_flags :: "32 word \<Rightarrow> 32 word" where
  "ScriptOriginOptions_flags flags =
     flags AND (kIsSharedCrossOrigin OR kIsOpaque OR kIsWasm OR kIsModule)"

definition IsSharedCrossOrigin :: "32 word \<Rightarrow> bool" where
  "IsSharedCrossOrigin flags \<longleftrightarrow> flags AND kIsSharedCrossOrigin \<noteq> 0"
definition IsOpaque :: "32 word \<Rightarrow> bool" where
  "IsOpaque flags \<longleftrightarrow> flags AND kIsOpaque \<noteq> 0"
definition IsWasm :: "32 word \<Rightarrow> bool" where
  "IsWasm flags \<longleftrightarrow> flags AND kIsWasm \<noteq> 0"
definition IsModule :: "32 word \<Rightarrow> bool" where
  "IsModule flags \<longleftrightarrow> flags AND kIsModule \<noteq> 0"

definition Flags :: "32 word \<Rightarrow> 32 word" where
  "Flags flags = flags"

lemma option_bits:
  "bit kIsSharedCrossOrigin n \<longleftrightarrow> n = 0" "bit kIsOpaque n \<longleftrightarrow> n = 1" "bit kIsWasm n \<longleftrightarrow> n = 2" "bit kIsModule n \<longleftrightarrow> n = 3"
  unfolding kIsSharedCrossOrigin_def kIsOpaque_def kIsWasm_def kIsModule_def
  by (simp add: bit_1_iff, (subst bit_push_bit_iff, fastforce simp: bit_1_iff)+)

lemma origin_bits:
  "IsSharedCrossOrigin f \<longleftrightarrow> bit f 0" "IsOpaque f \<longleftrightarrow> bit f 1" "IsWasm f \<longleftrightarrow> bit f 2" "IsModule f \<longleftrightarrow> bit f 3"
  using and_push_bit_1_eq_0 [of 0 f] and_push_bit_1_eq_0 [of 1 f] and_push_bit_1_eq_0 [of 2 f] and_push_bit_1_eq_0 [of 3 f]
  by (simp_all add: IsSharedCrossOrigin_def IsOpaque_def IsWasm_def IsModule_def kIsSharedCrossOrigin_def
      kIsOpaque_def kIsWasm_def kIsModule_def)

text \<open>
  The packed options of a script origin: each accessor returns the argument that the
  constructor was given for it; constructing from any number and reading the flags keeps the
  four options and clears every other bit; and an object is determined by its accessors, so
  that rebuilding it from them, or from its flags, gives it back.
\<close>

lemma ScriptOriginOptions_roundtrip:
  "IsSharedCrossOrigin (ScriptOriginOptions s q w m) = s \<and> IsOpaque (ScriptOriginOptions s q w m) = q \<and>
   IsWasm (ScriptOriginOptions s q w m) = w \<and> IsModule (ScriptOriginOptions s q w m) = m \<and>
   ScriptOriginOptions_flags (Flags (ScriptOriginOptions s q w m)) = ScriptOriginOptions s q w m \<and>
   ScriptOriginOptions (IsSharedCrossOrigin f) (IsOpaque f) (IsWasm f) (IsModule f) = ScriptOriginOptions_flags f"
proof -
  have b: "bit (ScriptOriginOptions s q w m) n \<longleftrightarrow> n = 0 \<and> s \<or> n = 1 \<and> q \<or> n = 2 \<and> w \<or> n = 3 \<and> m" for s q w m n
    by (auto simp: ScriptOriginOptions_def bit_or_iff option_bits)
  have f: "bit (ScriptOriginOptions_flags f) n \<longleftrightarrow> n < 4 \<and> bit f n" for f n
    by (auto simp: ScriptOriginOptions_flags_def bit_or_iff bit_and_iff option_bits)
  have "ScriptOriginOptions_flags (Flags (ScriptOriginOptions s q w m)) = ScriptOriginOptions s q w m"
    unfolding Flags_def by (rule bit_word_eqI) (auto simp: b f)
  moreover have "ScriptOriginOptions (bit f 0) (bit f 1) (bit f 2) (bit f 3) = ScriptOriginOptions_flags f"
    by (rule bit_word_eqI) (auto simp: b f less_Suc_eq numeral_eq_Suc)
  ultimately show ?thesis by (simp add: origin_bits b)
qed

end
