(* ===== verification/ObjOids.thy ===== *)
theory ObjOids
  imports Prelude
begin

text \<open>
  The object identifier macros of \<open>node-js/include/node/openssl/obj_mac.h\<close> that other
  entries are built from, or that the DER tables of the providers encode: each \<open>OBJ_x\<close> is
  the list of its arcs, written as the header writes it, as an extension of its parent.
\<close>

named_theorems oid_defs \<open>definitions of object identifiers\<close>

definition OBJ_itu_t :: "nat list" where [oid_defs]: "OBJ_itu_t = [0]"
definition OBJ_iso :: "nat list" where [oid_defs]: "OBJ_iso = [1]"
definition OBJ_joint_iso_itu_t :: "nat list" where [oid_defs]: "OBJ_joint_iso_itu_t = [2]"
definition OBJ_member_body :: "nat list" where [oid_defs]: "OBJ_member_body = OBJ_iso @ [2]"
definition OBJ_identified_organization :: "nat list" where [oid_defs]: "OBJ_identified_organization = OBJ_iso @ [3]"
definition OBJ_certicom_arc :: "nat list" where [oid_defs]: "OBJ_certicom_arc = OBJ_identified_organization @ [132]"
definition OBJ_ieee :: "nat list" where [oid_defs]: "OBJ_ieee = OBJ_identified_organization @ [111]"
definition OBJ_ieee_siswg :: "nat list" where [oid_defs]: "OBJ_ieee_siswg = OBJ_ieee @ [2, 1619]"
definition OBJ_international_organizations :: "nat list" where [oid_defs]: "OBJ_international_organizations = OBJ_joint_iso_itu_t @ [23]"
definition OBJ_wap :: "nat list" where [oid_defs]: "OBJ_wap = OBJ_international_organizations @ [43]"
definition OBJ_wap_wsg :: "nat list" where [oid_defs]: "OBJ_wap_wsg = OBJ_wap @ [1]"
definition OBJ_selected_attribute_types :: "nat list" where [oid_defs]: "OBJ_selected_attribute_types = OBJ_joint_iso_itu_t @ [5, 1, 5]"
definition OBJ_ISO_US :: "nat list" where [oid_defs]: "OBJ_ISO_US = OBJ_member_body @ [840]"
definition OBJ_X9_57 :: "nat list" where [oid_defs]: "OBJ_X9_57 = OBJ_ISO_US @ [10040]"
definition OBJ_X9cm :: "nat list" where [oid_defs]: "OBJ_X9cm = OBJ_X9_57 @ [4]"
definition OBJ_ISO_CN :: "nat list" where [oid_defs]: "OBJ_ISO_CN = OBJ_member_body @ [156]"
definition OBJ_oscca :: "nat list" where [oid_defs]: "OBJ_oscca = OBJ_ISO_CN @ [10197]"
definition OBJ_sm_scheme :: "nat list" where [oid_defs]: "OBJ_sm_scheme = OBJ_oscca @ [1]"
definition OBJ_dsa :: "nat list" where [oid_defs]: "OBJ_dsa = OBJ_X9cm @ [1]"
definition OBJ_dsaWithSHA1 :: "nat list" where [oid_defs]: "OBJ_dsaWithSHA1 = OBJ_X9cm @ [3]"
definition OBJ_ansi_X9_62 :: "nat list" where [oid_defs]: "OBJ_ansi_X9_62 = OBJ_ISO_US @ [10045]"
definition OBJ_X9_62_id_fieldType :: "nat list" where [oid_defs]: "OBJ_X9_62_id_fieldType = OBJ_ansi_X9_62 @ [1]"
definition OBJ_X9_62_characteristic_two_field :: "nat list" where [oid_defs]: "OBJ_X9_62_characteristic_two_field = OBJ_X9_62_id_fieldType @ [2]"
definition OBJ_X9_62_id_characteristic_two_basis :: "nat list" where [oid_defs]: "OBJ_X9_62_id_characteristic_two_basis = OBJ_X9_62_characteristic_two_field @ [3]"
definition OBJ_X9_62_id_publicKeyType :: "nat list" where [oid_defs]: "OBJ_X9_62_id_publicKeyType = OBJ_ansi_X9_62 @ [2]"
definition OBJ_X9_62_id_ecPublicKey :: "nat list" where [oid_defs]: "OBJ_X9_62_id_ecPublicKey = OBJ_X9_62_id_publicKeyType @ [1]"
definition OBJ_X9_62_ellipticCurve :: "nat list" where [oid_defs]: "OBJ_X9_62_ellipticCurve = OBJ_ansi_X9_62 @ [3]"
definition OBJ_X9_62_c_TwoCurve :: "nat list" where [oid_defs]: "OBJ_X9_62_c_TwoCurve = OBJ_X9_62_ellipticCurve @ [0]"
definition OBJ_X9_62_c2pnb163v1 :: "nat list" where [oid_defs]: "OBJ_X9_62_c2pnb163v1 = OBJ_X9_62_c_TwoCurve @ [1]"
definition OBJ_X9_62_c2pnb163v2 :: "nat list" where [oid_defs]: "OBJ_X9_62_c2pnb163v2 = OBJ_X9_62_c_TwoCurve @ [2]"
definition OBJ_X9_62_c2pnb163v3 :: "nat list" where [oid_defs]: "OBJ_X9_62_c2pnb163v3 = OBJ_X9_62_c_TwoCurve @ [3]"
definition OBJ_X9_62_c2pnb176v1 :: "nat list" where [oid_defs]: "OBJ_X9_62_c2pnb176v1 = OBJ_X9_62_c_TwoCurve @ [4]"
definition OBJ_X9_62_c2tnb191v1 :: "nat list" where [oid_defs]: "OBJ_X9_62_c2tnb191v1 = OBJ_X9_62_c_TwoCurve @ [5]"
definition OBJ_X9_62_c2tnb191v2 :: "nat list" where [oid_defs]: "OBJ_X9_62_c2tnb191v2 = OBJ_X9_62_c_TwoCurve @ [6]"
definition OBJ_X9_62_c2tnb191v3 :: "nat list" where [oid_defs]: "OBJ_X9_62_c2tnb191v3 = OBJ_X9_62_c_TwoCurve @ [7]"
definition OBJ_X9_62_c2onb191v4 :: "nat list" where [oid_defs]: "OBJ_X9_62_c2onb191v4 = OBJ_X9_62_c_TwoCurve @ [8]"
definition OBJ_X9_62_c2onb191v5 :: "nat list" where [oid_defs]: "OBJ_X9_62_c2onb191v5 = OBJ_X9_62_c_TwoCurve @ [9]"
definition OBJ_X9_62_c2pnb208w1 :: "nat list" where [oid_defs]: "OBJ_X9_62_c2pnb208w1 = OBJ_X9_62_c_TwoCurve @ [10]"
definition OBJ_X9_62_c2tnb239v1 :: "nat list" where [oid_defs]: "OBJ_X9_62_c2tnb239v1 = OBJ_X9_62_c_TwoCurve @ [11]"
definition OBJ_X9_62_c2tnb239v2 :: "nat list" where [oid_defs]: "OBJ_X9_62_c2tnb239v2 = OBJ_X9_62_c_TwoCurve @ [12]"
definition OBJ_X9_62_c2tnb239v3 :: "nat list" where [oid_defs]: "OBJ_X9_62_c2tnb239v3 = OBJ_X9_62_c_TwoCurve @ [13]"
definition OBJ_X9_62_c2onb239v4 :: "nat list" where [oid_defs]: "OBJ_X9_62_c2onb239v4 = OBJ_X9_62_c_TwoCurve @ [14]"
definition OBJ_X9_62_c2onb239v5 :: "nat list" where [oid_defs]: "OBJ_X9_62_c2onb239v5 = OBJ_X9_62_c_TwoCurve @ [15]"
definition OBJ_X9_62_c2pnb272w1 :: "nat list" where [oid_defs]: "OBJ_X9_62_c2pnb272w1 = OBJ_X9_62_c_TwoCurve @ [16]"
definition OBJ_X9_62_c2pnb304w1 :: "nat list" where [oid_defs]: "OBJ_X9_62_c2pnb304w1 = OBJ_X9_62_c_TwoCurve @ [17]"
definition OBJ_X9_62_c2tnb359v1 :: "nat list" where [oid_defs]: "OBJ_X9_62_c2tnb359v1 = OBJ_X9_62_c_TwoCurve @ [18]"
definition OBJ_X9_62_c2pnb368w1 :: "nat list" where [oid_defs]: "OBJ_X9_62_c2pnb368w1 = OBJ_X9_62_c_TwoCurve @ [19]"
definition OBJ_X9_62_c2tnb431r1 :: "nat list" where [oid_defs]: "OBJ_X9_62_c2tnb431r1 = OBJ_X9_62_c_TwoCurve @ [20]"
definition OBJ_X9_62_primeCurve :: "nat list" where [oid_defs]: "OBJ_X9_62_primeCurve = OBJ_X9_62_ellipticCurve @ [1]"
definition OBJ_X9_62_prime192v1 :: "nat list" where [oid_defs]: "OBJ_X9_62_prime192v1 = OBJ_X9_62_primeCurve @ [1]"
definition OBJ_X9_62_prime192v2 :: "nat list" where [oid_defs]: "OBJ_X9_62_prime192v2 = OBJ_X9_62_primeCurve @ [2]"
definition OBJ_X9_62_prime192v3 :: "nat list" where [oid_defs]: "OBJ_X9_62_prime192v3 = OBJ_X9_62_primeCurve @ [3]"
definition OBJ_X9_62_prime239v1 :: "nat list" where [oid_defs]: "OBJ_X9_62_prime239v1 = OBJ_X9_62_primeCurve @ [4]"
definition OBJ_X9_62_prime239v2 :: "nat list" where [oid_defs]: "OBJ_X9_62_prime239v2 = OBJ_X9_62_primeCurve @ [5]"
definition OBJ_X9_62_prime239v3 :: "nat list" where [oid_defs]: "OBJ_X9_62_prime239v3 = OBJ_X9_62_primeCurve @ [6]"
definition OBJ_X9_62_prime256v1 :: "nat list" where [oid_defs]: "OBJ_X9_62_prime256v1 = OBJ_X9_62_primeCurve @ [7]"
definition OBJ_X9_62_id_ecSigType :: "nat list" where [oid_defs]: "OBJ_X9_62_id_ecSigType = OBJ_ansi_X9_62 @ [4]"
definition OBJ_ecdsa_with_SHA1 :: "nat list" where [oid_defs]: "OBJ_ecdsa_with_SHA1 = OBJ_X9_62_id_ecSigType @ [1]"
definition OBJ_ecdsa_with_Specified :: "nat list" where [oid_defs]: "OBJ_ecdsa_with_Specified = OBJ_X9_62_id_ecSigType @ [3]"
definition OBJ_ecdsa_with_SHA224 :: "nat list" where [oid_defs]: "OBJ_ecdsa_with_SHA224 = OBJ_ecdsa_with_Specified @ [1]"
definition OBJ_ecdsa_with_SHA256 :: "nat list" where [oid_defs]: "OBJ_ecdsa_with_SHA256 = OBJ_ecdsa_with_Specified @ [2]"
definition OBJ_ecdsa_with_SHA384 :: "nat list" where [oid_defs]: "OBJ_ecdsa_with_SHA384 = OBJ_ecdsa_with_Specified @ [3]"
definition OBJ_ecdsa_with_SHA512 :: "nat list" where [oid_defs]: "OBJ_ecdsa_with_SHA512 = OBJ_ecdsa_with_Specified @ [4]"
definition OBJ_secg_ellipticCurve :: "nat list" where [oid_defs]: "OBJ_secg_ellipticCurve = OBJ_certicom_arc @ [0]"
definition OBJ_wap_wsg_idm_ecid :: "nat list" where [oid_defs]: "OBJ_wap_wsg_idm_ecid = OBJ_wap_wsg @ [4]"
definition OBJ_rsadsi :: "nat list" where [oid_defs]: "OBJ_rsadsi = OBJ_ISO_US @ [113549]"
definition OBJ_pkcs :: "nat list" where [oid_defs]: "OBJ_pkcs = OBJ_rsadsi @ [1]"
definition OBJ_pkcs1 :: "nat list" where [oid_defs]: "OBJ_pkcs1 = OBJ_pkcs @ [1]"
definition OBJ_rsaEncryption :: "nat list" where [oid_defs]: "OBJ_rsaEncryption = OBJ_pkcs1 @ [1]"
definition OBJ_md2WithRSAEncryption :: "nat list" where [oid_defs]: "OBJ_md2WithRSAEncryption = OBJ_pkcs1 @ [2]"
definition OBJ_md4WithRSAEncryption :: "nat list" where [oid_defs]: "OBJ_md4WithRSAEncryption = OBJ_pkcs1 @ [3]"
definition OBJ_md5WithRSAEncryption :: "nat list" where [oid_defs]: "OBJ_md5WithRSAEncryption = OBJ_pkcs1 @ [4]"
definition OBJ_sha1WithRSAEncryption :: "nat list" where [oid_defs]: "OBJ_sha1WithRSAEncryption = OBJ_pkcs1 @ [5]"
definition OBJ_rsaesOaep :: "nat list" where [oid_defs]: "OBJ_rsaesOaep = OBJ_pkcs1 @ [7]"
definition OBJ_mgf1 :: "nat list" where [oid_defs]: "OBJ_mgf1 = OBJ_pkcs1 @ [8]"
definition OBJ_pSpecified :: "nat list" where [oid_defs]: "OBJ_pSpecified = OBJ_pkcs1 @ [9]"
definition OBJ_rsassaPss :: "nat list" where [oid_defs]: "OBJ_rsassaPss = OBJ_pkcs1 @ [10]"
definition OBJ_sha256WithRSAEncryption :: "nat list" where [oid_defs]: "OBJ_sha256WithRSAEncryption = OBJ_pkcs1 @ [11]"
definition OBJ_sha384WithRSAEncryption :: "nat list" where [oid_defs]: "OBJ_sha384WithRSAEncryption = OBJ_pkcs1 @ [12]"
definition OBJ_sha512WithRSAEncryption :: "nat list" where [oid_defs]: "OBJ_sha512WithRSAEncryption = OBJ_pkcs1 @ [13]"
definition OBJ_sha224WithRSAEncryption :: "nat list" where [oid_defs]: "OBJ_sha224WithRSAEncryption = OBJ_pkcs1 @ [14]"
definition OBJ_sha512_224WithRSAEncryption :: "nat list" where [oid_defs]: "OBJ_sha512_224WithRSAEncryption = OBJ_pkcs1 @ [15]"
definition OBJ_sha512_256WithRSAEncryption :: "nat list" where [oid_defs]: "OBJ_sha512_256WithRSAEncryption = OBJ_pkcs1 @ [16]"
definition OBJ_pkcs3 :: "nat list" where [oid_defs]: "OBJ_pkcs3 = OBJ_pkcs @ [3]"
definition OBJ_pkcs5 :: "nat list" where [oid_defs]: "OBJ_pkcs5 = OBJ_pkcs @ [5]"
definition OBJ_pkcs7 :: "nat list" where [oid_defs]: "OBJ_pkcs7 = OBJ_pkcs @ [7]"
definition OBJ_pkcs9 :: "nat list" where [oid_defs]: "OBJ_pkcs9 = OBJ_pkcs @ [9]"
definition OBJ_SMIME :: "nat list" where [oid_defs]: "OBJ_SMIME = OBJ_pkcs9 @ [16]"
definition OBJ_id_smime_mod :: "nat list" where [oid_defs]: "OBJ_id_smime_mod = OBJ_SMIME @ [0]"
definition OBJ_id_smime_ct :: "nat list" where [oid_defs]: "OBJ_id_smime_ct = OBJ_SMIME @ [1]"
definition OBJ_id_smime_aa :: "nat list" where [oid_defs]: "OBJ_id_smime_aa = OBJ_SMIME @ [2]"
definition OBJ_id_smime_alg :: "nat list" where [oid_defs]: "OBJ_id_smime_alg = OBJ_SMIME @ [3]"
definition OBJ_id_smime_cd :: "nat list" where [oid_defs]: "OBJ_id_smime_cd = OBJ_SMIME @ [4]"
definition OBJ_id_smime_spq :: "nat list" where [oid_defs]: "OBJ_id_smime_spq = OBJ_SMIME @ [5]"
definition OBJ_id_smime_cti :: "nat list" where [oid_defs]: "OBJ_id_smime_cti = OBJ_SMIME @ [6]"
definition OBJ_id_smime_alg_CMS3DESwrap :: "nat list" where [oid_defs]: "OBJ_id_smime_alg_CMS3DESwrap = OBJ_id_smime_alg @ [6]"
definition OBJ_certTypes :: "nat list" where [oid_defs]: "OBJ_certTypes = OBJ_pkcs9 @ [22]"
definition OBJ_crlTypes :: "nat list" where [oid_defs]: "OBJ_crlTypes = OBJ_pkcs9 @ [23]"
definition OBJ_pkcs12 :: "nat list" where [oid_defs]: "OBJ_pkcs12 = OBJ_pkcs @ [12]"
definition OBJ_pkcs12_pbeids :: "nat list" where [oid_defs]: "OBJ_pkcs12_pbeids = OBJ_pkcs12 @ [1]"
definition OBJ_pkcs12_Version1 :: "nat list" where [oid_defs]: "OBJ_pkcs12_Version1 = OBJ_pkcs12 @ [10]"
definition OBJ_pkcs12_BagIds :: "nat list" where [oid_defs]: "OBJ_pkcs12_BagIds = OBJ_pkcs12_Version1 @ [1]"
definition OBJ_md2 :: "nat list" where [oid_defs]: "OBJ_md2 = OBJ_rsadsi @ [2, 2]"
definition OBJ_md5 :: "nat list" where [oid_defs]: "OBJ_md5 = OBJ_rsadsi @ [2, 5]"
definition OBJ_sm2 :: "nat list" where [oid_defs]: "OBJ_sm2 = OBJ_sm_scheme @ [301]"
definition OBJ_SM2_with_SM3 :: "nat list" where [oid_defs]: "OBJ_SM2_with_SM3 = OBJ_sm_scheme @ [501]"
definition OBJ_id_pkix :: "nat list" where [oid_defs]: "OBJ_id_pkix = [1, 3, 6, 1, 5, 5, 7]"
definition OBJ_id_pkix_mod :: "nat list" where [oid_defs]: "OBJ_id_pkix_mod = OBJ_id_pkix @ [0]"
definition OBJ_id_pe :: "nat list" where [oid_defs]: "OBJ_id_pe = OBJ_id_pkix @ [1]"
definition OBJ_id_qt :: "nat list" where [oid_defs]: "OBJ_id_qt = OBJ_id_pkix @ [2]"
definition OBJ_id_kp :: "nat list" where [oid_defs]: "OBJ_id_kp = OBJ_id_pkix @ [3]"
definition OBJ_id_it :: "nat list" where [oid_defs]: "OBJ_id_it = OBJ_id_pkix @ [4]"
definition OBJ_id_pkip :: "nat list" where [oid_defs]: "OBJ_id_pkip = OBJ_id_pkix @ [5]"
definition OBJ_id_alg :: "nat list" where [oid_defs]: "OBJ_id_alg = OBJ_id_pkix @ [6]"
definition OBJ_id_cmc :: "nat list" where [oid_defs]: "OBJ_id_cmc = OBJ_id_pkix @ [7]"
definition OBJ_id_on :: "nat list" where [oid_defs]: "OBJ_id_on = OBJ_id_pkix @ [8]"
definition OBJ_id_pda :: "nat list" where [oid_defs]: "OBJ_id_pda = OBJ_id_pkix @ [9]"
definition OBJ_id_aca :: "nat list" where [oid_defs]: "OBJ_id_aca = OBJ_id_pkix @ [10]"
definition OBJ_id_qcs :: "nat list" where [oid_defs]: "OBJ_id_qcs = OBJ_id_pkix @ [11]"
definition OBJ_id_cp :: "nat list" where [oid_defs]: "OBJ_id_cp = OBJ_id_pkix @ [14]"
definition OBJ_id_cct :: "nat list" where [oid_defs]: "OBJ_id_cct = OBJ_id_pkix @ [12]"
definition OBJ_id_ppl :: "nat list" where [oid_defs]: "OBJ_id_ppl = OBJ_id_pkix @ [21]"
definition OBJ_id_ad :: "nat list" where [oid_defs]: "OBJ_id_ad = OBJ_id_pkix @ [48]"
definition OBJ_id_regCtrl :: "nat list" where [oid_defs]: "OBJ_id_regCtrl = OBJ_id_pkip @ [1]"
definition OBJ_id_regInfo :: "nat list" where [oid_defs]: "OBJ_id_regInfo = OBJ_id_pkip @ [2]"
definition OBJ_ad_OCSP :: "nat list" where [oid_defs]: "OBJ_ad_OCSP = OBJ_id_ad @ [1]"
definition OBJ_id_pkix_OCSP :: "nat list" where [oid_defs]: "OBJ_id_pkix_OCSP = OBJ_ad_OCSP"
definition OBJ_algorithm :: "nat list" where [oid_defs]: "OBJ_algorithm = [1, 3, 14, 3, 2]"
definition OBJ_sha1 :: "nat list" where [oid_defs]: "OBJ_sha1 = OBJ_algorithm @ [26]"
definition OBJ_ripemd160WithRSA :: "nat list" where [oid_defs]: "OBJ_ripemd160WithRSA = [1, 3, 36, 3, 3, 1, 2]"
definition OBJ_blake2bmac :: "nat list" where [oid_defs]: "OBJ_blake2bmac = [1, 3, 6, 1, 4, 1, 1722, 12, 2, 1]"
definition OBJ_blake2smac :: "nat list" where [oid_defs]: "OBJ_blake2smac = [1, 3, 6, 1, 4, 1, 1722, 12, 2, 2]"
definition OBJ_X500 :: "nat list" where [oid_defs]: "OBJ_X500 = [2, 5]"
definition OBJ_X509 :: "nat list" where [oid_defs]: "OBJ_X509 = OBJ_X500 @ [4]"
definition OBJ_X500algorithms :: "nat list" where [oid_defs]: "OBJ_X500algorithms = OBJ_X500 @ [8]"
definition OBJ_mdc2WithRSA :: "nat list" where [oid_defs]: "OBJ_mdc2WithRSA = OBJ_X500algorithms @ [3, 100]"
definition OBJ_id_ce :: "nat list" where [oid_defs]: "OBJ_id_ce = OBJ_X500 @ [29]"
definition OBJ_certificate_policies :: "nat list" where [oid_defs]: "OBJ_certificate_policies = OBJ_id_ce @ [32]"
definition OBJ_ext_key_usage :: "nat list" where [oid_defs]: "OBJ_ext_key_usage = OBJ_id_ce @ [37]"
definition OBJ_netscape :: "nat list" where [oid_defs]: "OBJ_netscape = [2, 16, 840, 1, 113730]"
definition OBJ_netscape_cert_extension :: "nat list" where [oid_defs]: "OBJ_netscape_cert_extension = OBJ_netscape @ [1]"
definition OBJ_netscape_data_type :: "nat list" where [oid_defs]: "OBJ_netscape_data_type = OBJ_netscape @ [2]"
definition OBJ_org :: "nat list" where [oid_defs]: "OBJ_org = OBJ_iso @ [3]"
definition OBJ_dod :: "nat list" where [oid_defs]: "OBJ_dod = OBJ_org @ [6]"
definition OBJ_iana :: "nat list" where [oid_defs]: "OBJ_iana = OBJ_dod @ [1]"
definition OBJ_internet :: "nat list" where [oid_defs]: "OBJ_internet = OBJ_iana"
definition OBJ_Private :: "nat list" where [oid_defs]: "OBJ_Private = OBJ_internet @ [4]"
definition OBJ_Mail :: "nat list" where [oid_defs]: "OBJ_Mail = OBJ_internet @ [7]"
definition OBJ_Enterprises :: "nat list" where [oid_defs]: "OBJ_Enterprises = OBJ_Private @ [1]"
definition OBJ_mime_mhs :: "nat list" where [oid_defs]: "OBJ_mime_mhs = OBJ_Mail @ [1]"
definition OBJ_mime_mhs_headings :: "nat list" where [oid_defs]: "OBJ_mime_mhs_headings = OBJ_mime_mhs @ [1]"
definition OBJ_csor :: "nat list" where [oid_defs]: "OBJ_csor = [2, 16, 840, 1, 101, 3]"
definition OBJ_nistAlgorithms :: "nat list" where [oid_defs]: "OBJ_nistAlgorithms = OBJ_csor @ [4]"
definition OBJ_aes :: "nat list" where [oid_defs]: "OBJ_aes = OBJ_nistAlgorithms @ [1]"
definition OBJ_id_aes128_wrap :: "nat list" where [oid_defs]: "OBJ_id_aes128_wrap = OBJ_aes @ [5]"
definition OBJ_id_aes192_wrap :: "nat list" where [oid_defs]: "OBJ_id_aes192_wrap = OBJ_aes @ [25]"
definition OBJ_id_aes256_wrap :: "nat list" where [oid_defs]: "OBJ_id_aes256_wrap = OBJ_aes @ [45]"
definition OBJ_nist_hashalgs :: "nat list" where [oid_defs]: "OBJ_nist_hashalgs = OBJ_nistAlgorithms @ [2]"
definition OBJ_sha256 :: "nat list" where [oid_defs]: "OBJ_sha256 = OBJ_nist_hashalgs @ [1]"
definition OBJ_sha384 :: "nat list" where [oid_defs]: "OBJ_sha384 = OBJ_nist_hashalgs @ [2]"
definition OBJ_sha512 :: "nat list" where [oid_defs]: "OBJ_sha512 = OBJ_nist_hashalgs @ [3]"
definition OBJ_sha224 :: "nat list" where [oid_defs]: "OBJ_sha224 = OBJ_nist_hashalgs @ [4]"
definition OBJ_sha512_224 :: "nat list" where [oid_defs]: "OBJ_sha512_224 = OBJ_nist_hashalgs @ [5]"
definition OBJ_sha512_256 :: "nat list" where [oid_defs]: "OBJ_sha512_256 = OBJ_nist_hashalgs @ [6]"
definition OBJ_sha3_224 :: "nat list" where [oid_defs]: "OBJ_sha3_224 = OBJ_nist_hashalgs @ [7]"
definition OBJ_sha3_256 :: "nat list" where [oid_defs]: "OBJ_sha3_256 = OBJ_nist_hashalgs @ [8]"
definition OBJ_sha3_384 :: "nat list" where [oid_defs]: "OBJ_sha3_384 = OBJ_nist_hashalgs @ [9]"
definition OBJ_sha3_512 :: "nat list" where [oid_defs]: "OBJ_sha3_512 = OBJ_nist_hashalgs @ [10]"
definition OBJ_shake128 :: "nat list" where [oid_defs]: "OBJ_shake128 = OBJ_nist_hashalgs @ [11]"
definition OBJ_shake256 :: "nat list" where [oid_defs]: "OBJ_shake256 = OBJ_nist_hashalgs @ [12]"
definition OBJ_kmac128 :: "nat list" where [oid_defs]: "OBJ_kmac128 = OBJ_nist_hashalgs @ [19]"
definition OBJ_kmac256 :: "nat list" where [oid_defs]: "OBJ_kmac256 = OBJ_nist_hashalgs @ [20]"
definition OBJ_dsa_with_sha2 :: "nat list" where [oid_defs]: "OBJ_dsa_with_sha2 = OBJ_nistAlgorithms @ [3]"
definition OBJ_dsa_with_SHA224 :: "nat list" where [oid_defs]: "OBJ_dsa_with_SHA224 = OBJ_dsa_with_sha2 @ [1]"
definition OBJ_dsa_with_SHA256 :: "nat list" where [oid_defs]: "OBJ_dsa_with_SHA256 = OBJ_dsa_with_sha2 @ [2]"
definition OBJ_sigAlgs :: "nat list" where [oid_defs]: "OBJ_sigAlgs = OBJ_nistAlgorithms @ [3]"
definition OBJ_dsa_with_SHA384 :: "nat list" where [oid_defs]: "OBJ_dsa_with_SHA384 = OBJ_sigAlgs @ [3]"
definition OBJ_dsa_with_SHA512 :: "nat list" where [oid_defs]: "OBJ_dsa_with_SHA512 = OBJ_sigAlgs @ [4]"
definition OBJ_dsa_with_SHA3_224 :: "nat list" where [oid_defs]: "OBJ_dsa_with_SHA3_224 = OBJ_sigAlgs @ [5]"
definition OBJ_dsa_with_SHA3_256 :: "nat list" where [oid_defs]: "OBJ_dsa_with_SHA3_256 = OBJ_sigAlgs @ [6]"
definition OBJ_dsa_with_SHA3_384 :: "nat list" where [oid_defs]: "OBJ_dsa_with_SHA3_384 = OBJ_sigAlgs @ [7]"
definition OBJ_dsa_with_SHA3_512 :: "nat list" where [oid_defs]: "OBJ_dsa_with_SHA3_512 = OBJ_sigAlgs @ [8]"
definition OBJ_ecdsa_with_SHA3_224 :: "nat list" where [oid_defs]: "OBJ_ecdsa_with_SHA3_224 = OBJ_sigAlgs @ [9]"
definition OBJ_ecdsa_with_SHA3_256 :: "nat list" where [oid_defs]: "OBJ_ecdsa_with_SHA3_256 = OBJ_sigAlgs @ [10]"
definition OBJ_ecdsa_with_SHA3_384 :: "nat list" where [oid_defs]: "OBJ_ecdsa_with_SHA3_384 = OBJ_sigAlgs @ [11]"
definition OBJ_ecdsa_with_SHA3_512 :: "nat list" where [oid_defs]: "OBJ_ecdsa_with_SHA3_512 = OBJ_sigAlgs @ [12]"
definition OBJ_RSA_SHA3_224 :: "nat list" where [oid_defs]: "OBJ_RSA_SHA3_224 = OBJ_sigAlgs @ [13]"
definition OBJ_RSA_SHA3_256 :: "nat list" where [oid_defs]: "OBJ_RSA_SHA3_256 = OBJ_sigAlgs @ [14]"
definition OBJ_RSA_SHA3_384 :: "nat list" where [oid_defs]: "OBJ_RSA_SHA3_384 = OBJ_sigAlgs @ [15]"
definition OBJ_RSA_SHA3_512 :: "nat list" where [oid_defs]: "OBJ_RSA_SHA3_512 = OBJ_sigAlgs @ [16]"
definition OBJ_holdInstruction :: "nat list" where [oid_defs]: "OBJ_holdInstruction = OBJ_X9_57 @ [2]"
definition OBJ_data :: "nat list" where [oid_defs]: "OBJ_data = OBJ_itu_t @ [9]"
definition OBJ_pss :: "nat list" where [oid_defs]: "OBJ_pss = OBJ_data @ [2342]"
definition OBJ_ucl :: "nat list" where [oid_defs]: "OBJ_ucl = OBJ_pss @ [19200300]"
definition OBJ_pilot :: "nat list" where [oid_defs]: "OBJ_pilot = OBJ_ucl @ [100]"
definition OBJ_pilotAttributeType :: "nat list" where [oid_defs]: "OBJ_pilotAttributeType = OBJ_pilot @ [1]"
definition OBJ_pilotAttributeSyntax :: "nat list" where [oid_defs]: "OBJ_pilotAttributeSyntax = OBJ_pilot @ [3]"
definition OBJ_pilotObjectClass :: "nat list" where [oid_defs]: "OBJ_pilotObjectClass = OBJ_pilot @ [4]"
definition OBJ_id_set :: "nat list" where [oid_defs]: "OBJ_id_set = OBJ_international_organizations @ [42]"
definition OBJ_set_ctype :: "nat list" where [oid_defs]: "OBJ_set_ctype = OBJ_id_set @ [0]"
definition OBJ_set_msgExt :: "nat list" where [oid_defs]: "OBJ_set_msgExt = OBJ_id_set @ [1]"
definition OBJ_set_attr :: "nat list" where [oid_defs]: "OBJ_set_attr = OBJ_id_set @ [3]"
definition OBJ_set_policy :: "nat list" where [oid_defs]: "OBJ_set_policy = OBJ_id_set @ [5]"
definition OBJ_set_certExt :: "nat list" where [oid_defs]: "OBJ_set_certExt = OBJ_id_set @ [7]"
definition OBJ_set_brand :: "nat list" where [oid_defs]: "OBJ_set_brand = OBJ_id_set @ [8]"
definition OBJ_setAttr_Cert :: "nat list" where [oid_defs]: "OBJ_setAttr_Cert = OBJ_set_attr @ [0]"
definition OBJ_setAttr_TokenType :: "nat list" where [oid_defs]: "OBJ_setAttr_TokenType = OBJ_set_attr @ [2]"
definition OBJ_setAttr_IssCap :: "nat list" where [oid_defs]: "OBJ_setAttr_IssCap = OBJ_set_attr @ [3]"
definition OBJ_setAttr_IssCap_CVM :: "nat list" where [oid_defs]: "OBJ_setAttr_IssCap_CVM = OBJ_setAttr_IssCap @ [3]"
definition OBJ_setAttr_IssCap_T2 :: "nat list" where [oid_defs]: "OBJ_setAttr_IssCap_T2 = OBJ_setAttr_IssCap @ [4]"
definition OBJ_setAttr_IssCap_Sig :: "nat list" where [oid_defs]: "OBJ_setAttr_IssCap_Sig = OBJ_setAttr_IssCap @ [5]"
definition OBJ_cryptopro :: "nat list" where [oid_defs]: "OBJ_cryptopro = OBJ_member_body @ [643, 2, 2]"
definition OBJ_cryptocom :: "nat list" where [oid_defs]: "OBJ_cryptocom = OBJ_member_body @ [643, 2, 9]"
definition OBJ_id_tc26 :: "nat list" where [oid_defs]: "OBJ_id_tc26 = OBJ_member_body @ [643, 7, 1]"
definition OBJ_id_GostR3410_94 :: "nat list" where [oid_defs]: "OBJ_id_GostR3410_94 = OBJ_cryptopro @ [20]"
definition OBJ_id_tc26_algorithms :: "nat list" where [oid_defs]: "OBJ_id_tc26_algorithms = OBJ_id_tc26 @ [1]"
definition OBJ_id_tc26_sign :: "nat list" where [oid_defs]: "OBJ_id_tc26_sign = OBJ_id_tc26_algorithms @ [1]"
definition OBJ_id_tc26_digest :: "nat list" where [oid_defs]: "OBJ_id_tc26_digest = OBJ_id_tc26_algorithms @ [2]"
definition OBJ_id_tc26_signwithdigest :: "nat list" where [oid_defs]: "OBJ_id_tc26_signwithdigest = OBJ_id_tc26_algorithms @ [3]"
definition OBJ_id_tc26_mac :: "nat list" where [oid_defs]: "OBJ_id_tc26_mac = OBJ_id_tc26_algorithms @ [4]"
definition OBJ_id_tc26_cipher :: "nat list" where [oid_defs]: "OBJ_id_tc26_cipher = OBJ_id_tc26_algorithms @ [5]"
definition OBJ_id_tc26_cipher_gostr3412_2015_magma :: "nat list" where [oid_defs]: "OBJ_id_tc26_cipher_gostr3412_2015_magma = OBJ_id_tc26_cipher @ [1]"
definition OBJ_id_tc26_cipher_gostr3412_2015_kuznyechik :: "nat list" where [oid_defs]: "OBJ_id_tc26_cipher_gostr3412_2015_kuznyechik = OBJ_id_tc26_cipher @ [2]"
definition OBJ_id_tc26_agreement :: "nat list" where [oid_defs]: "OBJ_id_tc26_agreement = OBJ_id_tc26_algorithms @ [6]"
definition OBJ_id_tc26_wrap :: "nat list" where [oid_defs]: "OBJ_id_tc26_wrap = OBJ_id_tc26_algorithms @ [7]"
definition OBJ_id_tc26_wrap_gostr3412_2015_magma :: "nat list" where [oid_defs]: "OBJ_id_tc26_wrap_gostr3412_2015_magma = OBJ_id_tc26_wrap @ [1]"
definition OBJ_id_tc26_wrap_gostr3412_2015_kuznyechik :: "nat list" where [oid_defs]: "OBJ_id_tc26_wrap_gostr3412_2015_kuznyechik = OBJ_id_tc26_wrap @ [2]"
definition OBJ_id_tc26_constants :: "nat list" where [oid_defs]: "OBJ_id_tc26_constants = OBJ_id_tc26 @ [2]"
definition OBJ_id_tc26_sign_constants :: "nat list" where [oid_defs]: "OBJ_id_tc26_sign_constants = OBJ_id_tc26_constants @ [1]"
definition OBJ_id_tc26_gost_3410_2012_256_constants :: "nat list" where [oid_defs]: "OBJ_id_tc26_gost_3410_2012_256_constants = OBJ_id_tc26_sign_constants @ [1]"
definition OBJ_id_tc26_gost_3410_2012_512_constants :: "nat list" where [oid_defs]: "OBJ_id_tc26_gost_3410_2012_512_constants = OBJ_id_tc26_sign_constants @ [2]"
definition OBJ_id_tc26_cipher_constants :: "nat list" where [oid_defs]: "OBJ_id_tc26_cipher_constants = OBJ_id_tc26_constants @ [5]"
definition OBJ_id_tc26_gost_28147_constants :: "nat list" where [oid_defs]: "OBJ_id_tc26_gost_28147_constants = OBJ_id_tc26_cipher_constants @ [1]"
definition OBJ_ntt_ds :: "nat list" where [oid_defs]: "OBJ_ntt_ds = [0, 3, 4401, 5]"
definition OBJ_camellia :: "nat list" where [oid_defs]: "OBJ_camellia = OBJ_ntt_ds @ [3, 1, 9]"
definition OBJ_aria :: "nat list" where [oid_defs]: "OBJ_aria = [1, 2, 410, 200046, 1, 1]"
definition OBJ_kisa :: "nat list" where [oid_defs]: "OBJ_kisa = OBJ_member_body @ [410, 200004]"
definition OBJ_x9_63_scheme :: "nat list" where [oid_defs]: "OBJ_x9_63_scheme = [1, 3, 133, 16, 840, 63, 0]"
definition OBJ_secg_scheme :: "nat list" where [oid_defs]: "OBJ_secg_scheme = OBJ_certicom_arc @ [1]"
definition OBJ_id_pkinit :: "nat list" where [oid_defs]: "OBJ_id_pkinit = [1, 3, 6, 1, 5, 2, 3]"
definition OBJ_X25519 :: "nat list" where [oid_defs]: "OBJ_X25519 = [1, 3, 101, 110]"
definition OBJ_X448 :: "nat list" where [oid_defs]: "OBJ_X448 = [1, 3, 101, 111]"
definition OBJ_ED25519 :: "nat list" where [oid_defs]: "OBJ_ED25519 = [1, 3, 101, 112]"
definition OBJ_ED448 :: "nat list" where [oid_defs]: "OBJ_ED448 = [1, 3, 101, 113]"
definition OBJ_ISO_UA :: "nat list" where [oid_defs]: "OBJ_ISO_UA = OBJ_member_body @ [804]"
definition OBJ_ua_pki :: "nat list" where [oid_defs]: "OBJ_ua_pki = OBJ_ISO_UA @ [2, 1, 1, 1]"
definition OBJ_dstu28147 :: "nat list" where [oid_defs]: "OBJ_dstu28147 = OBJ_ua_pki @ [1, 1, 1]"
definition OBJ_dstu4145le :: "nat list" where [oid_defs]: "OBJ_dstu4145le = OBJ_ua_pki @ [1, 3, 1, 1]"

end
