(* ===== verification/DerOid.thy ===== *)
theory DerOid
  imports Prelude
begin

text \<open>
  The DER encoding of object identifiers (X.690, 8.19), the abstract specification of the
  byte tables \<open>prov/der_*.h\<close>: base-128 digits, most significant first, with the high bit
  set on all but the last; the first two arcs share one number. A decoder, and the proof
  that it inverts the encoder on every well-formed identifier.
\<close>

text \<open>
  One macro pair: \<open>DER_OID_V_x\<close> is \<open>DER_P_OBJECT, len, bytes\<close>, \<open>DER_OID_SZ_x\<close> the size of
  the array. \<open>DER_P_OBJECT\<close> is defined in \<open>internal/der.h\<close>, which the distribution does not
  contain; it is a parameter.
\<close>

datatype der_oid = Der (der_len: nat) (der_bytes: "nat list") (der_size: nat)

definition der_V :: "nat \<Rightarrow> der_oid \<Rightarrow> nat list" where
  "der_V DER_P_OBJECT d = DER_P_OBJECT # der_len d # der_bytes d"

text \<open>X.660: the root arc is at most 2, and below roots 0 and 1 the second arc is less than 40.\<close>

definition oid_ok :: "nat list \<Rightarrow> bool" where
  "oid_ok arcs \<longleftrightarrow> (case arcs of [] \<Rightarrow> False | [a] \<Rightarrow> a \<le> 2 | a # b # cs \<Rightarrow> a \<le> 2 \<and> (a < 2 \<longrightarrow> b < 40))"

fun hi128 :: "nat \<Rightarrow> nat list" where
  "hi128 n = (if n = 0 then [] else hi128 (n div 128) @ [128 + n mod 128])"

declare hi128.simps [simp del]

definition arc_bytes :: "nat \<Rightarrow> nat list" where
  "arc_bytes n = hi128 (n div 128) @ [n mod 128]"

fun der_encode :: "nat list \<Rightarrow> nat list" where
  "der_encode (a # b # cs) = arc_bytes (40 * a + b) @ concat (map arc_bytes cs)"
| "der_encode _ = []"

fun der_arcs :: "nat \<Rightarrow> bool \<Rightarrow> nat list \<Rightarrow> nat list option" where
  "der_arcs v more [] = (if more then None else Some [])"
| "der_arcs v more (b # bs) =
     (if 128 \<le> b then der_arcs (v * 128 + (b - 128)) True bs
      else map_option ((#) (v * 128 + b)) (der_arcs 0 False bs))"

definition der_decode :: "nat list \<Rightarrow> nat list option" where
  "der_decode bs = (case der_arcs 0 False bs of
     None \<Rightarrow> None
   | Some [] \<Rightarrow> None
   | Some (n # cs) \<Rightarrow> Some (if n < 40 then 0 # n # cs else if n < 80 then 1 # (n - 40) # cs else 2 # (n - 80) # cs))"

definition der_encodes :: "der_oid \<Rightarrow> nat list \<Rightarrow> bool" where
  "der_encodes d arcs \<longleftrightarrow> der_bytes d = der_encode arcs \<and> der_len d = length (der_bytes d) \<and>
     der_len d < 128 \<and> (\<forall>P. der_size d = length (der_V P d))"

lemmas der_eval = der_encodes_def der_V_def arc_bytes_def hi128.simps

lemma der_arcs_hi128:
  "der_arcs 0 False (hi128 n @ b # bs) = der_arcs n (0 < n) (b # bs)"
proof -
  have "der_arcs v m (hi128 n @ b # bs) = der_arcs (v * 128 ^ length (hi128 n) + n) (m \<or> 0 < n) (b # bs)" for v m
  proof (induction n arbitrary: b bs v m rule: hi128.induct)
    case (1 n)
    show ?case
    proof (cases "n = 0")
      case True
      then show ?thesis by (simp add: hi128.simps)
    next
      case False
      let ?h = "hi128 (n div 128)"
      have h: "hi128 n = ?h @ [128 + n mod 128]" using False by (simp add: hi128.simps [of n])
      have "der_arcs v m (hi128 n @ b # bs) =
          der_arcs (v * 128 ^ length ?h + n div 128) (m \<or> 0 < n div 128) ((128 + n mod 128) # b # bs)"
        using 1 [OF False, of v m "128 + n mod 128" "b # bs"] h by simp
      also have "\<dots> = der_arcs ((v * 128 ^ length ?h + n div 128) * 128 + n mod 128) True (b # bs)"
        by simp
      also have "(v * 128 ^ length ?h + n div 128) * 128 + n mod 128 = v * 128 ^ length (hi128 n) + n"
        by (simp add: h algebra_simps)
      finally show ?thesis using False by simp
    qed
  qed
  from this [of 0 False] show ?thesis by simp
qed

lemma der_arcs_arc: "der_arcs 0 False (arc_bytes n @ bs) = map_option ((#) n) (der_arcs 0 False bs)"
proof -
  have "\<not> 128 \<le> n mod 128" by (simp add: not_le)
  then show ?thesis by (simp add: arc_bytes_def der_arcs_hi128)
qed

lemma der_arcs_concat: "der_arcs 0 False (concat (map arc_bytes cs)) = Some cs"
  by (induction cs) (simp_all add: der_arcs_arc)

lemma der_decode_encode:
  assumes "oid_ok arcs" "2 \<le> length arcs"
  shows "der_decode (der_encode arcs) = Some arcs"
proof -
  obtain a b cs where arcs: "arcs = a # b # cs" using assms(2) by (cases arcs; cases "tl arcs") auto
  then consider "a = 0" "b < 40" | "a = 1" "b < 40" | "a = 2" using assms(1) by (force simp: oid_ok_def)
  then show ?thesis
    unfolding arcs by cases (simp_all add: der_decode_def der_arcs_arc der_arcs_concat)
qed

lemma der_encode_inj:
  "oid_ok x \<Longrightarrow> oid_ok y \<Longrightarrow> 2 \<le> length x \<Longrightarrow> 2 \<le> length y \<Longrightarrow> der_encode x = der_encode y \<Longrightarrow> x = y"
  by (metis der_decode_encode option.inject)

end
