(* ===== verification/ObjEntry.thy ===== *)
theory ObjEntry
  imports ObjOids DerOid
begin

text \<open>
  An entry of the object registry \<open>obj_mac.h\<close>: short name, long name, numeric identifier
  and object identifier, each of which an entry may lack.
\<close>

datatype obj = Obj (sn: "string option") (ln: "string option") (nid: "nat option") (oid: "nat list option")

definition obj_ok :: "obj \<Rightarrow> bool" where
  "obj_ok e \<longleftrightarrow> (case oid e of None \<Rightarrow> True | Some arcs \<Rightarrow> oid_ok arcs)"

text \<open>
  Introduction rules that walk down a table entry by entry: the facts about the tables are
  proved with them, without rewriting the names.
\<close>

lemma nids_Nil: "List.map_filter nid [] = []"
  by (simp add: List.map_filter_def)

lemma nids_Some: "List.map_filter nid es = ns \<Longrightarrow> List.map_filter nid (Obj s l (Some n) i # es) = n # ns"
  by (simp add: List.map_filter_def)

lemma nids_None: "List.map_filter nid es = ns \<Longrightarrow> List.map_filter nid (Obj s l None i # es) = ns"
  by (simp add: List.map_filter_def)

lemmas nids_intros = nids_Nil nids_Some nids_None

lemma obj_ok_Nil: "list_all obj_ok []"
  by simp

lemma obj_ok_Some: "oid_ok arcs \<Longrightarrow> list_all obj_ok es \<Longrightarrow> list_all obj_ok (Obj s l n (Some arcs) # es)"
  by (simp add: obj_ok_def)

lemma obj_ok_None: "list_all obj_ok es \<Longrightarrow> list_all obj_ok (Obj s l n None # es)"
  by (simp add: obj_ok_def)

lemmas obj_ok_intros = obj_ok_Nil obj_ok_Some obj_ok_None

end
