(* ===== verification/ObjTable1.thy ===== *)
theory ObjTable1
  imports ObjEntry
begin

text \<open>
  Entries of \<open>obj_mac.h\<close>, lines 16 to 1953, in the order of the file; a chunk per definition.
\<close>

definition objects_1 :: "obj list" where
  "objects_1 = [
    Obj (Some ''UNDEF'') (Some ''undefined'') (Some 0) (Some ([0])),
    Obj (Some ''ITU-T'') (Some ''itu-t'') (Some 645) (Some OBJ_itu_t),
    Obj None None (Some 404) (Some (OBJ_itu_t)),
    Obj (Some ''ISO'') (Some ''iso'') (Some 181) (Some OBJ_iso),
    Obj (Some ''JOINT-ISO-ITU-T'') (Some ''joint-iso-itu-t'') (Some 646) (Some OBJ_joint_iso_itu_t),
    Obj None None (Some 393) (Some (OBJ_joint_iso_itu_t)),
    Obj (Some ''member-body'') (Some ''ISO Member Body'') (Some 182) (Some OBJ_member_body),
    Obj (Some ''identified-organization'') None (Some 676) (Some OBJ_identified_organization),
    Obj (Some ''GMAC'') (Some ''gmac'') (Some 1195) (Some (OBJ_iso @ [0, 9797, 3, 4])),
    Obj (Some ''HMAC-MD5'') (Some ''hmac-md5'') (Some 780) (Some (OBJ_identified_organization @ [6, 1, 5, 5, 8, 1, 1])),
    Obj (Some ''HMAC-SHA1'') (Some ''hmac-sha1'') (Some 781) (Some (OBJ_identified_organization @ [6, 1, 5, 5, 8, 1, 2])),
    Obj (Some ''x509ExtAdmission'') (Some ''Professional Information or basis for Admission'') (Some 1093) (Some (OBJ_identified_organization @ [36, 8, 3, 3])),
    Obj (Some ''certicom-arc'') None (Some 677) (Some OBJ_certicom_arc),
    Obj (Some ''ieee'') None (Some 1170) (Some OBJ_ieee),
    Obj (Some ''ieee-siswg'') (Some ''IEEE Security in Storage Working Group'') (Some 1171) (Some OBJ_ieee_siswg),
    Obj (Some ''international-organizations'') (Some ''International Organizations'') (Some 647) (Some OBJ_international_organizations),
    Obj (Some ''wap'') None (Some 678) (Some OBJ_wap),
    Obj (Some ''wap-wsg'') None (Some 679) (Some OBJ_wap_wsg),
    Obj (Some ''selected-attribute-types'') (Some ''Selected Attribute Types'') (Some 394) (Some OBJ_selected_attribute_types),
    Obj (Some ''clearance'') None (Some 395) (Some (OBJ_selected_attribute_types @ [55])),
    Obj (Some ''ISO-US'') (Some ''ISO US Member Body'') (Some 183) (Some OBJ_ISO_US),
    Obj (Some ''X9-57'') (Some ''X9.57'') (Some 184) (Some OBJ_X9_57),
    Obj (Some ''X9cm'') (Some ''X9.57 CM ?'') (Some 185) (Some OBJ_X9cm),
    Obj (Some ''ISO-CN'') (Some ''ISO CN Member Body'') (Some 1140) (Some OBJ_ISO_CN),
    Obj (Some ''oscca'') None (Some 1141) (Some OBJ_oscca),
    Obj (Some ''sm-scheme'') None (Some 1142) (Some OBJ_sm_scheme),
    Obj (Some ''DSA'') (Some ''dsaEncryption'') (Some 116) (Some OBJ_dsa),
    Obj (Some ''DSA-SHA1'') (Some ''dsaWithSHA1'') (Some 113) (Some OBJ_dsaWithSHA1),
    Obj (Some ''ansi-X9-62'') (Some ''ANSI X9.62'') (Some 405) (Some OBJ_ansi_X9_62),
    Obj None None None (Some OBJ_X9_62_id_fieldType),
    Obj (Some ''prime-field'') None (Some 406) (Some (OBJ_X9_62_id_fieldType @ [1])),
    Obj (Some ''characteristic-two-field'') None (Some 407) (Some OBJ_X9_62_characteristic_two_field),
    Obj (Some ''id-characteristic-two-basis'') None (Some 680) (Some OBJ_X9_62_id_characteristic_two_basis),
    Obj (Some ''onBasis'') None (Some 681) (Some (OBJ_X9_62_id_characteristic_two_basis @ [1]))]"

lemma nids_1:
  "List.map_filter nid objects_1 = [0, 645, 404, 181, 646, 393, 182, 676, 1195, 780, 781, 1093, 677, 1170, 1171, 647, 678, 679, 394, 395, 183, 184, 185, 1140, 1141, 1142, 116, 113, 405, 406, 407, 680, 681]"
  unfolding objects_1_def by (intro nids_intros)

lemma oids_1: "list_all obj_ok objects_1"
  unfolding objects_1_def by (intro obj_ok_intros) (simp_all add: oid_ok_def oid_defs)

definition objects_2 :: "obj list" where
  "objects_2 = [
    Obj (Some ''tpBasis'') None (Some 682) (Some (OBJ_X9_62_id_characteristic_two_basis @ [2])),
    Obj (Some ''ppBasis'') None (Some 683) (Some (OBJ_X9_62_id_characteristic_two_basis @ [3])),
    Obj None None None (Some OBJ_X9_62_id_publicKeyType),
    Obj (Some ''id-ecPublicKey'') None (Some 408) (Some OBJ_X9_62_id_ecPublicKey),
    Obj None None None (Some OBJ_X9_62_ellipticCurve),
    Obj None None None (Some OBJ_X9_62_c_TwoCurve),
    Obj (Some ''c2pnb163v1'') None (Some 684) (Some OBJ_X9_62_c2pnb163v1),
    Obj (Some ''c2pnb163v2'') None (Some 685) (Some OBJ_X9_62_c2pnb163v2),
    Obj (Some ''c2pnb163v3'') None (Some 686) (Some OBJ_X9_62_c2pnb163v3),
    Obj (Some ''c2pnb176v1'') None (Some 687) (Some OBJ_X9_62_c2pnb176v1),
    Obj (Some ''c2tnb191v1'') None (Some 688) (Some OBJ_X9_62_c2tnb191v1),
    Obj (Some ''c2tnb191v2'') None (Some 689) (Some OBJ_X9_62_c2tnb191v2),
    Obj (Some ''c2tnb191v3'') None (Some 690) (Some OBJ_X9_62_c2tnb191v3),
    Obj (Some ''c2onb191v4'') None (Some 691) (Some OBJ_X9_62_c2onb191v4),
    Obj (Some ''c2onb191v5'') None (Some 692) (Some OBJ_X9_62_c2onb191v5),
    Obj (Some ''c2pnb208w1'') None (Some 693) (Some OBJ_X9_62_c2pnb208w1),
    Obj (Some ''c2tnb239v1'') None (Some 694) (Some OBJ_X9_62_c2tnb239v1),
    Obj (Some ''c2tnb239v2'') None (Some 695) (Some OBJ_X9_62_c2tnb239v2),
    Obj (Some ''c2tnb239v3'') None (Some 696) (Some OBJ_X9_62_c2tnb239v3),
    Obj (Some ''c2onb239v4'') None (Some 697) (Some OBJ_X9_62_c2onb239v4),
    Obj (Some ''c2onb239v5'') None (Some 698) (Some OBJ_X9_62_c2onb239v5),
    Obj (Some ''c2pnb272w1'') None (Some 699) (Some OBJ_X9_62_c2pnb272w1),
    Obj (Some ''c2pnb304w1'') None (Some 700) (Some OBJ_X9_62_c2pnb304w1),
    Obj (Some ''c2tnb359v1'') None (Some 701) (Some OBJ_X9_62_c2tnb359v1),
    Obj (Some ''c2pnb368w1'') None (Some 702) (Some OBJ_X9_62_c2pnb368w1),
    Obj (Some ''c2tnb431r1'') None (Some 703) (Some OBJ_X9_62_c2tnb431r1),
    Obj None None None (Some OBJ_X9_62_primeCurve),
    Obj (Some ''prime192v1'') None (Some 409) (Some OBJ_X9_62_prime192v1),
    Obj (Some ''prime192v2'') None (Some 410) (Some OBJ_X9_62_prime192v2),
    Obj (Some ''prime192v3'') None (Some 411) (Some OBJ_X9_62_prime192v3),
    Obj (Some ''prime239v1'') None (Some 412) (Some OBJ_X9_62_prime239v1),
    Obj (Some ''prime239v2'') None (Some 413) (Some OBJ_X9_62_prime239v2),
    Obj (Some ''prime239v3'') None (Some 414) (Some OBJ_X9_62_prime239v3),
    Obj (Some ''prime256v1'') None (Some 415) (Some OBJ_X9_62_prime256v1),
    Obj None None None (Some OBJ_X9_62_id_ecSigType),
    Obj (Some ''ecdsa-with-SHA1'') None (Some 416) (Some OBJ_ecdsa_with_SHA1),
    Obj (Some ''ecdsa-with-Recommended'') None (Some 791) (Some (OBJ_X9_62_id_ecSigType @ [2])),
    Obj (Some ''ecdsa-with-Specified'') None (Some 792) (Some OBJ_ecdsa_with_Specified),
    Obj (Some ''ecdsa-with-SHA224'') None (Some 793) (Some OBJ_ecdsa_with_SHA224),
    Obj (Some ''ecdsa-with-SHA256'') None (Some 794) (Some OBJ_ecdsa_with_SHA256)]"

lemma nids_2:
  "List.map_filter nid objects_2 = [682, 683, 408, 684, 685, 686, 687, 688, 689, 690, 691, 692, 693, 694, 695, 696, 697, 698, 699, 700, 701, 702, 703, 409, 410, 411, 412, 413, 414, 415, 416, 791, 792, 793, 794]"
  unfolding objects_2_def by (intro nids_intros)

lemma oids_2: "list_all obj_ok objects_2"
  unfolding objects_2_def by (intro obj_ok_intros) (simp_all add: oid_ok_def oid_defs)

definition objects_3 :: "obj list" where
  "objects_3 = [
    Obj (Some ''ecdsa-with-SHA384'') None (Some 795) (Some OBJ_ecdsa_with_SHA384),
    Obj (Some ''ecdsa-with-SHA512'') None (Some 796) (Some OBJ_ecdsa_with_SHA512),
    Obj None None None (Some OBJ_secg_ellipticCurve),
    Obj (Some ''secp112r1'') None (Some 704) (Some (OBJ_secg_ellipticCurve @ [6])),
    Obj (Some ''secp112r2'') None (Some 705) (Some (OBJ_secg_ellipticCurve @ [7])),
    Obj (Some ''secp128r1'') None (Some 706) (Some (OBJ_secg_ellipticCurve @ [28])),
    Obj (Some ''secp128r2'') None (Some 707) (Some (OBJ_secg_ellipticCurve @ [29])),
    Obj (Some ''secp160k1'') None (Some 708) (Some (OBJ_secg_ellipticCurve @ [9])),
    Obj (Some ''secp160r1'') None (Some 709) (Some (OBJ_secg_ellipticCurve @ [8])),
    Obj (Some ''secp160r2'') None (Some 710) (Some (OBJ_secg_ellipticCurve @ [30])),
    Obj (Some ''secp192k1'') None (Some 711) (Some (OBJ_secg_ellipticCurve @ [31])),
    Obj (Some ''secp224k1'') None (Some 712) (Some (OBJ_secg_ellipticCurve @ [32])),
    Obj (Some ''secp224r1'') None (Some 713) (Some (OBJ_secg_ellipticCurve @ [33])),
    Obj (Some ''secp256k1'') None (Some 714) (Some (OBJ_secg_ellipticCurve @ [10])),
    Obj (Some ''secp384r1'') None (Some 715) (Some (OBJ_secg_ellipticCurve @ [34])),
    Obj (Some ''secp521r1'') None (Some 716) (Some (OBJ_secg_ellipticCurve @ [35])),
    Obj (Some ''sect113r1'') None (Some 717) (Some (OBJ_secg_ellipticCurve @ [4])),
    Obj (Some ''sect113r2'') None (Some 718) (Some (OBJ_secg_ellipticCurve @ [5])),
    Obj (Some ''sect131r1'') None (Some 719) (Some (OBJ_secg_ellipticCurve @ [22])),
    Obj (Some ''sect131r2'') None (Some 720) (Some (OBJ_secg_ellipticCurve @ [23])),
    Obj (Some ''sect163k1'') None (Some 721) (Some (OBJ_secg_ellipticCurve @ [1])),
    Obj (Some ''sect163r1'') None (Some 722) (Some (OBJ_secg_ellipticCurve @ [2])),
    Obj (Some ''sect163r2'') None (Some 723) (Some (OBJ_secg_ellipticCurve @ [15])),
    Obj (Some ''sect193r1'') None (Some 724) (Some (OBJ_secg_ellipticCurve @ [24])),
    Obj (Some ''sect193r2'') None (Some 725) (Some (OBJ_secg_ellipticCurve @ [25])),
    Obj (Some ''sect233k1'') None (Some 726) (Some (OBJ_secg_ellipticCurve @ [26])),
    Obj (Some ''sect233r1'') None (Some 727) (Some (OBJ_secg_ellipticCurve @ [27])),
    Obj (Some ''sect239k1'') None (Some 728) (Some (OBJ_secg_ellipticCurve @ [3])),
    Obj (Some ''sect283k1'') None (Some 729) (Some (OBJ_secg_ellipticCurve @ [16])),
    Obj (Some ''sect283r1'') None (Some 730) (Some (OBJ_secg_ellipticCurve @ [17])),
    Obj (Some ''sect409k1'') None (Some 731) (Some (OBJ_secg_ellipticCurve @ [36])),
    Obj (Some ''sect409r1'') None (Some 732) (Some (OBJ_secg_ellipticCurve @ [37])),
    Obj (Some ''sect571k1'') None (Some 733) (Some (OBJ_secg_ellipticCurve @ [38])),
    Obj (Some ''sect571r1'') None (Some 734) (Some (OBJ_secg_ellipticCurve @ [39])),
    Obj None None None (Some OBJ_wap_wsg_idm_ecid),
    Obj (Some ''wap-wsg-idm-ecid-wtls1'') None (Some 735) (Some (OBJ_wap_wsg_idm_ecid @ [1])),
    Obj (Some ''wap-wsg-idm-ecid-wtls3'') None (Some 736) (Some (OBJ_wap_wsg_idm_ecid @ [3])),
    Obj (Some ''wap-wsg-idm-ecid-wtls4'') None (Some 737) (Some (OBJ_wap_wsg_idm_ecid @ [4]))]"

lemma nids_3:
  "List.map_filter nid objects_3 = [795, 796, 704, 705, 706, 707, 708, 709, 710, 711, 712, 713, 714, 715, 716, 717, 718, 719, 720, 721, 722, 723, 724, 725, 726, 727, 728, 729, 730, 731, 732, 733, 734, 735, 736, 737]"
  unfolding objects_3_def by (intro nids_intros)

lemma oids_3: "list_all obj_ok objects_3"
  unfolding objects_3_def by (intro obj_ok_intros) (simp_all add: oid_ok_def oid_defs)

definition objects_4 :: "obj list" where
  "objects_4 = [
    Obj (Some ''wap-wsg-idm-ecid-wtls5'') None (Some 738) (Some (OBJ_wap_wsg_idm_ecid @ [5])),
    Obj (Some ''wap-wsg-idm-ecid-wtls6'') None (Some 739) (Some (OBJ_wap_wsg_idm_ecid @ [6])),
    Obj (Some ''wap-wsg-idm-ecid-wtls7'') None (Some 740) (Some (OBJ_wap_wsg_idm_ecid @ [7])),
    Obj (Some ''wap-wsg-idm-ecid-wtls8'') None (Some 741) (Some (OBJ_wap_wsg_idm_ecid @ [8])),
    Obj (Some ''wap-wsg-idm-ecid-wtls9'') None (Some 742) (Some (OBJ_wap_wsg_idm_ecid @ [9])),
    Obj (Some ''wap-wsg-idm-ecid-wtls10'') None (Some 743) (Some (OBJ_wap_wsg_idm_ecid @ [10])),
    Obj (Some ''wap-wsg-idm-ecid-wtls11'') None (Some 744) (Some (OBJ_wap_wsg_idm_ecid @ [11])),
    Obj (Some ''wap-wsg-idm-ecid-wtls12'') None (Some 745) (Some (OBJ_wap_wsg_idm_ecid @ [12])),
    Obj (Some ''CAST5-CBC'') (Some ''cast5-cbc'') (Some 108) (Some (OBJ_ISO_US @ [113533, 7, 66, 10])),
    Obj (Some ''CAST5-ECB'') (Some ''cast5-ecb'') (Some 109) None,
    Obj (Some ''CAST5-CFB'') (Some ''cast5-cfb'') (Some 110) None,
    Obj (Some ''CAST5-OFB'') (Some ''cast5-ofb'') (Some 111) None,
    Obj None (Some ''pbeWithMD5AndCast5CBC'') (Some 112) (Some (OBJ_ISO_US @ [113533, 7, 66, 12])),
    Obj (Some ''id-PasswordBasedMAC'') (Some ''password based MAC'') (Some 782) (Some (OBJ_ISO_US @ [113533, 7, 66, 13])),
    Obj (Some ''id-DHBasedMac'') (Some ''Diffie-Hellman based MAC'') (Some 783) (Some (OBJ_ISO_US @ [113533, 7, 66, 30])),
    Obj (Some ''rsadsi'') (Some ''RSA Data Security, Inc.'') (Some 1) (Some OBJ_rsadsi),
    Obj (Some ''pkcs'') (Some ''RSA Data Security, Inc. PKCS'') (Some 2) (Some OBJ_pkcs),
    Obj (Some ''pkcs1'') None (Some 186) (Some OBJ_pkcs1),
    Obj None (Some ''rsaEncryption'') (Some 6) (Some OBJ_rsaEncryption),
    Obj (Some ''RSA-MD2'') (Some ''md2WithRSAEncryption'') (Some 7) (Some OBJ_md2WithRSAEncryption),
    Obj (Some ''RSA-MD4'') (Some ''md4WithRSAEncryption'') (Some 396) (Some OBJ_md4WithRSAEncryption),
    Obj (Some ''RSA-MD5'') (Some ''md5WithRSAEncryption'') (Some 8) (Some OBJ_md5WithRSAEncryption),
    Obj (Some ''RSA-SHA1'') (Some ''sha1WithRSAEncryption'') (Some 65) (Some OBJ_sha1WithRSAEncryption),
    Obj (Some ''RSAES-OAEP'') (Some ''rsaesOaep'') (Some 919) (Some OBJ_rsaesOaep),
    Obj (Some ''MGF1'') (Some ''mgf1'') (Some 911) (Some OBJ_mgf1),
    Obj (Some ''PSPECIFIED'') (Some ''pSpecified'') (Some 935) (Some OBJ_pSpecified),
    Obj (Some ''RSASSA-PSS'') (Some ''rsassaPss'') (Some 912) (Some OBJ_rsassaPss),
    Obj (Some ''RSA-SHA256'') (Some ''sha256WithRSAEncryption'') (Some 668) (Some OBJ_sha256WithRSAEncryption),
    Obj (Some ''RSA-SHA384'') (Some ''sha384WithRSAEncryption'') (Some 669) (Some OBJ_sha384WithRSAEncryption),
    Obj (Some ''RSA-SHA512'') (Some ''sha512WithRSAEncryption'') (Some 670) (Some OBJ_sha512WithRSAEncryption),
    Obj (Some ''RSA-SHA224'') (Some ''sha224WithRSAEncryption'') (Some 671) (Some OBJ_sha224WithRSAEncryption),
    Obj (Some ''RSA-SHA512/224'') (Some ''sha512-224WithRSAEncryption'') (Some 1145) (Some OBJ_sha512_224WithRSAEncryption),
    Obj (Some ''RSA-SHA512/256'') (Some ''sha512-256WithRSAEncryption'') (Some 1146) (Some OBJ_sha512_256WithRSAEncryption)]"

lemma nids_4:
  "List.map_filter nid objects_4 = [738, 739, 740, 741, 742, 743, 744, 745, 108, 109, 110, 111, 112, 782, 783, 1, 2, 186, 6, 7, 396, 8, 65, 919, 911, 935, 912, 668, 669, 670, 671, 1145, 1146]"
  unfolding objects_4_def by (intro nids_intros)

lemma oids_4: "list_all obj_ok objects_4"
  unfolding objects_4_def by (intro obj_ok_intros) (simp_all add: oid_ok_def oid_defs)

definition objects_5 :: "obj list" where
  "objects_5 = [
    Obj (Some ''pkcs3'') None (Some 27) (Some OBJ_pkcs3),
    Obj None (Some ''dhKeyAgreement'') (Some 28) (Some (OBJ_pkcs3 @ [1])),
    Obj (Some ''pkcs5'') None (Some 187) (Some OBJ_pkcs5),
    Obj (Some ''PBE-MD2-DES'') (Some ''pbeWithMD2AndDES-CBC'') (Some 9) (Some (OBJ_pkcs5 @ [1])),
    Obj (Some ''PBE-MD5-DES'') (Some ''pbeWithMD5AndDES-CBC'') (Some 10) (Some (OBJ_pkcs5 @ [3])),
    Obj (Some ''PBE-MD2-RC2-64'') (Some ''pbeWithMD2AndRC2-CBC'') (Some 168) (Some (OBJ_pkcs5 @ [4])),
    Obj (Some ''PBE-MD5-RC2-64'') (Some ''pbeWithMD5AndRC2-CBC'') (Some 169) (Some (OBJ_pkcs5 @ [6])),
    Obj (Some ''PBE-SHA1-DES'') (Some ''pbeWithSHA1AndDES-CBC'') (Some 170) (Some (OBJ_pkcs5 @ [10])),
    Obj (Some ''PBE-SHA1-RC2-64'') (Some ''pbeWithSHA1AndRC2-CBC'') (Some 68) (Some (OBJ_pkcs5 @ [11])),
    Obj None (Some ''PBKDF2'') (Some 69) (Some (OBJ_pkcs5 @ [12])),
    Obj None (Some ''PBES2'') (Some 161) (Some (OBJ_pkcs5 @ [13])),
    Obj None (Some ''PBMAC1'') (Some 162) (Some (OBJ_pkcs5 @ [14])),
    Obj (Some ''pkcs7'') None (Some 20) (Some OBJ_pkcs7),
    Obj None (Some ''pkcs7-data'') (Some 21) (Some (OBJ_pkcs7 @ [1])),
    Obj None (Some ''pkcs7-signedData'') (Some 22) (Some (OBJ_pkcs7 @ [2])),
    Obj None (Some ''pkcs7-envelopedData'') (Some 23) (Some (OBJ_pkcs7 @ [3])),
    Obj None (Some ''pkcs7-signedAndEnvelopedData'') (Some 24) (Some (OBJ_pkcs7 @ [4])),
    Obj None (Some ''pkcs7-digestData'') (Some 25) (Some (OBJ_pkcs7 @ [5])),
    Obj None (Some ''pkcs7-encryptedData'') (Some 26) (Some (OBJ_pkcs7 @ [6])),
    Obj (Some ''pkcs9'') None (Some 47) (Some OBJ_pkcs9),
    Obj None (Some ''emailAddress'') (Some 48) (Some (OBJ_pkcs9 @ [1])),
    Obj None (Some ''unstructuredName'') (Some 49) (Some (OBJ_pkcs9 @ [2])),
    Obj None (Some ''contentType'') (Some 50) (Some (OBJ_pkcs9 @ [3])),
    Obj None (Some ''messageDigest'') (Some 51) (Some (OBJ_pkcs9 @ [4])),
    Obj None (Some ''signingTime'') (Some 52) (Some (OBJ_pkcs9 @ [5])),
    Obj None (Some ''countersignature'') (Some 53) (Some (OBJ_pkcs9 @ [6])),
    Obj None (Some ''challengePassword'') (Some 54) (Some (OBJ_pkcs9 @ [7])),
    Obj None (Some ''unstructuredAddress'') (Some 55) (Some (OBJ_pkcs9 @ [8])),
    Obj None (Some ''extendedCertificateAttributes'') (Some 56) (Some (OBJ_pkcs9 @ [9])),
    Obj (Some ''extReq'') (Some ''Extension Request'') (Some 172) (Some (OBJ_pkcs9 @ [14])),
    Obj (Some ''SMIME-CAPS'') (Some ''S/MIME Capabilities'') (Some 167) (Some (OBJ_pkcs9 @ [15])),
    Obj (Some ''SMIME'') (Some ''S/MIME'') (Some 188) (Some OBJ_SMIME),
    Obj (Some ''id-smime-mod'') None (Some 189) (Some OBJ_id_smime_mod),
    Obj (Some ''id-smime-ct'') None (Some 190) (Some OBJ_id_smime_ct),
    Obj (Some ''id-smime-aa'') None (Some 191) (Some OBJ_id_smime_aa)]"

lemma nids_5:
  "List.map_filter nid objects_5 = [27, 28, 187, 9, 10, 168, 169, 170, 68, 69, 161, 162, 20, 21, 22, 23, 24, 25, 26, 47, 48, 49, 50, 51, 52, 53, 54, 55, 56, 172, 167, 188, 189, 190, 191]"
  unfolding objects_5_def by (intro nids_intros)

lemma oids_5: "list_all obj_ok objects_5"
  unfolding objects_5_def by (intro obj_ok_intros) (simp_all add: oid_ok_def oid_defs)

definition objects_6 :: "obj list" where
  "objects_6 = [
    Obj (Some ''id-smime-alg'') None (Some 192) (Some OBJ_id_smime_alg),
    Obj (Some ''id-smime-cd'') None (Some 193) (Some OBJ_id_smime_cd),
    Obj (Some ''id-smime-spq'') None (Some 194) (Some OBJ_id_smime_spq),
    Obj (Some ''id-smime-cti'') None (Some 195) (Some OBJ_id_smime_cti),
    Obj (Some ''id-smime-mod-cms'') None (Some 196) (Some (OBJ_id_smime_mod @ [1])),
    Obj (Some ''id-smime-mod-ess'') None (Some 197) (Some (OBJ_id_smime_mod @ [2])),
    Obj (Some ''id-smime-mod-oid'') None (Some 198) (Some (OBJ_id_smime_mod @ [3])),
    Obj (Some ''id-smime-mod-msg-v3'') None (Some 199) (Some (OBJ_id_smime_mod @ [4])),
    Obj (Some ''id-smime-mod-ets-eSignature-88'') None (Some 200) (Some (OBJ_id_smime_mod @ [5])),
    Obj (Some ''id-smime-mod-ets-eSignature-97'') None (Some 201) (Some (OBJ_id_smime_mod @ [6])),
    Obj (Some ''id-smime-mod-ets-eSigPolicy-88'') None (Some 202) (Some (OBJ_id_smime_mod @ [7])),
    Obj (Some ''id-smime-mod-ets-eSigPolicy-97'') None (Some 203) (Some (OBJ_id_smime_mod @ [8])),
    Obj (Some ''id-smime-ct-receipt'') None (Some 204) (Some (OBJ_id_smime_ct @ [1])),
    Obj (Some ''id-smime-ct-authData'') None (Some 205) (Some (OBJ_id_smime_ct @ [2])),
    Obj (Some ''id-smime-ct-publishCert'') None (Some 206) (Some (OBJ_id_smime_ct @ [3])),
    Obj (Some ''id-smime-ct-TSTInfo'') None (Some 207) (Some (OBJ_id_smime_ct @ [4])),
    Obj (Some ''id-smime-ct-TDTInfo'') None (Some 208) (Some (OBJ_id_smime_ct @ [5])),
    Obj (Some ''id-smime-ct-contentInfo'') None (Some 209) (Some (OBJ_id_smime_ct @ [6])),
    Obj (Some ''id-smime-ct-DVCSRequestData'') None (Some 210) (Some (OBJ_id_smime_ct @ [7])),
    Obj (Some ''id-smime-ct-DVCSResponseData'') None (Some 211) (Some (OBJ_id_smime_ct @ [8])),
    Obj (Some ''id-smime-ct-compressedData'') None (Some 786) (Some (OBJ_id_smime_ct @ [9])),
    Obj (Some ''id-smime-ct-contentCollection'') None (Some 1058) (Some (OBJ_id_smime_ct @ [19])),
    Obj (Some ''id-smime-ct-authEnvelopedData'') None (Some 1059) (Some (OBJ_id_smime_ct @ [23])),
    Obj (Some ''id-ct-routeOriginAuthz'') None (Some 1234) (Some (OBJ_id_smime_ct @ [24])),
    Obj (Some ''id-ct-rpkiManifest'') None (Some 1235) (Some (OBJ_id_smime_ct @ [26])),
    Obj (Some ''id-ct-asciiTextWithCRLF'') None (Some 787) (Some (OBJ_id_smime_ct @ [27])),
    Obj (Some ''id-ct-xml'') None (Some 1060) (Some (OBJ_id_smime_ct @ [28])),
    Obj (Some ''id-ct-rpkiGhostbusters'') None (Some 1236) (Some (OBJ_id_smime_ct @ [35])),
    Obj (Some ''id-ct-resourceTaggedAttest'') None (Some 1237) (Some (OBJ_id_smime_ct @ [36])),
    Obj (Some ''id-ct-geofeedCSVwithCRLF'') None (Some 1246) (Some (OBJ_id_smime_ct @ [47])),
    Obj (Some ''id-ct-signedChecklist'') None (Some 1247) (Some (OBJ_id_smime_ct @ [48])),
    Obj (Some ''id-smime-aa-receiptRequest'') None (Some 212) (Some (OBJ_id_smime_aa @ [1])),
    Obj (Some ''id-smime-aa-securityLabel'') None (Some 213) (Some (OBJ_id_smime_aa @ [2])),
    Obj (Some ''id-smime-aa-mlExpandHistory'') None (Some 214) (Some (OBJ_id_smime_aa @ [3])),
    Obj (Some ''id-smime-aa-contentHint'') None (Some 215) (Some (OBJ_id_smime_aa @ [4])),
    Obj (Some ''id-smime-aa-msgSigDigest'') None (Some 216) (Some (OBJ_id_smime_aa @ [5])),
    Obj (Some ''id-smime-aa-encapContentType'') None (Some 217) (Some (OBJ_id_smime_aa @ [6]))]"

lemma nids_6:
  "List.map_filter nid objects_6 = [192, 193, 194, 195, 196, 197, 198, 199, 200, 201, 202, 203, 204, 205, 206, 207, 208, 209, 210, 211, 786, 1058, 1059, 1234, 1235, 787, 1060, 1236, 1237, 1246, 1247, 212, 213, 214, 215, 216, 217]"
  unfolding objects_6_def by (intro nids_intros)

lemma oids_6: "list_all obj_ok objects_6"
  unfolding objects_6_def by (intro obj_ok_intros) (simp_all add: oid_ok_def oid_defs)

definition objects_7 :: "obj list" where
  "objects_7 = [
    Obj (Some ''id-smime-aa-contentIdentifier'') None (Some 218) (Some (OBJ_id_smime_aa @ [7])),
    Obj (Some ''id-smime-aa-macValue'') None (Some 219) (Some (OBJ_id_smime_aa @ [8])),
    Obj (Some ''id-smime-aa-equivalentLabels'') None (Some 220) (Some (OBJ_id_smime_aa @ [9])),
    Obj (Some ''id-smime-aa-contentReference'') None (Some 221) (Some (OBJ_id_smime_aa @ [10])),
    Obj (Some ''id-smime-aa-encrypKeyPref'') None (Some 222) (Some (OBJ_id_smime_aa @ [11])),
    Obj (Some ''id-smime-aa-signingCertificate'') None (Some 223) (Some (OBJ_id_smime_aa @ [12])),
    Obj (Some ''id-smime-aa-smimeEncryptCerts'') None (Some 224) (Some (OBJ_id_smime_aa @ [13])),
    Obj (Some ''id-smime-aa-timeStampToken'') None (Some 225) (Some (OBJ_id_smime_aa @ [14])),
    Obj (Some ''id-smime-aa-ets-sigPolicyId'') None (Some 226) (Some (OBJ_id_smime_aa @ [15])),
    Obj (Some ''id-smime-aa-ets-commitmentType'') None (Some 227) (Some (OBJ_id_smime_aa @ [16])),
    Obj (Some ''id-smime-aa-ets-signerLocation'') None (Some 228) (Some (OBJ_id_smime_aa @ [17])),
    Obj (Some ''id-smime-aa-ets-signerAttr'') None (Some 229) (Some (OBJ_id_smime_aa @ [18])),
    Obj (Some ''id-smime-aa-ets-otherSigCert'') None (Some 230) (Some (OBJ_id_smime_aa @ [19])),
    Obj (Some ''id-smime-aa-ets-contentTimestamp'') None (Some 231) (Some (OBJ_id_smime_aa @ [20])),
    Obj (Some ''id-smime-aa-ets-CertificateRefs'') None (Some 232) (Some (OBJ_id_smime_aa @ [21])),
    Obj (Some ''id-smime-aa-ets-RevocationRefs'') None (Some 233) (Some (OBJ_id_smime_aa @ [22])),
    Obj (Some ''id-smime-aa-ets-certValues'') None (Some 234) (Some (OBJ_id_smime_aa @ [23])),
    Obj (Some ''id-smime-aa-ets-revocationValues'') None (Some 235) (Some (OBJ_id_smime_aa @ [24])),
    Obj (Some ''id-smime-aa-ets-escTimeStamp'') None (Some 236) (Some (OBJ_id_smime_aa @ [25])),
    Obj (Some ''id-smime-aa-ets-certCRLTimestamp'') None (Some 237) (Some (OBJ_id_smime_aa @ [26])),
    Obj (Some ''id-smime-aa-ets-archiveTimeStamp'') None (Some 238) (Some (OBJ_id_smime_aa @ [27])),
    Obj (Some ''id-smime-aa-signatureType'') None (Some 239) (Some (OBJ_id_smime_aa @ [28])),
    Obj (Some ''id-smime-aa-dvcs-dvc'') None (Some 240) (Some (OBJ_id_smime_aa @ [29])),
    Obj (Some ''id-smime-aa-signingCertificateV2'') None (Some 1086) (Some (OBJ_id_smime_aa @ [47])),
    Obj (Some ''id-smime-alg-ESDHwith3DES'') None (Some 241) (Some (OBJ_id_smime_alg @ [1])),
    Obj (Some ''id-smime-alg-ESDHwithRC2'') None (Some 242) (Some (OBJ_id_smime_alg @ [2])),
    Obj (Some ''id-smime-alg-3DESwrap'') None (Some 243) (Some (OBJ_id_smime_alg @ [3])),
    Obj (Some ''id-smime-alg-RC2wrap'') None (Some 244) (Some (OBJ_id_smime_alg @ [4])),
    Obj (Some ''id-smime-alg-ESDH'') None (Some 245) (Some (OBJ_id_smime_alg @ [5])),
    Obj (Some ''id-smime-alg-CMS3DESwrap'') None (Some 246) (Some OBJ_id_smime_alg_CMS3DESwrap),
    Obj (Some ''id-smime-alg-CMSRC2wrap'') None (Some 247) (Some (OBJ_id_smime_alg @ [7])),
    Obj (Some ''id-alg-PWRI-KEK'') None (Some 893) (Some (OBJ_id_smime_alg @ [9])),
    Obj (Some ''id-smime-cd-ldap'') None (Some 248) (Some (OBJ_id_smime_cd @ [1])),
    Obj (Some ''id-smime-spq-ets-sqt-uri'') None (Some 249) (Some (OBJ_id_smime_spq @ [1])),
    Obj (Some ''id-smime-spq-ets-sqt-unotice'') None (Some 250) (Some (OBJ_id_smime_spq @ [2])),
    Obj (Some ''id-smime-cti-ets-proofOfOrigin'') None (Some 251) (Some (OBJ_id_smime_cti @ [1])),
    Obj (Some ''id-smime-cti-ets-proofOfReceipt'') None (Some 252) (Some (OBJ_id_smime_cti @ [2]))]"

lemma nids_7:
  "List.map_filter nid objects_7 = [218, 219, 220, 221, 222, 223, 224, 225, 226, 227, 228, 229, 230, 231, 232, 233, 234, 235, 236, 237, 238, 239, 240, 1086, 241, 242, 243, 244, 245, 246, 247, 893, 248, 249, 250, 251, 252]"
  unfolding objects_7_def by (intro nids_intros)

lemma oids_7: "list_all obj_ok objects_7"
  unfolding objects_7_def by (intro obj_ok_intros) (simp_all add: oid_ok_def oid_defs)

definition objects_8 :: "obj list" where
  "objects_8 = [
    Obj (Some ''id-smime-cti-ets-proofOfDelivery'') None (Some 253) (Some (OBJ_id_smime_cti @ [3])),
    Obj (Some ''id-smime-cti-ets-proofOfSender'') None (Some 254) (Some (OBJ_id_smime_cti @ [4])),
    Obj (Some ''id-smime-cti-ets-proofOfApproval'') None (Some 255) (Some (OBJ_id_smime_cti @ [5])),
    Obj (Some ''id-smime-cti-ets-proofOfCreation'') None (Some 256) (Some (OBJ_id_smime_cti @ [6])),
    Obj None (Some ''friendlyName'') (Some 156) (Some (OBJ_pkcs9 @ [20])),
    Obj None (Some ''localKeyID'') (Some 157) (Some (OBJ_pkcs9 @ [21])),
    Obj (Some ''CSPName'') (Some ''Microsoft CSP Name'') (Some 417) (Some ([1, 3, 6, 1, 4, 1, 311, 17, 1])),
    Obj (Some ''LocalKeySet'') (Some ''Microsoft Local Key set'') (Some 856) (Some ([1, 3, 6, 1, 4, 1, 311, 17, 2])),
    Obj None None None (Some OBJ_certTypes),
    Obj None (Some ''x509Certificate'') (Some 158) (Some (OBJ_certTypes @ [1])),
    Obj None (Some ''sdsiCertificate'') (Some 159) (Some (OBJ_certTypes @ [2])),
    Obj None None None (Some OBJ_crlTypes),
    Obj None (Some ''x509Crl'') (Some 160) (Some (OBJ_crlTypes @ [1])),
    Obj None None None (Some OBJ_pkcs12),
    Obj None None None (Some OBJ_pkcs12_pbeids),
    Obj (Some ''PBE-SHA1-RC4-128'') (Some ''pbeWithSHA1And128BitRC4'') (Some 144) (Some (OBJ_pkcs12_pbeids @ [1])),
    Obj (Some ''PBE-SHA1-RC4-40'') (Some ''pbeWithSHA1And40BitRC4'') (Some 145) (Some (OBJ_pkcs12_pbeids @ [2])),
    Obj (Some ''PBE-SHA1-3DES'') (Some ''pbeWithSHA1And3-KeyTripleDES-CBC'') (Some 146) (Some (OBJ_pkcs12_pbeids @ [3])),
    Obj (Some ''PBE-SHA1-2DES'') (Some ''pbeWithSHA1And2-KeyTripleDES-CBC'') (Some 147) (Some (OBJ_pkcs12_pbeids @ [4])),
    Obj (Some ''PBE-SHA1-RC2-128'') (Some ''pbeWithSHA1And128BitRC2-CBC'') (Some 148) (Some (OBJ_pkcs12_pbeids @ [5])),
    Obj (Some ''PBE-SHA1-RC2-40'') (Some ''pbeWithSHA1And40BitRC2-CBC'') (Some 149) (Some (OBJ_pkcs12_pbeids @ [6])),
    Obj None None None (Some OBJ_pkcs12_Version1),
    Obj None None None (Some OBJ_pkcs12_BagIds),
    Obj None (Some ''keyBag'') (Some 150) (Some (OBJ_pkcs12_BagIds @ [1])),
    Obj None (Some ''pkcs8ShroudedKeyBag'') (Some 151) (Some (OBJ_pkcs12_BagIds @ [2])),
    Obj None (Some ''certBag'') (Some 152) (Some (OBJ_pkcs12_BagIds @ [3])),
    Obj None (Some ''crlBag'') (Some 153) (Some (OBJ_pkcs12_BagIds @ [4])),
    Obj None (Some ''secretBag'') (Some 154) (Some (OBJ_pkcs12_BagIds @ [5])),
    Obj None (Some ''safeContentsBag'') (Some 155) (Some (OBJ_pkcs12_BagIds @ [6])),
    Obj (Some ''MD2'') (Some ''md2'') (Some 3) (Some OBJ_md2),
    Obj (Some ''MD4'') (Some ''md4'') (Some 257) (Some (OBJ_rsadsi @ [2, 4])),
    Obj (Some ''MD5'') (Some ''md5'') (Some 4) (Some OBJ_md5),
    Obj (Some ''MD5-SHA1'') (Some ''md5-sha1'') (Some 114) None,
    Obj None (Some ''hmacWithMD5'') (Some 797) (Some (OBJ_rsadsi @ [2, 6])),
    Obj None (Some ''hmacWithSHA1'') (Some 163) (Some (OBJ_rsadsi @ [2, 7])),
    Obj (Some ''SM2'') (Some ''sm2'') (Some 1172) (Some OBJ_sm2),
    Obj (Some ''SM3'') (Some ''sm3'') (Some 1143) (Some (OBJ_sm_scheme @ [401]))]"

lemma nids_8:
  "List.map_filter nid objects_8 = [253, 254, 255, 256, 156, 157, 417, 856, 158, 159, 160, 144, 145, 146, 147, 148, 149, 150, 151, 152, 153, 154, 155, 3, 257, 4, 114, 797, 163, 1172, 1143]"
  unfolding objects_8_def by (intro nids_intros)

lemma oids_8: "list_all obj_ok objects_8"
  unfolding objects_8_def by (intro obj_ok_intros) (simp_all add: oid_ok_def oid_defs)

definition objects_9 :: "obj list" where
  "objects_9 = [
    Obj (Some ''RSA-SM3'') (Some ''sm3WithRSAEncryption'') (Some 1144) (Some (OBJ_sm_scheme @ [504])),
    Obj (Some ''SM2-SM3'') (Some ''SM2-with-SM3'') (Some 1204) (Some OBJ_SM2_with_SM3),
    Obj None (Some ''hmacWithSHA224'') (Some 798) (Some (OBJ_rsadsi @ [2, 8])),
    Obj None (Some ''hmacWithSHA256'') (Some 799) (Some (OBJ_rsadsi @ [2, 9])),
    Obj None (Some ''hmacWithSHA384'') (Some 800) (Some (OBJ_rsadsi @ [2, 10])),
    Obj None (Some ''hmacWithSHA512'') (Some 801) (Some (OBJ_rsadsi @ [2, 11])),
    Obj None (Some ''hmacWithSHA512-224'') (Some 1193) (Some (OBJ_rsadsi @ [2, 12])),
    Obj None (Some ''hmacWithSHA512-256'') (Some 1194) (Some (OBJ_rsadsi @ [2, 13])),
    Obj (Some ''RC2-CBC'') (Some ''rc2-cbc'') (Some 37) (Some (OBJ_rsadsi @ [3, 2])),
    Obj (Some ''RC2-ECB'') (Some ''rc2-ecb'') (Some 38) None,
    Obj (Some ''RC2-CFB'') (Some ''rc2-cfb'') (Some 39) None,
    Obj (Some ''RC2-OFB'') (Some ''rc2-ofb'') (Some 40) None,
    Obj (Some ''RC2-40-CBC'') (Some ''rc2-40-cbc'') (Some 98) None,
    Obj (Some ''RC2-64-CBC'') (Some ''rc2-64-cbc'') (Some 166) None,
    Obj (Some ''RC4'') (Some ''rc4'') (Some 5) (Some (OBJ_rsadsi @ [3, 4])),
    Obj (Some ''RC4-40'') (Some ''rc4-40'') (Some 97) None,
    Obj (Some ''DES-EDE3-CBC'') (Some ''des-ede3-cbc'') (Some 44) (Some (OBJ_rsadsi @ [3, 7])),
    Obj (Some ''RC5-CBC'') (Some ''rc5-cbc'') (Some 120) (Some (OBJ_rsadsi @ [3, 8])),
    Obj (Some ''RC5-ECB'') (Some ''rc5-ecb'') (Some 121) None,
    Obj (Some ''RC5-CFB'') (Some ''rc5-cfb'') (Some 122) None,
    Obj (Some ''RC5-OFB'') (Some ''rc5-ofb'') (Some 123) None,
    Obj (Some ''msExtReq'') (Some ''Microsoft Extension Request'') (Some 171) (Some ([1, 3, 6, 1, 4, 1, 311, 2, 1, 14])),
    Obj (Some ''msCodeInd'') (Some ''Microsoft Individual Code Signing'') (Some 134) (Some ([1, 3, 6, 1, 4, 1, 311, 2, 1, 21])),
    Obj (Some ''msCodeCom'') (Some ''Microsoft Commercial Code Signing'') (Some 135) (Some ([1, 3, 6, 1, 4, 1, 311, 2, 1, 22])),
    Obj (Some ''msCTLSign'') (Some ''Microsoft Trust List Signing'') (Some 136) (Some ([1, 3, 6, 1, 4, 1, 311, 10, 3, 1])),
    Obj (Some ''msSGC'') (Some ''Microsoft Server Gated Crypto'') (Some 137) (Some ([1, 3, 6, 1, 4, 1, 311, 10, 3, 3])),
    Obj (Some ''msEFS'') (Some ''Microsoft Encrypted File System'') (Some 138) (Some ([1, 3, 6, 1, 4, 1, 311, 10, 3, 4])),
    Obj (Some ''msSmartcardLogin'') (Some ''Microsoft Smartcard Login'') (Some 648) (Some ([1, 3, 6, 1, 4, 1, 311, 20, 2, 2])),
    Obj (Some ''msUPN'') (Some ''Microsoft User Principal Name'') (Some 649) (Some ([1, 3, 6, 1, 4, 1, 311, 20, 2, 3])),
    Obj (Some ''IDEA-CBC'') (Some ''idea-cbc'') (Some 34) (Some ([1, 3, 6, 1, 4, 1, 188, 7, 1, 1, 2])),
    Obj (Some ''IDEA-ECB'') (Some ''idea-ecb'') (Some 36) None,
    Obj (Some ''IDEA-CFB'') (Some ''idea-cfb'') (Some 35) None,
    Obj (Some ''IDEA-OFB'') (Some ''idea-ofb'') (Some 46) None]"

lemma nids_9:
  "List.map_filter nid objects_9 = [1144, 1204, 798, 799, 800, 801, 1193, 1194, 37, 38, 39, 40, 98, 166, 5, 97, 44, 120, 121, 122, 123, 171, 134, 135, 136, 137, 138, 648, 649, 34, 36, 35, 46]"
  unfolding objects_9_def by (intro nids_intros)

lemma oids_9: "list_all obj_ok objects_9"
  unfolding objects_9_def by (intro obj_ok_intros) (simp_all add: oid_ok_def oid_defs)

definition objects_10 :: "obj list" where
  "objects_10 = [
    Obj (Some ''BF-CBC'') (Some ''bf-cbc'') (Some 91) (Some ([1, 3, 6, 1, 4, 1, 3029, 1, 2])),
    Obj (Some ''BF-ECB'') (Some ''bf-ecb'') (Some 92) None,
    Obj (Some ''BF-CFB'') (Some ''bf-cfb'') (Some 93) None,
    Obj (Some ''BF-OFB'') (Some ''bf-ofb'') (Some 94) None,
    Obj (Some ''PKIX'') None (Some 127) (Some OBJ_id_pkix),
    Obj (Some ''id-pkix-mod'') None (Some 258) (Some OBJ_id_pkix_mod),
    Obj (Some ''id-pe'') None (Some 175) (Some OBJ_id_pe),
    Obj (Some ''id-qt'') None (Some 259) (Some OBJ_id_qt),
    Obj (Some ''id-kp'') None (Some 128) (Some OBJ_id_kp),
    Obj (Some ''id-it'') None (Some 260) (Some OBJ_id_it),
    Obj (Some ''id-pkip'') None (Some 261) (Some OBJ_id_pkip),
    Obj (Some ''id-alg'') None (Some 262) (Some OBJ_id_alg),
    Obj (Some ''id-cmc'') None (Some 263) (Some OBJ_id_cmc),
    Obj (Some ''id-on'') None (Some 264) (Some OBJ_id_on),
    Obj (Some ''id-pda'') None (Some 265) (Some OBJ_id_pda),
    Obj (Some ''id-aca'') None (Some 266) (Some OBJ_id_aca),
    Obj (Some ''id-qcs'') None (Some 267) (Some OBJ_id_qcs),
    Obj (Some ''id-cp'') None (Some 1238) (Some OBJ_id_cp),
    Obj (Some ''id-cct'') None (Some 268) (Some OBJ_id_cct),
    Obj (Some ''id-ppl'') None (Some 662) (Some OBJ_id_ppl),
    Obj (Some ''id-ad'') None (Some 176) (Some OBJ_id_ad),
    Obj (Some ''id-pkix1-explicit-88'') None (Some 269) (Some (OBJ_id_pkix_mod @ [1])),
    Obj (Some ''id-pkix1-implicit-88'') None (Some 270) (Some (OBJ_id_pkix_mod @ [2])),
    Obj (Some ''id-pkix1-explicit-93'') None (Some 271) (Some (OBJ_id_pkix_mod @ [3])),
    Obj (Some ''id-pkix1-implicit-93'') None (Some 272) (Some (OBJ_id_pkix_mod @ [4])),
    Obj (Some ''id-mod-crmf'') None (Some 273) (Some (OBJ_id_pkix_mod @ [5])),
    Obj (Some ''id-mod-cmc'') None (Some 274) (Some (OBJ_id_pkix_mod @ [6])),
    Obj (Some ''id-mod-kea-profile-88'') None (Some 275) (Some (OBJ_id_pkix_mod @ [7])),
    Obj (Some ''id-mod-kea-profile-93'') None (Some 276) (Some (OBJ_id_pkix_mod @ [8])),
    Obj (Some ''id-mod-cmp'') None (Some 277) (Some (OBJ_id_pkix_mod @ [9])),
    Obj (Some ''id-mod-qualified-cert-88'') None (Some 278) (Some (OBJ_id_pkix_mod @ [10])),
    Obj (Some ''id-mod-qualified-cert-93'') None (Some 279) (Some (OBJ_id_pkix_mod @ [11])),
    Obj (Some ''id-mod-attribute-cert'') None (Some 280) (Some (OBJ_id_pkix_mod @ [12])),
    Obj (Some ''id-mod-timestamp-protocol'') None (Some 281) (Some (OBJ_id_pkix_mod @ [13])),
    Obj (Some ''id-mod-ocsp'') None (Some 282) (Some (OBJ_id_pkix_mod @ [14])),
    Obj (Some ''id-mod-dvcs'') None (Some 283) (Some (OBJ_id_pkix_mod @ [15])),
    Obj (Some ''id-mod-cmp2000'') None (Some 284) (Some (OBJ_id_pkix_mod @ [16]))]"

lemma nids_10:
  "List.map_filter nid objects_10 = [91, 92, 93, 94, 127, 258, 175, 259, 128, 260, 261, 262, 263, 264, 265, 266, 267, 1238, 268, 662, 176, 269, 270, 271, 272, 273, 274, 275, 276, 277, 278, 279, 280, 281, 282, 283, 284]"
  unfolding objects_10_def by (intro nids_intros)

lemma oids_10: "list_all obj_ok objects_10"
  unfolding objects_10_def by (intro obj_ok_intros) (simp_all add: oid_ok_def oid_defs)

definition objects_11 :: "obj list" where
  "objects_11 = [
    Obj (Some ''authorityInfoAccess'') (Some ''Authority Information Access'') (Some 177) (Some (OBJ_id_pe @ [1])),
    Obj (Some ''biometricInfo'') (Some ''Biometric Info'') (Some 285) (Some (OBJ_id_pe @ [2])),
    Obj (Some ''qcStatements'') None (Some 286) (Some (OBJ_id_pe @ [3])),
    Obj (Some ''ac-auditEntity'') None (Some 287) (Some (OBJ_id_pe @ [4])),
    Obj (Some ''ac-targeting'') None (Some 288) (Some (OBJ_id_pe @ [5])),
    Obj (Some ''aaControls'') None (Some 289) (Some (OBJ_id_pe @ [6])),
    Obj (Some ''sbgp-ipAddrBlock'') None (Some 290) (Some (OBJ_id_pe @ [7])),
    Obj (Some ''sbgp-autonomousSysNum'') None (Some 291) (Some (OBJ_id_pe @ [8])),
    Obj (Some ''sbgp-routerIdentifier'') None (Some 292) (Some (OBJ_id_pe @ [9])),
    Obj (Some ''ac-proxying'') None (Some 397) (Some (OBJ_id_pe @ [10])),
    Obj (Some ''subjectInfoAccess'') (Some ''Subject Information Access'') (Some 398) (Some (OBJ_id_pe @ [11])),
    Obj (Some ''proxyCertInfo'') (Some ''Proxy Certificate Information'') (Some 663) (Some (OBJ_id_pe @ [14])),
    Obj (Some ''tlsfeature'') (Some ''TLS Feature'') (Some 1020) (Some (OBJ_id_pe @ [24])),
    Obj (Some ''sbgp-ipAddrBlockv2'') None (Some 1239) (Some (OBJ_id_pe @ [28])),
    Obj (Some ''sbgp-autonomousSysNumv2'') None (Some 1240) (Some (OBJ_id_pe @ [29])),
    Obj (Some ''id-qt-cps'') (Some ''Policy Qualifier CPS'') (Some 164) (Some (OBJ_id_qt @ [1])),
    Obj (Some ''id-qt-unotice'') (Some ''Policy Qualifier User Notice'') (Some 165) (Some (OBJ_id_qt @ [2])),
    Obj (Some ''textNotice'') None (Some 293) (Some (OBJ_id_qt @ [3])),
    Obj (Some ''serverAuth'') (Some ''TLS Web Server Authentication'') (Some 129) (Some (OBJ_id_kp @ [1])),
    Obj (Some ''clientAuth'') (Some ''TLS Web Client Authentication'') (Some 130) (Some (OBJ_id_kp @ [2])),
    Obj (Some ''codeSigning'') (Some ''Code Signing'') (Some 131) (Some (OBJ_id_kp @ [3])),
    Obj (Some ''emailProtection'') (Some ''E-mail Protection'') (Some 132) (Some (OBJ_id_kp @ [4])),
    Obj (Some ''ipsecEndSystem'') (Some ''IPSec End System'') (Some 294) (Some (OBJ_id_kp @ [5])),
    Obj (Some ''ipsecTunnel'') (Some ''IPSec Tunnel'') (Some 295) (Some (OBJ_id_kp @ [6])),
    Obj (Some ''ipsecUser'') (Some ''IPSec User'') (Some 296) (Some (OBJ_id_kp @ [7])),
    Obj (Some ''timeStamping'') (Some ''Time Stamping'') (Some 133) (Some (OBJ_id_kp @ [8])),
    Obj (Some ''OCSPSigning'') (Some ''OCSP Signing'') (Some 180) (Some (OBJ_id_kp @ [9])),
    Obj (Some ''DVCS'') (Some ''dvcs'') (Some 297) (Some (OBJ_id_kp @ [10])),
    Obj (Some ''ipsecIKE'') (Some ''ipsec Internet Key Exchange'') (Some 1022) (Some (OBJ_id_kp @ [17])),
    Obj (Some ''capwapAC'') (Some ''Ctrl/provision WAP Access'') (Some 1023) (Some (OBJ_id_kp @ [18])),
    Obj (Some ''capwapWTP'') (Some ''Ctrl/Provision WAP Termination'') (Some 1024) (Some (OBJ_id_kp @ [19])),
    Obj (Some ''secureShellClient'') (Some ''SSH Client'') (Some 1025) (Some (OBJ_id_kp @ [21]))]"

lemma nids_11:
  "List.map_filter nid objects_11 = [177, 285, 286, 287, 288, 289, 290, 291, 292, 397, 398, 663, 1020, 1239, 1240, 164, 165, 293, 129, 130, 131, 132, 294, 295, 296, 133, 180, 297, 1022, 1023, 1024, 1025]"
  unfolding objects_11_def by (intro nids_intros)

lemma oids_11: "list_all obj_ok objects_11"
  unfolding objects_11_def by (intro obj_ok_intros) (simp_all add: oid_ok_def oid_defs)

definition objects_12 :: "obj list" where
  "objects_12 = [
    Obj (Some ''secureShellServer'') (Some ''SSH Server'') (Some 1026) (Some (OBJ_id_kp @ [22])),
    Obj (Some ''sendRouter'') (Some ''Send Router'') (Some 1027) (Some (OBJ_id_kp @ [23])),
    Obj (Some ''sendProxiedRouter'') (Some ''Send Proxied Router'') (Some 1028) (Some (OBJ_id_kp @ [24])),
    Obj (Some ''sendOwner'') (Some ''Send Owner'') (Some 1029) (Some (OBJ_id_kp @ [25])),
    Obj (Some ''sendProxiedOwner'') (Some ''Send Proxied Owner'') (Some 1030) (Some (OBJ_id_kp @ [26])),
    Obj (Some ''cmcCA'') (Some ''CMC Certificate Authority'') (Some 1131) (Some (OBJ_id_kp @ [27])),
    Obj (Some ''cmcRA'') (Some ''CMC Registration Authority'') (Some 1132) (Some (OBJ_id_kp @ [28])),
    Obj (Some ''cmcArchive'') (Some ''CMC Archive Server'') (Some 1219) (Some (OBJ_id_kp @ [29])),
    Obj (Some ''id-kp-bgpsec-router'') (Some ''BGPsec Router'') (Some 1220) (Some (OBJ_id_kp @ [30])),
    Obj (Some ''id-kp-BrandIndicatorforMessageIdentification'') (Some ''Brand Indicator for Message Identification'') (Some 1221) (Some (OBJ_id_kp @ [31])),
    Obj (Some ''cmKGA'') (Some ''Certificate Management Key Generation Authority'') (Some 1222) (Some (OBJ_id_kp @ [32])),
    Obj (Some ''id-it-caProtEncCert'') None (Some 298) (Some (OBJ_id_it @ [1])),
    Obj (Some ''id-it-signKeyPairTypes'') None (Some 299) (Some (OBJ_id_it @ [2])),
    Obj (Some ''id-it-encKeyPairTypes'') None (Some 300) (Some (OBJ_id_it @ [3])),
    Obj (Some ''id-it-preferredSymmAlg'') None (Some 301) (Some (OBJ_id_it @ [4])),
    Obj (Some ''id-it-caKeyUpdateInfo'') None (Some 302) (Some (OBJ_id_it @ [5])),
    Obj (Some ''id-it-currentCRL'') None (Some 303) (Some (OBJ_id_it @ [6])),
    Obj (Some ''id-it-unsupportedOIDs'') None (Some 304) (Some (OBJ_id_it @ [7])),
    Obj (Some ''id-it-subscriptionRequest'') None (Some 305) (Some (OBJ_id_it @ [8])),
    Obj (Some ''id-it-subscriptionResponse'') None (Some 306) (Some (OBJ_id_it @ [9])),
    Obj (Some ''id-it-keyPairParamReq'') None (Some 307) (Some (OBJ_id_it @ [10])),
    Obj (Some ''id-it-keyPairParamRep'') None (Some 308) (Some (OBJ_id_it @ [11])),
    Obj (Some ''id-it-revPassphrase'') None (Some 309) (Some (OBJ_id_it @ [12])),
    Obj (Some ''id-it-implicitConfirm'') None (Some 310) (Some (OBJ_id_it @ [13])),
    Obj (Some ''id-it-confirmWaitTime'') None (Some 311) (Some (OBJ_id_it @ [14])),
    Obj (Some ''id-it-origPKIMessage'') None (Some 312) (Some (OBJ_id_it @ [15])),
    Obj (Some ''id-it-suppLangTags'') None (Some 784) (Some (OBJ_id_it @ [16])),
    Obj (Some ''id-it-caCerts'') None (Some 1223) (Some (OBJ_id_it @ [17])),
    Obj (Some ''id-it-rootCaKeyUpdate'') None (Some 1224) (Some (OBJ_id_it @ [18])),
    Obj (Some ''id-it-certReqTemplate'') None (Some 1225) (Some (OBJ_id_it @ [19])),
    Obj (Some ''id-regCtrl'') None (Some 313) (Some OBJ_id_regCtrl),
    Obj (Some ''id-regInfo'') None (Some 314) (Some OBJ_id_regInfo),
    Obj (Some ''id-regCtrl-regToken'') None (Some 315) (Some (OBJ_id_regCtrl @ [1])),
    Obj (Some ''id-regCtrl-authenticator'') None (Some 316) (Some (OBJ_id_regCtrl @ [2])),
    Obj (Some ''id-regCtrl-pkiPublicationInfo'') None (Some 317) (Some (OBJ_id_regCtrl @ [3]))]"

lemma nids_12:
  "List.map_filter nid objects_12 = [1026, 1027, 1028, 1029, 1030, 1131, 1132, 1219, 1220, 1221, 1222, 298, 299, 300, 301, 302, 303, 304, 305, 306, 307, 308, 309, 310, 311, 312, 784, 1223, 1224, 1225, 313, 314, 315, 316, 317]"
  unfolding objects_12_def by (intro nids_intros)

lemma oids_12: "list_all obj_ok objects_12"
  unfolding objects_12_def by (intro obj_ok_intros) (simp_all add: oid_ok_def oid_defs)

definition objects_13 :: "obj list" where
  "objects_13 = [
    Obj (Some ''id-regCtrl-pkiArchiveOptions'') None (Some 318) (Some (OBJ_id_regCtrl @ [4])),
    Obj (Some ''id-regCtrl-oldCertID'') None (Some 319) (Some (OBJ_id_regCtrl @ [5])),
    Obj (Some ''id-regCtrl-protocolEncrKey'') None (Some 320) (Some (OBJ_id_regCtrl @ [6])),
    Obj (Some ''id-regInfo-utf8Pairs'') None (Some 321) (Some (OBJ_id_regInfo @ [1])),
    Obj (Some ''id-regInfo-certReq'') None (Some 322) (Some (OBJ_id_regInfo @ [2])),
    Obj (Some ''id-alg-des40'') None (Some 323) (Some (OBJ_id_alg @ [1])),
    Obj (Some ''id-alg-noSignature'') None (Some 324) (Some (OBJ_id_alg @ [2])),
    Obj (Some ''id-alg-dh-sig-hmac-sha1'') None (Some 325) (Some (OBJ_id_alg @ [3])),
    Obj (Some ''id-alg-dh-pop'') None (Some 326) (Some (OBJ_id_alg @ [4])),
    Obj (Some ''id-cmc-statusInfo'') None (Some 327) (Some (OBJ_id_cmc @ [1])),
    Obj (Some ''id-cmc-identification'') None (Some 328) (Some (OBJ_id_cmc @ [2])),
    Obj (Some ''id-cmc-identityProof'') None (Some 329) (Some (OBJ_id_cmc @ [3])),
    Obj (Some ''id-cmc-dataReturn'') None (Some 330) (Some (OBJ_id_cmc @ [4])),
    Obj (Some ''id-cmc-transactionId'') None (Some 331) (Some (OBJ_id_cmc @ [5])),
    Obj (Some ''id-cmc-senderNonce'') None (Some 332) (Some (OBJ_id_cmc @ [6])),
    Obj (Some ''id-cmc-recipientNonce'') None (Some 333) (Some (OBJ_id_cmc @ [7])),
    Obj (Some ''id-cmc-addExtensions'') None (Some 334) (Some (OBJ_id_cmc @ [8])),
    Obj (Some ''id-cmc-encryptedPOP'') None (Some 335) (Some (OBJ_id_cmc @ [9])),
    Obj (Some ''id-cmc-decryptedPOP'') None (Some 336) (Some (OBJ_id_cmc @ [10])),
    Obj (Some ''id-cmc-lraPOPWitness'') None (Some 337) (Some (OBJ_id_cmc @ [11])),
    Obj (Some ''id-cmc-getCert'') None (Some 338) (Some (OBJ_id_cmc @ [15])),
    Obj (Some ''id-cmc-getCRL'') None (Some 339) (Some (OBJ_id_cmc @ [16])),
    Obj (Some ''id-cmc-revokeRequest'') None (Some 340) (Some (OBJ_id_cmc @ [17])),
    Obj (Some ''id-cmc-regInfo'') None (Some 341) (Some (OBJ_id_cmc @ [18])),
    Obj (Some ''id-cmc-responseInfo'') None (Some 342) (Some (OBJ_id_cmc @ [19])),
    Obj (Some ''id-cmc-queryPending'') None (Some 343) (Some (OBJ_id_cmc @ [21])),
    Obj (Some ''id-cmc-popLinkRandom'') None (Some 344) (Some (OBJ_id_cmc @ [22])),
    Obj (Some ''id-cmc-popLinkWitness'') None (Some 345) (Some (OBJ_id_cmc @ [23])),
    Obj (Some ''id-cmc-confirmCertAcceptance'') None (Some 346) (Some (OBJ_id_cmc @ [24])),
    Obj (Some ''id-on-personalData'') None (Some 347) (Some (OBJ_id_on @ [1])),
    Obj (Some ''id-on-permanentIdentifier'') (Some ''Permanent Identifier'') (Some 858) (Some (OBJ_id_on @ [3])),
    Obj (Some ''id-on-xmppAddr'') (Some ''XmppAddr'') (Some 1209) (Some (OBJ_id_on @ [5])),
    Obj (Some ''id-on-dnsSRV'') (Some ''SRVName'') (Some 1210) (Some (OBJ_id_on @ [7])),
    Obj (Some ''id-on-NAIRealm'') (Some ''NAIRealm'') (Some 1211) (Some (OBJ_id_on @ [8])),
    Obj (Some ''id-on-SmtpUTF8Mailbox'') (Some ''Smtp UTF8 Mailbox'') (Some 1208) (Some (OBJ_id_on @ [9])),
    Obj (Some ''id-pda-dateOfBirth'') None (Some 348) (Some (OBJ_id_pda @ [1]))]"

lemma nids_13:
  "List.map_filter nid objects_13 = [318, 319, 320, 321, 322, 323, 324, 325, 326, 327, 328, 329, 330, 331, 332, 333, 334, 335, 336, 337, 338, 339, 340, 341, 342, 343, 344, 345, 346, 347, 858, 1209, 1210, 1211, 1208, 348]"
  unfolding objects_13_def by (intro nids_intros)

lemma oids_13: "list_all obj_ok objects_13"
  unfolding objects_13_def by (intro obj_ok_intros) (simp_all add: oid_ok_def oid_defs)

end
