(* ===== verification/ObjTable2.thy ===== *)
theory ObjTable2
  imports ObjTable1
begin

text \<open>
  Entries of \<open>obj_mac.h\<close>, lines 1955 to 3892, in the order of the file; a chunk per definition.
\<close>

definition objects_14 :: "obj list" where
  "objects_14 = [
    Obj (Some ''id-pda-placeOfBirth'') None (Some 349) (Some (OBJ_id_pda @ [2])),
    Obj (Some ''id-pda-gender'') None (Some 351) (Some (OBJ_id_pda @ [3])),
    Obj (Some ''id-pda-countryOfCitizenship'') None (Some 352) (Some (OBJ_id_pda @ [4])),
    Obj (Some ''id-pda-countryOfResidence'') None (Some 353) (Some (OBJ_id_pda @ [5])),
    Obj (Some ''id-aca-authenticationInfo'') None (Some 354) (Some (OBJ_id_aca @ [1])),
    Obj (Some ''id-aca-accessIdentity'') None (Some 355) (Some (OBJ_id_aca @ [2])),
    Obj (Some ''id-aca-chargingIdentity'') None (Some 356) (Some (OBJ_id_aca @ [3])),
    Obj (Some ''id-aca-group'') None (Some 357) (Some (OBJ_id_aca @ [4])),
    Obj (Some ''id-aca-role'') None (Some 358) (Some (OBJ_id_aca @ [5])),
    Obj (Some ''id-aca-encAttrs'') None (Some 399) (Some (OBJ_id_aca @ [6])),
    Obj (Some ''id-qcs-pkixQCSyntax-v1'') None (Some 359) (Some (OBJ_id_qcs @ [1])),
    Obj (Some ''ipAddr-asNumber'') None (Some 1241) (Some (OBJ_id_cp @ [2])),
    Obj (Some ''ipAddr-asNumberv2'') None (Some 1242) (Some (OBJ_id_cp @ [3])),
    Obj (Some ''id-cct-crs'') None (Some 360) (Some (OBJ_id_cct @ [1])),
    Obj (Some ''id-cct-PKIData'') None (Some 361) (Some (OBJ_id_cct @ [2])),
    Obj (Some ''id-cct-PKIResponse'') None (Some 362) (Some (OBJ_id_cct @ [3])),
    Obj (Some ''id-ppl-anyLanguage'') (Some ''Any language'') (Some 664) (Some (OBJ_id_ppl @ [0])),
    Obj (Some ''id-ppl-inheritAll'') (Some ''Inherit all'') (Some 665) (Some (OBJ_id_ppl @ [1])),
    Obj (Some ''id-ppl-independent'') (Some ''Independent'') (Some 667) (Some (OBJ_id_ppl @ [2])),
    Obj (Some ''OCSP'') (Some ''OCSP'') (Some 178) (Some OBJ_ad_OCSP),
    Obj (Some ''caIssuers'') (Some ''CA Issuers'') (Some 179) (Some (OBJ_id_ad @ [2])),
    Obj (Some ''ad_timestamping'') (Some ''AD Time Stamping'') (Some 363) (Some (OBJ_id_ad @ [3])),
    Obj (Some ''AD_DVCS'') (Some ''ad dvcs'') (Some 364) (Some (OBJ_id_ad @ [4])),
    Obj (Some ''caRepository'') (Some ''CA Repository'') (Some 785) (Some (OBJ_id_ad @ [5])),
    Obj (Some ''rpkiManifest'') (Some ''RPKI Manifest'') (Some 1243) (Some (OBJ_id_ad @ [10])),
    Obj (Some ''signedObject'') (Some ''Signed Object'') (Some 1244) (Some (OBJ_id_ad @ [11])),
    Obj (Some ''rpkiNotify'') (Some ''RPKI Notify'') (Some 1245) (Some (OBJ_id_ad @ [13])),
    Obj None None None (Some OBJ_id_pkix_OCSP),
    Obj (Some ''basicOCSPResponse'') (Some ''Basic OCSP Response'') (Some 365) (Some (OBJ_id_pkix_OCSP @ [1])),
    Obj (Some ''Nonce'') (Some ''OCSP Nonce'') (Some 366) (Some (OBJ_id_pkix_OCSP @ [2])),
    Obj (Some ''CrlID'') (Some ''OCSP CRL ID'') (Some 367) (Some (OBJ_id_pkix_OCSP @ [3])),
    Obj (Some ''acceptableResponses'') (Some ''Acceptable OCSP Responses'') (Some 368) (Some (OBJ_id_pkix_OCSP @ [4])),
    Obj (Some ''noCheck'') (Some ''OCSP No Check'') (Some 369) (Some (OBJ_id_pkix_OCSP @ [5])),
    Obj (Some ''archiveCutoff'') (Some ''OCSP Archive Cutoff'') (Some 370) (Some (OBJ_id_pkix_OCSP @ [6]))]"

lemma nids_14:
  "List.map_filter nid objects_14 = [349, 351, 352, 353, 354, 355, 356, 357, 358, 399, 359, 1241, 1242, 360, 361, 362, 664, 665, 667, 178, 179, 363, 364, 785, 1243, 1244, 1245, 365, 366, 367, 368, 369, 370]"
  unfolding objects_14_def by (intro nids_intros)

lemma oids_14: "list_all obj_ok objects_14"
  unfolding objects_14_def by (intro obj_ok_intros) (simp_all add: oid_ok_def oid_defs)

definition objects_15 :: "obj list" where
  "objects_15 = [
    Obj (Some ''serviceLocator'') (Some ''OCSP Service Locator'') (Some 371) (Some (OBJ_id_pkix_OCSP @ [7])),
    Obj (Some ''extendedStatus'') (Some ''Extended OCSP Status'') (Some 372) (Some (OBJ_id_pkix_OCSP @ [8])),
    Obj (Some ''valid'') None (Some 373) (Some (OBJ_id_pkix_OCSP @ [9])),
    Obj (Some ''path'') None (Some 374) (Some (OBJ_id_pkix_OCSP @ [10])),
    Obj (Some ''trustRoot'') (Some ''Trust Root'') (Some 375) (Some (OBJ_id_pkix_OCSP @ [11])),
    Obj (Some ''algorithm'') (Some ''algorithm'') (Some 376) (Some OBJ_algorithm),
    Obj (Some ''RSA-NP-MD5'') (Some ''md5WithRSA'') (Some 104) (Some (OBJ_algorithm @ [3])),
    Obj (Some ''DES-ECB'') (Some ''des-ecb'') (Some 29) (Some (OBJ_algorithm @ [6])),
    Obj (Some ''DES-CBC'') (Some ''des-cbc'') (Some 31) (Some (OBJ_algorithm @ [7])),
    Obj (Some ''DES-OFB'') (Some ''des-ofb'') (Some 45) (Some (OBJ_algorithm @ [8])),
    Obj (Some ''DES-CFB'') (Some ''des-cfb'') (Some 30) (Some (OBJ_algorithm @ [9])),
    Obj (Some ''rsaSignature'') None (Some 377) (Some (OBJ_algorithm @ [11])),
    Obj (Some ''DSA-old'') (Some ''dsaEncryption-old'') (Some 67) (Some (OBJ_algorithm @ [12])),
    Obj (Some ''DSA-SHA'') (Some ''dsaWithSHA'') (Some 66) (Some (OBJ_algorithm @ [13])),
    Obj (Some ''RSA-SHA'') (Some ''shaWithRSAEncryption'') (Some 42) (Some (OBJ_algorithm @ [15])),
    Obj (Some ''DES-EDE'') (Some ''des-ede'') (Some 32) (Some (OBJ_algorithm @ [17])),
    Obj (Some ''DES-EDE3'') (Some ''des-ede3'') (Some 33) None,
    Obj (Some ''DES-EDE-CBC'') (Some ''des-ede-cbc'') (Some 43) None,
    Obj (Some ''DES-EDE-CFB'') (Some ''des-ede-cfb'') (Some 60) None,
    Obj (Some ''DES-EDE3-CFB'') (Some ''des-ede3-cfb'') (Some 61) None,
    Obj (Some ''DES-EDE-OFB'') (Some ''des-ede-ofb'') (Some 62) None,
    Obj (Some ''DES-EDE3-OFB'') (Some ''des-ede3-ofb'') (Some 63) None,
    Obj (Some ''DESX-CBC'') (Some ''desx-cbc'') (Some 80) None,
    Obj (Some ''SHA'') (Some ''sha'') (Some 41) (Some (OBJ_algorithm @ [18])),
    Obj (Some ''SHA1'') (Some ''sha1'') (Some 64) (Some OBJ_sha1),
    Obj (Some ''DSA-SHA1-old'') (Some ''dsaWithSHA1-old'') (Some 70) (Some (OBJ_algorithm @ [27])),
    Obj (Some ''RSA-SHA1-2'') (Some ''sha1WithRSA'') (Some 115) (Some (OBJ_algorithm @ [29])),
    Obj (Some ''RIPEMD160'') (Some ''ripemd160'') (Some 117) (Some ([1, 3, 36, 3, 2, 1])),
    Obj (Some ''RSA-RIPEMD160'') (Some ''ripemd160WithRSA'') (Some 119) (Some OBJ_ripemd160WithRSA),
    Obj (Some ''BLAKE2BMAC'') (Some ''blake2bmac'') (Some 1201) (Some OBJ_blake2bmac),
    Obj (Some ''BLAKE2SMAC'') (Some ''blake2smac'') (Some 1202) (Some OBJ_blake2smac),
    Obj (Some ''BLAKE2b512'') (Some ''blake2b512'') (Some 1056) (Some (OBJ_blake2bmac @ [16]))]"

lemma nids_15:
  "List.map_filter nid objects_15 = [371, 372, 373, 374, 375, 376, 104, 29, 31, 45, 30, 377, 67, 66, 42, 32, 33, 43, 60, 61, 62, 63, 80, 41, 64, 70, 115, 117, 119, 1201, 1202, 1056]"
  unfolding objects_15_def by (intro nids_intros)

lemma oids_15: "list_all obj_ok objects_15"
  unfolding objects_15_def by (intro obj_ok_intros) (simp_all add: oid_ok_def oid_defs)

definition objects_16 :: "obj list" where
  "objects_16 = [
    Obj (Some ''BLAKE2s256'') (Some ''blake2s256'') (Some 1057) (Some (OBJ_blake2smac @ [8])),
    Obj (Some ''SXNetID'') (Some ''Strong Extranet ID'') (Some 143) (Some ([1, 3, 101, 1, 4, 1])),
    Obj (Some ''X500'') (Some ''directory services (X.500)'') (Some 11) (Some OBJ_X500),
    Obj (Some ''X509'') None (Some 12) (Some OBJ_X509),
    Obj (Some ''CN'') (Some ''commonName'') (Some 13) (Some (OBJ_X509 @ [3])),
    Obj (Some ''SN'') (Some ''surname'') (Some 100) (Some (OBJ_X509 @ [4])),
    Obj None (Some ''serialNumber'') (Some 105) (Some (OBJ_X509 @ [5])),
    Obj (Some ''C'') (Some ''countryName'') (Some 14) (Some (OBJ_X509 @ [6])),
    Obj (Some ''L'') (Some ''localityName'') (Some 15) (Some (OBJ_X509 @ [7])),
    Obj (Some ''ST'') (Some ''stateOrProvinceName'') (Some 16) (Some (OBJ_X509 @ [8])),
    Obj (Some ''street'') (Some ''streetAddress'') (Some 660) (Some (OBJ_X509 @ [9])),
    Obj (Some ''O'') (Some ''organizationName'') (Some 17) (Some (OBJ_X509 @ [10])),
    Obj (Some ''OU'') (Some ''organizationalUnitName'') (Some 18) (Some (OBJ_X509 @ [11])),
    Obj (Some ''title'') (Some ''title'') (Some 106) (Some (OBJ_X509 @ [12])),
    Obj None (Some ''description'') (Some 107) (Some (OBJ_X509 @ [13])),
    Obj None (Some ''searchGuide'') (Some 859) (Some (OBJ_X509 @ [14])),
    Obj None (Some ''businessCategory'') (Some 860) (Some (OBJ_X509 @ [15])),
    Obj None (Some ''postalAddress'') (Some 861) (Some (OBJ_X509 @ [16])),
    Obj None (Some ''postalCode'') (Some 661) (Some (OBJ_X509 @ [17])),
    Obj None (Some ''postOfficeBox'') (Some 862) (Some (OBJ_X509 @ [18])),
    Obj None (Some ''physicalDeliveryOfficeName'') (Some 863) (Some (OBJ_X509 @ [19])),
    Obj None (Some ''telephoneNumber'') (Some 864) (Some (OBJ_X509 @ [20])),
    Obj None (Some ''telexNumber'') (Some 865) (Some (OBJ_X509 @ [21])),
    Obj None (Some ''teletexTerminalIdentifier'') (Some 866) (Some (OBJ_X509 @ [22])),
    Obj None (Some ''facsimileTelephoneNumber'') (Some 867) (Some (OBJ_X509 @ [23])),
    Obj None (Some ''x121Address'') (Some 868) (Some (OBJ_X509 @ [24])),
    Obj None (Some ''internationaliSDNNumber'') (Some 869) (Some (OBJ_X509 @ [25])),
    Obj None (Some ''registeredAddress'') (Some 870) (Some (OBJ_X509 @ [26])),
    Obj None (Some ''destinationIndicator'') (Some 871) (Some (OBJ_X509 @ [27])),
    Obj None (Some ''preferredDeliveryMethod'') (Some 872) (Some (OBJ_X509 @ [28])),
    Obj None (Some ''presentationAddress'') (Some 873) (Some (OBJ_X509 @ [29])),
    Obj None (Some ''supportedApplicationContext'') (Some 874) (Some (OBJ_X509 @ [30])),
    Obj (Some ''member'') None (Some 875) (Some (OBJ_X509 @ [31])),
    Obj (Some ''owner'') None (Some 876) (Some (OBJ_X509 @ [32]))]"

lemma nids_16:
  "List.map_filter nid objects_16 = [1057, 143, 11, 12, 13, 100, 105, 14, 15, 16, 660, 17, 18, 106, 107, 859, 860, 861, 661, 862, 863, 864, 865, 866, 867, 868, 869, 870, 871, 872, 873, 874, 875, 876]"
  unfolding objects_16_def by (intro nids_intros)

lemma oids_16: "list_all obj_ok objects_16"
  unfolding objects_16_def by (intro obj_ok_intros) (simp_all add: oid_ok_def oid_defs)

definition objects_17 :: "obj list" where
  "objects_17 = [
    Obj None (Some ''roleOccupant'') (Some 877) (Some (OBJ_X509 @ [33])),
    Obj (Some ''seeAlso'') None (Some 878) (Some (OBJ_X509 @ [34])),
    Obj None (Some ''userPassword'') (Some 879) (Some (OBJ_X509 @ [35])),
    Obj None (Some ''userCertificate'') (Some 880) (Some (OBJ_X509 @ [36])),
    Obj None (Some ''cACertificate'') (Some 881) (Some (OBJ_X509 @ [37])),
    Obj None (Some ''authorityRevocationList'') (Some 882) (Some (OBJ_X509 @ [38])),
    Obj None (Some ''certificateRevocationList'') (Some 883) (Some (OBJ_X509 @ [39])),
    Obj None (Some ''crossCertificatePair'') (Some 884) (Some (OBJ_X509 @ [40])),
    Obj (Some ''name'') (Some ''name'') (Some 173) (Some (OBJ_X509 @ [41])),
    Obj (Some ''GN'') (Some ''givenName'') (Some 99) (Some (OBJ_X509 @ [42])),
    Obj (Some ''initials'') (Some ''initials'') (Some 101) (Some (OBJ_X509 @ [43])),
    Obj None (Some ''generationQualifier'') (Some 509) (Some (OBJ_X509 @ [44])),
    Obj None (Some ''x500UniqueIdentifier'') (Some 503) (Some (OBJ_X509 @ [45])),
    Obj (Some ''dnQualifier'') (Some ''dnQualifier'') (Some 174) (Some (OBJ_X509 @ [46])),
    Obj None (Some ''enhancedSearchGuide'') (Some 885) (Some (OBJ_X509 @ [47])),
    Obj None (Some ''protocolInformation'') (Some 886) (Some (OBJ_X509 @ [48])),
    Obj None (Some ''distinguishedName'') (Some 887) (Some (OBJ_X509 @ [49])),
    Obj None (Some ''uniqueMember'') (Some 888) (Some (OBJ_X509 @ [50])),
    Obj None (Some ''houseIdentifier'') (Some 889) (Some (OBJ_X509 @ [51])),
    Obj None (Some ''supportedAlgorithms'') (Some 890) (Some (OBJ_X509 @ [52])),
    Obj None (Some ''deltaRevocationList'') (Some 891) (Some (OBJ_X509 @ [53])),
    Obj (Some ''dmdName'') None (Some 892) (Some (OBJ_X509 @ [54])),
    Obj None (Some ''pseudonym'') (Some 510) (Some (OBJ_X509 @ [65])),
    Obj (Some ''role'') (Some ''role'') (Some 400) (Some (OBJ_X509 @ [72])),
    Obj None (Some ''organizationIdentifier'') (Some 1089) (Some (OBJ_X509 @ [97])),
    Obj (Some ''c3'') (Some ''countryCode3c'') (Some 1090) (Some (OBJ_X509 @ [98])),
    Obj (Some ''n3'') (Some ''countryCode3n'') (Some 1091) (Some (OBJ_X509 @ [99])),
    Obj None (Some ''dnsName'') (Some 1092) (Some (OBJ_X509 @ [100])),
    Obj (Some ''X500algorithms'') (Some ''directory services - algorithms'') (Some 378) (Some OBJ_X500algorithms),
    Obj (Some ''RSA'') (Some ''rsa'') (Some 19) (Some (OBJ_X500algorithms @ [1, 1])),
    Obj (Some ''RSA-MDC2'') (Some ''mdc2WithRSA'') (Some 96) (Some OBJ_mdc2WithRSA),
    Obj (Some ''MDC2'') (Some ''mdc2'') (Some 95) (Some (OBJ_X500algorithms @ [3, 101])),
    Obj (Some ''id-ce'') None (Some 81) (Some OBJ_id_ce),
    Obj (Some ''subjectDirectoryAttributes'') (Some ''X509v3 Subject Directory Attributes'') (Some 769) (Some (OBJ_id_ce @ [9]))]"

lemma nids_17:
  "List.map_filter nid objects_17 = [877, 878, 879, 880, 881, 882, 883, 884, 173, 99, 101, 509, 503, 174, 885, 886, 887, 888, 889, 890, 891, 892, 510, 400, 1089, 1090, 1091, 1092, 378, 19, 96, 95, 81, 769]"
  unfolding objects_17_def by (intro nids_intros)

lemma oids_17: "list_all obj_ok objects_17"
  unfolding objects_17_def by (intro obj_ok_intros) (simp_all add: oid_ok_def oid_defs)

definition objects_18 :: "obj list" where
  "objects_18 = [
    Obj (Some ''subjectKeyIdentifier'') (Some ''X509v3 Subject Key Identifier'') (Some 82) (Some (OBJ_id_ce @ [14])),
    Obj (Some ''keyUsage'') (Some ''X509v3 Key Usage'') (Some 83) (Some (OBJ_id_ce @ [15])),
    Obj (Some ''privateKeyUsagePeriod'') (Some ''X509v3 Private Key Usage Period'') (Some 84) (Some (OBJ_id_ce @ [16])),
    Obj (Some ''subjectAltName'') (Some ''X509v3 Subject Alternative Name'') (Some 85) (Some (OBJ_id_ce @ [17])),
    Obj (Some ''issuerAltName'') (Some ''X509v3 Issuer Alternative Name'') (Some 86) (Some (OBJ_id_ce @ [18])),
    Obj (Some ''basicConstraints'') (Some ''X509v3 Basic Constraints'') (Some 87) (Some (OBJ_id_ce @ [19])),
    Obj (Some ''crlNumber'') (Some ''X509v3 CRL Number'') (Some 88) (Some (OBJ_id_ce @ [20])),
    Obj (Some ''CRLReason'') (Some ''X509v3 CRL Reason Code'') (Some 141) (Some (OBJ_id_ce @ [21])),
    Obj (Some ''invalidityDate'') (Some ''Invalidity Date'') (Some 142) (Some (OBJ_id_ce @ [24])),
    Obj (Some ''deltaCRL'') (Some ''X509v3 Delta CRL Indicator'') (Some 140) (Some (OBJ_id_ce @ [27])),
    Obj (Some ''issuingDistributionPoint'') (Some ''X509v3 Issuing Distribution Point'') (Some 770) (Some (OBJ_id_ce @ [28])),
    Obj (Some ''certificateIssuer'') (Some ''X509v3 Certificate Issuer'') (Some 771) (Some (OBJ_id_ce @ [29])),
    Obj (Some ''nameConstraints'') (Some ''X509v3 Name Constraints'') (Some 666) (Some (OBJ_id_ce @ [30])),
    Obj (Some ''crlDistributionPoints'') (Some ''X509v3 CRL Distribution Points'') (Some 103) (Some (OBJ_id_ce @ [31])),
    Obj (Some ''certificatePolicies'') (Some ''X509v3 Certificate Policies'') (Some 89) (Some OBJ_certificate_policies),
    Obj (Some ''anyPolicy'') (Some ''X509v3 Any Policy'') (Some 746) (Some (OBJ_certificate_policies @ [0])),
    Obj (Some ''policyMappings'') (Some ''X509v3 Policy Mappings'') (Some 747) (Some (OBJ_id_ce @ [33])),
    Obj (Some ''authorityKeyIdentifier'') (Some ''X509v3 Authority Key Identifier'') (Some 90) (Some (OBJ_id_ce @ [35])),
    Obj (Some ''policyConstraints'') (Some ''X509v3 Policy Constraints'') (Some 401) (Some (OBJ_id_ce @ [36])),
    Obj (Some ''extendedKeyUsage'') (Some ''X509v3 Extended Key Usage'') (Some 126) (Some OBJ_ext_key_usage),
    Obj (Some ''freshestCRL'') (Some ''X509v3 Freshest CRL'') (Some 857) (Some (OBJ_id_ce @ [46])),
    Obj (Some ''inhibitAnyPolicy'') (Some ''X509v3 Inhibit Any Policy'') (Some 748) (Some (OBJ_id_ce @ [54])),
    Obj (Some ''targetInformation'') (Some ''X509v3 AC Targeting'') (Some 402) (Some (OBJ_id_ce @ [55])),
    Obj (Some ''noRevAvail'') (Some ''X509v3 No Revocation Available'') (Some 403) (Some (OBJ_id_ce @ [56])),
    Obj (Some ''anyExtendedKeyUsage'') (Some ''Any Extended Key Usage'') (Some 910) (Some (OBJ_ext_key_usage @ [0])),
    Obj (Some ''Netscape'') (Some ''Netscape Communications Corp.'') (Some 57) (Some OBJ_netscape),
    Obj (Some ''nsCertExt'') (Some ''Netscape Certificate Extension'') (Some 58) (Some OBJ_netscape_cert_extension),
    Obj (Some ''nsDataType'') (Some ''Netscape Data Type'') (Some 59) (Some OBJ_netscape_data_type),
    Obj (Some ''nsCertType'') (Some ''Netscape Cert Type'') (Some 71) (Some (OBJ_netscape_cert_extension @ [1])),
    Obj (Some ''nsBaseUrl'') (Some ''Netscape Base Url'') (Some 72) (Some (OBJ_netscape_cert_extension @ [2]))]"

lemma nids_18:
  "List.map_filter nid objects_18 = [82, 83, 84, 85, 86, 87, 88, 141, 142, 140, 770, 771, 666, 103, 89, 746, 747, 90, 401, 126, 857, 748, 402, 403, 910, 57, 58, 59, 71, 72]"
  unfolding objects_18_def by (intro nids_intros)

lemma oids_18: "list_all obj_ok objects_18"
  unfolding objects_18_def by (intro obj_ok_intros) (simp_all add: oid_ok_def oid_defs)

definition objects_19 :: "obj list" where
  "objects_19 = [
    Obj (Some ''nsRevocationUrl'') (Some ''Netscape Revocation Url'') (Some 73) (Some (OBJ_netscape_cert_extension @ [3])),
    Obj (Some ''nsCaRevocationUrl'') (Some ''Netscape CA Revocation Url'') (Some 74) (Some (OBJ_netscape_cert_extension @ [4])),
    Obj (Some ''nsRenewalUrl'') (Some ''Netscape Renewal Url'') (Some 75) (Some (OBJ_netscape_cert_extension @ [7])),
    Obj (Some ''nsCaPolicyUrl'') (Some ''Netscape CA Policy Url'') (Some 76) (Some (OBJ_netscape_cert_extension @ [8])),
    Obj (Some ''nsSslServerName'') (Some ''Netscape SSL Server Name'') (Some 77) (Some (OBJ_netscape_cert_extension @ [12])),
    Obj (Some ''nsComment'') (Some ''Netscape Comment'') (Some 78) (Some (OBJ_netscape_cert_extension @ [13])),
    Obj (Some ''nsCertSequence'') (Some ''Netscape Certificate Sequence'') (Some 79) (Some (OBJ_netscape_data_type @ [5])),
    Obj (Some ''nsSGC'') (Some ''Netscape Server Gated Crypto'') (Some 139) (Some (OBJ_netscape @ [4, 1])),
    Obj (Some ''ORG'') (Some ''org'') (Some 379) (Some OBJ_org),
    Obj (Some ''DOD'') (Some ''dod'') (Some 380) (Some OBJ_dod),
    Obj (Some ''IANA'') (Some ''iana'') (Some 381) (Some OBJ_iana),
    Obj None None None (Some OBJ_internet),
    Obj (Some ''directory'') (Some ''Directory'') (Some 382) (Some (OBJ_internet @ [1])),
    Obj (Some ''mgmt'') (Some ''Management'') (Some 383) (Some (OBJ_internet @ [2])),
    Obj (Some ''experimental'') (Some ''Experimental'') (Some 384) (Some (OBJ_internet @ [3])),
    Obj (Some ''private'') (Some ''Private'') (Some 385) (Some OBJ_Private),
    Obj (Some ''security'') (Some ''Security'') (Some 386) (Some (OBJ_internet @ [5])),
    Obj (Some ''snmpv2'') (Some ''SNMPv2'') (Some 387) (Some (OBJ_internet @ [6])),
    Obj None (Some ''Mail'') (Some 388) (Some OBJ_Mail),
    Obj (Some ''enterprises'') (Some ''Enterprises'') (Some 389) (Some OBJ_Enterprises),
    Obj (Some ''dcobject'') (Some ''dcObject'') (Some 390) (Some (OBJ_Enterprises @ [1466, 344])),
    Obj (Some ''mime-mhs'') (Some ''MIME MHS'') (Some 504) (Some OBJ_mime_mhs),
    Obj (Some ''mime-mhs-headings'') (Some ''mime-mhs-headings'') (Some 505) (Some OBJ_mime_mhs_headings),
    Obj (Some ''mime-mhs-bodies'') (Some ''mime-mhs-bodies'') (Some 506) (Some (OBJ_mime_mhs @ [2])),
    Obj (Some ''id-hex-partial-message'') (Some ''id-hex-partial-message'') (Some 507) (Some (OBJ_mime_mhs_headings @ [1])),
    Obj (Some ''id-hex-multipart-message'') (Some ''id-hex-multipart-message'') (Some 508) (Some (OBJ_mime_mhs_headings @ [2])),
    Obj (Some ''ZLIB'') (Some ''zlib compression'') (Some 125) (Some (OBJ_id_smime_alg @ [8])),
    Obj None None None (Some OBJ_csor),
    Obj None None None (Some OBJ_nistAlgorithms),
    Obj None None None (Some OBJ_aes),
    Obj (Some ''AES-128-ECB'') (Some ''aes-128-ecb'') (Some 418) (Some (OBJ_aes @ [1])),
    Obj (Some ''AES-128-CBC'') (Some ''aes-128-cbc'') (Some 419) (Some (OBJ_aes @ [2]))]"

lemma nids_19:
  "List.map_filter nid objects_19 = [73, 74, 75, 76, 77, 78, 79, 139, 379, 380, 381, 382, 383, 384, 385, 386, 387, 388, 389, 390, 504, 505, 506, 507, 508, 125, 418, 419]"
  unfolding objects_19_def by (intro nids_intros)

lemma oids_19: "list_all obj_ok objects_19"
  unfolding objects_19_def by (intro obj_ok_intros) (simp_all add: oid_ok_def oid_defs)

definition objects_20 :: "obj list" where
  "objects_20 = [
    Obj (Some ''AES-128-OFB'') (Some ''aes-128-ofb'') (Some 420) (Some (OBJ_aes @ [3])),
    Obj (Some ''AES-128-CFB'') (Some ''aes-128-cfb'') (Some 421) (Some (OBJ_aes @ [4])),
    Obj (Some ''id-aes128-wrap'') None (Some 788) (Some OBJ_id_aes128_wrap),
    Obj (Some ''id-aes128-GCM'') (Some ''aes-128-gcm'') (Some 895) (Some (OBJ_aes @ [6])),
    Obj (Some ''id-aes128-CCM'') (Some ''aes-128-ccm'') (Some 896) (Some (OBJ_aes @ [7])),
    Obj (Some ''id-aes128-wrap-pad'') None (Some 897) (Some (OBJ_aes @ [8])),
    Obj (Some ''AES-192-ECB'') (Some ''aes-192-ecb'') (Some 422) (Some (OBJ_aes @ [21])),
    Obj (Some ''AES-192-CBC'') (Some ''aes-192-cbc'') (Some 423) (Some (OBJ_aes @ [22])),
    Obj (Some ''AES-192-OFB'') (Some ''aes-192-ofb'') (Some 424) (Some (OBJ_aes @ [23])),
    Obj (Some ''AES-192-CFB'') (Some ''aes-192-cfb'') (Some 425) (Some (OBJ_aes @ [24])),
    Obj (Some ''id-aes192-wrap'') None (Some 789) (Some OBJ_id_aes192_wrap),
    Obj (Some ''id-aes192-GCM'') (Some ''aes-192-gcm'') (Some 898) (Some (OBJ_aes @ [26])),
    Obj (Some ''id-aes192-CCM'') (Some ''aes-192-ccm'') (Some 899) (Some (OBJ_aes @ [27])),
    Obj (Some ''id-aes192-wrap-pad'') None (Some 900) (Some (OBJ_aes @ [28])),
    Obj (Some ''AES-256-ECB'') (Some ''aes-256-ecb'') (Some 426) (Some (OBJ_aes @ [41])),
    Obj (Some ''AES-256-CBC'') (Some ''aes-256-cbc'') (Some 427) (Some (OBJ_aes @ [42])),
    Obj (Some ''AES-256-OFB'') (Some ''aes-256-ofb'') (Some 428) (Some (OBJ_aes @ [43])),
    Obj (Some ''AES-256-CFB'') (Some ''aes-256-cfb'') (Some 429) (Some (OBJ_aes @ [44])),
    Obj (Some ''id-aes256-wrap'') None (Some 790) (Some OBJ_id_aes256_wrap),
    Obj (Some ''id-aes256-GCM'') (Some ''aes-256-gcm'') (Some 901) (Some (OBJ_aes @ [46])),
    Obj (Some ''id-aes256-CCM'') (Some ''aes-256-ccm'') (Some 902) (Some (OBJ_aes @ [47])),
    Obj (Some ''id-aes256-wrap-pad'') None (Some 903) (Some (OBJ_aes @ [48])),
    Obj (Some ''AES-128-XTS'') (Some ''aes-128-xts'') (Some 913) (Some (OBJ_ieee_siswg @ [0, 1, 1])),
    Obj (Some ''AES-256-XTS'') (Some ''aes-256-xts'') (Some 914) (Some (OBJ_ieee_siswg @ [0, 1, 2])),
    Obj (Some ''AES-128-CFB1'') (Some ''aes-128-cfb1'') (Some 650) None,
    Obj (Some ''AES-192-CFB1'') (Some ''aes-192-cfb1'') (Some 651) None,
    Obj (Some ''AES-256-CFB1'') (Some ''aes-256-cfb1'') (Some 652) None,
    Obj (Some ''AES-128-CFB8'') (Some ''aes-128-cfb8'') (Some 653) None,
    Obj (Some ''AES-192-CFB8'') (Some ''aes-192-cfb8'') (Some 654) None,
    Obj (Some ''AES-256-CFB8'') (Some ''aes-256-cfb8'') (Some 655) None,
    Obj (Some ''AES-128-CTR'') (Some ''aes-128-ctr'') (Some 904) None,
    Obj (Some ''AES-192-CTR'') (Some ''aes-192-ctr'') (Some 905) None,
    Obj (Some ''AES-256-CTR'') (Some ''aes-256-ctr'') (Some 906) None]"

lemma nids_20:
  "List.map_filter nid objects_20 = [420, 421, 788, 895, 896, 897, 422, 423, 424, 425, 789, 898, 899, 900, 426, 427, 428, 429, 790, 901, 902, 903, 913, 914, 650, 651, 652, 653, 654, 655, 904, 905, 906]"
  unfolding objects_20_def by (intro nids_intros)

lemma oids_20: "list_all obj_ok objects_20"
  unfolding objects_20_def by (intro obj_ok_intros) (simp_all add: oid_ok_def oid_defs)

definition objects_21 :: "obj list" where
  "objects_21 = [
    Obj (Some ''AES-128-OCB'') (Some ''aes-128-ocb'') (Some 958) None,
    Obj (Some ''AES-192-OCB'') (Some ''aes-192-ocb'') (Some 959) None,
    Obj (Some ''AES-256-OCB'') (Some ''aes-256-ocb'') (Some 960) None,
    Obj (Some ''DES-CFB1'') (Some ''des-cfb1'') (Some 656) None,
    Obj (Some ''DES-CFB8'') (Some ''des-cfb8'') (Some 657) None,
    Obj (Some ''DES-EDE3-CFB1'') (Some ''des-ede3-cfb1'') (Some 658) None,
    Obj (Some ''DES-EDE3-CFB8'') (Some ''des-ede3-cfb8'') (Some 659) None,
    Obj None None None (Some OBJ_nist_hashalgs),
    Obj (Some ''SHA256'') (Some ''sha256'') (Some 672) (Some OBJ_sha256),
    Obj (Some ''SHA384'') (Some ''sha384'') (Some 673) (Some OBJ_sha384),
    Obj (Some ''SHA512'') (Some ''sha512'') (Some 674) (Some OBJ_sha512),
    Obj (Some ''SHA224'') (Some ''sha224'') (Some 675) (Some OBJ_sha224),
    Obj (Some ''SHA512-224'') (Some ''sha512-224'') (Some 1094) (Some OBJ_sha512_224),
    Obj (Some ''SHA512-256'') (Some ''sha512-256'') (Some 1095) (Some OBJ_sha512_256),
    Obj (Some ''SHA3-224'') (Some ''sha3-224'') (Some 1096) (Some OBJ_sha3_224),
    Obj (Some ''SHA3-256'') (Some ''sha3-256'') (Some 1097) (Some OBJ_sha3_256),
    Obj (Some ''SHA3-384'') (Some ''sha3-384'') (Some 1098) (Some OBJ_sha3_384),
    Obj (Some ''SHA3-512'') (Some ''sha3-512'') (Some 1099) (Some OBJ_sha3_512),
    Obj (Some ''SHAKE128'') (Some ''shake128'') (Some 1100) (Some OBJ_shake128),
    Obj (Some ''SHAKE256'') (Some ''shake256'') (Some 1101) (Some OBJ_shake256),
    Obj (Some ''id-hmacWithSHA3-224'') (Some ''hmac-sha3-224'') (Some 1102) (Some (OBJ_nist_hashalgs @ [13])),
    Obj (Some ''id-hmacWithSHA3-256'') (Some ''hmac-sha3-256'') (Some 1103) (Some (OBJ_nist_hashalgs @ [14])),
    Obj (Some ''id-hmacWithSHA3-384'') (Some ''hmac-sha3-384'') (Some 1104) (Some (OBJ_nist_hashalgs @ [15])),
    Obj (Some ''id-hmacWithSHA3-512'') (Some ''hmac-sha3-512'') (Some 1105) (Some (OBJ_nist_hashalgs @ [16])),
    Obj (Some ''KMAC128'') (Some ''kmac128'') (Some 1196) (Some OBJ_kmac128),
    Obj (Some ''KMAC256'') (Some ''kmac256'') (Some 1197) (Some OBJ_kmac256),
    Obj None None None (Some OBJ_dsa_with_sha2),
    Obj (Some ''dsa_with_SHA224'') None (Some 802) (Some OBJ_dsa_with_SHA224),
    Obj (Some ''dsa_with_SHA256'') None (Some 803) (Some OBJ_dsa_with_SHA256),
    Obj None None None (Some OBJ_sigAlgs),
    Obj (Some ''id-dsa-with-sha384'') (Some ''dsa_with_SHA384'') (Some 1106) (Some OBJ_dsa_with_SHA384),
    Obj (Some ''id-dsa-with-sha512'') (Some ''dsa_with_SHA512'') (Some 1107) (Some OBJ_dsa_with_SHA512),
    Obj (Some ''id-dsa-with-sha3-224'') (Some ''dsa_with_SHA3-224'') (Some 1108) (Some OBJ_dsa_with_SHA3_224)]"

lemma nids_21:
  "List.map_filter nid objects_21 = [958, 959, 960, 656, 657, 658, 659, 672, 673, 674, 675, 1094, 1095, 1096, 1097, 1098, 1099, 1100, 1101, 1102, 1103, 1104, 1105, 1196, 1197, 802, 803, 1106, 1107, 1108]"
  unfolding objects_21_def by (intro nids_intros)

lemma oids_21: "list_all obj_ok objects_21"
  unfolding objects_21_def by (intro obj_ok_intros) (simp_all add: oid_ok_def oid_defs)

definition objects_22 :: "obj list" where
  "objects_22 = [
    Obj (Some ''id-dsa-with-sha3-256'') (Some ''dsa_with_SHA3-256'') (Some 1109) (Some OBJ_dsa_with_SHA3_256),
    Obj (Some ''id-dsa-with-sha3-384'') (Some ''dsa_with_SHA3-384'') (Some 1110) (Some OBJ_dsa_with_SHA3_384),
    Obj (Some ''id-dsa-with-sha3-512'') (Some ''dsa_with_SHA3-512'') (Some 1111) (Some OBJ_dsa_with_SHA3_512),
    Obj (Some ''id-ecdsa-with-sha3-224'') (Some ''ecdsa_with_SHA3-224'') (Some 1112) (Some OBJ_ecdsa_with_SHA3_224),
    Obj (Some ''id-ecdsa-with-sha3-256'') (Some ''ecdsa_with_SHA3-256'') (Some 1113) (Some OBJ_ecdsa_with_SHA3_256),
    Obj (Some ''id-ecdsa-with-sha3-384'') (Some ''ecdsa_with_SHA3-384'') (Some 1114) (Some OBJ_ecdsa_with_SHA3_384),
    Obj (Some ''id-ecdsa-with-sha3-512'') (Some ''ecdsa_with_SHA3-512'') (Some 1115) (Some OBJ_ecdsa_with_SHA3_512),
    Obj (Some ''id-rsassa-pkcs1-v1_5-with-sha3-224'') (Some ''RSA-SHA3-224'') (Some 1116) (Some OBJ_RSA_SHA3_224),
    Obj (Some ''id-rsassa-pkcs1-v1_5-with-sha3-256'') (Some ''RSA-SHA3-256'') (Some 1117) (Some OBJ_RSA_SHA3_256),
    Obj (Some ''id-rsassa-pkcs1-v1_5-with-sha3-384'') (Some ''RSA-SHA3-384'') (Some 1118) (Some OBJ_RSA_SHA3_384),
    Obj (Some ''id-rsassa-pkcs1-v1_5-with-sha3-512'') (Some ''RSA-SHA3-512'') (Some 1119) (Some OBJ_RSA_SHA3_512),
    Obj (Some ''holdInstructionCode'') (Some ''Hold Instruction Code'') (Some 430) (Some (OBJ_id_ce @ [23])),
    Obj None None None (Some OBJ_holdInstruction),
    Obj (Some ''holdInstructionNone'') (Some ''Hold Instruction None'') (Some 431) (Some (OBJ_holdInstruction @ [1])),
    Obj (Some ''holdInstructionCallIssuer'') (Some ''Hold Instruction Call Issuer'') (Some 432) (Some (OBJ_holdInstruction @ [2])),
    Obj (Some ''holdInstructionReject'') (Some ''Hold Instruction Reject'') (Some 433) (Some (OBJ_holdInstruction @ [3])),
    Obj (Some ''data'') None (Some 434) (Some OBJ_data),
    Obj (Some ''pss'') None (Some 435) (Some OBJ_pss),
    Obj (Some ''ucl'') None (Some 436) (Some OBJ_ucl),
    Obj (Some ''pilot'') None (Some 437) (Some OBJ_pilot),
    Obj None (Some ''pilotAttributeType'') (Some 438) (Some OBJ_pilotAttributeType),
    Obj None (Some ''pilotAttributeSyntax'') (Some 439) (Some OBJ_pilotAttributeSyntax),
    Obj None (Some ''pilotObjectClass'') (Some 440) (Some OBJ_pilotObjectClass),
    Obj None (Some ''pilotGroups'') (Some 441) (Some (OBJ_pilot @ [10])),
    Obj None (Some ''iA5StringSyntax'') (Some 442) (Some (OBJ_pilotAttributeSyntax @ [4])),
    Obj None (Some ''caseIgnoreIA5StringSyntax'') (Some 443) (Some (OBJ_pilotAttributeSyntax @ [5])),
    Obj None (Some ''pilotObject'') (Some 444) (Some (OBJ_pilotObjectClass @ [3])),
    Obj None (Some ''pilotPerson'') (Some 445) (Some (OBJ_pilotObjectClass @ [4])),
    Obj (Some ''account'') None (Some 446) (Some (OBJ_pilotObjectClass @ [5])),
    Obj (Some ''document'') None (Some 447) (Some (OBJ_pilotObjectClass @ [6])),
    Obj (Some ''room'') None (Some 448) (Some (OBJ_pilotObjectClass @ [7])),
    Obj None (Some ''documentSeries'') (Some 449) (Some (OBJ_pilotObjectClass @ [9])),
    Obj (Some ''domain'') (Some ''Domain'') (Some 392) (Some (OBJ_pilotObjectClass @ [13])),
    Obj None (Some ''rFC822localPart'') (Some 450) (Some (OBJ_pilotObjectClass @ [14]))]"

lemma nids_22:
  "List.map_filter nid objects_22 = [1109, 1110, 1111, 1112, 1113, 1114, 1115, 1116, 1117, 1118, 1119, 430, 431, 432, 433, 434, 435, 436, 437, 438, 439, 440, 441, 442, 443, 444, 445, 446, 447, 448, 449, 392, 450]"
  unfolding objects_22_def by (intro nids_intros)

lemma oids_22: "list_all obj_ok objects_22"
  unfolding objects_22_def by (intro obj_ok_intros) (simp_all add: oid_ok_def oid_defs)

definition objects_23 :: "obj list" where
  "objects_23 = [
    Obj None (Some ''dNSDomain'') (Some 451) (Some (OBJ_pilotObjectClass @ [15])),
    Obj None (Some ''domainRelatedObject'') (Some 452) (Some (OBJ_pilotObjectClass @ [17])),
    Obj None (Some ''friendlyCountry'') (Some 453) (Some (OBJ_pilotObjectClass @ [18])),
    Obj None (Some ''simpleSecurityObject'') (Some 454) (Some (OBJ_pilotObjectClass @ [19])),
    Obj None (Some ''pilotOrganization'') (Some 455) (Some (OBJ_pilotObjectClass @ [20])),
    Obj None (Some ''pilotDSA'') (Some 456) (Some (OBJ_pilotObjectClass @ [21])),
    Obj None (Some ''qualityLabelledData'') (Some 457) (Some (OBJ_pilotObjectClass @ [22])),
    Obj (Some ''UID'') (Some ''userId'') (Some 458) (Some (OBJ_pilotAttributeType @ [1])),
    Obj None (Some ''textEncodedORAddress'') (Some 459) (Some (OBJ_pilotAttributeType @ [2])),
    Obj (Some ''mail'') (Some ''rfc822Mailbox'') (Some 460) (Some (OBJ_pilotAttributeType @ [3])),
    Obj (Some ''info'') None (Some 461) (Some (OBJ_pilotAttributeType @ [4])),
    Obj None (Some ''favouriteDrink'') (Some 462) (Some (OBJ_pilotAttributeType @ [5])),
    Obj None (Some ''roomNumber'') (Some 463) (Some (OBJ_pilotAttributeType @ [6])),
    Obj (Some ''photo'') None (Some 464) (Some (OBJ_pilotAttributeType @ [7])),
    Obj None (Some ''userClass'') (Some 465) (Some (OBJ_pilotAttributeType @ [8])),
    Obj (Some ''host'') None (Some 466) (Some (OBJ_pilotAttributeType @ [9])),
    Obj (Some ''manager'') None (Some 467) (Some (OBJ_pilotAttributeType @ [10])),
    Obj None (Some ''documentIdentifier'') (Some 468) (Some (OBJ_pilotAttributeType @ [11])),
    Obj None (Some ''documentTitle'') (Some 469) (Some (OBJ_pilotAttributeType @ [12])),
    Obj None (Some ''documentVersion'') (Some 470) (Some (OBJ_pilotAttributeType @ [13])),
    Obj None (Some ''documentAuthor'') (Some 471) (Some (OBJ_pilotAttributeType @ [14])),
    Obj None (Some ''documentLocation'') (Some 472) (Some (OBJ_pilotAttributeType @ [15])),
    Obj None (Some ''homeTelephoneNumber'') (Some 473) (Some (OBJ_pilotAttributeType @ [20])),
    Obj (Some ''secretary'') None (Some 474) (Some (OBJ_pilotAttributeType @ [21])),
    Obj None (Some ''otherMailbox'') (Some 475) (Some (OBJ_pilotAttributeType @ [22])),
    Obj None (Some ''lastModifiedTime'') (Some 476) (Some (OBJ_pilotAttributeType @ [23])),
    Obj None (Some ''lastModifiedBy'') (Some 477) (Some (OBJ_pilotAttributeType @ [24])),
    Obj (Some ''DC'') (Some ''domainComponent'') (Some 391) (Some (OBJ_pilotAttributeType @ [25])),
    Obj None (Some ''aRecord'') (Some 478) (Some (OBJ_pilotAttributeType @ [26])),
    Obj None (Some ''pilotAttributeType27'') (Some 479) (Some (OBJ_pilotAttributeType @ [27])),
    Obj None (Some ''mXRecord'') (Some 480) (Some (OBJ_pilotAttributeType @ [28])),
    Obj None (Some ''nSRecord'') (Some 481) (Some (OBJ_pilotAttributeType @ [29])),
    Obj None (Some ''sOARecord'') (Some 482) (Some (OBJ_pilotAttributeType @ [30])),
    Obj None (Some ''cNAMERecord'') (Some 483) (Some (OBJ_pilotAttributeType @ [31])),
    Obj None (Some ''associatedDomain'') (Some 484) (Some (OBJ_pilotAttributeType @ [37])),
    Obj None (Some ''associatedName'') (Some 485) (Some (OBJ_pilotAttributeType @ [38])),
    Obj None (Some ''homePostalAddress'') (Some 486) (Some (OBJ_pilotAttributeType @ [39]))]"

lemma nids_23:
  "List.map_filter nid objects_23 = [451, 452, 453, 454, 455, 456, 457, 458, 459, 460, 461, 462, 463, 464, 465, 466, 467, 468, 469, 470, 471, 472, 473, 474, 475, 476, 477, 391, 478, 479, 480, 481, 482, 483, 484, 485, 486]"
  unfolding objects_23_def by (intro nids_intros)

lemma oids_23: "list_all obj_ok objects_23"
  unfolding objects_23_def by (intro obj_ok_intros) (simp_all add: oid_ok_def oid_defs)

definition objects_24 :: "obj list" where
  "objects_24 = [
    Obj None (Some ''personalTitle'') (Some 487) (Some (OBJ_pilotAttributeType @ [40])),
    Obj None (Some ''mobileTelephoneNumber'') (Some 488) (Some (OBJ_pilotAttributeType @ [41])),
    Obj None (Some ''pagerTelephoneNumber'') (Some 489) (Some (OBJ_pilotAttributeType @ [42])),
    Obj None (Some ''friendlyCountryName'') (Some 490) (Some (OBJ_pilotAttributeType @ [43])),
    Obj (Some ''uid'') (Some ''uniqueIdentifier'') (Some 102) (Some (OBJ_pilotAttributeType @ [44])),
    Obj None (Some ''organizationalStatus'') (Some 491) (Some (OBJ_pilotAttributeType @ [45])),
    Obj None (Some ''janetMailbox'') (Some 492) (Some (OBJ_pilotAttributeType @ [46])),
    Obj None (Some ''mailPreferenceOption'') (Some 493) (Some (OBJ_pilotAttributeType @ [47])),
    Obj None (Some ''buildingName'') (Some 494) (Some (OBJ_pilotAttributeType @ [48])),
    Obj None (Some ''dSAQuality'') (Some 495) (Some (OBJ_pilotAttributeType @ [49])),
    Obj None (Some ''singleLevelQuality'') (Some 496) (Some (OBJ_pilotAttributeType @ [50])),
    Obj None (Some ''subtreeMinimumQuality'') (Some 497) (Some (OBJ_pilotAttributeType @ [51])),
    Obj None (Some ''subtreeMaximumQuality'') (Some 498) (Some (OBJ_pilotAttributeType @ [52])),
    Obj None (Some ''personalSignature'') (Some 499) (Some (OBJ_pilotAttributeType @ [53])),
    Obj None (Some ''dITRedirect'') (Some 500) (Some (OBJ_pilotAttributeType @ [54])),
    Obj (Some ''audio'') None (Some 501) (Some (OBJ_pilotAttributeType @ [55])),
    Obj None (Some ''documentPublisher'') (Some 502) (Some (OBJ_pilotAttributeType @ [56])),
    Obj (Some ''id-set'') (Some ''Secure Electronic Transactions'') (Some 512) (Some OBJ_id_set),
    Obj (Some ''set-ctype'') (Some ''content types'') (Some 513) (Some OBJ_set_ctype),
    Obj (Some ''set-msgExt'') (Some ''message extensions'') (Some 514) (Some OBJ_set_msgExt),
    Obj (Some ''set-attr'') None (Some 515) (Some OBJ_set_attr),
    Obj (Some ''set-policy'') None (Some 516) (Some OBJ_set_policy),
    Obj (Some ''set-certExt'') (Some ''certificate extensions'') (Some 517) (Some OBJ_set_certExt),
    Obj (Some ''set-brand'') None (Some 518) (Some OBJ_set_brand),
    Obj (Some ''setct-PANData'') None (Some 519) (Some (OBJ_set_ctype @ [0])),
    Obj (Some ''setct-PANToken'') None (Some 520) (Some (OBJ_set_ctype @ [1])),
    Obj (Some ''setct-PANOnly'') None (Some 521) (Some (OBJ_set_ctype @ [2])),
    Obj (Some ''setct-OIData'') None (Some 522) (Some (OBJ_set_ctype @ [3])),
    Obj (Some ''setct-PI'') None (Some 523) (Some (OBJ_set_ctype @ [4])),
    Obj (Some ''setct-PIData'') None (Some 524) (Some (OBJ_set_ctype @ [5])),
    Obj (Some ''setct-PIDataUnsigned'') None (Some 525) (Some (OBJ_set_ctype @ [6])),
    Obj (Some ''setct-HODInput'') None (Some 526) (Some (OBJ_set_ctype @ [7])),
    Obj (Some ''setct-AuthResBaggage'') None (Some 527) (Some (OBJ_set_ctype @ [8])),
    Obj (Some ''setct-AuthRevReqBaggage'') None (Some 528) (Some (OBJ_set_ctype @ [9])),
    Obj (Some ''setct-AuthRevResBaggage'') None (Some 529) (Some (OBJ_set_ctype @ [10])),
    Obj (Some ''setct-CapTokenSeq'') None (Some 530) (Some (OBJ_set_ctype @ [11]))]"

lemma nids_24:
  "List.map_filter nid objects_24 = [487, 488, 489, 490, 102, 491, 492, 493, 494, 495, 496, 497, 498, 499, 500, 501, 502, 512, 513, 514, 515, 516, 517, 518, 519, 520, 521, 522, 523, 524, 525, 526, 527, 528, 529, 530]"
  unfolding objects_24_def by (intro nids_intros)

lemma oids_24: "list_all obj_ok objects_24"
  unfolding objects_24_def by (intro obj_ok_intros) (simp_all add: oid_ok_def oid_defs)

definition objects_25 :: "obj list" where
  "objects_25 = [
    Obj (Some ''setct-PInitResData'') None (Some 531) (Some (OBJ_set_ctype @ [12])),
    Obj (Some ''setct-PI-TBS'') None (Some 532) (Some (OBJ_set_ctype @ [13])),
    Obj (Some ''setct-PResData'') None (Some 533) (Some (OBJ_set_ctype @ [14])),
    Obj (Some ''setct-AuthReqTBS'') None (Some 534) (Some (OBJ_set_ctype @ [16])),
    Obj (Some ''setct-AuthResTBS'') None (Some 535) (Some (OBJ_set_ctype @ [17])),
    Obj (Some ''setct-AuthResTBSX'') None (Some 536) (Some (OBJ_set_ctype @ [18])),
    Obj (Some ''setct-AuthTokenTBS'') None (Some 537) (Some (OBJ_set_ctype @ [19])),
    Obj (Some ''setct-CapTokenData'') None (Some 538) (Some (OBJ_set_ctype @ [20])),
    Obj (Some ''setct-CapTokenTBS'') None (Some 539) (Some (OBJ_set_ctype @ [21])),
    Obj (Some ''setct-AcqCardCodeMsg'') None (Some 540) (Some (OBJ_set_ctype @ [22])),
    Obj (Some ''setct-AuthRevReqTBS'') None (Some 541) (Some (OBJ_set_ctype @ [23])),
    Obj (Some ''setct-AuthRevResData'') None (Some 542) (Some (OBJ_set_ctype @ [24])),
    Obj (Some ''setct-AuthRevResTBS'') None (Some 543) (Some (OBJ_set_ctype @ [25])),
    Obj (Some ''setct-CapReqTBS'') None (Some 544) (Some (OBJ_set_ctype @ [26])),
    Obj (Some ''setct-CapReqTBSX'') None (Some 545) (Some (OBJ_set_ctype @ [27])),
    Obj (Some ''setct-CapResData'') None (Some 546) (Some (OBJ_set_ctype @ [28])),
    Obj (Some ''setct-CapRevReqTBS'') None (Some 547) (Some (OBJ_set_ctype @ [29])),
    Obj (Some ''setct-CapRevReqTBSX'') None (Some 548) (Some (OBJ_set_ctype @ [30])),
    Obj (Some ''setct-CapRevResData'') None (Some 549) (Some (OBJ_set_ctype @ [31])),
    Obj (Some ''setct-CredReqTBS'') None (Some 550) (Some (OBJ_set_ctype @ [32])),
    Obj (Some ''setct-CredReqTBSX'') None (Some 551) (Some (OBJ_set_ctype @ [33])),
    Obj (Some ''setct-CredResData'') None (Some 552) (Some (OBJ_set_ctype @ [34])),
    Obj (Some ''setct-CredRevReqTBS'') None (Some 553) (Some (OBJ_set_ctype @ [35])),
    Obj (Some ''setct-CredRevReqTBSX'') None (Some 554) (Some (OBJ_set_ctype @ [36])),
    Obj (Some ''setct-CredRevResData'') None (Some 555) (Some (OBJ_set_ctype @ [37])),
    Obj (Some ''setct-PCertReqData'') None (Some 556) (Some (OBJ_set_ctype @ [38])),
    Obj (Some ''setct-PCertResTBS'') None (Some 557) (Some (OBJ_set_ctype @ [39])),
    Obj (Some ''setct-BatchAdminReqData'') None (Some 558) (Some (OBJ_set_ctype @ [40])),
    Obj (Some ''setct-BatchAdminResData'') None (Some 559) (Some (OBJ_set_ctype @ [41])),
    Obj (Some ''setct-CardCInitResTBS'') None (Some 560) (Some (OBJ_set_ctype @ [42])),
    Obj (Some ''setct-MeAqCInitResTBS'') None (Some 561) (Some (OBJ_set_ctype @ [43])),
    Obj (Some ''setct-RegFormResTBS'') None (Some 562) (Some (OBJ_set_ctype @ [44])),
    Obj (Some ''setct-CertReqData'') None (Some 563) (Some (OBJ_set_ctype @ [45])),
    Obj (Some ''setct-CertReqTBS'') None (Some 564) (Some (OBJ_set_ctype @ [46])),
    Obj (Some ''setct-CertResData'') None (Some 565) (Some (OBJ_set_ctype @ [47])),
    Obj (Some ''setct-CertInqReqTBS'') None (Some 566) (Some (OBJ_set_ctype @ [48])),
    Obj (Some ''setct-ErrorTBS'') None (Some 567) (Some (OBJ_set_ctype @ [49]))]"

lemma nids_25:
  "List.map_filter nid objects_25 = [531, 532, 533, 534, 535, 536, 537, 538, 539, 540, 541, 542, 543, 544, 545, 546, 547, 548, 549, 550, 551, 552, 553, 554, 555, 556, 557, 558, 559, 560, 561, 562, 563, 564, 565, 566, 567]"
  unfolding objects_25_def by (intro nids_intros)

lemma oids_25: "list_all obj_ok objects_25"
  unfolding objects_25_def by (intro obj_ok_intros) (simp_all add: oid_ok_def oid_defs)

definition objects_26 :: "obj list" where
  "objects_26 = [
    Obj (Some ''setct-PIDualSignedTBE'') None (Some 568) (Some (OBJ_set_ctype @ [50])),
    Obj (Some ''setct-PIUnsignedTBE'') None (Some 569) (Some (OBJ_set_ctype @ [51])),
    Obj (Some ''setct-AuthReqTBE'') None (Some 570) (Some (OBJ_set_ctype @ [52])),
    Obj (Some ''setct-AuthResTBE'') None (Some 571) (Some (OBJ_set_ctype @ [53])),
    Obj (Some ''setct-AuthResTBEX'') None (Some 572) (Some (OBJ_set_ctype @ [54])),
    Obj (Some ''setct-AuthTokenTBE'') None (Some 573) (Some (OBJ_set_ctype @ [55])),
    Obj (Some ''setct-CapTokenTBE'') None (Some 574) (Some (OBJ_set_ctype @ [56])),
    Obj (Some ''setct-CapTokenTBEX'') None (Some 575) (Some (OBJ_set_ctype @ [57])),
    Obj (Some ''setct-AcqCardCodeMsgTBE'') None (Some 576) (Some (OBJ_set_ctype @ [58])),
    Obj (Some ''setct-AuthRevReqTBE'') None (Some 577) (Some (OBJ_set_ctype @ [59])),
    Obj (Some ''setct-AuthRevResTBE'') None (Some 578) (Some (OBJ_set_ctype @ [60])),
    Obj (Some ''setct-AuthRevResTBEB'') None (Some 579) (Some (OBJ_set_ctype @ [61])),
    Obj (Some ''setct-CapReqTBE'') None (Some 580) (Some (OBJ_set_ctype @ [62])),
    Obj (Some ''setct-CapReqTBEX'') None (Some 581) (Some (OBJ_set_ctype @ [63])),
    Obj (Some ''setct-CapResTBE'') None (Some 582) (Some (OBJ_set_ctype @ [64])),
    Obj (Some ''setct-CapRevReqTBE'') None (Some 583) (Some (OBJ_set_ctype @ [65])),
    Obj (Some ''setct-CapRevReqTBEX'') None (Some 584) (Some (OBJ_set_ctype @ [66])),
    Obj (Some ''setct-CapRevResTBE'') None (Some 585) (Some (OBJ_set_ctype @ [67])),
    Obj (Some ''setct-CredReqTBE'') None (Some 586) (Some (OBJ_set_ctype @ [68])),
    Obj (Some ''setct-CredReqTBEX'') None (Some 587) (Some (OBJ_set_ctype @ [69])),
    Obj (Some ''setct-CredResTBE'') None (Some 588) (Some (OBJ_set_ctype @ [70])),
    Obj (Some ''setct-CredRevReqTBE'') None (Some 589) (Some (OBJ_set_ctype @ [71])),
    Obj (Some ''setct-CredRevReqTBEX'') None (Some 590) (Some (OBJ_set_ctype @ [72])),
    Obj (Some ''setct-CredRevResTBE'') None (Some 591) (Some (OBJ_set_ctype @ [73])),
    Obj (Some ''setct-BatchAdminReqTBE'') None (Some 592) (Some (OBJ_set_ctype @ [74])),
    Obj (Some ''setct-BatchAdminResTBE'') None (Some 593) (Some (OBJ_set_ctype @ [75])),
    Obj (Some ''setct-RegFormReqTBE'') None (Some 594) (Some (OBJ_set_ctype @ [76])),
    Obj (Some ''setct-CertReqTBE'') None (Some 595) (Some (OBJ_set_ctype @ [77])),
    Obj (Some ''setct-CertReqTBEX'') None (Some 596) (Some (OBJ_set_ctype @ [78])),
    Obj (Some ''setct-CertResTBE'') None (Some 597) (Some (OBJ_set_ctype @ [79])),
    Obj (Some ''setct-CRLNotificationTBS'') None (Some 598) (Some (OBJ_set_ctype @ [80])),
    Obj (Some ''setct-CRLNotificationResTBS'') None (Some 599) (Some (OBJ_set_ctype @ [81])),
    Obj (Some ''setct-BCIDistributionTBS'') None (Some 600) (Some (OBJ_set_ctype @ [82])),
    Obj (Some ''setext-genCrypt'') (Some ''generic cryptogram'') (Some 601) (Some (OBJ_set_msgExt @ [1])),
    Obj (Some ''setext-miAuth'') (Some ''merchant initiated auth'') (Some 602) (Some (OBJ_set_msgExt @ [3])),
    Obj (Some ''setext-pinSecure'') None (Some 603) (Some (OBJ_set_msgExt @ [4])),
    Obj (Some ''setext-pinAny'') None (Some 604) (Some (OBJ_set_msgExt @ [5]))]"

lemma nids_26:
  "List.map_filter nid objects_26 = [568, 569, 570, 571, 572, 573, 574, 575, 576, 577, 578, 579, 580, 581, 582, 583, 584, 585, 586, 587, 588, 589, 590, 591, 592, 593, 594, 595, 596, 597, 598, 599, 600, 601, 602, 603, 604]"
  unfolding objects_26_def by (intro nids_intros)

lemma oids_26: "list_all obj_ok objects_26"
  unfolding objects_26_def by (intro obj_ok_intros) (simp_all add: oid_ok_def oid_defs)

end
