(* ===== verification/ObjTable3.thy ===== *)
theory ObjTable3
  imports ObjTable2
begin

text \<open>
  Entries of \<open>obj_mac.h\<close>, lines 3894 to 5433, in the order of the file; a chunk per definition.
\<close>

definition objects_27 :: "obj list" where
  "objects_27 = [
    Obj (Some ''setext-track2'') None (Some 605) (Some (OBJ_set_msgExt @ [7])),
    Obj (Some ''setext-cv'') (Some ''additional verification'') (Some 606) (Some (OBJ_set_msgExt @ [8])),
    Obj (Some ''set-policy-root'') None (Some 607) (Some (OBJ_set_policy @ [0])),
    Obj (Some ''setCext-hashedRoot'') None (Some 608) (Some (OBJ_set_certExt @ [0])),
    Obj (Some ''setCext-certType'') None (Some 609) (Some (OBJ_set_certExt @ [1])),
    Obj (Some ''setCext-merchData'') None (Some 610) (Some (OBJ_set_certExt @ [2])),
    Obj (Some ''setCext-cCertRequired'') None (Some 611) (Some (OBJ_set_certExt @ [3])),
    Obj (Some ''setCext-tunneling'') None (Some 612) (Some (OBJ_set_certExt @ [4])),
    Obj (Some ''setCext-setExt'') None (Some 613) (Some (OBJ_set_certExt @ [5])),
    Obj (Some ''setCext-setQualf'') None (Some 614) (Some (OBJ_set_certExt @ [6])),
    Obj (Some ''setCext-PGWYcapabilities'') None (Some 615) (Some (OBJ_set_certExt @ [7])),
    Obj (Some ''setCext-TokenIdentifier'') None (Some 616) (Some (OBJ_set_certExt @ [8])),
    Obj (Some ''setCext-Track2Data'') None (Some 617) (Some (OBJ_set_certExt @ [9])),
    Obj (Some ''setCext-TokenType'') None (Some 618) (Some (OBJ_set_certExt @ [10])),
    Obj (Some ''setCext-IssuerCapabilities'') None (Some 619) (Some (OBJ_set_certExt @ [11])),
    Obj (Some ''setAttr-Cert'') None (Some 620) (Some OBJ_setAttr_Cert),
    Obj (Some ''setAttr-PGWYcap'') (Some ''payment gateway capabilities'') (Some 621) (Some (OBJ_set_attr @ [1])),
    Obj (Some ''setAttr-TokenType'') None (Some 622) (Some OBJ_setAttr_TokenType),
    Obj (Some ''setAttr-IssCap'') (Some ''issuer capabilities'') (Some 623) (Some OBJ_setAttr_IssCap),
    Obj (Some ''set-rootKeyThumb'') None (Some 624) (Some (OBJ_setAttr_Cert @ [0])),
    Obj (Some ''set-addPolicy'') None (Some 625) (Some (OBJ_setAttr_Cert @ [1])),
    Obj (Some ''setAttr-Token-EMV'') None (Some 626) (Some (OBJ_setAttr_TokenType @ [1])),
    Obj (Some ''setAttr-Token-B0Prime'') None (Some 627) (Some (OBJ_setAttr_TokenType @ [2])),
    Obj (Some ''setAttr-IssCap-CVM'') None (Some 628) (Some OBJ_setAttr_IssCap_CVM),
    Obj (Some ''setAttr-IssCap-T2'') None (Some 629) (Some OBJ_setAttr_IssCap_T2),
    Obj (Some ''setAttr-IssCap-Sig'') None (Some 630) (Some OBJ_setAttr_IssCap_Sig),
    Obj (Some ''setAttr-GenCryptgrm'') (Some ''generate cryptogram'') (Some 631) (Some (OBJ_setAttr_IssCap_CVM @ [1])),
    Obj (Some ''setAttr-T2Enc'') (Some ''encrypted track 2'') (Some 632) (Some (OBJ_setAttr_IssCap_T2 @ [1])),
    Obj (Some ''setAttr-T2cleartxt'') (Some ''cleartext track 2'') (Some 633) (Some (OBJ_setAttr_IssCap_T2 @ [2])),
    Obj (Some ''setAttr-TokICCsig'') (Some ''ICC or token signature'') (Some 634) (Some (OBJ_setAttr_IssCap_Sig @ [1])),
    Obj (Some ''setAttr-SecDevSig'') (Some ''secure device signature'') (Some 635) (Some (OBJ_setAttr_IssCap_Sig @ [2])),
    Obj (Some ''set-brand-IATA-ATA'') None (Some 636) (Some (OBJ_set_brand @ [1])),
    Obj (Some ''set-brand-Diners'') None (Some 637) (Some (OBJ_set_brand @ [30])),
    Obj (Some ''set-brand-AmericanExpress'') None (Some 638) (Some (OBJ_set_brand @ [34])),
    Obj (Some ''set-brand-JCB'') None (Some 639) (Some (OBJ_set_brand @ [35]))]"

lemma nids_27:
  "List.map_filter nid objects_27 = [605, 606, 607, 608, 609, 610, 611, 612, 613, 614, 615, 616, 617, 618, 619, 620, 621, 622, 623, 624, 625, 626, 627, 628, 629, 630, 631, 632, 633, 634, 635, 636, 637, 638, 639]"
  unfolding objects_27_def by (intro nids_intros)

lemma oids_27: "list_all obj_ok objects_27"
  unfolding objects_27_def by (intro obj_ok_intros) (simp_all add: oid_ok_def oid_defs)

definition objects_28 :: "obj list" where
  "objects_28 = [
    Obj (Some ''set-brand-Visa'') None (Some 640) (Some (OBJ_set_brand @ [4])),
    Obj (Some ''set-brand-MasterCard'') None (Some 641) (Some (OBJ_set_brand @ [5])),
    Obj (Some ''set-brand-Novus'') None (Some 642) (Some (OBJ_set_brand @ [6011])),
    Obj (Some ''DES-CDMF'') (Some ''des-cdmf'') (Some 643) (Some (OBJ_rsadsi @ [3, 10])),
    Obj (Some ''rsaOAEPEncryptionSET'') None (Some 644) (Some (OBJ_rsadsi @ [1, 1, 6])),
    Obj (Some ''Oakley-EC2N-3'') (Some ''ipsec3'') (Some 749) None,
    Obj (Some ''Oakley-EC2N-4'') (Some ''ipsec4'') (Some 750) None,
    Obj (Some ''whirlpool'') None (Some 804) (Some (OBJ_iso @ [0, 10118, 3, 0, 55])),
    Obj (Some ''cryptopro'') None (Some 805) (Some OBJ_cryptopro),
    Obj (Some ''cryptocom'') None (Some 806) (Some OBJ_cryptocom),
    Obj (Some ''id-tc26'') None (Some 974) (Some OBJ_id_tc26),
    Obj (Some ''id-GostR3411-94-with-GostR3410-2001'') (Some ''GOST R 34.11-94 with GOST R 34.10-2001'') (Some 807) (Some (OBJ_cryptopro @ [3])),
    Obj (Some ''id-GostR3411-94-with-GostR3410-94'') (Some ''GOST R 34.11-94 with GOST R 34.10-94'') (Some 808) (Some (OBJ_cryptopro @ [4])),
    Obj (Some ''md_gost94'') (Some ''GOST R 34.11-94'') (Some 809) (Some (OBJ_cryptopro @ [9])),
    Obj (Some ''id-HMACGostR3411-94'') (Some ''HMAC GOST 34.11-94'') (Some 810) (Some (OBJ_cryptopro @ [10])),
    Obj (Some ''gost2001'') (Some ''GOST R 34.10-2001'') (Some 811) (Some (OBJ_cryptopro @ [19])),
    Obj (Some ''gost94'') (Some ''GOST R 34.10-94'') (Some 812) (Some OBJ_id_GostR3410_94),
    Obj (Some ''gost89'') (Some ''GOST 28147-89'') (Some 813) (Some (OBJ_cryptopro @ [21])),
    Obj (Some ''gost89-cnt'') None (Some 814) None,
    Obj (Some ''gost89-cnt-12'') None (Some 975) None,
    Obj (Some ''gost89-cbc'') None (Some 1009) None,
    Obj (Some ''gost89-ecb'') None (Some 1010) None,
    Obj (Some ''gost89-ctr'') None (Some 1011) None,
    Obj (Some ''gost-mac'') (Some ''GOST 28147-89 MAC'') (Some 815) (Some (OBJ_cryptopro @ [22])),
    Obj (Some ''gost-mac-12'') None (Some 976) None,
    Obj (Some ''prf-gostr3411-94'') (Some ''GOST R 34.11-94 PRF'') (Some 816) (Some (OBJ_cryptopro @ [23])),
    Obj (Some ''id-GostR3410-2001DH'') (Some ''GOST R 34.10-2001 DH'') (Some 817) (Some (OBJ_cryptopro @ [98])),
    Obj (Some ''id-GostR3410-94DH'') (Some ''GOST R 34.10-94 DH'') (Some 818) (Some (OBJ_cryptopro @ [99])),
    Obj (Some ''id-Gost28147-89-CryptoPro-KeyMeshing'') None (Some 819) (Some (OBJ_cryptopro @ [14, 1])),
    Obj (Some ''id-Gost28147-89-None-KeyMeshing'') None (Some 820) (Some (OBJ_cryptopro @ [14, 0])),
    Obj (Some ''id-GostR3411-94-TestParamSet'') None (Some 821) (Some (OBJ_cryptopro @ [30, 0])),
    Obj (Some ''id-GostR3411-94-CryptoProParamSet'') None (Some 822) (Some (OBJ_cryptopro @ [30, 1])),
    Obj (Some ''id-Gost28147-89-TestParamSet'') None (Some 823) (Some (OBJ_cryptopro @ [31, 0])),
    Obj (Some ''id-Gost28147-89-CryptoPro-A-ParamSet'') None (Some 824) (Some (OBJ_cryptopro @ [31, 1])),
    Obj (Some ''id-Gost28147-89-CryptoPro-B-ParamSet'') None (Some 825) (Some (OBJ_cryptopro @ [31, 2])),
    Obj (Some ''id-Gost28147-89-CryptoPro-C-ParamSet'') None (Some 826) (Some (OBJ_cryptopro @ [31, 3]))]"

lemma nids_28:
  "List.map_filter nid objects_28 = [640, 641, 642, 643, 644, 749, 750, 804, 805, 806, 974, 807, 808, 809, 810, 811, 812, 813, 814, 975, 1009, 1010, 1011, 815, 976, 816, 817, 818, 819, 820, 821, 822, 823, 824, 825, 826]"
  unfolding objects_28_def by (intro nids_intros)

lemma oids_28: "list_all obj_ok objects_28"
  unfolding objects_28_def by (intro obj_ok_intros) (simp_all add: oid_ok_def oid_defs)

definition objects_29 :: "obj list" where
  "objects_29 = [
    Obj (Some ''id-Gost28147-89-CryptoPro-D-ParamSet'') None (Some 827) (Some (OBJ_cryptopro @ [31, 4])),
    Obj (Some ''id-Gost28147-89-CryptoPro-Oscar-1-1-ParamSet'') None (Some 828) (Some (OBJ_cryptopro @ [31, 5])),
    Obj (Some ''id-Gost28147-89-CryptoPro-Oscar-1-0-ParamSet'') None (Some 829) (Some (OBJ_cryptopro @ [31, 6])),
    Obj (Some ''id-Gost28147-89-CryptoPro-RIC-1-ParamSet'') None (Some 830) (Some (OBJ_cryptopro @ [31, 7])),
    Obj (Some ''id-GostR3410-94-TestParamSet'') None (Some 831) (Some (OBJ_cryptopro @ [32, 0])),
    Obj (Some ''id-GostR3410-94-CryptoPro-A-ParamSet'') None (Some 832) (Some (OBJ_cryptopro @ [32, 2])),
    Obj (Some ''id-GostR3410-94-CryptoPro-B-ParamSet'') None (Some 833) (Some (OBJ_cryptopro @ [32, 3])),
    Obj (Some ''id-GostR3410-94-CryptoPro-C-ParamSet'') None (Some 834) (Some (OBJ_cryptopro @ [32, 4])),
    Obj (Some ''id-GostR3410-94-CryptoPro-D-ParamSet'') None (Some 835) (Some (OBJ_cryptopro @ [32, 5])),
    Obj (Some ''id-GostR3410-94-CryptoPro-XchA-ParamSet'') None (Some 836) (Some (OBJ_cryptopro @ [33, 1])),
    Obj (Some ''id-GostR3410-94-CryptoPro-XchB-ParamSet'') None (Some 837) (Some (OBJ_cryptopro @ [33, 2])),
    Obj (Some ''id-GostR3410-94-CryptoPro-XchC-ParamSet'') None (Some 838) (Some (OBJ_cryptopro @ [33, 3])),
    Obj (Some ''id-GostR3410-2001-TestParamSet'') None (Some 839) (Some (OBJ_cryptopro @ [35, 0])),
    Obj (Some ''id-GostR3410-2001-CryptoPro-A-ParamSet'') None (Some 840) (Some (OBJ_cryptopro @ [35, 1])),
    Obj (Some ''id-GostR3410-2001-CryptoPro-B-ParamSet'') None (Some 841) (Some (OBJ_cryptopro @ [35, 2])),
    Obj (Some ''id-GostR3410-2001-CryptoPro-C-ParamSet'') None (Some 842) (Some (OBJ_cryptopro @ [35, 3])),
    Obj (Some ''id-GostR3410-2001-CryptoPro-XchA-ParamSet'') None (Some 843) (Some (OBJ_cryptopro @ [36, 0])),
    Obj (Some ''id-GostR3410-2001-CryptoPro-XchB-ParamSet'') None (Some 844) (Some (OBJ_cryptopro @ [36, 1])),
    Obj (Some ''id-GostR3410-94-a'') None (Some 845) (Some (OBJ_id_GostR3410_94 @ [1])),
    Obj (Some ''id-GostR3410-94-aBis'') None (Some 846) (Some (OBJ_id_GostR3410_94 @ [2])),
    Obj (Some ''id-GostR3410-94-b'') None (Some 847) (Some (OBJ_id_GostR3410_94 @ [3])),
    Obj (Some ''id-GostR3410-94-bBis'') None (Some 848) (Some (OBJ_id_GostR3410_94 @ [4])),
    Obj (Some ''id-Gost28147-89-cc'') (Some ''GOST 28147-89 Cryptocom ParamSet'') (Some 849) (Some (OBJ_cryptocom @ [1, 6, 1])),
    Obj (Some ''gost94cc'') (Some ''GOST 34.10-94 Cryptocom'') (Some 850) (Some (OBJ_cryptocom @ [1, 5, 3])),
    Obj (Some ''gost2001cc'') (Some ''GOST 34.10-2001 Cryptocom'') (Some 851) (Some (OBJ_cryptocom @ [1, 5, 4])),
    Obj (Some ''id-GostR3411-94-with-GostR3410-94-cc'') (Some ''GOST R 34.11-94 with GOST R 34.10-94 Cryptocom'') (Some 852) (Some (OBJ_cryptocom @ [1, 3, 3])),
    Obj (Some ''id-GostR3411-94-with-GostR3410-2001-cc'') (Some ''GOST R 34.11-94 with GOST R 34.10-2001 Cryptocom'') (Some 853) (Some (OBJ_cryptocom @ [1, 3, 4])),
    Obj (Some ''id-GostR3410-2001-ParamSet-cc'') (Some ''GOST R 3410-2001 Parameter Set Cryptocom'') (Some 854) (Some (OBJ_cryptocom @ [1, 8, 1])),
    Obj (Some ''id-tc26-algorithms'') None (Some 977) (Some OBJ_id_tc26_algorithms),
    Obj (Some ''id-tc26-sign'') None (Some 978) (Some OBJ_id_tc26_sign),
    Obj (Some ''gost2012_256'') (Some ''GOST R 34.10-2012 with 256 bit modulus'') (Some 979) (Some (OBJ_id_tc26_sign @ [1])),
    Obj (Some ''gost2012_512'') (Some ''GOST R 34.10-2012 with 512 bit modulus'') (Some 980) (Some (OBJ_id_tc26_sign @ [2])),
    Obj (Some ''id-tc26-digest'') None (Some 981) (Some OBJ_id_tc26_digest),
    Obj (Some ''md_gost12_256'') (Some ''GOST R 34.11-2012 with 256 bit hash'') (Some 982) (Some (OBJ_id_tc26_digest @ [2])),
    Obj (Some ''md_gost12_512'') (Some ''GOST R 34.11-2012 with 512 bit hash'') (Some 983) (Some (OBJ_id_tc26_digest @ [3]))]"

lemma nids_29:
  "List.map_filter nid objects_29 = [827, 828, 829, 830, 831, 832, 833, 834, 835, 836, 837, 838, 839, 840, 841, 842, 843, 844, 845, 846, 847, 848, 849, 850, 851, 852, 853, 854, 977, 978, 979, 980, 981, 982, 983]"
  unfolding objects_29_def by (intro nids_intros)

lemma oids_29: "list_all obj_ok objects_29"
  unfolding objects_29_def by (intro obj_ok_intros) (simp_all add: oid_ok_def oid_defs)

definition objects_30 :: "obj list" where
  "objects_30 = [
    Obj (Some ''id-tc26-signwithdigest'') None (Some 984) (Some OBJ_id_tc26_signwithdigest),
    Obj (Some ''id-tc26-signwithdigest-gost3410-2012-256'') (Some ''GOST R 34.10-2012 with GOST R 34.11-2012 (256 bit)'') (Some 985) (Some (OBJ_id_tc26_signwithdigest @ [2])),
    Obj (Some ''id-tc26-signwithdigest-gost3410-2012-512'') (Some ''GOST R 34.10-2012 with GOST R 34.11-2012 (512 bit)'') (Some 986) (Some (OBJ_id_tc26_signwithdigest @ [3])),
    Obj (Some ''id-tc26-mac'') None (Some 987) (Some OBJ_id_tc26_mac),
    Obj (Some ''id-tc26-hmac-gost-3411-2012-256'') (Some ''HMAC GOST 34.11-2012 256 bit'') (Some 988) (Some (OBJ_id_tc26_mac @ [1])),
    Obj (Some ''id-tc26-hmac-gost-3411-2012-512'') (Some ''HMAC GOST 34.11-2012 512 bit'') (Some 989) (Some (OBJ_id_tc26_mac @ [2])),
    Obj (Some ''id-tc26-cipher'') None (Some 990) (Some OBJ_id_tc26_cipher),
    Obj (Some ''id-tc26-cipher-gostr3412-2015-magma'') None (Some 1173) (Some OBJ_id_tc26_cipher_gostr3412_2015_magma),
    Obj (Some ''magma-ctr-acpkm'') None (Some 1174) (Some (OBJ_id_tc26_cipher_gostr3412_2015_magma @ [1])),
    Obj (Some ''magma-ctr-acpkm-omac'') None (Some 1175) (Some (OBJ_id_tc26_cipher_gostr3412_2015_magma @ [2])),
    Obj (Some ''id-tc26-cipher-gostr3412-2015-kuznyechik'') None (Some 1176) (Some OBJ_id_tc26_cipher_gostr3412_2015_kuznyechik),
    Obj (Some ''kuznyechik-ctr-acpkm'') None (Some 1177) (Some (OBJ_id_tc26_cipher_gostr3412_2015_kuznyechik @ [1])),
    Obj (Some ''kuznyechik-ctr-acpkm-omac'') None (Some 1178) (Some (OBJ_id_tc26_cipher_gostr3412_2015_kuznyechik @ [2])),
    Obj (Some ''id-tc26-agreement'') None (Some 991) (Some OBJ_id_tc26_agreement),
    Obj (Some ''id-tc26-agreement-gost-3410-2012-256'') None (Some 992) (Some (OBJ_id_tc26_agreement @ [1])),
    Obj (Some ''id-tc26-agreement-gost-3410-2012-512'') None (Some 993) (Some (OBJ_id_tc26_agreement @ [2])),
    Obj (Some ''id-tc26-wrap'') None (Some 1179) (Some OBJ_id_tc26_wrap),
    Obj (Some ''id-tc26-wrap-gostr3412-2015-magma'') None (Some 1180) (Some OBJ_id_tc26_wrap_gostr3412_2015_magma),
    Obj (Some ''magma-kexp15'') None (Some 1181) (Some (OBJ_id_tc26_wrap_gostr3412_2015_magma @ [1])),
    Obj (Some ''id-tc26-wrap-gostr3412-2015-kuznyechik'') None (Some 1182) (Some OBJ_id_tc26_wrap_gostr3412_2015_kuznyechik),
    Obj (Some ''kuznyechik-kexp15'') None (Some 1183) (Some (OBJ_id_tc26_wrap_gostr3412_2015_kuznyechik @ [1])),
    Obj (Some ''id-tc26-constants'') None (Some 994) (Some OBJ_id_tc26_constants),
    Obj (Some ''id-tc26-sign-constants'') None (Some 995) (Some OBJ_id_tc26_sign_constants),
    Obj (Some ''id-tc26-gost-3410-2012-256-constants'') None (Some 1147) (Some OBJ_id_tc26_gost_3410_2012_256_constants),
    Obj (Some ''id-tc26-gost-3410-2012-256-paramSetA'') (Some ''GOST R 34.10-2012 (256 bit) ParamSet A'') (Some 1148) (Some (OBJ_id_tc26_gost_3410_2012_256_constants @ [1])),
    Obj (Some ''id-tc26-gost-3410-2012-256-paramSetB'') (Some ''GOST R 34.10-2012 (256 bit) ParamSet B'') (Some 1184) (Some (OBJ_id_tc26_gost_3410_2012_256_constants @ [2])),
    Obj (Some ''id-tc26-gost-3410-2012-256-paramSetC'') (Some ''GOST R 34.10-2012 (256 bit) ParamSet C'') (Some 1185) (Some (OBJ_id_tc26_gost_3410_2012_256_constants @ [3])),
    Obj (Some ''id-tc26-gost-3410-2012-256-paramSetD'') (Some ''GOST R 34.10-2012 (256 bit) ParamSet D'') (Some 1186) (Some (OBJ_id_tc26_gost_3410_2012_256_constants @ [4])),
    Obj (Some ''id-tc26-gost-3410-2012-512-constants'') None (Some 996) (Some OBJ_id_tc26_gost_3410_2012_512_constants),
    Obj (Some ''id-tc26-gost-3410-2012-512-paramSetTest'') (Some ''GOST R 34.10-2012 (512 bit) testing parameter set'') (Some 997) (Some (OBJ_id_tc26_gost_3410_2012_512_constants @ [0])),
    Obj (Some ''id-tc26-gost-3410-2012-512-paramSetA'') (Some ''GOST R 34.10-2012 (512 bit) ParamSet A'') (Some 998) (Some (OBJ_id_tc26_gost_3410_2012_512_constants @ [1])),
    Obj (Some ''id-tc26-gost-3410-2012-512-paramSetB'') (Some ''GOST R 34.10-2012 (512 bit) ParamSet B'') (Some 999) (Some (OBJ_id_tc26_gost_3410_2012_512_constants @ [2])),
    Obj (Some ''id-tc26-gost-3410-2012-512-paramSetC'') (Some ''GOST R 34.10-2012 (512 bit) ParamSet C'') (Some 1149) (Some (OBJ_id_tc26_gost_3410_2012_512_constants @ [3])),
    Obj (Some ''id-tc26-digest-constants'') None (Some 1000) (Some (OBJ_id_tc26_constants @ [2]))]"

lemma nids_30:
  "List.map_filter nid objects_30 = [984, 985, 986, 987, 988, 989, 990, 1173, 1174, 1175, 1176, 1177, 1178, 991, 992, 993, 1179, 1180, 1181, 1182, 1183, 994, 995, 1147, 1148, 1184, 1185, 1186, 996, 997, 998, 999, 1149, 1000]"
  unfolding objects_30_def by (intro nids_intros)

lemma oids_30: "list_all obj_ok objects_30"
  unfolding objects_30_def by (intro obj_ok_intros) (simp_all add: oid_ok_def oid_defs)

definition objects_31 :: "obj list" where
  "objects_31 = [
    Obj (Some ''id-tc26-cipher-constants'') None (Some 1001) (Some OBJ_id_tc26_cipher_constants),
    Obj (Some ''id-tc26-gost-28147-constants'') None (Some 1002) (Some OBJ_id_tc26_gost_28147_constants),
    Obj (Some ''id-tc26-gost-28147-param-Z'') (Some ''GOST 28147-89 TC26 parameter set'') (Some 1003) (Some (OBJ_id_tc26_gost_28147_constants @ [1])),
    Obj (Some ''INN'') (Some ''INN'') (Some 1004) (Some (OBJ_member_body @ [643, 3, 131, 1, 1])),
    Obj (Some ''OGRN'') (Some ''OGRN'') (Some 1005) (Some (OBJ_member_body @ [643, 100, 1])),
    Obj (Some ''SNILS'') (Some ''SNILS'') (Some 1006) (Some (OBJ_member_body @ [643, 100, 3])),
    Obj (Some ''OGRNIP'') (Some ''OGRNIP'') (Some 1226) (Some (OBJ_member_body @ [643, 100, 5])),
    Obj (Some ''subjectSignTool'') (Some ''Signing Tool of Subject'') (Some 1007) (Some (OBJ_member_body @ [643, 100, 111])),
    Obj (Some ''issuerSignTool'') (Some ''Signing Tool of Issuer'') (Some 1008) (Some (OBJ_member_body @ [643, 100, 112])),
    Obj (Some ''classSignTool'') (Some ''Class of Signing Tool'') (Some 1227) (Some (OBJ_member_body @ [643, 100, 113])),
    Obj (Some ''classSignToolKC1'') (Some ''Class of Signing Tool KC1'') (Some 1228) (Some (OBJ_member_body @ [643, 100, 113, 1])),
    Obj (Some ''classSignToolKC2'') (Some ''Class of Signing Tool KC2'') (Some 1229) (Some (OBJ_member_body @ [643, 100, 113, 2])),
    Obj (Some ''classSignToolKC3'') (Some ''Class of Signing Tool KC3'') (Some 1230) (Some (OBJ_member_body @ [643, 100, 113, 3])),
    Obj (Some ''classSignToolKB1'') (Some ''Class of Signing Tool KB1'') (Some 1231) (Some (OBJ_member_body @ [643, 100, 113, 4])),
    Obj (Some ''classSignToolKB2'') (Some ''Class of Signing Tool KB2'') (Some 1232) (Some (OBJ_member_body @ [643, 100, 113, 5])),
    Obj (Some ''classSignToolKA1'') (Some ''Class of Signing Tool KA1'') (Some 1233) (Some (OBJ_member_body @ [643, 100, 113, 6])),
    Obj (Some ''kuznyechik-ecb'') None (Some 1012) None,
    Obj (Some ''kuznyechik-ctr'') None (Some 1013) None,
    Obj (Some ''kuznyechik-ofb'') None (Some 1014) None,
    Obj (Some ''kuznyechik-cbc'') None (Some 1015) None,
    Obj (Some ''kuznyechik-cfb'') None (Some 1016) None,
    Obj (Some ''kuznyechik-mac'') None (Some 1017) None,
    Obj (Some ''magma-ecb'') None (Some 1187) None,
    Obj (Some ''magma-ctr'') None (Some 1188) None,
    Obj (Some ''magma-ofb'') None (Some 1189) None,
    Obj (Some ''magma-cbc'') None (Some 1190) None,
    Obj (Some ''magma-cfb'') None (Some 1191) None,
    Obj (Some ''magma-mac'') None (Some 1192) None,
    Obj (Some ''CAMELLIA-128-CBC'') (Some ''camellia-128-cbc'') (Some 751) (Some ([1, 2, 392, 200011, 61, 1, 1, 1, 2])),
    Obj (Some ''CAMELLIA-192-CBC'') (Some ''camellia-192-cbc'') (Some 752) (Some ([1, 2, 392, 200011, 61, 1, 1, 1, 3])),
    Obj (Some ''CAMELLIA-256-CBC'') (Some ''camellia-256-cbc'') (Some 753) (Some ([1, 2, 392, 200011, 61, 1, 1, 1, 4])),
    Obj (Some ''id-camellia128-wrap'') None (Some 907) (Some ([1, 2, 392, 200011, 61, 1, 1, 3, 2])),
    Obj (Some ''id-camellia192-wrap'') None (Some 908) (Some ([1, 2, 392, 200011, 61, 1, 1, 3, 3])),
    Obj (Some ''id-camellia256-wrap'') None (Some 909) (Some ([1, 2, 392, 200011, 61, 1, 1, 3, 4])),
    Obj None None None (Some OBJ_ntt_ds),
    Obj None None None (Some OBJ_camellia),
    Obj (Some ''CAMELLIA-128-ECB'') (Some ''camellia-128-ecb'') (Some 754) (Some (OBJ_camellia @ [1]))]"

lemma nids_31:
  "List.map_filter nid objects_31 = [1001, 1002, 1003, 1004, 1005, 1006, 1226, 1007, 1008, 1227, 1228, 1229, 1230, 1231, 1232, 1233, 1012, 1013, 1014, 1015, 1016, 1017, 1187, 1188, 1189, 1190, 1191, 1192, 751, 752, 753, 907, 908, 909, 754]"
  unfolding objects_31_def by (intro nids_intros)

lemma oids_31: "list_all obj_ok objects_31"
  unfolding objects_31_def by (intro obj_ok_intros) (simp_all add: oid_ok_def oid_defs)

definition objects_32 :: "obj list" where
  "objects_32 = [
    Obj (Some ''CAMELLIA-128-OFB'') (Some ''camellia-128-ofb'') (Some 766) (Some (OBJ_camellia @ [3])),
    Obj (Some ''CAMELLIA-128-CFB'') (Some ''camellia-128-cfb'') (Some 757) (Some (OBJ_camellia @ [4])),
    Obj (Some ''CAMELLIA-128-GCM'') (Some ''camellia-128-gcm'') (Some 961) (Some (OBJ_camellia @ [6])),
    Obj (Some ''CAMELLIA-128-CCM'') (Some ''camellia-128-ccm'') (Some 962) (Some (OBJ_camellia @ [7])),
    Obj (Some ''CAMELLIA-128-CTR'') (Some ''camellia-128-ctr'') (Some 963) (Some (OBJ_camellia @ [9])),
    Obj (Some ''CAMELLIA-128-CMAC'') (Some ''camellia-128-cmac'') (Some 964) (Some (OBJ_camellia @ [10])),
    Obj (Some ''CAMELLIA-192-ECB'') (Some ''camellia-192-ecb'') (Some 755) (Some (OBJ_camellia @ [21])),
    Obj (Some ''CAMELLIA-192-OFB'') (Some ''camellia-192-ofb'') (Some 767) (Some (OBJ_camellia @ [23])),
    Obj (Some ''CAMELLIA-192-CFB'') (Some ''camellia-192-cfb'') (Some 758) (Some (OBJ_camellia @ [24])),
    Obj (Some ''CAMELLIA-192-GCM'') (Some ''camellia-192-gcm'') (Some 965) (Some (OBJ_camellia @ [26])),
    Obj (Some ''CAMELLIA-192-CCM'') (Some ''camellia-192-ccm'') (Some 966) (Some (OBJ_camellia @ [27])),
    Obj (Some ''CAMELLIA-192-CTR'') (Some ''camellia-192-ctr'') (Some 967) (Some (OBJ_camellia @ [29])),
    Obj (Some ''CAMELLIA-192-CMAC'') (Some ''camellia-192-cmac'') (Some 968) (Some (OBJ_camellia @ [30])),
    Obj (Some ''CAMELLIA-256-ECB'') (Some ''camellia-256-ecb'') (Some 756) (Some (OBJ_camellia @ [41])),
    Obj (Some ''CAMELLIA-256-OFB'') (Some ''camellia-256-ofb'') (Some 768) (Some (OBJ_camellia @ [43])),
    Obj (Some ''CAMELLIA-256-CFB'') (Some ''camellia-256-cfb'') (Some 759) (Some (OBJ_camellia @ [44])),
    Obj (Some ''CAMELLIA-256-GCM'') (Some ''camellia-256-gcm'') (Some 969) (Some (OBJ_camellia @ [46])),
    Obj (Some ''CAMELLIA-256-CCM'') (Some ''camellia-256-ccm'') (Some 970) (Some (OBJ_camellia @ [47])),
    Obj (Some ''CAMELLIA-256-CTR'') (Some ''camellia-256-ctr'') (Some 971) (Some (OBJ_camellia @ [49])),
    Obj (Some ''CAMELLIA-256-CMAC'') (Some ''camellia-256-cmac'') (Some 972) (Some (OBJ_camellia @ [50])),
    Obj (Some ''CAMELLIA-128-CFB1'') (Some ''camellia-128-cfb1'') (Some 760) None,
    Obj (Some ''CAMELLIA-192-CFB1'') (Some ''camellia-192-cfb1'') (Some 761) None,
    Obj (Some ''CAMELLIA-256-CFB1'') (Some ''camellia-256-cfb1'') (Some 762) None,
    Obj (Some ''CAMELLIA-128-CFB8'') (Some ''camellia-128-cfb8'') (Some 763) None,
    Obj (Some ''CAMELLIA-192-CFB8'') (Some ''camellia-192-cfb8'') (Some 764) None,
    Obj (Some ''CAMELLIA-256-CFB8'') (Some ''camellia-256-cfb8'') (Some 765) None,
    Obj None None None (Some OBJ_aria),
    Obj (Some ''ARIA-128-ECB'') (Some ''aria-128-ecb'') (Some 1065) (Some (OBJ_aria @ [1])),
    Obj (Some ''ARIA-128-CBC'') (Some ''aria-128-cbc'') (Some 1066) (Some (OBJ_aria @ [2])),
    Obj (Some ''ARIA-128-CFB'') (Some ''aria-128-cfb'') (Some 1067) (Some (OBJ_aria @ [3])),
    Obj (Some ''ARIA-128-OFB'') (Some ''aria-128-ofb'') (Some 1068) (Some (OBJ_aria @ [4])),
    Obj (Some ''ARIA-128-CTR'') (Some ''aria-128-ctr'') (Some 1069) (Some (OBJ_aria @ [5]))]"

lemma nids_32:
  "List.map_filter nid objects_32 = [766, 757, 961, 962, 963, 964, 755, 767, 758, 965, 966, 967, 968, 756, 768, 759, 969, 970, 971, 972, 760, 761, 762, 763, 764, 765, 1065, 1066, 1067, 1068, 1069]"
  unfolding objects_32_def by (intro nids_intros)

lemma oids_32: "list_all obj_ok objects_32"
  unfolding objects_32_def by (intro obj_ok_intros) (simp_all add: oid_ok_def oid_defs)

definition objects_33 :: "obj list" where
  "objects_33 = [
    Obj (Some ''ARIA-192-ECB'') (Some ''aria-192-ecb'') (Some 1070) (Some (OBJ_aria @ [6])),
    Obj (Some ''ARIA-192-CBC'') (Some ''aria-192-cbc'') (Some 1071) (Some (OBJ_aria @ [7])),
    Obj (Some ''ARIA-192-CFB'') (Some ''aria-192-cfb'') (Some 1072) (Some (OBJ_aria @ [8])),
    Obj (Some ''ARIA-192-OFB'') (Some ''aria-192-ofb'') (Some 1073) (Some (OBJ_aria @ [9])),
    Obj (Some ''ARIA-192-CTR'') (Some ''aria-192-ctr'') (Some 1074) (Some (OBJ_aria @ [10])),
    Obj (Some ''ARIA-256-ECB'') (Some ''aria-256-ecb'') (Some 1075) (Some (OBJ_aria @ [11])),
    Obj (Some ''ARIA-256-CBC'') (Some ''aria-256-cbc'') (Some 1076) (Some (OBJ_aria @ [12])),
    Obj (Some ''ARIA-256-CFB'') (Some ''aria-256-cfb'') (Some 1077) (Some (OBJ_aria @ [13])),
    Obj (Some ''ARIA-256-OFB'') (Some ''aria-256-ofb'') (Some 1078) (Some (OBJ_aria @ [14])),
    Obj (Some ''ARIA-256-CTR'') (Some ''aria-256-ctr'') (Some 1079) (Some (OBJ_aria @ [15])),
    Obj (Some ''ARIA-128-CFB1'') (Some ''aria-128-cfb1'') (Some 1080) None,
    Obj (Some ''ARIA-192-CFB1'') (Some ''aria-192-cfb1'') (Some 1081) None,
    Obj (Some ''ARIA-256-CFB1'') (Some ''aria-256-cfb1'') (Some 1082) None,
    Obj (Some ''ARIA-128-CFB8'') (Some ''aria-128-cfb8'') (Some 1083) None,
    Obj (Some ''ARIA-192-CFB8'') (Some ''aria-192-cfb8'') (Some 1084) None,
    Obj (Some ''ARIA-256-CFB8'') (Some ''aria-256-cfb8'') (Some 1085) None,
    Obj (Some ''ARIA-128-CCM'') (Some ''aria-128-ccm'') (Some 1120) (Some (OBJ_aria @ [37])),
    Obj (Some ''ARIA-192-CCM'') (Some ''aria-192-ccm'') (Some 1121) (Some (OBJ_aria @ [38])),
    Obj (Some ''ARIA-256-CCM'') (Some ''aria-256-ccm'') (Some 1122) (Some (OBJ_aria @ [39])),
    Obj (Some ''ARIA-128-GCM'') (Some ''aria-128-gcm'') (Some 1123) (Some (OBJ_aria @ [34])),
    Obj (Some ''ARIA-192-GCM'') (Some ''aria-192-gcm'') (Some 1124) (Some (OBJ_aria @ [35])),
    Obj (Some ''ARIA-256-GCM'') (Some ''aria-256-gcm'') (Some 1125) (Some (OBJ_aria @ [36])),
    Obj (Some ''KISA'') (Some ''kisa'') (Some 773) (Some OBJ_kisa),
    Obj (Some ''SEED-ECB'') (Some ''seed-ecb'') (Some 776) (Some (OBJ_kisa @ [1, 3])),
    Obj (Some ''SEED-CBC'') (Some ''seed-cbc'') (Some 777) (Some (OBJ_kisa @ [1, 4])),
    Obj (Some ''SEED-CFB'') (Some ''seed-cfb'') (Some 779) (Some (OBJ_kisa @ [1, 5])),
    Obj (Some ''SEED-OFB'') (Some ''seed-ofb'') (Some 778) (Some (OBJ_kisa @ [1, 6])),
    Obj (Some ''SM4-ECB'') (Some ''sm4-ecb'') (Some 1133) (Some (OBJ_sm_scheme @ [104, 1])),
    Obj (Some ''SM4-CBC'') (Some ''sm4-cbc'') (Some 1134) (Some (OBJ_sm_scheme @ [104, 2])),
    Obj (Some ''SM4-OFB'') (Some ''sm4-ofb'') (Some 1135) (Some (OBJ_sm_scheme @ [104, 3])),
    Obj (Some ''SM4-CFB'') (Some ''sm4-cfb'') (Some 1137) (Some (OBJ_sm_scheme @ [104, 4]))]"

lemma nids_33:
  "List.map_filter nid objects_33 = [1070, 1071, 1072, 1073, 1074, 1075, 1076, 1077, 1078, 1079, 1080, 1081, 1082, 1083, 1084, 1085, 1120, 1121, 1122, 1123, 1124, 1125, 773, 776, 777, 779, 778, 1133, 1134, 1135, 1137]"
  unfolding objects_33_def by (intro nids_intros)

lemma oids_33: "list_all obj_ok objects_33"
  unfolding objects_33_def by (intro obj_ok_intros) (simp_all add: oid_ok_def oid_defs)

definition objects_34 :: "obj list" where
  "objects_34 = [
    Obj (Some ''SM4-CFB1'') (Some ''sm4-cfb1'') (Some 1136) (Some (OBJ_sm_scheme @ [104, 5])),
    Obj (Some ''SM4-CFB8'') (Some ''sm4-cfb8'') (Some 1138) (Some (OBJ_sm_scheme @ [104, 6])),
    Obj (Some ''SM4-CTR'') (Some ''sm4-ctr'') (Some 1139) (Some (OBJ_sm_scheme @ [104, 7])),
    Obj (Some ''HMAC'') (Some ''hmac'') (Some 855) None,
    Obj (Some ''CMAC'') (Some ''cmac'') (Some 894) None,
    Obj (Some ''RC4-HMAC-MD5'') (Some ''rc4-hmac-md5'') (Some 915) None,
    Obj (Some ''AES-128-CBC-HMAC-SHA1'') (Some ''aes-128-cbc-hmac-sha1'') (Some 916) None,
    Obj (Some ''AES-192-CBC-HMAC-SHA1'') (Some ''aes-192-cbc-hmac-sha1'') (Some 917) None,
    Obj (Some ''AES-256-CBC-HMAC-SHA1'') (Some ''aes-256-cbc-hmac-sha1'') (Some 918) None,
    Obj (Some ''AES-128-CBC-HMAC-SHA256'') (Some ''aes-128-cbc-hmac-sha256'') (Some 948) None,
    Obj (Some ''AES-192-CBC-HMAC-SHA256'') (Some ''aes-192-cbc-hmac-sha256'') (Some 949) None,
    Obj (Some ''AES-256-CBC-HMAC-SHA256'') (Some ''aes-256-cbc-hmac-sha256'') (Some 950) None,
    Obj (Some ''ChaCha20-Poly1305'') (Some ''chacha20-poly1305'') (Some 1018) None,
    Obj (Some ''ChaCha20'') (Some ''chacha20'') (Some 1019) None,
    Obj (Some ''dhpublicnumber'') (Some ''X9.42 DH'') (Some 920) (Some (OBJ_ISO_US @ [10046, 2, 1])),
    Obj (Some ''brainpoolP160r1'') None (Some 921) (Some ([1, 3, 36, 3, 3, 2, 8, 1, 1, 1])),
    Obj (Some ''brainpoolP160t1'') None (Some 922) (Some ([1, 3, 36, 3, 3, 2, 8, 1, 1, 2])),
    Obj (Some ''brainpoolP192r1'') None (Some 923) (Some ([1, 3, 36, 3, 3, 2, 8, 1, 1, 3])),
    Obj (Some ''brainpoolP192t1'') None (Some 924) (Some ([1, 3, 36, 3, 3, 2, 8, 1, 1, 4])),
    Obj (Some ''brainpoolP224r1'') None (Some 925) (Some ([1, 3, 36, 3, 3, 2, 8, 1, 1, 5])),
    Obj (Some ''brainpoolP224t1'') None (Some 926) (Some ([1, 3, 36, 3, 3, 2, 8, 1, 1, 6])),
    Obj (Some ''brainpoolP256r1'') None (Some 927) (Some ([1, 3, 36, 3, 3, 2, 8, 1, 1, 7])),
    Obj (Some ''brainpoolP256t1'') None (Some 928) (Some ([1, 3, 36, 3, 3, 2, 8, 1, 1, 8])),
    Obj (Some ''brainpoolP320r1'') None (Some 929) (Some ([1, 3, 36, 3, 3, 2, 8, 1, 1, 9])),
    Obj (Some ''brainpoolP320t1'') None (Some 930) (Some ([1, 3, 36, 3, 3, 2, 8, 1, 1, 10])),
    Obj (Some ''brainpoolP384r1'') None (Some 931) (Some ([1, 3, 36, 3, 3, 2, 8, 1, 1, 11])),
    Obj (Some ''brainpoolP384t1'') None (Some 932) (Some ([1, 3, 36, 3, 3, 2, 8, 1, 1, 12])),
    Obj (Some ''brainpoolP512r1'') None (Some 933) (Some ([1, 3, 36, 3, 3, 2, 8, 1, 1, 13])),
    Obj (Some ''brainpoolP512t1'') None (Some 934) (Some ([1, 3, 36, 3, 3, 2, 8, 1, 1, 14])),
    Obj None None None (Some OBJ_x9_63_scheme),
    Obj None None None (Some OBJ_secg_scheme),
    Obj (Some ''dhSinglePass-stdDH-sha1kdf-scheme'') None (Some 936) (Some (OBJ_x9_63_scheme @ [2])),
    Obj (Some ''dhSinglePass-stdDH-sha224kdf-scheme'') None (Some 937) (Some (OBJ_secg_scheme @ [11, 0])),
    Obj (Some ''dhSinglePass-stdDH-sha256kdf-scheme'') None (Some 938) (Some (OBJ_secg_scheme @ [11, 1])),
    Obj (Some ''dhSinglePass-stdDH-sha384kdf-scheme'') None (Some 939) (Some (OBJ_secg_scheme @ [11, 2])),
    Obj (Some ''dhSinglePass-stdDH-sha512kdf-scheme'') None (Some 940) (Some (OBJ_secg_scheme @ [11, 3])),
    Obj (Some ''dhSinglePass-cofactorDH-sha1kdf-scheme'') None (Some 941) (Some (OBJ_x9_63_scheme @ [3]))]"

lemma nids_34:
  "List.map_filter nid objects_34 = [1136, 1138, 1139, 855, 894, 915, 916, 917, 918, 948, 949, 950, 1018, 1019, 920, 921, 922, 923, 924, 925, 926, 927, 928, 929, 930, 931, 932, 933, 934, 936, 937, 938, 939, 940, 941]"
  unfolding objects_34_def by (intro nids_intros)

lemma oids_34: "list_all obj_ok objects_34"
  unfolding objects_34_def by (intro obj_ok_intros) (simp_all add: oid_ok_def oid_defs)

definition objects_35 :: "obj list" where
  "objects_35 = [
    Obj (Some ''dhSinglePass-cofactorDH-sha224kdf-scheme'') None (Some 942) (Some (OBJ_secg_scheme @ [14, 0])),
    Obj (Some ''dhSinglePass-cofactorDH-sha256kdf-scheme'') None (Some 943) (Some (OBJ_secg_scheme @ [14, 1])),
    Obj (Some ''dhSinglePass-cofactorDH-sha384kdf-scheme'') None (Some 944) (Some (OBJ_secg_scheme @ [14, 2])),
    Obj (Some ''dhSinglePass-cofactorDH-sha512kdf-scheme'') None (Some 945) (Some (OBJ_secg_scheme @ [14, 3])),
    Obj (Some ''dh-std-kdf'') None (Some 946) None,
    Obj (Some ''dh-cofactor-kdf'') None (Some 947) None,
    Obj (Some ''ct_precert_scts'') (Some ''CT Precertificate SCTs'') (Some 951) (Some ([1, 3, 6, 1, 4, 1, 11129, 2, 4, 2])),
    Obj (Some ''ct_precert_poison'') (Some ''CT Precertificate Poison'') (Some 952) (Some ([1, 3, 6, 1, 4, 1, 11129, 2, 4, 3])),
    Obj (Some ''ct_precert_signer'') (Some ''CT Precertificate Signer'') (Some 953) (Some ([1, 3, 6, 1, 4, 1, 11129, 2, 4, 4])),
    Obj (Some ''ct_cert_scts'') (Some ''CT Certificate SCTs'') (Some 954) (Some ([1, 3, 6, 1, 4, 1, 11129, 2, 4, 5])),
    Obj (Some ''jurisdictionL'') (Some ''jurisdictionLocalityName'') (Some 955) (Some ([1, 3, 6, 1, 4, 1, 311, 60, 2, 1, 1])),
    Obj (Some ''jurisdictionST'') (Some ''jurisdictionStateOrProvinceName'') (Some 956) (Some ([1, 3, 6, 1, 4, 1, 311, 60, 2, 1, 2])),
    Obj (Some ''jurisdictionC'') (Some ''jurisdictionCountryName'') (Some 957) (Some ([1, 3, 6, 1, 4, 1, 311, 60, 2, 1, 3])),
    Obj (Some ''id-scrypt'') (Some ''scrypt'') (Some 973) (Some ([1, 3, 6, 1, 4, 1, 11591, 4, 11])),
    Obj (Some ''TLS1-PRF'') (Some ''tls1-prf'') (Some 1021) None,
    Obj (Some ''HKDF'') (Some ''hkdf'') (Some 1036) None,
    Obj (Some ''SSHKDF'') (Some ''sshkdf'') (Some 1203) None,
    Obj (Some ''SSKDF'') (Some ''sskdf'') (Some 1205) None,
    Obj (Some ''X942KDF'') (Some ''x942kdf'') (Some 1207) None,
    Obj (Some ''X963KDF'') (Some ''x963kdf'') (Some 1206) None,
    Obj (Some ''id-pkinit'') None (Some 1031) (Some OBJ_id_pkinit),
    Obj (Some ''pkInitClientAuth'') (Some ''PKINIT Client Auth'') (Some 1032) (Some (OBJ_id_pkinit @ [4])),
    Obj (Some ''pkInitKDC'') (Some ''Signing KDC Response'') (Some 1033) (Some (OBJ_id_pkinit @ [5])),
    Obj (Some ''X25519'') None (Some 1034) (Some OBJ_X25519),
    Obj (Some ''X448'') None (Some 1035) (Some OBJ_X448),
    Obj (Some ''ED25519'') None (Some 1087) (Some OBJ_ED25519),
    Obj (Some ''ED448'') None (Some 1088) (Some OBJ_ED448),
    Obj (Some ''KxRSA'') (Some ''kx-rsa'') (Some 1037) None,
    Obj (Some ''KxECDHE'') (Some ''kx-ecdhe'') (Some 1038) None,
    Obj (Some ''KxDHE'') (Some ''kx-dhe'') (Some 1039) None,
    Obj (Some ''KxECDHE-PSK'') (Some ''kx-ecdhe-psk'') (Some 1040) None,
    Obj (Some ''KxDHE-PSK'') (Some ''kx-dhe-psk'') (Some 1041) None,
    Obj (Some ''KxRSA_PSK'') (Some ''kx-rsa-psk'') (Some 1042) None,
    Obj (Some ''KxPSK'') (Some ''kx-psk'') (Some 1043) None,
    Obj (Some ''KxSRP'') (Some ''kx-srp'') (Some 1044) None]"

lemma nids_35:
  "List.map_filter nid objects_35 = [942, 943, 944, 945, 946, 947, 951, 952, 953, 954, 955, 956, 957, 973, 1021, 1036, 1203, 1205, 1207, 1206, 1031, 1032, 1033, 1034, 1035, 1087, 1088, 1037, 1038, 1039, 1040, 1041, 1042, 1043, 1044]"
  unfolding objects_35_def by (intro nids_intros)

lemma oids_35: "list_all obj_ok objects_35"
  unfolding objects_35_def by (intro obj_ok_intros) (simp_all add: oid_ok_def oid_defs)

definition objects_36 :: "obj list" where
  "objects_36 = [
    Obj (Some ''KxGOST'') (Some ''kx-gost'') (Some 1045) None,
    Obj (Some ''KxGOST18'') (Some ''kx-gost18'') (Some 1218) None,
    Obj (Some ''KxANY'') (Some ''kx-any'') (Some 1063) None,
    Obj (Some ''AuthRSA'') (Some ''auth-rsa'') (Some 1046) None,
    Obj (Some ''AuthECDSA'') (Some ''auth-ecdsa'') (Some 1047) None,
    Obj (Some ''AuthPSK'') (Some ''auth-psk'') (Some 1048) None,
    Obj (Some ''AuthDSS'') (Some ''auth-dss'') (Some 1049) None,
    Obj (Some ''AuthGOST01'') (Some ''auth-gost01'') (Some 1050) None,
    Obj (Some ''AuthGOST12'') (Some ''auth-gost12'') (Some 1051) None,
    Obj (Some ''AuthSRP'') (Some ''auth-srp'') (Some 1052) None,
    Obj (Some ''AuthNULL'') (Some ''auth-null'') (Some 1053) None,
    Obj (Some ''AuthANY'') (Some ''auth-any'') (Some 1064) None,
    Obj (Some ''Poly1305'') (Some ''poly1305'') (Some 1061) None,
    Obj (Some ''SipHash'') (Some ''siphash'') (Some 1062) None,
    Obj (Some ''ffdhe2048'') None (Some 1126) None,
    Obj (Some ''ffdhe3072'') None (Some 1127) None,
    Obj (Some ''ffdhe4096'') None (Some 1128) None,
    Obj (Some ''ffdhe6144'') None (Some 1129) None,
    Obj (Some ''ffdhe8192'') None (Some 1130) None,
    Obj (Some ''modp_1536'') None (Some 1212) None,
    Obj (Some ''modp_2048'') None (Some 1213) None,
    Obj (Some ''modp_3072'') None (Some 1214) None,
    Obj (Some ''modp_4096'') None (Some 1215) None,
    Obj (Some ''modp_6144'') None (Some 1216) None,
    Obj (Some ''modp_8192'') None (Some 1217) None,
    Obj (Some ''ISO-UA'') None (Some 1150) (Some OBJ_ISO_UA),
    Obj (Some ''ua-pki'') None (Some 1151) (Some OBJ_ua_pki),
    Obj (Some ''dstu28147'') (Some ''DSTU Gost 28147-2009'') (Some 1152) (Some OBJ_dstu28147),
    Obj (Some ''dstu28147-ofb'') (Some ''DSTU Gost 28147-2009 OFB mode'') (Some 1153) (Some (OBJ_dstu28147 @ [2])),
    Obj (Some ''dstu28147-cfb'') (Some ''DSTU Gost 28147-2009 CFB mode'') (Some 1154) (Some (OBJ_dstu28147 @ [3])),
    Obj (Some ''dstu28147-wrap'') (Some ''DSTU Gost 28147-2009 key wrap'') (Some 1155) (Some (OBJ_dstu28147 @ [5])),
    Obj (Some ''hmacWithDstu34311'') (Some ''HMAC DSTU Gost 34311-95'') (Some 1156) (Some (OBJ_ua_pki @ [1, 1, 2])),
    Obj (Some ''dstu34311'') (Some ''DSTU Gost 34311-95'') (Some 1157) (Some (OBJ_ua_pki @ [1, 2, 1])),
    Obj (Some ''dstu4145le'') (Some ''DSTU 4145-2002 little endian'') (Some 1158) (Some OBJ_dstu4145le),
    Obj (Some ''dstu4145be'') (Some ''DSTU 4145-2002 big endian'') (Some 1159) (Some (OBJ_dstu4145le @ [1, 1])),
    Obj (Some ''uacurve0'') (Some ''DSTU curve 0'') (Some 1160) (Some (OBJ_dstu4145le @ [2, 0])),
    Obj (Some ''uacurve1'') (Some ''DSTU curve 1'') (Some 1161) (Some (OBJ_dstu4145le @ [2, 1]))]"

lemma nids_36:
  "List.map_filter nid objects_36 = [1045, 1218, 1063, 1046, 1047, 1048, 1049, 1050, 1051, 1052, 1053, 1064, 1061, 1062, 1126, 1127, 1128, 1129, 1130, 1212, 1213, 1214, 1215, 1216, 1217, 1150, 1151, 1152, 1153, 1154, 1155, 1156, 1157, 1158, 1159, 1160, 1161]"
  unfolding objects_36_def by (intro nids_intros)

lemma oids_36: "list_all obj_ok objects_36"
  unfolding objects_36_def by (intro obj_ok_intros) (simp_all add: oid_ok_def oid_defs)

definition objects_37 :: "obj list" where
  "objects_37 = [
    Obj (Some ''uacurve2'') (Some ''DSTU curve 2'') (Some 1162) (Some (OBJ_dstu4145le @ [2, 2])),
    Obj (Some ''uacurve3'') (Some ''DSTU curve 3'') (Some 1163) (Some (OBJ_dstu4145le @ [2, 3])),
    Obj (Some ''uacurve4'') (Some ''DSTU curve 4'') (Some 1164) (Some (OBJ_dstu4145le @ [2, 4])),
    Obj (Some ''uacurve5'') (Some ''DSTU curve 5'') (Some 1165) (Some (OBJ_dstu4145le @ [2, 5])),
    Obj (Some ''uacurve6'') (Some ''DSTU curve 6'') (Some 1166) (Some (OBJ_dstu4145le @ [2, 6])),
    Obj (Some ''uacurve7'') (Some ''DSTU curve 7'') (Some 1167) (Some (OBJ_dstu4145le @ [2, 7])),
    Obj (Some ''uacurve8'') (Some ''DSTU curve 8'') (Some 1168) (Some (OBJ_dstu4145le @ [2, 8])),
    Obj (Some ''uacurve9'') (Some ''DSTU curve 9'') (Some 1169) (Some (OBJ_dstu4145le @ [2, 9])),
    Obj (Some ''AES-128-SIV'') (Some ''aes-128-siv'') (Some 1198) None,
    Obj (Some ''AES-192-SIV'') (Some ''aes-192-siv'') (Some 1199) None,
    Obj (Some ''AES-256-SIV'') (Some ''aes-256-siv'') (Some 1200) None]"

lemma nids_37:
  "List.map_filter nid objects_37 = [1162, 1163, 1164, 1165, 1166, 1167, 1168, 1169, 1198, 1199, 1200]"
  unfolding objects_37_def by (intro nids_intros)

lemma oids_37: "list_all obj_ok objects_37"
  unfolding objects_37_def by (intro obj_ok_intros) (simp_all add: oid_ok_def oid_defs)

end
