(* ===== verification/ObjIndex.thy ===== *)
theory ObjIndex
  imports ObjTable3
begin

text \<open>
  The whole registry, and an index that gives for each numeric identifier its position
  among the entries that have one. The index is a certificate: that it inverts the table is
  checked by evaluation, so no two entries share an identifier.
\<close>

definition obj_table :: "obj list" where
  "obj_table = concat [objects_1, objects_2, objects_3, objects_4, objects_5, objects_6, objects_7, objects_8, objects_9,
     objects_10, objects_11, objects_12, objects_13, objects_14, objects_15, objects_16, objects_17,
     objects_18, objects_19, objects_20, objects_21, objects_22, objects_23, objects_24, objects_25,
     objects_26, objects_27, objects_28, objects_29, objects_30, objects_31, objects_32, objects_33,
     objects_34, objects_35, objects_36, objects_37]"

definition obj_nids :: "nat list" where
  "obj_nids = List.map_filter nid obj_table"

definition nid_index_0 :: "nat \<Rightarrow> nat" where
  "nid_index_0 n =
     (if n < 20 then (if n < 10 then (if n < 5 then (if n < 2 then (if n < 1 then 0 else 119) else (if n
     < 3 then 120 else (if n < 4 then 269 else 271))) else (if n < 7 then (if n < 6 then 291 else 122)
     else (if n < 8 then 123 else (if n < 9 then 125 else 140)))) else (if n < 15 then (if n < 12 then
     (if n < 11 then 141 else 517) else (if n < 13 then 518 else (if n < 14 then 519 else 522))) else (if
     n < 17 then (if n < 16 then 523 else 524) else (if n < 18 then 526 else (if n < 19 then 527 else
     578))))) else (if n < 30 then (if n < 25 then (if n < 22 then (if n < 21 then 149 else 150) else (if
     n < 23 then 151 else (if n < 24 then 152 else 153))) else (if n < 27 then (if n < 26 then 154 else
     155) else (if n < 28 then 137 else (if n < 29 then 138 else 490)))) else (if n < 35 then (if n < 32
     then (if n < 31 then 493 else 491) else (if n < 33 then 498 else (if n < 34 then 499 else 306)))
     else (if n < 37 then (if n < 36 then 308 else 307) else (if n < 38 then 285 else (if n < 39 then 286
     else 287))))))"

definition nid_index_1 :: "nat \<Rightarrow> nat" where
  "nid_index_1 n =
     (if n < 60 then (if n < 50 then (if n < 45 then (if n < 42 then (if n < 41 then 288 else 506) else
     (if n < 43 then 497 else (if n < 44 then 500 else 293))) else (if n < 47 then (if n < 46 then 492
     else 309) else (if n < 48 then 156 else (if n < 49 then 157 else 158)))) else (if n < 55 then (if n
     < 52 then (if n < 51 then 159 else 160) else (if n < 53 then 161 else (if n < 54 then 162 else
     163))) else (if n < 57 then (if n < 56 then 164 else 165) else (if n < 58 then 608 else (if n < 59
     then 609 else 610))))) else (if n < 70 then (if n < 65 then (if n < 62 then (if n < 61 then 501 else
     502) else (if n < 63 then 503 else (if n < 64 then 504 else 507))) else (if n < 67 then (if n < 66
     then 126 else 496) else (if n < 68 then 495 else (if n < 69 then 145 else 146)))) else (if n < 75
     then (if n < 72 then (if n < 71 then 508 else 611) else (if n < 73 then 612 else (if n < 74 then 613
     else 614))) else (if n < 77 then (if n < 76 then 615 else 616) else (if n < 78 then 617 else (if n <
     79 then 618 else 619))))))"

definition nid_index_2 :: "nat \<Rightarrow> nat" where
  "nid_index_2 n =
     (if n < 100 then (if n < 90 then (if n < 85 then (if n < 82 then (if n < 81 then 505 else 581) else
     (if n < 83 then 583 else (if n < 84 then 584 else 585))) else (if n < 87 then (if n < 86 then 586
     else 587) else (if n < 88 then 588 else (if n < 89 then 589 else 597)))) else (if n < 95 then (if n
     < 92 then (if n < 91 then 600 else 310) else (if n < 93 then 311 else (if n < 94 then 312 else
     313))) else (if n < 97 then (if n < 96 then 580 else 579) else (if n < 98 then 292 else (if n < 99
     then 289 else 558))))) else (if n < 110 then (if n < 105 then (if n < 102 then (if n < 101 then 520
     else 559) else (if n < 103 then 778 else (if n < 104 then 596 else 489))) else (if n < 107 then (if
     n < 106 then 521 else 528) else (if n < 108 then 529 else (if n < 109 then 112 else 113)))) else (if
     n < 115 then (if n < 112 then (if n < 111 then 114 else 115) else (if n < 113 then 116 else (if n <
     114 then 27 else 272))) else (if n < 117 then (if n < 116 then 509 else 26) else (if n < 119 then
     510 else (if n < 120 then 511 else 294))))))"

definition nid_index_3 :: "nat \<Rightarrow> nat" where
  "nid_index_3 n =
     (if n < 142 then (if n < 132 then (if n < 127 then (if n < 123 then (if n < 122 then 295 else 296)
     else (if n < 125 then 297 else (if n < 126 then 638 else 602))) else (if n < 129 then (if n < 128
     then 314 else 318) else (if n < 130 then 365 else (if n < 131 then 366 else 367)))) else (if n < 137
     then (if n < 134 then (if n < 133 then 368 else 372) else (if n < 135 then 299 else (if n < 136 then
     300 else 301))) else (if n < 139 then (if n < 138 then 302 else 303) else (if n < 140 then 620 else
     (if n < 141 then 592 else 590))))) else (if n < 152 then (if n < 147 then (if n < 144 then (if n <
     143 then 591 else 516) else (if n < 145 then 257 else (if n < 146 then 258 else 259))) else (if n <
     149 then (if n < 148 then 260 else 261) else (if n < 150 then 262 else (if n < 151 then 263 else
     264)))) else (if n < 157 then (if n < 154 then (if n < 153 then 265 else 266) else (if n < 155 then
     267 else (if n < 156 then 268 else 250))) else (if n < 159 then (if n < 158 then 251 else 254) else
     (if n < 160 then 255 else (if n < 161 then 256 else 147))))))"

definition nid_index_4 :: "nat \<Rightarrow> nat" where
  "nid_index_4 n =
     (if n < 182 then (if n < 172 then (if n < 167 then (if n < 164 then (if n < 163 then 148 else 274)
     else (if n < 165 then 362 else (if n < 166 then 363 else 290))) else (if n < 169 then (if n < 168
     then 167 else 142) else (if n < 170 then 143 else (if n < 171 then 144 else 298)))) else (if n < 177
     then (if n < 174 then (if n < 173 then 166 else 557) else (if n < 175 then 562 else (if n < 176 then
     316 else 330))) else (if n < 179 then (if n < 178 then 347 else 469) else (if n < 180 then 470 else
     (if n < 181 then 373 else 3))))) else (if n < 192 then (if n < 187 then (if n < 184 then (if n < 183
     then 6 else 20) else (if n < 185 then 21 else (if n < 186 then 22 else 121))) else (if n < 189 then
     (if n < 188 then 139 else 168) else (if n < 190 then 169 else (if n < 191 then 170 else 171)))) else
     (if n < 197 then (if n < 194 then (if n < 193 then 172 else 173) else (if n < 195 then 174 else (if
     n < 196 then 175 else 176))) else (if n < 199 then (if n < 198 then 177 else 178) else (if n < 200
     then 179 else (if n < 201 then 180 else 181))))))"

definition nid_index_5 :: "nat \<Rightarrow> nat" where
  "nid_index_5 n =
     (if n < 222 then (if n < 212 then (if n < 207 then (if n < 204 then (if n < 203 then 182 else 183)
     else (if n < 205 then 184 else (if n < 206 then 185 else 186))) else (if n < 209 then (if n < 208
     then 187 else 188) else (if n < 210 then 189 else (if n < 211 then 190 else 191)))) else (if n < 217
     then (if n < 214 then (if n < 213 then 203 else 204) else (if n < 215 then 205 else (if n < 216 then
     206 else 207))) else (if n < 219 then (if n < 218 then 208 else 209) else (if n < 220 then 210 else
     (if n < 221 then 211 else 212))))) else (if n < 232 then (if n < 227 then (if n < 224 then (if n <
     223 then 213 else 214) else (if n < 225 then 215 else (if n < 226 then 216 else 217))) else (if n <
     229 then (if n < 228 then 218 else 219) else (if n < 230 then 220 else (if n < 231 then 221 else
     222)))) else (if n < 237 then (if n < 234 then (if n < 233 then 223 else 224) else (if n < 235 then
     225 else (if n < 236 then 226 else 227))) else (if n < 239 then (if n < 238 then 228 else 229) else
     (if n < 240 then 230 else (if n < 241 then 231 else 233))))))"

definition nid_index_6 :: "nat \<Rightarrow> nat" where
  "nid_index_6 n =
     (if n < 262 then (if n < 252 then (if n < 247 then (if n < 244 then (if n < 243 then 234 else 235)
     else (if n < 245 then 236 else (if n < 246 then 237 else 238))) else (if n < 249 then (if n < 248
     then 239 else 241) else (if n < 250 then 242 else (if n < 251 then 243 else 244)))) else (if n < 257
     then (if n < 254 then (if n < 253 then 245 else 246) else (if n < 255 then 247 else (if n < 256 then
     248 else 249))) else (if n < 259 then (if n < 258 then 270 else 315) else (if n < 260 then 317 else
     (if n < 261 then 319 else 320))))) else (if n < 272 then (if n < 267 then (if n < 264 then (if n <
     263 then 321 else 322) else (if n < 265 then 323 else (if n < 266 then 324 else 325))) else (if n <
     269 then (if n < 268 then 326 else 328) else (if n < 270 then 331 else (if n < 271 then 332 else
     333)))) else (if n < 277 then (if n < 274 then (if n < 273 then 334 else 335) else (if n < 275 then
     336 else (if n < 276 then 337 else 338))) else (if n < 279 then (if n < 278 then 339 else 340) else
     (if n < 280 then 341 else (if n < 281 then 342 else 343))))))"

definition nid_index_7 :: "nat \<Rightarrow> nat" where
  "nid_index_7 n =
     (if n < 302 then (if n < 292 then (if n < 287 then (if n < 284 then (if n < 283 then 344 else 345)
     else (if n < 285 then 346 else (if n < 286 then 348 else 349))) else (if n < 289 then (if n < 288
     then 350 else 351) else (if n < 290 then 352 else (if n < 291 then 353 else 354)))) else (if n < 297
     then (if n < 294 then (if n < 293 then 355 else 364) else (if n < 295 then 369 else (if n < 296 then
     370 else 371))) else (if n < 299 then (if n < 298 then 374 else 390) else (if n < 300 then 391 else
     (if n < 301 then 392 else 393))))) else (if n < 312 then (if n < 307 then (if n < 304 then (if n <
     303 then 394 else 395) else (if n < 305 then 396 else (if n < 306 then 397 else 398))) else (if n <
     309 then (if n < 308 then 399 else 400) else (if n < 310 then 401 else (if n < 311 then 402 else
     403)))) else (if n < 317 then (if n < 314 then (if n < 313 then 404 else 409) else (if n < 315 then
     410 else (if n < 316 then 411 else 412))) else (if n < 319 then (if n < 318 then 413 else 414) else
     (if n < 320 then 415 else (if n < 321 then 416 else 417))))))"

definition nid_index_8 :: "nat \<Rightarrow> nat" where
  "nid_index_8 n =
     (if n < 342 then (if n < 332 then (if n < 327 then (if n < 324 then (if n < 323 then 418 else 419)
     else (if n < 325 then 420 else (if n < 326 then 421 else 422))) else (if n < 329 then (if n < 328
     then 423 else 424) else (if n < 330 then 425 else (if n < 331 then 426 else 427)))) else (if n < 337
     then (if n < 334 then (if n < 333 then 428 else 429) else (if n < 335 then 430 else (if n < 336 then
     431 else 432))) else (if n < 339 then (if n < 338 then 433 else 434) else (if n < 340 then 435 else
     (if n < 341 then 436 else 437))))) else (if n < 353 then (if n < 347 then (if n < 344 then (if n <
     343 then 438 else 439) else (if n < 345 then 440 else (if n < 346 then 441 else 442))) else (if n <
     349 then (if n < 348 then 443 else 449) else (if n < 351 then 450 else (if n < 352 then 451 else
     452)))) else (if n < 358 then (if n < 355 then (if n < 354 then 453 else 454) else (if n < 356 then
     455 else (if n < 357 then 456 else 457))) else (if n < 360 then (if n < 359 then 458 else 460) else
     (if n < 361 then 463 else (if n < 362 then 464 else 465))))))"

definition nid_index_9 :: "nat \<Rightarrow> nat" where
  "nid_index_9 n =
     (if n < 383 then (if n < 373 then (if n < 368 then (if n < 365 then (if n < 364 then 471 else 472)
     else (if n < 366 then 477 else (if n < 367 then 478 else 479))) else (if n < 370 then (if n < 369
     then 480 else 481) else (if n < 371 then 482 else (if n < 372 then 483 else 484)))) else (if n < 378
     then (if n < 375 then (if n < 374 then 485 else 486) else (if n < 376 then 487 else (if n < 377 then
     488 else 494))) else (if n < 380 then (if n < 379 then 577 else 621) else (if n < 381 then 622 else
     (if n < 382 then 623 else 624))))) else (if n < 393 then (if n < 388 then (if n < 385 then (if n <
     384 then 625 else 626) else (if n < 386 then 627 else (if n < 387 then 628 else 629))) else (if n <
     390 then (if n < 389 then 630 else 631) else (if n < 391 then 632 else (if n < 392 then 764 else
     735)))) else (if n < 398 then (if n < 395 then (if n < 394 then 5 else 18) else (if n < 396 then 19
     else (if n < 397 then 124 else 356))) else (if n < 400 then (if n < 399 then 357 else 459) else (if
     n < 401 then 572 else (if n < 402 then 601 else 605))))))"

definition nid_index_10 :: "nat \<Rightarrow> nat" where
  "nid_index_10 n =
     (if n < 423 then (if n < 413 then (if n < 408 then (if n < 405 then (if n < 404 then 606 else 2)
     else (if n < 406 then 28 else (if n < 407 then 29 else 30))) else (if n < 410 then (if n < 409 then
     35 else 56) else (if n < 411 then 57 else (if n < 412 then 58 else 59)))) else (if n < 418 then (if
     n < 415 then (if n < 414 then 60 else 61) else (if n < 416 then 62 else (if n < 417 then 63 else
     252))) else (if n < 420 then (if n < 419 then 639 else 640) else (if n < 421 then 641 else (if n <
     422 then 642 else 647))))) else (if n < 433 then (if n < 428 then (if n < 425 then (if n < 424 then
     648 else 649) else (if n < 426 then 650 else (if n < 427 then 655 else 656))) else (if n < 430 then
     (if n < 429 then 657 else 658) else (if n < 431 then 715 else (if n < 432 then 716 else 717)))) else
     (if n < 438 then (if n < 435 then (if n < 434 then 718 else 719) else (if n < 436 then 720 else (if
     n < 437 then 721 else 722))) else (if n < 440 then (if n < 439 then 723 else 724) else (if n < 441
     then 725 else (if n < 442 then 726 else 727))))))"

definition nid_index_11 :: "nat \<Rightarrow> nat" where
  "nid_index_11 n =
     (if n < 463 then (if n < 453 then (if n < 448 then (if n < 445 then (if n < 444 then 728 else 729)
     else (if n < 446 then 730 else (if n < 447 then 731 else 732))) else (if n < 450 then (if n < 449
     then 733 else 734) else (if n < 451 then 736 else (if n < 452 then 737 else 738)))) else (if n < 458
     then (if n < 455 then (if n < 454 then 739 else 740) else (if n < 456 then 741 else (if n < 457 then
     742 else 743))) else (if n < 460 then (if n < 459 then 744 else 745) else (if n < 461 then 746 else
     (if n < 462 then 747 else 748))))) else (if n < 473 then (if n < 468 then (if n < 465 then (if n <
     464 then 749 else 750) else (if n < 466 then 751 else (if n < 467 then 752 else 753))) else (if n <
     470 then (if n < 469 then 754 else 755) else (if n < 471 then 756 else (if n < 472 then 757 else
     758)))) else (if n < 478 then (if n < 475 then (if n < 474 then 759 else 760) else (if n < 476 then
     761 else (if n < 477 then 762 else 763))) else (if n < 480 then (if n < 479 then 765 else 766) else
     (if n < 481 then 767 else (if n < 482 then 768 else 769))))))"

definition nid_index_12 :: "nat \<Rightarrow> nat" where
  "nid_index_12 n =
     (if n < 503 then (if n < 493 then (if n < 488 then (if n < 485 then (if n < 484 then 770 else 771)
     else (if n < 486 then 772 else (if n < 487 then 773 else 774))) else (if n < 490 then (if n < 489
     then 775 else 776) else (if n < 491 then 777 else (if n < 492 then 779 else 780)))) else (if n < 498
     then (if n < 495 then (if n < 494 then 781 else 782) else (if n < 496 then 783 else (if n < 497 then
     784 else 785))) else (if n < 500 then (if n < 499 then 786 else 787) else (if n < 501 then 788 else
     (if n < 502 then 789 else 790))))) else (if n < 514 then (if n < 508 then (if n < 505 then (if n <
     504 then 561 else 633) else (if n < 506 then 634 else (if n < 507 then 635 else 636))) else (if n <
     510 then (if n < 509 then 637 else 560) else (if n < 512 then 571 else (if n < 513 then 791 else
     792)))) else (if n < 519 then (if n < 516 then (if n < 515 then 793 else 794) else (if n < 517 then
     795 else (if n < 518 then 796 else 797))) else (if n < 521 then (if n < 520 then 798 else 799) else
     (if n < 522 then 800 else (if n < 523 then 801 else 802))))))"

definition nid_index_13 :: "nat \<Rightarrow> nat" where
  "nid_index_13 n =
     (if n < 544 then (if n < 534 then (if n < 529 then (if n < 526 then (if n < 525 then 803 else 804)
     else (if n < 527 then 805 else (if n < 528 then 806 else 807))) else (if n < 531 then (if n < 530
     then 808 else 809) else (if n < 532 then 810 else (if n < 533 then 811 else 812)))) else (if n < 539
     then (if n < 536 then (if n < 535 then 813 else 814) else (if n < 537 then 815 else (if n < 538 then
     816 else 817))) else (if n < 541 then (if n < 540 then 818 else 819) else (if n < 542 then 820 else
     (if n < 543 then 821 else 822))))) else (if n < 554 then (if n < 549 then (if n < 546 then (if n <
     545 then 823 else 824) else (if n < 547 then 825 else (if n < 548 then 826 else 827))) else (if n <
     551 then (if n < 550 then 828 else 829) else (if n < 552 then 830 else (if n < 553 then 831 else
     832)))) else (if n < 559 then (if n < 556 then (if n < 555 then 833 else 834) else (if n < 557 then
     835 else (if n < 558 then 836 else 837))) else (if n < 561 then (if n < 560 then 838 else 839) else
     (if n < 562 then 840 else (if n < 563 then 841 else 842))))))"

definition nid_index_14 :: "nat \<Rightarrow> nat" where
  "nid_index_14 n =
     (if n < 584 then (if n < 574 then (if n < 569 then (if n < 566 then (if n < 565 then 843 else 844)
     else (if n < 567 then 845 else (if n < 568 then 846 else 847))) else (if n < 571 then (if n < 570
     then 848 else 849) else (if n < 572 then 850 else (if n < 573 then 851 else 852)))) else (if n < 579
     then (if n < 576 then (if n < 575 then 853 else 854) else (if n < 577 then 855 else (if n < 578 then
     856 else 857))) else (if n < 581 then (if n < 580 then 858 else 859) else (if n < 582 then 860 else
     (if n < 583 then 861 else 862))))) else (if n < 594 then (if n < 589 then (if n < 586 then (if n <
     585 then 863 else 864) else (if n < 587 then 865 else (if n < 588 then 866 else 867))) else (if n <
     591 then (if n < 590 then 868 else 869) else (if n < 592 then 870 else (if n < 593 then 871 else
     872)))) else (if n < 599 then (if n < 596 then (if n < 595 then 873 else 874) else (if n < 597 then
     875 else (if n < 598 then 876 else 877))) else (if n < 601 then (if n < 600 then 878 else 879) else
     (if n < 602 then 880 else (if n < 603 then 881 else 882))))))"

definition nid_index_15 :: "nat \<Rightarrow> nat" where
  "nid_index_15 n =
     (if n < 624 then (if n < 614 then (if n < 609 then (if n < 606 then (if n < 605 then 883 else 884)
     else (if n < 607 then 885 else (if n < 608 then 886 else 887))) else (if n < 611 then (if n < 610
     then 888 else 889) else (if n < 612 then 890 else (if n < 613 then 891 else 892)))) else (if n < 619
     then (if n < 616 then (if n < 615 then 893 else 894) else (if n < 617 then 895 else (if n < 618 then
     896 else 897))) else (if n < 621 then (if n < 620 then 898 else 899) else (if n < 622 then 900 else
     (if n < 623 then 901 else 902))))) else (if n < 634 then (if n < 629 then (if n < 626 then (if n <
     625 then 903 else 904) else (if n < 627 then 905 else (if n < 628 then 906 else 907))) else (if n <
     631 then (if n < 630 then 908 else 909) else (if n < 632 then 910 else (if n < 633 then 911 else
     912)))) else (if n < 639 then (if n < 636 then (if n < 635 then 913 else 914) else (if n < 637 then
     915 else (if n < 638 then 916 else 917))) else (if n < 641 then (if n < 640 then 918 else 919) else
     (if n < 642 then 920 else (if n < 643 then 921 else 922))))))"

definition nid_index_16 :: "nat \<Rightarrow> nat" where
  "nid_index_16 n =
     (if n < 664 then (if n < 654 then (if n < 649 then (if n < 646 then (if n < 645 then 923 else 1)
     else (if n < 647 then 4 else (if n < 648 then 15 else 304))) else (if n < 651 then (if n < 650 then
     305 else 665) else (if n < 652 then 666 else (if n < 653 then 667 else 668)))) else (if n < 659 then
     (if n < 656 then (if n < 655 then 669 else 670) else (if n < 657 then 677 else (if n < 658 then 678
     else 679))) else (if n < 661 then (if n < 660 then 680 else 525) else (if n < 662 then 533 else (if
     n < 663 then 329 else 358))))) else (if n < 674 then (if n < 669 then (if n < 666 then (if n < 665
     then 466 else 467) else (if n < 667 then 595 else (if n < 668 then 468 else 131))) else (if n < 671
     then (if n < 670 then 132 else 133) else (if n < 672 then 134 else (if n < 673 then 681 else 682))))
     else (if n < 679 then (if n < 676 then (if n < 675 then 683 else 684) else (if n < 677 then 7 else
     (if n < 678 then 12 else 16))) else (if n < 681 then (if n < 680 then 17 else 31) else (if n < 682
     then 32 else (if n < 683 then 33 else 34))))))"

definition nid_index_17 :: "nat \<Rightarrow> nat" where
  "nid_index_17 n =
     (if n < 704 then (if n < 694 then (if n < 689 then (if n < 686 then (if n < 685 then 36 else 37)
     else (if n < 687 then 38 else (if n < 688 then 39 else 40))) else (if n < 691 then (if n < 690 then
     41 else 42) else (if n < 692 then 43 else (if n < 693 then 44 else 45)))) else (if n < 699 then (if
     n < 696 then (if n < 695 then 46 else 47) else (if n < 697 then 48 else (if n < 698 then 49 else
     50))) else (if n < 701 then (if n < 700 then 51 else 52) else (if n < 702 then 53 else (if n < 703
     then 54 else 55))))) else (if n < 714 then (if n < 709 then (if n < 706 then (if n < 705 then 70
     else 71) else (if n < 707 then 72 else (if n < 708 then 73 else 74))) else (if n < 711 then (if n <
     710 then 75 else 76) else (if n < 712 then 77 else (if n < 713 then 78 else 79)))) else (if n < 719
     then (if n < 716 then (if n < 715 then 80 else 81) else (if n < 717 then 82 else (if n < 718 then 83
     else 84))) else (if n < 721 then (if n < 720 then 85 else 86) else (if n < 722 then 87 else (if n <
     723 then 88 else 89))))))"

definition nid_index_18 :: "nat \<Rightarrow> nat" where
  "nid_index_18 n =
     (if n < 744 then (if n < 734 then (if n < 729 then (if n < 726 then (if n < 725 then 90 else 91)
     else (if n < 727 then 92 else (if n < 728 then 93 else 94))) else (if n < 731 then (if n < 730 then
     95 else 96) else (if n < 732 then 97 else (if n < 733 then 98 else 99)))) else (if n < 739 then (if
     n < 736 then (if n < 735 then 100 else 101) else (if n < 737 then 102 else (if n < 738 then 103 else
     104))) else (if n < 741 then (if n < 740 then 105 else 106) else (if n < 742 then 107 else (if n <
     743 then 108 else 109))))) else (if n < 754 then (if n < 749 then (if n < 746 then (if n < 745 then
     110 else 111) else (if n < 747 then 598 else (if n < 748 then 599 else 604))) else (if n < 751 then
     (if n < 750 then 924 else 925) else (if n < 752 then 1052 else (if n < 753 then 1053 else 1054))))
     else (if n < 759 then (if n < 756 then (if n < 755 then 1058 else 1065) else (if n < 757 then 1072
     else (if n < 758 then 1060 else 1067))) else (if n < 761 then (if n < 760 then 1074 else 1079) else
     (if n < 762 then 1080 else (if n < 763 then 1081 else 1082))))))"

definition nid_index_19 :: "nat \<Rightarrow> nat" where
  "nid_index_19 n =
     (if n < 787 then (if n < 777 then (if n < 769 then (if n < 766 then (if n < 765 then 1083 else 1084)
     else (if n < 767 then 1059 else (if n < 768 then 1066 else 1073))) else (if n < 771 then (if n < 770
     then 582 else 593) else (if n < 773 then 594 else (if n < 776 then 1112 else 1113)))) else (if n <
     782 then (if n < 779 then (if n < 778 then 1114 else 1116) else (if n < 780 then 1115 else (if n <
     781 then 9 else 10))) else (if n < 784 then (if n < 783 then 117 else 118) else (if n < 785 then 405
     else (if n < 786 then 473 else 192))))) else (if n < 797 then (if n < 792 then (if n < 789 then (if
     n < 788 then 197 else 643) else (if n < 790 then 651 else (if n < 791 then 659 else 64))) else (if n
     < 794 then (if n < 793 then 65 else 66) else (if n < 795 then 67 else (if n < 796 then 68 else
     69)))) else (if n < 802 then (if n < 799 then (if n < 798 then 273 else 279) else (if n < 800 then
     280 else (if n < 801 then 281 else 282))) else (if n < 804 then (if n < 803 then 699 else 700) else
     (if n < 805 then 926 else (if n < 806 then 927 else 928))))))"

definition nid_index_20 :: "nat \<Rightarrow> nat" where
  "nid_index_20 n =
     (if n < 827 then (if n < 817 then (if n < 812 then (if n < 809 then (if n < 808 then 930 else 931)
     else (if n < 810 then 932 else (if n < 811 then 933 else 934))) else (if n < 814 then (if n < 813
     then 935 else 936) else (if n < 815 then 937 else (if n < 816 then 942 else 944)))) else (if n < 822
     then (if n < 819 then (if n < 818 then 945 else 946) else (if n < 820 then 947 else (if n < 821 then
     948 else 949))) else (if n < 824 then (if n < 823 then 950 else 951) else (if n < 825 then 952 else
     (if n < 826 then 953 else 954))))) else (if n < 837 then (if n < 832 then (if n < 829 then (if n <
     828 then 955 else 956) else (if n < 830 then 957 else (if n < 831 then 958 else 959))) else (if n <
     834 then (if n < 833 then 960 else 961) else (if n < 835 then 962 else (if n < 836 then 963 else
     964)))) else (if n < 842 then (if n < 839 then (if n < 838 then 965 else 966) else (if n < 840 then
     967 else (if n < 841 then 968 else 969))) else (if n < 844 then (if n < 843 then 970 else 971) else
     (if n < 845 then 972 else (if n < 846 then 973 else 974))))))"

definition nid_index_21 :: "nat \<Rightarrow> nat" where
  "nid_index_21 n =
     (if n < 867 then (if n < 857 then (if n < 852 then (if n < 849 then (if n < 848 then 975 else 976)
     else (if n < 850 then 977 else (if n < 851 then 978 else 979))) else (if n < 854 then (if n < 853
     then 980 else 981) else (if n < 855 then 982 else (if n < 856 then 1124 else 253)))) else (if n <
     862 then (if n < 859 then (if n < 858 then 603 else 444) else (if n < 860 then 530 else (if n < 861
     then 531 else 532))) else (if n < 864 then (if n < 863 then 534 else 535) else (if n < 865 then 536
     else (if n < 866 then 537 else 538))))) else (if n < 877 then (if n < 872 then (if n < 869 then (if
     n < 868 then 539 else 540) else (if n < 870 then 541 else (if n < 871 then 542 else 543))) else (if
     n < 874 then (if n < 873 then 544 else 545) else (if n < 875 then 546 else (if n < 876 then 547 else
     548)))) else (if n < 882 then (if n < 879 then (if n < 878 then 549 else 550) else (if n < 880 then
     551 else (if n < 881 then 552 else 553))) else (if n < 884 then (if n < 883 then 554 else 555) else
     (if n < 885 then 556 else (if n < 886 then 563 else 564))))))"

definition nid_index_22 :: "nat \<Rightarrow> nat" where
  "nid_index_22 n =
     (if n < 907 then (if n < 897 then (if n < 892 then (if n < 889 then (if n < 888 then 565 else 566)
     else (if n < 890 then 567 else (if n < 891 then 568 else 569))) else (if n < 894 then (if n < 893
     then 570 else 240) else (if n < 895 then 1125 else (if n < 896 then 644 else 645)))) else (if n <
     902 then (if n < 899 then (if n < 898 then 646 else 652) else (if n < 900 then 653 else (if n < 901
     then 654 else 660))) else (if n < 904 then (if n < 903 then 661 else 662) else (if n < 905 then 671
     else (if n < 906 then 672 else 673))))) else (if n < 917 then (if n < 912 then (if n < 909 then (if
     n < 908 then 1055 else 1056) else (if n < 910 then 1057 else (if n < 911 then 607 else 128))) else
     (if n < 914 then (if n < 913 then 130 else 663) else (if n < 915 then 664 else (if n < 916 then 1126
     else 1127)))) else (if n < 922 then (if n < 919 then (if n < 918 then 1128 else 1129) else (if n <
     920 then 127 else (if n < 921 then 1135 else 1136))) else (if n < 924 then (if n < 923 then 1137
     else 1138) else (if n < 925 then 1139 else (if n < 926 then 1140 else 1141))))))"

definition nid_index_23 :: "nat \<Rightarrow> nat" where
  "nid_index_23 n =
     (if n < 947 then (if n < 937 then (if n < 932 then (if n < 929 then (if n < 928 then 1142 else 1143)
     else (if n < 930 then 1144 else (if n < 931 then 1145 else 1146))) else (if n < 934 then (if n < 933
     then 1147 else 1148) else (if n < 935 then 1149 else (if n < 936 then 129 else 1150)))) else (if n <
     942 then (if n < 939 then (if n < 938 then 1151 else 1152) else (if n < 940 then 1153 else (if n <
     941 then 1154 else 1155))) else (if n < 944 then (if n < 943 then 1156 else 1157) else (if n < 945
     then 1158 else (if n < 946 then 1159 else 1160))))) else (if n < 957 then (if n < 952 then (if n <
     949 then (if n < 948 then 1161 else 1130) else (if n < 950 then 1131 else (if n < 951 then 1132 else
     1162))) else (if n < 954 then (if n < 953 then 1163 else 1164) else (if n < 955 then 1165 else (if n
     < 956 then 1166 else 1167)))) else (if n < 962 then (if n < 959 then (if n < 958 then 1168 else 674)
     else (if n < 960 then 675 else (if n < 961 then 676 else 1061))) else (if n < 964 then (if n < 963
     then 1062 else 1063) else (if n < 965 then 1064 else (if n < 966 then 1068 else 1069))))))"

definition nid_index_24 :: "nat \<Rightarrow> nat" where
  "nid_index_24 n =
     (if n < 987 then (if n < 977 then (if n < 972 then (if n < 969 then (if n < 968 then 1070 else 1071)
     else (if n < 970 then 1075 else (if n < 971 then 1076 else 1077))) else (if n < 974 then (if n < 973
     then 1078 else 1169) else (if n < 975 then 929 else (if n < 976 then 938 else 943)))) else (if n <
     982 then (if n < 979 then (if n < 978 then 983 else 984) else (if n < 980 then 985 else (if n < 981
     then 986 else 987))) else (if n < 984 then (if n < 983 then 988 else 989) else (if n < 985 then 990
     else (if n < 986 then 991 else 992))))) else (if n < 997 then (if n < 992 then (if n < 989 then (if
     n < 988 then 993 else 994) else (if n < 990 then 995 else (if n < 991 then 996 else 1003))) else (if
     n < 994 then (if n < 993 then 1004 else 1005) else (if n < 995 then 1011 else (if n < 996 then 1012
     else 1018)))) else (if n < 1002 then (if n < 999 then (if n < 998 then 1019 else 1020) else (if n <
     1000 then 1021 else (if n < 1001 then 1023 else 1024))) else (if n < 1004 then (if n < 1003 then
     1025 else 1026) else (if n < 1005 then 1027 else (if n < 1006 then 1028 else 1029))))))"

definition nid_index_25 :: "nat \<Rightarrow> nat" where
  "nid_index_25 n =
     (if n < 1027 then (if n < 1017 then (if n < 1012 then (if n < 1009 then (if n < 1008 then 1031 else
     1032) else (if n < 1010 then 939 else (if n < 1011 then 940 else 941))) else (if n < 1014 then (if n
     < 1013 then 1040 else 1041) else (if n < 1015 then 1042 else (if n < 1016 then 1043 else 1044))))
     else (if n < 1022 then (if n < 1019 then (if n < 1018 then 1045 else 1133) else (if n < 1020 then
     1134 else (if n < 1021 then 359 else 1170))) else (if n < 1024 then (if n < 1023 then 375 else 376)
     else (if n < 1025 then 377 else (if n < 1026 then 378 else 379))))) else (if n < 1037 then (if n <
     1032 then (if n < 1029 then (if n < 1028 then 380 else 381) else (if n < 1030 then 382 else (if n <
     1031 then 383 else 1176))) else (if n < 1034 then (if n < 1033 then 1177 else 1178) else (if n <
     1035 then 1179 else (if n < 1036 then 1180 else 1171)))) else (if n < 1042 then (if n < 1039 then
     (if n < 1038 then 1183 else 1184) else (if n < 1040 then 1185 else (if n < 1041 then 1186 else
     1187))) else (if n < 1044 then (if n < 1043 then 1188 else 1189) else (if n < 1045 then 1190 else
     (if n < 1046 then 1191 else 1194))))))"

definition nid_index_26 :: "nat \<Rightarrow> nat" where
  "nid_index_26 n =
     (if n < 1069 then (if n < 1059 then (if n < 1052 then (if n < 1049 then (if n < 1048 then 1195 else
     1196) else (if n < 1050 then 1197 else (if n < 1051 then 1198 else 1199))) else (if n < 1056 then
     (if n < 1053 then 1200 else 1201) else (if n < 1057 then 514 else (if n < 1058 then 515 else 193))))
     else (if n < 1064 then (if n < 1061 then (if n < 1060 then 194 else 198) else (if n < 1062 then 1203
     else (if n < 1063 then 1204 else 1193))) else (if n < 1066 then (if n < 1065 then 1202 else 1085)
     else (if n < 1067 then 1086 else (if n < 1068 then 1087 else 1088))))) else (if n < 1079 then (if n
     < 1074 then (if n < 1071 then (if n < 1070 then 1089 else 1090) else (if n < 1072 then 1091 else (if
     n < 1073 then 1092 else 1093))) else (if n < 1076 then (if n < 1075 then 1094 else 1095) else (if n
     < 1077 then 1096 else (if n < 1078 then 1097 else 1098)))) else (if n < 1084 then (if n < 1081 then
     (if n < 1080 then 1099 else 1100) else (if n < 1082 then 1101 else (if n < 1083 then 1102 else
     1103))) else (if n < 1086 then (if n < 1085 then 1104 else 1105) else (if n < 1087 then 232 else (if
     n < 1088 then 1181 else 1182))))))"

definition nid_index_27 :: "nat \<Rightarrow> nat" where
  "nid_index_27 n =
     (if n < 1109 then (if n < 1099 then (if n < 1094 then (if n < 1091 then (if n < 1090 then 573 else
     574) else (if n < 1092 then 575 else (if n < 1093 then 576 else 11))) else (if n < 1096 then (if n <
     1095 then 685 else 686) else (if n < 1097 then 687 else (if n < 1098 then 688 else 689)))) else (if
     n < 1104 then (if n < 1101 then (if n < 1100 then 690 else 691) else (if n < 1102 then 692 else (if
     n < 1103 then 693 else 694))) else (if n < 1106 then (if n < 1105 then 695 else 696) else (if n <
     1107 then 701 else (if n < 1108 then 702 else 703))))) else (if n < 1119 then (if n < 1114 then (if
     n < 1111 then (if n < 1110 then 704 else 705) else (if n < 1112 then 706 else (if n < 1113 then 707
     else 708))) else (if n < 1116 then (if n < 1115 then 709 else 710) else (if n < 1117 then 711 else
     (if n < 1118 then 712 else 713)))) else (if n < 1124 then (if n < 1121 then (if n < 1120 then 714
     else 1106) else (if n < 1122 then 1107 else (if n < 1123 then 1108 else 1109))) else (if n < 1126
     then (if n < 1125 then 1110 else 1111) else (if n < 1127 then 1205 else (if n < 1128 then 1206 else
     1207))))))"

definition nid_index_28 :: "nat \<Rightarrow> nat" where
  "nid_index_28 n =
     (if n < 1149 then (if n < 1139 then (if n < 1134 then (if n < 1131 then (if n < 1130 then 1208 else
     1209) else (if n < 1132 then 384 else (if n < 1133 then 385 else 1117))) else (if n < 1136 then (if
     n < 1135 then 1118 else 1119) else (if n < 1137 then 1121 else (if n < 1138 then 1120 else 1122))))
     else (if n < 1144 then (if n < 1141 then (if n < 1140 then 1123 else 23) else (if n < 1142 then 24
     else (if n < 1143 then 25 else 276))) else (if n < 1146 then (if n < 1145 then 277 else 135) else
     (if n < 1147 then 136 else (if n < 1148 then 1013 else 1014))))) else (if n < 1159 then (if n < 1154
     then (if n < 1151 then (if n < 1150 then 1022 else 1216) else (if n < 1152 then 1217 else (if n <
     1153 then 1218 else 1219))) else (if n < 1156 then (if n < 1155 then 1220 else 1221) else (if n <
     1157 then 1222 else (if n < 1158 then 1223 else 1224)))) else (if n < 1164 then (if n < 1161 then
     (if n < 1160 then 1225 else 1226) else (if n < 1162 then 1227 else (if n < 1163 then 1228 else
     1229))) else (if n < 1166 then (if n < 1165 then 1230 else 1231) else (if n < 1167 then 1232 else
     (if n < 1168 then 1233 else 1234))))))"

definition nid_index_29 :: "nat \<Rightarrow> nat" where
  "nid_index_29 n =
     (if n < 1189 then (if n < 1179 then (if n < 1174 then (if n < 1171 then (if n < 1170 then 1235 else
     13) else (if n < 1172 then 14 else (if n < 1173 then 275 else 997))) else (if n < 1176 then (if n <
     1175 then 998 else 999) else (if n < 1177 then 1000 else (if n < 1178 then 1001 else 1002)))) else
     (if n < 1184 then (if n < 1181 then (if n < 1180 then 1006 else 1007) else (if n < 1182 then 1008
     else (if n < 1183 then 1009 else 1010))) else (if n < 1186 then (if n < 1185 then 1015 else 1016)
     else (if n < 1187 then 1017 else (if n < 1188 then 1046 else 1047))))) else (if n < 1199 then (if n
     < 1194 then (if n < 1191 then (if n < 1190 then 1048 else 1049) else (if n < 1192 then 1050 else (if
     n < 1193 then 1051 else 283))) else (if n < 1196 then (if n < 1195 then 284 else 8) else (if n <
     1197 then 697 else (if n < 1198 then 698 else 1236)))) else (if n < 1204 then (if n < 1201 then (if
     n < 1200 then 1237 else 1238) else (if n < 1202 then 512 else (if n < 1203 then 513 else 1172)))
     else (if n < 1206 then (if n < 1205 then 278 else 1173) else (if n < 1207 then 1175 else (if n <
     1208 then 1174 else 448))))))"

definition nid_index_30 :: "nat \<Rightarrow> nat" where
  "nid_index_30 n =
     (if n < 1228 then (if n < 1218 then (if n < 1213 then (if n < 1211 then (if n < 1210 then 445 else
     446) else (if n < 1212 then 447 else 1210)) else (if n < 1215 then (if n < 1214 then 1211 else 1212)
     else (if n < 1216 then 1213 else (if n < 1217 then 1214 else 1215)))) else (if n < 1223 then (if n <
     1220 then (if n < 1219 then 1192 else 386) else (if n < 1221 then 387 else (if n < 1222 then 388
     else 389))) else (if n < 1225 then (if n < 1224 then 406 else 407) else (if n < 1226 then 408 else
     (if n < 1227 then 1030 else 1033))))) else (if n < 1238 then (if n < 1233 then (if n < 1230 then (if
     n < 1229 then 1034 else 1035) else (if n < 1231 then 1036 else (if n < 1232 then 1037 else 1038)))
     else (if n < 1235 then (if n < 1234 then 1039 else 195) else (if n < 1236 then 196 else (if n < 1237
     then 199 else 200)))) else (if n < 1243 then (if n < 1240 then (if n < 1239 then 327 else 360) else
     (if n < 1241 then 361 else (if n < 1242 then 461 else 462))) else (if n < 1245 then (if n < 1244
     then 474 else 475) else (if n < 1246 then 476 else (if n < 1247 then 201 else 202))))))"

definition nid_index :: "nat \<Rightarrow> nat" where
  "nid_index n =
     (if n < 604 then (if n < 282 then (if n < 121 then (if n < 40 then nid_index_0 n else (if n < 80
     then nid_index_1 n else nid_index_2 n)) else (if n < 202 then (if n < 162 then nid_index_3 n else
     nid_index_4 n) else (if n < 242 then nid_index_5 n else nid_index_6 n))) else (if n < 443 then (if n
     < 363 then (if n < 322 then nid_index_7 n else nid_index_8 n) else (if n < 403 then nid_index_9 n
     else nid_index_10 n)) else (if n < 524 then (if n < 483 then nid_index_11 n else nid_index_12 n)
     else (if n < 564 then nid_index_13 n else nid_index_14 n)))) else (if n < 927 then (if n < 764 then
     (if n < 684 then (if n < 644 then nid_index_15 n else nid_index_16 n) else (if n < 724 then
     nid_index_17 n else nid_index_18 n)) else (if n < 847 then (if n < 807 then nid_index_19 n else
     nid_index_20 n) else (if n < 887 then nid_index_21 n else nid_index_22 n))) else (if n < 1089 then
     (if n < 1007 then (if n < 967 then nid_index_23 n else nid_index_24 n) else (if n < 1047 then
     nid_index_25 n else nid_index_26 n)) else (if n < 1169 then (if n < 1129 then nid_index_27 n else
     nid_index_28 n) else (if n < 1209 then nid_index_29 n else nid_index_30 n)))))"

lemmas nid_index_defs = nid_index_def
  nid_index_0_def nid_index_1_def nid_index_2_def nid_index_3_def nid_index_4_def nid_index_5_def
  nid_index_6_def nid_index_7_def nid_index_8_def nid_index_9_def nid_index_10_def nid_index_11_def
  nid_index_12_def nid_index_13_def nid_index_14_def nid_index_15_def nid_index_16_def
  nid_index_17_def nid_index_18_def nid_index_19_def nid_index_20_def nid_index_21_def
  nid_index_22_def nid_index_23_def nid_index_24_def nid_index_25_def nid_index_26_def
  nid_index_27_def nid_index_28_def nid_index_29_def nid_index_30_def

lemma index_1:
  "map nid_index [0, 645, 404, 181, 646, 393, 182, 676, 1195, 780, 781, 1093, 677, 1170, 1171, 647, 678, 679, 394,
    395, 183, 184, 185, 1140, 1141, 1142, 116, 113, 405, 406, 407, 680, 681] =
   [0..<33]"
  by (simp add: nid_index_defs, simp add: eval_nat_numeral)

lemma index_2:
  "map nid_index [682, 683, 408, 684, 685, 686, 687, 688, 689, 690, 691, 692, 693, 694, 695, 696, 697, 698, 699, 700,
    701, 702, 703, 409, 410, 411, 412, 413, 414, 415, 416, 791, 792, 793, 794] =
   [33..<68]"
  by (simp add: nid_index_defs upt_rec_numeral)

lemma index_3:
  "map nid_index [795, 796, 704, 705, 706, 707, 708, 709, 710, 711, 712, 713, 714, 715, 716, 717, 718, 719, 720, 721,
    722, 723, 724, 725, 726, 727, 728, 729, 730, 731, 732, 733, 734, 735, 736, 737] =
   [68..<104]"
  by (simp add: nid_index_defs upt_rec_numeral)

lemma index_4:
  "map nid_index [738, 739, 740, 741, 742, 743, 744, 745, 108, 109, 110, 111, 112, 782, 783, 1, 2, 186, 6, 7, 396, 8,
    65, 919, 911, 935, 912, 668, 669, 670, 671, 1145, 1146] =
   [104..<137]"
  by (simp add: nid_index_defs upt_rec_numeral)

lemma index_5:
  "map nid_index [27, 28, 187, 9, 10, 168, 169, 170, 68, 69, 161, 162, 20, 21, 22, 23, 24, 25, 26, 47, 48, 49, 50, 51,
    52, 53, 54, 55, 56, 172, 167, 188, 189, 190, 191] =
   [137..<172]"
  by (simp add: nid_index_defs upt_rec_numeral)

lemma index_6:
  "map nid_index [192, 193, 194, 195, 196, 197, 198, 199, 200, 201, 202, 203, 204, 205, 206, 207, 208, 209, 210, 211,
    786, 1058, 1059, 1234, 1235, 787, 1060, 1236, 1237, 1246, 1247, 212, 213, 214, 215, 216, 217] =
   [172..<209]"
  by (simp add: nid_index_defs upt_rec_numeral)

lemma index_7:
  "map nid_index [218, 219, 220, 221, 222, 223, 224, 225, 226, 227, 228, 229, 230, 231, 232, 233, 234, 235, 236, 237,
    238, 239, 240, 1086, 241, 242, 243, 244, 245, 246, 247, 893, 248, 249, 250, 251, 252] =
   [209..<246]"
  by (simp add: nid_index_defs upt_rec_numeral)

lemma index_8:
  "map nid_index [253, 254, 255, 256, 156, 157, 417, 856, 158, 159, 160, 144, 145, 146, 147, 148, 149, 150, 151, 152,
    153, 154, 155, 3, 257, 4, 114, 797, 163, 1172, 1143] =
   [246..<277]"
  by (simp add: nid_index_defs upt_rec_numeral)

lemma index_9:
  "map nid_index [1144, 1204, 798, 799, 800, 801, 1193, 1194, 37, 38, 39, 40, 98, 166, 5, 97, 44, 120, 121, 122, 123,
    171, 134, 135, 136, 137, 138, 648, 649, 34, 36, 35, 46] =
   [277..<310]"
  by (simp add: nid_index_defs upt_rec_numeral)

lemma index_10:
  "map nid_index [91, 92, 93, 94, 127, 258, 175, 259, 128, 260, 261, 262, 263, 264, 265, 266, 267, 1238, 268, 662,
    176, 269, 270, 271, 272, 273, 274, 275, 276, 277, 278, 279, 280, 281, 282, 283, 284] =
   [310..<347]"
  by (simp add: nid_index_defs upt_rec_numeral)

lemma index_11:
  "map nid_index [177, 285, 286, 287, 288, 289, 290, 291, 292, 397, 398, 663, 1020, 1239, 1240, 164, 165, 293, 129,
    130, 131, 132, 294, 295, 296, 133, 180, 297, 1022, 1023, 1024, 1025] =
   [347..<379]"
  by (simp add: nid_index_defs upt_rec_numeral)

lemma index_12:
  "map nid_index [1026, 1027, 1028, 1029, 1030, 1131, 1132, 1219, 1220, 1221, 1222, 298, 299, 300, 301, 302, 303, 304,
    305, 306, 307, 308, 309, 310, 311, 312, 784, 1223, 1224, 1225, 313, 314, 315, 316, 317] =
   [379..<414]"
  by (simp add: nid_index_defs upt_rec_numeral)

lemma index_13:
  "map nid_index [318, 319, 320, 321, 322, 323, 324, 325, 326, 327, 328, 329, 330, 331, 332, 333, 334, 335, 336, 337,
    338, 339, 340, 341, 342, 343, 344, 345, 346, 347, 858, 1209, 1210, 1211, 1208, 348] =
   [414..<450]"
  by (simp add: nid_index_defs upt_rec_numeral)

lemma index_14:
  "map nid_index [349, 351, 352, 353, 354, 355, 356, 357, 358, 399, 359, 1241, 1242, 360, 361, 362, 664, 665, 667,
    178, 179, 363, 364, 785, 1243, 1244, 1245, 365, 366, 367, 368, 369, 370] =
   [450..<483]"
  by (simp add: nid_index_defs upt_rec_numeral)

lemma index_15:
  "map nid_index [371, 372, 373, 374, 375, 376, 104, 29, 31, 45, 30, 377, 67, 66, 42, 32, 33, 43, 60, 61, 62, 63, 80,
    41, 64, 70, 115, 117, 119, 1201, 1202, 1056] =
   [483..<515]"
  by (simp add: nid_index_defs upt_rec_numeral)

lemma index_16:
  "map nid_index [1057, 143, 11, 12, 13, 100, 105, 14, 15, 16, 660, 17, 18, 106, 107, 859, 860, 861, 661, 862, 863,
    864, 865, 866, 867, 868, 869, 870, 871, 872, 873, 874, 875, 876] =
   [515..<549]"
  by (simp add: nid_index_defs upt_rec_numeral)

lemma index_17:
  "map nid_index [877, 878, 879, 880, 881, 882, 883, 884, 173, 99, 101, 509, 503, 174, 885, 886, 887, 888, 889, 890,
    891, 892, 510, 400, 1089, 1090, 1091, 1092, 378, 19, 96, 95, 81, 769] =
   [549..<583]"
  by (simp add: nid_index_defs upt_rec_numeral)

lemma index_18:
  "map nid_index [82, 83, 84, 85, 86, 87, 88, 141, 142, 140, 770, 771, 666, 103, 89, 746, 747, 90, 401, 126, 857, 748,
    402, 403, 910, 57, 58, 59, 71, 72] =
   [583..<613]"
  by (simp add: nid_index_defs upt_rec_numeral)

lemma index_19:
  "map nid_index [73, 74, 75, 76, 77, 78, 79, 139, 379, 380, 381, 382, 383, 384, 385, 386, 387, 388, 389, 390, 504,
    505, 506, 507, 508, 125, 418, 419] =
   [613..<641]"
  by (simp add: nid_index_defs upt_rec_numeral)

lemma index_20:
  "map nid_index [420, 421, 788, 895, 896, 897, 422, 423, 424, 425, 789, 898, 899, 900, 426, 427, 428, 429, 790, 901,
    902, 903, 913, 914, 650, 651, 652, 653, 654, 655, 904, 905, 906] =
   [641..<674]"
  by (simp add: nid_index_defs upt_rec_numeral)

lemma index_21:
  "map nid_index [958, 959, 960, 656, 657, 658, 659, 672, 673, 674, 675, 1094, 1095, 1096, 1097, 1098, 1099, 1100,
    1101, 1102, 1103, 1104, 1105, 1196, 1197, 802, 803, 1106, 1107, 1108] =
   [674..<704]"
  by (simp add: nid_index_defs upt_rec_numeral)

lemma index_22:
  "map nid_index [1109, 1110, 1111, 1112, 1113, 1114, 1115, 1116, 1117, 1118, 1119, 430, 431, 432, 433, 434, 435, 436,
    437, 438, 439, 440, 441, 442, 443, 444, 445, 446, 447, 448, 449, 392, 450] =
   [704..<737]"
  by (simp add: nid_index_defs upt_rec_numeral)

lemma index_23:
  "map nid_index [451, 452, 453, 454, 455, 456, 457, 458, 459, 460, 461, 462, 463, 464, 465, 466, 467, 468, 469, 470,
    471, 472, 473, 474, 475, 476, 477, 391, 478, 479, 480, 481, 482, 483, 484, 485, 486] =
   [737..<774]"
  by (simp add: nid_index_defs upt_rec_numeral)

lemma index_24:
  "map nid_index [487, 488, 489, 490, 102, 491, 492, 493, 494, 495, 496, 497, 498, 499, 500, 501, 502, 512, 513, 514,
    515, 516, 517, 518, 519, 520, 521, 522, 523, 524, 525, 526, 527, 528, 529, 530] =
   [774..<810]"
  by (simp add: nid_index_defs upt_rec_numeral)

lemma index_25:
  "map nid_index [531, 532, 533, 534, 535, 536, 537, 538, 539, 540, 541, 542, 543, 544, 545, 546, 547, 548, 549, 550,
    551, 552, 553, 554, 555, 556, 557, 558, 559, 560, 561, 562, 563, 564, 565, 566, 567] =
   [810..<847]"
  by (simp add: nid_index_defs upt_rec_numeral)

lemma index_26:
  "map nid_index [568, 569, 570, 571, 572, 573, 574, 575, 576, 577, 578, 579, 580, 581, 582, 583, 584, 585, 586, 587,
    588, 589, 590, 591, 592, 593, 594, 595, 596, 597, 598, 599, 600, 601, 602, 603, 604] =
   [847..<884]"
  by (simp add: nid_index_defs upt_rec_numeral)

lemma index_27:
  "map nid_index [605, 606, 607, 608, 609, 610, 611, 612, 613, 614, 615, 616, 617, 618, 619, 620, 621, 622, 623, 624,
    625, 626, 627, 628, 629, 630, 631, 632, 633, 634, 635, 636, 637, 638, 639] =
   [884..<919]"
  by (simp add: nid_index_defs upt_rec_numeral)

lemma index_28:
  "map nid_index [640, 641, 642, 643, 644, 749, 750, 804, 805, 806, 974, 807, 808, 809, 810, 811, 812, 813, 814, 975,
    1009, 1010, 1011, 815, 976, 816, 817, 818, 819, 820, 821, 822, 823, 824, 825, 826] =
   [919..<955]"
  by (simp add: nid_index_defs upt_rec_numeral)

lemma index_29:
  "map nid_index [827, 828, 829, 830, 831, 832, 833, 834, 835, 836, 837, 838, 839, 840, 841, 842, 843, 844, 845, 846,
    847, 848, 849, 850, 851, 852, 853, 854, 977, 978, 979, 980, 981, 982, 983] =
   [955..<990]"
  by (simp add: nid_index_defs upt_rec_numeral)

lemma index_30:
  "map nid_index [984, 985, 986, 987, 988, 989, 990, 1173, 1174, 1175, 1176, 1177, 1178, 991, 992, 993, 1179, 1180,
    1181, 1182, 1183, 994, 995, 1147, 1148, 1184, 1185, 1186, 996, 997, 998, 999, 1149, 1000] =
   [990..<1024]"
  by (simp add: nid_index_defs upt_rec_numeral)

lemma index_31:
  "map nid_index [1001, 1002, 1003, 1004, 1005, 1006, 1226, 1007, 1008, 1227, 1228, 1229, 1230, 1231, 1232, 1233,
    1012, 1013, 1014, 1015, 1016, 1017, 1187, 1188, 1189, 1190, 1191, 1192, 751, 752, 753, 907, 908,
    909, 754] =
   [1024..<1059]"
  by (simp add: nid_index_defs upt_rec_numeral)

lemma index_32:
  "map nid_index [766, 757, 961, 962, 963, 964, 755, 767, 758, 965, 966, 967, 968, 756, 768, 759, 969, 970, 971, 972,
    760, 761, 762, 763, 764, 765, 1065, 1066, 1067, 1068, 1069] =
   [1059..<1090]"
  by (simp add: nid_index_defs upt_rec_numeral)

lemma index_33:
  "map nid_index [1070, 1071, 1072, 1073, 1074, 1075, 1076, 1077, 1078, 1079, 1080, 1081, 1082, 1083, 1084, 1085,
    1120, 1121, 1122, 1123, 1124, 1125, 773, 776, 777, 779, 778, 1133, 1134, 1135, 1137] =
   [1090..<1121]"
  by (simp add: nid_index_defs upt_rec_numeral)

lemma index_34:
  "map nid_index [1136, 1138, 1139, 855, 894, 915, 916, 917, 918, 948, 949, 950, 1018, 1019, 920, 921, 922, 923, 924,
    925, 926, 927, 928, 929, 930, 931, 932, 933, 934, 936, 937, 938, 939, 940, 941] =
   [1121..<1156]"
  by (simp add: nid_index_defs upt_rec_numeral)

lemma index_35:
  "map nid_index [942, 943, 944, 945, 946, 947, 951, 952, 953, 954, 955, 956, 957, 973, 1021, 1036, 1203, 1205, 1207,
    1206, 1031, 1032, 1033, 1034, 1035, 1087, 1088, 1037, 1038, 1039, 1040, 1041, 1042, 1043, 1044] =
   [1156..<1191]"
  by (simp add: nid_index_defs upt_rec_numeral)

lemma index_36:
  "map nid_index [1045, 1218, 1063, 1046, 1047, 1048, 1049, 1050, 1051, 1052, 1053, 1064, 1061, 1062, 1126, 1127,
    1128, 1129, 1130, 1212, 1213, 1214, 1215, 1216, 1217, 1150, 1151, 1152, 1153, 1154, 1155, 1156,
    1157, 1158, 1159, 1160, 1161] =
   [1191..<1228]"
  by (simp add: nid_index_defs upt_rec_numeral)

lemma index_37:
  "map nid_index [1162, 1163, 1164, 1165, 1166, 1167, 1168, 1169, 1198, 1199, 1200] =
   [1228..<1239]"
  by (simp add: nid_index_defs upt_rec_numeral)

lemma map_filter_append: "List.map_filter f (xs @ ys) = List.map_filter f xs @ List.map_filter f ys"
  by (simp add: List.map_filter_def)

lemma map_filter_concat: "List.map_filter f (concat xss) = concat (map (List.map_filter f) xss)"
  by (induction xss) (simp_all add: map_filter_append List.map_filter_def)

lemmas all_nids = nids_1 nids_2 nids_3 nids_4 nids_5 nids_6 nids_7 nids_8 nids_9 nids_10 nids_11 nids_12 nids_13
  nids_14 nids_15 nids_16 nids_17 nids_18 nids_19 nids_20 nids_21 nids_22 nids_23 nids_24 nids_25
  nids_26 nids_27 nids_28 nids_29 nids_30 nids_31 nids_32 nids_33 nids_34 nids_35 nids_36 nids_37

lemmas all_index = index_1 index_2 index_3 index_4 index_5 index_6 index_7 index_8 index_9 index_10 index_11 index_12
  index_13 index_14 index_15 index_16 index_17 index_18 index_19 index_20 index_21 index_22 index_23
  index_24 index_25 index_26 index_27 index_28 index_29 index_30 index_31 index_32 index_33 index_34
  index_35 index_36 index_37

lemma upt_join: "i \<le> j \<Longrightarrow> j \<le> k \<Longrightarrow> [i..<j] @ [j..<k] = [i..<k]"
  by (metis le_Suc_ex upt_add_eq_append)

lemma obj_nids_chunks: "obj_nids = concat [List.map_filter nid objects_1, List.map_filter nid objects_2, List.map_filter nid objects_3,
     List.map_filter nid objects_4, List.map_filter nid objects_5, List.map_filter nid objects_6,
     List.map_filter nid objects_7, List.map_filter nid objects_8, List.map_filter nid objects_9,
     List.map_filter nid objects_10, List.map_filter nid objects_11, List.map_filter nid objects_12,
     List.map_filter nid objects_13, List.map_filter nid objects_14, List.map_filter nid objects_15,
     List.map_filter nid objects_16, List.map_filter nid objects_17, List.map_filter nid objects_18,
     List.map_filter nid objects_19, List.map_filter nid objects_20, List.map_filter nid objects_21,
     List.map_filter nid objects_22, List.map_filter nid objects_23, List.map_filter nid objects_24,
     List.map_filter nid objects_25, List.map_filter nid objects_26, List.map_filter nid objects_27,
     List.map_filter nid objects_28, List.map_filter nid objects_29, List.map_filter nid objects_30,
     List.map_filter nid objects_31, List.map_filter nid objects_32, List.map_filter nid objects_33,
     List.map_filter nid objects_34, List.map_filter nid objects_35, List.map_filter nid objects_36,
     List.map_filter nid objects_37]"
  unfolding obj_nids_def obj_table_def map_filter_concat list.map ..

lemma index_table: "map nid_index obj_nids = [0..<1239]"
  unfolding obj_nids_chunks all_nids concat.simps append_Nil2 map_append all_index
  by (simp only: upt_join append_assoc [symmetric] rel_simps arith_simps le0)

lemma nids_distinct: "distinct obj_nids"
  using index_table by (metis distinct_map distinct_upt)

lemma nids_length: "length obj_nids = 1239"
  using arg_cong [OF index_table, of length] by simp

end
