(* ===== verification/DerTables.thy ===== *)
theory DerTables
  imports DerOid ObjOids
begin

text \<open>
  The precompiled object identifiers of the providers, \<open>prov/der_*.h\<close>: for each
  \<open>DER_OID_V_x\<close> the length byte and the content bytes that follow the tag, and the size
  \<open>DER_OID_SZ_x\<close>, in the order of the file. After each table, the object identifiers that
  the names and the comments stand for, taken from the registry \<open>obj_mac.h\<close> where it has
  them.
\<close>

definition der_digests :: "der_oid list" where
  "der_digests = [
    Der 8 [0x60, 0x86, 0x48, 0x01, 0x65, 0x03, 0x04, 0x03] 10,
    Der 5 [0x2B, 0x0E, 0x03, 0x02, 0x1A] 7,
    Der 8 [0x2A, 0x86, 0x48, 0x86, 0xF7, 0x0D, 0x02, 0x02] 10,
    Der 8 [0x2A, 0x86, 0x48, 0x86, 0xF7, 0x0D, 0x02, 0x05] 10,
    Der 9 [0x60, 0x86, 0x48, 0x01, 0x65, 0x03, 0x04, 0x02, 0x01] 11,
    Der 9 [0x60, 0x86, 0x48, 0x01, 0x65, 0x03, 0x04, 0x02, 0x02] 11,
    Der 9 [0x60, 0x86, 0x48, 0x01, 0x65, 0x03, 0x04, 0x02, 0x03] 11,
    Der 9 [0x60, 0x86, 0x48, 0x01, 0x65, 0x03, 0x04, 0x02, 0x04] 11,
    Der 9 [0x60, 0x86, 0x48, 0x01, 0x65, 0x03, 0x04, 0x02, 0x05] 11,
    Der 9 [0x60, 0x86, 0x48, 0x01, 0x65, 0x03, 0x04, 0x02, 0x06] 11,
    Der 9 [0x60, 0x86, 0x48, 0x01, 0x65, 0x03, 0x04, 0x02, 0x07] 11,
    Der 9 [0x60, 0x86, 0x48, 0x01, 0x65, 0x03, 0x04, 0x02, 0x08] 11,
    Der 9 [0x60, 0x86, 0x48, 0x01, 0x65, 0x03, 0x04, 0x02, 0x09] 11,
    Der 9 [0x60, 0x86, 0x48, 0x01, 0x65, 0x03, 0x04, 0x02, 0x0A] 11,
    Der 9 [0x60, 0x86, 0x48, 0x01, 0x65, 0x03, 0x04, 0x02, 0x0B] 11,
    Der 9 [0x60, 0x86, 0x48, 0x01, 0x65, 0x03, 0x04, 0x02, 0x0C] 11,
    Der 9 [0x60, 0x86, 0x48, 0x01, 0x65, 0x03, 0x04, 0x02, 0x11] 11,
    Der 9 [0x60, 0x86, 0x48, 0x01, 0x65, 0x03, 0x04, 0x02, 0x12] 11,
    Der 9 [0x60, 0x86, 0x48, 0x01, 0x65, 0x03, 0x04, 0x02, 0x13] 11,
    Der 9 [0x60, 0x86, 0x48, 0x01, 0x65, 0x03, 0x04, 0x02, 0x14] 11]"

definition der_digests_oids :: "nat list list" where
  "der_digests_oids = [
     OBJ_sigAlgs, OBJ_sha1, OBJ_md2, OBJ_md5, OBJ_sha256, OBJ_sha384, OBJ_sha512, OBJ_sha224,
     OBJ_sha512_224, OBJ_sha512_256, OBJ_sha3_224, OBJ_sha3_256, OBJ_sha3_384, OBJ_sha3_512,
     OBJ_shake128, OBJ_shake256, OBJ_nist_hashalgs @ [17], OBJ_nist_hashalgs @ [18], OBJ_kmac128,
     OBJ_kmac256]"

lemma der_digests_ok: "list_all2 der_encodes der_digests der_digests_oids"
  by (simp add: der_digests_def der_digests_oids_def der_eval oid_defs)

definition der_dsa :: "der_oid list" where
  "der_dsa = [
    Der 7 [0x2A, 0x86, 0x48, 0xCE, 0x38, 0x04, 0x01] 9,
    Der 7 [0x2A, 0x86, 0x48, 0xCE, 0x38, 0x04, 0x03] 9,
    Der 9 [0x60, 0x86, 0x48, 0x01, 0x65, 0x03, 0x04, 0x03, 0x01] 11,
    Der 9 [0x60, 0x86, 0x48, 0x01, 0x65, 0x03, 0x04, 0x03, 0x02] 11,
    Der 9 [0x60, 0x86, 0x48, 0x01, 0x65, 0x03, 0x04, 0x03, 0x03] 11,
    Der 9 [0x60, 0x86, 0x48, 0x01, 0x65, 0x03, 0x04, 0x03, 0x04] 11,
    Der 9 [0x60, 0x86, 0x48, 0x01, 0x65, 0x03, 0x04, 0x03, 0x05] 11,
    Der 9 [0x60, 0x86, 0x48, 0x01, 0x65, 0x03, 0x04, 0x03, 0x06] 11,
    Der 9 [0x60, 0x86, 0x48, 0x01, 0x65, 0x03, 0x04, 0x03, 0x07] 11,
    Der 9 [0x60, 0x86, 0x48, 0x01, 0x65, 0x03, 0x04, 0x03, 0x08] 11]"

definition der_dsa_oids :: "nat list list" where
  "der_dsa_oids = [
     OBJ_dsa, OBJ_dsaWithSHA1, OBJ_dsa_with_SHA224, OBJ_dsa_with_SHA256, OBJ_dsa_with_SHA384,
     OBJ_dsa_with_SHA512, OBJ_dsa_with_SHA3_224, OBJ_dsa_with_SHA3_256, OBJ_dsa_with_SHA3_384,
     OBJ_dsa_with_SHA3_512]"

lemma der_dsa_ok: "list_all2 der_encodes der_dsa der_dsa_oids"
  by (simp add: der_dsa_def der_dsa_oids_def der_eval oid_defs)

definition der_ec_1 :: "der_oid list" where
  "der_ec_1 = [
    Der 7 [0x2A, 0x86, 0x48, 0xCE, 0x3D, 0x04, 0x01] 9,
    Der 7 [0x2A, 0x86, 0x48, 0xCE, 0x3D, 0x02, 0x01] 9,
    Der 8 [0x2A, 0x86, 0x48, 0xCE, 0x3D, 0x03, 0x00, 0x01] 10,
    Der 8 [0x2A, 0x86, 0x48, 0xCE, 0x3D, 0x03, 0x00, 0x02] 10,
    Der 8 [0x2A, 0x86, 0x48, 0xCE, 0x3D, 0x03, 0x00, 0x03] 10,
    Der 8 [0x2A, 0x86, 0x48, 0xCE, 0x3D, 0x03, 0x00, 0x04] 10,
    Der 8 [0x2A, 0x86, 0x48, 0xCE, 0x3D, 0x03, 0x00, 0x05] 10,
    Der 8 [0x2A, 0x86, 0x48, 0xCE, 0x3D, 0x03, 0x00, 0x06] 10,
    Der 8 [0x2A, 0x86, 0x48, 0xCE, 0x3D, 0x03, 0x00, 0x07] 10,
    Der 8 [0x2A, 0x86, 0x48, 0xCE, 0x3D, 0x03, 0x00, 0x08] 10,
    Der 8 [0x2A, 0x86, 0x48, 0xCE, 0x3D, 0x03, 0x00, 0x09] 10,
    Der 8 [0x2A, 0x86, 0x48, 0xCE, 0x3D, 0x03, 0x00, 0x0A] 10,
    Der 8 [0x2A, 0x86, 0x48, 0xCE, 0x3D, 0x03, 0x00, 0x0B] 10,
    Der 8 [0x2A, 0x86, 0x48, 0xCE, 0x3D, 0x03, 0x00, 0x0C] 10,
    Der 8 [0x2A, 0x86, 0x48, 0xCE, 0x3D, 0x03, 0x00, 0x0D] 10,
    Der 8 [0x2A, 0x86, 0x48, 0xCE, 0x3D, 0x03, 0x00, 0x0E] 10,
    Der 8 [0x2A, 0x86, 0x48, 0xCE, 0x3D, 0x03, 0x00, 0x0F] 10,
    Der 8 [0x2A, 0x86, 0x48, 0xCE, 0x3D, 0x03, 0x00, 0x10] 10,
    Der 8 [0x2A, 0x86, 0x48, 0xCE, 0x3D, 0x03, 0x00, 0x11] 10,
    Der 8 [0x2A, 0x86, 0x48, 0xCE, 0x3D, 0x03, 0x00, 0x12] 10,
    Der 8 [0x2A, 0x86, 0x48, 0xCE, 0x3D, 0x03, 0x00, 0x13] 10]"

definition der_ec_1_oids :: "nat list list" where
  "der_ec_1_oids = [
     OBJ_ecdsa_with_SHA1, OBJ_X9_62_id_ecPublicKey, OBJ_X9_62_c2pnb163v1, OBJ_X9_62_c2pnb163v2,
     OBJ_X9_62_c2pnb163v3, OBJ_X9_62_c2pnb176v1, OBJ_X9_62_c2tnb191v1, OBJ_X9_62_c2tnb191v2,
     OBJ_X9_62_c2tnb191v3, OBJ_X9_62_c2onb191v4, OBJ_X9_62_c2onb191v5, OBJ_X9_62_c2pnb208w1,
     OBJ_X9_62_c2tnb239v1, OBJ_X9_62_c2tnb239v2, OBJ_X9_62_c2tnb239v3, OBJ_X9_62_c2onb239v4,
     OBJ_X9_62_c2onb239v5, OBJ_X9_62_c2pnb272w1, OBJ_X9_62_c2pnb304w1, OBJ_X9_62_c2tnb359v1,
     OBJ_X9_62_c2pnb368w1]"

lemma der_ec_1_ok: "list_all2 der_encodes der_ec_1 der_ec_1_oids"
  by (simp add: der_ec_1_def der_ec_1_oids_def der_eval oid_defs)

definition der_ec_2 :: "der_oid list" where
  "der_ec_2 = [
    Der 8 [0x2A, 0x86, 0x48, 0xCE, 0x3D, 0x03, 0x00, 0x14] 10,
    Der 8 [0x2A, 0x86, 0x48, 0xCE, 0x3D, 0x03, 0x01, 0x01] 10,
    Der 8 [0x2A, 0x86, 0x48, 0xCE, 0x3D, 0x03, 0x01, 0x02] 10,
    Der 8 [0x2A, 0x86, 0x48, 0xCE, 0x3D, 0x03, 0x01, 0x03] 10,
    Der 8 [0x2A, 0x86, 0x48, 0xCE, 0x3D, 0x03, 0x01, 0x04] 10,
    Der 8 [0x2A, 0x86, 0x48, 0xCE, 0x3D, 0x03, 0x01, 0x05] 10,
    Der 8 [0x2A, 0x86, 0x48, 0xCE, 0x3D, 0x03, 0x01, 0x06] 10,
    Der 8 [0x2A, 0x86, 0x48, 0xCE, 0x3D, 0x03, 0x01, 0x07] 10,
    Der 8 [0x2A, 0x86, 0x48, 0xCE, 0x3D, 0x04, 0x03, 0x01] 10,
    Der 8 [0x2A, 0x86, 0x48, 0xCE, 0x3D, 0x04, 0x03, 0x02] 10,
    Der 8 [0x2A, 0x86, 0x48, 0xCE, 0x3D, 0x04, 0x03, 0x03] 10,
    Der 8 [0x2A, 0x86, 0x48, 0xCE, 0x3D, 0x04, 0x03, 0x04] 10,
    Der 9 [0x60, 0x86, 0x48, 0x01, 0x65, 0x03, 0x04, 0x03, 0x09] 11,
    Der 9 [0x60, 0x86, 0x48, 0x01, 0x65, 0x03, 0x04, 0x03, 0x0A] 11,
    Der 9 [0x60, 0x86, 0x48, 0x01, 0x65, 0x03, 0x04, 0x03, 0x0B] 11,
    Der 9 [0x60, 0x86, 0x48, 0x01, 0x65, 0x03, 0x04, 0x03, 0x0C] 11]"

definition der_ec_2_oids :: "nat list list" where
  "der_ec_2_oids = [
     OBJ_X9_62_c2tnb431r1, OBJ_X9_62_prime192v1, OBJ_X9_62_prime192v2, OBJ_X9_62_prime192v3,
     OBJ_X9_62_prime239v1, OBJ_X9_62_prime239v2, OBJ_X9_62_prime239v3, OBJ_X9_62_prime256v1,
     OBJ_ecdsa_with_SHA224, OBJ_ecdsa_with_SHA256, OBJ_ecdsa_with_SHA384, OBJ_ecdsa_with_SHA512,
     OBJ_ecdsa_with_SHA3_224, OBJ_ecdsa_with_SHA3_256, OBJ_ecdsa_with_SHA3_384, OBJ_ecdsa_with_SHA3_512]"

lemma der_ec_2_ok: "list_all2 der_encodes der_ec_2 der_ec_2_oids"
  by (simp add: der_ec_2_def der_ec_2_oids_def der_eval oid_defs)

definition der_ecx :: "der_oid list" where
  "der_ecx = [
    Der 3 [0x2B, 0x65, 0x6E] 5,
    Der 3 [0x2B, 0x65, 0x6F] 5,
    Der 3 [0x2B, 0x65, 0x70] 5,
    Der 3 [0x2B, 0x65, 0x71] 5]"

definition der_ecx_oids :: "nat list list" where
  "der_ecx_oids = [
     OBJ_X25519, OBJ_X448, OBJ_ED25519, OBJ_ED448]"

lemma der_ecx_ok: "list_all2 der_encodes der_ecx der_ecx_oids"
  by (simp add: der_ecx_def der_ecx_oids_def der_eval oid_defs)

definition der_rsa_1 :: "der_oid list" where
  "der_rsa_1 = [
    Der 8 [0x60, 0x86, 0x48, 0x01, 0x65, 0x03, 0x04, 0x02] 10,
    Der 9 [0x2A, 0x86, 0x48, 0x86, 0xF7, 0x0D, 0x01, 0x01, 0x01] 11,
    Der 9 [0x2A, 0x86, 0x48, 0x86, 0xF7, 0x0D, 0x01, 0x01, 0x07] 11,
    Der 9 [0x2A, 0x86, 0x48, 0x86, 0xF7, 0x0D, 0x01, 0x01, 0x09] 11,
    Der 9 [0x2A, 0x86, 0x48, 0x86, 0xF7, 0x0D, 0x01, 0x01, 0x0A] 11,
    Der 9 [0x2A, 0x86, 0x48, 0x86, 0xF7, 0x0D, 0x01, 0x01, 0x02] 11,
    Der 9 [0x2A, 0x86, 0x48, 0x86, 0xF7, 0x0D, 0x01, 0x01, 0x04] 11,
    Der 9 [0x2A, 0x86, 0x48, 0x86, 0xF7, 0x0D, 0x01, 0x01, 0x05] 11,
    Der 9 [0x2A, 0x86, 0x48, 0x86, 0xF7, 0x0D, 0x01, 0x01, 0x0E] 11,
    Der 9 [0x2A, 0x86, 0x48, 0x86, 0xF7, 0x0D, 0x01, 0x01, 0x0B] 11,
    Der 9 [0x2A, 0x86, 0x48, 0x86, 0xF7, 0x0D, 0x01, 0x01, 0x0C] 11,
    Der 9 [0x2A, 0x86, 0x48, 0x86, 0xF7, 0x0D, 0x01, 0x01, 0x0D] 11,
    Der 9 [0x2A, 0x86, 0x48, 0x86, 0xF7, 0x0D, 0x01, 0x01, 0x0F] 11,
    Der 9 [0x2A, 0x86, 0x48, 0x86, 0xF7, 0x0D, 0x01, 0x01, 0x10] 11,
    Der 9 [0x2A, 0x86, 0x48, 0x86, 0xF7, 0x0D, 0x01, 0x01, 0x08] 11,
    Der 9 [0x60, 0x86, 0x48, 0x01, 0x65, 0x03, 0x04, 0x03, 0x0D] 11,
    Der 9 [0x60, 0x86, 0x48, 0x01, 0x65, 0x03, 0x04, 0x03, 0x0E] 11,
    Der 9 [0x60, 0x86, 0x48, 0x01, 0x65, 0x03, 0x04, 0x03, 0x0F] 11,
    Der 9 [0x60, 0x86, 0x48, 0x01, 0x65, 0x03, 0x04, 0x03, 0x10] 11,
    Der 9 [0x2A, 0x86, 0x48, 0x86, 0xF7, 0x0D, 0x01, 0x01, 0x03] 11,
    Der 6 [0x2B, 0x24, 0x03, 0x03, 0x01, 0x02] 8]"

definition der_rsa_1_oids :: "nat list list" where
  "der_rsa_1_oids = [
     OBJ_nist_hashalgs, OBJ_rsaEncryption, OBJ_rsaesOaep, OBJ_pSpecified, OBJ_rsassaPss,
     OBJ_md2WithRSAEncryption, OBJ_md5WithRSAEncryption, OBJ_sha1WithRSAEncryption,
     OBJ_sha224WithRSAEncryption, OBJ_sha256WithRSAEncryption, OBJ_sha384WithRSAEncryption,
     OBJ_sha512WithRSAEncryption, OBJ_sha512_224WithRSAEncryption, OBJ_sha512_256WithRSAEncryption,
     OBJ_mgf1, OBJ_RSA_SHA3_224, OBJ_RSA_SHA3_256, OBJ_RSA_SHA3_384, OBJ_RSA_SHA3_512,
     OBJ_md4WithRSAEncryption, OBJ_ripemd160WithRSA]"

lemma der_rsa_1_ok: "list_all2 der_encodes der_rsa_1 der_rsa_1_oids"
  by (simp add: der_rsa_1_def der_rsa_1_oids_def der_eval oid_defs)

definition der_rsa_2 :: "der_oid list" where
  "der_rsa_2 = [
    Der 5 [0x2B, 0x0E, 0x03, 0x02, 0x0E] 7]"

definition der_rsa_2_oids :: "nat list list" where
  "der_rsa_2_oids = [
     [1, 3, 14, 3, 2, 14]]"

lemma der_rsa_2_ok: "list_all2 der_encodes der_rsa_2 der_rsa_2_oids"
  by (simp add: der_rsa_2_def der_rsa_2_oids_def der_eval oid_defs)

definition der_sm2 :: "der_oid list" where
  "der_sm2 = [
    Der 8 [0x2A, 0x81, 0x1C, 0xCF, 0x55, 0x01, 0x83, 0x75] 10,
    Der 8 [0x2A, 0x81, 0x1C, 0xCF, 0x55, 0x01, 0x82, 0x2D] 10]"

definition der_sm2_oids :: "nat list list" where
  "der_sm2_oids = [
     OBJ_SM2_with_SM3, OBJ_sm2]"

lemma der_sm2_ok: "list_all2 der_encodes der_sm2 der_sm2_oids"
  by (simp add: der_sm2_def der_sm2_oids_def der_eval oid_defs)

definition der_wrap :: "der_oid list" where
  "der_wrap = [
    Der 11 [0x2A, 0x86, 0x48, 0x86, 0xF7, 0x0D, 0x01, 0x09, 0x10, 0x03, 0x06] 13,
    Der 9 [0x60, 0x86, 0x48, 0x01, 0x65, 0x03, 0x04, 0x01, 0x05] 11,
    Der 9 [0x60, 0x86, 0x48, 0x01, 0x65, 0x03, 0x04, 0x01, 0x19] 11,
    Der 9 [0x60, 0x86, 0x48, 0x01, 0x65, 0x03, 0x04, 0x01, 0x2D] 11]"

definition der_wrap_oids :: "nat list list" where
  "der_wrap_oids = [
     OBJ_id_smime_alg_CMS3DESwrap, OBJ_id_aes128_wrap, OBJ_id_aes192_wrap, OBJ_id_aes256_wrap]"

lemma der_wrap_ok: "list_all2 der_encodes der_wrap der_wrap_oids"
  by (simp add: der_wrap_def der_wrap_oids_def der_eval oid_defs)

end
