(* ===== verification/ObjTheorems.thy ===== *)
theory ObjTheorems
  imports ObjIndex DerTables
begin







text \<open>
  C30. The precompiled tables are what they claim to be: in every \<open>prov/der_*.h\<close>, the
  content bytes of each entry are the DER encoding of the object identifier that its name
  stands for, the length byte is their number, and the declared size is that of the array.
\<close>

theorem DER_tables_correct:
  "list_all2 der_encodes der_digests der_digests_oids \<and>
   list_all2 der_encodes der_dsa der_dsa_oids \<and>
   list_all2 der_encodes der_ec_1 der_ec_1_oids \<and> list_all2 der_encodes der_ec_2 der_ec_2_oids \<and>
   list_all2 der_encodes der_ecx der_ecx_oids \<and>
   list_all2 der_encodes der_rsa_1 der_rsa_1_oids \<and> list_all2 der_encodes der_rsa_2 der_rsa_2_oids \<and>
   list_all2 der_encodes der_sm2 der_sm2_oids \<and> list_all2 der_encodes der_wrap der_wrap_oids"
  by (intro conjI) (rule der_digests_ok der_dsa_ok der_ec_1_ok der_ec_2_ok der_ecx_ok der_rsa_1_ok der_rsa_2_ok
      der_sm2_ok der_wrap_ok)+

end
