(* ===== verification/OsslReasons.thy ===== *)
theory OsslReasons
  imports Main
begin

text \<open>
  The reason codes of the OpenSSL libraries: for every \<open>openssl/*err.h\<close> the table of its
  \<open><LIB>_R_<NAME>\<close> macros, in the order of the file (the long \<open>sslerr.h\<close> in parts), with the
  libraries that may be configured away enabled. \<open>OSSL_REASONS\<close> joins them.
\<close>

definition ASN1_R :: "(string \<times> int) list" where
  "ASN1_R = [
     (''ADDING_OBJECT'', 171), (''ASN1_PARSE_ERROR'', 203), (''ASN1_SIG_PARSE_ERROR'', 204),
     (''AUX_ERROR'', 100), (''BAD_OBJECT_HEADER'', 102), (''BAD_TEMPLATE'', 230),
     (''BMPSTRING_IS_WRONG_LENGTH'', 214), (''BN_LIB'', 105), (''BOOLEAN_IS_WRONG_LENGTH'', 106),
     (''BUFFER_TOO_SMALL'', 107), (''CIPHER_HAS_NO_OBJECT_IDENTIFIER'', 108),
     (''CONTEXT_NOT_INITIALISED'', 217), (''DATA_IS_WRONG'', 109), (''DECODE_ERROR'', 110),
     (''DEPTH_EXCEEDED'', 174), (''DIGEST_AND_KEY_TYPE_NOT_SUPPORTED'', 198),
     (''ENCODE_ERROR'', 112), (''ERROR_GETTING_TIME'', 173), (''ERROR_LOADING_SECTION'', 172),
     (''ERROR_SETTING_CIPHER_PARAMS'', 114), (''EXPECTING_AN_INTEGER'', 115),
     (''EXPECTING_AN_OBJECT'', 116), (''EXPLICIT_LENGTH_MISMATCH'', 119),
     (''EXPLICIT_TAG_NOT_CONSTRUCTED'', 120), (''FIELD_MISSING'', 121),
     (''FIRST_NUM_TOO_LARGE'', 122), (''HEADER_TOO_LONG'', 123),
     (''ILLEGAL_BITSTRING_FORMAT'', 175), (''ILLEGAL_BOOLEAN'', 176), (''ILLEGAL_CHARACTERS'', 124),
     (''ILLEGAL_FORMAT'', 177), (''ILLEGAL_HEX'', 178), (''ILLEGAL_IMPLICIT_TAG'', 179),
     (''ILLEGAL_INTEGER'', 180), (''ILLEGAL_NEGATIVE_VALUE'', 226),
     (''ILLEGAL_NESTED_TAGGING'', 181), (''ILLEGAL_NULL'', 125), (''ILLEGAL_NULL_VALUE'', 182),
     (''ILLEGAL_OBJECT'', 183), (''ILLEGAL_OPTIONAL_ANY'', 126),
     (''ILLEGAL_OPTIONS_ON_ITEM_TEMPLATE'', 170), (''ILLEGAL_PADDING'', 221),
     (''ILLEGAL_TAGGED_ANY'', 127), (''ILLEGAL_TIME_VALUE'', 184), (''ILLEGAL_ZERO_CONTENT'', 222),
     (''INTEGER_NOT_ASCII_FORMAT'', 185), (''INTEGER_TOO_LARGE_FOR_LONG'', 128),
     (''INVALID_BIT_STRING_BITS_LEFT'', 220), (''INVALID_BMPSTRING_LENGTH'', 129),
     (''INVALID_DIGIT'', 130), (''INVALID_MIME_TYPE'', 205), (''INVALID_MODIFIER'', 186),
     (''INVALID_NUMBER'', 187), (''INVALID_OBJECT_ENCODING'', 216),
     (''INVALID_SCRYPT_PARAMETERS'', 227), (''INVALID_SEPARATOR'', 131),
     (''INVALID_STRING_TABLE_VALUE'', 218), (''INVALID_UNIVERSALSTRING_LENGTH'', 133),
     (''INVALID_UTF8STRING'', 134), (''INVALID_VALUE'', 219), (''LENGTH_TOO_LONG'', 231),
     (''LIST_ERROR'', 188), (''MIME_NO_CONTENT_TYPE'', 206), (''MIME_PARSE_ERROR'', 207),
     (''MIME_SIG_PARSE_ERROR'', 208), (''MISSING_EOC'', 137), (''MISSING_SECOND_NUMBER'', 138),
     (''MISSING_VALUE'', 189), (''MSTRING_NOT_UNIVERSAL'', 139), (''MSTRING_WRONG_TAG'', 140),
     (''NESTED_ASN1_STRING'', 197), (''NESTED_TOO_DEEP'', 201), (''NON_HEX_CHARACTERS'', 141),
     (''NOT_ASCII_FORMAT'', 190), (''NOT_ENOUGH_DATA'', 142), (''NO_CONTENT_TYPE'', 209),
     (''NO_MATCHING_CHOICE_TYPE'', 143), (''NO_MULTIPART_BODY_FAILURE'', 210),
     (''NO_MULTIPART_BOUNDARY'', 211), (''NO_SIG_CONTENT_TYPE'', 212),
     (''NULL_IS_WRONG_LENGTH'', 144), (''OBJECT_NOT_ASCII_FORMAT'', 191),
     (''ODD_NUMBER_OF_CHARS'', 145), (''SECOND_NUMBER_TOO_LARGE'', 147),
     (''SEQUENCE_LENGTH_MISMATCH'', 148), (''SEQUENCE_NOT_CONSTRUCTED'', 149),
     (''SEQUENCE_OR_SET_NEEDS_CONFIG'', 192), (''SHORT_LINE'', 150),
     (''SIG_INVALID_MIME_TYPE'', 213), (''STREAMING_NOT_SUPPORTED'', 202),
     (''STRING_TOO_LONG'', 151), (''STRING_TOO_SHORT'', 152),
     (''THE_ASN1_OBJECT_IDENTIFIER_IS_NOT_KNOWN_FOR_THIS_MD'', 154),
     (''TIME_NOT_ASCII_FORMAT'', 193), (''TOO_LARGE'', 223), (''TOO_LONG'', 155),
     (''TOO_SMALL'', 224), (''TYPE_NOT_CONSTRUCTED'', 156), (''TYPE_NOT_PRIMITIVE'', 195),
     (''UNEXPECTED_EOC'', 159), (''UNIVERSALSTRING_IS_WRONG_LENGTH'', 215),
     (''UNKNOWN_DIGEST'', 229), (''UNKNOWN_FORMAT'', 160),
     (''UNKNOWN_MESSAGE_DIGEST_ALGORITHM'', 161), (''UNKNOWN_OBJECT_TYPE'', 162),
     (''UNKNOWN_PUBLIC_KEY_TYPE'', 163), (''UNKNOWN_SIGNATURE_ALGORITHM'', 199),
     (''UNKNOWN_TAG'', 194), (''UNSUPPORTED_ANY_DEFINED_BY_TYPE'', 164),
     (''UNSUPPORTED_CIPHER'', 228), (''UNSUPPORTED_PUBLIC_KEY_TYPE'', 167),
     (''UNSUPPORTED_TYPE'', 196), (''WRONG_INTEGER_TYPE'', 225), (''WRONG_PUBLIC_KEY_TYPE'', 200),
     (''WRONG_TAG'', 168)]"

definition ASYNC_R :: "(string \<times> int) list" where
  "ASYNC_R = [
     (''FAILED_TO_SET_POOL'', 101), (''FAILED_TO_SWAP_CONTEXT'', 102), (''INIT_FAILED'', 105),
     (''INVALID_POOL_SIZE'', 103)]"

definition BIO_R :: "(string \<times> int) list" where
  "BIO_R = [
     (''ACCEPT_ERROR'', 100), (''ADDRINFO_ADDR_IS_NOT_AF_INET'', 141),
     (''AMBIGUOUS_HOST_OR_SERVICE'', 129), (''BAD_FOPEN_MODE'', 101), (''BROKEN_PIPE'', 124),
     (''CONNECT_ERROR'', 103), (''CONNECT_TIMEOUT'', 147),
     (''GETHOSTBYNAME_ADDR_IS_NOT_AF_INET'', 107), (''GETSOCKNAME_ERROR'', 132),
     (''GETSOCKNAME_TRUNCATED_ADDRESS'', 133), (''GETTING_SOCKTYPE'', 134),
     (''INVALID_ARGUMENT'', 125), (''INVALID_SOCKET'', 135), (''IN_USE'', 123),
     (''LENGTH_TOO_LONG'', 102), (''LISTEN_V6_ONLY'', 136), (''LOOKUP_RETURNED_NOTHING'', 142),
     (''MALFORMED_HOST_OR_SERVICE'', 130), (''NBIO_CONNECT_ERROR'', 110),
     (''NO_ACCEPT_ADDR_OR_SERVICE_SPECIFIED'', 143), (''NO_HOSTNAME_OR_SERVICE_SPECIFIED'', 144),
     (''NO_PORT_DEFINED'', 113), (''NO_SUCH_FILE'', 128), (''NULL_PARAMETER'', 115),
     (''TRANSFER_ERROR'', 104), (''TRANSFER_TIMEOUT'', 105), (''UNABLE_TO_BIND_SOCKET'', 117),
     (''UNABLE_TO_CREATE_SOCKET'', 118), (''UNABLE_TO_KEEPALIVE'', 137),
     (''UNABLE_TO_LISTEN_SOCKET'', 119), (''UNABLE_TO_NODELAY'', 138),
     (''UNABLE_TO_REUSEADDR'', 139), (''UNAVAILABLE_IP_FAMILY'', 145), (''UNINITIALIZED'', 120),
     (''UNKNOWN_INFO_TYPE'', 140), (''UNSUPPORTED_IP_FAMILY'', 146), (''UNSUPPORTED_METHOD'', 121),
     (''UNSUPPORTED_PROTOCOL_FAMILY'', 131), (''WRITE_TO_READ_ONLY_BIO'', 126),
     (''WSASTARTUP'', 122)]"

definition BN_R :: "(string \<times> int) list" where
  "BN_R = [
     (''ARG2_LT_ARG3'', 100), (''BAD_RECIPROCAL'', 101), (''BIGNUM_TOO_LONG'', 114),
     (''BITS_TOO_SMALL'', 118), (''CALLED_WITH_EVEN_MODULUS'', 102), (''DIV_BY_ZERO'', 103),
     (''ENCODING_ERROR'', 104), (''EXPAND_ON_STATIC_BIGNUM_DATA'', 105),
     (''INPUT_NOT_REDUCED'', 110), (''INVALID_LENGTH'', 106), (''INVALID_RANGE'', 115),
     (''INVALID_SHIFT'', 119), (''NOT_A_SQUARE'', 111), (''NOT_INITIALIZED'', 107),
     (''NO_INVERSE'', 108), (''NO_PRIME_CANDIDATE'', 121), (''NO_SOLUTION'', 116),
     (''NO_SUITABLE_DIGEST'', 120), (''PRIVATE_KEY_TOO_LARGE'', 117), (''P_IS_NOT_PRIME'', 112),
     (''TOO_MANY_ITERATIONS'', 113), (''TOO_MANY_TEMPORARY_VARIABLES'', 109)]"

definition CMP_R :: "(string \<times> int) list" where
  "CMP_R = [
     (''ALGORITHM_NOT_SUPPORTED'', 139), (''BAD_CHECKAFTER_IN_POLLREP'', 167),
     (''BAD_REQUEST_ID'', 108), (''CERTHASH_UNMATCHED'', 156), (''CERTID_NOT_FOUND'', 109),
     (''CERTIFICATE_NOT_ACCEPTED'', 169), (''CERTIFICATE_NOT_FOUND'', 112),
     (''CERTREQMSG_NOT_FOUND'', 157), (''CERTRESPONSE_NOT_FOUND'', 113),
     (''CERT_AND_KEY_DO_NOT_MATCH'', 114), (''CHECKAFTER_OUT_OF_RANGE'', 181),
     (''ENCOUNTERED_KEYUPDATEWARNING'', 176), (''ENCOUNTERED_WAITING'', 162),
     (''ERROR_CALCULATING_PROTECTION'', 115), (''ERROR_CREATING_CERTCONF'', 116),
     (''ERROR_CREATING_CERTREP'', 117), (''ERROR_CREATING_CERTREQ'', 163),
     (''ERROR_CREATING_ERROR'', 118), (''ERROR_CREATING_GENM'', 119),
     (''ERROR_CREATING_GENP'', 120), (''ERROR_CREATING_PKICONF'', 122),
     (''ERROR_CREATING_POLLREP'', 123), (''ERROR_CREATING_POLLREQ'', 124),
     (''ERROR_CREATING_RP'', 125), (''ERROR_CREATING_RR'', 126), (''ERROR_PARSING_PKISTATUS'', 107),
     (''ERROR_PROCESSING_MESSAGE'', 158), (''ERROR_PROTECTING_MESSAGE'', 127),
     (''ERROR_SETTING_CERTHASH'', 128), (''ERROR_UNEXPECTED_CERTCONF'', 160),
     (''ERROR_VALIDATING_PROTECTION'', 140), (''ERROR_VALIDATING_SIGNATURE'', 171),
     (''FAILED_BUILDING_OWN_CHAIN'', 164), (''FAILED_EXTRACTING_PUBKEY'', 141),
     (''FAILURE_OBTAINING_RANDOM'', 110), (''FAIL_INFO_OUT_OF_RANGE'', 129),
     (''INVALID_ARGS'', 100), (''INVALID_OPTION'', 174), (''MISSING_CERTID'', 165),
     (''MISSING_KEY_INPUT_FOR_CREATING_PROTECTION'', 130),
     (''MISSING_KEY_USAGE_DIGITALSIGNATURE'', 142), (''MISSING_P10CSR'', 121),
     (''MISSING_PBM_SECRET'', 166), (''MISSING_PRIVATE_KEY'', 131), (''MISSING_PROTECTION'', 143),
     (''MISSING_REFERENCE_CERT'', 168), (''MISSING_SENDER_IDENTIFICATION'', 111),
     (''MISSING_TRUST_STORE'', 144), (''MULTIPLE_REQUESTS_NOT_SUPPORTED'', 161),
     (''MULTIPLE_RESPONSES_NOT_SUPPORTED'', 170), (''MULTIPLE_SAN_SOURCES'', 102),
     (''NO_STDIO'', 194), (''NO_SUITABLE_SENDER_CERT'', 145), (''NULL_ARGUMENT'', 103),
     (''PKIBODY_ERROR'', 146), (''PKISTATUSINFO_NOT_FOUND'', 132), (''POLLING_FAILED'', 172),
     (''POTENTIALLY_INVALID_CERTIFICATE'', 147), (''RECEIVED_ERROR'', 180),
     (''RECIPNONCE_UNMATCHED'', 148), (''REQUEST_NOT_ACCEPTED'', 149),
     (''REQUEST_REJECTED_BY_SERVER'', 182), (''SENDER_GENERALNAME_TYPE_NOT_SUPPORTED'', 150),
     (''SRVCERT_DOES_NOT_VALIDATE_MSG'', 151), (''TOTAL_TIMEOUT'', 184),
     (''TRANSACTIONID_UNMATCHED'', 152), (''TRANSFER_ERROR'', 159), (''UNEXPECTED_PKIBODY'', 133),
     (''UNEXPECTED_PKISTATUS'', 185), (''UNEXPECTED_PVNO'', 153), (''UNKNOWN_ALGORITHM_ID'', 134),
     (''UNKNOWN_CERT_TYPE'', 135), (''UNKNOWN_PKISTATUS'', 186), (''UNSUPPORTED_ALGORITHM'', 136),
     (''UNSUPPORTED_KEY_TYPE'', 137), (''UNSUPPORTED_PROTECTION_ALG_DHBASEDMAC'', 154),
     (''VALUE_TOO_LARGE'', 175), (''VALUE_TOO_SMALL'', 177), (''WRONG_ALGORITHM_OID'', 138),
     (''WRONG_CERTID'', 189), (''WRONG_CERTID_IN_RP'', 187), (''WRONG_PBM_VALUE'', 155),
     (''WRONG_RP_COMPONENT_COUNT'', 188), (''WRONG_SERIAL_IN_RP'', 173)]"

definition CMS_R :: "(string \<times> int) list" where
  "CMS_R = [
     (''ADD_SIGNER_ERROR'', 99), (''ATTRIBUTE_ERROR'', 161), (''CERTIFICATE_ALREADY_PRESENT'', 175),
     (''CERTIFICATE_HAS_NO_KEYID'', 160), (''CERTIFICATE_VERIFY_ERROR'', 100),
     (''CIPHER_AEAD_SET_TAG_ERROR'', 184), (''CIPHER_GET_TAG'', 185),
     (''CIPHER_INITIALISATION_ERROR'', 101), (''CIPHER_PARAMETER_INITIALISATION_ERROR'', 102),
     (''CMS_DATAFINAL_ERROR'', 103), (''CMS_LIB'', 104), (''CONTENTIDENTIFIER_MISMATCH'', 170),
     (''CONTENT_NOT_FOUND'', 105), (''CONTENT_TYPE_MISMATCH'', 171),
     (''CONTENT_TYPE_NOT_COMPRESSED_DATA'', 106), (''CONTENT_TYPE_NOT_ENVELOPED_DATA'', 107),
     (''CONTENT_TYPE_NOT_SIGNED_DATA'', 108), (''CONTENT_VERIFY_ERROR'', 109),
     (''CTRL_ERROR'', 110), (''CTRL_FAILURE'', 111), (''DECODE_ERROR'', 187),
     (''DECRYPT_ERROR'', 112), (''ERROR_GETTING_PUBLIC_KEY'', 113),
     (''ERROR_READING_MESSAGEDIGEST_ATTRIBUTE'', 114), (''ERROR_SETTING_KEY'', 115),
     (''ERROR_SETTING_RECIPIENTINFO'', 116), (''ESS_SIGNING_CERTID_MISMATCH_ERROR'', 183),
     (''INVALID_ENCRYPTED_KEY_LENGTH'', 117), (''INVALID_KEY_ENCRYPTION_PARAMETER'', 176),
     (''INVALID_KEY_LENGTH'', 118), (''INVALID_LABEL'', 190), (''INVALID_OAEP_PARAMETERS'', 191),
     (''KDF_PARAMETER_ERROR'', 186), (''MD_BIO_INIT_ERROR'', 119),
     (''MESSAGEDIGEST_ATTRIBUTE_WRONG_LENGTH'', 120), (''MESSAGEDIGEST_WRONG_LENGTH'', 121),
     (''MSGSIGDIGEST_ERROR'', 172), (''MSGSIGDIGEST_VERIFICATION_FAILURE'', 162),
     (''MSGSIGDIGEST_WRONG_LENGTH'', 163), (''NEED_ONE_SIGNER'', 164),
     (''NOT_A_SIGNED_RECEIPT'', 165), (''NOT_ENCRYPTED_DATA'', 122), (''NOT_KEK'', 123),
     (''NOT_KEY_AGREEMENT'', 181), (''NOT_KEY_TRANSPORT'', 124), (''NOT_PWRI'', 177),
     (''NOT_SUPPORTED_FOR_THIS_KEY_TYPE'', 125), (''NO_CIPHER'', 126), (''NO_CONTENT'', 127),
     (''NO_CONTENT_TYPE'', 173), (''NO_DEFAULT_DIGEST'', 128), (''NO_DIGEST_SET'', 129),
     (''NO_KEY'', 130), (''NO_KEY_OR_CERT'', 174), (''NO_MATCHING_DIGEST'', 131),
     (''NO_MATCHING_RECIPIENT'', 132), (''NO_MATCHING_SIGNATURE'', 166), (''NO_MSGSIGDIGEST'', 167),
     (''NO_PASSWORD'', 178), (''NO_PRIVATE_KEY'', 133), (''NO_PUBLIC_KEY'', 134),
     (''NO_RECEIPT_REQUEST'', 168), (''NO_SIGNERS'', 135), (''PEER_KEY_ERROR'', 188),
     (''PRIVATE_KEY_DOES_NOT_MATCH_CERTIFICATE'', 136), (''RECEIPT_DECODE_ERROR'', 169),
     (''RECIPIENT_ERROR'', 137), (''SHARED_INFO_ERROR'', 189),
     (''SIGNER_CERTIFICATE_NOT_FOUND'', 138), (''SIGNFINAL_ERROR'', 139),
     (''SMIME_TEXT_ERROR'', 140), (''STORE_INIT_ERROR'', 141), (''TYPE_NOT_COMPRESSED_DATA'', 142),
     (''TYPE_NOT_DATA'', 143), (''TYPE_NOT_DIGESTED_DATA'', 144),
     (''TYPE_NOT_ENCRYPTED_DATA'', 145), (''TYPE_NOT_ENVELOPED_DATA'', 146),
     (''UNABLE_TO_FINALIZE_CONTEXT'', 147), (''UNKNOWN_CIPHER'', 148),
     (''UNKNOWN_DIGEST_ALGORITHM'', 149), (''UNKNOWN_ID'', 150),
     (''UNSUPPORTED_COMPRESSION_ALGORITHM'', 151), (''UNSUPPORTED_CONTENT_TYPE'', 152),
     (''UNSUPPORTED_ENCRYPTION_TYPE'', 192), (''UNSUPPORTED_KEK_ALGORITHM'', 153),
     (''UNSUPPORTED_KEY_ENCRYPTION_ALGORITHM'', 179), (''UNSUPPORTED_LABEL_SOURCE'', 193),
     (''UNSUPPORTED_RECIPIENTINFO_TYPE'', 155), (''UNSUPPORTED_RECIPIENT_TYPE'', 154),
     (''UNSUPPORTED_TYPE'', 156), (''UNWRAP_ERROR'', 157), (''UNWRAP_FAILURE'', 180),
     (''VERIFICATION_FAILURE'', 158), (''WRAP_ERROR'', 159)]"

definition COMP_R :: "(string \<times> int) list" where
  "COMP_R = [
     (''ZLIB_DEFLATE_ERROR'', 99), (''ZLIB_INFLATE_ERROR'', 100), (''ZLIB_NOT_SUPPORTED'', 101)]"

definition CONF_R :: "(string \<times> int) list" where
  "CONF_R = [
     (''ERROR_LOADING_DSO'', 110), (''INVALID_PRAGMA'', 122), (''LIST_CANNOT_BE_NULL'', 115),
     (''MANDATORY_BRACES_IN_VARIABLE_EXPANSION'', 123), (''MISSING_CLOSE_SQUARE_BRACKET'', 100),
     (''MISSING_EQUAL_SIGN'', 101), (''MISSING_INIT_FUNCTION'', 112),
     (''MODULE_INITIALIZATION_ERROR'', 109), (''NO_CLOSE_BRACE'', 102), (''NO_CONF'', 105),
     (''NO_CONF_OR_ENVIRONMENT_VARIABLE'', 106), (''NO_SECTION'', 107), (''NO_SUCH_FILE'', 114),
     (''NO_VALUE'', 108), (''NUMBER_TOO_LARGE'', 121),
     (''OPENSSL_CONF_REFERENCES_MISSING_SECTION'', 124), (''RECURSIVE_DIRECTORY_INCLUDE'', 111),
     (''RELATIVE_PATH'', 125), (''SSL_COMMAND_SECTION_EMPTY'', 117),
     (''SSL_COMMAND_SECTION_NOT_FOUND'', 118), (''SSL_SECTION_EMPTY'', 119),
     (''SSL_SECTION_NOT_FOUND'', 120), (''UNABLE_TO_CREATE_NEW_SECTION'', 103),
     (''UNKNOWN_MODULE_NAME'', 113), (''VARIABLE_EXPANSION_TOO_LONG'', 116),
     (''VARIABLE_HAS_NO_VALUE'', 104)]"

definition CRMF_R :: "(string \<times> int) list" where
  "CRMF_R = [
     (''BAD_PBM_ITERATIONCOUNT'', 100), (''CRMFERROR'', 102), (''ERROR'', 103),
     (''ERROR_DECODING_CERTIFICATE'', 104), (''ERROR_DECRYPTING_CERTIFICATE'', 105),
     (''ERROR_DECRYPTING_SYMMETRIC_KEY'', 106), (''FAILURE_OBTAINING_RANDOM'', 107),
     (''ITERATIONCOUNT_BELOW_100'', 108), (''MALFORMED_IV'', 101), (''NULL_ARGUMENT'', 109),
     (''POPOSKINPUT_NOT_SUPPORTED'', 113), (''POPO_INCONSISTENT_PUBLIC_KEY'', 117),
     (''POPO_MISSING'', 121), (''POPO_MISSING_PUBLIC_KEY'', 118), (''POPO_MISSING_SUBJECT'', 119),
     (''POPO_RAVERIFIED_NOT_ACCEPTED'', 120), (''SETTING_MAC_ALGOR_FAILURE'', 110),
     (''SETTING_OWF_ALGOR_FAILURE'', 111), (''UNSUPPORTED_ALGORITHM'', 112),
     (''UNSUPPORTED_CIPHER'', 114), (''UNSUPPORTED_METHOD_FOR_CREATING_POPO'', 115),
     (''UNSUPPORTED_POPO_METHOD'', 116)]"

definition CRYPTO_R :: "(string \<times> int) list" where
  "CRYPTO_R = [
     (''BAD_ALGORITHM_NAME'', 117), (''CONFLICTING_NAMES'', 118), (''HEX_STRING_TOO_SHORT'', 121),
     (''ILLEGAL_HEX_DIGIT'', 102), (''INSUFFICIENT_DATA_SPACE'', 106),
     (''INSUFFICIENT_PARAM_SIZE'', 107), (''INSUFFICIENT_SECURE_DATA_SPACE'', 108),
     (''INVALID_NEGATIVE_VALUE'', 122), (''INVALID_NULL_ARGUMENT'', 109),
     (''INVALID_OSSL_PARAM_TYPE'', 110), (''ODD_NUMBER_OF_DIGITS'', 103),
     (''PROVIDER_ALREADY_EXISTS'', 104), (''PROVIDER_SECTION_ERROR'', 105),
     (''RANDOM_SECTION_ERROR'', 119), (''SECURE_MALLOC_FAILURE'', 111), (''STRING_TOO_LONG'', 112),
     (''TOO_MANY_BYTES'', 113), (''TOO_MANY_RECORDS'', 114), (''TOO_SMALL_BUFFER'', 116),
     (''UNKNOWN_NAME_IN_RANDOM_SECTION'', 120), (''ZERO_LENGTH_NUMBER'', 115)]"

definition CT_R :: "(string \<times> int) list" where
  "CT_R = [
     (''BASE64_DECODE_ERROR'', 108), (''INVALID_LOG_ID_LENGTH'', 100), (''LOG_CONF_INVALID'', 109),
     (''LOG_CONF_INVALID_KEY'', 110), (''LOG_CONF_MISSING_DESCRIPTION'', 111),
     (''LOG_CONF_MISSING_KEY'', 112), (''LOG_KEY_INVALID'', 113), (''SCT_FUTURE_TIMESTAMP'', 116),
     (''SCT_INVALID'', 104), (''SCT_INVALID_SIGNATURE'', 107), (''SCT_LIST_INVALID'', 105),
     (''SCT_LOG_ID_MISMATCH'', 114), (''SCT_NOT_SET'', 106), (''SCT_UNSUPPORTED_VERSION'', 115),
     (''UNRECOGNIZED_SIGNATURE_NID'', 101), (''UNSUPPORTED_ENTRY_TYPE'', 102),
     (''UNSUPPORTED_VERSION'', 103)]"

definition OSSL_DECODER_R :: "(string \<times> int) list" where
  "OSSL_DECODER_R = [
     (''COULD_NOT_DECODE_OBJECT'', 101), (''DECODER_NOT_FOUND'', 102), (''MISSING_GET_PARAMS'', 100)]"

definition DH_R :: "(string \<times> int) list" where
  "DH_R = [
     (''BAD_FFC_PARAMETERS'', 127), (''BAD_GENERATOR'', 101), (''BN_DECODE_ERROR'', 109),
     (''BN_ERROR'', 106), (''CHECK_INVALID_J_VALUE'', 115), (''CHECK_INVALID_Q_VALUE'', 116),
     (''CHECK_PUBKEY_INVALID'', 122), (''CHECK_PUBKEY_TOO_LARGE'', 123),
     (''CHECK_PUBKEY_TOO_SMALL'', 124), (''CHECK_P_NOT_PRIME'', 117),
     (''CHECK_P_NOT_SAFE_PRIME'', 118), (''CHECK_Q_NOT_PRIME'', 119), (''DECODE_ERROR'', 104),
     (''INVALID_PARAMETER_NAME'', 110), (''INVALID_PARAMETER_NID'', 114), (''INVALID_PUBKEY'', 102),
     (''INVALID_SECRET'', 128), (''KDF_PARAMETER_ERROR'', 112), (''KEYS_NOT_SET'', 108),
     (''MISSING_PUBKEY'', 125), (''MODULUS_TOO_LARGE'', 103), (''MODULUS_TOO_SMALL'', 126),
     (''NOT_SUITABLE_GENERATOR'', 120), (''NO_PARAMETERS_SET'', 107), (''NO_PRIVATE_VALUE'', 100),
     (''PARAMETER_ENCODING_ERROR'', 105), (''PEER_KEY_ERROR'', 111), (''SHARED_INFO_ERROR'', 113),
     (''UNABLE_TO_CHECK_GENERATOR'', 121)]"

definition DSA_R :: "(string \<times> int) list" where
  "DSA_R = [
     (''BAD_FFC_PARAMETERS'', 114), (''BAD_Q_VALUE'', 102), (''BN_DECODE_ERROR'', 108),
     (''BN_ERROR'', 109), (''DECODE_ERROR'', 104), (''INVALID_DIGEST_TYPE'', 106),
     (''INVALID_PARAMETERS'', 112), (''MISSING_PARAMETERS'', 101), (''MISSING_PRIVATE_KEY'', 111),
     (''MODULUS_TOO_LARGE'', 103), (''NO_PARAMETERS_SET'', 107),
     (''PARAMETER_ENCODING_ERROR'', 105), (''P_NOT_PRIME'', 115), (''Q_NOT_PRIME'', 113),
     (''SEED_LEN_SMALL'', 110)]"

definition EC_R :: "(string \<times> int) list" where
  "EC_R = [
     (''ASN1_ERROR'', 115), (''BAD_SIGNATURE'', 156), (''BIGNUM_OUT_OF_RANGE'', 144),
     (''BUFFER_TOO_SMALL'', 100), (''CANNOT_INVERT'', 165), (''COORDINATES_OUT_OF_RANGE'', 146),
     (''CURVE_DOES_NOT_SUPPORT_ECDH'', 160), (''CURVE_DOES_NOT_SUPPORT_ECDSA'', 170),
     (''CURVE_DOES_NOT_SUPPORT_SIGNING'', 159), (''DECODE_ERROR'', 142),
     (''DISCRIMINANT_IS_ZERO'', 118), (''EC_GROUP_NEW_BY_NAME_FAILURE'', 119),
     (''EXPLICIT_PARAMS_NOT_SUPPORTED'', 127), (''FAILED_MAKING_PUBLIC_KEY'', 166),
     (''FIELD_TOO_LARGE'', 143), (''GF2M_NOT_SUPPORTED'', 147),
     (''GROUP2PKPARAMETERS_FAILURE'', 120), (''I2D_ECPKPARAMETERS_FAILURE'', 121),
     (''INCOMPATIBLE_OBJECTS'', 101), (''INVALID_A'', 168), (''INVALID_ARGUMENT'', 112),
     (''INVALID_B'', 169), (''INVALID_COFACTOR'', 171), (''INVALID_COMPRESSED_POINT'', 110),
     (''INVALID_COMPRESSION_BIT'', 109), (''INVALID_CURVE'', 141), (''INVALID_DIGEST'', 151),
     (''INVALID_DIGEST_TYPE'', 138), (''INVALID_ENCODING'', 102), (''INVALID_FIELD'', 103),
     (''INVALID_FORM'', 104), (''INVALID_GENERATOR'', 173), (''INVALID_GROUP_ORDER'', 122),
     (''INVALID_KEY'', 116), (''INVALID_LENGTH'', 117), (''INVALID_NAMED_GROUP_CONVERSION'', 174),
     (''INVALID_OUTPUT_LENGTH'', 161), (''INVALID_P'', 172), (''INVALID_PEER_KEY'', 133),
     (''INVALID_PENTANOMIAL_BASIS'', 132), (''INVALID_PRIVATE_KEY'', 123), (''INVALID_SEED'', 175),
     (''INVALID_TRINOMIAL_BASIS'', 137), (''KDF_PARAMETER_ERROR'', 148), (''KEYS_NOT_SET'', 140),
     (''LADDER_POST_FAILURE'', 136), (''LADDER_PRE_FAILURE'', 153), (''LADDER_STEP_FAILURE'', 162),
     (''MISSING_OID'', 167), (''MISSING_PARAMETERS'', 124), (''MISSING_PRIVATE_KEY'', 125),
     (''NEED_NEW_SETUP_VALUES'', 157), (''NOT_A_NIST_PRIME'', 135), (''NOT_IMPLEMENTED'', 126),
     (''NOT_INITIALIZED'', 111), (''NO_PARAMETERS_SET'', 139), (''NO_PRIVATE_VALUE'', 154),
     (''OPERATION_NOT_SUPPORTED'', 152), (''PASSED_NULL_PARAMETER'', 134),
     (''PEER_KEY_ERROR'', 149), (''POINT_ARITHMETIC_FAILURE'', 155), (''POINT_AT_INFINITY'', 106),
     (''POINT_COORDINATES_BLIND_FAILURE'', 163), (''POINT_IS_NOT_ON_CURVE'', 107),
     (''RANDOM_NUMBER_GENERATION_FAILED'', 158), (''SHARED_INFO_ERROR'', 150), (''SLOT_FULL'', 108),
     (''UNDEFINED_GENERATOR'', 113), (''UNDEFINED_ORDER'', 128), (''UNKNOWN_COFACTOR'', 164),
     (''UNKNOWN_GROUP'', 129), (''UNKNOWN_ORDER'', 114), (''UNSUPPORTED_FIELD'', 131),
     (''WRONG_CURVE_PARAMETERS'', 145), (''WRONG_ORDER'', 130)]"

definition OSSL_ENCODER_R :: "(string \<times> int) list" where
  "OSSL_ENCODER_R = [
     (''ENCODER_NOT_FOUND'', 101), (''INCORRECT_PROPERTY_QUERY'', 100),
     (''MISSING_GET_PARAMS'', 102)]"

definition ENGINE_R :: "(string \<times> int) list" where
  "ENGINE_R = [
     (''ALREADY_LOADED'', 100), (''ARGUMENT_IS_NOT_A_NUMBER'', 133), (''CMD_NOT_EXECUTABLE'', 134),
     (''COMMAND_TAKES_INPUT'', 135), (''COMMAND_TAKES_NO_INPUT'', 136),
     (''CONFLICTING_ENGINE_ID'', 103), (''CTRL_COMMAND_NOT_IMPLEMENTED'', 119),
     (''DSO_FAILURE'', 104), (''DSO_NOT_FOUND'', 132), (''ENGINES_SECTION_ERROR'', 148),
     (''ENGINE_CONFIGURATION_ERROR'', 102), (''ENGINE_IS_NOT_IN_LIST'', 105),
     (''ENGINE_SECTION_ERROR'', 149), (''FAILED_LOADING_PRIVATE_KEY'', 128),
     (''FAILED_LOADING_PUBLIC_KEY'', 129), (''FINISH_FAILED'', 106), (''ID_OR_NAME_MISSING'', 108),
     (''INIT_FAILED'', 109), (''INTERNAL_LIST_ERROR'', 110), (''INVALID_ARGUMENT'', 143),
     (''INVALID_CMD_NAME'', 137), (''INVALID_CMD_NUMBER'', 138), (''INVALID_INIT_VALUE'', 151),
     (''INVALID_STRING'', 150), (''NOT_INITIALISED'', 117), (''NOT_LOADED'', 112),
     (''NO_CONTROL_FUNCTION'', 120), (''NO_INDEX'', 144), (''NO_LOAD_FUNCTION'', 125),
     (''NO_REFERENCE'', 130), (''NO_SUCH_ENGINE'', 116), (''UNIMPLEMENTED_CIPHER'', 146),
     (''UNIMPLEMENTED_DIGEST'', 147), (''UNIMPLEMENTED_PUBLIC_KEY_METHOD'', 101),
     (''VERSION_INCOMPATIBILITY'', 145)]"

definition ESS_R :: "(string \<times> int) list" where
  "ESS_R = [
     (''EMPTY_ESS_CERT_ID_LIST'', 107), (''ESS_CERT_DIGEST_ERROR'', 103),
     (''ESS_CERT_ID_NOT_FOUND'', 104), (''ESS_CERT_ID_WRONG_ORDER'', 105),
     (''ESS_DIGEST_ALG_UNKNOWN'', 106), (''ESS_SIGNING_CERTIFICATE_ERROR'', 102),
     (''ESS_SIGNING_CERT_ADD_ERROR'', 100), (''ESS_SIGNING_CERT_V2_ADD_ERROR'', 101),
     (''MISSING_SIGNING_CERTIFICATE_ATTRIBUTE'', 108)]"

definition EVP_R :: "(string \<times> int) list" where
  "EVP_R = [
     (''AES_KEY_SETUP_FAILED'', 143), (''ARIA_KEY_SETUP_FAILED'', 176),
     (''BAD_ALGORITHM_NAME'', 200), (''BAD_DECRYPT'', 100), (''BAD_KEY_LENGTH'', 195),
     (''BUFFER_TOO_SMALL'', 155), (''CACHE_CONSTANTS_FAILED'', 225),
     (''CAMELLIA_KEY_SETUP_FAILED'', 157), (''CANNOT_GET_PARAMETERS'', 197),
     (''CANNOT_SET_PARAMETERS'', 198), (''CIPHER_NOT_GCM_MODE'', 184),
     (''CIPHER_PARAMETER_ERROR'', 122), (''COMMAND_NOT_SUPPORTED'', 147),
     (''CONFLICTING_ALGORITHM_NAME'', 201), (''COPY_ERROR'', 173), (''CTRL_NOT_IMPLEMENTED'', 132),
     (''CTRL_OPERATION_NOT_IMPLEMENTED'', 133), (''DATA_NOT_MULTIPLE_OF_BLOCK_LENGTH'', 138),
     (''DECODE_ERROR'', 114), (''DEFAULT_QUERY_PARSE_ERROR'', 210), (''DIFFERENT_KEY_TYPES'', 101),
     (''DIFFERENT_PARAMETERS'', 153), (''ERROR_LOADING_SECTION'', 165),
     (''EXPECTING_AN_HMAC_KEY'', 174), (''EXPECTING_AN_RSA_KEY'', 127),
     (''EXPECTING_A_DH_KEY'', 128), (''EXPECTING_A_DSA_KEY'', 129), (''EXPECTING_A_ECX_KEY'', 219),
     (''EXPECTING_A_EC_KEY'', 142), (''EXPECTING_A_POLY1305_KEY'', 164),
     (''EXPECTING_A_SIPHASH_KEY'', 175), (''FINAL_ERROR'', 188), (''GENERATE_ERROR'', 214),
     (''GET_RAW_KEY_FAILED'', 182), (''ILLEGAL_SCRYPT_PARAMETERS'', 171),
     (''INACCESSIBLE_DOMAIN_PARAMETERS'', 204), (''INACCESSIBLE_KEY'', 203),
     (''INITIALIZATION_ERROR'', 134), (''INPUT_NOT_INITIALIZED'', 111),
     (''INVALID_CUSTOM_LENGTH'', 185), (''INVALID_DIGEST'', 152), (''INVALID_IV_LENGTH'', 194),
     (''INVALID_KEY'', 163), (''INVALID_KEY_LENGTH'', 130), (''INVALID_LENGTH'', 221),
     (''INVALID_NULL_ALGORITHM'', 218), (''INVALID_OPERATION'', 148),
     (''INVALID_PROVIDER_FUNCTIONS'', 193), (''INVALID_SALT_LENGTH'', 186),
     (''INVALID_SECRET_LENGTH'', 223), (''INVALID_SEED_LENGTH'', 220), (''INVALID_VALUE'', 222),
     (''KEYMGMT_EXPORT_FAILURE'', 205), (''KEY_SETUP_FAILED'', 180),
     (''LOCKING_NOT_SUPPORTED'', 213), (''MEMORY_LIMIT_EXCEEDED'', 172),
     (''MESSAGE_DIGEST_IS_NULL'', 159), (''METHOD_NOT_SUPPORTED'', 144),
     (''MISSING_PARAMETERS'', 103), (''NOT_ABLE_TO_COPY_CTX'', 190),
     (''NOT_XOF_OR_INVALID_LENGTH'', 178), (''NO_CIPHER_SET'', 131), (''NO_DEFAULT_DIGEST'', 158),
     (''NO_DIGEST_SET'', 139), (''NO_IMPORT_FUNCTION'', 206), (''NO_KEYMGMT_AVAILABLE'', 199),
     (''NO_KEYMGMT_PRESENT'', 196), (''NO_KEY_SET'', 154), (''NO_OPERATION_SET'', 149),
     (''NULL_MAC_PKEY_CTX'', 208), (''ONLY_ONESHOT_SUPPORTED'', 177),
     (''OPERATION_NOT_INITIALIZED'', 151), (''OPERATION_NOT_SUPPORTED_FOR_THIS_KEYTYPE'', 150),
     (''OUTPUT_WOULD_OVERFLOW'', 202), (''PARAMETER_TOO_LARGE'', 187),
     (''PARTIALLY_OVERLAPPING'', 162), (''PBKDF2_ERROR'', 181),
     (''PKEY_APPLICATION_ASN1_METHOD_ALREADY_REGISTERED'', 179),
     (''PRIVATE_KEY_DECODE_ERROR'', 145), (''PRIVATE_KEY_ENCODE_ERROR'', 146),
     (''PUBLIC_KEY_NOT_RSA'', 106), (''SETTING_XOF_FAILED'', 227),
     (''SET_DEFAULT_PROPERTY_FAILURE'', 209), (''TOO_MANY_RECORDS'', 183),
     (''UNABLE_TO_ENABLE_LOCKING'', 212), (''UNABLE_TO_GET_MAXIMUM_REQUEST_SIZE'', 215),
     (''UNABLE_TO_GET_RANDOM_STRENGTH'', 216), (''UNABLE_TO_LOCK_CONTEXT'', 211),
     (''UNABLE_TO_SET_CALLBACKS'', 217), (''UNKNOWN_CIPHER'', 160), (''UNKNOWN_DIGEST'', 161),
     (''UNKNOWN_KEY_TYPE'', 207), (''UNKNOWN_OPTION'', 169), (''UNKNOWN_PBE_ALGORITHM'', 121),
     (''UNSUPPORTED_ALGORITHM'', 156), (''UNSUPPORTED_CIPHER'', 107),
     (''UNSUPPORTED_KEYLENGTH'', 123), (''UNSUPPORTED_KEY_DERIVATION_FUNCTION'', 124),
     (''UNSUPPORTED_KEY_SIZE'', 108), (''UNSUPPORTED_KEY_TYPE'', 224),
     (''UNSUPPORTED_NUMBER_OF_ROUNDS'', 135), (''UNSUPPORTED_PRF'', 125),
     (''UNSUPPORTED_PRIVATE_KEY_ALGORITHM'', 118), (''UNSUPPORTED_SALT_TYPE'', 126),
     (''UPDATE_ERROR'', 189), (''WRAP_MODE_NOT_ALLOWED'', 170), (''WRONG_FINAL_BLOCK_LENGTH'', 109),
     (''XTS_DATA_UNIT_IS_TOO_LARGE'', 191), (''XTS_DUPLICATED_KEYS'', 192)]"

definition HTTP_R :: "(string \<times> int) list" where
  "HTTP_R = [
     (''ASN1_LEN_EXCEEDS_MAX_RESP_LEN'', 108), (''CONNECT_FAILURE'', 100),
     (''ERROR_PARSING_ASN1_LENGTH'', 109), (''ERROR_PARSING_CONTENT_LENGTH'', 119),
     (''ERROR_PARSING_URL'', 101), (''ERROR_RECEIVING'', 103), (''ERROR_SENDING'', 102),
     (''FAILED_READING_DATA'', 128), (''HEADER_PARSE_ERROR'', 126),
     (''INCONSISTENT_CONTENT_LENGTH'', 120), (''INVALID_PORT_NUMBER'', 123),
     (''INVALID_URL_PATH'', 125), (''INVALID_URL_SCHEME'', 124), (''MAX_RESP_LEN_EXCEEDED'', 117),
     (''MISSING_ASN1_ENCODING'', 110), (''MISSING_CONTENT_TYPE'', 121),
     (''MISSING_REDIRECT_LOCATION'', 111), (''RECEIVED_ERROR'', 105),
     (''RECEIVED_WRONG_HTTP_VERSION'', 106), (''REDIRECTION_FROM_HTTPS_TO_HTTP'', 112),
     (''REDIRECTION_NOT_ENABLED'', 116), (''RESPONSE_LINE_TOO_LONG'', 113),
     (''RESPONSE_PARSE_ERROR'', 104), (''RETRY_TIMEOUT'', 129),
     (''SERVER_CANCELED_CONNECTION'', 127), (''SOCK_NOT_SUPPORTED'', 122),
     (''STATUS_CODE_UNSUPPORTED'', 114), (''TLS_NOT_ENABLED'', 107),
     (''TOO_MANY_REDIRECTIONS'', 115), (''UNEXPECTED_CONTENT_TYPE'', 118)]"

definition OBJ_R :: "(string \<times> int) list" where
  "OBJ_R = [
     (''OID_EXISTS'', 102), (''UNKNOWN_NID'', 101), (''UNKNOWN_OBJECT_NAME'', 103)]"

definition OCSP_R :: "(string \<times> int) list" where
  "OCSP_R = [
     (''CERTIFICATE_VERIFY_ERROR'', 101), (''DIGEST_ERR'', 102), (''DIGEST_NAME_ERR'', 106),
     (''DIGEST_SIZE_ERR'', 107), (''ERROR_IN_NEXTUPDATE_FIELD'', 122),
     (''ERROR_IN_THISUPDATE_FIELD'', 123), (''MISSING_OCSPSIGNING_USAGE'', 103),
     (''NEXTUPDATE_BEFORE_THISUPDATE'', 124), (''NOT_BASIC_RESPONSE'', 104),
     (''NO_CERTIFICATES_IN_CHAIN'', 105), (''NO_RESPONSE_DATA'', 108), (''NO_REVOKED_TIME'', 109),
     (''NO_SIGNER_KEY'', 130), (''PRIVATE_KEY_DOES_NOT_MATCH_CERTIFICATE'', 110),
     (''REQUEST_NOT_SIGNED'', 128), (''RESPONSE_CONTAINS_NO_REVOCATION_DATA'', 111),
     (''ROOT_CA_NOT_TRUSTED'', 112), (''SIGNATURE_FAILURE'', 117),
     (''SIGNER_CERTIFICATE_NOT_FOUND'', 118), (''STATUS_EXPIRED'', 125),
     (''STATUS_NOT_YET_VALID'', 126), (''STATUS_TOO_OLD'', 127), (''UNKNOWN_MESSAGE_DIGEST'', 119),
     (''UNKNOWN_NID'', 120), (''UNSUPPORTED_REQUESTORNAME_TYPE'', 129)]"

definition PEM_R :: "(string \<times> int) list" where
  "PEM_R = [
     (''BAD_BASE64_DECODE'', 100), (''BAD_DECRYPT'', 101), (''BAD_END_LINE'', 102),
     (''BAD_IV_CHARS'', 103), (''BAD_MAGIC_NUMBER'', 116), (''BAD_PASSWORD_READ'', 104),
     (''BAD_VERSION_NUMBER'', 117), (''BIO_WRITE_FAILURE'', 118), (''CIPHER_IS_NULL'', 127),
     (''ERROR_CONVERTING_PRIVATE_KEY'', 115), (''EXPECTING_DSS_KEY_BLOB'', 131),
     (''EXPECTING_PRIVATE_KEY_BLOB'', 119), (''EXPECTING_PUBLIC_KEY_BLOB'', 120),
     (''EXPECTING_RSA_KEY_BLOB'', 132), (''HEADER_TOO_LONG'', 128), (''INCONSISTENT_HEADER'', 121),
     (''KEYBLOB_HEADER_PARSE_ERROR'', 122), (''KEYBLOB_TOO_SHORT'', 123), (''MISSING_DEK_IV'', 129),
     (''NOT_DEK_INFO'', 105), (''NOT_ENCRYPTED'', 106), (''NOT_PROC_TYPE'', 107),
     (''NO_START_LINE'', 108), (''PROBLEMS_GETTING_PASSWORD'', 109), (''PVK_DATA_TOO_SHORT'', 124),
     (''PVK_TOO_SHORT'', 125), (''READ_KEY'', 111), (''SHORT_HEADER'', 112),
     (''UNEXPECTED_DEK_IV'', 130), (''UNSUPPORTED_CIPHER'', 113), (''UNSUPPORTED_ENCRYPTION'', 114),
     (''UNSUPPORTED_KEY_COMPONENTS'', 126), (''UNSUPPORTED_PUBLIC_KEY_TYPE'', 110)]"

definition PKCS12_R :: "(string \<times> int) list" where
  "PKCS12_R = [
     (''CANT_PACK_STRUCTURE'', 100), (''CONTENT_TYPE_NOT_DATA'', 121), (''DECODE_ERROR'', 101),
     (''ENCODE_ERROR'', 102), (''ENCRYPT_ERROR'', 103),
     (''ERROR_SETTING_ENCRYPTED_DATA_TYPE'', 120), (''INVALID_NULL_ARGUMENT'', 104),
     (''INVALID_NULL_PKCS12_POINTER'', 105), (''INVALID_TYPE'', 112), (''IV_GEN_ERROR'', 106),
     (''KEY_GEN_ERROR'', 107), (''MAC_ABSENT'', 108), (''MAC_GENERATION_ERROR'', 109),
     (''MAC_SETUP_ERROR'', 110), (''MAC_STRING_SET_ERROR'', 111), (''MAC_VERIFY_FAILURE'', 113),
     (''PARSE_ERROR'', 114), (''PKCS12_CIPHERFINAL_ERROR'', 116),
     (''UNKNOWN_DIGEST_ALGORITHM'', 118), (''UNSUPPORTED_PKCS12_MODE'', 119)]"

definition PKCS7_R :: "(string \<times> int) list" where
  "PKCS7_R = [
     (''CERTIFICATE_VERIFY_ERROR'', 117), (''CIPHER_HAS_NO_OBJECT_IDENTIFIER'', 144),
     (''CIPHER_NOT_INITIALIZED'', 116), (''CONTENT_AND_DATA_PRESENT'', 118), (''CTRL_ERROR'', 152),
     (''DECRYPT_ERROR'', 119), (''DIGEST_FAILURE'', 101), (''ENCRYPTION_CTRL_FAILURE'', 149),
     (''ENCRYPTION_NOT_SUPPORTED_FOR_THIS_KEY_TYPE'', 150), (''ERROR_ADDING_RECIPIENT'', 120),
     (''ERROR_SETTING_CIPHER'', 121), (''INVALID_NULL_POINTER'', 143),
     (''INVALID_SIGNED_DATA_TYPE'', 155), (''NO_CONTENT'', 122), (''NO_DEFAULT_DIGEST'', 151),
     (''NO_MATCHING_DIGEST_TYPE_FOUND'', 154), (''NO_RECIPIENT_MATCHES_CERTIFICATE'', 115),
     (''NO_SIGNATURES_ON_DATA'', 123), (''NO_SIGNERS'', 142),
     (''OPERATION_NOT_SUPPORTED_ON_THIS_TYPE'', 104), (''PKCS7_ADD_SIGNATURE_ERROR'', 124),
     (''PKCS7_ADD_SIGNER_ERROR'', 153), (''PKCS7_DATASIGN'', 145),
     (''PRIVATE_KEY_DOES_NOT_MATCH_CERTIFICATE'', 127), (''SIGNATURE_FAILURE'', 105),
     (''SIGNER_CERTIFICATE_NOT_FOUND'', 128), (''SIGNING_CTRL_FAILURE'', 147),
     (''SIGNING_NOT_SUPPORTED_FOR_THIS_KEY_TYPE'', 148), (''SMIME_TEXT_ERROR'', 129),
     (''UNABLE_TO_FIND_CERTIFICATE'', 106), (''UNABLE_TO_FIND_MEM_BIO'', 107),
     (''UNABLE_TO_FIND_MESSAGE_DIGEST'', 108), (''UNKNOWN_DIGEST_TYPE'', 109),
     (''UNKNOWN_OPERATION'', 110), (''UNSUPPORTED_CIPHER_TYPE'', 111),
     (''UNSUPPORTED_CONTENT_TYPE'', 112), (''WRONG_CONTENT_TYPE'', 113), (''WRONG_PKCS7_TYPE'', 114)]"

definition PROV_R :: "(string \<times> int) list" where
  "PROV_R = [
     (''ADDITIONAL_INPUT_TOO_LONG'', 184), (''ALGORITHM_MISMATCH'', 173),
     (''ALREADY_INSTANTIATED'', 185), (''BAD_DECRYPT'', 100), (''BAD_ENCODING'', 141),
     (''BAD_LENGTH'', 142), (''BAD_TLS_CLIENT_VERSION'', 161), (''BN_ERROR'', 160),
     (''CIPHER_OPERATION_FAILED'', 102), (''DERIVATION_FUNCTION_INIT_FAILED'', 205),
     (''DIGEST_NOT_ALLOWED'', 174), (''ENTROPY_SOURCE_STRENGTH_TOO_WEAK'', 186),
     (''ERROR_INSTANTIATING_DRBG'', 188), (''ERROR_RETRIEVING_ENTROPY'', 189),
     (''ERROR_RETRIEVING_NONCE'', 190), (''FAILED_DURING_DERIVATION'', 164),
     (''FAILED_TO_CREATE_LOCK'', 180), (''FAILED_TO_DECRYPT'', 162),
     (''FAILED_TO_GENERATE_KEY'', 121), (''FAILED_TO_GET_PARAMETER'', 103),
     (''FAILED_TO_SET_PARAMETER'', 104), (''FAILED_TO_SIGN'', 175),
     (''FIPS_MODULE_CONDITIONAL_ERROR'', 227), (''FIPS_MODULE_ENTERING_ERROR_STATE'', 224),
     (''FIPS_MODULE_IN_ERROR_STATE'', 225), (''GENERATE_ERROR'', 191),
     (''ILLEGAL_OR_UNSUPPORTED_PADDING_MODE'', 165), (''INDICATOR_INTEGRITY_FAILURE'', 210),
     (''INSUFFICIENT_DRBG_STRENGTH'', 181), (''INVALID_AAD'', 108), (''INVALID_CONFIG_DATA'', 211),
     (''INVALID_CONSTANT_LENGTH'', 157), (''INVALID_CURVE'', 176), (''INVALID_CUSTOM_LENGTH'', 111),
     (''INVALID_DATA'', 115), (''INVALID_DIGEST'', 122), (''INVALID_DIGEST_LENGTH'', 166),
     (''INVALID_DIGEST_SIZE'', 218), (''INVALID_INPUT_LENGTH'', 230),
     (''INVALID_ITERATION_COUNT'', 123), (''INVALID_IV_LENGTH'', 109), (''INVALID_KEY'', 158),
     (''INVALID_KEY_LENGTH'', 105), (''INVALID_MAC'', 151), (''INVALID_MGF1_MD'', 167),
     (''INVALID_MODE'', 125), (''INVALID_OUTPUT_LENGTH'', 217), (''INVALID_PADDING_MODE'', 168),
     (''INVALID_PUBINFO'', 198), (''INVALID_SALT_LENGTH'', 112), (''INVALID_SEED_LENGTH'', 154),
     (''INVALID_SIGNATURE_SIZE'', 179), (''INVALID_STATE'', 212), (''INVALID_TAG'', 110),
     (''INVALID_TAG_LENGTH'', 118), (''INVALID_UKM_LENGTH'', 200), (''INVALID_X931_DIGEST'', 170),
     (''IN_ERROR_STATE'', 192), (''KEY_SETUP_FAILED'', 101), (''KEY_SIZE_TOO_SMALL'', 171),
     (''LENGTH_TOO_LARGE'', 202), (''MISMATCHING_DOMAIN_PARAMETERS'', 203),
     (''MISSING_CEK_ALG'', 144), (''MISSING_CIPHER'', 155), (''MISSING_CONFIG_DATA'', 213),
     (''MISSING_CONSTANT'', 156), (''MISSING_KEY'', 128), (''MISSING_MAC'', 150),
     (''MISSING_MESSAGE_DIGEST'', 129), (''MISSING_OID'', 209), (''MISSING_PASS'', 130),
     (''MISSING_SALT'', 131), (''MISSING_SECRET'', 132), (''MISSING_SEED'', 140),
     (''MISSING_SESSION_ID'', 133), (''MISSING_TYPE'', 134), (''MISSING_XCGHASH'', 135),
     (''MODULE_INTEGRITY_FAILURE'', 214), (''NOT_A_PRIVATE_KEY'', 221), (''NOT_A_PUBLIC_KEY'', 220),
     (''NOT_INSTANTIATED'', 193), (''NOT_PARAMETERS'', 226), (''NOT_SUPPORTED'', 136),
     (''NOT_XOF_OR_INVALID_LENGTH'', 113), (''NO_KEY_SET'', 114), (''NO_PARAMETERS_SET'', 177),
     (''OPERATION_NOT_SUPPORTED_FOR_THIS_KEYTYPE'', 178), (''OUTPUT_BUFFER_TOO_SMALL'', 106),
     (''PARENT_CANNOT_GENERATE_RANDOM_NUMBERS'', 228), (''PARENT_CANNOT_SUPPLY_ENTROPY_SEED'', 187),
     (''PARENT_LOCKING_NOT_ENABLED'', 182), (''PARENT_STRENGTH_TOO_WEAK'', 194),
     (''PATH_MUST_BE_ABSOLUTE'', 219), (''PERSONALISATION_STRING_TOO_LONG'', 195),
     (''PSS_SALTLEN_TOO_SMALL'', 172), (''REQUEST_TOO_LARGE_FOR_DRBG'', 196),
     (''REQUIRE_CTR_MODE_CIPHER'', 206), (''RESEED_ERROR'', 197),
     (''SEARCH_ONLY_SUPPORTED_FOR_DIRECTORIES'', 222),
     (''SEED_SOURCES_MUST_NOT_HAVE_A_PARENT'', 229), (''SELF_TEST_KAT_FAILURE'', 215),
     (''SELF_TEST_POST_FAILURE'', 216), (''TAG_NOT_NEEDED'', 120), (''TAG_NOT_SET'', 119),
     (''TOO_MANY_RECORDS'', 126), (''UNABLE_TO_FIND_CIPHERS'', 207),
     (''UNABLE_TO_GET_PARENT_STRENGTH'', 199), (''UNABLE_TO_GET_PASSPHRASE'', 159),
     (''UNABLE_TO_INITIALISE_CIPHERS'', 208), (''UNABLE_TO_LOAD_SHA256'', 147),
     (''UNABLE_TO_LOCK_PARENT'', 201), (''UNABLE_TO_RESEED'', 204), (''UNSUPPORTED_CEK_ALG'', 145),
     (''UNSUPPORTED_KEY_SIZE'', 153), (''UNSUPPORTED_MAC_TYPE'', 137),
     (''UNSUPPORTED_NUMBER_OF_ROUNDS'', 152), (''URI_AUTHORITY_UNSUPPORTED'', 223),
     (''VALUE_ERROR'', 138), (''WRONG_FINAL_BLOCK_LENGTH'', 107),
     (''WRONG_OUTPUT_BUFFER_SIZE'', 139), (''XOF_DIGESTS_NOT_ALLOWED'', 183),
     (''XTS_DATA_UNIT_IS_TOO_LARGE'', 148), (''XTS_DUPLICATED_KEYS'', 149)]"

definition RAND_R :: "(string \<times> int) list" where
  "RAND_R = [
     (''ADDITIONAL_INPUT_TOO_LONG'', 102), (''ALREADY_INSTANTIATED'', 103),
     (''ARGUMENT_OUT_OF_RANGE'', 105), (''CANNOT_OPEN_FILE'', 121),
     (''DRBG_ALREADY_INITIALIZED'', 129), (''DRBG_NOT_INITIALISED'', 104),
     (''ENTROPY_INPUT_TOO_LONG'', 106), (''ENTROPY_OUT_OF_RANGE'', 124),
     (''ERROR_ENTROPY_POOL_WAS_IGNORED'', 127), (''ERROR_INITIALISING_DRBG'', 107),
     (''ERROR_INSTANTIATING_DRBG'', 108), (''ERROR_RETRIEVING_ADDITIONAL_INPUT'', 109),
     (''ERROR_RETRIEVING_ENTROPY'', 110), (''ERROR_RETRIEVING_NONCE'', 111),
     (''FAILED_TO_CREATE_LOCK'', 126), (''FUNC_NOT_IMPLEMENTED'', 101), (''FWRITE_ERROR'', 123),
     (''GENERATE_ERROR'', 112), (''INSUFFICIENT_DRBG_STRENGTH'', 139), (''INTERNAL_ERROR'', 113),
     (''IN_ERROR_STATE'', 114), (''NOT_A_REGULAR_FILE'', 122), (''NOT_INSTANTIATED'', 115),
     (''NO_DRBG_IMPLEMENTATION_SELECTED'', 128), (''PARENT_LOCKING_NOT_ENABLED'', 130),
     (''PARENT_STRENGTH_TOO_WEAK'', 131), (''PERSONALISATION_STRING_TOO_LONG'', 116),
     (''PREDICTION_RESISTANCE_NOT_SUPPORTED'', 133), (''PRNG_NOT_SEEDED'', 100),
     (''RANDOM_POOL_OVERFLOW'', 125), (''RANDOM_POOL_UNDERFLOW'', 134),
     (''REQUEST_TOO_LARGE_FOR_DRBG'', 117), (''RESEED_ERROR'', 118), (''SELFTEST_FAILURE'', 119),
     (''TOO_LITTLE_NONCE_REQUESTED'', 135), (''TOO_MUCH_NONCE_REQUESTED'', 136),
     (''UNABLE_TO_CREATE_DRBG'', 143), (''UNABLE_TO_FETCH_DRBG'', 144),
     (''UNABLE_TO_GET_PARENT_RESEED_PROP_COUNTER'', 141), (''UNABLE_TO_GET_PARENT_STRENGTH'', 138),
     (''UNABLE_TO_LOCK_PARENT'', 140), (''UNSUPPORTED_DRBG_FLAGS'', 132),
     (''UNSUPPORTED_DRBG_TYPE'', 120)]"

definition RSA_R :: "(string \<times> int) list" where
  "RSA_R = [
     (''ALGORITHM_MISMATCH'', 100), (''BAD_E_VALUE'', 101), (''BAD_FIXED_HEADER_DECRYPT'', 102),
     (''BAD_PAD_BYTE_COUNT'', 103), (''BAD_SIGNATURE'', 104), (''BLOCK_TYPE_IS_NOT_01'', 106),
     (''BLOCK_TYPE_IS_NOT_02'', 107), (''DATA_GREATER_THAN_MOD_LEN'', 108),
     (''DATA_TOO_LARGE'', 109), (''DATA_TOO_LARGE_FOR_KEY_SIZE'', 110),
     (''DATA_TOO_LARGE_FOR_MODULUS'', 132), (''DATA_TOO_SMALL'', 111),
     (''DATA_TOO_SMALL_FOR_KEY_SIZE'', 122), (''DIGEST_DOES_NOT_MATCH'', 158),
     (''DIGEST_NOT_ALLOWED'', 145), (''DIGEST_TOO_BIG_FOR_RSA_KEY'', 112),
     (''DMP1_NOT_CONGRUENT_TO_D'', 124), (''DMQ1_NOT_CONGRUENT_TO_D'', 125),
     (''D_E_NOT_CONGRUENT_TO_1'', 123), (''FIRST_OCTET_INVALID'', 133),
     (''ILLEGAL_OR_UNSUPPORTED_PADDING_MODE'', 144), (''INVALID_DIGEST'', 157),
     (''INVALID_DIGEST_LENGTH'', 143), (''INVALID_HEADER'', 137), (''INVALID_KEYPAIR'', 171),
     (''INVALID_KEY_LENGTH'', 173), (''INVALID_LABEL'', 160), (''INVALID_LENGTH'', 181),
     (''INVALID_MESSAGE_LENGTH'', 131), (''INVALID_MGF1_MD'', 156), (''INVALID_MODULUS'', 174),
     (''INVALID_MULTI_PRIME_KEY'', 167), (''INVALID_OAEP_PARAMETERS'', 161),
     (''INVALID_PADDING'', 138), (''INVALID_PADDING_MODE'', 141), (''INVALID_PSS_PARAMETERS'', 149),
     (''INVALID_PSS_SALTLEN'', 146), (''INVALID_REQUEST'', 175), (''INVALID_SALT_LENGTH'', 150),
     (''INVALID_STRENGTH'', 176), (''INVALID_TRAILER'', 139), (''INVALID_X931_DIGEST'', 142),
     (''IQMP_NOT_INVERSE_OF_Q'', 126), (''KEY_PRIME_NUM_INVALID'', 165),
     (''KEY_SIZE_TOO_SMALL'', 120), (''LAST_OCTET_INVALID'', 134),
     (''MGF1_DIGEST_NOT_ALLOWED'', 152), (''MISSING_PRIVATE_KEY'', 179),
     (''MODULUS_TOO_LARGE'', 105), (''MP_COEFFICIENT_NOT_INVERSE_OF_R'', 168),
     (''MP_EXPONENT_NOT_CONGRUENT_TO_D'', 169), (''MP_R_NOT_PRIME'', 170),
     (''NO_PUBLIC_EXPONENT'', 140), (''NULL_BEFORE_BLOCK_MISSING'', 113),
     (''N_DOES_NOT_EQUAL_PRODUCT_OF_PRIMES'', 172), (''N_DOES_NOT_EQUAL_P_Q'', 127),
     (''OAEP_DECODING_ERROR'', 121), (''OPERATION_NOT_SUPPORTED_FOR_THIS_KEYTYPE'', 148),
     (''PADDING_CHECK_FAILED'', 114), (''PAIRWISE_TEST_FAILURE'', 177),
     (''PKCS_DECODING_ERROR'', 159), (''PSS_SALTLEN_TOO_SMALL'', 164),
     (''PUB_EXPONENT_OUT_OF_RANGE'', 178), (''P_NOT_PRIME'', 128), (''Q_NOT_PRIME'', 129),
     (''RANDOMNESS_SOURCE_STRENGTH_INSUFFICIENT'', 180), (''RSA_OPERATIONS_NOT_SUPPORTED'', 130),
     (''SLEN_CHECK_FAILED'', 136), (''SLEN_RECOVERY_FAILED'', 135),
     (''SSLV3_ROLLBACK_ATTACK'', 115),
     (''THE_ASN1_OBJECT_IDENTIFIER_IS_NOT_KNOWN_FOR_THIS_MD'', 116),
     (''UNKNOWN_ALGORITHM_TYPE'', 117), (''UNKNOWN_DIGEST'', 166), (''UNKNOWN_MASK_DIGEST'', 151),
     (''UNKNOWN_PADDING_TYPE'', 118), (''UNSUPPORTED_ENCRYPTION_TYPE'', 162),
     (''UNSUPPORTED_LABEL_SOURCE'', 163), (''UNSUPPORTED_MASK_ALGORITHM'', 153),
     (''UNSUPPORTED_MASK_PARAMETER'', 154), (''UNSUPPORTED_SIGNATURE_TYPE'', 155),
     (''VALUE_MISSING'', 147), (''WRONG_SIGNATURE_LENGTH'', 119)]"

definition SSL_R_1 :: "(string \<times> int) list" where
  "SSL_R_1 = [
     (''APPLICATION_DATA_AFTER_CLOSE_NOTIFY'', 291), (''APP_DATA_IN_HANDSHAKE'', 100),
     (''ATTEMPT_TO_REUSE_SESSION_IN_DIFFERENT_CONTEXT'', 272),
     (''AT_LEAST_TLS_1_2_NEEDED_IN_SUITEB_MODE'', 158), (''BAD_CHANGE_CIPHER_SPEC'', 103),
     (''BAD_CIPHER'', 186), (''BAD_DATA'', 390), (''BAD_DATA_RETURNED_BY_CALLBACK'', 106),
     (''BAD_DECOMPRESSION'', 107), (''BAD_DH_VALUE'', 102), (''BAD_DIGEST_LENGTH'', 111),
     (''BAD_EARLY_DATA'', 233), (''BAD_ECC_CERT'', 304), (''BAD_ECPOINT'', 306),
     (''BAD_EXTENSION'', 110), (''BAD_HANDSHAKE_LENGTH'', 332), (''BAD_HANDSHAKE_STATE'', 236),
     (''BAD_HELLO_REQUEST'', 105), (''BAD_HRR_VERSION'', 263), (''BAD_KEY_SHARE'', 108),
     (''BAD_KEY_UPDATE'', 122), (''BAD_LEGACY_VERSION'', 292), (''BAD_LENGTH'', 271),
     (''BAD_PACKET'', 240), (''BAD_PACKET_LENGTH'', 115), (''BAD_PROTOCOL_VERSION_NUMBER'', 116),
     (''BAD_PSK'', 219), (''BAD_PSK_IDENTITY'', 114), (''BAD_RECORD_TYPE'', 443),
     (''BAD_RSA_ENCRYPT'', 119), (''BAD_SIGNATURE'', 123), (''BAD_SRP_A_LENGTH'', 347),
     (''BAD_SRP_PARAMETERS'', 371), (''BAD_SRTP_MKI_VALUE'', 352),
     (''BAD_SRTP_PROTECTION_PROFILE_LIST'', 353), (''BAD_SSL_FILETYPE'', 124), (''BAD_VALUE'', 384),
     (''BAD_WRITE_RETRY'', 127), (''BINDER_DOES_NOT_VERIFY'', 253), (''BIO_NOT_SET'', 128),
     (''BLOCK_CIPHER_PAD_IS_WRONG'', 129), (''BN_LIB'', 130), (''CALLBACK_FAILED'', 234),
     (''CANNOT_CHANGE_CIPHER'', 109), (''CANNOT_GET_GROUP_NAME'', 299),
     (''CA_DN_LENGTH_MISMATCH'', 131), (''CA_KEY_TOO_SMALL'', 397), (''CA_MD_TOO_WEAK'', 398),
     (''CCS_RECEIVED_EARLY'', 133), (''CERTIFICATE_VERIFY_FAILED'', 134), (''CERT_CB_ERROR'', 377),
     (''CERT_LENGTH_MISMATCH'', 135), (''CIPHERSUITE_DIGEST_HAS_CHANGED'', 218),
     (''CIPHER_CODE_WRONG_LENGTH'', 137), (''CLIENTHELLO_TLSEXT'', 226),
     (''COMPRESSED_LENGTH_TOO_LONG'', 140), (''COMPRESSION_DISABLED'', 343),
     (''COMPRESSION_FAILURE'', 141), (''COMPRESSION_ID_NOT_WITHIN_PRIVATE_RANGE'', 307),
     (''COMPRESSION_LIBRARY_ERROR'', 142), (''CONNECTION_TYPE_NOT_SET'', 144),
     (''CONTEXT_NOT_DANE_ENABLED'', 167), (''COOKIE_GEN_CALLBACK_FAILURE'', 400),
     (''COOKIE_MISMATCH'', 308), (''COPY_PARAMETERS_FAILED'', 296),
     (''CUSTOM_EXT_HANDLER_ALREADY_INSTALLED'', 206), (''DANE_ALREADY_ENABLED'', 172),
     (''DANE_CANNOT_OVERRIDE_MTYPE_FULL'', 173), (''DANE_NOT_ENABLED'', 175),
     (''DANE_TLSA_BAD_CERTIFICATE'', 180), (''DANE_TLSA_BAD_CERTIFICATE_USAGE'', 184),
     (''DANE_TLSA_BAD_DATA_LENGTH'', 189), (''DANE_TLSA_BAD_DIGEST_LENGTH'', 192),
     (''DANE_TLSA_BAD_MATCHING_TYPE'', 200), (''DANE_TLSA_BAD_PUBLIC_KEY'', 201),
     (''DANE_TLSA_BAD_SELECTOR'', 202), (''DANE_TLSA_NULL_DATA'', 203),
     (''DATA_BETWEEN_CCS_AND_FINISHED'', 145), (''DATA_LENGTH_TOO_LONG'', 146),
     (''DECRYPTION_FAILED'', 147), (''DECRYPTION_FAILED_OR_BAD_RECORD_MAC'', 281),
     (''DH_KEY_TOO_SMALL'', 394), (''DH_PUBLIC_VALUE_LENGTH_IS_WRONG'', 148),
     (''DIGEST_CHECK_FAILED'', 149), (''DTLS_MESSAGE_TOO_BIG'', 334),
     (''DUPLICATE_COMPRESSION_ID'', 309), (''ECC_CERT_NOT_FOR_SIGNING'', 318),
     (''ECDH_REQUIRED_FOR_SUITEB_MODE'', 374), (''EE_KEY_TOO_SMALL'', 399),
     (''EMPTY_SRTP_PROTECTION_PROFILE_LIST'', 354), (''ENCRYPTED_LENGTH_TOO_LONG'', 150),
     (''ERROR_IN_RECEIVED_CIPHER_LIST'', 151), (''ERROR_SETTING_TLSA_BASE_DOMAIN'', 204),
     (''EXCEEDS_MAX_FRAGMENT_SIZE'', 194), (''EXCESSIVE_MESSAGE_SIZE'', 152),
     (''EXTENSION_NOT_RECEIVED'', 279), (''EXTRA_DATA_IN_MESSAGE'', 153),
     (''EXT_LENGTH_MISMATCH'', 163), (''FAILED_TO_INIT_ASYNC'', 405),
     (''FRAGMENTED_CLIENT_HELLO'', 401), (''GOT_A_FIN_BEFORE_A_CCS'', 154),
     (''HTTPS_PROXY_REQUEST'', 155), (''HTTP_REQUEST'', 156), (''ILLEGAL_POINT_COMPRESSION'', 162),
     (''ILLEGAL_SUITEB_DIGEST'', 380), (''INAPPROPRIATE_FALLBACK'', 373),
     (''INCONSISTENT_COMPRESSION'', 340), (''INCONSISTENT_EARLY_DATA_ALPN'', 222),
     (''INCONSISTENT_EARLY_DATA_SNI'', 231), (''INCONSISTENT_EXTMS'', 104),
     (''INSUFFICIENT_SECURITY'', 241), (''INVALID_ALERT'', 205), (''INVALID_CCS_MESSAGE'', 260),
     (''INVALID_CERTIFICATE_OR_ALG'', 238), (''INVALID_COMMAND'', 280),
     (''INVALID_COMPRESSION_ALGORITHM'', 341), (''INVALID_CONFIG'', 283),
     (''INVALID_CONFIGURATION_NAME'', 113), (''INVALID_CONTEXT'', 282),
     (''INVALID_CT_VALIDATION_TYPE'', 212), (''INVALID_KEY_UPDATE_TYPE'', 120),
     (''INVALID_MAX_EARLY_DATA'', 174), (''INVALID_NULL_CMD_NAME'', 385),
     (''INVALID_SEQUENCE_NUMBER'', 402), (''INVALID_SERVERINFO_DATA'', 388),
     (''INVALID_SESSION_ID'', 999), (''INVALID_SRP_USERNAME'', 357),
     (''INVALID_STATUS_RESPONSE'', 328), (''INVALID_TICKET_KEYS_LENGTH'', 325),
     (''LENGTH_MISMATCH'', 159), (''LENGTH_TOO_LONG'', 404), (''LENGTH_TOO_SHORT'', 160),
     (''LIBRARY_BUG'', 274), (''LIBRARY_HAS_NO_CIPHERS'', 161), (''MISSING_DSA_SIGNING_CERT'', 165),
     (''MISSING_ECDSA_SIGNING_CERT'', 381), (''MISSING_FATAL'', 256), (''MISSING_PARAMETERS'', 290),
     (''MISSING_PSK_KEX_MODES_EXTENSION'', 310),
     (''MISSING_QUIC_TRANSPORT_PARAMETERS_EXTENSION'', 801), (''MISSING_RSA_CERTIFICATE'', 168),
     (''MISSING_RSA_ENCRYPTING_CERT'', 169), (''MISSING_RSA_SIGNING_CERT'', 170),
     (''MISSING_SIGALGS_EXTENSION'', 112), (''MISSING_SIGNING_CERT'', 221),
     (''MISSING_SRP_PARAM'', 358), (''MISSING_SUPPORTED_GROUPS_EXTENSION'', 209),
     (''MISSING_TMP_DH_KEY'', 171), (''MISSING_TMP_ECDH_KEY'', 311),
     (''MIXED_HANDSHAKE_AND_NON_HANDSHAKE_DATA'', 293)]"

definition SSL_R_2 :: "(string \<times> int) list" where
  "SSL_R_2 = [
     (''NOT_ON_RECORD_BOUNDARY'', 182), (''NOT_REPLACING_CERTIFICATE'', 289), (''NOT_SERVER'', 284),
     (''NO_APPLICATION_PROTOCOL'', 235), (''NO_CERTIFICATES_RETURNED'', 176),
     (''NO_CERTIFICATE_ASSIGNED'', 177), (''NO_CERTIFICATE_SET'', 179),
     (''NO_CHANGE_FOLLOWING_HRR'', 214), (''NO_CIPHERS_AVAILABLE'', 181),
     (''NO_CIPHERS_SPECIFIED'', 183), (''NO_CIPHER_MATCH'', 185), (''NO_CLIENT_CERT_METHOD'', 331),
     (''NO_COMPRESSION_SPECIFIED'', 187), (''NO_COOKIE_CALLBACK_SET'', 287),
     (''NO_GOST_CERTIFICATE_SENT_BY_PEER'', 330), (''NO_METHOD_SPECIFIED'', 188),
     (''NO_PEM_EXTENSIONS'', 389), (''NO_PRIVATE_KEY_ASSIGNED'', 190),
     (''NO_PROTOCOLS_AVAILABLE'', 191), (''NO_RENEGOTIATION'', 339), (''NO_REQUIRED_DIGEST'', 324),
     (''NO_SHARED_CIPHER'', 193), (''NO_SHARED_GROUPS'', 410),
     (''NO_SHARED_SIGNATURE_ALGORITHMS'', 376), (''NO_SRTP_PROFILES'', 359),
     (''NO_SUITABLE_DIGEST_ALGORITHM'', 297), (''NO_SUITABLE_GROUPS'', 295),
     (''NO_SUITABLE_KEY_SHARE'', 101), (''NO_SUITABLE_SIGNATURE_ALGORITHM'', 118),
     (''NO_VALID_SCTS'', 216), (''NO_VERIFY_COOKIE_CALLBACK'', 403), (''NULL_SSL_CTX'', 195),
     (''NULL_SSL_METHOD_PASSED'', 196), (''OCSP_CALLBACK_FAILURE'', 305),
     (''OLD_SESSION_CIPHER_NOT_RETURNED'', 197),
     (''OLD_SESSION_COMPRESSION_ALGORITHM_NOT_RETURNED'', 344), (''OVERFLOW_ERROR'', 237),
     (''PACKET_LENGTH_TOO_LONG'', 198), (''PARSE_TLSEXT'', 227), (''PATH_TOO_LONG'', 270),
     (''PEER_DID_NOT_RETURN_A_CERTIFICATE'', 199), (''PEM_NAME_BAD_PREFIX'', 391),
     (''PEM_NAME_TOO_SHORT'', 392), (''PIPELINE_FAILURE'', 406),
     (''POST_HANDSHAKE_AUTH_ENCODING_ERR'', 278), (''PRIVATE_KEY_MISMATCH'', 288),
     (''PROTOCOL_IS_SHUTDOWN'', 207), (''PSK_IDENTITY_NOT_FOUND'', 223),
     (''PSK_NO_CLIENT_CB'', 224), (''PSK_NO_SERVER_CB'', 225), (''READ_BIO_NOT_SET'', 211),
     (''READ_TIMEOUT_EXPIRED'', 312), (''RECORD_LENGTH_MISMATCH'', 213),
     (''RECORD_TOO_SMALL'', 298), (''RENEGOTIATE_EXT_TOO_LONG'', 335),
     (''RENEGOTIATION_ENCODING_ERR'', 336), (''RENEGOTIATION_MISMATCH'', 337),
     (''REQUEST_PENDING'', 285), (''REQUEST_SENT'', 286), (''REQUIRED_CIPHER_MISSING'', 215),
     (''REQUIRED_COMPRESSION_ALGORITHM_MISSING'', 342), (''SCSV_RECEIVED_WHEN_RENEGOTIATING'', 345),
     (''SCT_VERIFICATION_FAILED'', 208), (''SERVERHELLO_TLSEXT'', 275),
     (''SESSION_ID_CONTEXT_UNINITIALIZED'', 277), (''SHUTDOWN_WHILE_IN_INIT'', 407),
     (''SIGNATURE_ALGORITHMS_ERROR'', 360), (''SIGNATURE_FOR_NON_SIGNING_CERTIFICATE'', 220),
     (''SRP_A_CALC'', 361), (''SRTP_COULD_NOT_ALLOCATE_PROFILES'', 362),
     (''SRTP_PROTECTION_PROFILE_LIST_TOO_LONG'', 363), (''SRTP_UNKNOWN_PROTECTION_PROFILE'', 364),
     (''SSL3_EXT_INVALID_MAX_FRAGMENT_LENGTH'', 232), (''SSL3_EXT_INVALID_SERVERNAME'', 319),
     (''SSL3_EXT_INVALID_SERVERNAME_TYPE'', 320), (''SSL3_SESSION_ID_TOO_LONG'', 300),
     (''SSLV3_ALERT_BAD_CERTIFICATE'', 1042), (''SSLV3_ALERT_BAD_RECORD_MAC'', 1020),
     (''SSLV3_ALERT_CERTIFICATE_EXPIRED'', 1045), (''SSLV3_ALERT_CERTIFICATE_REVOKED'', 1044),
     (''SSLV3_ALERT_CERTIFICATE_UNKNOWN'', 1046), (''SSLV3_ALERT_DECOMPRESSION_FAILURE'', 1030),
     (''SSLV3_ALERT_HANDSHAKE_FAILURE'', 1040), (''SSLV3_ALERT_ILLEGAL_PARAMETER'', 1047),
     (''SSLV3_ALERT_NO_CERTIFICATE'', 1041), (''SSLV3_ALERT_UNEXPECTED_MESSAGE'', 1010),
     (''SSLV3_ALERT_UNSUPPORTED_CERTIFICATE'', 1043), (''SSL_COMMAND_SECTION_EMPTY'', 117),
     (''SSL_COMMAND_SECTION_NOT_FOUND'', 125), (''SSL_CTX_HAS_NO_DEFAULT_SSL_VERSION'', 228),
     (''SSL_HANDSHAKE_FAILURE'', 229), (''SSL_LIBRARY_HAS_NO_CIPHERS'', 230),
     (''SSL_NEGATIVE_LENGTH'', 372), (''SSL_SECTION_EMPTY'', 126), (''SSL_SECTION_NOT_FOUND'', 136),
     (''SSL_SESSION_ID_CALLBACK_FAILED'', 301), (''SSL_SESSION_ID_CONFLICT'', 302),
     (''SSL_SESSION_ID_CONTEXT_TOO_LONG'', 273), (''SSL_SESSION_ID_HAS_BAD_LENGTH'', 303),
     (''SSL_SESSION_ID_TOO_LONG'', 408), (''SSL_SESSION_VERSION_MISMATCH'', 210),
     (''STILL_IN_INIT'', 121), (''TLSV13_ALERT_CERTIFICATE_REQUIRED'', 1116),
     (''TLSV13_ALERT_MISSING_EXTENSION'', 1109), (''TLSV1_ALERT_ACCESS_DENIED'', 1049),
     (''TLSV1_ALERT_DECODE_ERROR'', 1050), (''TLSV1_ALERT_DECRYPTION_FAILED'', 1021),
     (''TLSV1_ALERT_DECRYPT_ERROR'', 1051), (''TLSV1_ALERT_EXPORT_RESTRICTION'', 1060),
     (''TLSV1_ALERT_INAPPROPRIATE_FALLBACK'', 1086), (''TLSV1_ALERT_INSUFFICIENT_SECURITY'', 1071),
     (''TLSV1_ALERT_INTERNAL_ERROR'', 1080), (''TLSV1_ALERT_NO_RENEGOTIATION'', 1100),
     (''TLSV1_ALERT_PROTOCOL_VERSION'', 1070), (''TLSV1_ALERT_RECORD_OVERFLOW'', 1022),
     (''TLSV1_ALERT_UNKNOWN_CA'', 1048), (''TLSV1_ALERT_USER_CANCELLED'', 1090),
     (''TLSV1_BAD_CERTIFICATE_HASH_VALUE'', 1114),
     (''TLSV1_BAD_CERTIFICATE_STATUS_RESPONSE'', 1113), (''TLSV1_CERTIFICATE_UNOBTAINABLE'', 1111),
     (''TLSV1_UNRECOGNIZED_NAME'', 1112), (''TLSV1_UNSUPPORTED_EXTENSION'', 1110),
     (''TLS_ILLEGAL_EXPORTER_LABEL'', 367), (''TLS_INVALID_ECPOINTFORMAT_LIST'', 157),
     (''TOO_MANY_KEY_UPDATES'', 132), (''TOO_MANY_WARN_ALERTS'', 409),
     (''TOO_MUCH_EARLY_DATA'', 164), (''UNABLE_TO_FIND_ECDH_PARAMETERS'', 314),
     (''UNABLE_TO_FIND_PUBLIC_KEY_PARAMETERS'', 239), (''UNABLE_TO_LOAD_SSL3_MD5_ROUTINES'', 242),
     (''UNABLE_TO_LOAD_SSL3_SHA1_ROUTINES'', 243), (''UNEXPECTED_CCS_MESSAGE'', 262),
     (''UNEXPECTED_END_OF_EARLY_DATA'', 178), (''UNEXPECTED_EOF_WHILE_READING'', 294),
     (''UNEXPECTED_MESSAGE'', 244), (''UNEXPECTED_RECORD'', 245), (''UNINITIALIZED'', 276),
     (''UNKNOWN_ALERT_TYPE'', 246), (''UNKNOWN_CERTIFICATE_TYPE'', 247),
     (''UNKNOWN_CIPHER_RETURNED'', 248), (''UNKNOWN_CIPHER_TYPE'', 249),
     (''UNKNOWN_CMD_NAME'', 386), (''UNKNOWN_COMMAND'', 139), (''UNKNOWN_DIGEST'', 368),
     (''UNKNOWN_KEY_EXCHANGE_TYPE'', 250), (''UNKNOWN_PKEY_TYPE'', 251),
     (''UNKNOWN_PROTOCOL'', 252), (''UNKNOWN_SSL_VERSION'', 254), (''UNKNOWN_STATE'', 255),
     (''UNSAFE_LEGACY_RENEGOTIATION_DISABLED'', 338)]"

definition SSL_R_3 :: "(string \<times> int) list" where
  "SSL_R_3 = [
     (''UNSOLICITED_EXTENSION'', 217), (''UNSUPPORTED_COMPRESSION_ALGORITHM'', 257),
     (''UNSUPPORTED_ELLIPTIC_CURVE'', 315), (''UNSUPPORTED_PROTOCOL'', 258),
     (''UNSUPPORTED_SSL_VERSION'', 259), (''UNSUPPORTED_STATUS_TYPE'', 329),
     (''USE_SRTP_NOT_NEGOTIATED'', 369), (''VERSION_TOO_HIGH'', 166), (''VERSION_TOO_LOW'', 396),
     (''WRONG_CERTIFICATE_TYPE'', 383), (''WRONG_CIPHER_RETURNED'', 261), (''WRONG_CURVE'', 378),
     (''WRONG_ENCRYPTION_LEVEL_RECEIVED'', 800), (''WRONG_SIGNATURE_LENGTH'', 264),
     (''WRONG_SIGNATURE_SIZE'', 265), (''WRONG_SIGNATURE_TYPE'', 370), (''WRONG_SSL_VERSION'', 266),
     (''WRONG_VERSION_NUMBER'', 267), (''X509_LIB'', 268),
     (''X509_VERIFICATION_SETUP_PROBLEMS'', 269)]"

definition OSSL_STORE_R :: "(string \<times> int) list" where
  "OSSL_STORE_R = [
     (''AMBIGUOUS_CONTENT_TYPE'', 107), (''BAD_PASSWORD_READ'', 115),
     (''ERROR_VERIFYING_PKCS12_MAC'', 113), (''FINGERPRINT_SIZE_DOES_NOT_MATCH_DIGEST'', 121),
     (''INVALID_SCHEME'', 106), (''IS_NOT_A'', 112), (''LOADER_INCOMPLETE'', 116),
     (''LOADING_STARTED'', 117), (''NOT_A_CERTIFICATE'', 100), (''NOT_A_CRL'', 101),
     (''NOT_A_NAME'', 103), (''NOT_A_PRIVATE_KEY'', 102), (''NOT_A_PUBLIC_KEY'', 122),
     (''NOT_PARAMETERS'', 104), (''NO_LOADERS_FOUND'', 123), (''PASSPHRASE_CALLBACK_ERROR'', 114),
     (''PATH_MUST_BE_ABSOLUTE'', 108), (''SEARCH_ONLY_SUPPORTED_FOR_DIRECTORIES'', 119),
     (''UI_PROCESS_INTERRUPTED_OR_CANCELLED'', 109), (''UNREGISTERED_SCHEME'', 105),
     (''UNSUPPORTED_CONTENT_TYPE'', 110), (''UNSUPPORTED_OPERATION'', 118),
     (''UNSUPPORTED_SEARCH_TYPE'', 120), (''URI_AUTHORITY_UNSUPPORTED'', 111)]"

definition TS_R :: "(string \<times> int) list" where
  "TS_R = [
     (''BAD_PKCS7_TYPE'', 132), (''BAD_TYPE'', 133), (''CANNOT_LOAD_CERT'', 137),
     (''CANNOT_LOAD_KEY'', 138), (''CERTIFICATE_VERIFY_ERROR'', 100),
     (''COULD_NOT_SET_ENGINE'', 127), (''COULD_NOT_SET_TIME'', 115), (''DETACHED_CONTENT'', 134),
     (''ESS_ADD_SIGNING_CERT_ERROR'', 116), (''ESS_ADD_SIGNING_CERT_V2_ERROR'', 139),
     (''ESS_SIGNING_CERTIFICATE_ERROR'', 101), (''INVALID_NULL_POINTER'', 102),
     (''INVALID_SIGNER_CERTIFICATE_PURPOSE'', 117), (''MESSAGE_IMPRINT_MISMATCH'', 103),
     (''NONCE_MISMATCH'', 104), (''NONCE_NOT_RETURNED'', 105), (''NO_CONTENT'', 106),
     (''NO_TIME_STAMP_TOKEN'', 107), (''PKCS7_ADD_SIGNATURE_ERROR'', 118),
     (''PKCS7_ADD_SIGNED_ATTR_ERROR'', 119), (''PKCS7_TO_TS_TST_INFO_FAILED'', 129),
     (''POLICY_MISMATCH'', 108), (''PRIVATE_KEY_DOES_NOT_MATCH_CERTIFICATE'', 120),
     (''RESPONSE_SETUP_ERROR'', 121), (''SIGNATURE_FAILURE'', 109),
     (''THERE_MUST_BE_ONE_SIGNER'', 110), (''TIME_SYSCALL_ERROR'', 122),
     (''TOKEN_NOT_PRESENT'', 130), (''TOKEN_PRESENT'', 131), (''TSA_NAME_MISMATCH'', 111),
     (''TSA_UNTRUSTED'', 112), (''TST_INFO_SETUP_ERROR'', 123), (''TS_DATASIGN'', 124),
     (''UNACCEPTABLE_POLICY'', 125), (''UNSUPPORTED_MD_ALGORITHM'', 126),
     (''UNSUPPORTED_VERSION'', 113), (''VAR_BAD_VALUE'', 135), (''VAR_LOOKUP_FAILURE'', 136),
     (''WRONG_CONTENT_TYPE'', 114)]"

definition UI_R :: "(string \<times> int) list" where
  "UI_R = [
     (''COMMON_OK_AND_CANCEL_CHARACTERS'', 104), (''INDEX_TOO_LARGE'', 102),
     (''INDEX_TOO_SMALL'', 103), (''NO_RESULT_BUFFER'', 105), (''PROCESSING_ERROR'', 107),
     (''RESULT_TOO_LARGE'', 100), (''RESULT_TOO_SMALL'', 101), (''SYSASSIGN_ERROR'', 109),
     (''SYSDASSGN_ERROR'', 110), (''SYSQIOW_ERROR'', 111), (''UNKNOWN_CONTROL_COMMAND'', 106),
     (''UNKNOWN_TTYGET_ERRNO_VALUE'', 108), (''USER_DATA_DUPLICATION_UNSUPPORTED'', 112)]"

definition X509_R :: "(string \<times> int) list" where
  "X509_R = [
     (''AKID_MISMATCH'', 110), (''BAD_SELECTOR'', 133), (''BAD_X509_FILETYPE'', 100),
     (''BASE64_DECODE_ERROR'', 118), (''CANT_CHECK_DH_KEY'', 114),
     (''CERTIFICATE_VERIFICATION_FAILED'', 139), (''CERT_ALREADY_IN_HASH_TABLE'', 101),
     (''CRL_ALREADY_DELTA'', 127), (''CRL_VERIFY_FAILURE'', 131),
     (''ERROR_GETTING_MD_BY_NID'', 141), (''ERROR_USING_SIGINF_SET'', 142), (''IDP_MISMATCH'', 128),
     (''INVALID_ATTRIBUTES'', 138), (''INVALID_DIRECTORY'', 113), (''INVALID_DISTPOINT'', 143),
     (''INVALID_FIELD_NAME'', 119), (''INVALID_TRUST'', 123), (''ISSUER_MISMATCH'', 129),
     (''KEY_TYPE_MISMATCH'', 115), (''KEY_VALUES_MISMATCH'', 116), (''LOADING_CERT_DIR'', 103),
     (''LOADING_DEFAULTS'', 104), (''METHOD_NOT_SUPPORTED'', 124), (''NAME_TOO_LONG'', 134),
     (''NEWER_CRL_NOT_NEWER'', 132), (''NO_CERTIFICATE_FOUND'', 135),
     (''NO_CERTIFICATE_OR_CRL_FOUND'', 136), (''NO_CERT_SET_FOR_US_TO_VERIFY'', 105),
     (''NO_CRL_FOUND'', 137), (''NO_CRL_NUMBER'', 130), (''PUBLIC_KEY_DECODE_ERROR'', 125),
     (''PUBLIC_KEY_ENCODE_ERROR'', 126), (''SHOULD_RETRY'', 106),
     (''UNABLE_TO_FIND_PARAMETERS_IN_CHAIN'', 107), (''UNABLE_TO_GET_CERTS_PUBLIC_KEY'', 108),
     (''UNKNOWN_KEY_TYPE'', 117), (''UNKNOWN_NID'', 109), (''UNKNOWN_PURPOSE_ID'', 121),
     (''UNKNOWN_SIGID_ALGS'', 144), (''UNKNOWN_TRUST_ID'', 120), (''UNSUPPORTED_ALGORITHM'', 111),
     (''WRONG_LOOKUP_TYPE'', 112), (''WRONG_TYPE'', 122)]"

definition X509V3_R :: "(string \<times> int) list" where
  "X509V3_R = [
     (''BAD_IP_ADDRESS'', 118), (''BAD_OBJECT'', 119), (''BN_DEC2BN_ERROR'', 100),
     (''BN_TO_ASN1_INTEGER_ERROR'', 101), (''DIRNAME_ERROR'', 149),
     (''DISTPOINT_ALREADY_SET'', 160), (''DUPLICATE_ZONE_ID'', 133), (''EMPTY_KEY_USAGE'', 169),
     (''ERROR_CONVERTING_ZONE'', 131), (''ERROR_CREATING_EXTENSION'', 144),
     (''ERROR_IN_EXTENSION'', 128), (''EXPECTED_A_SECTION_NAME'', 137), (''EXTENSION_EXISTS'', 145),
     (''EXTENSION_NAME_ERROR'', 115), (''EXTENSION_NOT_FOUND'', 102),
     (''EXTENSION_SETTING_NOT_SUPPORTED'', 103), (''EXTENSION_VALUE_ERROR'', 116),
     (''ILLEGAL_EMPTY_EXTENSION'', 151), (''INCORRECT_POLICY_SYNTAX_TAG'', 152),
     (''INVALID_ASNUMBER'', 162), (''INVALID_ASRANGE'', 163), (''INVALID_BOOLEAN_STRING'', 104),
     (''INVALID_CERTIFICATE'', 158), (''INVALID_EMPTY_NAME'', 108),
     (''INVALID_EXTENSION_STRING'', 105), (''INVALID_INHERITANCE'', 165),
     (''INVALID_IPADDRESS'', 166), (''INVALID_MULTIPLE_RDNS'', 161), (''INVALID_NAME'', 106),
     (''INVALID_NULL_ARGUMENT'', 107), (''INVALID_NULL_VALUE'', 109), (''INVALID_NUMBER'', 140),
     (''INVALID_NUMBERS'', 141), (''INVALID_OBJECT_IDENTIFIER'', 110), (''INVALID_OPTION'', 138),
     (''INVALID_POLICY_IDENTIFIER'', 134), (''INVALID_PROXY_POLICY_SETTING'', 153),
     (''INVALID_PURPOSE'', 146), (''INVALID_SAFI'', 164), (''INVALID_SECTION'', 135),
     (''INVALID_SYNTAX'', 143), (''ISSUER_DECODE_ERROR'', 126), (''MISSING_VALUE'', 124),
     (''NEED_ORGANIZATION_AND_NUMBERS'', 142), (''NEGATIVE_PATHLEN'', 168),
     (''NO_CONFIG_DATABASE'', 136), (''NO_ISSUER_CERTIFICATE'', 121), (''NO_ISSUER_DETAILS'', 127),
     (''NO_POLICY_IDENTIFIER'', 139), (''NO_PROXY_CERT_POLICY_LANGUAGE_DEFINED'', 154),
     (''NO_PUBLIC_KEY'', 114), (''NO_SUBJECT_DETAILS'', 125), (''OPERATION_NOT_DEFINED'', 148),
     (''OTHERNAME_ERROR'', 147), (''POLICY_LANGUAGE_ALREADY_DEFINED'', 155),
     (''POLICY_PATH_LENGTH'', 156), (''POLICY_PATH_LENGTH_ALREADY_DEFINED'', 157),
     (''POLICY_WHEN_PROXY_LANGUAGE_REQUIRES_NO_POLICY'', 159), (''SECTION_NOT_FOUND'', 150),
     (''UNABLE_TO_GET_ISSUER_DETAILS'', 122), (''UNABLE_TO_GET_ISSUER_KEYID'', 123),
     (''UNKNOWN_BIT_STRING_ARGUMENT'', 111), (''UNKNOWN_EXTENSION'', 129),
     (''UNKNOWN_EXTENSION_NAME'', 130), (''UNKNOWN_OPTION'', 120), (''UNSUPPORTED_OPTION'', 117),
     (''UNSUPPORTED_TYPE'', 167), (''USER_TOO_LONG'', 132)]"

definition OSSL_REASONS :: "(string \<times> (string \<times> int) list) list" where
  "OSSL_REASONS = [
     (''ASN1'', ASN1_R), (''ASYNC'', ASYNC_R), (''BIO'', BIO_R), (''BN'', BN_R), (''CMP'', CMP_R),
     (''CMS'', CMS_R), (''COMP'', COMP_R), (''CONF'', CONF_R), (''CRMF'', CRMF_R),
     (''CRYPTO'', CRYPTO_R), (''CT'', CT_R), (''OSSL_DECODER'', OSSL_DECODER_R), (''DH'', DH_R),
     (''DSA'', DSA_R), (''EC'', EC_R), (''OSSL_ENCODER'', OSSL_ENCODER_R), (''ENGINE'', ENGINE_R),
     (''ESS'', ESS_R), (''EVP'', EVP_R), (''HTTP'', HTTP_R), (''OBJ'', OBJ_R), (''OCSP'', OCSP_R),
     (''PEM'', PEM_R), (''PKCS12'', PKCS12_R), (''PKCS7'', PKCS7_R), (''PROV'', PROV_R),
     (''RAND'', RAND_R), (''RSA'', RSA_R), (''SSL'', SSL_R_1 @ SSL_R_2 @ SSL_R_3),
     (''OSSL_STORE'', OSSL_STORE_R), (''TS'', TS_R), (''UI'', UI_R), (''X509'', X509_R),
     (''X509V3'', X509V3_R)]"

end
