(* ===== verification/OsslErr.thy ===== *)
theory OsslErr
  imports Prelude "HOL-Library.Word"
begin

unbundle bit_operations_syntax

text \<open>
  The packing of error codes in \<open>openssl/err.h\<close>: constants, the inline accessors, the
  library numbers and the global reason codes. \<open>unsigned long\<close> is a 64-bit word (LP64),
  \<open>int\<close> results are 32-bit words.
\<close>

subsection \<open>Libraries\<close>

definition ERR_LIBS :: "(string \<times> nat) list" where
  "ERR_LIBS = [
     (''NONE'', 1), (''SYS'', 2), (''BN'', 3), (''RSA'', 4), (''DH'', 5), (''EVP'', 6),
     (''BUF'', 7), (''OBJ'', 8), (''PEM'', 9), (''DSA'', 10), (''X509'', 11), (''ASN1'', 13),
     (''CONF'', 14), (''CRYPTO'', 15), (''EC'', 16), (''SSL'', 20), (''BIO'', 32), (''PKCS7'', 33),
     (''X509V3'', 34), (''PKCS12'', 35), (''RAND'', 36), (''DSO'', 37), (''ENGINE'', 38),
     (''OCSP'', 39), (''UI'', 40), (''COMP'', 41), (''ECDSA'', 42), (''ECDH'', 43),
     (''OSSL_STORE'', 44), (''FIPS'', 45), (''CMS'', 46), (''TS'', 47), (''HMAC'', 48),
     (''CT'', 50), (''ASYNC'', 51), (''KDF'', 52), (''SM2'', 53), (''ESS'', 54), (''PROP'', 55),
     (''CRMF'', 56), (''PROV'', 57), (''CMP'', 58), (''OSSL_ENCODER'', 59), (''OSSL_DECODER'', 60),
     (''HTTP'', 61), (''USER'', 128)]"

definition ERR_LIB_SYS :: "32 word" where "ERR_LIB_SYS = 2"

subsection \<open>Packing\<close>

definition ERR_SYSTEM_FLAG :: "64 word" where "ERR_SYSTEM_FLAG = 0x7fffffff + 1"
definition ERR_SYSTEM_MASK :: "64 word" where "ERR_SYSTEM_MASK = 0x7fffffff"
definition ERR_LIB_OFFSET :: nat where "ERR_LIB_OFFSET = 23"
definition ERR_LIB_MASK :: "64 word" where "ERR_LIB_MASK = 0xFF"
definition ERR_RFLAGS_OFFSET :: nat where "ERR_RFLAGS_OFFSET = 18"
definition ERR_RFLAGS_MASK :: "64 word" where "ERR_RFLAGS_MASK = 0x1F"
definition ERR_REASON_MASK :: "64 word" where "ERR_REASON_MASK = 0x7FFFFF"
definition ERR_RFLAG_FATAL :: "32 word" where "ERR_RFLAG_FATAL = push_bit ERR_RFLAGS_OFFSET 0x1"
definition ERR_RFLAG_COMMON :: "32 word" where "ERR_RFLAG_COMMON = push_bit ERR_RFLAGS_OFFSET 0x2"

definition ERR_SYSTEM_ERROR :: "64 word \<Rightarrow> bool" where
  "ERR_SYSTEM_ERROR errcode \<longleftrightarrow> errcode AND ERR_SYSTEM_FLAG \<noteq> 0"

definition ERR_GET_LIB :: "64 word \<Rightarrow> 32 word" where
  "ERR_GET_LIB errcode =
     (if ERR_SYSTEM_ERROR errcode then ERR_LIB_SYS
      else ucast (drop_bit ERR_LIB_OFFSET errcode AND ERR_LIB_MASK))"

definition ERR_GET_RFLAGS :: "64 word \<Rightarrow> 32 word" where
  "ERR_GET_RFLAGS errcode =
     (if ERR_SYSTEM_ERROR errcode then 0
      else ucast (errcode AND push_bit ERR_RFLAGS_OFFSET ERR_RFLAGS_MASK))"

definition ERR_GET_REASON :: "64 word \<Rightarrow> 32 word" where
  "ERR_GET_REASON errcode =
     (if ERR_SYSTEM_ERROR errcode then ucast (errcode AND ERR_SYSTEM_MASK)
      else ucast (errcode AND ERR_REASON_MASK))"

definition ERR_FATAL_ERROR :: "64 word \<Rightarrow> bool" where
  "ERR_FATAL_ERROR errcode \<longleftrightarrow> ERR_GET_RFLAGS errcode AND ERR_RFLAG_FATAL \<noteq> 0"

definition ERR_COMMON_ERROR :: "64 word \<Rightarrow> bool" where
  "ERR_COMMON_ERROR errcode \<longleftrightarrow> ERR_GET_RFLAGS errcode AND ERR_RFLAG_COMMON \<noteq> 0"

text \<open>\<open>lib\<close> and \<open>reason\<close> are cast to \<open>unsigned long\<close>: an \<open>int\<close> is sign-extended.\<close>

definition ERR_PACK :: "32 word \<Rightarrow> 32 word \<Rightarrow> 32 word \<Rightarrow> 64 word" where
  "ERR_PACK lib func reason =
     push_bit ERR_LIB_OFFSET (scast lib AND ERR_LIB_MASK) OR (scast reason AND ERR_REASON_MASK)"

subsection \<open>Global reason codes\<close>

definition ERR_R_LIB_CODES :: "(string \<times> 32 word) list" where
  "ERR_R_LIB_CODES = map (\<lambda>(name, lib). (name, lib OR ERR_RFLAG_COMMON)) [
     (''SYS_LIB'', 2), (''BN_LIB'', 3), (''RSA_LIB'', 4), (''DH_LIB'', 5), (''EVP_LIB'', 6),
     (''BUF_LIB'', 7), (''OBJ_LIB'', 8), (''PEM_LIB'', 9), (''DSA_LIB'', 10), (''X509_LIB'', 11),
     (''ASN1_LIB'', 13), (''CONF_LIB'', 14), (''CRYPTO_LIB'', 15), (''EC_LIB'', 16),
     (''SSL_LIB'', 20), (''BIO_LIB'', 32), (''PKCS7_LIB'', 33), (''X509V3_LIB'', 34),
     (''PKCS12_LIB'', 35), (''RAND_LIB'', 36), (''DSO_LIB'', 37), (''ENGINE_LIB'', 38),
     (''UI_LIB'', 40), (''ECDSA_LIB'', 42), (''OSSL_STORE_LIB'', 44), (''CMS_LIB'', 46),
     (''TS_LIB'', 47), (''CT_LIB'', 50), (''PROV_LIB'', 57), (''ESS_LIB'', 54), (''CMP_LIB'', 58),
     (''OSSL_ENCODER_LIB'', 59), (''OSSL_DECODER_LIB'', 60)]"

definition ERR_R_FATAL :: "32 word" where "ERR_R_FATAL = ERR_RFLAG_FATAL OR ERR_RFLAG_COMMON"

definition ERR_R_CODES :: "(string \<times> 32 word) list" where
  "ERR_R_CODES = [
     (''MALLOC_FAILURE'', 256 OR ERR_R_FATAL),
     (''SHOULD_NOT_HAVE_BEEN_CALLED'', 257 OR ERR_R_FATAL),
     (''PASSED_NULL_PARAMETER'', 258 OR ERR_R_FATAL), (''INTERNAL_ERROR'', 259 OR ERR_R_FATAL),
     (''DISABLED'', 260 OR ERR_R_FATAL), (''INIT_FAIL'', 261 OR ERR_R_FATAL),
     (''PASSED_INVALID_ARGUMENT'', 262 OR ERR_RFLAG_COMMON),
     (''OPERATION_FAIL'', 263 OR ERR_R_FATAL), (''INVALID_PROVIDER_FUNCTIONS'', 264 OR ERR_R_FATAL),
     (''INTERRUPTED_OR_CANCELLED'', 265 OR ERR_RFLAG_COMMON),
     (''NESTED_ASN1_ERROR'', 266 OR ERR_RFLAG_COMMON),
     (''MISSING_ASN1_EOS'', 267 OR ERR_RFLAG_COMMON), (''UNSUPPORTED'', 268 OR ERR_RFLAG_COMMON),
     (''FETCH_FAILED'', 269 OR ERR_RFLAG_COMMON),
     (''INVALID_PROPERTY_DEFINITION'', 270 OR ERR_RFLAG_COMMON),
     (''UNABLE_TO_GET_READ_LOCK'', 271 OR ERR_R_FATAL),
     (''UNABLE_TO_GET_WRITE_LOCK'', 272 OR ERR_R_FATAL)]"

subsection \<open>The numbers of the tables\<close>

lemma numbers_Nil: "map snd [] = []"
  by simp

lemma numbers_Cons: "map snd xs = ys \<Longrightarrow> map snd ((a, b) # xs) = b # ys"
  by simp

lemma ERR_LIBS_numbers:
  "map snd ERR_LIBS = [
     1, 2, 3, 4, 5, 6, 7, 8, 9, 10, 11, 13, 14, 15, 16, 20, 32, 33, 34, 35, 36, 37, 38, 39, 40, 41,
     42, 43, 44, 45, 46, 47, 48, 50, 51, 52, 53, 54, 55, 56, 57, 58, 59, 60, 61, 128]"
  unfolding ERR_LIBS_def by (intro numbers_Nil numbers_Cons)

lemma lib_codes_numbers: "map snd xs = ys \<Longrightarrow> map snd (map (\<lambda>(name, lib). (name, f lib)) xs) = map f ys"
  by (auto simp: comp_def case_prod_unfold)

lemma ERR_R_LIB_CODES_numbers:
  "map snd ERR_R_LIB_CODES = map (\<lambda>lib. lib OR ERR_RFLAG_COMMON) [
     2, 3, 4, 5, 6, 7, 8, 9, 10, 11, 13, 14, 15, 16, 20, 32, 33, 34, 35, 36, 37, 38, 40, 42, 44, 46,
     47, 50, 57, 54, 58, 59, 60]"
  unfolding ERR_R_LIB_CODES_def by (rule lib_codes_numbers) (intro numbers_Nil numbers_Cons)

lemma ERR_R_CODES_numbers:
  "map snd ERR_R_CODES = [
     256 OR ERR_R_FATAL, 257 OR ERR_R_FATAL, 258 OR ERR_R_FATAL, 259 OR ERR_R_FATAL,
     260 OR ERR_R_FATAL, 261 OR ERR_R_FATAL, 262 OR ERR_RFLAG_COMMON, 263 OR ERR_R_FATAL,
     264 OR ERR_R_FATAL, 265 OR ERR_RFLAG_COMMON, 266 OR ERR_RFLAG_COMMON, 267 OR ERR_RFLAG_COMMON,
     268 OR ERR_RFLAG_COMMON, 269 OR ERR_RFLAG_COMMON, 270 OR ERR_RFLAG_COMMON, 271 OR ERR_R_FATAL,
     272 OR ERR_R_FATAL]"
  unfolding ERR_R_CODES_def by (intro numbers_Nil numbers_Cons)

end
