(* ===== verification/OsslErrTheorems.thy ===== *)
theory OsslErrTheorems
  imports OsslErr WordBits
begin

text \<open>The properties of the error codes of \<open>openssl/err.h\<close>.\<close>

lemmas err_defs = ERR_SYSTEM_ERROR_def ERR_SYSTEM_FLAG_def ERR_SYSTEM_MASK_def ERR_GET_LIB_def ERR_GET_RFLAGS_def
  ERR_GET_REASON_def ERR_FATAL_ERROR_def ERR_COMMON_ERROR_def ERR_PACK_def ERR_LIB_OFFSET_def ERR_LIB_MASK_def
  ERR_RFLAGS_OFFSET_def ERR_RFLAGS_MASK_def ERR_REASON_MASK_def ERR_RFLAG_FATAL_def ERR_RFLAG_COMMON_def

lemma err_masks:
  "ERR_LIB_MASK = mask 8" "ERR_REASON_MASK = mask 23" "ERR_SYSTEM_MASK = mask 31" "ERR_SYSTEM_FLAG = push_bit 31 1"
  "push_bit ERR_RFLAGS_OFFSET ERR_RFLAGS_MASK = push_bit 18 (mask 5)"
  by (simp_all add: err_defs mask_eq_exp_minus_1)

lemma bit_system_flag: "bit ERR_SYSTEM_FLAG n \<longleftrightarrow> n = 31"
  unfolding err_masks(4) by (subst bit_push_bit_iff) (auto simp: bit_1_iff)

lemma system_error_bit: "ERR_SYSTEM_ERROR e \<longleftrightarrow> bit e 31"
proof -
  have "bit (e AND ERR_SYSTEM_FLAG) n \<longleftrightarrow> n = 31 \<and> bit e 31" for n
    by (auto simp: bit_and_iff bit_system_flag)
  then have "e AND ERR_SYSTEM_FLAG = 0 \<longleftrightarrow> \<not> bit e 31"
    by (metis bit_0_eq bit_word_eqI bot_apply bot_bool_def)
  then show ?thesis by (simp add: ERR_SYSTEM_ERROR_def)
qed

lemma pack_bit:
  "bit (ERR_PACK lib func reason) n \<longleftrightarrow>
     n < 23 \<and> bit reason n \<or> 23 \<le> n \<and> n < 31 \<and> bit lib (n - 23)"
  unfolding ERR_PACK_def err_masks ERR_LIB_OFFSET_def
  by (auto simp: bit_simps min_def simp del: push_bit_Suc)

text \<open>
  Packing an OpenSSL error is reversible: for every library number and reason code,
  negative ones included, the packed code is not a system error, the accessors return the
  low 8 bits of the library and the low 23 bits of the reason, and the reason flags are
  the bits 18 to 22 of the reason.
\<close>

lemma ERR_PACK_roundtrip:
  "\<not> ERR_SYSTEM_ERROR (ERR_PACK lib func reason) \<and>
   ERR_GET_LIB (ERR_PACK lib func reason) = lib AND 0xFF \<and>
   ERR_GET_REASON (ERR_PACK lib func reason) = reason AND 0x7FFFFF \<and>
   ERR_GET_RFLAGS (ERR_PACK lib func reason) = reason AND 0x7C0000 \<and>
   (ERR_FATAL_ERROR (ERR_PACK lib func reason) \<longleftrightarrow> bit reason 18) \<and>
   (ERR_COMMON_ERROR (ERR_PACK lib func reason) \<longleftrightarrow> bit reason 19)"
proof -
  let ?e = "ERR_PACK lib func reason"
  have s: "\<not> ERR_SYSTEM_ERROR ?e" by (simp add: system_error_bit pack_bit)
  have m: "(0xFF :: 32 word) = mask 8" "(0x7FFFFF :: 32 word) = mask 23" "(0x7C0000 :: 32 word) = push_bit 18 (mask 5)"
    by (simp_all add: mask_eq_exp_minus_1)
  have lib: "ERR_GET_LIB ?e = lib AND 0xFF"
    using s unfolding ERR_GET_LIB_def err_masks m ERR_LIB_OFFSET_def
    by (auto intro!: bit_word_eqI simp: bit_simps pack_bit simp del: push_bit_Suc)
  have reason: "ERR_GET_REASON ?e = reason AND 0x7FFFFF"
    using s unfolding ERR_GET_REASON_def err_masks m
    by (auto intro!: bit_word_eqI simp: bit_simps pack_bit simp del: push_bit_Suc)
  have flags: "ERR_GET_RFLAGS ?e = reason AND 0x7C0000"
    using s unfolding ERR_GET_RFLAGS_def err_masks m
    by (auto intro!: bit_word_eqI simp: bit_simps pack_bit simp del: push_bit_Suc)
  have f: "ERR_RFLAG_FATAL = push_bit 18 1" "ERR_RFLAG_COMMON = push_bit 19 1"
    by (simp_all add: ERR_RFLAG_FATAL_def ERR_RFLAG_COMMON_def ERR_RFLAGS_OFFSET_def)
  have "bit (reason AND 0x7C0000) 18 = bit reason 18" "bit (reason AND 0x7C0000) 19 = bit reason 19"
    unfolding m by (simp_all add: bit_simps del: push_bit_Suc)
  then show ?thesis
    using s lib reason flags and_push_bit_1_eq_0 [of 18 "reason AND 0x7C0000"] and_push_bit_1_eq_0 [of 19 "reason AND 0x7C0000"]
    unfolding ERR_FATAL_ERROR_def ERR_COMMON_ERROR_def f by simp
qed

text \<open>
  A recorded system error (a positive \<open>errno\<close> with the system flag added) is decoded
  as one: the library is \<open>ERR_LIB_SYS\<close>, the reason is the \<open>errno\<close>, and whatever its bits
  are it is neither fatal nor common.
\<close>

lemma ERR_system_error:
  assumes "e = ucast (n :: 32 word) OR ERR_SYSTEM_FLAG" "\<not> bit n 31"
  shows "ERR_SYSTEM_ERROR e \<and> ERR_GET_LIB e = ERR_LIB_SYS \<and> ERR_GET_REASON e = n \<and>
    ERR_GET_RFLAGS e = 0 \<and> \<not> ERR_FATAL_ERROR e \<and> \<not> ERR_COMMON_ERROR e"
proof -
  have s: "ERR_SYSTEM_ERROR e" unfolding system_error_bit assms(1) by (simp add: bit_or_iff bit_system_flag)
  have low: "bit n k \<Longrightarrow> k < 31" for k
    using assms(2) bit_imp_le_length [of n k] by (cases "k = 31") auto
  have "ERR_GET_REASON e = n"
    using s unfolding ERR_GET_REASON_def err_masks(3) assms(1)
    by (auto intro!: bit_word_eqI simp: bit_simps bit_system_flag dest: low)
  then show ?thesis
    using s by (simp add: ERR_GET_LIB_def ERR_GET_RFLAGS_def ERR_FATAL_ERROR_def ERR_COMMON_ERROR_def)
qed

lemma ERR_LIBS_consistent: "distinct (map snd ERR_LIBS) \<and> list_all (\<lambda>l. l < 256) (map snd ERR_LIBS)"
  unfolding ERR_LIBS_numbers by simp

text \<open>
  The comments of \<open>err.h\<close> say that \<open>ERR_RFLAG_FATAL = ERR_R_FATAL\<close>; the macros differ by
  the common flag.
\<close>

lemma ERR_R_FATAL_not_flag: "ERR_R_FATAL = 0xC0000 \<and> ERR_RFLAG_FATAL = 0x40000"
  by (simp add: ERR_R_FATAL_def ERR_RFLAG_FATAL_def ERR_RFLAG_COMMON_def ERR_RFLAGS_OFFSET_def)

end
