(* ===== verification/OsslReasonTheorems.thy ===== *)
theory OsslReasonTheorems
  imports OsslReasons OsslErrTheorems
begin

text \<open>
  The reason codes of all OpenSSL libraries together: the packed error code of a library and
  a reason determines both, and no code of a library is one of the global codes.
\<close>

subsection \<open>Distinct numbers by their binary digits\<close>

text \<open>\<open>apart k xs\<close>: the numbers are told apart by their low \<open>k\<close> bits.\<close>

primrec apart :: "nat \<Rightarrow> int list \<Rightarrow> bool" where
  "apart 0 xs = (length xs \<le> 1)"
| "apart (Suc k) xs =
     (if length xs \<le> 1 then True
      else apart k (map (\<lambda>n. n div 2) (filter even xs)) \<and> apart k (map (\<lambda>n. n div 2) (filter odd xs)))"

lemma distinct_halves:
  "distinct (map (\<lambda>n. n div 2) (filter even xs)) \<Longrightarrow> distinct (map (\<lambda>n. n div 2) (filter odd xs)) \<Longrightarrow> distinct xs"
  for xs :: "int list"
  by (induction xs) (auto split: if_splits)

lemma short_distinct: "length xs \<le> 1 \<Longrightarrow> distinct xs"
  by (cases xs) auto

lemma apart_distinct: "apart k xs \<Longrightarrow> distinct xs"
  by (induction k arbitrary: xs) (auto simp: short_distinct split: if_splits intro: distinct_halves)

subsection \<open>One library\<close>

definition reasons_ok :: "(string \<times> int) list \<Rightarrow> bool" where
  "reasons_ok rs \<longleftrightarrow> distinct (map snd rs) \<and> list_all (\<lambda>r. 0 \<le> r \<and> r < 2 ^ 18) (map snd rs)"

text \<open>The numbers of a table, read off it by \<open>numbers_Cons\<close> without looking at the names.\<close>

lemma reasons_okI:
  assumes "map snd rs = ns" "apart 12 ns \<and> list_all (\<lambda>r. 0 \<le> r \<and> r < 262144) ns"
  shows "reasons_ok rs"
  using assms apart_distinct [of 12 ns] by (simp add: reasons_ok_def)

lemma ASN1_R_ok: "reasons_ok ASN1_R"
  unfolding ASN1_R_def by (rule reasons_okI, (rule numbers_Nil numbers_Cons)+, code_simp)

lemma ASYNC_R_ok: "reasons_ok ASYNC_R"
  unfolding ASYNC_R_def by (rule reasons_okI, (rule numbers_Nil numbers_Cons)+, code_simp)

lemma BIO_R_ok: "reasons_ok BIO_R"
  unfolding BIO_R_def by (rule reasons_okI, (rule numbers_Nil numbers_Cons)+, code_simp)

lemma BN_R_ok: "reasons_ok BN_R"
  unfolding BN_R_def by (rule reasons_okI, (rule numbers_Nil numbers_Cons)+, code_simp)

lemma CMP_R_ok: "reasons_ok CMP_R"
  unfolding CMP_R_def by (rule reasons_okI, (rule numbers_Nil numbers_Cons)+, code_simp)

lemma CMS_R_ok: "reasons_ok CMS_R"
  unfolding CMS_R_def by (rule reasons_okI, (rule numbers_Nil numbers_Cons)+, code_simp)

lemma COMP_R_ok: "reasons_ok COMP_R"
  unfolding COMP_R_def by (rule reasons_okI, (rule numbers_Nil numbers_Cons)+, code_simp)

lemma CONF_R_ok: "reasons_ok CONF_R"
  unfolding CONF_R_def by (rule reasons_okI, (rule numbers_Nil numbers_Cons)+, code_simp)

lemma CRMF_R_ok: "reasons_ok CRMF_R"
  unfolding CRMF_R_def by (rule reasons_okI, (rule numbers_Nil numbers_Cons)+, code_simp)

lemma CRYPTO_R_ok: "reasons_ok CRYPTO_R"
  unfolding CRYPTO_R_def by (rule reasons_okI, (rule numbers_Nil numbers_Cons)+, code_simp)

lemma CT_R_ok: "reasons_ok CT_R"
  unfolding CT_R_def by (rule reasons_okI, (rule numbers_Nil numbers_Cons)+, code_simp)

lemma OSSL_DECODER_R_ok: "reasons_ok OSSL_DECODER_R"
  unfolding OSSL_DECODER_R_def by (rule reasons_okI, (rule numbers_Nil numbers_Cons)+, code_simp)

lemma DH_R_ok: "reasons_ok DH_R"
  unfolding DH_R_def by (rule reasons_okI, (rule numbers_Nil numbers_Cons)+, code_simp)

lemma DSA_R_ok: "reasons_ok DSA_R"
  unfolding DSA_R_def by (rule reasons_okI, (rule numbers_Nil numbers_Cons)+, code_simp)

lemma EC_R_ok: "reasons_ok EC_R"
  unfolding EC_R_def by (rule reasons_okI, (rule numbers_Nil numbers_Cons)+, code_simp)

lemma OSSL_ENCODER_R_ok: "reasons_ok OSSL_ENCODER_R"
  unfolding OSSL_ENCODER_R_def by (rule reasons_okI, (rule numbers_Nil numbers_Cons)+, code_simp)

lemma ENGINE_R_ok: "reasons_ok ENGINE_R"
  unfolding ENGINE_R_def by (rule reasons_okI, (rule numbers_Nil numbers_Cons)+, code_simp)

lemma ESS_R_ok: "reasons_ok ESS_R"
  unfolding ESS_R_def by (rule reasons_okI, (rule numbers_Nil numbers_Cons)+, code_simp)

lemma EVP_R_ok: "reasons_ok EVP_R"
  unfolding EVP_R_def by (rule reasons_okI, (rule numbers_Nil numbers_Cons)+, code_simp)

lemma HTTP_R_ok: "reasons_ok HTTP_R"
  unfolding HTTP_R_def by (rule reasons_okI, (rule numbers_Nil numbers_Cons)+, code_simp)

lemma OBJ_R_ok: "reasons_ok OBJ_R"
  unfolding OBJ_R_def by (rule reasons_okI, (rule numbers_Nil numbers_Cons)+, code_simp)

lemma OCSP_R_ok: "reasons_ok OCSP_R"
  unfolding OCSP_R_def by (rule reasons_okI, (rule numbers_Nil numbers_Cons)+, code_simp)

lemma PEM_R_ok: "reasons_ok PEM_R"
  unfolding PEM_R_def by (rule reasons_okI, (rule numbers_Nil numbers_Cons)+, code_simp)

lemma PKCS12_R_ok: "reasons_ok PKCS12_R"
  unfolding PKCS12_R_def by (rule reasons_okI, (rule numbers_Nil numbers_Cons)+, code_simp)

lemma PKCS7_R_ok: "reasons_ok PKCS7_R"
  unfolding PKCS7_R_def by (rule reasons_okI, (rule numbers_Nil numbers_Cons)+, code_simp)

lemma PROV_R_ok: "reasons_ok PROV_R"
  unfolding PROV_R_def by (rule reasons_okI, (rule numbers_Nil numbers_Cons)+, code_simp)

lemma RAND_R_ok: "reasons_ok RAND_R"
  unfolding RAND_R_def by (rule reasons_okI, (rule numbers_Nil numbers_Cons)+, code_simp)

lemma RSA_R_ok: "reasons_ok RSA_R"
  unfolding RSA_R_def by (rule reasons_okI, (rule numbers_Nil numbers_Cons)+, code_simp)

lemma SSL_R_ok: "reasons_ok (SSL_R_1 @ SSL_R_2 @ SSL_R_3)"
  unfolding SSL_R_1_def SSL_R_2_def SSL_R_3_def append.simps by (rule reasons_okI, (rule numbers_Nil numbers_Cons)+, code_simp)

lemma OSSL_STORE_R_ok: "reasons_ok OSSL_STORE_R"
  unfolding OSSL_STORE_R_def by (rule reasons_okI, (rule numbers_Nil numbers_Cons)+, code_simp)

lemma TS_R_ok: "reasons_ok TS_R"
  unfolding TS_R_def by (rule reasons_okI, (rule numbers_Nil numbers_Cons)+, code_simp)

lemma UI_R_ok: "reasons_ok UI_R"
  unfolding UI_R_def by (rule reasons_okI, (rule numbers_Nil numbers_Cons)+, code_simp)

lemma X509_R_ok: "reasons_ok X509_R"
  unfolding X509_R_def by (rule reasons_okI, (rule numbers_Nil numbers_Cons)+, code_simp)

lemma X509V3_R_ok: "reasons_ok X509V3_R"
  unfolding X509V3_R_def by (rule reasons_okI, (rule numbers_Nil numbers_Cons)+, code_simp)

subsection \<open>All libraries\<close>

definition reason_table_ok :: "string \<times> (string \<times> int) list \<Rightarrow> bool" where
  "reason_table_ok lr \<longleftrightarrow> reasons_ok (snd lr) \<and> map_of ERR_LIBS (fst lr) \<noteq> None"

lemma OSSL_REASONS_ok: "list_all reason_table_ok OSSL_REASONS"
  unfolding OSSL_REASONS_def
  by (simp add: reason_table_ok_def ASN1_R_ok ASYNC_R_ok BIO_R_ok BN_R_ok CMP_R_ok CMS_R_ok COMP_R_ok CONF_R_ok CRMF_R_ok CRYPTO_R_ok CT_R_ok OSSL_DECODER_R_ok DH_R_ok DSA_R_ok EC_R_ok OSSL_ENCODER_R_ok ENGINE_R_ok ESS_R_ok EVP_R_ok HTTP_R_ok OBJ_R_ok OCSP_R_ok PEM_R_ok PKCS12_R_ok PKCS7_R_ok PROV_R_ok RAND_R_ok RSA_R_ok SSL_R_ok OSSL_STORE_R_ok TS_R_ok UI_R_ok X509_R_ok X509V3_R_ok) (simp add: ERR_LIBS_def)

text \<open>The errors that a library can raise with a reason of its own.\<close>

definition lib_number :: "string \<Rightarrow> nat" where
  "lib_number lib = (case map_of ERR_LIBS lib of Some n \<Rightarrow> n | None \<Rightarrow> 0)"

definition ERR_reasons :: "(nat \<times> string \<times> int) list" where
  "ERR_reasons = concat (map (\<lambda>(lib, rs). map (\<lambda>(name, r). (lib_number lib, name, r)) rs) OSSL_REASONS)"

definition packed :: "nat \<times> string \<times> int \<Rightarrow> 64 word" where
  "packed e = (case e of (lib, name, r) \<Rightarrow> ERR_PACK (of_nat lib) 0 (word_of_int r))"

lemma lib_numbers:
  "map (\<lambda>lr. lib_number (fst lr)) OSSL_REASONS = [
     13, 51, 32, 3, 58, 46, 41, 14, 56, 15, 50, 60, 5, 10, 16, 59, 38, 54, 6, 61, 8, 39, 9, 35, 33, 57, 36, 4, 20, 44, 47, 40, 11, 34]"
  by (simp add: OSSL_REASONS_def lib_number_def ERR_LIBS_def)

definition reason_of :: "64 word \<Rightarrow> nat \<times> int" where
  "reason_of e = (unat (ERR_GET_LIB e), uint (ERR_GET_REASON e))"

lemma low_bits:
  assumes "lib < 256" "0 \<le> r" "r < 2 ^ 18"
  shows "unat (of_nat lib AND (mask 8 :: 32 word)) = lib" "uint (word_of_int r AND (mask 23 :: 32 word)) = r"
proof -
  have "lib < 2 ^ 8" "lib < 2 ^ 32" using assms(1) by simp_all
  then show "unat (of_nat lib AND (mask 8 :: 32 word)) = lib"
    by (simp add: unsigned_and_eq unsigned_of_nat unsigned_take_bit_eq take_bit_nat_eq_self flip: take_bit_eq_mask)
  have "r < 2 ^ 23" "r < 2 ^ 32" using assms(3) by simp_all
  then show "uint (word_of_int r AND (mask 23 :: 32 word)) = r"
    using assms(2) by (simp add: and_mask_wi uint_word_of_int_eq take_bit_int_eq_self)
qed

lemma reason_of_packed:
  assumes "lib < 256" "0 \<le> r" "r < 2 ^ 18"
  shows "reason_of (packed (lib, name, r)) = (lib, r)"
proof -
  have m: "(0xFF :: 32 word) = mask 8" "(0x7FFFFF :: 32 word) = mask 23" by (simp_all add: mask_eq_exp_minus_1)
  show ?thesis using ERR_PACK_roundtrip [of "of_nat lib" 0 "word_of_int r"] low_bits [OF assms]
    unfolding m reason_of_def packed_def by simp
qed

text \<open>Tables with distinct numbers under distinct headings.\<close>

lemma distinct_tables:
  fixes T :: "('a \<times> ('b \<times> 'c) list) list"
  assumes "distinct (map f T)" "\<And>t. t \<in> set T \<Longrightarrow> distinct (map snd (snd t))"
  shows "distinct (concat (map (\<lambda>t. map (\<lambda>x. (f t, snd x)) (snd t)) T))"
  using assms
proof (induction T)
  case (Cons t T)
  have "map (\<lambda>x. (f t, snd x)) (snd t) = map (Pair (f t)) (map snd (snd t))" by simp
  then have "distinct (map (\<lambda>x. (f t, snd x)) (snd t))"
    using Cons.prems(2) [of t] distinct_map [of "Pair (f t)" "map snd (snd t)"] by (simp add: inj_on_def del: map_map)
  moreover have "(f t, c) \<notin> set (concat (map (\<lambda>t. map (\<lambda>x. (f t, snd x)) (snd t)) T))" for c
    using Cons.prems(1) by auto
  ultimately show ?case using Cons by auto
qed simp
lemma in_reasons:
  assumes "e \<in> set ERR_reasons"
  obtains lib name r where "e = (lib, name, r)" "lib < 256" "0 \<le> r" "r < 2 ^ 18"
proof -
  obtain l rs name r where e: "(l, rs) \<in> set OSSL_REASONS" "(name, r) \<in> set rs" "e = (lib_number l, name, r)"
    using assms by (auto simp: ERR_reasons_def)
  have "list_all (\<lambda>n. n < 256) (map (\<lambda>lr. lib_number (fst lr)) OSSL_REASONS)" unfolding lib_numbers by simp
  then have "lib_number l < 256" using e(1) by (auto simp: list_all_iff)
  moreover have "reasons_ok rs" using OSSL_REASONS_ok e(1) by (auto simp: list_all_iff reason_table_ok_def)
  then have "0 \<le> r" "r < 2 ^ 18" using e(2) by (auto simp: reasons_ok_def list_all_iff)
  ultimately show ?thesis using that e(3) by blast
qed

lemma ERR_reasons_distinct: "distinct (map packed ERR_reasons)"
proof -
  have libs: "distinct (map (\<lambda>lr. lib_number (fst lr)) OSSL_REASONS)" unfolding lib_numbers by simp
  have "distinct (map snd (snd t))" if "t \<in> set OSSL_REASONS" for t
    using OSSL_REASONS_ok that by (auto simp: list_all_iff reason_table_ok_def reasons_ok_def)
  from distinct_tables [OF libs this]
  have d: "distinct (concat (map (\<lambda>t. map (\<lambda>x. (lib_number (fst t), snd x)) (snd t)) OSSL_REASONS))" .
  have "map (reason_of \<circ> packed) ERR_reasons = map (\<lambda>e. (fst e, snd (snd e))) ERR_reasons"
    by (rule map_cong [OF refl]) (auto elim!: in_reasons simp: reason_of_packed)
  also have "\<dots> = concat (map (\<lambda>t. map (\<lambda>x. (lib_number (fst t), snd x)) (snd t)) OSSL_REASONS)"
    by (simp add: ERR_reasons_def map_concat comp_def case_prod_unfold)
  finally have "distinct (map reason_of (map packed ERR_reasons))" using d by simp
  then show ?thesis by (rule distinct_map [THEN iffD1, THEN conjunct1])
qed

lemma global_codes:
  "distinct (map snd (ERR_R_LIB_CODES @ ERR_R_CODES))"
  "list_all (\<lambda>r. bit r 19 \<and> r AND 0x7FFFFF = r) (map snd (ERR_R_LIB_CODES @ ERR_R_CODES))"
proof -
  note f = ERR_RFLAG_COMMON_def ERR_RFLAG_FATAL_def ERR_R_FATAL_def ERR_RFLAGS_OFFSET_def
  show "distinct (map snd (ERR_R_LIB_CODES @ ERR_R_CODES))"
    unfolding map_append ERR_LIBS_numbers ERR_R_LIB_CODES_numbers ERR_R_CODES_numbers by (simp add: f)
  show "list_all (\<lambda>r. bit r 19 \<and> r AND 0x7FFFFF = r) (map snd (ERR_R_LIB_CODES @ ERR_R_CODES))"
    unfolding map_append ERR_LIBS_numbers ERR_R_LIB_CODES_numbers ERR_R_CODES_numbers by (simp add: f)
qed

text \<open>
  C31. Error codes are unambiguous. Every reason of every library (the tables of 34
  headers) packs, with the number of its library, to a code from which the accessors give
  both back, which is neither a system error nor fatal nor common; no two of these codes are
  equal; and the global reason codes are distinct, fit the reason field and are marked
  common, so that packed with any library they are none of these codes either.
\<close>

theorem ERR_codes_unambiguous:
  "distinct (map packed ERR_reasons) \<and>
   list_all (\<lambda>(lib, name, r). let e = packed (lib, name, r) in
     unat (ERR_GET_LIB e) = lib \<and> uint (ERR_GET_REASON e) = r \<and>
     \<not> ERR_SYSTEM_ERROR e \<and> \<not> ERR_FATAL_ERROR e \<and> \<not> ERR_COMMON_ERROR e) ERR_reasons \<and>
   distinct (map snd (ERR_R_LIB_CODES @ ERR_R_CODES)) \<and>
   list_all (\<lambda>r. r AND 0x7FFFFF = r \<and> ERR_COMMON_ERROR (ERR_PACK lib 0 r)) (map snd (ERR_R_LIB_CODES @ ERR_R_CODES))"
proof -
  have acc: "unat (ERR_GET_LIB (packed (lib, name, r))) = lib \<and> uint (ERR_GET_REASON (packed (lib, name, r))) = r \<and>
      \<not> ERR_SYSTEM_ERROR (packed (lib, name, r)) \<and> \<not> ERR_FATAL_ERROR (packed (lib, name, r)) \<and>
      \<not> ERR_COMMON_ERROR (packed (lib, name, r))" if "(lib, name, r) \<in> set ERR_reasons" for lib name r
  proof -
    have b: "lib < 256" "0 \<le> r" "r < 2 ^ 18" using that by (auto elim: in_reasons)
    have "\<not> bit (word_of_int r :: 32 word) k" if "18 \<le> k" for k
    proof -
      have "take_bit k r = r" using b(2,3) power_increasing [OF that, of "2 :: int"] by (intro take_bit_int_eq_self) simp_all
      then have "\<not> bit r k" by (metis bit_take_bit_iff less_irrefl)
      then show ?thesis by (simp add: bit_word_of_int_iff)
    qed
    then show ?thesis
      using reason_of_packed [OF b, of name] ERR_PACK_roundtrip [of "of_nat lib" 0 "word_of_int r"]
      by (simp add: reason_of_def packed_def)
  qed
  have glob: "r AND 0x7FFFFF = r \<and> ERR_COMMON_ERROR (ERR_PACK lib 0 r)"
    if "r \<in> set (map snd (ERR_R_LIB_CODES @ ERR_R_CODES))" for r
    using global_codes(2) that ERR_PACK_roundtrip [of lib 0 r] by (simp add: list_all_iff)
  show ?thesis using ERR_reasons_distinct global_codes(1) acc glob by (auto simp: list_all_iff Let_def)
qed

end
