(* ===== verification/SslAlerts.thy ===== *)
theory SslAlerts
  imports OsslReasonTheorems
begin

text \<open>
  The TLS alert descriptions of \<open>openssl/ssl3.h\<close> and \<open>openssl/tls1.h\<close>, their common names in
  \<open>openssl/ssl.h\<close>, and the reason codes of \<open>openssl/sslerr.h\<close> that stand for received alerts:
  the number of an alert plus \<open>SSL_AD_REASON_OFFSET\<close>.
\<close>

definition SSL3_AD :: "(string \<times> int) list" where
  "SSL3_AD = [
     (''CLOSE_NOTIFY'', 0), (''UNEXPECTED_MESSAGE'', 10), (''BAD_RECORD_MAC'', 20),
     (''DECOMPRESSION_FAILURE'', 30), (''HANDSHAKE_FAILURE'', 40), (''NO_CERTIFICATE'', 41),
     (''BAD_CERTIFICATE'', 42), (''UNSUPPORTED_CERTIFICATE'', 43), (''CERTIFICATE_REVOKED'', 44),
     (''CERTIFICATE_EXPIRED'', 45), (''CERTIFICATE_UNKNOWN'', 46), (''ILLEGAL_PARAMETER'', 47)]"

definition TLS1_AD :: "(string \<times> int) list" where
  "TLS1_AD = [
     (''DECRYPTION_FAILED'', 21), (''RECORD_OVERFLOW'', 22), (''UNKNOWN_CA'', 48),
     (''ACCESS_DENIED'', 49), (''DECODE_ERROR'', 50), (''DECRYPT_ERROR'', 51),
     (''EXPORT_RESTRICTION'', 60), (''PROTOCOL_VERSION'', 70), (''INSUFFICIENT_SECURITY'', 71),
     (''INTERNAL_ERROR'', 80), (''INAPPROPRIATE_FALLBACK'', 86), (''USER_CANCELLED'', 90),
     (''NO_RENEGOTIATION'', 100), (''UNSUPPORTED_EXTENSION'', 110),
     (''CERTIFICATE_UNOBTAINABLE'', 111), (''UNRECOGNIZED_NAME'', 112),
     (''BAD_CERTIFICATE_STATUS_RESPONSE'', 113), (''BAD_CERTIFICATE_HASH_VALUE'', 114),
     (''UNKNOWN_PSK_IDENTITY'', 115), (''NO_APPLICATION_PROTOCOL'', 120)]"

definition TLS13_AD :: "(string \<times> int) list" where
  "TLS13_AD = [
     (''MISSING_EXTENSION'', 109), (''CERTIFICATE_REQUIRED'', 116)]"

definition SSL_AD :: "(string \<times> int option) list" where
  "SSL_AD = [
     (''CLOSE_NOTIFY'', map_of SSL3_AD ''CLOSE_NOTIFY''),
     (''UNEXPECTED_MESSAGE'', map_of SSL3_AD ''UNEXPECTED_MESSAGE''),
     (''BAD_RECORD_MAC'', map_of SSL3_AD ''BAD_RECORD_MAC''),
     (''DECRYPTION_FAILED'', map_of TLS1_AD ''DECRYPTION_FAILED''),
     (''RECORD_OVERFLOW'', map_of TLS1_AD ''RECORD_OVERFLOW''),
     (''DECOMPRESSION_FAILURE'', map_of SSL3_AD ''DECOMPRESSION_FAILURE''),
     (''HANDSHAKE_FAILURE'', map_of SSL3_AD ''HANDSHAKE_FAILURE''),
     (''NO_CERTIFICATE'', map_of SSL3_AD ''NO_CERTIFICATE''),
     (''BAD_CERTIFICATE'', map_of SSL3_AD ''BAD_CERTIFICATE''),
     (''UNSUPPORTED_CERTIFICATE'', map_of SSL3_AD ''UNSUPPORTED_CERTIFICATE''),
     (''CERTIFICATE_REVOKED'', map_of SSL3_AD ''CERTIFICATE_REVOKED''),
     (''CERTIFICATE_EXPIRED'', map_of SSL3_AD ''CERTIFICATE_EXPIRED''),
     (''CERTIFICATE_UNKNOWN'', map_of SSL3_AD ''CERTIFICATE_UNKNOWN''),
     (''ILLEGAL_PARAMETER'', map_of SSL3_AD ''ILLEGAL_PARAMETER''),
     (''UNKNOWN_CA'', map_of TLS1_AD ''UNKNOWN_CA''),
     (''ACCESS_DENIED'', map_of TLS1_AD ''ACCESS_DENIED''),
     (''DECODE_ERROR'', map_of TLS1_AD ''DECODE_ERROR''),
     (''DECRYPT_ERROR'', map_of TLS1_AD ''DECRYPT_ERROR''),
     (''EXPORT_RESTRICTION'', map_of TLS1_AD ''EXPORT_RESTRICTION''),
     (''PROTOCOL_VERSION'', map_of TLS1_AD ''PROTOCOL_VERSION''),
     (''INSUFFICIENT_SECURITY'', map_of TLS1_AD ''INSUFFICIENT_SECURITY''),
     (''INTERNAL_ERROR'', map_of TLS1_AD ''INTERNAL_ERROR''),
     (''USER_CANCELLED'', map_of TLS1_AD ''USER_CANCELLED''),
     (''NO_RENEGOTIATION'', map_of TLS1_AD ''NO_RENEGOTIATION''),
     (''MISSING_EXTENSION'', map_of TLS13_AD ''MISSING_EXTENSION''),
     (''CERTIFICATE_REQUIRED'', map_of TLS13_AD ''CERTIFICATE_REQUIRED''),
     (''UNSUPPORTED_EXTENSION'', map_of TLS1_AD ''UNSUPPORTED_EXTENSION''),
     (''CERTIFICATE_UNOBTAINABLE'', map_of TLS1_AD ''CERTIFICATE_UNOBTAINABLE''),
     (''UNRECOGNIZED_NAME'', map_of TLS1_AD ''UNRECOGNIZED_NAME''),
     (''BAD_CERTIFICATE_STATUS_RESPONSE'', map_of TLS1_AD ''BAD_CERTIFICATE_STATUS_RESPONSE''),
     (''BAD_CERTIFICATE_HASH_VALUE'', map_of TLS1_AD ''BAD_CERTIFICATE_HASH_VALUE''),
     (''UNKNOWN_PSK_IDENTITY'', map_of TLS1_AD ''UNKNOWN_PSK_IDENTITY''),
     (''INAPPROPRIATE_FALLBACK'', map_of TLS1_AD ''INAPPROPRIATE_FALLBACK''),
     (''NO_APPLICATION_PROTOCOL'', map_of TLS1_AD ''NO_APPLICATION_PROTOCOL'')]"

definition SSL_AD_REASON_OFFSET :: int where "SSL_AD_REASON_OFFSET = 1000"

lemma SSL_AD_values: "SSL_AD = [
     (''CLOSE_NOTIFY'', Some 0), (''UNEXPECTED_MESSAGE'', Some 10), (''BAD_RECORD_MAC'', Some 20),
     (''DECRYPTION_FAILED'', Some 21), (''RECORD_OVERFLOW'', Some 22),
     (''DECOMPRESSION_FAILURE'', Some 30), (''HANDSHAKE_FAILURE'', Some 40),
     (''NO_CERTIFICATE'', Some 41), (''BAD_CERTIFICATE'', Some 42),
     (''UNSUPPORTED_CERTIFICATE'', Some 43), (''CERTIFICATE_REVOKED'', Some 44),
     (''CERTIFICATE_EXPIRED'', Some 45), (''CERTIFICATE_UNKNOWN'', Some 46),
     (''ILLEGAL_PARAMETER'', Some 47), (''UNKNOWN_CA'', Some 48), (''ACCESS_DENIED'', Some 49),
     (''DECODE_ERROR'', Some 50), (''DECRYPT_ERROR'', Some 51), (''EXPORT_RESTRICTION'', Some 60),
     (''PROTOCOL_VERSION'', Some 70), (''INSUFFICIENT_SECURITY'', Some 71),
     (''INTERNAL_ERROR'', Some 80), (''USER_CANCELLED'', Some 90), (''NO_RENEGOTIATION'', Some 100),
     (''MISSING_EXTENSION'', Some 109), (''CERTIFICATE_REQUIRED'', Some 116),
     (''UNSUPPORTED_EXTENSION'', Some 110), (''CERTIFICATE_UNOBTAINABLE'', Some 111),
     (''UNRECOGNIZED_NAME'', Some 112), (''BAD_CERTIFICATE_STATUS_RESPONSE'', Some 113),
     (''BAD_CERTIFICATE_HASH_VALUE'', Some 114), (''UNKNOWN_PSK_IDENTITY'', Some 115),
     (''INAPPROPRIATE_FALLBACK'', Some 86), (''NO_APPLICATION_PROTOCOL'', Some 120)]"
  by (simp add: SSL_AD_def SSL3_AD_def TLS1_AD_def TLS13_AD_def)

abbreviation SSL_R :: "(string \<times> int) list" where
  "SSL_R \<equiv> SSL_R_1 @ SSL_R_2 @ SSL_R_3"

definition alert_reasons :: "(string \<times> int) list" where
  "alert_reasons = filter (\<lambda>x. SSL_AD_REASON_OFFSET \<le> snd x) SSL_R"

text \<open>Reading the rows of a table from a number on, without looking at the names.\<close>

lemma filter_rows:
  fixes b :: int
  shows
  "filter (\<lambda>x. 1000 \<le> snd x) [] = ([] :: ('a \<times> int) list)"
  "b < 1000 \<Longrightarrow> filter (\<lambda>x. 1000 \<le> snd x) xs = ys \<Longrightarrow>
     filter (\<lambda>x. 1000 \<le> snd x) ((a, b) # xs) = ys"
  "1000 \<le> b \<Longrightarrow> filter (\<lambda>x. 1000 \<le> snd x) xs = ys \<Longrightarrow>
     filter (\<lambda>x. 1000 \<le> snd x) ((a, b) # xs) = (a, b) # ys"
  by simp_all

lemma alert_reasons_values: "alert_reasons = [
     (''SSLV3_ALERT_BAD_CERTIFICATE'', 1042), (''SSLV3_ALERT_BAD_RECORD_MAC'', 1020),
     (''SSLV3_ALERT_CERTIFICATE_EXPIRED'', 1045), (''SSLV3_ALERT_CERTIFICATE_REVOKED'', 1044),
     (''SSLV3_ALERT_CERTIFICATE_UNKNOWN'', 1046), (''SSLV3_ALERT_DECOMPRESSION_FAILURE'', 1030),
     (''SSLV3_ALERT_HANDSHAKE_FAILURE'', 1040), (''SSLV3_ALERT_ILLEGAL_PARAMETER'', 1047),
     (''SSLV3_ALERT_NO_CERTIFICATE'', 1041), (''SSLV3_ALERT_UNEXPECTED_MESSAGE'', 1010),
     (''SSLV3_ALERT_UNSUPPORTED_CERTIFICATE'', 1043), (''TLSV13_ALERT_CERTIFICATE_REQUIRED'', 1116),
     (''TLSV13_ALERT_MISSING_EXTENSION'', 1109), (''TLSV1_ALERT_ACCESS_DENIED'', 1049),
     (''TLSV1_ALERT_DECODE_ERROR'', 1050), (''TLSV1_ALERT_DECRYPTION_FAILED'', 1021),
     (''TLSV1_ALERT_DECRYPT_ERROR'', 1051), (''TLSV1_ALERT_EXPORT_RESTRICTION'', 1060),
     (''TLSV1_ALERT_INAPPROPRIATE_FALLBACK'', 1086), (''TLSV1_ALERT_INSUFFICIENT_SECURITY'', 1071),
     (''TLSV1_ALERT_INTERNAL_ERROR'', 1080), (''TLSV1_ALERT_NO_RENEGOTIATION'', 1100),
     (''TLSV1_ALERT_PROTOCOL_VERSION'', 1070), (''TLSV1_ALERT_RECORD_OVERFLOW'', 1022),
     (''TLSV1_ALERT_UNKNOWN_CA'', 1048), (''TLSV1_ALERT_USER_CANCELLED'', 1090),
     (''TLSV1_BAD_CERTIFICATE_HASH_VALUE'', 1114),
     (''TLSV1_BAD_CERTIFICATE_STATUS_RESPONSE'', 1113), (''TLSV1_CERTIFICATE_UNOBTAINABLE'', 1111),
     (''TLSV1_UNRECOGNIZED_NAME'', 1112), (''TLSV1_UNSUPPORTED_EXTENSION'', 1110)]"
  unfolding alert_reasons_def SSL_AD_REASON_OFFSET_def SSL_R_1_def SSL_R_2_def SSL_R_3_def append.simps
  by ((rule filter_rows(3), (simp; fail)) | (rule filter_rows(2), (simp; fail)) | rule filter_rows(1))+

text \<open>The names of the reasons with a number, and the names that a reason for an alert may have.\<close>

definition reason_names :: "int \<Rightarrow> string list" where
  "reason_names r = map fst (filter (\<lambda>x. snd x = r) SSL_R)"

definition alert_names :: "string \<Rightarrow> string list" where
  "alert_names x = map (\<lambda>p. p @ x) [''SSLV3_ALERT_'', ''TLSV1_ALERT_'', ''TLSV13_ALERT_'', ''TLSV1_'']"

lemma reason_names_alert:
  "SSL_AD_REASON_OFFSET \<le> r \<Longrightarrow> reason_names r = map fst (filter (\<lambda>x. snd x = r) alert_reasons)"
  unfolding reason_names_def alert_reasons_def filter_filter
  by (rule arg_cong [where f = "map fst"], rule filter_cong) auto

text \<open>The alerts that no reason code of the table stands for.\<close>

definition silent_alerts :: "string list" where
  "silent_alerts = [''CLOSE_NOTIFY'', ''UNKNOWN_PSK_IDENTITY'', ''NO_APPLICATION_PROTOCOL'']"

definition alert_ok :: "string \<times> int option \<Rightarrow> bool" where
  "alert_ok a \<longleftrightarrow> (case a of (x, d) \<Rightarrow> case d of None \<Rightarrow> False | Some d \<Rightarrow> 0 \<le> d \<and> d < 256 \<and>
     (if x \<in> set silent_alerts then reason_names (SSL_AD_REASON_OFFSET + d) = []
      else list_ex (\<lambda>n. reason_names (SSL_AD_REASON_OFFSET + d) = [n]) (alert_names x)))"

lemma alert_okI:
  assumes "0 \<le> d" "d < 256" "if x \<in> set silent_alerts then map fst (filter (\<lambda>x. snd x = 1000 + d) alert_reasons) = []
     else list_ex (\<lambda>n. map fst (filter (\<lambda>x. snd x = 1000 + d) alert_reasons) = [n]) (alert_names x)"
  shows "alert_ok (x, Some d)"
  using assms by (simp add: alert_ok_def reason_names_alert SSL_AD_REASON_OFFSET_def split: if_splits)

lemma alerts_checked: "list_all alert_ok SSL_AD"
  unfolding SSL_AD_values list.pred_inject
  by (intro conjI; (rule alert_okI)?) (simp_all add: alert_reasons_values silent_alerts_def alert_names_def)

text \<open>
  C32. Alerts and reasons agree. Every alert name of \<open>ssl.h\<close> stands for a number of the
  protocol headers that fits a byte, no two for the same one; the reason at that number plus
  the offset is a single one and has the name of the alert, except for three alerts that have
  none; and every reason from the offset on belongs to an alert.
\<close>

theorem SSL_alert_reasons:
  "distinct (map snd SSL_AD) \<and>
   list_all alert_ok SSL_AD \<and>
   list_all (\<lambda>(n, r). r < SSL_AD_REASON_OFFSET \<or> Some (r - SSL_AD_REASON_OFFSET) \<in> set (map snd SSL_AD)) SSL_R"
proof (intro conjI)
  show "distinct (map snd SSL_AD)" unfolding SSL_AD_values by simp
  show "list_all alert_ok SSL_AD" by (rule alerts_checked)
  have "list_all (\<lambda>(n, r). Some (r - SSL_AD_REASON_OFFSET) \<in> set (map snd SSL_AD)) alert_reasons"
    unfolding SSL_AD_values alert_reasons_values SSL_AD_REASON_OFFSET_def by simp
  then show "list_all (\<lambda>(n, r). r < SSL_AD_REASON_OFFSET \<or> Some (r - SSL_AD_REASON_OFFSET) \<in> set (map snd SSL_AD)) SSL_R"
    unfolding list_all_iff alert_reasons_def by fastforce
qed

end
