(* ===== verification/Versions.thy ===== *)
theory Versions
  imports "HOL-Library.Product_Lexorder"
begin

unbundle bit_operations_syntax

text \<open>
  Version macros of \<open>node_version.h\<close>, \<open>uv/version.h\<close>, \<open>v8-version.h\<close> and \<open>openssl/opensslv.h\<close>, and
  the choice of the OpenSSL API level in \<open>openssl/macros.h\<close>. The preprocessor computes with
  64-bit integers; no value here comes near their bounds.
\<close>

subsection \<open>Node.js\<close>

definition NODE_MAJOR_VERSION :: int where "NODE_MAJOR_VERSION = 18"
definition NODE_MINOR_VERSION :: int where "NODE_MINOR_VERSION = 14"
definition NODE_PATCH_VERSION :: int where "NODE_PATCH_VERSION = 0"
definition NODE_MODULE_VERSION :: int where "NODE_MODULE_VERSION = 108"
definition NAPI_VERSION :: int where "NAPI_VERSION = 8"

definition NODE_VERSION_AT_LEAST :: "int \<Rightarrow> int \<Rightarrow> int \<Rightarrow> bool" where
  "NODE_VERSION_AT_LEAST major minor patch \<longleftrightarrow>
     major < NODE_MAJOR_VERSION \<or>
     (major = NODE_MAJOR_VERSION \<and> minor < NODE_MINOR_VERSION) \<or>
     (major = NODE_MAJOR_VERSION \<and> minor = NODE_MINOR_VERSION \<and> patch \<le> NODE_PATCH_VERSION)"

subsection \<open>libuv and V8\<close>

definition UV_VERSION_MAJOR :: int where "UV_VERSION_MAJOR = 1"
definition UV_VERSION_MINOR :: int where "UV_VERSION_MINOR = 44"
definition UV_VERSION_PATCH :: int where "UV_VERSION_PATCH = 2"

definition UV_VERSION_HEX :: int where
  "UV_VERSION_HEX = push_bit 16 UV_VERSION_MAJOR OR push_bit 8 UV_VERSION_MINOR OR UV_VERSION_PATCH"

definition V8_MAJOR_VERSION :: int where "V8_MAJOR_VERSION = 10"
definition V8_MINOR_VERSION :: int where "V8_MINOR_VERSION = 2"
definition V8_BUILD_NUMBER :: int where "V8_BUILD_NUMBER = 154"
definition V8_PATCH_LEVEL :: int where "V8_PATCH_LEVEL = 23"

subsection \<open>OpenSSL\<close>

definition OPENSSL_VERSION_MAJOR :: int where "OPENSSL_VERSION_MAJOR = 3"
definition OPENSSL_VERSION_MINOR :: int where "OPENSSL_VERSION_MINOR = 0"
definition OPENSSL_VERSION_PATCH :: int where "OPENSSL_VERSION_PATCH = 7"

text \<open>The macro is defined, as the empty string, in a release too.\<close>

definition OPENSSL_VERSION_PRE_RELEASE :: "string option" where "OPENSSL_VERSION_PRE_RELEASE = Some ''''"

definition OPENSSL_VERSION_PREREQ :: "int \<Rightarrow> int \<Rightarrow> bool" where
  "OPENSSL_VERSION_PREREQ maj minor \<longleftrightarrow>
     push_bit 16 OPENSSL_VERSION_MAJOR + OPENSSL_VERSION_MINOR \<ge> push_bit 16 maj + minor"

definition PRE_RELEASE_status :: int where
  "PRE_RELEASE_status = (if OPENSSL_VERSION_PRE_RELEASE \<noteq> None then 0x0 else 0xf)"

definition OPENSSL_VERSION_NUMBER :: int where
  "OPENSSL_VERSION_NUMBER =
     push_bit 28 OPENSSL_VERSION_MAJOR OR push_bit 20 OPENSSL_VERSION_MINOR OR
     push_bit 4 OPENSSL_VERSION_PATCH OR PRE_RELEASE_status"

definition OPENSSL_CONFIGURED_API :: int where "OPENSSL_CONFIGURED_API = 30000"

text \<open>The argument is the value of \<open>OPENSSL_API_COMPAT\<close>, when the application defines it.\<close>

definition OPENSSL_API_LEVEL :: "int option \<Rightarrow> int" where
  "OPENSSL_API_LEVEL api_compat =
     (case api_compat of
        Some v \<Rightarrow>
          (if v < 0x900000 then v
           else (drop_bit 28 v AND 0xF) * 10000 + (drop_bit 20 v AND 0xFF) * 100 + (drop_bit 12 v AND 0xFF))
      | None \<Rightarrow>
          (if OPENSSL_CONFIGURED_API > 0 then OPENSSL_CONFIGURED_API
           else OPENSSL_VERSION_MAJOR * 10000 + OPENSSL_VERSION_MINOR * 100))"

text \<open>The \<open>#error\<close> directives that follow, in their order.\<close>

datatype api_error = Higher_than_configured | Impossible_level

definition api_level_check :: "int \<Rightarrow> api_error + int" where
  "api_level_check level =
     (if level > OPENSSL_CONFIGURED_API then Inl Higher_than_configured
      else if level > OPENSSL_VERSION_MAJOR * 10000 + OPENSSL_VERSION_MINOR * 100 then Inl Impossible_level
      else if level < 30000 \<and> level \<ge> 20000 then Inl Impossible_level
      else if level < 908 then Inl Impossible_level
      else Inr level)"

definition openssl_api :: "int option \<Rightarrow> api_error + int" where
  "openssl_api api_compat = api_level_check (OPENSSL_API_LEVEL api_compat)"

text \<open>
  What \<open>OSSL_DEPRECATEDIN_x\<close> makes of a declaration: an attribute, nothing, or (with
  \<open>OPENSSL_NO_DEPRECATED\<close>, through \<open>OPENSSL_NO_DEPRECATED_x\<close>) the declaration is left out.
\<close>

datatype deprecation = Attribute | Plain | Left_out

definition deprecated_in :: "int \<Rightarrow> bool \<Rightarrow> int \<Rightarrow> deprecation" where
  "deprecated_in since no_deprecated level =
     (if level \<ge> since then (if \<not> no_deprecated then Attribute else Left_out) else Plain)"

definition OSSL_DEPRECATEDIN :: "(string \<times> int) list" where
  "OSSL_DEPRECATEDIN = [
     (''3_0'', 30000), (''1_1_1'', 10101), (''1_1_0'', 10100), (''1_0_2'', 10002), (''1_0_1'', 10001),
     (''1_0_0'', 10000), (''0_9_8'', 908)]"

end
