(* ===== verification/VersionTheorems.thy ===== *)
theory VersionTheorems
  imports Versions
begin


text \<open>
  The version tests compare versions in their order: \<open>NODE_VERSION_AT_LEAST\<close> is the
  lexicographic comparison with the version of Node.js, \<open>OPENSSL_VERSION_PREREQ\<close> the
  lexicographic comparison with the version of OpenSSL for every minor number that fits 16
  bits, and \<open>UV_VERSION_HEX\<close> is the number in which each part of the version of libuv has a
  byte.
\<close>

lemma version_tests:
  assumes "0 \<le> minor" "minor < 2 ^ 16"
  shows "(NODE_VERSION_AT_LEAST a b c \<longleftrightarrow> (a, b, c) \<le> (NODE_MAJOR_VERSION, NODE_MINOR_VERSION, NODE_PATCH_VERSION)) \<and>
    (OPENSSL_VERSION_PREREQ major minor \<longleftrightarrow> (major, minor) \<le> (OPENSSL_VERSION_MAJOR, OPENSSL_VERSION_MINOR)) \<and>
    UV_VERSION_HEX = 0x10000 * UV_VERSION_MAJOR + 0x100 * UV_VERSION_MINOR + UV_VERSION_PATCH"
proof (intro conjI)
  show "NODE_VERSION_AT_LEAST a b c \<longleftrightarrow> (a, b, c) \<le> (NODE_MAJOR_VERSION, NODE_MINOR_VERSION, NODE_PATCH_VERSION)"
    by (auto simp: NODE_VERSION_AT_LEAST_def less_eq_prod_simp)
  show "OPENSSL_VERSION_PREREQ major minor \<longleftrightarrow> (major, minor) \<le> (OPENSSL_VERSION_MAJOR, OPENSSL_VERSION_MINOR)"
    using assms by (auto simp: OPENSSL_VERSION_PREREQ_def less_eq_prod_simp OPENSSL_VERSION_MAJOR_def
      OPENSSL_VERSION_MINOR_def push_bit_eq_mult)
  show "UV_VERSION_HEX = 0x10000 * UV_VERSION_MAJOR + 0x100 * UV_VERSION_MINOR + UV_VERSION_PATCH"
    by (simp add: UV_VERSION_HEX_def UV_VERSION_MAJOR_def UV_VERSION_MINOR_def UV_VERSION_PATCH_def)
qed

text \<open>
  The status nibble of the version number, \<open>f\<close> in a release by the layout that the comment
  gives, is zero although this is a release.
\<close>

lemma OPENSSL_VERSION_NUMBER_value: "OPENSSL_VERSION_NUMBER = 0x30000070"
  by (simp add: OPENSSL_VERSION_NUMBER_def OPENSSL_VERSION_MAJOR_def OPENSSL_VERSION_MINOR_def OPENSSL_VERSION_PATCH_def
      PRE_RELEASE_status_def OPENSSL_VERSION_PRE_RELEASE_def)



end
