(* ===== verification/V8Traced.thy ===== *)
theory V8Traced
  imports V8Handles
begin

text \<open>
  The references of \<open>v8-traced-handle.h\<close>: \<open>TracedReferenceBase\<close>, \<open>BasicTracedReference\<close> and
  \<open>TracedReference\<close>. They are objects with one field \<open>val_\<close>, in the same state \<open>hstate\<close> as the
  handles of \<open>V8Handles\<close>: \<open>vals\<close> gives the field of every object that exists. They differ from
  \<open>Persistent\<close> in that the engine gets the address of the field (\<open>slot\<close>), that it moves and
  copies nodes by writing the fields itself, and that there is no destructor. The functions that
  the engine exports are the fields of \<open>traced_engine\<close>.

  \<open>As<S>()\<close> reinterprets the object under another type; on locations it is the identity.
\<close>

datatype GlobalHandleStoreMode = kInitializingStore | kAssigningStore

record traced_engine =
  GlobalizeTracedReference :: "Address \<Rightarrow> Address \<Rightarrow> loc \<Rightarrow> GlobalHandleStoreMode \<Rightarrow> mem \<Rightarrow> (Address \<times> mem) option"
  MoveTracedReference :: "loc \<Rightarrow> loc \<Rightarrow> hstate \<Rightarrow> hstate option"
  CopyTracedReference :: "loc \<Rightarrow> loc \<Rightarrow> hstate \<Rightarrow> hstate option"
  DisposeTracedReference :: "Address \<Rightarrow> mem \<Rightarrow> mem option"

subsection \<open>Class \<open>TracedReferenceBase\<close>\<close>

definition TR_IsEmpty :: "loc \<Rightarrow> hstate \<Rightarrow> bool option" where
  "TR_IsEmpty this s = map_option (\<lambda>v. v = 0) (vals s this)"

definition TR_SetSlotThreadSafe :: "loc \<Rightarrow> Address \<Rightarrow> hstate \<Rightarrow> hstate" where
  "TR_SetSlotThreadSafe this new_val s = set_val this new_val s"

definition TR_GetSlotThreadSafe :: "loc \<Rightarrow> hstate \<Rightarrow> Address option" where
  "TR_GetSlotThreadSafe this s = vals s this"

definition TR_IsEmptyThreadSafe :: "loc \<Rightarrow> hstate \<Rightarrow> bool option" where
  "TR_IsEmptyThreadSafe this s = map_option (\<lambda>v. v = 0) (TR_GetSlotThreadSafe this s)"

definition TR_Get :: "Address allocator \<Rightarrow> Address \<Rightarrow> loc \<Rightarrow> hstate \<Rightarrow> (Address \<times> hstate) option" where
  "TR_Get CreateHandle isolate this s = do {
     empty \<leftarrow> TR_IsEmpty this s;
     v \<leftarrow> vals s this;
     if empty then Some (0, s)
     else do { (h, m) \<leftarrow> Local_New CreateHandle isolate v (hmem s); Some (h, s\<lparr>hmem := m\<rparr>) }
   }"

definition TR_Reset :: "traced_engine \<Rightarrow> loc \<Rightarrow> hstate \<Rightarrow> hstate option" where
  "TR_Reset eng this s = do {
     empty \<leftarrow> TR_IsEmpty this s;
     v \<leftarrow> vals s this;
     if empty then Some s
     else do {
       m \<leftarrow> DisposeTracedReference eng v (hmem s);
       Some (TR_SetSlotThreadSafe this 0 (s\<lparr>hmem := m\<rparr>))
     }
   }"

definition TR_SetWrapperClassId :: "loc \<Rightarrow> 16 word \<Rightarrow> hstate \<Rightarrow> hstate option" where
  "TR_SetWrapperClassId this class_id s = do {
     empty \<leftarrow> TR_IsEmpty this s;
     v \<leftarrow> vals s this;
     if empty then Some s
     else do { m \<leftarrow> store (hmem s) (v + word_of_int kNodeClassIdOffset) class_id; Some (s\<lparr>hmem := m\<rparr>) }
   }"

definition TR_WrapperClassId :: "loc \<Rightarrow> hstate \<Rightarrow> 16 word option" where
  "TR_WrapperClassId this s = do {
     empty \<leftarrow> TR_IsEmpty this s;
     v \<leftarrow> vals s this;
     if empty then Some 0 else load (hmem s) (v + word_of_int kNodeClassIdOffset)
   }"

subsection \<open>Comparison\<close>

definition TR_eq :: "loc \<Rightarrow> loc \<Rightarrow> hstate \<Rightarrow> bool option" where
  "TR_eq lhs rhs s = do { a \<leftarrow> vals s lhs; b \<leftarrow> vals s rhs; handle_eq (hmem s) a b }"

definition TR_eq_Local :: "loc \<Rightarrow> Address \<Rightarrow> hstate \<Rightarrow> bool option" where
  "TR_eq_Local lhs rhs s = do { a \<leftarrow> vals s lhs; handle_eq (hmem s) a rhs }"

definition Local_eq_TR :: "Address \<Rightarrow> loc \<Rightarrow> hstate \<Rightarrow> bool option" where
  "Local_eq_TR lhs rhs s = TR_eq_Local rhs lhs s"

definition TR_ne :: "loc \<Rightarrow> loc \<Rightarrow> hstate \<Rightarrow> bool option" where
  "TR_ne lhs rhs s = map_option Not (TR_eq lhs rhs s)"

definition TR_ne_Local :: "loc \<Rightarrow> Address \<Rightarrow> hstate \<Rightarrow> bool option" where
  "TR_ne_Local lhs rhs s = map_option Not (TR_eq_Local lhs rhs s)"

definition Local_ne_TR :: "Address \<Rightarrow> loc \<Rightarrow> hstate \<Rightarrow> bool option" where
  "Local_ne_TR lhs rhs s = map_option Not (TR_eq_Local rhs lhs s)"

subsection \<open>Class \<open>BasicTracedReference\<close>\<close>

definition BTR_New ::
    "traced_engine \<Rightarrow> Address \<Rightarrow> Address \<Rightarrow> loc \<Rightarrow> GlobalHandleStoreMode \<Rightarrow> hstate \<Rightarrow> (Address \<times> hstate) option" where
  "BTR_New eng isolate that slot store_mode s =
     (if that = 0 then Some (0, s)
      else do {
        (n, m) \<leftarrow> GlobalizeTracedReference eng isolate that slot store_mode (hmem s);
        Some (n, s\<lparr>hmem := m\<rparr>)
      })"

text \<open>\<open>operator*\<close>, without the check of \<open>V8_ENABLE_CHECKS\<close>, and \<open>Get\<close>, which goes through it.\<close>

definition BTR_deref :: "loc \<Rightarrow> hstate \<Rightarrow> Address option" where
  "BTR_deref this s = vals s this"

definition BTR_Get :: "Address allocator \<Rightarrow> Address \<Rightarrow> loc \<Rightarrow> hstate \<Rightarrow> (Address \<times> hstate) option" where
  "BTR_Get CreateHandle isolate this s = do {
     v \<leftarrow> BTR_deref this s;
     (h, m) \<leftarrow> Local_New CreateHandle isolate v (hmem s);
     Some (h, s\<lparr>hmem := m\<rparr>)
   }"

subsection \<open>Class \<open>TracedReference\<close>\<close>

definition TR_new :: "loc \<Rightarrow> hstate \<Rightarrow> hstate" where
  "TR_new this s = set_val this 0 s"

definition TR_new_Local :: "traced_engine \<Rightarrow> Address \<Rightarrow> loc \<Rightarrow> Address \<Rightarrow> hstate \<Rightarrow> hstate option" where
  "TR_new_Local eng isolate this that s = do {
     s \<leftarrow> Some (TR_new this s);
     (n, s) \<leftarrow> BTR_New eng isolate that this kInitializingStore s;
     Some (set_val this n s)
   }"

text \<open>Move and copy assignment, for the same type and for another one.\<close>

definition TR_move :: "traced_engine \<Rightarrow> loc \<Rightarrow> loc \<Rightarrow> hstate \<Rightarrow> hstate option" where
  "TR_move eng this rhs s = (if this \<noteq> rhs then MoveTracedReference eng rhs this s else Some s)"

definition TR_copy :: "traced_engine \<Rightarrow> loc \<Rightarrow> loc \<Rightarrow> hstate \<Rightarrow> hstate option" where
  "TR_copy eng this rhs s =
     (if this \<noteq> rhs then do {
        s \<leftarrow> TR_Reset eng this s;
        v \<leftarrow> vals s rhs;
        if v \<noteq> 0 then CopyTracedReference eng rhs this s else Some s
      }
      else Some s)"

definition TR_As :: "loc \<Rightarrow> loc" where
  "TR_As this = this"

definition TR_move_S :: "traced_engine \<Rightarrow> loc \<Rightarrow> loc \<Rightarrow> hstate \<Rightarrow> hstate option" where
  "TR_move_S eng this rhs s = TR_move eng this (TR_As rhs) s"

definition TR_copy_S :: "traced_engine \<Rightarrow> loc \<Rightarrow> loc \<Rightarrow> hstate \<Rightarrow> hstate option" where
  "TR_copy_S eng this rhs s = TR_copy eng this (TR_As rhs) s"

text \<open>The constructors that forward to an assignment on a new, empty object.\<close>

definition TR_new_move :: "traced_engine \<Rightarrow> loc \<Rightarrow> loc \<Rightarrow> hstate \<Rightarrow> hstate option" where
  "TR_new_move eng this other s = TR_move eng this other (TR_new this s)"

definition TR_new_copy :: "traced_engine \<Rightarrow> loc \<Rightarrow> loc \<Rightarrow> hstate \<Rightarrow> hstate option" where
  "TR_new_copy eng this other s = TR_copy eng this other (TR_new this s)"

definition TR_Reset_Local :: "traced_engine \<Rightarrow> Address \<Rightarrow> loc \<Rightarrow> Address \<Rightarrow> hstate \<Rightarrow> hstate option" where
  "TR_Reset_Local eng isolate this other s = do {
     s \<leftarrow> TR_Reset eng this s;
     if Local_IsEmpty other then Some s
     else do {
       (n, s) \<leftarrow> BTR_New eng isolate other this kAssigningStore s;
       Some (TR_SetSlotThreadSafe this n s)
     }
   }"

text \<open>\<open>ReturnValue::Set(const BasicTracedReference<S>&)\<close> returns the object of a reference.\<close>

definition ReturnValue_Set_traced :: "Address \<Rightarrow> loc \<Rightarrow> hstate \<Rightarrow> hstate option" where
  "ReturnValue_Set_traced slot handle s = do {
     empty \<leftarrow> TR_IsEmpty handle s;
     v \<leftarrow> vals s handle;
     x \<leftarrow> (if empty then ReturnValue_GetDefaultValue (hmem s) slot else load (hmem s) v);
     m \<leftarrow> store (hmem s) slot (x :: Address);
     Some (s\<lparr>hmem := m\<rparr>)
   }"

end
