(* ===== verification/V8TracedOwnership.thy ===== *)
theory V8TracedOwnership
  imports V8Traced V8HandleTheorems
begin

text \<open>
  Traced references and the collector. \<open>nodes m\<close> is the set of nodes that the engine has given
  out. As the references have no destructor, a node outlives the reference that held it and
  waits for the collector: \<open>g\<close> is the set of such nodes. \<open>traced_handles\<close> is what the headers
  promise of the exported functions. Then, whatever a client does, every reference names a live
  node of its own that the collector may not take, and every other node is in \<open>g\<close>.
\<close>

subsection \<open>The contract of the exported functions\<close>

abbreviation class_id :: "mem \<Rightarrow> Address \<Rightarrow> 16 word option" where
  "class_id m n \<equiv> load m (n + word_of_int kNodeClassIdOffset)"

abbreviation object :: "mem \<Rightarrow> Address \<Rightarrow> Address option" where
  "object m n \<equiv> load m n"

text \<open>The nodes of \<open>K\<close> keep their object and their class identifier.\<close>

definition keeps_traced :: "Address set \<Rightarrow> mem \<Rightarrow> mem \<Rightarrow> bool" where
  "keeps_traced K m m' \<longleftrightarrow> (\<forall>n\<in>K. object m' n = object m n \<and> class_id m' n = class_id m n)"

definition adds_node :: "(mem \<Rightarrow> Address set) \<Rightarrow> mem \<Rightarrow> Address \<Rightarrow> mem \<Rightarrow> bool" where
  "adds_node nodes m n m' \<longleftrightarrow> n \<notin> nodes m \<and> nodes m' = insert n (nodes m) \<and> keeps_traced (nodes m) m m'"

definition drops_node :: "(mem \<Rightarrow> Address set) \<Rightarrow> mem \<Rightarrow> Address \<Rightarrow> mem \<Rightarrow> bool" where
  "drops_node nodes m n m' \<longleftrightarrow> nodes m' = nodes m - {n} \<and> keeps_traced (nodes m - {n}) m m'"

text \<open>
  A node can be read; globalizing and copying give a new node with the same object; disposing
  frees one node; moving gives the node of \<open>from\<close> to \<open>to\<close>, whose old node is freed. The two
  operations on slots are only called with different slots, and copying with an empty target.
  The class identifier is part of the node, and the client may write it.
\<close>

definition traced_handles :: "traced_engine \<Rightarrow> (mem \<Rightarrow> Address set) \<Rightarrow> bool" where
  "traced_handles eng nodes \<longleftrightarrow>
     (\<forall>m. 0 \<notin> nodes m) \<and>
     (\<forall>m. \<forall>n\<in>nodes m. class_id m n \<noteq> None) \<and>
     (\<forall>isolate p slot mode m n m'. GlobalizeTracedReference eng isolate p slot mode m = Some (n, m') \<longrightarrow>
        adds_node nodes m n m' \<and> object m' n = object m p) \<and>
     (\<forall>m. \<forall>n\<in>nodes m. \<exists>m'. DisposeTracedReference eng n m = Some m' \<and> drops_node nodes m n m') \<and>
     (\<forall>from to v u s. from \<noteq> to \<longrightarrow> vals s from = Some v \<longrightarrow> vals s to = Some u \<longrightarrow>
        v \<in> insert 0 (nodes (hmem s)) \<longrightarrow> u \<in> insert 0 (nodes (hmem s)) \<longrightarrow>
        (\<exists>t. MoveTracedReference eng from to s = Some t \<and> vals t = (vals s)(to \<mapsto> v, from \<mapsto> 0) \<and>
           drops_node nodes (hmem s) u (hmem t))) \<and>
     (\<forall>from to v s t. vals s from = Some v \<longrightarrow> vals s to = Some 0 \<longrightarrow> v \<in> nodes (hmem s) \<longrightarrow>
        CopyTracedReference eng from to s = Some t \<longrightarrow>
        (\<exists>n. vals t = (vals s)(to \<mapsto> n) \<and> adds_node nodes (hmem s) n (hmem t) \<and>
           object (hmem t) n = object (hmem s) v)) \<and>
     (\<forall>m c m'. \<forall>n\<in>nodes m. store m (n + word_of_int kNodeClassIdOffset) (c :: 16 word) = Some m' \<longrightarrow>
        nodes m' = nodes m)"

lemma traced_facts:
  assumes "traced_handles eng nodes"
  shows "0 \<notin> nodes m"
    "n \<in> nodes m \<Longrightarrow> \<exists>c. class_id m n = Some c"
    "GlobalizeTracedReference eng isolate p slot mode m = Some (n, m') \<Longrightarrow>
       adds_node nodes m n m' \<and> object m' n = object m p"
    "n \<in> nodes m \<Longrightarrow> \<exists>m'. DisposeTracedReference eng n m = Some m' \<and> drops_node nodes m n m'"
    "from \<noteq> to \<Longrightarrow> vals s from = Some v \<Longrightarrow> vals s to = Some u \<Longrightarrow>
       v \<in> insert 0 (nodes (hmem s)) \<Longrightarrow> u \<in> insert 0 (nodes (hmem s)) \<Longrightarrow>
       \<exists>t. MoveTracedReference eng from to s = Some t \<and> vals t = (vals s)(to \<mapsto> v, from \<mapsto> 0) \<and>
         drops_node nodes (hmem s) u (hmem t)"
    "vals s from = Some v \<Longrightarrow> vals s to = Some 0 \<Longrightarrow> v \<in> nodes (hmem s) \<Longrightarrow>
       CopyTracedReference eng from to s = Some t \<Longrightarrow>
       \<exists>n. vals t = (vals s)(to \<mapsto> n) \<and> adds_node nodes (hmem s) n (hmem t) \<and>
         object (hmem t) n = object (hmem s) v"
    "n \<in> nodes m \<Longrightarrow> store m (n + word_of_int kNodeClassIdOffset) (c :: 16 word) = Some m' \<Longrightarrow> nodes m' = nodes m"
proof -
  note g = assms [unfolded traced_handles_def]
  note c2 = g [THEN conjunct2] note c3 = c2 [THEN conjunct2] note c4 = c3 [THEN conjunct2]
  note c5 = c4 [THEN conjunct2] note c6 = c5 [THEN conjunct2] note c7 = c6 [THEN conjunct2]
  show "0 \<notin> nodes m" using g [THEN conjunct1] by blast
  show "\<exists>c. class_id m n = Some c" if "n \<in> nodes m" using c2 [THEN conjunct1] that by blast
  show "adds_node nodes m n m' \<and> object m' n = object m p"
    if "GlobalizeTracedReference eng isolate p slot mode m = Some (n, m')" using c3 [THEN conjunct1] that by blast
  show "\<exists>m'. DisposeTracedReference eng n m = Some m' \<and> drops_node nodes m n m'" if "n \<in> nodes m"
    using c4 [THEN conjunct1] that by blast
  show "\<exists>t. MoveTracedReference eng from to s = Some t \<and> vals t = (vals s)(to \<mapsto> v, from \<mapsto> 0) \<and>
      drops_node nodes (hmem s) u (hmem t)"
    if "from \<noteq> to" "vals s from = Some v" "vals s to = Some u" "v \<in> insert 0 (nodes (hmem s))"
      "u \<in> insert 0 (nodes (hmem s))" using c5 [THEN conjunct1] that by blast
  show "\<exists>n. vals t = (vals s)(to \<mapsto> n) \<and> adds_node nodes (hmem s) n (hmem t) \<and> object (hmem t) n = object (hmem s) v"
    if "vals s from = Some v" "vals s to = Some 0" "v \<in> nodes (hmem s)" "CopyTracedReference eng from to s = Some t"
    using c6 [THEN conjunct1] that by blast
  show "nodes m' = nodes m" if "n \<in> nodes m" "store m (n + word_of_int kNodeClassIdOffset) (c :: 16 word) = Some m'"
    using c7 that by blast
qed

text \<open>A word that could be stored can be read back.\<close>

lemma load_stored:
  assumes "store m a (w :: Address) = Some m'"
  shows "load m' a = Some w"
proof -
  obtain old :: Address where "load m a = Some old" using assms by (auto simp: store_def load_def)
  then show ?thesis using word_cells.rd_wr [of m a old w] assms by auto
qed

subsection \<open>Ownership\<close>

text \<open>The nodes that references hold; without garbage this is the bijection of the other handles.\<close>

definition traced_ok :: "(mem \<Rightarrow> Address set) \<Rightarrow> hstate \<Rightarrow> Address set \<Rightarrow> bool" where
  "traced_ok nodes s g \<longleftrightarrow> handles_ok (\<lambda>m. nodes m - g) s \<and> g \<subseteq> nodes (hmem s)"

lemma traced_okD:
  assumes "traced_ok nodes s g"
  shows "vals s h = Some v \<Longrightarrow> v \<noteq> 0 \<Longrightarrow> v \<in> nodes (hmem s) \<and> v \<notin> g"
    "n \<in> nodes (hmem s) \<Longrightarrow> n \<notin> g \<Longrightarrow> \<exists>h. vals s h = Some n"
    "vals s h = Some v \<Longrightarrow> vals s h' = Some v \<Longrightarrow> v \<noteq> 0 \<Longrightarrow> h = h'"
    "g \<subseteq> nodes (hmem s)"
  using assms handles_okD [of "\<lambda>m. nodes m - g" s] unfolding traced_ok_def by blast+

lemma traced_okI:
  assumes "\<And>h v. vals s h = Some v \<Longrightarrow> v \<noteq> 0 \<Longrightarrow> v \<in> nodes (hmem s) \<and> v \<notin> g"
    "\<And>n. n \<in> nodes (hmem s) \<Longrightarrow> n \<notin> g \<Longrightarrow> \<exists>h. vals s h = Some n"
    "\<And>h h' v. vals s h = Some v \<Longrightarrow> vals s h' = Some v \<Longrightarrow> v \<noteq> 0 \<Longrightarrow> h = h'"
    "g \<subseteq> nodes (hmem s)"
  shows "traced_ok nodes s g"
  using assms unfolding traced_ok_def handles_ok_def by blast

text \<open>
  The ways an operation changes who holds what: a slot gives up its node, an empty or new slot
  gets a new node or stays empty, a node moves between slots, a reference is destroyed, the
  collector takes garbage.
\<close>

lemma free_slot:
  assumes ok: "traced_ok nodes s g" and z: "0 \<notin> nodes (hmem s)" and h: "vals s h = Some v"
    and t: "vals t = (vals s)(h \<mapsto> 0)" "nodes (hmem t) = nodes (hmem s) - {v}"
  shows "traced_ok nodes t g"
proof (rule traced_okI)
  note d = traced_okD [OF ok]
  show "w \<in> nodes (hmem t) \<and> w \<notin> g" if w: "vals t k = Some w" "w \<noteq> 0" for k w
  proof -
    have k: "k \<noteq> h" "vals s k = Some w" using w t(1) by (auto split: if_splits)
    have "w \<noteq> v" using d(3) [OF k(2) _ w(2), of h] h k(1) by blast
    then show ?thesis using d(1) [OF k(2) w(2)] t(2) by simp
  qed
  show "\<exists>k. vals t k = Some n" if n: "n \<in> nodes (hmem t)" "n \<notin> g" for n
  proof -
    obtain k where "vals s k = Some n" using d(2) [of n] n t(2) by auto
    moreover have "n \<noteq> v" using n(1) t(2) by simp
    ultimately have "vals t k = Some n" using h t(1) by auto
    then show ?thesis by blast
  qed
  show "k = k'" if "vals t k = Some w" "vals t k' = Some w" "w \<noteq> 0" for k k' w
    using that t d(3) [of k w k'] by (auto split: if_splits)
  have "v \<notin> g" using d(1) [OF h] z d(4) by (cases "v = 0") auto
  then show "g \<subseteq> nodes (hmem t)" using d(4) t(2) by auto
qed

lemma fill_slot:
  assumes ok: "traced_ok nodes s g" and z: "0 \<notin> nodes (hmem s)" and h: "vals s h = None \<or> vals s h = Some 0"
    and n: "n \<notin> nodes (hmem s)"
    and t: "vals t = (vals s)(h \<mapsto> n)" "nodes (hmem t) = insert n (nodes (hmem s))"
  shows "traced_ok nodes t g"
proof (rule traced_okI)
  note d = traced_okD [OF ok]
  have fresh: "w \<noteq> n" if "vals s k = Some w" "w \<noteq> 0" for k w using d(1) [OF that] n by auto
  show "w \<in> nodes (hmem t) \<and> w \<notin> g" if "vals t k = Some w" "w \<noteq> 0" for k w
    using that t d(1) [of k w] d(4) n by (auto split: if_splits)
  show "\<exists>k. vals t k = Some m" if m: "m \<in> nodes (hmem t)" "m \<notin> g" for m
  proof (cases "m = n")
    case False
    then obtain k where "vals s k = Some m" using d(2) [of m] m t(2) by auto
    then show ?thesis using m t h z False by (intro exI [of _ k]) auto
  qed (auto simp: t)
  show "k = k'" if "vals t k = Some w" "vals t k' = Some w" "w \<noteq> 0" for k k' w
    using that t d(3) [of k w k'] fresh by (auto split: if_splits)
  show "g \<subseteq> nodes (hmem t)" using d(4) t(2) by auto
qed

lemma empty_slot:
  assumes ok: "traced_ok nodes s g" and z: "0 \<notin> nodes (hmem s)" and h: "vals s h = None \<or> vals s h = Some 0"
    and t: "vals t = (vals s)(h \<mapsto> 0)" "nodes (hmem t) = nodes (hmem s)"
  shows "traced_ok nodes t g"
proof (rule traced_okI)
  note d = traced_okD [OF ok]
  show "\<exists>k. vals t k = Some n" if n: "n \<in> nodes (hmem t)" "n \<notin> g" for n
  proof -
    obtain k where "vals s k = Some n" using d(2) [of n] n t(2) by auto
    then show ?thesis using n t h z by (intro exI [of _ k]) auto
  qed
qed (use t traced_okD [OF ok] in \<open>auto split: if_splits\<close>)

lemma move_slot:
  assumes ok: "traced_ok nodes s g" and z: "0 \<notin> nodes (hmem s)" and h: "from \<noteq> to"
    "vals s from = Some v" "vals s to = Some u"
    and t: "vals t = (vals s)(to \<mapsto> v, from \<mapsto> 0)" "nodes (hmem t) = nodes (hmem s) - {u}"
  shows "traced_ok nodes t g"
proof -
  define s1 where "s1 = s\<lparr>vals := (vals s)(to \<mapsto> 0), hmem := hmem t\<rparr>"
  have s1: "traced_ok nodes s1 g" by (rule free_slot [OF ok z h(3)]) (simp_all add: s1_def t)
  note d = traced_okD [OF s1]
  have v: "vals s1 from = Some v" "vals s1 to = Some 0" "hmem s1 = hmem t" "vals t = (vals s1)(to \<mapsto> v, from \<mapsto> 0)"
    using h t by (simp_all add: s1_def)
  show ?thesis
  proof (rule traced_okI)
    show "w \<in> nodes (hmem t) \<and> w \<notin> g" if "vals t k = Some w" "w \<noteq> 0" for k w
      using that v d(1) [of k w] d(1) [of "from" w] by (auto split: if_splits)
    show "\<exists>k. vals t k = Some n" if n: "n \<in> nodes (hmem t)" "n \<notin> g" for n
    proof -
      obtain k where "vals s1 k = Some n" using d(2) [of n] n v(3) by auto
      moreover have "n \<noteq> 0" using n(1) z t(2) by auto
      ultimately have "vals t (if k = from then to else k) = Some n" using v h(1) by auto
      then show ?thesis by blast
    qed
    have orig: "k \<noteq> from \<and> (k = to \<longrightarrow> w = v) \<and> (k \<noteq> to \<longrightarrow> vals s1 k = Some w)"
      if "vals t k = Some w" "w \<noteq> 0" for k w
      using that v(4) h(1) by (auto split: if_splits)
    show "k = k'" if k: "vals t k = Some w" "vals t k' = Some w" "w \<noteq> 0" for k k' w
      using orig [OF k(1,3)] orig [OF k(2,3)] d(3) [OF v(1)] d(3) [of k w k'] v(1) k(3) by metis
    show "g \<subseteq> nodes (hmem t)" using d(4) v(3) by simp
  qed
qed

lemma destroy_slot:
  assumes ok: "traced_ok nodes s g" and z: "0 \<notin> nodes (hmem s)" and h: "vals s h = Some v"
  shows "traced_ok nodes (s\<lparr>vals := (vals s)(h := None)\<rparr>) (if v = 0 then g else insert v g)"
proof (rule traced_okI)
  note d = traced_okD [OF ok]
  show "w \<in> nodes (hmem (s\<lparr>vals := (vals s)(h := None)\<rparr>)) \<and> w \<notin> (if v = 0 then g else insert v g)"
    if w: "vals (s\<lparr>vals := (vals s)(h := None)\<rparr>) k = Some w" "w \<noteq> 0" for k w
  proof -
    have k: "k \<noteq> h" "vals s k = Some w" using w(1) by (auto split: if_splits)
    have "w \<noteq> v" using d(3) [OF k(2) _ w(2), of h] h k(1) by blast
    then show ?thesis using d(1) [OF k(2) w(2)] by simp
  qed
  show "\<exists>k. vals (s\<lparr>vals := (vals s)(h := None)\<rparr>) k = Some n"
    if n: "n \<in> nodes (hmem (s\<lparr>vals := (vals s)(h := None)\<rparr>))" "n \<notin> (if v = 0 then g else insert v g)" for n
  proof -
    obtain k where "vals s k = Some n" using d(2) [of n] n by (auto split: if_splits)
    moreover have "n \<noteq> v" using n z by (auto split: if_splits)
    ultimately show ?thesis using h by (intro exI [of _ k]) auto
  qed
  show "k = k'" if "vals (s\<lparr>vals := (vals s)(h := None)\<rparr>) k = Some w"
    "vals (s\<lparr>vals := (vals s)(h := None)\<rparr>) k' = Some w" "w \<noteq> 0" for k k' w
    using that d(3) [of k w k'] by (auto split: if_splits)
  show "(if v = 0 then g else insert v g) \<subseteq> nodes (hmem (s\<lparr>vals := (vals s)(h := None)\<rparr>))"
    using d(1) [OF h] d(4) by auto
qed

lemma collect_garbage:
  assumes ok: "traced_ok nodes s g" and v: "v \<in> g"
    and t: "vals t = vals s" "nodes (hmem t) = nodes (hmem s) - {v}"
  shows "traced_ok nodes t (g - {v})"
proof (rule traced_okI)
  note d = traced_okD [OF ok]
  show "w \<in> nodes (hmem t) \<and> w \<notin> g - {v}" if "vals t k = Some w" "w \<noteq> 0" for k w
    using that t d(1) [of k w] v by auto
  show "\<exists>k. vals t k = Some n" if "n \<in> nodes (hmem t)" "n \<notin> g - {v}" for n
    using that t d(2) [of n] by auto
  show "g - {v} \<subseteq> nodes (hmem t)" using d(4) t(2) by auto
qed (use t traced_okD(3) [OF ok] in auto)

subsection \<open>The operations\<close>

lemma TR_Reset_ok:
  assumes e: "traced_handles eng nodes" and ok: "traced_ok nodes s g" and h: "vals s h = Some v"
  shows "\<exists>t. TR_Reset eng h s = Some t \<and> vals t = (vals s)(h \<mapsto> 0) \<and> drops_node nodes (hmem s) v (hmem t) \<and>
    traced_ok nodes t g"
proof (cases "v = 0")
  case True
  then have "(vals s)(h \<mapsto> 0) = vals s" using h by (simp add: fun_upd_idem)
  then show ?thesis using True h ok traced_facts(1) [OF e, of "hmem s"]
    by (simp add: TR_Reset_def TR_IsEmpty_def drops_node_def keeps_traced_def)
next
  case False
  then obtain m where m: "DisposeTracedReference eng v (hmem s) = Some m" "drops_node nodes (hmem s) v m"
    using traced_facts(4) [OF e] traced_okD(1) [OF ok h] by blast
  define t where "t = set_val h 0 (s\<lparr>hmem := m\<rparr>)"
  have t: "vals t = (vals s)(h \<mapsto> 0)" "hmem t = m" by (simp_all add: t_def)
  have "traced_ok nodes t g"
    using free_slot [OF ok traced_facts(1) [OF e] h t(1)] m(2) t(2) by (simp add: drops_node_def)
  then show ?thesis using False h m t
    by (simp add: TR_Reset_def TR_IsEmpty_def TR_SetSlotThreadSafe_def t_def)
qed

lemma TR_Reset_result:
  assumes "traced_handles eng nodes" "traced_ok nodes s g" "TR_Reset eng h s = Some t"
  shows "\<exists>v. vals s h = Some v \<and> vals t = (vals s)(h \<mapsto> 0) \<and> drops_node nodes (hmem s) v (hmem t) \<and> traced_ok nodes t g"
proof -
  obtain v where "vals s h = Some v" using assms(3) by (auto simp: TR_Reset_def elim!: bind_eq_SomeE)
  then show ?thesis using TR_Reset_ok [OF assms(1,2)] assms(3) by fastforce
qed

lemma fill_new_ok:
  assumes e: "traced_handles eng nodes" and ok: "traced_ok nodes s g" and h: "vals s h = None \<or> vals s h = Some 0"
    and n: "BTR_New eng isolate p h mode s = Some (n, u)"
  shows "traced_ok nodes (set_val h n u) g"
proof (cases "p = 0")
  case True
  then show ?thesis
    using n empty_slot [OF ok traced_facts(1) [OF e] h, of "set_val h 0 s"] by (simp add: BTR_New_def)
next
  case False
  then obtain m where m: "GlobalizeTracedReference eng isolate p h mode (hmem s) = Some (n, m)" "u = s\<lparr>hmem := m\<rparr>"
    using n by (auto simp: BTR_New_def elim!: bind_eq_SomeE)
  have "adds_node nodes (hmem s) n m" using traced_facts(3) [OF e m(1)] by blast
  then show ?thesis
    using fill_slot [OF ok traced_facts(1) [OF e] h, of n "set_val h n u"] m(2) by (simp add: adds_node_def)
qed

lemma TR_move_ok:
  assumes e: "traced_handles eng nodes" and ok: "traced_ok nodes s g" and h: "vals s h = Some u" "vals s h' = Some v"
    and ne: "h \<noteq> h'"
  shows "\<exists>t. TR_move eng h h' s = Some t \<and> vals t = (vals s)(h \<mapsto> v, h' \<mapsto> 0) \<and>
    drops_node nodes (hmem s) u (hmem t) \<and> traced_ok nodes t g"
proof -
  have d: "u \<in> insert 0 (nodes (hmem s))" "v \<in> insert 0 (nodes (hmem s))"
    using traced_okD(1) [OF ok h(1)] traced_okD(1) [OF ok h(2)] by auto
  obtain t where t: "MoveTracedReference eng h' h s = Some t" "vals t = (vals s)(h \<mapsto> v, h' \<mapsto> 0)"
    "drops_node nodes (hmem s) u (hmem t)"
    using traced_facts(5) [OF e ne [symmetric] h(2,1) d(2,1)] by blast
  have "traced_ok nodes t g"
    using move_slot [OF ok traced_facts(1) [OF e] ne [symmetric] h(2,1) t(2)] t(3) by (simp add: drops_node_def)
  then show ?thesis using t ne by (simp add: TR_move_def)
qed

lemma TR_copy_result:
  assumes e: "traced_handles eng nodes" and ok: "traced_ok nodes s g" and h: "vals s h = Some u" "vals s h' = Some v"
    and ne: "h \<noteq> h'" and t: "TR_copy eng h h' s = Some t"
  shows "traced_ok nodes t g \<and> (\<exists>n m. vals t = (vals s)(h \<mapsto> n) \<and> drops_node nodes (hmem s) u m \<and>
    (if v = 0 then n = 0 \<and> hmem t = m else adds_node nodes m n (hmem t) \<and> object (hmem t) n = object m v))"
proof -
  obtain r where r: "TR_Reset eng h s = Some r" "vals r = (vals s)(h \<mapsto> 0)" "drops_node nodes (hmem s) u (hmem r)"
    "traced_ok nodes r g"
    using TR_Reset_ok [OF e ok h(1)] by blast
  show ?thesis
  proof (cases "v = 0")
    case True
    then have "t = r" using t r h ne by (simp add: TR_copy_def)
    then show ?thesis using r True by auto
  next
    case False
    have copy: "CopyTracedReference eng h' h r = Some t" using t r h ne False by (simp add: TR_copy_def)
    have v: "vals r h' = Some v" "vals r h = Some 0" using r(2) h ne by simp_all
    obtain n where n: "vals t = (vals r)(h \<mapsto> n)" "adds_node nodes (hmem r) n (hmem t)"
      "object (hmem t) n = object (hmem r) v"
      using traced_facts(6) [OF e v _ copy] traced_okD(1) [OF r(4) v(1) False] by blast
    have "traced_ok nodes t g"
      using fill_slot [OF r(4) traced_facts(1) [OF e], of h n t] v(2) n(1,2) by (simp add: adds_node_def)
    then show ?thesis using n r False by auto
  qed
qed

text \<open>An assignment that completes, whichever objects it names, keeps the invariant.\<close>

lemma TR_assign_ok:
  assumes e: "traced_handles eng nodes" and ok: "traced_ok nodes s g" and h: "vals s h = Some u" "vals s h' = Some v"
  shows "TR_move eng h h' s = Some t \<Longrightarrow> traced_ok nodes t g" "TR_copy eng h h' s = Some t \<Longrightarrow> traced_ok nodes t g"
proof -
  show "traced_ok nodes t g" if m: "TR_move eng h h' s = Some t"
    using TR_move_ok [OF e ok h] m ok by (cases "h = h'") (auto simp: TR_move_def)
  show "traced_ok nodes t g" if c: "TR_copy eng h h' s = Some t"
    using TR_copy_result [OF e ok h _ c] c ok by (cases "h = h'") (auto simp: TR_copy_def)
qed

lemma TR_new_ok:
  assumes e: "traced_handles eng nodes" and ok: "traced_ok nodes s g" and h: "vals s h = None"
  shows "traced_ok nodes (TR_new h s) g" "vals (TR_new h s) = (vals s)(h \<mapsto> 0)"
  using empty_slot [OF ok traced_facts(1) [OF e], of h "TR_new h s"] h by (simp_all add: TR_new_def)

lemma TR_class_ok:
  assumes e: "traced_handles eng nodes" and ok: "traced_ok nodes s g" and h: "vals s h = Some v"
  shows "\<exists>t. TR_SetWrapperClassId h c s = Some t \<and> vals t = vals s \<and> nodes (hmem t) = nodes (hmem s) \<and>
    TR_WrapperClassId h t = Some (if v = 0 then 0 else c)"
proof (cases "v = 0")
  case False
  then have n: "v \<in> nodes (hmem s)" using traced_okD(1) [OF ok h] by blast
  obtain old where "class_id (hmem s) v = Some old" using traced_facts(2) [OF e n] by blast
  then obtain m where m: "store (hmem s) (v + word_of_int kNodeClassIdOffset) c = Some m" "class_id m v = Some c"
    using load_store [where 'a = 16, of "hmem s" "v + word_of_int kNodeClassIdOffset" old c] by auto
  have "nodes m = nodes (hmem s)" by (rule traced_facts(7) [OF e n m(1)])
  then show ?thesis using False h m by (simp add: TR_SetWrapperClassId_def TR_WrapperClassId_def TR_IsEmpty_def)
qed (use h in \<open>simp add: TR_SetWrapperClassId_def TR_WrapperClassId_def TR_IsEmpty_def\<close>)

lemma traced_ok_cong: "vals t = vals s \<Longrightarrow> nodes (hmem t) = nodes (hmem s) \<Longrightarrow> traced_ok nodes s g \<Longrightarrow> traced_ok nodes t g"
  by (simp add: traced_ok_def handles_ok_def)

subsection \<open>Programs over references\<close>

text \<open>
  One step of a client or of the collector. The client names existing references, constructs
  new ones where there is none, and destroys references without a destructor; the collector may
  take any node that no reference holds any more.
\<close>

inductive traced_step :: "traced_engine \<Rightarrow> hstate \<times> Address set \<Rightarrow> hstate \<times> Address set \<Rightarrow> bool" for eng where
  new: "vals s h = None \<Longrightarrow> traced_step eng (s, g) (TR_new h s, g)"
| new_local: "vals s h = None \<Longrightarrow> TR_new_Local eng isolate h p s = Some t \<Longrightarrow> traced_step eng (s, g) (t, g)"
| new_move: "vals s h = None \<Longrightarrow> vals s h' \<noteq> None \<Longrightarrow> TR_new_move eng h h' s = Some t \<Longrightarrow> traced_step eng (s, g) (t, g)"
| new_copy: "vals s h = None \<Longrightarrow> vals s h' \<noteq> None \<Longrightarrow> TR_new_copy eng h h' s = Some t \<Longrightarrow> traced_step eng (s, g) (t, g)"
| reset: "TR_Reset eng h s = Some t \<Longrightarrow> traced_step eng (s, g) (t, g)"
| reset_local: "TR_Reset_Local eng isolate h p s = Some t \<Longrightarrow> traced_step eng (s, g) (t, g)"
| move: "vals s h \<noteq> None \<Longrightarrow> vals s h' \<noteq> None \<Longrightarrow> TR_move_S eng h h' s = Some t \<Longrightarrow> traced_step eng (s, g) (t, g)"
| copy: "vals s h \<noteq> None \<Longrightarrow> vals s h' \<noteq> None \<Longrightarrow> TR_copy_S eng h h' s = Some t \<Longrightarrow> traced_step eng (s, g) (t, g)"
| set_class: "TR_SetWrapperClassId h c s = Some t \<Longrightarrow> traced_step eng (s, g) (t, g)"
| destroy: "vals s h = Some v \<Longrightarrow>
    traced_step eng (s, g) (s\<lparr>vals := (vals s)(h := None)\<rparr>, if v = 0 then g else insert v g)"
| collect: "v \<in> g \<Longrightarrow> DisposeTracedReference eng v (hmem s) = Some m \<Longrightarrow>
    traced_step eng (s, g) (s\<lparr>hmem := m\<rparr>, g - {v})"

inductive traced_reach :: "traced_engine \<Rightarrow> hstate \<times> Address set \<Rightarrow> hstate \<times> Address set \<Rightarrow> bool" for eng a where
  start: "traced_reach eng a a"
| step: "traced_reach eng a b \<Longrightarrow> traced_step eng b c \<Longrightarrow> traced_reach eng a c"

lemma traced_step_ok:
  assumes e: "traced_handles eng nodes" and st: "traced_step eng a b" and ok: "traced_ok nodes (fst a) (snd a)"
  shows "traced_ok nodes (fst b) (snd b)"
  using st ok
proof cases
  case (new s h g)
  then show ?thesis using TR_new_ok(1) [OF e] ok by simp
next
  case (new_local s h isolate p t g)
  then obtain n u where "BTR_New eng isolate p h kInitializingStore (TR_new h s) = Some (n, u)" "t = set_val h n u"
    by (auto simp: TR_new_Local_def elim!: bind_eq_SomeE)
  then show ?thesis using fill_new_ok [OF e TR_new_ok(1) [OF e _ new_local(3)]] TR_new_ok(2) [OF e _ new_local(3)] ok new_local
    by simp
next
  case (new_move s h h' t g)
  have "traced_ok nodes s g" using ok new_move by simp
  note n = TR_new_ok [OF e this new_move(3)]
  obtain v where "vals (TR_new h s) h' = Some v" using n(2) new_move(3,4) by (cases "h' = h") auto
  moreover have "vals (TR_new h s) h = Some 0" using n(2) by simp
  ultimately show ?thesis using TR_assign_ok(1) [OF e n(1)] new_move by (simp add: TR_new_move_def)
next
  case (new_copy s h h' t g)
  have "traced_ok nodes s g" using ok new_copy by simp
  note n = TR_new_ok [OF e this new_copy(3)]
  obtain v where "vals (TR_new h s) h' = Some v" using n(2) new_copy(3,4) by (cases "h' = h") auto
  moreover have "vals (TR_new h s) h = Some 0" using n(2) by simp
  ultimately show ?thesis using TR_assign_ok(2) [OF e n(1)] new_copy by (simp add: TR_new_copy_def)
next
  case (reset h s t g)
  then show ?thesis using TR_Reset_result [OF e _ reset(3)] ok by auto
next
  case (reset_local isolate h p s t g)
  then obtain r where r: "TR_Reset eng h s = Some r"
    "t = r \<or> (\<exists>n u. BTR_New eng isolate p h kAssigningStore r = Some (n, u) \<and> t = set_val h n u)"
    by (auto simp: TR_Reset_Local_def TR_SetSlotThreadSafe_def split: if_splits elim!: bind_eq_SomeE)
  have "traced_ok nodes s g" using ok reset_local by simp
  then have "traced_ok nodes r g" "vals r h = Some 0" using TR_Reset_result [OF e _ r(1), of g] by force+
  then show ?thesis using r(2) fill_new_ok [OF e] reset_local by auto
next
  case (move s h h' t g)
  then show ?thesis using TR_assign_ok(1) [OF e, of s g h _ h'] ok by (auto simp: TR_move_S_def TR_As_def)
next
  case (copy s h h' t g)
  then show ?thesis using TR_assign_ok(2) [OF e, of s g h _ h'] ok by (auto simp: TR_copy_S_def TR_As_def)
next
  case (set_class h c s t g)
  then obtain v where "vals s h = Some v" by (auto simp: TR_SetWrapperClassId_def elim!: bind_eq_SomeE)
  then show ?thesis using TR_class_ok [OF e, of s g h v c] set_class ok by (auto intro: traced_ok_cong)
next
  case (destroy s h v g)
  then show ?thesis using destroy_slot [OF _ traced_facts(1) [OF e] destroy(3)] ok by simp
next
  case (collect v g s m)
  then have v: "v \<in> nodes (hmem s)" using traced_okD(4) [of nodes s g] ok by auto
  then have "drops_node nodes (hmem s) v m" using traced_facts(4) [OF e v] collect by auto
  then show ?thesis using collect_garbage [of nodes s g v "s\<lparr>hmem := m\<rparr>"] collect ok by (simp add: drops_node_def)
qed

lemma traced_reach_ok:
  assumes "traced_handles eng nodes" "traced_reach eng a b" "traced_ok nodes (fst a) (snd a)"
  shows "traced_ok nodes (fst b) (snd b)"
  using assms(2) by induction (use assms(3) traced_step_ok [OF assms(1)] in auto)

end
