(* ===== verification/V8TracedTheorems.thy ===== *)
theory V8TracedTheorems
  imports V8TracedOwnership
begin

text \<open>
  The properties of traced references. The witnesses run on \<open>pool_engine\<close>, which satisfies
  the contract of the exported functions.
\<close>

subsection \<open>An engine with room for two nodes\<close>

















subsection \<open>The properties\<close>





end
