(* ===== verification/TlsCiphers.thy ===== *)
theory TlsCiphers
  imports Main
begin

text \<open>
  The cipher suites of \<open>openssl/ssl3.h\<close> and \<open>openssl/tls1.h\<close>: for each suite the macro
  \<open>..._CK_<suite>\<close> with its number, \<open>..._TXT_<suite>\<close> with OpenSSL's name and \<open>..._RFC_<suite>\<close>
  with the name of the standard. The tables have the entries in the order of the headers, a part
  of a table per definition. A number defined as another macro (\<open>SSL3_CK_EDH_x\<close> as
  \<open>SSL3_CK_DHE_x\<close>) has the number of that macro.
\<close>

subsection \<open>Numbers\<close>

definition SSL3_CK :: "(string \<times> int) list" where
  "SSL3_CK = [
    (''SCSV'', 0x030000FF), (''FALLBACK_SCSV'', 0x03005600), (''RSA_NULL_MD5'', 0x03000001),
    (''RSA_NULL_SHA'', 0x03000002), (''RSA_RC4_40_MD5'', 0x03000003), (''RSA_RC4_128_MD5'', 0x03000004),
    (''RSA_RC4_128_SHA'', 0x03000005), (''RSA_RC2_40_MD5'', 0x03000006), (''RSA_IDEA_128_SHA'', 0x03000007),
    (''RSA_DES_40_CBC_SHA'', 0x03000008), (''RSA_DES_64_CBC_SHA'', 0x03000009),
    (''RSA_DES_192_CBC3_SHA'', 0x0300000A), (''DH_DSS_DES_40_CBC_SHA'', 0x0300000B),
    (''DH_DSS_DES_64_CBC_SHA'', 0x0300000C), (''DH_DSS_DES_192_CBC3_SHA'', 0x0300000D),
    (''DH_RSA_DES_40_CBC_SHA'', 0x0300000E), (''DH_RSA_DES_64_CBC_SHA'', 0x0300000F),
    (''DH_RSA_DES_192_CBC3_SHA'', 0x03000010), (''DHE_DSS_DES_40_CBC_SHA'', 0x03000011),
    (''EDH_DSS_DES_40_CBC_SHA'', 0x03000011), (''DHE_DSS_DES_64_CBC_SHA'', 0x03000012),
    (''EDH_DSS_DES_64_CBC_SHA'', 0x03000012), (''DHE_DSS_DES_192_CBC3_SHA'', 0x03000013),
    (''EDH_DSS_DES_192_CBC3_SHA'', 0x03000013), (''DHE_RSA_DES_40_CBC_SHA'', 0x03000014),
    (''EDH_RSA_DES_40_CBC_SHA'', 0x03000014), (''DHE_RSA_DES_64_CBC_SHA'', 0x03000015),
    (''EDH_RSA_DES_64_CBC_SHA'', 0x03000015), (''DHE_RSA_DES_192_CBC3_SHA'', 0x03000016),
    (''EDH_RSA_DES_192_CBC3_SHA'', 0x03000016), (''ADH_RC4_40_MD5'', 0x03000017),
    (''ADH_RC4_128_MD5'', 0x03000018), (''ADH_DES_40_CBC_SHA'', 0x03000019),
    (''ADH_DES_64_CBC_SHA'', 0x0300001A), (''ADH_DES_192_CBC_SHA'', 0x0300001B)]"

definition TLS1_CK_1 :: "(string \<times> int) list" where
  "TLS1_CK_1 = [
    (''PSK_WITH_RC4_128_SHA'', 0x0300008A), (''PSK_WITH_3DES_EDE_CBC_SHA'', 0x0300008B),
    (''PSK_WITH_AES_128_CBC_SHA'', 0x0300008C), (''PSK_WITH_AES_256_CBC_SHA'', 0x0300008D),
    (''DHE_PSK_WITH_RC4_128_SHA'', 0x0300008E), (''DHE_PSK_WITH_3DES_EDE_CBC_SHA'', 0x0300008F),
    (''DHE_PSK_WITH_AES_128_CBC_SHA'', 0x03000090), (''DHE_PSK_WITH_AES_256_CBC_SHA'', 0x03000091),
    (''RSA_PSK_WITH_RC4_128_SHA'', 0x03000092), (''RSA_PSK_WITH_3DES_EDE_CBC_SHA'', 0x03000093),
    (''RSA_PSK_WITH_AES_128_CBC_SHA'', 0x03000094), (''RSA_PSK_WITH_AES_256_CBC_SHA'', 0x03000095),
    (''PSK_WITH_AES_128_GCM_SHA256'', 0x030000A8), (''PSK_WITH_AES_256_GCM_SHA384'', 0x030000A9),
    (''DHE_PSK_WITH_AES_128_GCM_SHA256'', 0x030000AA), (''DHE_PSK_WITH_AES_256_GCM_SHA384'', 0x030000AB),
    (''RSA_PSK_WITH_AES_128_GCM_SHA256'', 0x030000AC), (''RSA_PSK_WITH_AES_256_GCM_SHA384'', 0x030000AD),
    (''PSK_WITH_AES_128_CBC_SHA256'', 0x030000AE), (''PSK_WITH_AES_256_CBC_SHA384'', 0x030000AF),
    (''PSK_WITH_NULL_SHA256'', 0x030000B0), (''PSK_WITH_NULL_SHA384'', 0x030000B1),
    (''DHE_PSK_WITH_AES_128_CBC_SHA256'', 0x030000B2), (''DHE_PSK_WITH_AES_256_CBC_SHA384'', 0x030000B3),
    (''DHE_PSK_WITH_NULL_SHA256'', 0x030000B4), (''DHE_PSK_WITH_NULL_SHA384'', 0x030000B5),
    (''RSA_PSK_WITH_AES_128_CBC_SHA256'', 0x030000B6), (''RSA_PSK_WITH_AES_256_CBC_SHA384'', 0x030000B7),
    (''RSA_PSK_WITH_NULL_SHA256'', 0x030000B8), (''RSA_PSK_WITH_NULL_SHA384'', 0x030000B9),
    (''PSK_WITH_NULL_SHA'', 0x0300002C), (''DHE_PSK_WITH_NULL_SHA'', 0x0300002D),
    (''RSA_PSK_WITH_NULL_SHA'', 0x0300002E), (''RSA_WITH_AES_128_SHA'', 0x0300002F),
    (''DH_DSS_WITH_AES_128_SHA'', 0x03000030), (''DH_RSA_WITH_AES_128_SHA'', 0x03000031),
    (''DHE_DSS_WITH_AES_128_SHA'', 0x03000032), (''DHE_RSA_WITH_AES_128_SHA'', 0x03000033),
    (''ADH_WITH_AES_128_SHA'', 0x03000034), (''RSA_WITH_AES_256_SHA'', 0x03000035),
    (''DH_DSS_WITH_AES_256_SHA'', 0x03000036), (''DH_RSA_WITH_AES_256_SHA'', 0x03000037),
    (''DHE_DSS_WITH_AES_256_SHA'', 0x03000038), (''DHE_RSA_WITH_AES_256_SHA'', 0x03000039),
    (''ADH_WITH_AES_256_SHA'', 0x0300003A), (''RSA_WITH_NULL_SHA256'', 0x0300003B),
    (''RSA_WITH_AES_128_SHA256'', 0x0300003C), (''RSA_WITH_AES_256_SHA256'', 0x0300003D),
    (''DH_DSS_WITH_AES_128_SHA256'', 0x0300003E), (''DH_RSA_WITH_AES_128_SHA256'', 0x0300003F)]"

definition TLS1_CK_2 :: "(string \<times> int) list" where
  "TLS1_CK_2 = [
    (''DHE_DSS_WITH_AES_128_SHA256'', 0x03000040), (''RSA_WITH_CAMELLIA_128_CBC_SHA'', 0x03000041),
    (''DH_DSS_WITH_CAMELLIA_128_CBC_SHA'', 0x03000042), (''DH_RSA_WITH_CAMELLIA_128_CBC_SHA'', 0x03000043),
    (''DHE_DSS_WITH_CAMELLIA_128_CBC_SHA'', 0x03000044), (''DHE_RSA_WITH_CAMELLIA_128_CBC_SHA'', 0x03000045),
    (''ADH_WITH_CAMELLIA_128_CBC_SHA'', 0x03000046), (''DHE_RSA_WITH_AES_128_SHA256'', 0x03000067),
    (''DH_DSS_WITH_AES_256_SHA256'', 0x03000068), (''DH_RSA_WITH_AES_256_SHA256'', 0x03000069),
    (''DHE_DSS_WITH_AES_256_SHA256'', 0x0300006A), (''DHE_RSA_WITH_AES_256_SHA256'', 0x0300006B),
    (''ADH_WITH_AES_128_SHA256'', 0x0300006C), (''ADH_WITH_AES_256_SHA256'', 0x0300006D),
    (''RSA_WITH_CAMELLIA_256_CBC_SHA'', 0x03000084), (''DH_DSS_WITH_CAMELLIA_256_CBC_SHA'', 0x03000085),
    (''DH_RSA_WITH_CAMELLIA_256_CBC_SHA'', 0x03000086), (''DHE_DSS_WITH_CAMELLIA_256_CBC_SHA'', 0x03000087),
    (''DHE_RSA_WITH_CAMELLIA_256_CBC_SHA'', 0x03000088), (''ADH_WITH_CAMELLIA_256_CBC_SHA'', 0x03000089),
    (''RSA_WITH_SEED_SHA'', 0x03000096), (''DH_DSS_WITH_SEED_SHA'', 0x03000097),
    (''DH_RSA_WITH_SEED_SHA'', 0x03000098), (''DHE_DSS_WITH_SEED_SHA'', 0x03000099),
    (''DHE_RSA_WITH_SEED_SHA'', 0x0300009A), (''ADH_WITH_SEED_SHA'', 0x0300009B),
    (''RSA_WITH_AES_128_GCM_SHA256'', 0x0300009C), (''RSA_WITH_AES_256_GCM_SHA384'', 0x0300009D),
    (''DHE_RSA_WITH_AES_128_GCM_SHA256'', 0x0300009E), (''DHE_RSA_WITH_AES_256_GCM_SHA384'', 0x0300009F),
    (''DH_RSA_WITH_AES_128_GCM_SHA256'', 0x030000A0), (''DH_RSA_WITH_AES_256_GCM_SHA384'', 0x030000A1),
    (''DHE_DSS_WITH_AES_128_GCM_SHA256'', 0x030000A2), (''DHE_DSS_WITH_AES_256_GCM_SHA384'', 0x030000A3),
    (''DH_DSS_WITH_AES_128_GCM_SHA256'', 0x030000A4), (''DH_DSS_WITH_AES_256_GCM_SHA384'', 0x030000A5),
    (''ADH_WITH_AES_128_GCM_SHA256'', 0x030000A6), (''ADH_WITH_AES_256_GCM_SHA384'', 0x030000A7),
    (''RSA_WITH_AES_128_CCM'', 0x0300C09C), (''RSA_WITH_AES_256_CCM'', 0x0300C09D),
    (''DHE_RSA_WITH_AES_128_CCM'', 0x0300C09E), (''DHE_RSA_WITH_AES_256_CCM'', 0x0300C09F),
    (''RSA_WITH_AES_128_CCM_8'', 0x0300C0A0), (''RSA_WITH_AES_256_CCM_8'', 0x0300C0A1),
    (''DHE_RSA_WITH_AES_128_CCM_8'', 0x0300C0A2), (''DHE_RSA_WITH_AES_256_CCM_8'', 0x0300C0A3),
    (''PSK_WITH_AES_128_CCM'', 0x0300C0A4), (''PSK_WITH_AES_256_CCM'', 0x0300C0A5),
    (''DHE_PSK_WITH_AES_128_CCM'', 0x0300C0A6), (''DHE_PSK_WITH_AES_256_CCM'', 0x0300C0A7)]"

definition TLS1_CK_3 :: "(string \<times> int) list" where
  "TLS1_CK_3 = [
    (''PSK_WITH_AES_128_CCM_8'', 0x0300C0A8), (''PSK_WITH_AES_256_CCM_8'', 0x0300C0A9),
    (''DHE_PSK_WITH_AES_128_CCM_8'', 0x0300C0AA), (''DHE_PSK_WITH_AES_256_CCM_8'', 0x0300C0AB),
    (''ECDHE_ECDSA_WITH_AES_128_CCM'', 0x0300C0AC), (''ECDHE_ECDSA_WITH_AES_256_CCM'', 0x0300C0AD),
    (''ECDHE_ECDSA_WITH_AES_128_CCM_8'', 0x0300C0AE), (''ECDHE_ECDSA_WITH_AES_256_CCM_8'', 0x0300C0AF),
    (''RSA_WITH_CAMELLIA_128_CBC_SHA256'', 0x030000BA), (''DH_DSS_WITH_CAMELLIA_128_CBC_SHA256'', 0x030000BB),
    (''DH_RSA_WITH_CAMELLIA_128_CBC_SHA256'', 0x030000BC),
    (''DHE_DSS_WITH_CAMELLIA_128_CBC_SHA256'', 0x030000BD),
    (''DHE_RSA_WITH_CAMELLIA_128_CBC_SHA256'', 0x030000BE), (''ADH_WITH_CAMELLIA_128_CBC_SHA256'', 0x030000BF),
    (''RSA_WITH_CAMELLIA_256_CBC_SHA256'', 0x030000C0), (''DH_DSS_WITH_CAMELLIA_256_CBC_SHA256'', 0x030000C1),
    (''DH_RSA_WITH_CAMELLIA_256_CBC_SHA256'', 0x030000C2),
    (''DHE_DSS_WITH_CAMELLIA_256_CBC_SHA256'', 0x030000C3),
    (''DHE_RSA_WITH_CAMELLIA_256_CBC_SHA256'', 0x030000C4), (''ADH_WITH_CAMELLIA_256_CBC_SHA256'', 0x030000C5),
    (''ECDH_ECDSA_WITH_NULL_SHA'', 0x0300C001), (''ECDH_ECDSA_WITH_RC4_128_SHA'', 0x0300C002),
    (''ECDH_ECDSA_WITH_DES_192_CBC3_SHA'', 0x0300C003), (''ECDH_ECDSA_WITH_AES_128_CBC_SHA'', 0x0300C004),
    (''ECDH_ECDSA_WITH_AES_256_CBC_SHA'', 0x0300C005), (''ECDHE_ECDSA_WITH_NULL_SHA'', 0x0300C006),
    (''ECDHE_ECDSA_WITH_RC4_128_SHA'', 0x0300C007), (''ECDHE_ECDSA_WITH_DES_192_CBC3_SHA'', 0x0300C008),
    (''ECDHE_ECDSA_WITH_AES_128_CBC_SHA'', 0x0300C009), (''ECDHE_ECDSA_WITH_AES_256_CBC_SHA'', 0x0300C00A),
    (''ECDH_RSA_WITH_NULL_SHA'', 0x0300C00B), (''ECDH_RSA_WITH_RC4_128_SHA'', 0x0300C00C),
    (''ECDH_RSA_WITH_DES_192_CBC3_SHA'', 0x0300C00D), (''ECDH_RSA_WITH_AES_128_CBC_SHA'', 0x0300C00E),
    (''ECDH_RSA_WITH_AES_256_CBC_SHA'', 0x0300C00F), (''ECDHE_RSA_WITH_NULL_SHA'', 0x0300C010),
    (''ECDHE_RSA_WITH_RC4_128_SHA'', 0x0300C011), (''ECDHE_RSA_WITH_DES_192_CBC3_SHA'', 0x0300C012),
    (''ECDHE_RSA_WITH_AES_128_CBC_SHA'', 0x0300C013), (''ECDHE_RSA_WITH_AES_256_CBC_SHA'', 0x0300C014),
    (''ECDH_anon_WITH_NULL_SHA'', 0x0300C015), (''ECDH_anon_WITH_RC4_128_SHA'', 0x0300C016),
    (''ECDH_anon_WITH_DES_192_CBC3_SHA'', 0x0300C017), (''ECDH_anon_WITH_AES_128_CBC_SHA'', 0x0300C018),
    (''ECDH_anon_WITH_AES_256_CBC_SHA'', 0x0300C019), (''SRP_SHA_WITH_3DES_EDE_CBC_SHA'', 0x0300C01A),
    (''SRP_SHA_RSA_WITH_3DES_EDE_CBC_SHA'', 0x0300C01B), (''SRP_SHA_DSS_WITH_3DES_EDE_CBC_SHA'', 0x0300C01C),
    (''SRP_SHA_WITH_AES_128_CBC_SHA'', 0x0300C01D), (''SRP_SHA_RSA_WITH_AES_128_CBC_SHA'', 0x0300C01E)]"

definition TLS1_CK_4 :: "(string \<times> int) list" where
  "TLS1_CK_4 = [
    (''SRP_SHA_DSS_WITH_AES_128_CBC_SHA'', 0x0300C01F), (''SRP_SHA_WITH_AES_256_CBC_SHA'', 0x0300C020),
    (''SRP_SHA_RSA_WITH_AES_256_CBC_SHA'', 0x0300C021), (''SRP_SHA_DSS_WITH_AES_256_CBC_SHA'', 0x0300C022),
    (''ECDHE_ECDSA_WITH_AES_128_SHA256'', 0x0300C023), (''ECDHE_ECDSA_WITH_AES_256_SHA384'', 0x0300C024),
    (''ECDH_ECDSA_WITH_AES_128_SHA256'', 0x0300C025), (''ECDH_ECDSA_WITH_AES_256_SHA384'', 0x0300C026),
    (''ECDHE_RSA_WITH_AES_128_SHA256'', 0x0300C027), (''ECDHE_RSA_WITH_AES_256_SHA384'', 0x0300C028),
    (''ECDH_RSA_WITH_AES_128_SHA256'', 0x0300C029), (''ECDH_RSA_WITH_AES_256_SHA384'', 0x0300C02A),
    (''ECDHE_ECDSA_WITH_AES_128_GCM_SHA256'', 0x0300C02B),
    (''ECDHE_ECDSA_WITH_AES_256_GCM_SHA384'', 0x0300C02C), (''ECDH_ECDSA_WITH_AES_128_GCM_SHA256'', 0x0300C02D),
    (''ECDH_ECDSA_WITH_AES_256_GCM_SHA384'', 0x0300C02E), (''ECDHE_RSA_WITH_AES_128_GCM_SHA256'', 0x0300C02F),
    (''ECDHE_RSA_WITH_AES_256_GCM_SHA384'', 0x0300C030), (''ECDH_RSA_WITH_AES_128_GCM_SHA256'', 0x0300C031),
    (''ECDH_RSA_WITH_AES_256_GCM_SHA384'', 0x0300C032), (''ECDHE_PSK_WITH_RC4_128_SHA'', 0x0300C033),
    (''ECDHE_PSK_WITH_3DES_EDE_CBC_SHA'', 0x0300C034), (''ECDHE_PSK_WITH_AES_128_CBC_SHA'', 0x0300C035),
    (''ECDHE_PSK_WITH_AES_256_CBC_SHA'', 0x0300C036), (''ECDHE_PSK_WITH_AES_128_CBC_SHA256'', 0x0300C037),
    (''ECDHE_PSK_WITH_AES_256_CBC_SHA384'', 0x0300C038), (''ECDHE_PSK_WITH_NULL_SHA'', 0x0300C039),
    (''ECDHE_PSK_WITH_NULL_SHA256'', 0x0300C03A), (''ECDHE_PSK_WITH_NULL_SHA384'', 0x0300C03B),
    (''ECDHE_ECDSA_WITH_CAMELLIA_128_CBC_SHA256'', 0x0300C072),
    (''ECDHE_ECDSA_WITH_CAMELLIA_256_CBC_SHA384'', 0x0300C073),
    (''ECDH_ECDSA_WITH_CAMELLIA_128_CBC_SHA256'', 0x0300C074),
    (''ECDH_ECDSA_WITH_CAMELLIA_256_CBC_SHA384'', 0x0300C075),
    (''ECDHE_RSA_WITH_CAMELLIA_128_CBC_SHA256'', 0x0300C076),
    (''ECDHE_RSA_WITH_CAMELLIA_256_CBC_SHA384'', 0x0300C077),
    (''ECDH_RSA_WITH_CAMELLIA_128_CBC_SHA256'', 0x0300C078),
    (''ECDH_RSA_WITH_CAMELLIA_256_CBC_SHA384'', 0x0300C079), (''PSK_WITH_CAMELLIA_128_CBC_SHA256'', 0x0300C094),
    (''PSK_WITH_CAMELLIA_256_CBC_SHA384'', 0x0300C095), (''DHE_PSK_WITH_CAMELLIA_128_CBC_SHA256'', 0x0300C096),
    (''DHE_PSK_WITH_CAMELLIA_256_CBC_SHA384'', 0x0300C097),
    (''RSA_PSK_WITH_CAMELLIA_128_CBC_SHA256'', 0x0300C098),
    (''RSA_PSK_WITH_CAMELLIA_256_CBC_SHA384'', 0x0300C099),
    (''ECDHE_PSK_WITH_CAMELLIA_128_CBC_SHA256'', 0x0300C09A),
    (''ECDHE_PSK_WITH_CAMELLIA_256_CBC_SHA384'', 0x0300C09B),
    (''ECDHE_RSA_WITH_CHACHA20_POLY1305'', 0x0300CCA8), (''ECDHE_ECDSA_WITH_CHACHA20_POLY1305'', 0x0300CCA9),
    (''DHE_RSA_WITH_CHACHA20_POLY1305'', 0x0300CCAA), (''PSK_WITH_CHACHA20_POLY1305'', 0x0300CCAB),
    (''ECDHE_PSK_WITH_CHACHA20_POLY1305'', 0x0300CCAC)]"

definition TLS1_CK_5 :: "(string \<times> int) list" where
  "TLS1_CK_5 = [
    (''DHE_PSK_WITH_CHACHA20_POLY1305'', 0x0300CCAD), (''RSA_PSK_WITH_CHACHA20_POLY1305'', 0x0300CCAE),
    (''RSA_WITH_ARIA_128_GCM_SHA256'', 0x0300C050), (''RSA_WITH_ARIA_256_GCM_SHA384'', 0x0300C051),
    (''DHE_RSA_WITH_ARIA_128_GCM_SHA256'', 0x0300C052), (''DHE_RSA_WITH_ARIA_256_GCM_SHA384'', 0x0300C053),
    (''DH_RSA_WITH_ARIA_128_GCM_SHA256'', 0x0300C054), (''DH_RSA_WITH_ARIA_256_GCM_SHA384'', 0x0300C055),
    (''DHE_DSS_WITH_ARIA_128_GCM_SHA256'', 0x0300C056), (''DHE_DSS_WITH_ARIA_256_GCM_SHA384'', 0x0300C057),
    (''DH_DSS_WITH_ARIA_128_GCM_SHA256'', 0x0300C058), (''DH_DSS_WITH_ARIA_256_GCM_SHA384'', 0x0300C059),
    (''DH_anon_WITH_ARIA_128_GCM_SHA256'', 0x0300C05A), (''DH_anon_WITH_ARIA_256_GCM_SHA384'', 0x0300C05B),
    (''ECDHE_ECDSA_WITH_ARIA_128_GCM_SHA256'', 0x0300C05C),
    (''ECDHE_ECDSA_WITH_ARIA_256_GCM_SHA384'', 0x0300C05D),
    (''ECDH_ECDSA_WITH_ARIA_128_GCM_SHA256'', 0x0300C05E),
    (''ECDH_ECDSA_WITH_ARIA_256_GCM_SHA384'', 0x0300C05F), (''ECDHE_RSA_WITH_ARIA_128_GCM_SHA256'', 0x0300C060),
    (''ECDHE_RSA_WITH_ARIA_256_GCM_SHA384'', 0x0300C061), (''ECDH_RSA_WITH_ARIA_128_GCM_SHA256'', 0x0300C062),
    (''ECDH_RSA_WITH_ARIA_256_GCM_SHA384'', 0x0300C063), (''PSK_WITH_ARIA_128_GCM_SHA256'', 0x0300C06A),
    (''PSK_WITH_ARIA_256_GCM_SHA384'', 0x0300C06B), (''DHE_PSK_WITH_ARIA_128_GCM_SHA256'', 0x0300C06C),
    (''DHE_PSK_WITH_ARIA_256_GCM_SHA384'', 0x0300C06D), (''RSA_PSK_WITH_ARIA_128_GCM_SHA256'', 0x0300C06E),
    (''RSA_PSK_WITH_ARIA_256_GCM_SHA384'', 0x0300C06F)]"

definition TLS1_CK :: "(string \<times> int) list" where
  "TLS1_CK = TLS1_CK_1 @ TLS1_CK_2 @ TLS1_CK_3 @ TLS1_CK_4 @ TLS1_CK_5"

definition TLS1_3_CK :: "(string \<times> int) list" where
  "TLS1_3_CK = [
    (''AES_128_GCM_SHA256'', 0x03001301), (''AES_256_GCM_SHA384'', 0x03001302),
    (''CHACHA20_POLY1305_SHA256'', 0x03001303), (''AES_128_CCM_SHA256'', 0x03001304),
    (''AES_128_CCM_8_SHA256'', 0x03001305)]"

subsection \<open>Names of the standard\<close>

definition SSL3_RFC :: "(string \<times> string) list" where
  "SSL3_RFC = [
    (''RSA_NULL_MD5'', ''TLS_RSA_WITH_NULL_MD5''), (''RSA_NULL_SHA'', ''TLS_RSA_WITH_NULL_SHA''),
    (''RSA_DES_192_CBC3_SHA'', ''TLS_RSA_WITH_3DES_EDE_CBC_SHA''),
    (''DHE_DSS_DES_192_CBC3_SHA'', ''TLS_DHE_DSS_WITH_3DES_EDE_CBC_SHA''),
    (''DHE_RSA_DES_192_CBC3_SHA'', ''TLS_DHE_RSA_WITH_3DES_EDE_CBC_SHA''),
    (''ADH_DES_192_CBC_SHA'', ''TLS_DH_anon_WITH_3DES_EDE_CBC_SHA''),
    (''RSA_IDEA_128_SHA'', ''TLS_RSA_WITH_IDEA_CBC_SHA''), (''RSA_RC4_128_MD5'', ''TLS_RSA_WITH_RC4_128_MD5''),
    (''RSA_RC4_128_SHA'', ''TLS_RSA_WITH_RC4_128_SHA''),
    (''ADH_RC4_128_MD5'', ''TLS_DH_anon_WITH_RC4_128_MD5'')]"

definition TLS1_RFC_1 :: "(string \<times> string) list" where
  "TLS1_RFC_1 = [
    (''RSA_WITH_AES_128_SHA'', ''TLS_RSA_WITH_AES_128_CBC_SHA''),
    (''DHE_DSS_WITH_AES_128_SHA'', ''TLS_DHE_DSS_WITH_AES_128_CBC_SHA''),
    (''DHE_RSA_WITH_AES_128_SHA'', ''TLS_DHE_RSA_WITH_AES_128_CBC_SHA''),
    (''ADH_WITH_AES_128_SHA'', ''TLS_DH_anon_WITH_AES_128_CBC_SHA''),
    (''RSA_WITH_AES_256_SHA'', ''TLS_RSA_WITH_AES_256_CBC_SHA''),
    (''DHE_DSS_WITH_AES_256_SHA'', ''TLS_DHE_DSS_WITH_AES_256_CBC_SHA''),
    (''DHE_RSA_WITH_AES_256_SHA'', ''TLS_DHE_RSA_WITH_AES_256_CBC_SHA''),
    (''ADH_WITH_AES_256_SHA'', ''TLS_DH_anon_WITH_AES_256_CBC_SHA''),
    (''RSA_WITH_NULL_SHA256'', ''TLS_RSA_WITH_NULL_SHA256''),
    (''RSA_WITH_AES_128_SHA256'', ''TLS_RSA_WITH_AES_128_CBC_SHA256''),
    (''RSA_WITH_AES_256_SHA256'', ''TLS_RSA_WITH_AES_256_CBC_SHA256''),
    (''DHE_DSS_WITH_AES_128_SHA256'', ''TLS_DHE_DSS_WITH_AES_128_CBC_SHA256''),
    (''DHE_RSA_WITH_AES_128_SHA256'', ''TLS_DHE_RSA_WITH_AES_128_CBC_SHA256''),
    (''DHE_DSS_WITH_AES_256_SHA256'', ''TLS_DHE_DSS_WITH_AES_256_CBC_SHA256''),
    (''DHE_RSA_WITH_AES_256_SHA256'', ''TLS_DHE_RSA_WITH_AES_256_CBC_SHA256''),
    (''ADH_WITH_AES_128_SHA256'', ''TLS_DH_anon_WITH_AES_128_CBC_SHA256''),
    (''ADH_WITH_AES_256_SHA256'', ''TLS_DH_anon_WITH_AES_256_CBC_SHA256''),
    (''RSA_WITH_AES_128_GCM_SHA256'', ''TLS_RSA_WITH_AES_128_GCM_SHA256''),
    (''RSA_WITH_AES_256_GCM_SHA384'', ''TLS_RSA_WITH_AES_256_GCM_SHA384''),
    (''DHE_RSA_WITH_AES_128_GCM_SHA256'', ''TLS_DHE_RSA_WITH_AES_128_GCM_SHA256''),
    (''DHE_RSA_WITH_AES_256_GCM_SHA384'', ''TLS_DHE_RSA_WITH_AES_256_GCM_SHA384''),
    (''DHE_DSS_WITH_AES_128_GCM_SHA256'', ''TLS_DHE_DSS_WITH_AES_128_GCM_SHA256''),
    (''DHE_DSS_WITH_AES_256_GCM_SHA384'', ''TLS_DHE_DSS_WITH_AES_256_GCM_SHA384''),
    (''ADH_WITH_AES_128_GCM_SHA256'', ''TLS_DH_anon_WITH_AES_128_GCM_SHA256''),
    (''ADH_WITH_AES_256_GCM_SHA384'', ''TLS_DH_anon_WITH_AES_256_GCM_SHA384''),
    (''RSA_WITH_AES_128_CCM'', ''TLS_RSA_WITH_AES_128_CCM''),
    (''RSA_WITH_AES_256_CCM'', ''TLS_RSA_WITH_AES_256_CCM''),
    (''DHE_RSA_WITH_AES_128_CCM'', ''TLS_DHE_RSA_WITH_AES_128_CCM''),
    (''DHE_RSA_WITH_AES_256_CCM'', ''TLS_DHE_RSA_WITH_AES_256_CCM''),
    (''RSA_WITH_AES_128_CCM_8'', ''TLS_RSA_WITH_AES_128_CCM_8''),
    (''RSA_WITH_AES_256_CCM_8'', ''TLS_RSA_WITH_AES_256_CCM_8''),
    (''DHE_RSA_WITH_AES_128_CCM_8'', ''TLS_DHE_RSA_WITH_AES_128_CCM_8''),
    (''DHE_RSA_WITH_AES_256_CCM_8'', ''TLS_DHE_RSA_WITH_AES_256_CCM_8''),
    (''PSK_WITH_AES_128_CCM'', ''TLS_PSK_WITH_AES_128_CCM''),
    (''PSK_WITH_AES_256_CCM'', ''TLS_PSK_WITH_AES_256_CCM''),
    (''DHE_PSK_WITH_AES_128_CCM'', ''TLS_DHE_PSK_WITH_AES_128_CCM''),
    (''DHE_PSK_WITH_AES_256_CCM'', ''TLS_DHE_PSK_WITH_AES_256_CCM''),
    (''PSK_WITH_AES_128_CCM_8'', ''TLS_PSK_WITH_AES_128_CCM_8''),
    (''PSK_WITH_AES_256_CCM_8'', ''TLS_PSK_WITH_AES_256_CCM_8''),
    (''DHE_PSK_WITH_AES_128_CCM_8'', ''TLS_PSK_DHE_WITH_AES_128_CCM_8''),
    (''DHE_PSK_WITH_AES_256_CCM_8'', ''TLS_PSK_DHE_WITH_AES_256_CCM_8''),
    (''ECDHE_ECDSA_WITH_AES_128_CCM'', ''TLS_ECDHE_ECDSA_WITH_AES_128_CCM''),
    (''ECDHE_ECDSA_WITH_AES_256_CCM'', ''TLS_ECDHE_ECDSA_WITH_AES_256_CCM''),
    (''ECDHE_ECDSA_WITH_AES_128_CCM_8'', ''TLS_ECDHE_ECDSA_WITH_AES_128_CCM_8''),
    (''ECDHE_ECDSA_WITH_AES_256_CCM_8'', ''TLS_ECDHE_ECDSA_WITH_AES_256_CCM_8''),
    (''ECDHE_ECDSA_WITH_NULL_SHA'', ''TLS_ECDHE_ECDSA_WITH_NULL_SHA''),
    (''ECDHE_ECDSA_WITH_DES_192_CBC3_SHA'', ''TLS_ECDHE_ECDSA_WITH_3DES_EDE_CBC_SHA''),
    (''ECDHE_ECDSA_WITH_AES_128_CBC_SHA'', ''TLS_ECDHE_ECDSA_WITH_AES_128_CBC_SHA''),
    (''ECDHE_ECDSA_WITH_AES_256_CBC_SHA'', ''TLS_ECDHE_ECDSA_WITH_AES_256_CBC_SHA''),
    (''ECDHE_RSA_WITH_NULL_SHA'', ''TLS_ECDHE_RSA_WITH_NULL_SHA'')]"

definition TLS1_RFC_2 :: "(string \<times> string) list" where
  "TLS1_RFC_2 = [
    (''ECDHE_RSA_WITH_DES_192_CBC3_SHA'', ''TLS_ECDHE_RSA_WITH_3DES_EDE_CBC_SHA''),
    (''ECDHE_RSA_WITH_AES_128_CBC_SHA'', ''TLS_ECDHE_RSA_WITH_AES_128_CBC_SHA''),
    (''ECDHE_RSA_WITH_AES_256_CBC_SHA'', ''TLS_ECDHE_RSA_WITH_AES_256_CBC_SHA''),
    (''ECDH_anon_WITH_NULL_SHA'', ''TLS_ECDH_anon_WITH_NULL_SHA''),
    (''ECDH_anon_WITH_DES_192_CBC3_SHA'', ''TLS_ECDH_anon_WITH_3DES_EDE_CBC_SHA''),
    (''ECDH_anon_WITH_AES_128_CBC_SHA'', ''TLS_ECDH_anon_WITH_AES_128_CBC_SHA''),
    (''ECDH_anon_WITH_AES_256_CBC_SHA'', ''TLS_ECDH_anon_WITH_AES_256_CBC_SHA''),
    (''ECDHE_ECDSA_WITH_AES_128_SHA256'', ''TLS_ECDHE_ECDSA_WITH_AES_128_CBC_SHA256''),
    (''ECDHE_ECDSA_WITH_AES_256_SHA384'', ''TLS_ECDHE_ECDSA_WITH_AES_256_CBC_SHA384''),
    (''ECDHE_RSA_WITH_AES_128_SHA256'', ''TLS_ECDHE_RSA_WITH_AES_128_CBC_SHA256''),
    (''ECDHE_RSA_WITH_AES_256_SHA384'', ''TLS_ECDHE_RSA_WITH_AES_256_CBC_SHA384''),
    (''ECDHE_ECDSA_WITH_AES_128_GCM_SHA256'', ''TLS_ECDHE_ECDSA_WITH_AES_128_GCM_SHA256''),
    (''ECDHE_ECDSA_WITH_AES_256_GCM_SHA384'', ''TLS_ECDHE_ECDSA_WITH_AES_256_GCM_SHA384''),
    (''ECDHE_RSA_WITH_AES_128_GCM_SHA256'', ''TLS_ECDHE_RSA_WITH_AES_128_GCM_SHA256''),
    (''ECDHE_RSA_WITH_AES_256_GCM_SHA384'', ''TLS_ECDHE_RSA_WITH_AES_256_GCM_SHA384''),
    (''PSK_WITH_NULL_SHA'', ''TLS_PSK_WITH_NULL_SHA''),
    (''DHE_PSK_WITH_NULL_SHA'', ''TLS_DHE_PSK_WITH_NULL_SHA''),
    (''RSA_PSK_WITH_NULL_SHA'', ''TLS_RSA_PSK_WITH_NULL_SHA''),
    (''PSK_WITH_3DES_EDE_CBC_SHA'', ''TLS_PSK_WITH_3DES_EDE_CBC_SHA''),
    (''PSK_WITH_AES_128_CBC_SHA'', ''TLS_PSK_WITH_AES_128_CBC_SHA''),
    (''PSK_WITH_AES_256_CBC_SHA'', ''TLS_PSK_WITH_AES_256_CBC_SHA''),
    (''DHE_PSK_WITH_3DES_EDE_CBC_SHA'', ''TLS_DHE_PSK_WITH_3DES_EDE_CBC_SHA''),
    (''DHE_PSK_WITH_AES_128_CBC_SHA'', ''TLS_DHE_PSK_WITH_AES_128_CBC_SHA''),
    (''DHE_PSK_WITH_AES_256_CBC_SHA'', ''TLS_DHE_PSK_WITH_AES_256_CBC_SHA''),
    (''RSA_PSK_WITH_3DES_EDE_CBC_SHA'', ''TLS_RSA_PSK_WITH_3DES_EDE_CBC_SHA''),
    (''RSA_PSK_WITH_AES_128_CBC_SHA'', ''TLS_RSA_PSK_WITH_AES_128_CBC_SHA''),
    (''RSA_PSK_WITH_AES_256_CBC_SHA'', ''TLS_RSA_PSK_WITH_AES_256_CBC_SHA''),
    (''PSK_WITH_AES_128_GCM_SHA256'', ''TLS_PSK_WITH_AES_128_GCM_SHA256''),
    (''PSK_WITH_AES_256_GCM_SHA384'', ''TLS_PSK_WITH_AES_256_GCM_SHA384''),
    (''DHE_PSK_WITH_AES_128_GCM_SHA256'', ''TLS_DHE_PSK_WITH_AES_128_GCM_SHA256''),
    (''DHE_PSK_WITH_AES_256_GCM_SHA384'', ''TLS_DHE_PSK_WITH_AES_256_GCM_SHA384''),
    (''RSA_PSK_WITH_AES_128_GCM_SHA256'', ''TLS_RSA_PSK_WITH_AES_128_GCM_SHA256''),
    (''RSA_PSK_WITH_AES_256_GCM_SHA384'', ''TLS_RSA_PSK_WITH_AES_256_GCM_SHA384''),
    (''PSK_WITH_AES_128_CBC_SHA256'', ''TLS_PSK_WITH_AES_128_CBC_SHA256''),
    (''PSK_WITH_AES_256_CBC_SHA384'', ''TLS_PSK_WITH_AES_256_CBC_SHA384''),
    (''PSK_WITH_NULL_SHA256'', ''TLS_PSK_WITH_NULL_SHA256''),
    (''PSK_WITH_NULL_SHA384'', ''TLS_PSK_WITH_NULL_SHA384''),
    (''DHE_PSK_WITH_AES_128_CBC_SHA256'', ''TLS_DHE_PSK_WITH_AES_128_CBC_SHA256''),
    (''DHE_PSK_WITH_AES_256_CBC_SHA384'', ''TLS_DHE_PSK_WITH_AES_256_CBC_SHA384''),
    (''DHE_PSK_WITH_NULL_SHA256'', ''TLS_DHE_PSK_WITH_NULL_SHA256''),
    (''DHE_PSK_WITH_NULL_SHA384'', ''TLS_DHE_PSK_WITH_NULL_SHA384''),
    (''RSA_PSK_WITH_AES_128_CBC_SHA256'', ''TLS_RSA_PSK_WITH_AES_128_CBC_SHA256''),
    (''RSA_PSK_WITH_AES_256_CBC_SHA384'', ''TLS_RSA_PSK_WITH_AES_256_CBC_SHA384''),
    (''RSA_PSK_WITH_NULL_SHA256'', ''TLS_RSA_PSK_WITH_NULL_SHA256''),
    (''RSA_PSK_WITH_NULL_SHA384'', ''TLS_RSA_PSK_WITH_NULL_SHA384''),
    (''ECDHE_PSK_WITH_3DES_EDE_CBC_SHA'', ''TLS_ECDHE_PSK_WITH_3DES_EDE_CBC_SHA''),
    (''ECDHE_PSK_WITH_AES_128_CBC_SHA'', ''TLS_ECDHE_PSK_WITH_AES_128_CBC_SHA''),
    (''ECDHE_PSK_WITH_AES_256_CBC_SHA'', ''TLS_ECDHE_PSK_WITH_AES_256_CBC_SHA''),
    (''ECDHE_PSK_WITH_AES_128_CBC_SHA256'', ''TLS_ECDHE_PSK_WITH_AES_128_CBC_SHA256''),
    (''ECDHE_PSK_WITH_AES_256_CBC_SHA384'', ''TLS_ECDHE_PSK_WITH_AES_256_CBC_SHA384'')]"

definition TLS1_RFC_3 :: "(string \<times> string) list" where
  "TLS1_RFC_3 = [
    (''ECDHE_PSK_WITH_NULL_SHA'', ''TLS_ECDHE_PSK_WITH_NULL_SHA''),
    (''ECDHE_PSK_WITH_NULL_SHA256'', ''TLS_ECDHE_PSK_WITH_NULL_SHA256''),
    (''ECDHE_PSK_WITH_NULL_SHA384'', ''TLS_ECDHE_PSK_WITH_NULL_SHA384''),
    (''SRP_SHA_WITH_3DES_EDE_CBC_SHA'', ''TLS_SRP_SHA_WITH_3DES_EDE_CBC_SHA''),
    (''SRP_SHA_RSA_WITH_3DES_EDE_CBC_SHA'', ''TLS_SRP_SHA_RSA_WITH_3DES_EDE_CBC_SHA''),
    (''SRP_SHA_DSS_WITH_3DES_EDE_CBC_SHA'', ''TLS_SRP_SHA_DSS_WITH_3DES_EDE_CBC_SHA''),
    (''SRP_SHA_WITH_AES_128_CBC_SHA'', ''TLS_SRP_SHA_WITH_AES_128_CBC_SHA''),
    (''SRP_SHA_RSA_WITH_AES_128_CBC_SHA'', ''TLS_SRP_SHA_RSA_WITH_AES_128_CBC_SHA''),
    (''SRP_SHA_DSS_WITH_AES_128_CBC_SHA'', ''TLS_SRP_SHA_DSS_WITH_AES_128_CBC_SHA''),
    (''SRP_SHA_WITH_AES_256_CBC_SHA'', ''TLS_SRP_SHA_WITH_AES_256_CBC_SHA''),
    (''SRP_SHA_RSA_WITH_AES_256_CBC_SHA'', ''TLS_SRP_SHA_RSA_WITH_AES_256_CBC_SHA''),
    (''SRP_SHA_DSS_WITH_AES_256_CBC_SHA'', ''TLS_SRP_SHA_DSS_WITH_AES_256_CBC_SHA''),
    (''DHE_RSA_WITH_CHACHA20_POLY1305'', ''TLS_DHE_RSA_WITH_CHACHA20_POLY1305_SHA256''),
    (''ECDHE_RSA_WITH_CHACHA20_POLY1305'', ''TLS_ECDHE_RSA_WITH_CHACHA20_POLY1305_SHA256''),
    (''ECDHE_ECDSA_WITH_CHACHA20_POLY1305'', ''TLS_ECDHE_ECDSA_WITH_CHACHA20_POLY1305_SHA256''),
    (''PSK_WITH_CHACHA20_POLY1305'', ''TLS_PSK_WITH_CHACHA20_POLY1305_SHA256''),
    (''ECDHE_PSK_WITH_CHACHA20_POLY1305'', ''TLS_ECDHE_PSK_WITH_CHACHA20_POLY1305_SHA256''),
    (''DHE_PSK_WITH_CHACHA20_POLY1305'', ''TLS_DHE_PSK_WITH_CHACHA20_POLY1305_SHA256''),
    (''RSA_PSK_WITH_CHACHA20_POLY1305'', ''TLS_RSA_PSK_WITH_CHACHA20_POLY1305_SHA256''),
    (''RSA_WITH_CAMELLIA_128_CBC_SHA256'', ''TLS_RSA_WITH_CAMELLIA_128_CBC_SHA256''),
    (''DHE_DSS_WITH_CAMELLIA_128_CBC_SHA256'', ''TLS_DHE_DSS_WITH_CAMELLIA_128_CBC_SHA256''),
    (''DHE_RSA_WITH_CAMELLIA_128_CBC_SHA256'', ''TLS_DHE_RSA_WITH_CAMELLIA_128_CBC_SHA256''),
    (''ADH_WITH_CAMELLIA_128_CBC_SHA256'', ''TLS_DH_anon_WITH_CAMELLIA_128_CBC_SHA256''),
    (''RSA_WITH_CAMELLIA_256_CBC_SHA256'', ''TLS_RSA_WITH_CAMELLIA_256_CBC_SHA256''),
    (''DHE_DSS_WITH_CAMELLIA_256_CBC_SHA256'', ''TLS_DHE_DSS_WITH_CAMELLIA_256_CBC_SHA256''),
    (''DHE_RSA_WITH_CAMELLIA_256_CBC_SHA256'', ''TLS_DHE_RSA_WITH_CAMELLIA_256_CBC_SHA256''),
    (''ADH_WITH_CAMELLIA_256_CBC_SHA256'', ''TLS_DH_anon_WITH_CAMELLIA_256_CBC_SHA256''),
    (''RSA_WITH_CAMELLIA_256_CBC_SHA'', ''TLS_RSA_WITH_CAMELLIA_256_CBC_SHA''),
    (''DHE_DSS_WITH_CAMELLIA_256_CBC_SHA'', ''TLS_DHE_DSS_WITH_CAMELLIA_256_CBC_SHA''),
    (''DHE_RSA_WITH_CAMELLIA_256_CBC_SHA'', ''TLS_DHE_RSA_WITH_CAMELLIA_256_CBC_SHA''),
    (''ADH_WITH_CAMELLIA_256_CBC_SHA'', ''TLS_DH_anon_WITH_CAMELLIA_256_CBC_SHA''),
    (''RSA_WITH_CAMELLIA_128_CBC_SHA'', ''TLS_RSA_WITH_CAMELLIA_128_CBC_SHA''),
    (''DHE_DSS_WITH_CAMELLIA_128_CBC_SHA'', ''TLS_DHE_DSS_WITH_CAMELLIA_128_CBC_SHA''),
    (''DHE_RSA_WITH_CAMELLIA_128_CBC_SHA'', ''TLS_DHE_RSA_WITH_CAMELLIA_128_CBC_SHA''),
    (''ADH_WITH_CAMELLIA_128_CBC_SHA'', ''TLS_DH_anon_WITH_CAMELLIA_128_CBC_SHA''),
    (''ECDHE_ECDSA_WITH_CAMELLIA_128_CBC_SHA256'', ''TLS_ECDHE_ECDSA_WITH_CAMELLIA_128_CBC_SHA256''),
    (''ECDHE_ECDSA_WITH_CAMELLIA_256_CBC_SHA384'', ''TLS_ECDHE_ECDSA_WITH_CAMELLIA_256_CBC_SHA384''),
    (''ECDHE_RSA_WITH_CAMELLIA_128_CBC_SHA256'', ''TLS_ECDHE_RSA_WITH_CAMELLIA_128_CBC_SHA256''),
    (''ECDHE_RSA_WITH_CAMELLIA_256_CBC_SHA384'', ''TLS_ECDHE_RSA_WITH_CAMELLIA_256_CBC_SHA384''),
    (''PSK_WITH_CAMELLIA_128_CBC_SHA256'', ''TLS_PSK_WITH_CAMELLIA_128_CBC_SHA256''),
    (''PSK_WITH_CAMELLIA_256_CBC_SHA384'', ''TLS_PSK_WITH_CAMELLIA_256_CBC_SHA384''),
    (''DHE_PSK_WITH_CAMELLIA_128_CBC_SHA256'', ''TLS_DHE_PSK_WITH_CAMELLIA_128_CBC_SHA256''),
    (''DHE_PSK_WITH_CAMELLIA_256_CBC_SHA384'', ''TLS_DHE_PSK_WITH_CAMELLIA_256_CBC_SHA384''),
    (''RSA_PSK_WITH_CAMELLIA_128_CBC_SHA256'', ''TLS_RSA_PSK_WITH_CAMELLIA_128_CBC_SHA256''),
    (''RSA_PSK_WITH_CAMELLIA_256_CBC_SHA384'', ''TLS_RSA_PSK_WITH_CAMELLIA_256_CBC_SHA384''),
    (''ECDHE_PSK_WITH_CAMELLIA_128_CBC_SHA256'', ''TLS_ECDHE_PSK_WITH_CAMELLIA_128_CBC_SHA256''),
    (''ECDHE_PSK_WITH_CAMELLIA_256_CBC_SHA384'', ''TLS_ECDHE_PSK_WITH_CAMELLIA_256_CBC_SHA384''),
    (''RSA_WITH_SEED_SHA'', ''TLS_RSA_WITH_SEED_CBC_SHA''),
    (''DHE_DSS_WITH_SEED_SHA'', ''TLS_DHE_DSS_WITH_SEED_CBC_SHA''),
    (''DHE_RSA_WITH_SEED_SHA'', ''TLS_DHE_RSA_WITH_SEED_CBC_SHA'')]"

definition TLS1_RFC_4 :: "(string \<times> string) list" where
  "TLS1_RFC_4 = [
    (''ADH_WITH_SEED_SHA'', ''TLS_DH_anon_WITH_SEED_CBC_SHA''),
    (''ECDHE_PSK_WITH_RC4_128_SHA'', ''TLS_ECDHE_PSK_WITH_RC4_128_SHA''),
    (''ECDH_anon_WITH_RC4_128_SHA'', ''TLS_ECDH_anon_WITH_RC4_128_SHA''),
    (''ECDHE_ECDSA_WITH_RC4_128_SHA'', ''TLS_ECDHE_ECDSA_WITH_RC4_128_SHA''),
    (''ECDHE_RSA_WITH_RC4_128_SHA'', ''TLS_ECDHE_RSA_WITH_RC4_128_SHA''),
    (''PSK_WITH_RC4_128_SHA'', ''TLS_PSK_WITH_RC4_128_SHA''),
    (''RSA_PSK_WITH_RC4_128_SHA'', ''TLS_RSA_PSK_WITH_RC4_128_SHA''),
    (''DHE_PSK_WITH_RC4_128_SHA'', ''TLS_DHE_PSK_WITH_RC4_128_SHA''),
    (''RSA_WITH_ARIA_128_GCM_SHA256'', ''TLS_RSA_WITH_ARIA_128_GCM_SHA256''),
    (''RSA_WITH_ARIA_256_GCM_SHA384'', ''TLS_RSA_WITH_ARIA_256_GCM_SHA384''),
    (''DHE_RSA_WITH_ARIA_128_GCM_SHA256'', ''TLS_DHE_RSA_WITH_ARIA_128_GCM_SHA256''),
    (''DHE_RSA_WITH_ARIA_256_GCM_SHA384'', ''TLS_DHE_RSA_WITH_ARIA_256_GCM_SHA384''),
    (''DH_RSA_WITH_ARIA_128_GCM_SHA256'', ''TLS_DH_RSA_WITH_ARIA_128_GCM_SHA256''),
    (''DH_RSA_WITH_ARIA_256_GCM_SHA384'', ''TLS_DH_RSA_WITH_ARIA_256_GCM_SHA384''),
    (''DHE_DSS_WITH_ARIA_128_GCM_SHA256'', ''TLS_DHE_DSS_WITH_ARIA_128_GCM_SHA256''),
    (''DHE_DSS_WITH_ARIA_256_GCM_SHA384'', ''TLS_DHE_DSS_WITH_ARIA_256_GCM_SHA384''),
    (''DH_DSS_WITH_ARIA_128_GCM_SHA256'', ''TLS_DH_DSS_WITH_ARIA_128_GCM_SHA256''),
    (''DH_DSS_WITH_ARIA_256_GCM_SHA384'', ''TLS_DH_DSS_WITH_ARIA_256_GCM_SHA384''),
    (''DH_anon_WITH_ARIA_128_GCM_SHA256'', ''TLS_DH_anon_WITH_ARIA_128_GCM_SHA256''),
    (''DH_anon_WITH_ARIA_256_GCM_SHA384'', ''TLS_DH_anon_WITH_ARIA_256_GCM_SHA384''),
    (''ECDHE_ECDSA_WITH_ARIA_128_GCM_SHA256'', ''TLS_ECDHE_ECDSA_WITH_ARIA_128_GCM_SHA256''),
    (''ECDHE_ECDSA_WITH_ARIA_256_GCM_SHA384'', ''TLS_ECDHE_ECDSA_WITH_ARIA_256_GCM_SHA384''),
    (''ECDH_ECDSA_WITH_ARIA_128_GCM_SHA256'', ''TLS_ECDH_ECDSA_WITH_ARIA_128_GCM_SHA256''),
    (''ECDH_ECDSA_WITH_ARIA_256_GCM_SHA384'', ''TLS_ECDH_ECDSA_WITH_ARIA_256_GCM_SHA384''),
    (''ECDHE_RSA_WITH_ARIA_128_GCM_SHA256'', ''TLS_ECDHE_RSA_WITH_ARIA_128_GCM_SHA256''),
    (''ECDHE_RSA_WITH_ARIA_256_GCM_SHA384'', ''TLS_ECDHE_RSA_WITH_ARIA_256_GCM_SHA384''),
    (''ECDH_RSA_WITH_ARIA_128_GCM_SHA256'', ''TLS_ECDH_RSA_WITH_ARIA_128_GCM_SHA256''),
    (''ECDH_RSA_WITH_ARIA_256_GCM_SHA384'', ''TLS_ECDH_RSA_WITH_ARIA_256_GCM_SHA384''),
    (''PSK_WITH_ARIA_128_GCM_SHA256'', ''TLS_PSK_WITH_ARIA_128_GCM_SHA256''),
    (''PSK_WITH_ARIA_256_GCM_SHA384'', ''TLS_PSK_WITH_ARIA_256_GCM_SHA384''),
    (''DHE_PSK_WITH_ARIA_128_GCM_SHA256'', ''TLS_DHE_PSK_WITH_ARIA_128_GCM_SHA256''),
    (''DHE_PSK_WITH_ARIA_256_GCM_SHA384'', ''TLS_DHE_PSK_WITH_ARIA_256_GCM_SHA384''),
    (''RSA_PSK_WITH_ARIA_128_GCM_SHA256'', ''TLS_RSA_PSK_WITH_ARIA_128_GCM_SHA256''),
    (''RSA_PSK_WITH_ARIA_256_GCM_SHA384'', ''TLS_RSA_PSK_WITH_ARIA_256_GCM_SHA384'')]"

definition TLS1_RFC :: "(string \<times> string) list" where
  "TLS1_RFC = TLS1_RFC_1 @ TLS1_RFC_2 @ TLS1_RFC_3 @ TLS1_RFC_4"

definition TLS1_3_RFC :: "(string \<times> string) list" where
  "TLS1_3_RFC = [
    (''AES_128_GCM_SHA256'', ''TLS_AES_128_GCM_SHA256''), (''AES_256_GCM_SHA384'', ''TLS_AES_256_GCM_SHA384''),
    (''CHACHA20_POLY1305_SHA256'', ''TLS_CHACHA20_POLY1305_SHA256''),
    (''AES_128_CCM_SHA256'', ''TLS_AES_128_CCM_SHA256''),
    (''AES_128_CCM_8_SHA256'', ''TLS_AES_128_CCM_8_SHA256'')]"

subsection \<open>Names of OpenSSL\<close>

definition SSL3_TXT :: "(string \<times> string) list" where
  "SSL3_TXT = [
    (''RSA_NULL_MD5'', ''NULL-MD5''), (''RSA_NULL_SHA'', ''NULL-SHA''), (''RSA_RC4_40_MD5'', ''EXP-RC4-MD5''),
    (''RSA_RC4_128_MD5'', ''RC4-MD5''), (''RSA_RC4_128_SHA'', ''RC4-SHA''),
    (''RSA_RC2_40_MD5'', ''EXP-RC2-CBC-MD5''), (''RSA_IDEA_128_SHA'', ''IDEA-CBC-SHA''),
    (''RSA_DES_40_CBC_SHA'', ''EXP-DES-CBC-SHA''), (''RSA_DES_64_CBC_SHA'', ''DES-CBC-SHA''),
    (''RSA_DES_192_CBC3_SHA'', ''DES-CBC3-SHA''), (''DH_DSS_DES_40_CBC_SHA'', ''EXP-DH-DSS-DES-CBC-SHA''),
    (''DH_DSS_DES_64_CBC_SHA'', ''DH-DSS-DES-CBC-SHA''), (''DH_DSS_DES_192_CBC3_SHA'', ''DH-DSS-DES-CBC3-SHA''),
    (''DH_RSA_DES_40_CBC_SHA'', ''EXP-DH-RSA-DES-CBC-SHA''),
    (''DH_RSA_DES_64_CBC_SHA'', ''DH-RSA-DES-CBC-SHA''), (''DH_RSA_DES_192_CBC3_SHA'', ''DH-RSA-DES-CBC3-SHA''),
    (''DHE_DSS_DES_40_CBC_SHA'', ''EXP-DHE-DSS-DES-CBC-SHA''),
    (''DHE_DSS_DES_64_CBC_SHA'', ''DHE-DSS-DES-CBC-SHA''),
    (''DHE_DSS_DES_192_CBC3_SHA'', ''DHE-DSS-DES-CBC3-SHA''),
    (''DHE_RSA_DES_40_CBC_SHA'', ''EXP-DHE-RSA-DES-CBC-SHA''),
    (''DHE_RSA_DES_64_CBC_SHA'', ''DHE-RSA-DES-CBC-SHA''),
    (''DHE_RSA_DES_192_CBC3_SHA'', ''DHE-RSA-DES-CBC3-SHA''),
    (''EDH_DSS_DES_40_CBC_SHA'', ''EXP-EDH-DSS-DES-CBC-SHA''),
    (''EDH_DSS_DES_64_CBC_SHA'', ''EDH-DSS-DES-CBC-SHA''),
    (''EDH_DSS_DES_192_CBC3_SHA'', ''EDH-DSS-DES-CBC3-SHA''),
    (''EDH_RSA_DES_40_CBC_SHA'', ''EXP-EDH-RSA-DES-CBC-SHA''),
    (''EDH_RSA_DES_64_CBC_SHA'', ''EDH-RSA-DES-CBC-SHA''),
    (''EDH_RSA_DES_192_CBC3_SHA'', ''EDH-RSA-DES-CBC3-SHA''), (''ADH_RC4_40_MD5'', ''EXP-ADH-RC4-MD5''),
    (''ADH_RC4_128_MD5'', ''ADH-RC4-MD5''), (''ADH_DES_40_CBC_SHA'', ''EXP-ADH-DES-CBC-SHA''),
    (''ADH_DES_64_CBC_SHA'', ''ADH-DES-CBC-SHA''), (''ADH_DES_192_CBC_SHA'', ''ADH-DES-CBC3-SHA'')]"

definition TLS1_TXT_1 :: "(string \<times> string) list" where
  "TLS1_TXT_1 = [
    (''DHE_DSS_WITH_RC4_128_SHA'', ''DHE-DSS-RC4-SHA''), (''PSK_WITH_NULL_SHA'', ''PSK-NULL-SHA''),
    (''DHE_PSK_WITH_NULL_SHA'', ''DHE-PSK-NULL-SHA''), (''RSA_PSK_WITH_NULL_SHA'', ''RSA-PSK-NULL-SHA''),
    (''RSA_WITH_AES_128_SHA'', ''AES128-SHA''), (''DH_DSS_WITH_AES_128_SHA'', ''DH-DSS-AES128-SHA''),
    (''DH_RSA_WITH_AES_128_SHA'', ''DH-RSA-AES128-SHA''),
    (''DHE_DSS_WITH_AES_128_SHA'', ''DHE-DSS-AES128-SHA''),
    (''DHE_RSA_WITH_AES_128_SHA'', ''DHE-RSA-AES128-SHA''), (''ADH_WITH_AES_128_SHA'', ''ADH-AES128-SHA''),
    (''RSA_WITH_AES_256_SHA'', ''AES256-SHA''), (''DH_DSS_WITH_AES_256_SHA'', ''DH-DSS-AES256-SHA''),
    (''DH_RSA_WITH_AES_256_SHA'', ''DH-RSA-AES256-SHA''),
    (''DHE_DSS_WITH_AES_256_SHA'', ''DHE-DSS-AES256-SHA''),
    (''DHE_RSA_WITH_AES_256_SHA'', ''DHE-RSA-AES256-SHA''), (''ADH_WITH_AES_256_SHA'', ''ADH-AES256-SHA''),
    (''ECDH_ECDSA_WITH_NULL_SHA'', ''ECDH-ECDSA-NULL-SHA''),
    (''ECDH_ECDSA_WITH_RC4_128_SHA'', ''ECDH-ECDSA-RC4-SHA''),
    (''ECDH_ECDSA_WITH_DES_192_CBC3_SHA'', ''ECDH-ECDSA-DES-CBC3-SHA''),
    (''ECDH_ECDSA_WITH_AES_128_CBC_SHA'', ''ECDH-ECDSA-AES128-SHA''),
    (''ECDH_ECDSA_WITH_AES_256_CBC_SHA'', ''ECDH-ECDSA-AES256-SHA''),
    (''ECDHE_ECDSA_WITH_NULL_SHA'', ''ECDHE-ECDSA-NULL-SHA''),
    (''ECDHE_ECDSA_WITH_RC4_128_SHA'', ''ECDHE-ECDSA-RC4-SHA''),
    (''ECDHE_ECDSA_WITH_DES_192_CBC3_SHA'', ''ECDHE-ECDSA-DES-CBC3-SHA''),
    (''ECDHE_ECDSA_WITH_AES_128_CBC_SHA'', ''ECDHE-ECDSA-AES128-SHA''),
    (''ECDHE_ECDSA_WITH_AES_256_CBC_SHA'', ''ECDHE-ECDSA-AES256-SHA''),
    (''ECDH_RSA_WITH_NULL_SHA'', ''ECDH-RSA-NULL-SHA''), (''ECDH_RSA_WITH_RC4_128_SHA'', ''ECDH-RSA-RC4-SHA''),
    (''ECDH_RSA_WITH_DES_192_CBC3_SHA'', ''ECDH-RSA-DES-CBC3-SHA''),
    (''ECDH_RSA_WITH_AES_128_CBC_SHA'', ''ECDH-RSA-AES128-SHA''),
    (''ECDH_RSA_WITH_AES_256_CBC_SHA'', ''ECDH-RSA-AES256-SHA''),
    (''ECDHE_RSA_WITH_NULL_SHA'', ''ECDHE-RSA-NULL-SHA''),
    (''ECDHE_RSA_WITH_RC4_128_SHA'', ''ECDHE-RSA-RC4-SHA''),
    (''ECDHE_RSA_WITH_DES_192_CBC3_SHA'', ''ECDHE-RSA-DES-CBC3-SHA''),
    (''ECDHE_RSA_WITH_AES_128_CBC_SHA'', ''ECDHE-RSA-AES128-SHA''),
    (''ECDHE_RSA_WITH_AES_256_CBC_SHA'', ''ECDHE-RSA-AES256-SHA''),
    (''ECDH_anon_WITH_NULL_SHA'', ''AECDH-NULL-SHA''), (''ECDH_anon_WITH_RC4_128_SHA'', ''AECDH-RC4-SHA''),
    (''ECDH_anon_WITH_DES_192_CBC3_SHA'', ''AECDH-DES-CBC3-SHA''),
    (''ECDH_anon_WITH_AES_128_CBC_SHA'', ''AECDH-AES128-SHA''),
    (''ECDH_anon_WITH_AES_256_CBC_SHA'', ''AECDH-AES256-SHA''), (''PSK_WITH_RC4_128_SHA'', ''PSK-RC4-SHA''),
    (''PSK_WITH_3DES_EDE_CBC_SHA'', ''PSK-3DES-EDE-CBC-SHA''),
    (''PSK_WITH_AES_128_CBC_SHA'', ''PSK-AES128-CBC-SHA''),
    (''PSK_WITH_AES_256_CBC_SHA'', ''PSK-AES256-CBC-SHA''), (''DHE_PSK_WITH_RC4_128_SHA'', ''DHE-PSK-RC4-SHA''),
    (''DHE_PSK_WITH_3DES_EDE_CBC_SHA'', ''DHE-PSK-3DES-EDE-CBC-SHA''),
    (''DHE_PSK_WITH_AES_128_CBC_SHA'', ''DHE-PSK-AES128-CBC-SHA''),
    (''DHE_PSK_WITH_AES_256_CBC_SHA'', ''DHE-PSK-AES256-CBC-SHA''),
    (''RSA_PSK_WITH_RC4_128_SHA'', ''RSA-PSK-RC4-SHA'')]"

definition TLS1_TXT_2 :: "(string \<times> string) list" where
  "TLS1_TXT_2 = [
    (''RSA_PSK_WITH_3DES_EDE_CBC_SHA'', ''RSA-PSK-3DES-EDE-CBC-SHA''),
    (''RSA_PSK_WITH_AES_128_CBC_SHA'', ''RSA-PSK-AES128-CBC-SHA''),
    (''RSA_PSK_WITH_AES_256_CBC_SHA'', ''RSA-PSK-AES256-CBC-SHA''),
    (''PSK_WITH_AES_128_GCM_SHA256'', ''PSK-AES128-GCM-SHA256''),
    (''PSK_WITH_AES_256_GCM_SHA384'', ''PSK-AES256-GCM-SHA384''),
    (''DHE_PSK_WITH_AES_128_GCM_SHA256'', ''DHE-PSK-AES128-GCM-SHA256''),
    (''DHE_PSK_WITH_AES_256_GCM_SHA384'', ''DHE-PSK-AES256-GCM-SHA384''),
    (''RSA_PSK_WITH_AES_128_GCM_SHA256'', ''RSA-PSK-AES128-GCM-SHA256''),
    (''RSA_PSK_WITH_AES_256_GCM_SHA384'', ''RSA-PSK-AES256-GCM-SHA384''),
    (''PSK_WITH_AES_128_CBC_SHA256'', ''PSK-AES128-CBC-SHA256''),
    (''PSK_WITH_AES_256_CBC_SHA384'', ''PSK-AES256-CBC-SHA384''),
    (''PSK_WITH_NULL_SHA256'', ''PSK-NULL-SHA256''), (''PSK_WITH_NULL_SHA384'', ''PSK-NULL-SHA384''),
    (''DHE_PSK_WITH_AES_128_CBC_SHA256'', ''DHE-PSK-AES128-CBC-SHA256''),
    (''DHE_PSK_WITH_AES_256_CBC_SHA384'', ''DHE-PSK-AES256-CBC-SHA384''),
    (''DHE_PSK_WITH_NULL_SHA256'', ''DHE-PSK-NULL-SHA256''),
    (''DHE_PSK_WITH_NULL_SHA384'', ''DHE-PSK-NULL-SHA384''),
    (''RSA_PSK_WITH_AES_128_CBC_SHA256'', ''RSA-PSK-AES128-CBC-SHA256''),
    (''RSA_PSK_WITH_AES_256_CBC_SHA384'', ''RSA-PSK-AES256-CBC-SHA384''),
    (''RSA_PSK_WITH_NULL_SHA256'', ''RSA-PSK-NULL-SHA256''),
    (''RSA_PSK_WITH_NULL_SHA384'', ''RSA-PSK-NULL-SHA384''),
    (''SRP_SHA_WITH_3DES_EDE_CBC_SHA'', ''SRP-3DES-EDE-CBC-SHA''),
    (''SRP_SHA_RSA_WITH_3DES_EDE_CBC_SHA'', ''SRP-RSA-3DES-EDE-CBC-SHA''),
    (''SRP_SHA_DSS_WITH_3DES_EDE_CBC_SHA'', ''SRP-DSS-3DES-EDE-CBC-SHA''),
    (''SRP_SHA_WITH_AES_128_CBC_SHA'', ''SRP-AES-128-CBC-SHA''),
    (''SRP_SHA_RSA_WITH_AES_128_CBC_SHA'', ''SRP-RSA-AES-128-CBC-SHA''),
    (''SRP_SHA_DSS_WITH_AES_128_CBC_SHA'', ''SRP-DSS-AES-128-CBC-SHA''),
    (''SRP_SHA_WITH_AES_256_CBC_SHA'', ''SRP-AES-256-CBC-SHA''),
    (''SRP_SHA_RSA_WITH_AES_256_CBC_SHA'', ''SRP-RSA-AES-256-CBC-SHA''),
    (''SRP_SHA_DSS_WITH_AES_256_CBC_SHA'', ''SRP-DSS-AES-256-CBC-SHA''),
    (''RSA_WITH_CAMELLIA_128_CBC_SHA'', ''CAMELLIA128-SHA''),
    (''DH_DSS_WITH_CAMELLIA_128_CBC_SHA'', ''DH-DSS-CAMELLIA128-SHA''),
    (''DH_RSA_WITH_CAMELLIA_128_CBC_SHA'', ''DH-RSA-CAMELLIA128-SHA''),
    (''DHE_DSS_WITH_CAMELLIA_128_CBC_SHA'', ''DHE-DSS-CAMELLIA128-SHA''),
    (''DHE_RSA_WITH_CAMELLIA_128_CBC_SHA'', ''DHE-RSA-CAMELLIA128-SHA''),
    (''ADH_WITH_CAMELLIA_128_CBC_SHA'', ''ADH-CAMELLIA128-SHA''),
    (''RSA_WITH_CAMELLIA_256_CBC_SHA'', ''CAMELLIA256-SHA''),
    (''DH_DSS_WITH_CAMELLIA_256_CBC_SHA'', ''DH-DSS-CAMELLIA256-SHA''),
    (''DH_RSA_WITH_CAMELLIA_256_CBC_SHA'', ''DH-RSA-CAMELLIA256-SHA''),
    (''DHE_DSS_WITH_CAMELLIA_256_CBC_SHA'', ''DHE-DSS-CAMELLIA256-SHA''),
    (''DHE_RSA_WITH_CAMELLIA_256_CBC_SHA'', ''DHE-RSA-CAMELLIA256-SHA''),
    (''ADH_WITH_CAMELLIA_256_CBC_SHA'', ''ADH-CAMELLIA256-SHA''),
    (''RSA_WITH_CAMELLIA_128_CBC_SHA256'', ''CAMELLIA128-SHA256''),
    (''DH_DSS_WITH_CAMELLIA_128_CBC_SHA256'', ''DH-DSS-CAMELLIA128-SHA256''),
    (''DH_RSA_WITH_CAMELLIA_128_CBC_SHA256'', ''DH-RSA-CAMELLIA128-SHA256''),
    (''DHE_DSS_WITH_CAMELLIA_128_CBC_SHA256'', ''DHE-DSS-CAMELLIA128-SHA256''),
    (''DHE_RSA_WITH_CAMELLIA_128_CBC_SHA256'', ''DHE-RSA-CAMELLIA128-SHA256''),
    (''ADH_WITH_CAMELLIA_128_CBC_SHA256'', ''ADH-CAMELLIA128-SHA256''),
    (''RSA_WITH_CAMELLIA_256_CBC_SHA256'', ''CAMELLIA256-SHA256''),
    (''DH_DSS_WITH_CAMELLIA_256_CBC_SHA256'', ''DH-DSS-CAMELLIA256-SHA256'')]"

definition TLS1_TXT_3 :: "(string \<times> string) list" where
  "TLS1_TXT_3 = [
    (''DH_RSA_WITH_CAMELLIA_256_CBC_SHA256'', ''DH-RSA-CAMELLIA256-SHA256''),
    (''DHE_DSS_WITH_CAMELLIA_256_CBC_SHA256'', ''DHE-DSS-CAMELLIA256-SHA256''),
    (''DHE_RSA_WITH_CAMELLIA_256_CBC_SHA256'', ''DHE-RSA-CAMELLIA256-SHA256''),
    (''ADH_WITH_CAMELLIA_256_CBC_SHA256'', ''ADH-CAMELLIA256-SHA256''),
    (''PSK_WITH_CAMELLIA_128_CBC_SHA256'', ''PSK-CAMELLIA128-SHA256''),
    (''PSK_WITH_CAMELLIA_256_CBC_SHA384'', ''PSK-CAMELLIA256-SHA384''),
    (''DHE_PSK_WITH_CAMELLIA_128_CBC_SHA256'', ''DHE-PSK-CAMELLIA128-SHA256''),
    (''DHE_PSK_WITH_CAMELLIA_256_CBC_SHA384'', ''DHE-PSK-CAMELLIA256-SHA384''),
    (''RSA_PSK_WITH_CAMELLIA_128_CBC_SHA256'', ''RSA-PSK-CAMELLIA128-SHA256''),
    (''RSA_PSK_WITH_CAMELLIA_256_CBC_SHA384'', ''RSA-PSK-CAMELLIA256-SHA384''),
    (''ECDHE_PSK_WITH_CAMELLIA_128_CBC_SHA256'', ''ECDHE-PSK-CAMELLIA128-SHA256''),
    (''ECDHE_PSK_WITH_CAMELLIA_256_CBC_SHA384'', ''ECDHE-PSK-CAMELLIA256-SHA384''),
    (''RSA_WITH_SEED_SHA'', ''SEED-SHA''), (''DH_DSS_WITH_SEED_SHA'', ''DH-DSS-SEED-SHA''),
    (''DH_RSA_WITH_SEED_SHA'', ''DH-RSA-SEED-SHA''), (''DHE_DSS_WITH_SEED_SHA'', ''DHE-DSS-SEED-SHA''),
    (''DHE_RSA_WITH_SEED_SHA'', ''DHE-RSA-SEED-SHA''), (''ADH_WITH_SEED_SHA'', ''ADH-SEED-SHA''),
    (''RSA_WITH_NULL_SHA256'', ''NULL-SHA256''), (''RSA_WITH_AES_128_SHA256'', ''AES128-SHA256''),
    (''RSA_WITH_AES_256_SHA256'', ''AES256-SHA256''),
    (''DH_DSS_WITH_AES_128_SHA256'', ''DH-DSS-AES128-SHA256''),
    (''DH_RSA_WITH_AES_128_SHA256'', ''DH-RSA-AES128-SHA256''),
    (''DHE_DSS_WITH_AES_128_SHA256'', ''DHE-DSS-AES128-SHA256''),
    (''DHE_RSA_WITH_AES_128_SHA256'', ''DHE-RSA-AES128-SHA256''),
    (''DH_DSS_WITH_AES_256_SHA256'', ''DH-DSS-AES256-SHA256''),
    (''DH_RSA_WITH_AES_256_SHA256'', ''DH-RSA-AES256-SHA256''),
    (''DHE_DSS_WITH_AES_256_SHA256'', ''DHE-DSS-AES256-SHA256''),
    (''DHE_RSA_WITH_AES_256_SHA256'', ''DHE-RSA-AES256-SHA256''),
    (''ADH_WITH_AES_128_SHA256'', ''ADH-AES128-SHA256''), (''ADH_WITH_AES_256_SHA256'', ''ADH-AES256-SHA256''),
    (''RSA_WITH_AES_128_GCM_SHA256'', ''AES128-GCM-SHA256''),
    (''RSA_WITH_AES_256_GCM_SHA384'', ''AES256-GCM-SHA384''),
    (''DHE_RSA_WITH_AES_128_GCM_SHA256'', ''DHE-RSA-AES128-GCM-SHA256''),
    (''DHE_RSA_WITH_AES_256_GCM_SHA384'', ''DHE-RSA-AES256-GCM-SHA384''),
    (''DH_RSA_WITH_AES_128_GCM_SHA256'', ''DH-RSA-AES128-GCM-SHA256''),
    (''DH_RSA_WITH_AES_256_GCM_SHA384'', ''DH-RSA-AES256-GCM-SHA384''),
    (''DHE_DSS_WITH_AES_128_GCM_SHA256'', ''DHE-DSS-AES128-GCM-SHA256''),
    (''DHE_DSS_WITH_AES_256_GCM_SHA384'', ''DHE-DSS-AES256-GCM-SHA384''),
    (''DH_DSS_WITH_AES_128_GCM_SHA256'', ''DH-DSS-AES128-GCM-SHA256''),
    (''DH_DSS_WITH_AES_256_GCM_SHA384'', ''DH-DSS-AES256-GCM-SHA384''),
    (''ADH_WITH_AES_128_GCM_SHA256'', ''ADH-AES128-GCM-SHA256''),
    (''ADH_WITH_AES_256_GCM_SHA384'', ''ADH-AES256-GCM-SHA384''), (''RSA_WITH_AES_128_CCM'', ''AES128-CCM''),
    (''RSA_WITH_AES_256_CCM'', ''AES256-CCM''), (''DHE_RSA_WITH_AES_128_CCM'', ''DHE-RSA-AES128-CCM''),
    (''DHE_RSA_WITH_AES_256_CCM'', ''DHE-RSA-AES256-CCM''), (''RSA_WITH_AES_128_CCM_8'', ''AES128-CCM8''),
    (''RSA_WITH_AES_256_CCM_8'', ''AES256-CCM8''), (''DHE_RSA_WITH_AES_128_CCM_8'', ''DHE-RSA-AES128-CCM8'')]"

definition TLS1_TXT_4 :: "(string \<times> string) list" where
  "TLS1_TXT_4 = [
    (''DHE_RSA_WITH_AES_256_CCM_8'', ''DHE-RSA-AES256-CCM8''), (''PSK_WITH_AES_128_CCM'', ''PSK-AES128-CCM''),
    (''PSK_WITH_AES_256_CCM'', ''PSK-AES256-CCM''), (''DHE_PSK_WITH_AES_128_CCM'', ''DHE-PSK-AES128-CCM''),
    (''DHE_PSK_WITH_AES_256_CCM'', ''DHE-PSK-AES256-CCM''), (''PSK_WITH_AES_128_CCM_8'', ''PSK-AES128-CCM8''),
    (''PSK_WITH_AES_256_CCM_8'', ''PSK-AES256-CCM8''),
    (''DHE_PSK_WITH_AES_128_CCM_8'', ''DHE-PSK-AES128-CCM8''),
    (''DHE_PSK_WITH_AES_256_CCM_8'', ''DHE-PSK-AES256-CCM8''),
    (''ECDHE_ECDSA_WITH_AES_128_CCM'', ''ECDHE-ECDSA-AES128-CCM''),
    (''ECDHE_ECDSA_WITH_AES_256_CCM'', ''ECDHE-ECDSA-AES256-CCM''),
    (''ECDHE_ECDSA_WITH_AES_128_CCM_8'', ''ECDHE-ECDSA-AES128-CCM8''),
    (''ECDHE_ECDSA_WITH_AES_256_CCM_8'', ''ECDHE-ECDSA-AES256-CCM8''),
    (''ECDHE_ECDSA_WITH_AES_128_SHA256'', ''ECDHE-ECDSA-AES128-SHA256''),
    (''ECDHE_ECDSA_WITH_AES_256_SHA384'', ''ECDHE-ECDSA-AES256-SHA384''),
    (''ECDH_ECDSA_WITH_AES_128_SHA256'', ''ECDH-ECDSA-AES128-SHA256''),
    (''ECDH_ECDSA_WITH_AES_256_SHA384'', ''ECDH-ECDSA-AES256-SHA384''),
    (''ECDHE_RSA_WITH_AES_128_SHA256'', ''ECDHE-RSA-AES128-SHA256''),
    (''ECDHE_RSA_WITH_AES_256_SHA384'', ''ECDHE-RSA-AES256-SHA384''),
    (''ECDH_RSA_WITH_AES_128_SHA256'', ''ECDH-RSA-AES128-SHA256''),
    (''ECDH_RSA_WITH_AES_256_SHA384'', ''ECDH-RSA-AES256-SHA384''),
    (''ECDHE_ECDSA_WITH_AES_128_GCM_SHA256'', ''ECDHE-ECDSA-AES128-GCM-SHA256''),
    (''ECDHE_ECDSA_WITH_AES_256_GCM_SHA384'', ''ECDHE-ECDSA-AES256-GCM-SHA384''),
    (''ECDH_ECDSA_WITH_AES_128_GCM_SHA256'', ''ECDH-ECDSA-AES128-GCM-SHA256''),
    (''ECDH_ECDSA_WITH_AES_256_GCM_SHA384'', ''ECDH-ECDSA-AES256-GCM-SHA384''),
    (''ECDHE_RSA_WITH_AES_128_GCM_SHA256'', ''ECDHE-RSA-AES128-GCM-SHA256''),
    (''ECDHE_RSA_WITH_AES_256_GCM_SHA384'', ''ECDHE-RSA-AES256-GCM-SHA384''),
    (''ECDH_RSA_WITH_AES_128_GCM_SHA256'', ''ECDH-RSA-AES128-GCM-SHA256''),
    (''ECDH_RSA_WITH_AES_256_GCM_SHA384'', ''ECDH-RSA-AES256-GCM-SHA384''),
    (''PSK_WITH_AES_128_GCM_SHA256'', ''PSK-AES128-GCM-SHA256''),
    (''PSK_WITH_AES_256_GCM_SHA384'', ''PSK-AES256-GCM-SHA384''),
    (''ECDHE_PSK_WITH_RC4_128_SHA'', ''ECDHE-PSK-RC4-SHA''),
    (''ECDHE_PSK_WITH_3DES_EDE_CBC_SHA'', ''ECDHE-PSK-3DES-EDE-CBC-SHA''),
    (''ECDHE_PSK_WITH_AES_128_CBC_SHA'', ''ECDHE-PSK-AES128-CBC-SHA''),
    (''ECDHE_PSK_WITH_AES_256_CBC_SHA'', ''ECDHE-PSK-AES256-CBC-SHA''),
    (''ECDHE_PSK_WITH_AES_128_CBC_SHA256'', ''ECDHE-PSK-AES128-CBC-SHA256''),
    (''ECDHE_PSK_WITH_AES_256_CBC_SHA384'', ''ECDHE-PSK-AES256-CBC-SHA384''),
    (''ECDHE_PSK_WITH_NULL_SHA'', ''ECDHE-PSK-NULL-SHA''),
    (''ECDHE_PSK_WITH_NULL_SHA256'', ''ECDHE-PSK-NULL-SHA256''),
    (''ECDHE_PSK_WITH_NULL_SHA384'', ''ECDHE-PSK-NULL-SHA384''),
    (''ECDHE_ECDSA_WITH_CAMELLIA_128_CBC_SHA256'', ''ECDHE-ECDSA-CAMELLIA128-SHA256''),
    (''ECDHE_ECDSA_WITH_CAMELLIA_256_CBC_SHA384'', ''ECDHE-ECDSA-CAMELLIA256-SHA384''),
    (''ECDH_ECDSA_WITH_CAMELLIA_128_CBC_SHA256'', ''ECDH-ECDSA-CAMELLIA128-SHA256''),
    (''ECDH_ECDSA_WITH_CAMELLIA_256_CBC_SHA384'', ''ECDH-ECDSA-CAMELLIA256-SHA384''),
    (''ECDHE_RSA_WITH_CAMELLIA_128_CBC_SHA256'', ''ECDHE-RSA-CAMELLIA128-SHA256''),
    (''ECDHE_RSA_WITH_CAMELLIA_256_CBC_SHA384'', ''ECDHE-RSA-CAMELLIA256-SHA384''),
    (''ECDH_RSA_WITH_CAMELLIA_128_CBC_SHA256'', ''ECDH-RSA-CAMELLIA128-SHA256''),
    (''ECDH_RSA_WITH_CAMELLIA_256_CBC_SHA384'', ''ECDH-RSA-CAMELLIA256-SHA384''),
    (''ECDHE_RSA_WITH_CHACHA20_POLY1305'', ''ECDHE-RSA-CHACHA20-POLY1305''),
    (''ECDHE_ECDSA_WITH_CHACHA20_POLY1305'', ''ECDHE-ECDSA-CHACHA20-POLY1305'')]"

definition TLS1_TXT_5 :: "(string \<times> string) list" where
  "TLS1_TXT_5 = [
    (''DHE_RSA_WITH_CHACHA20_POLY1305'', ''DHE-RSA-CHACHA20-POLY1305''),
    (''PSK_WITH_CHACHA20_POLY1305'', ''PSK-CHACHA20-POLY1305''),
    (''ECDHE_PSK_WITH_CHACHA20_POLY1305'', ''ECDHE-PSK-CHACHA20-POLY1305''),
    (''DHE_PSK_WITH_CHACHA20_POLY1305'', ''DHE-PSK-CHACHA20-POLY1305''),
    (''RSA_PSK_WITH_CHACHA20_POLY1305'', ''RSA-PSK-CHACHA20-POLY1305''),
    (''RSA_WITH_ARIA_128_GCM_SHA256'', ''ARIA128-GCM-SHA256''),
    (''RSA_WITH_ARIA_256_GCM_SHA384'', ''ARIA256-GCM-SHA384''),
    (''DHE_RSA_WITH_ARIA_128_GCM_SHA256'', ''DHE-RSA-ARIA128-GCM-SHA256''),
    (''DHE_RSA_WITH_ARIA_256_GCM_SHA384'', ''DHE-RSA-ARIA256-GCM-SHA384''),
    (''DH_RSA_WITH_ARIA_128_GCM_SHA256'', ''DH-RSA-ARIA128-GCM-SHA256''),
    (''DH_RSA_WITH_ARIA_256_GCM_SHA384'', ''DH-RSA-ARIA256-GCM-SHA384''),
    (''DHE_DSS_WITH_ARIA_128_GCM_SHA256'', ''DHE-DSS-ARIA128-GCM-SHA256''),
    (''DHE_DSS_WITH_ARIA_256_GCM_SHA384'', ''DHE-DSS-ARIA256-GCM-SHA384''),
    (''DH_DSS_WITH_ARIA_128_GCM_SHA256'', ''DH-DSS-ARIA128-GCM-SHA256''),
    (''DH_DSS_WITH_ARIA_256_GCM_SHA384'', ''DH-DSS-ARIA256-GCM-SHA384''),
    (''DH_anon_WITH_ARIA_128_GCM_SHA256'', ''ADH-ARIA128-GCM-SHA256''),
    (''DH_anon_WITH_ARIA_256_GCM_SHA384'', ''ADH-ARIA256-GCM-SHA384''),
    (''ECDHE_ECDSA_WITH_ARIA_128_GCM_SHA256'', ''ECDHE-ECDSA-ARIA128-GCM-SHA256''),
    (''ECDHE_ECDSA_WITH_ARIA_256_GCM_SHA384'', ''ECDHE-ECDSA-ARIA256-GCM-SHA384''),
    (''ECDH_ECDSA_WITH_ARIA_128_GCM_SHA256'', ''ECDH-ECDSA-ARIA128-GCM-SHA256''),
    (''ECDH_ECDSA_WITH_ARIA_256_GCM_SHA384'', ''ECDH-ECDSA-ARIA256-GCM-SHA384''),
    (''ECDHE_RSA_WITH_ARIA_128_GCM_SHA256'', ''ECDHE-ARIA128-GCM-SHA256''),
    (''ECDHE_RSA_WITH_ARIA_256_GCM_SHA384'', ''ECDHE-ARIA256-GCM-SHA384''),
    (''ECDH_RSA_WITH_ARIA_128_GCM_SHA256'', ''ECDH-ARIA128-GCM-SHA256''),
    (''ECDH_RSA_WITH_ARIA_256_GCM_SHA384'', ''ECDH-ARIA256-GCM-SHA384''),
    (''PSK_WITH_ARIA_128_GCM_SHA256'', ''PSK-ARIA128-GCM-SHA256''),
    (''PSK_WITH_ARIA_256_GCM_SHA384'', ''PSK-ARIA256-GCM-SHA384''),
    (''DHE_PSK_WITH_ARIA_128_GCM_SHA256'', ''DHE-PSK-ARIA128-GCM-SHA256''),
    (''DHE_PSK_WITH_ARIA_256_GCM_SHA384'', ''DHE-PSK-ARIA256-GCM-SHA384''),
    (''RSA_PSK_WITH_ARIA_128_GCM_SHA256'', ''RSA-PSK-ARIA128-GCM-SHA256''),
    (''RSA_PSK_WITH_ARIA_256_GCM_SHA384'', ''RSA-PSK-ARIA256-GCM-SHA384'')]"

definition TLS1_TXT :: "(string \<times> string) list" where
  "TLS1_TXT = TLS1_TXT_1 @ TLS1_TXT_2 @ TLS1_TXT_3 @ TLS1_TXT_4 @ TLS1_TXT_5"

end
