(* ===== verification/FastDistinct.thy ===== *)
theory FastDistinct
  imports "HOL-Library.Multiset"
begin

text \<open>
  Evaluation on long tables. Distinctness of many numbers is shown by arranging them in ascending
  order; \<open>pick\<close> takes the marked entries of a list, a certificate that they are in it.
\<close>

subsection \<open>Ascending order\<close>

text \<open>
  The union of ascending runs, each value once. The runs are collected like the digits of a
  binary number, so that only runs of the same weight are united.
\<close>

fun unite :: "'a::linorder list \<Rightarrow> 'a list \<Rightarrow> 'a list" where
  "unite us [] = us"
| "unite [] (v # vs) = v # vs"
| "unite (u # us) (v # vs) =
     (if u = v then u # unite us vs
      else if v < u then v # unite (u # us) vs
      else u # unite us (v # vs))"

fun carry :: "'a::linorder list \<Rightarrow> 'a list list \<Rightarrow> 'a list list" where
  "carry run [] = [run]"
| "carry run (digit # digits) =
     (if digit = [] then run # digits else [] # carry (unite digit run) digits)"

definition arrange :: "'a::linorder list \<Rightarrow> 'a list" where
  "arrange xs = foldr unite (fold (\<lambda>x. carry [x]) xs []) []"

fun ascending :: "'a::linorder list \<Rightarrow> bool" where
  "ascending [] = True"
| "ascending [x] = True"
| "ascending (x # y # ys) = (x < y \<and> ascending (y # ys))"

definition all_different :: "'a::linorder list \<Rightarrow> bool" where
  "all_different xs = (let ys = arrange xs in ascending ys \<and> length ys = length xs)"

lemma set_unite: "set (unite us vs) = set us \<union> set vs"
  by (induction us vs rule: unite.induct) auto

lemma set_carry: "\<Union> (set (map set (carry run digits))) = set run \<union> \<Union> (set (map set digits))"
  by (induction run digits rule: carry.induct) (auto simp: set_unite)

lemma set_arrange: "set (arrange xs) = set xs"
proof -
  have "set (foldr unite rs []) = \<Union> (set (map set rs))" for rs :: "'a list list"
    by (induction rs) (simp_all add: set_unite)
  moreover have "\<Union> (set (map set (fold (\<lambda>x. carry [x]) xs rs))) = set xs \<union> \<Union> (set (map set rs))" for rs
    by (induction xs arbitrary: rs) (simp_all only: fold_simps comp_apply id_apply set_carry list.set, auto)
  ultimately show ?thesis by (simp add: arrange_def)
qed

lemma ascending_sorted: "ascending xs \<Longrightarrow> sorted_wrt (<) xs"
  by (induction xs rule: ascending.induct) (use less_trans in fastforce)+

lemma all_different_distinct:
  assumes "all_different xs"
  shows "distinct xs"
proof (rule card_distinct)
  have ok: "ascending (arrange xs)" "length (arrange xs) = length xs"
    using assms by (simp_all add: all_different_def Let_def)
  then have "distinct (arrange xs)" using ascending_sorted strict_sorted_iff by blast
  then show "card (set xs) = length xs" using distinct_card set_arrange ok(2) by metis
qed

subsection \<open>Marked entries\<close>

fun pick :: "bool list \<Rightarrow> 'a list \<Rightarrow> 'a list" where
  "pick (b # bs) (x # xs) = (if b then x # pick bs xs else pick bs xs)"
| "pick _ _ = []"

text \<open>The marks, written as the number of entries to pass over before each marked one.\<close>

definition bits :: "nat list \<Rightarrow> bool list" where
  "bits ns = concat (map (\<lambda>n. replicate n False @ [True]) ns)"

lemma pick_bits:
  "pick (bits []) xs = []"
  "pick (bits (0 # ns)) (x # xs) = x # pick (bits ns) xs"
  "pick (bits (numeral k # ns)) (x # xs) = pick (bits (pred_numeral k # ns)) xs"
  "pick (bits (1 # ns)) (x # xs) = pick (bits (0 # ns)) xs"
  "pick (bits (Suc n # ns)) (x # xs) = pick (bits (n # ns)) xs"
  by (simp_all add: bits_def numeral_eq_Suc)

lemma set_pick: "x \<in> set (pick bs xs) \<Longrightarrow> x \<in> set xs"
  by (induction bs xs rule: pick.induct) (auto split: if_splits)

subsection \<open>Comparing tables\<close>

text \<open>What is left of two lists when their common entries are taken from both.\<close>

fun strip :: "'a list \<Rightarrow> 'a list \<Rightarrow> 'a list \<times> 'a list" where
  "strip [] ys = ([], ys)"
| "strip (x # xs) ys =
     (if List.member ys x then strip xs (remove1 x ys) else (let (us, vs) = strip xs ys in (x # us, vs)))"

lemma mset_strip: "strip xs ys = (us, vs) \<Longrightarrow> mset xs + mset vs = mset ys + mset us"
proof (induction xs ys arbitrary: us vs rule: strip.induct)
  case (2 x xs ys)
  show ?case
  proof (cases "x \<in> set ys")
    case True
    then have "mset xs + mset vs = mset (remove1 x ys) + mset us" using 2 by (simp add: List.member_iff)
    then show ?thesis using True by simp
  next
    case False
    then show ?thesis using 2 by (auto simp: List.member_iff split: prod.splits)
  qed
qed simp

end
