(* ===== verification/TlsCipherTheorems.thy ===== *)
theory TlsCipherTheorems
  imports TlsCiphers FastDistinct
begin

text \<open>
  How a cipher suite is named, as functions of its parts: the key exchange and the bulk cipher
  with its digest. \<open>rfc_name\<close> follows the standards, \<open>txt_name\<close> OpenSSL's own short names; the
  string macros of the headers are compared with them.
\<close>

definition tokens :: "string \<Rightarrow> string list" where
  "tokens s = foldr (\<lambda>c ts. if c = CHR ''_'' then [] # ts else (c # hd ts) # tl ts) s [[]]"

fun join :: "string \<Rightarrow> string list \<Rightarrow> string" where
  "join sep [] = []"
| "join sep [t] = t"
| "join sep (t # u # ts) = t @ sep @ join sep (u # ts)"

text \<open>The SSL 3 macros leave out \<open>WITH\<close>; there the bulk cipher begins with its algorithm.\<close>

definition bulk_start :: "string \<Rightarrow> bool" where
  "bulk_start t \<longleftrightarrow> List.member [''NULL'', ''RC4'', ''RC2'', ''IDEA'', ''DES''] t"

definition suite_parts :: "string \<Rightarrow> string list \<times> string list" where
  "suite_parts s = (let ts = tokens s in
     if List.member ts ''WITH'' then (takeWhile (\<lambda>t. t \<noteq> ''WITH'') ts, tl (dropWhile (\<lambda>t. t \<noteq> ''WITH'') ts))
     else (takeWhile (\<lambda>t. \<not> bulk_start t) ts, dropWhile (\<lambda>t. \<not> bulk_start t) ts))"

definition is_digest :: "string \<Rightarrow> bool" where
  "is_digest t \<longleftrightarrow> List.member [''MD5'', ''SHA'', ''SHA256'', ''SHA384''] t"

subsection \<open>Names of the standards\<close>

text \<open>The anonymous key exchange is spelt out, and the suites of RFC 6655 turn \<open>DHE_PSK\<close> around.\<close>

definition rfc_kx :: "string list \<Rightarrow> string list \<Rightarrow> string list" where
  "rfc_kx kx bulk =
     (if kx = [''ADH''] then [''DH'', ''anon'']
      else if kx = [''DHE'', ''PSK''] \<and> last bulk = ''8'' then [''PSK'', ''DHE'']
      else kx)"

text \<open>Triple DES by its name, the mode \<open>CBC\<close> wherever there is none, the digest of ChaCha20.\<close>

definition rfc_bulk :: "string list \<Rightarrow> string list" where
  "rfc_bulk bulk =
     (case bulk of
        [a, b] \<Rightarrow> if a = ''SEED'' then [a, ''CBC'', b] else if a = ''CHACHA20'' then [a, b, ''SHA256''] else bulk
      | [a, n, h] \<Rightarrow> if a = ''IDEA'' then [a, ''CBC'', h] else if a = ''AES'' \<and> is_digest h then [a, n, ''CBC'', h] else bulk
      | [a, n, m, h] \<Rightarrow> if a = ''DES'' \<and> n = ''192'' then [''3DES'', ''EDE'', ''CBC'', h] else bulk
      | _ \<Rightarrow> bulk)"

definition rfc_name :: "string \<Rightarrow> string" where
  "rfc_name s = (let (kx, bulk) = suite_parts s in
     join ''_'' ([''TLS''] @ rfc_kx kx bulk @ [''WITH''] @ rfc_bulk bulk))"

definition rfc_name_13 :: "string \<Rightarrow> string" where
  "rfc_name_13 s = ''TLS_'' @ s"

subsection \<open>Names of OpenSSL\<close>

definition txt_kx :: "string list \<Rightarrow> string list" where
  "txt_kx kx =
     (if kx = [''RSA''] then []
      else if kx = [''DH'', ''anon''] then [''ADH'']
      else if kx = [''ECDH'', ''anon''] then [''AECDH'']
      else if take 2 kx = [''SRP'', ''SHA''] then ''SRP'' # drop 2 kx
      else kx)"

text \<open>
  The key size is part of the algorithm's name, except with SRP; the mode \<open>CBC\<close> is left out,
  except with AES and a key exchange by SRP or a pre-shared key, and with the old ciphers.
\<close>

definition txt_bulk :: "string list \<Rightarrow> string list \<Rightarrow> string list" where
  "txt_bulk kx bulk =
     (case bulk of
        [a, n, h] \<Rightarrow>
          if a = ''RC4'' then [a, h]
          else if List.member [''RC2'', ''IDEA''] a then [a, ''CBC'', h]
          else [a @ n, h]
      | [a, n, m, h] \<Rightarrow>
          if a = ''3DES'' then bulk
          else if a = ''DES'' then [a, if n = ''192'' then ''CBC3'' else m, h]
          else if h = ''8'' then [a @ n, m @ h]
          else if m \<noteq> ''CBC'' then [a @ n, m, h]
          else if hd kx = ''SRP'' then bulk
          else if last kx = ''PSK'' \<and> a = ''AES'' then [a @ n, m, h]
          else [a @ n, h]
      | _ \<Rightarrow> bulk)"

definition txt_name :: "string \<Rightarrow> string" where
  "txt_name s = (let (kx, bulk) = suite_parts s in
     join ''-'' ((if List.member bulk ''40'' then [''EXP''] else []) @ txt_kx kx @ txt_bulk kx bulk))"

subsection \<open>Evaluation\<close>

text \<open>The numbers of the tables, without the aliases of SSL 3, and where the names come from.\<close>

lemma SSL3_CK_numbers:
  "map snd (filter (\<lambda>(s, n). take 3 s \<noteq> ''EDH'') SSL3_CK) = [
     50331903, 50353664, 50331649, 50331650, 50331651, 50331652, 50331653, 50331654, 50331655, 50331656,
     50331657, 50331658, 50331659, 50331660, 50331661, 50331662, 50331663, 50331664, 50331665, 50331666,
     50331667, 50331668, 50331669, 50331670, 50331671, 50331672, 50331673, 50331674, 50331675]"
  by (simp add: SSL3_CK_def)

lemma TLS1_CK_1_numbers:
  "map snd TLS1_CK_1 = [
     50331786, 50331787, 50331788, 50331789, 50331790, 50331791, 50331792, 50331793, 50331794, 50331795,
     50331796, 50331797, 50331816, 50331817, 50331818, 50331819, 50331820, 50331821, 50331822, 50331823,
     50331824, 50331825, 50331826, 50331827, 50331828, 50331829, 50331830, 50331831, 50331832, 50331833,
     50331692, 50331693, 50331694, 50331695, 50331696, 50331697, 50331698, 50331699, 50331700, 50331701,
     50331702, 50331703, 50331704, 50331705, 50331706, 50331707, 50331708, 50331709, 50331710, 50331711]"
  by (simp add: TLS1_CK_1_def)

lemma TLS1_CK_2_numbers:
  "map snd TLS1_CK_2 = [
     50331712, 50331713, 50331714, 50331715, 50331716, 50331717, 50331718, 50331751, 50331752, 50331753,
     50331754, 50331755, 50331756, 50331757, 50331780, 50331781, 50331782, 50331783, 50331784, 50331785,
     50331798, 50331799, 50331800, 50331801, 50331802, 50331803, 50331804, 50331805, 50331806, 50331807,
     50331808, 50331809, 50331810, 50331811, 50331812, 50331813, 50331814, 50331815, 50380956, 50380957,
     50380958, 50380959, 50380960, 50380961, 50380962, 50380963, 50380964, 50380965, 50380966, 50380967]"
  by (simp add: TLS1_CK_2_def)

lemma TLS1_CK_3_numbers:
  "map snd TLS1_CK_3 = [
     50380968, 50380969, 50380970, 50380971, 50380972, 50380973, 50380974, 50380975, 50331834, 50331835,
     50331836, 50331837, 50331838, 50331839, 50331840, 50331841, 50331842, 50331843, 50331844, 50331845,
     50380801, 50380802, 50380803, 50380804, 50380805, 50380806, 50380807, 50380808, 50380809, 50380810,
     50380811, 50380812, 50380813, 50380814, 50380815, 50380816, 50380817, 50380818, 50380819, 50380820,
     50380821, 50380822, 50380823, 50380824, 50380825, 50380826, 50380827, 50380828, 50380829, 50380830]"
  by (simp add: TLS1_CK_3_def)

lemma TLS1_CK_4_numbers:
  "map snd TLS1_CK_4 = [
     50380831, 50380832, 50380833, 50380834, 50380835, 50380836, 50380837, 50380838, 50380839, 50380840,
     50380841, 50380842, 50380843, 50380844, 50380845, 50380846, 50380847, 50380848, 50380849, 50380850,
     50380851, 50380852, 50380853, 50380854, 50380855, 50380856, 50380857, 50380858, 50380859, 50380914,
     50380915, 50380916, 50380917, 50380918, 50380919, 50380920, 50380921, 50380948, 50380949, 50380950,
     50380951, 50380952, 50380953, 50380954, 50380955, 50384040, 50384041, 50384042, 50384043, 50384044]"
  by (simp add: TLS1_CK_4_def)

lemma TLS1_CK_5_numbers:
  "map snd TLS1_CK_5 = [
     50384045, 50384046, 50380880, 50380881, 50380882, 50380883, 50380884, 50380885, 50380886, 50380887,
     50380888, 50380889, 50380890, 50380891, 50380892, 50380893, 50380894, 50380895, 50380896, 50380897,
     50380898, 50380899, 50380906, 50380907, 50380908, 50380909, 50380910, 50380911]"
  by (simp add: TLS1_CK_5_def)

lemma TLS1_3_CK_numbers:
  "map snd TLS1_3_CK = [
     50336513, 50336514, 50336515, 50336516, 50336517]"
  by (simp add: TLS1_3_CK_def)

lemma SSL3_TXT_names:
  "map fst SSL3_TXT =
     pick (bits [2, 0, 0, 0, 0, 0, 0, 0, 0, 0, 0, 0, 0, 0, 0, 0, 0, 1, 1, 1, 1, 1]) (map fst SSL3_CK) @
     pick (bits [19, 1, 1, 1, 1, 1, 0, 0, 0, 0, 0]) (map fst SSL3_CK)"
  by (simp add: SSL3_CK_def SSL3_TXT_def pick_bits)

lemma TLS1_TXT_1_names:
  "map fst TLS1_TXT_1 =
     [''DHE_DSS_WITH_RC4_128_SHA''] @
     pick (bits [30, 0, 0, 0, 0, 0, 0, 0, 0, 0, 0, 0, 0, 0, 0]) (map fst TLS1_CK_1) @
     pick (bits [20, 0, 0, 0, 0, 0, 0, 0, 0, 0, 0, 0, 0, 0, 0, 0, 0, 0, 0, 0, 0, 0, 0, 0, 0]) (map fst TLS1_CK_3) @
     pick (bits [0, 0, 0, 0, 0, 0, 0, 0, 0]) (map fst TLS1_CK_1)"
  by (simp add: TLS1_CK_1_def TLS1_CK_3_def TLS1_TXT_1_def pick_bits)

lemma TLS1_TXT_2_names:
  "map fst TLS1_TXT_2 =
     pick (bits [9, 0, 0, 0, 0, 0, 0, 0, 0, 0, 0, 0, 0, 0, 0, 0, 0, 0, 0, 0, 0]) (map fst TLS1_CK_1) @
     pick (bits [45, 0, 0, 0, 0]) (map fst TLS1_CK_3) @
     pick (bits [0, 0, 0, 0]) (map fst TLS1_CK_4) @
     pick (bits [1, 0, 0, 0, 0, 0, 7, 0, 0, 0, 0, 0]) (map fst TLS1_CK_2) @
     pick (bits [8, 0, 0, 0, 0, 0, 0, 0]) (map fst TLS1_CK_3)"
  by (simp add: TLS1_CK_1_def TLS1_CK_2_def TLS1_CK_3_def TLS1_CK_4_def TLS1_TXT_2_def pick_bits)

lemma TLS1_TXT_3_names:
  "map fst TLS1_TXT_3 =
     pick (bits [16, 0, 0, 0]) (map fst TLS1_CK_3) @
     pick (bits [37, 0, 0, 0, 0, 0, 0, 0]) (map fst TLS1_CK_4) @
     pick (bits [20, 0, 0, 0, 0, 0]) (map fst TLS1_CK_2) @
     pick (bits [45, 0, 0, 0, 0]) (map fst TLS1_CK_1) @
     pick (bits [0, 6, 0, 0, 0, 0, 0, 0, 12, 0, 0, 0, 0, 0, 0, 0, 0, 0, 0, 0, 0, 0, 0, 0, 0, 0, 0]) (map fst TLS1_CK_2)"
  by (simp add: TLS1_CK_1_def TLS1_CK_2_def TLS1_CK_3_def TLS1_CK_4_def TLS1_TXT_3_def pick_bits)

lemma TLS1_TXT_4_names:
  "map fst TLS1_TXT_4 =
     pick (bits [45, 0, 0, 0, 0]) (map fst TLS1_CK_2) @
     pick (bits [0, 0, 0, 0, 0, 0, 0, 0]) (map fst TLS1_CK_3) @
     pick (bits [4, 0, 0, 0, 0, 0, 0, 0, 0, 0, 0, 0, 0, 0, 0, 0]) (map fst TLS1_CK_4) @
     pick (bits [12, 0]) (map fst TLS1_CK_1) @
     pick (bits [20, 0, 0, 0, 0, 0, 0, 0, 0, 0, 0, 0, 0, 0, 0, 0, 0, 8, 0]) (map fst TLS1_CK_4)"
  by (simp add: TLS1_CK_1_def TLS1_CK_2_def TLS1_CK_3_def TLS1_CK_4_def TLS1_TXT_4_def pick_bits)

lemma TLS1_TXT_5_names:
  "map fst TLS1_TXT_5 =
     pick (bits [47, 0, 0]) (map fst TLS1_CK_4) @
     pick (bits [0, 0, 0, 0, 0, 0, 0, 0, 0, 0, 0, 0, 0, 0, 0, 0, 0, 0, 0, 0, 0, 0, 0, 0, 0, 0, 0, 0]) (map fst TLS1_CK_5)"
  by (simp add: TLS1_CK_4_def TLS1_CK_5_def TLS1_TXT_5_def pick_bits)

lemma SSL3_RFC_names:
  "map fst SSL3_RFC =
     pick (bits [2, 0, 7, 10, 5, 5]) (map fst SSL3_CK) @
     pick (bits [8]) (map fst SSL3_CK) @
     pick (bits [5, 0, 24]) (map fst SSL3_CK)"
  by (simp add: SSL3_CK_def SSL3_RFC_def pick_bits)

lemma TLS1_RFC_1_names:
  "map fst TLS1_RFC_1 =
     pick (bits [33, 2, 0, 0, 0, 2, 0, 0, 0, 0, 0]) (map fst TLS1_CK_1) @
     pick (bits [0, 6, 2, 0, 0, 0, 12, 0, 0, 0, 2, 0, 2, 0, 0, 0, 0, 0, 0, 0, 0, 0, 0, 0, 0, 0]) (map fst TLS1_CK_2) @
     pick (bits [0, 0, 0, 0, 0, 0, 0, 0, 17, 1, 0, 0, 5]) (map fst TLS1_CK_3)"
  by (simp add: TLS1_CK_1_def TLS1_CK_2_def TLS1_CK_3_def TLS1_RFC_1_def pick_bits)

lemma TLS1_RFC_2_names:
  "map fst TLS1_RFC_2 =
     pick (bits [37, 0, 0, 0, 1, 0, 0]) (map fst TLS1_CK_3) @
     pick (bits [4, 0, 2, 0, 2, 0, 2, 0]) (map fst TLS1_CK_4) @
     pick (bits [30, 0, 0]) (map fst TLS1_CK_1) @
     pick (bits [1, 0, 0, 1, 0, 0, 1, 0, 0, 0, 0, 0, 0, 0, 0, 0, 0, 0, 0, 0, 0, 0, 0, 0, 0, 0, 0]) (map fst TLS1_CK_1) @
     pick (bits [21, 0, 0, 0, 0]) (map fst TLS1_CK_4)"
  by (simp add: TLS1_CK_1_def TLS1_CK_3_def TLS1_CK_4_def TLS1_RFC_2_def pick_bits)

lemma TLS1_RFC_3_names:
  "map fst TLS1_RFC_3 =
     pick (bits [26, 0, 0]) (map fst TLS1_CK_4) @
     pick (bits [45, 0, 0, 0, 0]) (map fst TLS1_CK_3) @
     pick (bits [0, 0, 0, 0, 43]) (map fst TLS1_CK_4) @
     pick (bits [45, 0, 1, 0]) (map fst TLS1_CK_4) @
     pick (bits [0, 0]) (map fst TLS1_CK_5) @
     pick (bits [8, 2, 0, 0, 0, 2, 0, 0]) (map fst TLS1_CK_3) @
     pick (bits [14, 2, 0, 0]) (map fst TLS1_CK_2) @
     pick (bits [1, 2, 0, 0]) (map fst TLS1_CK_2) @
     pick (bits [29, 0, 2, 0, 2, 0, 0, 0, 0, 0, 0, 0]) (map fst TLS1_CK_4) @
     pick (bits [20, 2, 0]) (map fst TLS1_CK_2)"
  by (simp add: TLS1_CK_2_def TLS1_CK_3_def TLS1_CK_4_def TLS1_CK_5_def TLS1_RFC_3_def pick_bits)

lemma TLS1_RFC_4_names:
  "map fst TLS1_RFC_4 =
     pick (bits [25]) (map fst TLS1_CK_2) @
     pick (bits [20]) (map fst TLS1_CK_4) @
     pick (bits [41]) (map fst TLS1_CK_3) @
     pick (bits [26, 9]) (map fst TLS1_CK_3) @
     pick (bits [0, 7]) (map fst TLS1_CK_1) @
     pick (bits [4]) (map fst TLS1_CK_1) @
     pick (bits [2, 0, 0, 0, 0, 0, 0, 0, 0, 0, 0, 0, 0, 0, 0, 0, 0, 0, 0, 0, 0, 0, 0, 0, 0, 0]) (map fst TLS1_CK_5)"
  by (simp add: TLS1_CK_1_def TLS1_CK_2_def TLS1_CK_3_def TLS1_CK_4_def TLS1_CK_5_def TLS1_RFC_4_def pick_bits)

lemma TLS1_3_RFC_names:
  "map fst TLS1_3_RFC =
     pick (bits [0, 0, 0, 0, 0]) (map fst TLS1_3_CK)"
  by (simp add: TLS1_3_CK_def TLS1_3_RFC_def pick_bits)

subsection \<open>The property\<close>

definition cipher_numbers :: "(string \<times> int) list" where
  "cipher_numbers = SSL3_CK @ TLS1_CK @ TLS1_3_CK"

definition rfc_names :: "(string \<times> string) list" where
  "rfc_names = SSL3_RFC @ TLS1_RFC"

definition txt_names :: "(string \<times> string) list" where
  "txt_names = SSL3_TXT @ TLS1_TXT"

lemma cipher_numbers_distinct:
  "distinct (map snd (filter (\<lambda>(s, n). take 3 s \<noteq> ''EDH'') SSL3_CK @ TLS1_CK @ TLS1_3_CK))"
  by (rule all_different_distinct)
    (simp add: map_append TLS1_CK_def SSL3_CK_numbers TLS1_CK_1_numbers TLS1_CK_2_numbers TLS1_CK_3_numbers TLS1_CK_4_numbers TLS1_CK_5_numbers TLS1_3_CK_numbers all_different_def arrange_def)

lemma cipher_aliases:
  "list_all (\<lambda>(s, n). map_of SSL3_CK (''DHE'' @ drop 3 s) = Some n) (filter (\<lambda>(s, n). take 3 s = ''EDH'') SSL3_CK)"
  by code_simp

lemma cipher_numbers_prefix: "list_all (\<lambda>(s, n). n div 0x10000 = 0x300) cipher_numbers"
  unfolding cipher_numbers_def TLS1_CK_def list_all_append
  by (intro conjI; code_simp)

lemma rfc_names_parts:
  "list_all (\<lambda>(s, n). n = rfc_name s) rfc_names" "list_all (\<lambda>(s, n). n = rfc_name_13 s) TLS1_3_RFC"
  unfolding rfc_names_def TLS1_RFC_def list_all_append
  by (intro conjI; code_simp) code_simp

definition odd_names :: "(string \<times> string) list" where
  "odd_names = [
     (''ECDHE_RSA_WITH_ARIA_128_GCM_SHA256'', ''ECDHE-ARIA128-GCM-SHA256''),
     (''ECDHE_RSA_WITH_ARIA_256_GCM_SHA384'', ''ECDHE-ARIA256-GCM-SHA384''),
     (''ECDH_RSA_WITH_ARIA_128_GCM_SHA256'', ''ECDH-ARIA128-GCM-SHA256''),
     (''ECDH_RSA_WITH_ARIA_256_GCM_SHA384'', ''ECDH-ARIA256-GCM-SHA384'')]"

lemma txt_names_parts: "filter (\<lambda>(s, n). n \<noteq> txt_name s) txt_names = odd_names"
proof -
  have "filter (\<lambda>(s, n). n \<noteq> txt_name s) SSL3_TXT = []" "filter (\<lambda>(s, n). n \<noteq> txt_name s) TLS1_TXT_1 = []"
    "filter (\<lambda>(s, n). n \<noteq> txt_name s) TLS1_TXT_2 = []" "filter (\<lambda>(s, n). n \<noteq> txt_name s) TLS1_TXT_3 = []"
    "filter (\<lambda>(s, n). n \<noteq> txt_name s) TLS1_TXT_4 = []" "filter (\<lambda>(s, n). n \<noteq> txt_name s) TLS1_TXT_5 = odd_names"
    by code_simp+
  then show ?thesis by (simp add: txt_names_def TLS1_TXT_def)
qed

lemma names_numbered:
  "set (map fst (rfc_names @ TLS1_3_RFC @ txt_names)) \<subseteq> set (map fst cipher_numbers) \<union> {''DHE_DSS_WITH_RC4_128_SHA''}"
proof -
  have "x \<in> set (map fst cipher_numbers) \<union> {''DHE_DSS_WITH_RC4_128_SHA''}"
    if "x \<in> set (map fst (rfc_names @ TLS1_3_RFC @ txt_names))" for x
    using that
    unfolding rfc_names_def txt_names_def TLS1_RFC_def TLS1_TXT_def map_append set_append SSL3_TXT_names TLS1_TXT_1_names TLS1_TXT_2_names TLS1_TXT_3_names TLS1_TXT_4_names TLS1_TXT_5_names SSL3_RFC_names TLS1_RFC_1_names TLS1_RFC_2_names TLS1_RFC_3_names TLS1_RFC_4_names TLS1_3_RFC_names
      cipher_numbers_def TLS1_CK_def
    by (auto dest: set_pick simp del: set_map)
  then show ?thesis by blast
qed

lemma unnumbered: "\<not> list_ex (\<lambda>(s, n). s = ''DHE_DSS_WITH_RC4_128_SHA'') cipher_numbers"
  unfolding cipher_numbers_def TLS1_CK_def list_ex_append
  by (intro notI; elim disjE; code_simp)

text \<open>
  C33. The cipher suites. The numbers of all suites have the prefix of SSL 3 and later, so that
  their low 16 bits, which go over the wire, identify them; no two suites have the same
  number, except for the \<open>EDH\<close> macros, which repeat the suite of the same name with \<open>DHE\<close>. The
  standard names of all suites are those that follow from the key exchange and the cipher in
  the name of the macro; so are OpenSSL's names, except for four with ARIA, which leave out
  \<open>RSA\<close>. Every suite that has a name has a number, except for one, whose name is left over.
\<close>

theorem TLS_cipher_suites:
  "list_all (\<lambda>(s, n). n div 0x10000 = 0x300) cipher_numbers \<and>
   distinct (map (\<lambda>(s, n). n mod 0x10000) (filter (\<lambda>(s, n). take 3 s \<noteq> ''EDH'') SSL3_CK @ TLS1_CK @ TLS1_3_CK)) \<and>
   list_all (\<lambda>(s, n). map_of SSL3_CK (''DHE'' @ drop 3 s) = Some n) (filter (\<lambda>(s, n). take 3 s = ''EDH'') SSL3_CK) \<and>
   list_all (\<lambda>(s, n). n = rfc_name s) rfc_names \<and> list_all (\<lambda>(s, n). n = rfc_name_13 s) TLS1_3_RFC \<and>
   filter (\<lambda>(s, n). n \<noteq> txt_name s) txt_names = odd_names \<and>
   set (map fst (rfc_names @ TLS1_3_RFC @ txt_names)) - set (map fst cipher_numbers) = {''DHE_DSS_WITH_RC4_128_SHA''}"
proof -
  let ?ck = "filter (\<lambda>(s, n). take 3 s \<noteq> ''EDH'') SSL3_CK @ TLS1_CK @ TLS1_3_CK"
  have wire: "snd r = 0x3000000 + (case r of (s, n) \<Rightarrow> n mod 0x10000)" if "r \<in> set ?ck" for r
  proof -
    have "r \<in> set cipher_numbers" using that by (auto simp: cipher_numbers_def)
    then have "snd r div 0x10000 = 0x300" using cipher_numbers_prefix by (auto simp: list_all_iff)
    then show ?thesis by (cases r) (simp; presburger)
  qed
  have "map snd ?ck = map (\<lambda>x. 0x3000000 + x) (map (\<lambda>(s, n). n mod 0x10000) ?ck)"
    using wire by (simp del: map_append filter.simps)
  then have d: "distinct (map (\<lambda>(s, n). n mod 0x10000) ?ck)"
    using cipher_numbers_distinct distinct_map by metis
  have "''DHE_DSS_WITH_RC4_128_SHA'' \<in> set (map fst TLS1_TXT_1)" by (simp add: TLS1_TXT_1_def)
  then have l: "''DHE_DSS_WITH_RC4_128_SHA'' \<in> set (map fst (rfc_names @ TLS1_3_RFC @ txt_names))"
    by (simp add: txt_names_def TLS1_TXT_def)
  have "''DHE_DSS_WITH_RC4_128_SHA'' \<notin> set (map fst cipher_numbers)"
    using unnumbered by (auto simp: list_ex_iff)
  then show ?thesis
    using d l names_numbered cipher_numbers_prefix cipher_aliases rfc_names_parts txt_names_parts by blast
qed

end
