(* ===== verification/OsslDispatch.thy ===== *)
theory OsslDispatch
  imports Main
begin

text \<open>
  The dispatch interface of \<open>openssl/core_dispatch.h\<close> and \<open>openssl/core.h\<close>, between libcrypto (the
  core) and its providers. Each function has an identity \<open>OSSL_FUNC_X\<close>, a number, and, from
  \<open>OSSL_CORE_MAKE_FUNC(type, x, args)\<close>, a function type and an accessor \<open>OSSL_FUNC_x\<close> that reads a
  function of this type from an entry of a dispatch table. \<open>X_ids\<close> lists the identities and
  \<open>X_funcs\<close> the functions, with their result and parameter types, for the two tables that are
  exchanged when a provider is loaded (\<open>CORE\<close>, \<open>PROVIDER\<close>) and for each operation.
\<close>

type_synonym signature = "string \<times> string \<times> string list"

text \<open>An entry of a table; the accessor returns the function pointer under its type.\<close>

record 'f OSSL_DISPATCH =
  function_id :: int
  func :: 'f

definition OSSL_CORE_MAKE_FUNC :: "'f OSSL_DISPATCH \<Rightarrow> 'f" where
  "OSSL_CORE_MAKE_FUNC opf = func opf"

subsection \<open>From the core to a provider\<close>

definition CORE_ids :: "(string \<times> int) list" where
  "CORE_ids = [
     (''CORE_GETTABLE_PARAMS'', 1), (''CORE_GET_PARAMS'', 2), (''CORE_THREAD_START'', 3),
     (''CORE_GET_LIBCTX'', 4), (''CORE_NEW_ERROR'', 5), (''CORE_SET_ERROR_DEBUG'', 6), (''CORE_VSET_ERROR'', 7),
     (''CORE_SET_ERROR_MARK'', 8), (''CORE_CLEAR_LAST_ERROR_MARK'', 9), (''CORE_POP_ERROR_TO_MARK'', 10),
     (''CORE_OBJ_ADD_SIGID'', 11), (''CORE_OBJ_CREATE'', 12), (''CRYPTO_MALLOC'', 20), (''CRYPTO_ZALLOC'', 21),
     (''CRYPTO_FREE'', 22), (''CRYPTO_CLEAR_FREE'', 23), (''CRYPTO_REALLOC'', 24),
     (''CRYPTO_CLEAR_REALLOC'', 25), (''CRYPTO_SECURE_MALLOC'', 26), (''CRYPTO_SECURE_ZALLOC'', 27),
     (''CRYPTO_SECURE_FREE'', 28), (''CRYPTO_SECURE_CLEAR_FREE'', 29), (''CRYPTO_SECURE_ALLOCATED'', 30),
     (''OPENSSL_CLEANSE'', 31), (''BIO_NEW_FILE'', 40), (''BIO_NEW_MEMBUF'', 41), (''BIO_READ_EX'', 42),
     (''BIO_WRITE_EX'', 43), (''BIO_UP_REF'', 44), (''BIO_FREE'', 45), (''BIO_VPRINTF'', 46),
     (''BIO_VSNPRINTF'', 47), (''BIO_PUTS'', 48), (''BIO_GETS'', 49), (''BIO_CTRL'', 50),
     (''SELF_TEST_CB'', 100), (''GET_ENTROPY'', 101), (''CLEANUP_ENTROPY'', 102), (''GET_NONCE'', 103),
     (''CLEANUP_NONCE'', 104), (''PROVIDER_REGISTER_CHILD_CB'', 105), (''PROVIDER_DEREGISTER_CHILD_CB'', 106),
     (''PROVIDER_NAME'', 107), (''PROVIDER_GET0_PROVIDER_CTX'', 108), (''PROVIDER_GET0_DISPATCH'', 109),
     (''PROVIDER_UP_REF'', 110), (''PROVIDER_FREE'', 111)]"

definition CORE_funcs :: "signature list" where
  "CORE_funcs = [
     (''core_gettable_params'', ''const OSSL_PARAM *'', [''const OSSL_CORE_HANDLE *prov'']),
     (''core_get_params'', ''int'', [''const OSSL_CORE_HANDLE *prov'', ''OSSL_PARAM params[]'']),
     (''core_thread_start'', ''int'', [''const OSSL_CORE_HANDLE *prov'', ''OSSL_thread_stop_handler_fn handfn'', ''void *arg'']),
     (''core_get_libctx'', ''OPENSSL_CORE_CTX *'', [''const OSSL_CORE_HANDLE *prov'']),
     (''core_new_error'', ''void'', [''const OSSL_CORE_HANDLE *prov'']),
     (''core_set_error_debug'', ''void'', [''const OSSL_CORE_HANDLE *prov'', ''const char *file'', ''int line'', ''const char *func'']),
     (''core_vset_error'', ''void'', [''const OSSL_CORE_HANDLE *prov'', ''uint32_t reason'', ''const char *fmt'', ''va_list args'']),
     (''core_set_error_mark'', ''int'', [''const OSSL_CORE_HANDLE *prov'']),
     (''core_clear_last_error_mark'', ''int'', [''const OSSL_CORE_HANDLE *prov'']),
     (''core_pop_error_to_mark'', ''int'', [''const OSSL_CORE_HANDLE *prov'']),
     (''core_obj_add_sigid'', ''int'', [''const OSSL_CORE_HANDLE *prov'', ''const char *sign_name'', ''const char *digest_name'', ''const char *pkey_name'']),
     (''core_obj_create'', ''int'', [''const OSSL_CORE_HANDLE *prov'', ''const char *oid'', ''const char *sn'', ''const char *ln'']),
     (''CRYPTO_malloc'', ''void *'', [''size_t num'', ''const char *file'', ''int line'']),
     (''CRYPTO_zalloc'', ''void *'', [''size_t num'', ''const char *file'', ''int line'']),
     (''CRYPTO_free'', ''void'', [''void *ptr'', ''const char *file'', ''int line'']),
     (''CRYPTO_clear_free'', ''void'', [''void *ptr'', ''size_t num'', ''const char *file'', ''int line'']),
     (''CRYPTO_realloc'', ''void *'', [''void *addr'', ''size_t num'', ''const char *file'', ''int line'']),
     (''CRYPTO_clear_realloc'', ''void *'', [''void *addr'', ''size_t old_num'', ''size_t num'', ''const char *file'', ''int line'']),
     (''CRYPTO_secure_malloc'', ''void *'', [''size_t num'', ''const char *file'', ''int line'']),
     (''CRYPTO_secure_zalloc'', ''void *'', [''size_t num'', ''const char *file'', ''int line'']),
     (''CRYPTO_secure_free'', ''void'', [''void *ptr'', ''const char *file'', ''int line'']),
     (''CRYPTO_secure_clear_free'', ''void'', [''void *ptr'', ''size_t num'', ''const char *file'', ''int line'']),
     (''CRYPTO_secure_allocated'', ''int'', [''const void *ptr'']),
     (''OPENSSL_cleanse'', ''void'', [''void *ptr'', ''size_t len'']),
     (''BIO_new_file'', ''OSSL_CORE_BIO *'', [''const char *filename'', ''const char *mode'']),
     (''BIO_new_membuf'', ''OSSL_CORE_BIO *'', [''const void *buf'', ''int len'']),
     (''BIO_read_ex'', ''int'', [''OSSL_CORE_BIO *bio'', ''void *data'', ''size_t data_len'', ''size_t *bytes_read'']),
     (''BIO_write_ex'', ''int'', [''OSSL_CORE_BIO *bio'', ''const void *data'', ''size_t data_len'', ''size_t *written'']),
     (''BIO_gets'', ''int'', [''OSSL_CORE_BIO *bio'', ''char *buf'', ''int size'']),
     (''BIO_puts'', ''int'', [''OSSL_CORE_BIO *bio'', ''const char *str'']),
     (''BIO_up_ref'', ''int'', [''OSSL_CORE_BIO *bio'']), (''BIO_free'', ''int'', [''OSSL_CORE_BIO *bio'']),
     (''BIO_vprintf'', ''int'', [''OSSL_CORE_BIO *bio'', ''const char *format'', ''va_list args'']),
     (''BIO_vsnprintf'', ''int'', [''char *buf'', ''size_t n'', ''const char *fmt'', ''va_list args'']),
     (''BIO_ctrl'', ''int'', [''OSSL_CORE_BIO *bio'', ''int cmd'', ''long num'', ''void *ptr'']),
     (''self_test_cb'', ''void'', [''OPENSSL_CORE_CTX *ctx'', ''OSSL_CALLBACK **cb'', ''void **cbarg'']),
     (''get_entropy'', ''size_t'', [''const OSSL_CORE_HANDLE *handle'', ''unsigned char **pout'', ''int entropy'', ''size_t min_len'', ''size_t max_len'']),
     (''cleanup_entropy'', ''void'', [''const OSSL_CORE_HANDLE *handle'', ''unsigned char *buf'', ''size_t len'']),
     (''get_nonce'', ''size_t'', [''const OSSL_CORE_HANDLE *handle'', ''unsigned char **pout'', ''size_t min_len'', ''size_t max_len'', ''const void *salt'', ''size_t salt_len'']),
     (''cleanup_nonce'', ''void'', [''const OSSL_CORE_HANDLE *handle'', ''unsigned char *buf'', ''size_t len'']),
     (''provider_register_child_cb'', ''int'', [''const OSSL_CORE_HANDLE *handle'', ''int (*create_cb)(const OSSL_CORE_HANDLE *provider, void *cbdata)'', ''int (*remove_cb)(const OSSL_CORE_HANDLE *provider, void *cbdata)'', ''int (*global_props_cb)(const char *props, void *cbdata)'', ''void *cbdata'']),
     (''provider_deregister_child_cb'', ''void'', [''const OSSL_CORE_HANDLE *handle'']),
     (''provider_name'', ''const char *'', [''const OSSL_CORE_HANDLE *prov'']),
     (''provider_get0_provider_ctx'', ''void *'', [''const OSSL_CORE_HANDLE *prov'']),
     (''provider_get0_dispatch'', ''const OSSL_DISPATCH *'', [''const OSSL_CORE_HANDLE *prov'']),
     (''provider_up_ref'', ''int'', [''const OSSL_CORE_HANDLE *prov'', ''int activate'']),
     (''provider_free'', ''int'', [''const OSSL_CORE_HANDLE *prov'', ''int deactivate''])]"

subsection \<open>From a provider to the core\<close>

definition PROVIDER_ids :: "(string \<times> int) list" where
  "PROVIDER_ids = [
     (''PROVIDER_TEARDOWN'', 1024), (''PROVIDER_GETTABLE_PARAMS'', 1025), (''PROVIDER_GET_PARAMS'', 1026),
     (''PROVIDER_QUERY_OPERATION'', 1027), (''PROVIDER_UNQUERY_OPERATION'', 1028),
     (''PROVIDER_GET_REASON_STRINGS'', 1029), (''PROVIDER_GET_CAPABILITIES'', 1030),
     (''PROVIDER_SELF_TEST'', 1031)]"

definition PROVIDER_funcs :: "signature list" where
  "PROVIDER_funcs = [
     (''provider_teardown'', ''void'', [''void *provctx'']),
     (''provider_gettable_params'', ''const OSSL_PARAM *'', [''void *provctx'']),
     (''provider_get_params'', ''int'', [''void *provctx'', ''OSSL_PARAM params[]'']),
     (''provider_query_operation'', ''const OSSL_ALGORITHM *'', [''void *provctx'', ''int operation_id'', ''int *no_store'']),
     (''provider_unquery_operation'', ''void'', [''void *provctx'', ''int operation_id'', ''const OSSL_ALGORITHM *'']),
     (''provider_get_reason_strings'', ''const OSSL_ITEM *'', [''void *provctx'']),
     (''provider_get_capabilities'', ''int'', [''void *provctx'', ''const char *capability'', ''OSSL_CALLBACK *cb'', ''void *arg'']),
     (''provider_self_test'', ''int'', [''void *provctx''])]"

subsection \<open>Operation \<open>DIGEST\<close>\<close>

definition DIGEST_ids :: "(string \<times> int) list" where
  "DIGEST_ids = [
     (''DIGEST_NEWCTX'', 1), (''DIGEST_INIT'', 2), (''DIGEST_UPDATE'', 3), (''DIGEST_FINAL'', 4),
     (''DIGEST_DIGEST'', 5), (''DIGEST_FREECTX'', 6), (''DIGEST_DUPCTX'', 7), (''DIGEST_GET_PARAMS'', 8),
     (''DIGEST_SET_CTX_PARAMS'', 9), (''DIGEST_GET_CTX_PARAMS'', 10), (''DIGEST_GETTABLE_PARAMS'', 11),
     (''DIGEST_SETTABLE_CTX_PARAMS'', 12), (''DIGEST_GETTABLE_CTX_PARAMS'', 13)]"

definition DIGEST_funcs :: "signature list" where
  "DIGEST_funcs = [
     (''digest_newctx'', ''void *'', [''void *provctx'']),
     (''digest_init'', ''int'', [''void *dctx'', ''const OSSL_PARAM params[]'']),
     (''digest_update'', ''int'', [''void *dctx'', ''const unsigned char *in'', ''size_t inl'']),
     (''digest_final'', ''int'', [''void *dctx'', ''unsigned char *out'', ''size_t *outl'', ''size_t outsz'']),
     (''digest_digest'', ''int'', [''void *provctx'', ''const unsigned char *in'', ''size_t inl'', ''unsigned char *out'', ''size_t *outl'', ''size_t outsz'']),
     (''digest_freectx'', ''void'', [''void *dctx'']), (''digest_dupctx'', ''void *'', [''void *dctx'']),
     (''digest_get_params'', ''int'', [''OSSL_PARAM params[]'']),
     (''digest_set_ctx_params'', ''int'', [''void *vctx'', ''const OSSL_PARAM params[]'']),
     (''digest_get_ctx_params'', ''int'', [''void *vctx'', ''OSSL_PARAM params[]'']),
     (''digest_gettable_params'', ''const OSSL_PARAM *'', [''void *provctx'']),
     (''digest_settable_ctx_params'', ''const OSSL_PARAM *'', [''void *dctx'', ''void *provctx'']),
     (''digest_gettable_ctx_params'', ''const OSSL_PARAM *'', [''void *dctx'', ''void *provctx''])]"

subsection \<open>Operation \<open>CIPHER\<close>\<close>

definition CIPHER_ids :: "(string \<times> int) list" where
  "CIPHER_ids = [
     (''CIPHER_NEWCTX'', 1), (''CIPHER_ENCRYPT_INIT'', 2), (''CIPHER_DECRYPT_INIT'', 3), (''CIPHER_UPDATE'', 4),
     (''CIPHER_FINAL'', 5), (''CIPHER_CIPHER'', 6), (''CIPHER_FREECTX'', 7), (''CIPHER_DUPCTX'', 8),
     (''CIPHER_GET_PARAMS'', 9), (''CIPHER_GET_CTX_PARAMS'', 10), (''CIPHER_SET_CTX_PARAMS'', 11),
     (''CIPHER_GETTABLE_PARAMS'', 12), (''CIPHER_GETTABLE_CTX_PARAMS'', 13),
     (''CIPHER_SETTABLE_CTX_PARAMS'', 14)]"

definition CIPHER_funcs :: "signature list" where
  "CIPHER_funcs = [
     (''cipher_newctx'', ''void *'', [''void *provctx'']),
     (''cipher_encrypt_init'', ''int'', [''void *cctx'', ''const unsigned char *key'', ''size_t keylen'', ''const unsigned char *iv'', ''size_t ivlen'', ''const OSSL_PARAM params[]'']),
     (''cipher_decrypt_init'', ''int'', [''void *cctx'', ''const unsigned char *key'', ''size_t keylen'', ''const unsigned char *iv'', ''size_t ivlen'', ''const OSSL_PARAM params[]'']),
     (''cipher_update'', ''int'', [''void *cctx'', ''unsigned char *out'', ''size_t *outl'', ''size_t outsize'', ''const unsigned char *in'', ''size_t inl'']),
     (''cipher_final'', ''int'', [''void *cctx'', ''unsigned char *out'', ''size_t *outl'', ''size_t outsize'']),
     (''cipher_cipher'', ''int'', [''void *cctx'', ''unsigned char *out'', ''size_t *outl'', ''size_t outsize'', ''const unsigned char *in'', ''size_t inl'']),
     (''cipher_freectx'', ''void'', [''void *cctx'']), (''cipher_dupctx'', ''void *'', [''void *cctx'']),
     (''cipher_get_params'', ''int'', [''OSSL_PARAM params[]'']),
     (''cipher_get_ctx_params'', ''int'', [''void *cctx'', ''OSSL_PARAM params[]'']),
     (''cipher_set_ctx_params'', ''int'', [''void *cctx'', ''const OSSL_PARAM params[]'']),
     (''cipher_gettable_params'', ''const OSSL_PARAM *'', [''void *provctx'']),
     (''cipher_settable_ctx_params'', ''const OSSL_PARAM *'', [''void *cctx'', ''void *provctx'']),
     (''cipher_gettable_ctx_params'', ''const OSSL_PARAM *'', [''void *cctx'', ''void *provctx''])]"

subsection \<open>Operation \<open>MAC\<close>\<close>

definition MAC_ids :: "(string \<times> int) list" where
  "MAC_ids = [
     (''MAC_NEWCTX'', 1), (''MAC_DUPCTX'', 2), (''MAC_FREECTX'', 3), (''MAC_INIT'', 4), (''MAC_UPDATE'', 5),
     (''MAC_FINAL'', 6), (''MAC_GET_PARAMS'', 7), (''MAC_GET_CTX_PARAMS'', 8), (''MAC_SET_CTX_PARAMS'', 9),
     (''MAC_GETTABLE_PARAMS'', 10), (''MAC_GETTABLE_CTX_PARAMS'', 11), (''MAC_SETTABLE_CTX_PARAMS'', 12)]"

definition MAC_funcs :: "signature list" where
  "MAC_funcs = [
     (''mac_newctx'', ''void *'', [''void *provctx'']), (''mac_dupctx'', ''void *'', [''void *src'']),
     (''mac_freectx'', ''void'', [''void *mctx'']),
     (''mac_init'', ''int'', [''void *mctx'', ''const unsigned char *key'', ''size_t keylen'', ''const OSSL_PARAM params[]'']),
     (''mac_update'', ''int'', [''void *mctx'', ''const unsigned char *in'', ''size_t inl'']),
     (''mac_final'', ''int'', [''void *mctx'', ''unsigned char *out'', ''size_t *outl'', ''size_t outsize'']),
     (''mac_gettable_params'', ''const OSSL_PARAM *'', [''void *provctx'']),
     (''mac_gettable_ctx_params'', ''const OSSL_PARAM *'', [''void *mctx'', ''void *provctx'']),
     (''mac_settable_ctx_params'', ''const OSSL_PARAM *'', [''void *mctx'', ''void *provctx'']),
     (''mac_get_params'', ''int'', [''OSSL_PARAM params[]'']),
     (''mac_get_ctx_params'', ''int'', [''void *mctx'', ''OSSL_PARAM params[]'']),
     (''mac_set_ctx_params'', ''int'', [''void *mctx'', ''const OSSL_PARAM params[]''])]"

subsection \<open>Operation \<open>KDF\<close>\<close>

definition KDF_ids :: "(string \<times> int) list" where
  "KDF_ids = [
     (''KDF_NEWCTX'', 1), (''KDF_DUPCTX'', 2), (''KDF_FREECTX'', 3), (''KDF_RESET'', 4), (''KDF_DERIVE'', 5),
     (''KDF_GETTABLE_PARAMS'', 6), (''KDF_GETTABLE_CTX_PARAMS'', 7), (''KDF_SETTABLE_CTX_PARAMS'', 8),
     (''KDF_GET_PARAMS'', 9), (''KDF_GET_CTX_PARAMS'', 10), (''KDF_SET_CTX_PARAMS'', 11)]"

definition KDF_funcs :: "signature list" where
  "KDF_funcs = [
     (''kdf_newctx'', ''void *'', [''void *provctx'']), (''kdf_dupctx'', ''void *'', [''void *src'']),
     (''kdf_freectx'', ''void'', [''void *kctx'']), (''kdf_reset'', ''void'', [''void *kctx'']),
     (''kdf_derive'', ''int'', [''void *kctx'', ''unsigned char *key'', ''size_t keylen'', ''const OSSL_PARAM params[]'']),
     (''kdf_gettable_params'', ''const OSSL_PARAM *'', [''void *provctx'']),
     (''kdf_gettable_ctx_params'', ''const OSSL_PARAM *'', [''void *kctx'', ''void *provctx'']),
     (''kdf_settable_ctx_params'', ''const OSSL_PARAM *'', [''void *kctx'', ''void *provctx'']),
     (''kdf_get_params'', ''int'', [''OSSL_PARAM params[]'']),
     (''kdf_get_ctx_params'', ''int'', [''void *kctx'', ''OSSL_PARAM params[]'']),
     (''kdf_set_ctx_params'', ''int'', [''void *kctx'', ''const OSSL_PARAM params[]''])]"

subsection \<open>Operation \<open>RAND\<close>\<close>

definition RAND_ids :: "(string \<times> int) list" where
  "RAND_ids = [
     (''RAND_NEWCTX'', 1), (''RAND_FREECTX'', 2), (''RAND_INSTANTIATE'', 3), (''RAND_UNINSTANTIATE'', 4),
     (''RAND_GENERATE'', 5), (''RAND_RESEED'', 6), (''RAND_NONCE'', 7), (''RAND_ENABLE_LOCKING'', 8),
     (''RAND_LOCK'', 9), (''RAND_UNLOCK'', 10), (''RAND_GETTABLE_PARAMS'', 11),
     (''RAND_GETTABLE_CTX_PARAMS'', 12), (''RAND_SETTABLE_CTX_PARAMS'', 13), (''RAND_GET_PARAMS'', 14),
     (''RAND_GET_CTX_PARAMS'', 15), (''RAND_SET_CTX_PARAMS'', 16), (''RAND_VERIFY_ZEROIZATION'', 17),
     (''RAND_GET_SEED'', 18), (''RAND_CLEAR_SEED'', 19)]"

definition RAND_funcs :: "signature list" where
  "RAND_funcs = [
     (''rand_newctx'', ''void *'', [''void *provctx'', ''void *parent'', ''const OSSL_DISPATCH *parent_calls'']),
     (''rand_freectx'', ''void'', [''void *vctx'']),
     (''rand_instantiate'', ''int'', [''void *vdrbg'', ''unsigned int strength'', ''int prediction_resistance'', ''const unsigned char *pstr'', ''size_t pstr_len'', ''const OSSL_PARAM params[]'']),
     (''rand_uninstantiate'', ''int'', [''void *vdrbg'']),
     (''rand_generate'', ''int'', [''void *vctx'', ''unsigned char *out'', ''size_t outlen'', ''unsigned int strength'', ''int prediction_resistance'', ''const unsigned char *addin'', ''size_t addin_len'']),
     (''rand_reseed'', ''int'', [''void *vctx'', ''int prediction_resistance'', ''const unsigned char *ent'', ''size_t ent_len'', ''const unsigned char *addin'', ''size_t addin_len'']),
     (''rand_nonce'', ''size_t'', [''void *vctx'', ''unsigned char *out'', ''unsigned int strength'', ''size_t min_noncelen'', ''size_t max_noncelen'']),
     (''rand_enable_locking'', ''int'', [''void *vctx'']), (''rand_lock'', ''int'', [''void *vctx'']),
     (''rand_unlock'', ''void'', [''void *vctx'']),
     (''rand_gettable_params'', ''const OSSL_PARAM *'', [''void *provctx'']),
     (''rand_gettable_ctx_params'', ''const OSSL_PARAM *'', [''void *vctx'', ''void *provctx'']),
     (''rand_settable_ctx_params'', ''const OSSL_PARAM *'', [''void *vctx'', ''void *provctx'']),
     (''rand_get_params'', ''int'', [''OSSL_PARAM params[]'']),
     (''rand_get_ctx_params'', ''int'', [''void *vctx'', ''OSSL_PARAM params[]'']),
     (''rand_set_ctx_params'', ''int'', [''void *vctx'', ''const OSSL_PARAM params[]'']),
     (''rand_set_callbacks'', ''void'', [''void *vctx'', ''OSSL_INOUT_CALLBACK *get_entropy'', ''OSSL_CALLBACK *cleanup_entropy'', ''OSSL_INOUT_CALLBACK *get_nonce'', ''OSSL_CALLBACK *cleanup_nonce'', ''void *arg'']),
     (''rand_verify_zeroization'', ''int'', [''void *vctx'']),
     (''rand_get_seed'', ''size_t'', [''void *vctx'', ''unsigned char **buffer'', ''int entropy'', ''size_t min_len'', ''size_t max_len'', ''int prediction_resistance'', ''const unsigned char *adin'', ''size_t adin_len'']),
     (''rand_clear_seed'', ''void'', [''void *vctx'', ''unsigned char *buffer'', ''size_t b_len''])]"

subsection \<open>Operation \<open>KEYMGMT\<close>\<close>

definition KEYMGMT_ids :: "(string \<times> int) list" where
  "KEYMGMT_ids = [
     (''KEYMGMT_NEW'', 1), (''KEYMGMT_GEN_INIT'', 2), (''KEYMGMT_GEN_SET_TEMPLATE'', 3),
     (''KEYMGMT_GEN_SET_PARAMS'', 4), (''KEYMGMT_GEN_SETTABLE_PARAMS'', 5), (''KEYMGMT_GEN'', 6),
     (''KEYMGMT_GEN_CLEANUP'', 7), (''KEYMGMT_LOAD'', 8), (''KEYMGMT_FREE'', 10), (''KEYMGMT_GET_PARAMS'', 11),
     (''KEYMGMT_GETTABLE_PARAMS'', 12), (''KEYMGMT_SET_PARAMS'', 13), (''KEYMGMT_SETTABLE_PARAMS'', 14),
     (''KEYMGMT_QUERY_OPERATION_NAME'', 20), (''KEYMGMT_HAS'', 21), (''KEYMGMT_VALIDATE'', 22),
     (''KEYMGMT_MATCH'', 23), (''KEYMGMT_IMPORT'', 40), (''KEYMGMT_IMPORT_TYPES'', 41),
     (''KEYMGMT_EXPORT'', 42), (''KEYMGMT_EXPORT_TYPES'', 43), (''KEYMGMT_DUP'', 44)]"

definition KEYMGMT_funcs :: "signature list" where
  "KEYMGMT_funcs = [
     (''keymgmt_new'', ''void *'', [''void *provctx'']),
     (''keymgmt_gen_init'', ''void *'', [''void *provctx'', ''int selection'', ''const OSSL_PARAM params[]'']),
     (''keymgmt_gen_set_template'', ''int'', [''void *genctx'', ''void *templ'']),
     (''keymgmt_gen_set_params'', ''int'', [''void *genctx'', ''const OSSL_PARAM params[]'']),
     (''keymgmt_gen_settable_params'', ''const OSSL_PARAM *'', [''void *genctx'', ''void *provctx'']),
     (''keymgmt_gen'', ''void *'', [''void *genctx'', ''OSSL_CALLBACK *cb'', ''void *cbarg'']),
     (''keymgmt_gen_cleanup'', ''void'', [''void *genctx'']),
     (''keymgmt_load'', ''void *'', [''const void *reference'', ''size_t reference_sz'']),
     (''keymgmt_free'', ''void'', [''void *keydata'']),
     (''keymgmt_get_params'', ''int'', [''void *keydata'', ''OSSL_PARAM params[]'']),
     (''keymgmt_gettable_params'', ''const OSSL_PARAM *'', [''void *provctx'']),
     (''keymgmt_set_params'', ''int'', [''void *keydata'', ''const OSSL_PARAM params[]'']),
     (''keymgmt_settable_params'', ''const OSSL_PARAM *'', [''void *provctx'']),
     (''keymgmt_query_operation_name'', ''const char *'', [''int operation_id'']),
     (''keymgmt_has'', ''int'', [''const void *keydata'', ''int selection'']),
     (''keymgmt_validate'', ''int'', [''const void *keydata'', ''int selection'', ''int checktype'']),
     (''keymgmt_match'', ''int'', [''const void *keydata1'', ''const void *keydata2'', ''int selection'']),
     (''keymgmt_import'', ''int'', [''void *keydata'', ''int selection'', ''const OSSL_PARAM params[]'']),
     (''keymgmt_import_types'', ''const OSSL_PARAM *'', [''int selection'']),
     (''keymgmt_export'', ''int'', [''void *keydata'', ''int selection'', ''OSSL_CALLBACK *param_cb'', ''void *cbarg'']),
     (''keymgmt_export_types'', ''const OSSL_PARAM *'', [''int selection'']),
     (''keymgmt_dup'', ''void *'', [''const void *keydata_from'', ''int selection''])]"

subsection \<open>Operation \<open>KEYEXCH\<close>\<close>

definition KEYEXCH_ids :: "(string \<times> int) list" where
  "KEYEXCH_ids = [
     (''KEYEXCH_NEWCTX'', 1), (''KEYEXCH_INIT'', 2), (''KEYEXCH_DERIVE'', 3), (''KEYEXCH_SET_PEER'', 4),
     (''KEYEXCH_FREECTX'', 5), (''KEYEXCH_DUPCTX'', 6), (''KEYEXCH_SET_CTX_PARAMS'', 7),
     (''KEYEXCH_SETTABLE_CTX_PARAMS'', 8), (''KEYEXCH_GET_CTX_PARAMS'', 9),
     (''KEYEXCH_GETTABLE_CTX_PARAMS'', 10)]"

definition KEYEXCH_funcs :: "signature list" where
  "KEYEXCH_funcs = [
     (''keyexch_newctx'', ''void *'', [''void *provctx'']),
     (''keyexch_init'', ''int'', [''void *ctx'', ''void *provkey'', ''const OSSL_PARAM params[]'']),
     (''keyexch_derive'', ''int'', [''void *ctx'', ''unsigned char *secret'', ''size_t *secretlen'', ''size_t outlen'']),
     (''keyexch_set_peer'', ''int'', [''void *ctx'', ''void *provkey'']),
     (''keyexch_freectx'', ''void'', [''void *ctx'']), (''keyexch_dupctx'', ''void *'', [''void *ctx'']),
     (''keyexch_set_ctx_params'', ''int'', [''void *ctx'', ''const OSSL_PARAM params[]'']),
     (''keyexch_settable_ctx_params'', ''const OSSL_PARAM *'', [''void *ctx'', ''void *provctx'']),
     (''keyexch_get_ctx_params'', ''int'', [''void *ctx'', ''OSSL_PARAM params[]'']),
     (''keyexch_gettable_ctx_params'', ''const OSSL_PARAM *'', [''void *ctx'', ''void *provctx''])]"

subsection \<open>Operation \<open>SIGNATURE\<close>\<close>

definition SIGNATURE_ids :: "(string \<times> int) list" where
  "SIGNATURE_ids = [
     (''SIGNATURE_NEWCTX'', 1), (''SIGNATURE_SIGN_INIT'', 2), (''SIGNATURE_SIGN'', 3),
     (''SIGNATURE_VERIFY_INIT'', 4), (''SIGNATURE_VERIFY'', 5), (''SIGNATURE_VERIFY_RECOVER_INIT'', 6),
     (''SIGNATURE_VERIFY_RECOVER'', 7), (''SIGNATURE_DIGEST_SIGN_INIT'', 8),
     (''SIGNATURE_DIGEST_SIGN_UPDATE'', 9), (''SIGNATURE_DIGEST_SIGN_FINAL'', 10),
     (''SIGNATURE_DIGEST_SIGN'', 11), (''SIGNATURE_DIGEST_VERIFY_INIT'', 12),
     (''SIGNATURE_DIGEST_VERIFY_UPDATE'', 13), (''SIGNATURE_DIGEST_VERIFY_FINAL'', 14),
     (''SIGNATURE_DIGEST_VERIFY'', 15), (''SIGNATURE_FREECTX'', 16), (''SIGNATURE_DUPCTX'', 17),
     (''SIGNATURE_GET_CTX_PARAMS'', 18), (''SIGNATURE_GETTABLE_CTX_PARAMS'', 19),
     (''SIGNATURE_SET_CTX_PARAMS'', 20), (''SIGNATURE_SETTABLE_CTX_PARAMS'', 21),
     (''SIGNATURE_GET_CTX_MD_PARAMS'', 22), (''SIGNATURE_GETTABLE_CTX_MD_PARAMS'', 23),
     (''SIGNATURE_SET_CTX_MD_PARAMS'', 24), (''SIGNATURE_SETTABLE_CTX_MD_PARAMS'', 25)]"

definition SIGNATURE_funcs :: "signature list" where
  "SIGNATURE_funcs = [
     (''signature_newctx'', ''void *'', [''void *provctx'', ''const char *propq'']),
     (''signature_sign_init'', ''int'', [''void *ctx'', ''void *provkey'', ''const OSSL_PARAM params[]'']),
     (''signature_sign'', ''int'', [''void *ctx'', ''unsigned char *sig'', ''size_t *siglen'', ''size_t sigsize'', ''const unsigned char *tbs'', ''size_t tbslen'']),
     (''signature_verify_init'', ''int'', [''void *ctx'', ''void *provkey'', ''const OSSL_PARAM params[]'']),
     (''signature_verify'', ''int'', [''void *ctx'', ''const unsigned char *sig'', ''size_t siglen'', ''const unsigned char *tbs'', ''size_t tbslen'']),
     (''signature_verify_recover_init'', ''int'', [''void *ctx'', ''void *provkey'', ''const OSSL_PARAM params[]'']),
     (''signature_verify_recover'', ''int'', [''void *ctx'', ''unsigned char *rout'', ''size_t *routlen'', ''size_t routsize'', ''const unsigned char *sig'', ''size_t siglen'']),
     (''signature_digest_sign_init'', ''int'', [''void *ctx'', ''const char *mdname'', ''void *provkey'', ''const OSSL_PARAM params[]'']),
     (''signature_digest_sign_update'', ''int'', [''void *ctx'', ''const unsigned char *data'', ''size_t datalen'']),
     (''signature_digest_sign_final'', ''int'', [''void *ctx'', ''unsigned char *sig'', ''size_t *siglen'', ''size_t sigsize'']),
     (''signature_digest_sign'', ''int'', [''void *ctx'', ''unsigned char *sigret'', ''size_t *siglen'', ''size_t sigsize'', ''const unsigned char *tbs'', ''size_t tbslen'']),
     (''signature_digest_verify_init'', ''int'', [''void *ctx'', ''const char *mdname'', ''void *provkey'', ''const OSSL_PARAM params[]'']),
     (''signature_digest_verify_update'', ''int'', [''void *ctx'', ''const unsigned char *data'', ''size_t datalen'']),
     (''signature_digest_verify_final'', ''int'', [''void *ctx'', ''const unsigned char *sig'', ''size_t siglen'']),
     (''signature_digest_verify'', ''int'', [''void *ctx'', ''const unsigned char *sig'', ''size_t siglen'', ''const unsigned char *tbs'', ''size_t tbslen'']),
     (''signature_freectx'', ''void'', [''void *ctx'']), (''signature_dupctx'', ''void *'', [''void *ctx'']),
     (''signature_get_ctx_params'', ''int'', [''void *ctx'', ''OSSL_PARAM params[]'']),
     (''signature_gettable_ctx_params'', ''const OSSL_PARAM *'', [''void *ctx'', ''void *provctx'']),
     (''signature_set_ctx_params'', ''int'', [''void *ctx'', ''const OSSL_PARAM params[]'']),
     (''signature_settable_ctx_params'', ''const OSSL_PARAM *'', [''void *ctx'', ''void *provctx'']),
     (''signature_get_ctx_md_params'', ''int'', [''void *ctx'', ''OSSL_PARAM params[]'']),
     (''signature_gettable_ctx_md_params'', ''const OSSL_PARAM *'', [''void *ctx'']),
     (''signature_set_ctx_md_params'', ''int'', [''void *ctx'', ''const OSSL_PARAM params[]'']),
     (''signature_settable_ctx_md_params'', ''const OSSL_PARAM *'', [''void *ctx''])]"

subsection \<open>Operation \<open>ASYM_CIPHER\<close>\<close>

definition ASYM_CIPHER_ids :: "(string \<times> int) list" where
  "ASYM_CIPHER_ids = [
     (''ASYM_CIPHER_NEWCTX'', 1), (''ASYM_CIPHER_ENCRYPT_INIT'', 2), (''ASYM_CIPHER_ENCRYPT'', 3),
     (''ASYM_CIPHER_DECRYPT_INIT'', 4), (''ASYM_CIPHER_DECRYPT'', 5), (''ASYM_CIPHER_FREECTX'', 6),
     (''ASYM_CIPHER_DUPCTX'', 7), (''ASYM_CIPHER_GET_CTX_PARAMS'', 8), (''ASYM_CIPHER_GETTABLE_CTX_PARAMS'', 9),
     (''ASYM_CIPHER_SET_CTX_PARAMS'', 10), (''ASYM_CIPHER_SETTABLE_CTX_PARAMS'', 11)]"

definition ASYM_CIPHER_funcs :: "signature list" where
  "ASYM_CIPHER_funcs = [
     (''asym_cipher_newctx'', ''void *'', [''void *provctx'']),
     (''asym_cipher_encrypt_init'', ''int'', [''void *ctx'', ''void *provkey'', ''const OSSL_PARAM params[]'']),
     (''asym_cipher_encrypt'', ''int'', [''void *ctx'', ''unsigned char *out'', ''size_t *outlen'', ''size_t outsize'', ''const unsigned char *in'', ''size_t inlen'']),
     (''asym_cipher_decrypt_init'', ''int'', [''void *ctx'', ''void *provkey'', ''const OSSL_PARAM params[]'']),
     (''asym_cipher_decrypt'', ''int'', [''void *ctx'', ''unsigned char *out'', ''size_t *outlen'', ''size_t outsize'', ''const unsigned char *in'', ''size_t inlen'']),
     (''asym_cipher_freectx'', ''void'', [''void *ctx'']),
     (''asym_cipher_dupctx'', ''void *'', [''void *ctx'']),
     (''asym_cipher_get_ctx_params'', ''int'', [''void *ctx'', ''OSSL_PARAM params[]'']),
     (''asym_cipher_gettable_ctx_params'', ''const OSSL_PARAM *'', [''void *ctx'', ''void *provctx'']),
     (''asym_cipher_set_ctx_params'', ''int'', [''void *ctx'', ''const OSSL_PARAM params[]'']),
     (''asym_cipher_settable_ctx_params'', ''const OSSL_PARAM *'', [''void *ctx'', ''void *provctx''])]"

subsection \<open>Operation \<open>KEM\<close>\<close>

definition KEM_ids :: "(string \<times> int) list" where
  "KEM_ids = [
     (''KEM_NEWCTX'', 1), (''KEM_ENCAPSULATE_INIT'', 2), (''KEM_ENCAPSULATE'', 3),
     (''KEM_DECAPSULATE_INIT'', 4), (''KEM_DECAPSULATE'', 5), (''KEM_FREECTX'', 6), (''KEM_DUPCTX'', 7),
     (''KEM_GET_CTX_PARAMS'', 8), (''KEM_GETTABLE_CTX_PARAMS'', 9), (''KEM_SET_CTX_PARAMS'', 10),
     (''KEM_SETTABLE_CTX_PARAMS'', 11)]"

definition KEM_funcs :: "signature list" where
  "KEM_funcs = [
     (''kem_newctx'', ''void *'', [''void *provctx'']),
     (''kem_encapsulate_init'', ''int'', [''void *ctx'', ''void *provkey'', ''const OSSL_PARAM params[]'']),
     (''kem_encapsulate'', ''int'', [''void *ctx'', ''unsigned char *out'', ''size_t *outlen'', ''unsigned char *secret'', ''size_t *secretlen'']),
     (''kem_decapsulate_init'', ''int'', [''void *ctx'', ''void *provkey'', ''const OSSL_PARAM params[]'']),
     (''kem_decapsulate'', ''int'', [''void *ctx'', ''unsigned char *out'', ''size_t *outlen'', ''const unsigned char *in'', ''size_t inlen'']),
     (''kem_freectx'', ''void'', [''void *ctx'']), (''kem_dupctx'', ''void *'', [''void *ctx'']),
     (''kem_get_ctx_params'', ''int'', [''void *ctx'', ''OSSL_PARAM params[]'']),
     (''kem_gettable_ctx_params'', ''const OSSL_PARAM *'', [''void *ctx'', ''void *provctx'']),
     (''kem_set_ctx_params'', ''int'', [''void *ctx'', ''const OSSL_PARAM params[]'']),
     (''kem_settable_ctx_params'', ''const OSSL_PARAM *'', [''void *ctx'', ''void *provctx''])]"

subsection \<open>Operation \<open>ENCODER\<close>\<close>

definition ENCODER_ids :: "(string \<times> int) list" where
  "ENCODER_ids = [
     (''ENCODER_NEWCTX'', 1), (''ENCODER_FREECTX'', 2), (''ENCODER_GET_PARAMS'', 3),
     (''ENCODER_GETTABLE_PARAMS'', 4), (''ENCODER_SET_CTX_PARAMS'', 5), (''ENCODER_SETTABLE_CTX_PARAMS'', 6),
     (''ENCODER_DOES_SELECTION'', 10), (''ENCODER_ENCODE'', 11), (''ENCODER_IMPORT_OBJECT'', 20),
     (''ENCODER_FREE_OBJECT'', 21)]"

definition ENCODER_funcs :: "signature list" where
  "ENCODER_funcs = [
     (''encoder_newctx'', ''void *'', [''void *provctx'']), (''encoder_freectx'', ''void'', [''void *ctx'']),
     (''encoder_get_params'', ''int'', [''OSSL_PARAM params[]'']),
     (''encoder_gettable_params'', ''const OSSL_PARAM *'', [''void *provctx'']),
     (''encoder_set_ctx_params'', ''int'', [''void *ctx'', ''const OSSL_PARAM params[]'']),
     (''encoder_settable_ctx_params'', ''const OSSL_PARAM *'', [''void *provctx'']),
     (''encoder_does_selection'', ''int'', [''void *provctx'', ''int selection'']),
     (''encoder_encode'', ''int'', [''void *ctx'', ''OSSL_CORE_BIO *out'', ''const void *obj_raw'', ''const OSSL_PARAM obj_abstract[]'', ''int selection'', ''OSSL_PASSPHRASE_CALLBACK *cb'', ''void *cbarg'']),
     (''encoder_import_object'', ''void *'', [''void *ctx'', ''int selection'', ''const OSSL_PARAM params[]'']),
     (''encoder_free_object'', ''void'', [''void *obj''])]"

subsection \<open>Operation \<open>DECODER\<close>\<close>

definition DECODER_ids :: "(string \<times> int) list" where
  "DECODER_ids = [
     (''DECODER_NEWCTX'', 1), (''DECODER_FREECTX'', 2), (''DECODER_GET_PARAMS'', 3),
     (''DECODER_GETTABLE_PARAMS'', 4), (''DECODER_SET_CTX_PARAMS'', 5), (''DECODER_SETTABLE_CTX_PARAMS'', 6),
     (''DECODER_DOES_SELECTION'', 10), (''DECODER_DECODE'', 11), (''DECODER_EXPORT_OBJECT'', 20)]"

definition DECODER_funcs :: "signature list" where
  "DECODER_funcs = [
     (''decoder_newctx'', ''void *'', [''void *provctx'']), (''decoder_freectx'', ''void'', [''void *ctx'']),
     (''decoder_get_params'', ''int'', [''OSSL_PARAM params[]'']),
     (''decoder_gettable_params'', ''const OSSL_PARAM *'', [''void *provctx'']),
     (''decoder_set_ctx_params'', ''int'', [''void *ctx'', ''const OSSL_PARAM params[]'']),
     (''decoder_settable_ctx_params'', ''const OSSL_PARAM *'', [''void *provctx'']),
     (''decoder_does_selection'', ''int'', [''void *provctx'', ''int selection'']),
     (''decoder_decode'', ''int'', [''void *ctx'', ''OSSL_CORE_BIO *in'', ''int selection'', ''OSSL_CALLBACK *data_cb'', ''void *data_cbarg'', ''OSSL_PASSPHRASE_CALLBACK *pw_cb'', ''void *pw_cbarg'']),
     (''decoder_export_object'', ''int'', [''void *ctx'', ''const void *objref'', ''size_t objref_sz'', ''OSSL_CALLBACK *export_cb'', ''void *export_cbarg''])]"

subsection \<open>Operation \<open>STORE\<close>\<close>

definition STORE_ids :: "(string \<times> int) list" where
  "STORE_ids = [
     (''STORE_OPEN'', 1), (''STORE_ATTACH'', 2), (''STORE_SETTABLE_CTX_PARAMS'', 3),
     (''STORE_SET_CTX_PARAMS'', 4), (''STORE_LOAD'', 5), (''STORE_EOF'', 6), (''STORE_CLOSE'', 7),
     (''STORE_EXPORT_OBJECT'', 8)]"

definition STORE_funcs :: "signature list" where
  "STORE_funcs = [
     (''store_open'', ''void *'', [''void *provctx'', ''const char *uri'']),
     (''store_attach'', ''void *'', [''void *provctx'', ''OSSL_CORE_BIO *in'']),
     (''store_settable_ctx_params'', ''const OSSL_PARAM *'', [''void *provctx'']),
     (''store_set_ctx_params'', ''int'', [''void *loaderctx'', ''const OSSL_PARAM params[]'']),
     (''store_load'', ''int'', [''void *loaderctx'', ''OSSL_CALLBACK *object_cb'', ''void *object_cbarg'', ''OSSL_PASSPHRASE_CALLBACK *pw_cb'', ''void *pw_cbarg'']),
     (''store_eof'', ''int'', [''void *loaderctx'']), (''store_close'', ''int'', [''void *loaderctx'']),
     (''store_export_object'', ''int'', [''void *loaderctx'', ''const void *objref'', ''size_t objref_sz'', ''OSSL_CALLBACK *export_cb'', ''void *export_cbarg''])]"

subsection \<open>Operations\<close>

definition OSSL_OP :: "(string \<times> int) list" where
  "OSSL_OP = [
     (''DIGEST'', 1), (''CIPHER'', 2), (''MAC'', 3), (''KDF'', 4), (''RAND'', 5), (''KEYMGMT'', 10),
     (''KEYEXCH'', 11), (''SIGNATURE'', 12), (''ASYM_CIPHER'', 13), (''KEM'', 14), (''ENCODER'', 20),
     (''DECODER'', 21), (''STORE'', 22)]"

definition OSSL_OP__HIGHEST :: int where "OSSL_OP__HIGHEST = 22"

text \<open>All tables, by name.\<close>

definition DISPATCH :: "(string \<times> (string \<times> int) list \<times> signature list) list" where
  "DISPATCH = [
     (''CORE'', CORE_ids, CORE_funcs),
     (''PROVIDER'', PROVIDER_ids, PROVIDER_funcs),
     (''DIGEST'', DIGEST_ids, DIGEST_funcs),
     (''CIPHER'', CIPHER_ids, CIPHER_funcs),
     (''MAC'', MAC_ids, MAC_funcs),
     (''KDF'', KDF_ids, KDF_funcs),
     (''RAND'', RAND_ids, RAND_funcs),
     (''KEYMGMT'', KEYMGMT_ids, KEYMGMT_funcs),
     (''KEYEXCH'', KEYEXCH_ids, KEYEXCH_funcs),
     (''SIGNATURE'', SIGNATURE_ids, SIGNATURE_funcs),
     (''ASYM_CIPHER'', ASYM_CIPHER_ids, ASYM_CIPHER_funcs),
     (''KEM'', KEM_ids, KEM_funcs),
     (''ENCODER'', ENCODER_ids, ENCODER_funcs),
     (''DECODER'', DECODER_ids, DECODER_funcs),
     (''STORE'', STORE_ids, STORE_funcs)]"

end
