(* ===== verification/OsslDispatchTheorems.thy ===== *)
theory OsslDispatchTheorems
  imports OsslDispatch FastDistinct
begin

text \<open>
  The dispatch tables are unambiguous: what a provider puts into a table under an identity is
  what the other side finds there, under the type that belongs to the name.
\<close>

subsection \<open>Names\<close>

text \<open>The upper case of a letter; other characters of identifiers keep their value.\<close>

fun upper :: "char \<Rightarrow> char" where
  "upper (Char b0 b1 b2 b3 b4 b5 b6 b7) = Char b0 b1 b2 b3 b4 (b5 \<and> \<not> b6) b6 b7"

definition uppers :: "signature list \<Rightarrow> string list" where
  "uppers fs = map (\<lambda>(name, _). map upper name) fs"

lemma upper_letters:
  "map upper ''abcdefghijklmnopqrstuvwxyz_0123456789'' = ''ABCDEFGHIJKLMNOPQRSTUVWXYZ_0123456789''"
  by code_simp

subsection \<open>Tables at work\<close>

text \<open>
  A table that offers functions under names, with the entry \<open>0\<close> that ends it, and the scan for
  an identity, as both sides do it.
\<close>

definition dispatch_table :: "(string \<times> int) list \<Rightarrow> (string \<times> 'f) list \<Rightarrow> 'f \<Rightarrow> 'f OSSL_DISPATCH list" where
  "dispatch_table ids impls null =
     map (\<lambda>(name, f). \<lparr>function_id = the (map_of ids name), func = f\<rparr>) impls @ [\<lparr>function_id = 0, func = null\<rparr>]"

fun dispatch_scan :: "'f OSSL_DISPATCH list \<Rightarrow> int \<Rightarrow> 'f option" where
  "dispatch_scan [] i = None"
| "dispatch_scan (e # es) i =
     (if function_id e = 0 then None
      else if function_id e = i then Some (OSSL_CORE_MAKE_FUNC e)
      else dispatch_scan es i)"

lemma distinct_values:
  assumes "distinct (map snd ids)" "(a, i) \<in> set ids" "(b, i) \<in> set ids"
  shows "a = b"
  using assms by (induction ids) (auto simp: rev_image_eqI)

lemma dispatch_scan_table:
  assumes "distinct (map snd ids)" "0 \<notin> snd ` set ids" "set (map fst impls) \<subseteq> set (map fst ids)"
    "(name, i) \<in> set ids" "distinct (map fst ids)"
  shows "dispatch_scan (dispatch_table ids impls null) i = map_of impls name"
  using assms(3)
proof (induction impls)
  case (Cons r impls)
  obtain n f where r: "r = (n, f)" by force
  then obtain j where j: "(n, j) \<in> set ids" using Cons.prems by auto
  then have m: "map_of ids n = Some j" using assms(5) by simp
  have "j \<noteq> 0" using j assms(2) by force
  moreover have "j = i \<longleftrightarrow> n = name"
    using distinct_values [OF assms(1), of n i name] j assms(4) m map_of_is_SomeI [OF assms(5,4)] by auto
  ultimately show ?case using Cons m r by (auto simp: dispatch_table_def OSSL_CORE_MAKE_FUNC_def)
qed (simp add: dispatch_table_def)

subsection \<open>The tables of the header\<close>

definition reserved :: "string \<Rightarrow> int \<times> int" where
  "reserved name = (if name = ''PROVIDER'' then (1024, 1535) else (1, 1023))"

definition table_ok :: "string \<times> (string \<times> int) list \<times> signature list \<Rightarrow> bool" where
  "table_ok = (\<lambda>(name, ids, funcs).
     ascending (map snd ids) \<and> distinct (map fst ids) \<and>
     list_all (\<lambda>(_, i). fst (reserved name) \<le> i \<and> i \<le> snd (reserved name)) ids \<and>
     strip (uppers funcs) (map fst ids) = (if name = ''RAND'' then [''RAND_SET_CALLBACKS''] else [], []))"

lemma tables_ok: "list_all table_ok DISPATCH"
  unfolding DISPATCH_def list.pred_inject
  by (intro conjI TrueI; code_simp)

lemma table_okD:
  assumes "(name, ids, funcs) \<in> set DISPATCH"
  shows "sorted_wrt (<) (map snd ids)" "distinct (map fst ids)"
    "(n, i) \<in> set ids \<Longrightarrow> fst (reserved name) \<le> i \<and> i \<le> snd (reserved name)"
    "mset (uppers funcs) = mset (map fst ids) + (if name = ''RAND'' then {#''RAND_SET_CALLBACKS''#} else {#})"
proof -
  have ok: "table_ok (name, ids, funcs)" using assms tables_ok by (auto simp: list_all_iff)
  show "sorted_wrt (<) (map snd ids)" using ok by (auto simp: table_ok_def intro: ascending_sorted)
  show "distinct (map fst ids)" using ok by (simp add: table_ok_def)
  show "fst (reserved name) \<le> i \<and> i \<le> snd (reserved name)" if "(n, i) \<in> set ids"
    using ok that by (auto simp: table_ok_def list_all_iff)
  show "mset (uppers funcs) = mset (map fst ids) + (if name = ''RAND'' then {#''RAND_SET_CALLBACKS''#} else {#})"
    using ok mset_strip [of "uppers funcs" "map fst ids"] by (auto simp: table_ok_def)
qed

lemma operations_ok:
  "map fst OSSL_OP = map fst (drop 2 DISPATCH)" "ascending (map snd OSSL_OP)" "last (map snd OSSL_OP) = OSSL_OP__HIGHEST"
  by code_simp+

text \<open>
  C34. Dispatch tables. In each table of the header the identities are distinct, leave out the
  \<open>0\<close> that ends a table, and lie in the range reserved for them; for every identity
  there is exactly one function of the same name and conversely, except for
  \<open>rand_set_callbacks\<close>, a function without identity. So when one side fills a table with
  any functions of an operation, in any order, a scan for an identity finds the function that
  was given under its name, or nothing when there is none. The operation numbers are distinct
  and end at \<open>OSSL_OP__HIGHEST\<close>.
\<close>

theorem OSSL_dispatch_correct:
  assumes "(name, ids, funcs) \<in> set DISPATCH" "set (map fst impls) \<subseteq> set (map fst ids)" "(n, i) \<in> set ids"
  shows "(if name = ''PROVIDER'' then 1024 \<le> i \<and> i < 1536 else 0 < i \<and> i < 1024) \<and> distinct (map snd ids) \<and>
    mset (uppers funcs) = mset (map fst ids) + (if name = ''RAND'' then {#''RAND_SET_CALLBACKS''#} else {#}) \<and>
    dispatch_scan (dispatch_table ids impls null) i = map_of impls n \<and>
    map fst OSSL_OP = map fst (drop 2 DISPATCH) \<and> distinct (map snd OSSL_OP) \<and>
    (\<forall>k\<in>set (map snd OSSL_OP). 0 < k \<and> k \<le> OSSL_OP__HIGHEST)"
proof (intro conjI)
  note t = table_okD [OF assms(1)]
  show "if name = ''PROVIDER'' then 1024 \<le> i \<and> i < 1536 else 0 < i \<and> i < 1024"
    using t(3) [OF assms(3)] by (auto simp: reserved_def split: if_splits)
  show d: "distinct (map snd ids)" using t(1) by (simp add: strict_sorted_iff)
  show "mset (uppers funcs) = mset (map fst ids) + (if name = ''RAND'' then {#''RAND_SET_CALLBACKS''#} else {#})"
    by (rule t(4))
  have "0 \<notin> snd ` set ids" using t(3) by (force simp: reserved_def split: if_splits)
  then show "dispatch_scan (dispatch_table ids impls null) i = map_of impls n"
    by (rule dispatch_scan_table [OF d _ assms(2,3) t(2)])
  show "distinct (map snd OSSL_OP)"
    using ascending_sorted [OF operations_ok(2)] by (simp add: strict_sorted_iff)
  show "\<forall>k\<in>set (map snd OSSL_OP). 0 < k \<and> k \<le> OSSL_OP__HIGHEST"
    by (simp add: OSSL_OP_def OSSL_OP__HIGHEST_def)
qed (rule operations_ok(1))

theorem OSSL_dispatch_correct_witness:
  "dispatch_scan (dispatch_table DIGEST_ids [(''DIGEST_FINAL'', CHR ''f''), (''DIGEST_INIT'', CHR ''i'')] CHR ''0'') 2 =
     Some CHR ''i''"
proof -
  have "(''DIGEST'', DIGEST_ids, DIGEST_funcs) \<in> set DISPATCH" by (simp add: DISPATCH_def)
  moreover have "(''DIGEST_INIT'', 2) \<in> set DIGEST_ids" by (simp add: DIGEST_ids_def)
  moreover have "set (map fst [(''DIGEST_FINAL'', CHR ''f''), (''DIGEST_INIT'', CHR ''i'')]) \<subseteq> set (map fst DIGEST_ids)"
    by (simp add: DIGEST_ids_def)
  ultimately show ?thesis
    using OSSL_dispatch_correct [where impls = "[(''DIGEST_FINAL'', CHR ''f''), (''DIGEST_INIT'', CHR ''i'')]"
      and null = "CHR ''0''"] by fastforce
qed

end
