(* ===== verification/OsslBio.thy ===== *)
theory OsslBio
  imports "HOL-Library.Word"
begin

unbundle bit_operations_syntax

text \<open>
  The macros of \<open>openssl/bio.h\<close>: types, flags and commands of BIOs, the retry flags by which an
  I/O operation tells its caller why it should be repeated, and the requests, macros that call
  \<open>BIO_ctrl\<close> or one of its relatives with a command and arguments. These functions, and those
  that read and write the flags, are exported by the library.
\<close>

subsection \<open>The types of BIOs\<close>

definition BIO_TYPE_DESCRIPTOR :: int where "BIO_TYPE_DESCRIPTOR = 0x100"
definition BIO_TYPE_FILTER :: int where "BIO_TYPE_FILTER = 0x200"
definition BIO_TYPE_SOURCE_SINK :: int where "BIO_TYPE_SOURCE_SINK = 0x400"
definition BIO_TYPE_NONE :: int where "BIO_TYPE_NONE = 0"
definition BIO_TYPE_MEM :: int where "BIO_TYPE_MEM = 1 OR BIO_TYPE_SOURCE_SINK"
definition BIO_TYPE_FILE :: int where "BIO_TYPE_FILE = 2 OR BIO_TYPE_SOURCE_SINK"
definition BIO_TYPE_FD :: int where "BIO_TYPE_FD = 4 OR BIO_TYPE_SOURCE_SINK OR BIO_TYPE_DESCRIPTOR"
definition BIO_TYPE_SOCKET :: int where "BIO_TYPE_SOCKET = 5 OR BIO_TYPE_SOURCE_SINK OR BIO_TYPE_DESCRIPTOR"
definition BIO_TYPE_NULL :: int where "BIO_TYPE_NULL = 6 OR BIO_TYPE_SOURCE_SINK"
definition BIO_TYPE_SSL :: int where "BIO_TYPE_SSL = 7 OR BIO_TYPE_FILTER"
definition BIO_TYPE_MD :: int where "BIO_TYPE_MD = 8 OR BIO_TYPE_FILTER"
definition BIO_TYPE_BUFFER :: int where "BIO_TYPE_BUFFER = 9 OR BIO_TYPE_FILTER"
definition BIO_TYPE_CIPHER :: int where "BIO_TYPE_CIPHER = 10 OR BIO_TYPE_FILTER"
definition BIO_TYPE_BASE64 :: int where "BIO_TYPE_BASE64 = 11 OR BIO_TYPE_FILTER"
definition BIO_TYPE_CONNECT :: int where "BIO_TYPE_CONNECT = 12 OR BIO_TYPE_SOURCE_SINK OR BIO_TYPE_DESCRIPTOR"
definition BIO_TYPE_ACCEPT :: int where "BIO_TYPE_ACCEPT = 13 OR BIO_TYPE_SOURCE_SINK OR BIO_TYPE_DESCRIPTOR"
definition BIO_TYPE_NBIO_TEST :: int where "BIO_TYPE_NBIO_TEST = 16 OR BIO_TYPE_FILTER"
definition BIO_TYPE_NULL_FILTER :: int where "BIO_TYPE_NULL_FILTER = 17 OR BIO_TYPE_FILTER"
definition BIO_TYPE_BIO :: int where "BIO_TYPE_BIO = 19 OR BIO_TYPE_SOURCE_SINK"
definition BIO_TYPE_LINEBUFFER :: int where "BIO_TYPE_LINEBUFFER = 20 OR BIO_TYPE_FILTER"
definition BIO_TYPE_DGRAM :: int where "BIO_TYPE_DGRAM = 21 OR BIO_TYPE_SOURCE_SINK OR BIO_TYPE_DESCRIPTOR"
definition BIO_TYPE_ASN1 :: int where "BIO_TYPE_ASN1 = 22 OR BIO_TYPE_FILTER"
definition BIO_TYPE_COMP :: int where "BIO_TYPE_COMP = 23 OR BIO_TYPE_FILTER"
definition BIO_TYPE_DGRAM_SCTP :: int where "BIO_TYPE_DGRAM_SCTP = 24 OR BIO_TYPE_SOURCE_SINK OR BIO_TYPE_DESCRIPTOR"
definition BIO_TYPE_CORE_TO_PROV :: int where "BIO_TYPE_CORE_TO_PROV = 25 OR BIO_TYPE_SOURCE_SINK"
definition BIO_TYPE_START :: int where "BIO_TYPE_START = 128"

subsection \<open>Commands for all types\<close>

definition BIO_CTRL_RESET :: int where "BIO_CTRL_RESET = 1"
definition BIO_CTRL_EOF :: int where "BIO_CTRL_EOF = 2"
definition BIO_CTRL_INFO :: int where "BIO_CTRL_INFO = 3"
definition BIO_CTRL_SET :: int where "BIO_CTRL_SET = 4"
definition BIO_CTRL_GET :: int where "BIO_CTRL_GET = 5"
definition BIO_CTRL_PUSH :: int where "BIO_CTRL_PUSH = 6"
definition BIO_CTRL_POP :: int where "BIO_CTRL_POP = 7"
definition BIO_CTRL_GET_CLOSE :: int where "BIO_CTRL_GET_CLOSE = 8"
definition BIO_CTRL_SET_CLOSE :: int where "BIO_CTRL_SET_CLOSE = 9"
definition BIO_CTRL_PENDING :: int where "BIO_CTRL_PENDING = 10"
definition BIO_CTRL_FLUSH :: int where "BIO_CTRL_FLUSH = 11"
definition BIO_CTRL_DUP :: int where "BIO_CTRL_DUP = 12"
definition BIO_CTRL_WPENDING :: int where "BIO_CTRL_WPENDING = 13"
definition BIO_CTRL_SET_CALLBACK :: int where "BIO_CTRL_SET_CALLBACK = 14"
definition BIO_CTRL_GET_CALLBACK :: int where "BIO_CTRL_GET_CALLBACK = 15"
definition BIO_CTRL_PEEK :: int where "BIO_CTRL_PEEK = 29"
definition BIO_CTRL_SET_FILENAME :: int where "BIO_CTRL_SET_FILENAME = 30"
definition BIO_CTRL_DGRAM_CONNECT :: int where "BIO_CTRL_DGRAM_CONNECT = 31"
definition BIO_CTRL_DGRAM_SET_CONNECTED :: int where "BIO_CTRL_DGRAM_SET_CONNECTED = 32"
definition BIO_CTRL_DGRAM_SET_RECV_TIMEOUT :: int where "BIO_CTRL_DGRAM_SET_RECV_TIMEOUT = 33"
definition BIO_CTRL_DGRAM_GET_RECV_TIMEOUT :: int where "BIO_CTRL_DGRAM_GET_RECV_TIMEOUT = 34"
definition BIO_CTRL_DGRAM_SET_SEND_TIMEOUT :: int where "BIO_CTRL_DGRAM_SET_SEND_TIMEOUT = 35"
definition BIO_CTRL_DGRAM_GET_SEND_TIMEOUT :: int where "BIO_CTRL_DGRAM_GET_SEND_TIMEOUT = 36"
definition BIO_CTRL_DGRAM_GET_RECV_TIMER_EXP :: int where "BIO_CTRL_DGRAM_GET_RECV_TIMER_EXP = 37"
definition BIO_CTRL_DGRAM_GET_SEND_TIMER_EXP :: int where "BIO_CTRL_DGRAM_GET_SEND_TIMER_EXP = 38"
definition BIO_CTRL_DGRAM_MTU_DISCOVER :: int where "BIO_CTRL_DGRAM_MTU_DISCOVER = 39"
definition BIO_CTRL_DGRAM_QUERY_MTU :: int where "BIO_CTRL_DGRAM_QUERY_MTU = 40"
definition BIO_CTRL_DGRAM_GET_FALLBACK_MTU :: int where "BIO_CTRL_DGRAM_GET_FALLBACK_MTU = 47"
definition BIO_CTRL_DGRAM_GET_MTU :: int where "BIO_CTRL_DGRAM_GET_MTU = 41"
definition BIO_CTRL_DGRAM_SET_MTU :: int where "BIO_CTRL_DGRAM_SET_MTU = 42"
definition BIO_CTRL_DGRAM_MTU_EXCEEDED :: int where "BIO_CTRL_DGRAM_MTU_EXCEEDED = 43"
definition BIO_CTRL_DGRAM_GET_PEER :: int where "BIO_CTRL_DGRAM_GET_PEER = 46"
definition BIO_CTRL_DGRAM_SET_PEER :: int where "BIO_CTRL_DGRAM_SET_PEER = 44"
definition BIO_CTRL_DGRAM_SET_NEXT_TIMEOUT :: int where "BIO_CTRL_DGRAM_SET_NEXT_TIMEOUT = 45"
definition BIO_CTRL_DGRAM_SET_DONT_FRAG :: int where "BIO_CTRL_DGRAM_SET_DONT_FRAG = 48"
definition BIO_CTRL_DGRAM_GET_MTU_OVERHEAD :: int where "BIO_CTRL_DGRAM_GET_MTU_OVERHEAD = 49"
definition BIO_CTRL_DGRAM_SCTP_SET_IN_HANDSHAKE :: int where "BIO_CTRL_DGRAM_SCTP_SET_IN_HANDSHAKE = 50"
definition BIO_CTRL_DGRAM_SCTP_ADD_AUTH_KEY :: int where "BIO_CTRL_DGRAM_SCTP_ADD_AUTH_KEY = 51"
definition BIO_CTRL_DGRAM_SCTP_NEXT_AUTH_KEY :: int where "BIO_CTRL_DGRAM_SCTP_NEXT_AUTH_KEY = 52"
definition BIO_CTRL_DGRAM_SCTP_AUTH_CCS_RCVD :: int where "BIO_CTRL_DGRAM_SCTP_AUTH_CCS_RCVD = 53"
definition BIO_CTRL_DGRAM_SCTP_GET_SNDINFO :: int where "BIO_CTRL_DGRAM_SCTP_GET_SNDINFO = 60"
definition BIO_CTRL_DGRAM_SCTP_SET_SNDINFO :: int where "BIO_CTRL_DGRAM_SCTP_SET_SNDINFO = 61"
definition BIO_CTRL_DGRAM_SCTP_GET_RCVINFO :: int where "BIO_CTRL_DGRAM_SCTP_GET_RCVINFO = 62"
definition BIO_CTRL_DGRAM_SCTP_SET_RCVINFO :: int where "BIO_CTRL_DGRAM_SCTP_SET_RCVINFO = 63"
definition BIO_CTRL_DGRAM_SCTP_GET_PRINFO :: int where "BIO_CTRL_DGRAM_SCTP_GET_PRINFO = 64"
definition BIO_CTRL_DGRAM_SCTP_SET_PRINFO :: int where "BIO_CTRL_DGRAM_SCTP_SET_PRINFO = 65"
definition BIO_CTRL_DGRAM_SCTP_SAVE_SHUTDOWN :: int where "BIO_CTRL_DGRAM_SCTP_SAVE_SHUTDOWN = 70"
definition BIO_CTRL_DGRAM_SET_PEEK_MODE :: int where "BIO_CTRL_DGRAM_SET_PEEK_MODE = 71"
definition BIO_CTRL_GET_KTLS_SEND :: int where "BIO_CTRL_GET_KTLS_SEND = 73"
definition BIO_CTRL_GET_KTLS_RECV :: int where "BIO_CTRL_GET_KTLS_RECV = 76"
definition BIO_CTRL_DGRAM_SCTP_WAIT_FOR_DRY :: int where "BIO_CTRL_DGRAM_SCTP_WAIT_FOR_DRY = 77"
definition BIO_CTRL_DGRAM_SCTP_MSG_WAITING :: int where "BIO_CTRL_DGRAM_SCTP_MSG_WAITING = 78"
definition BIO_CTRL_SET_PREFIX :: int where "BIO_CTRL_SET_PREFIX = 79"
definition BIO_CTRL_SET_INDENT :: int where "BIO_CTRL_SET_INDENT = 80"
definition BIO_CTRL_GET_INDENT :: int where "BIO_CTRL_GET_INDENT = 81"

subsection \<open>Flags\<close>

definition BIO_FLAGS_READ :: int where "BIO_FLAGS_READ = 1"
definition BIO_FLAGS_WRITE :: int where "BIO_FLAGS_WRITE = 2"
definition BIO_FLAGS_IO_SPECIAL :: int where "BIO_FLAGS_IO_SPECIAL = 4"
definition BIO_FLAGS_RWS :: int where "BIO_FLAGS_RWS = BIO_FLAGS_READ OR BIO_FLAGS_WRITE OR BIO_FLAGS_IO_SPECIAL"
definition BIO_FLAGS_SHOULD_RETRY :: int where "BIO_FLAGS_SHOULD_RETRY = 8"
definition BIO_FLAGS_BASE64_NO_NL :: int where "BIO_FLAGS_BASE64_NO_NL = 0x100"
definition BIO_FLAGS_MEM_RDONLY :: int where "BIO_FLAGS_MEM_RDONLY = 0x200"
definition BIO_FLAGS_NONCLEAR_RST :: int where "BIO_FLAGS_NONCLEAR_RST = 0x400"
definition BIO_FLAGS_IN_EOF :: int where "BIO_FLAGS_IN_EOF = 0x800"

subsection \<open>File modes\<close>

definition BIO_NOCLOSE :: int where "BIO_NOCLOSE = 0"
definition BIO_CLOSE :: int where "BIO_CLOSE = 1"
definition BIO_FP_READ :: int where "BIO_FP_READ = 2"
definition BIO_FP_WRITE :: int where "BIO_FP_WRITE = 4"
definition BIO_FP_APPEND :: int where "BIO_FP_APPEND = 8"
definition BIO_FP_TEXT :: int where "BIO_FP_TEXT = 0x10"

subsection \<open>Operations reported to a callback\<close>

definition BIO_CB_FREE :: int where "BIO_CB_FREE = 1"
definition BIO_CB_READ :: int where "BIO_CB_READ = 2"
definition BIO_CB_WRITE :: int where "BIO_CB_WRITE = 3"
definition BIO_CB_PUTS :: int where "BIO_CB_PUTS = 4"
definition BIO_CB_GETS :: int where "BIO_CB_GETS = 5"
definition BIO_CB_CTRL :: int where "BIO_CB_CTRL = 6"
definition BIO_CB_RETURN :: int where "BIO_CB_RETURN = 0x80"

subsection \<open>Reasons of a special retry\<close>

definition BIO_RR_SSL_X509_LOOKUP :: int where "BIO_RR_SSL_X509_LOOKUP = 1"
definition BIO_RR_CONNECT :: int where "BIO_RR_CONNECT = 2"
definition BIO_RR_ACCEPT :: int where "BIO_RR_ACCEPT = 3"

subsection \<open>Commands of particular types\<close>

definition BIO_C_SET_CONNECT :: int where "BIO_C_SET_CONNECT = 100"
definition BIO_C_DO_STATE_MACHINE :: int where "BIO_C_DO_STATE_MACHINE = 101"
definition BIO_C_SET_NBIO :: int where "BIO_C_SET_NBIO = 102"
definition BIO_C_SET_FD :: int where "BIO_C_SET_FD = 104"
definition BIO_C_GET_FD :: int where "BIO_C_GET_FD = 105"
definition BIO_C_SET_FILE_PTR :: int where "BIO_C_SET_FILE_PTR = 106"
definition BIO_C_GET_FILE_PTR :: int where "BIO_C_GET_FILE_PTR = 107"
definition BIO_C_SET_FILENAME :: int where "BIO_C_SET_FILENAME = 108"
definition BIO_C_SET_SSL :: int where "BIO_C_SET_SSL = 109"
definition BIO_C_GET_SSL :: int where "BIO_C_GET_SSL = 110"
definition BIO_C_SET_MD :: int where "BIO_C_SET_MD = 111"
definition BIO_C_GET_MD :: int where "BIO_C_GET_MD = 112"
definition BIO_C_GET_CIPHER_STATUS :: int where "BIO_C_GET_CIPHER_STATUS = 113"
definition BIO_C_SET_BUF_MEM :: int where "BIO_C_SET_BUF_MEM = 114"
definition BIO_C_GET_BUF_MEM_PTR :: int where "BIO_C_GET_BUF_MEM_PTR = 115"
definition BIO_C_GET_BUFF_NUM_LINES :: int where "BIO_C_GET_BUFF_NUM_LINES = 116"
definition BIO_C_SET_BUFF_SIZE :: int where "BIO_C_SET_BUFF_SIZE = 117"
definition BIO_C_SET_ACCEPT :: int where "BIO_C_SET_ACCEPT = 118"
definition BIO_C_SSL_MODE :: int where "BIO_C_SSL_MODE = 119"
definition BIO_C_GET_MD_CTX :: int where "BIO_C_GET_MD_CTX = 120"
definition BIO_C_SET_BUFF_READ_DATA :: int where "BIO_C_SET_BUFF_READ_DATA = 122"
definition BIO_C_GET_CONNECT :: int where "BIO_C_GET_CONNECT = 123"
definition BIO_C_GET_ACCEPT :: int where "BIO_C_GET_ACCEPT = 124"
definition BIO_C_SET_SSL_RENEGOTIATE_BYTES :: int where "BIO_C_SET_SSL_RENEGOTIATE_BYTES = 125"
definition BIO_C_GET_SSL_NUM_RENEGOTIATES :: int where "BIO_C_GET_SSL_NUM_RENEGOTIATES = 126"
definition BIO_C_SET_SSL_RENEGOTIATE_TIMEOUT :: int where "BIO_C_SET_SSL_RENEGOTIATE_TIMEOUT = 127"
definition BIO_C_FILE_SEEK :: int where "BIO_C_FILE_SEEK = 128"
definition BIO_C_GET_CIPHER_CTX :: int where "BIO_C_GET_CIPHER_CTX = 129"
definition BIO_C_SET_BUF_MEM_EOF_RETURN :: int where "BIO_C_SET_BUF_MEM_EOF_RETURN = 130"
definition BIO_C_SET_BIND_MODE :: int where "BIO_C_SET_BIND_MODE = 131"
definition BIO_C_GET_BIND_MODE :: int where "BIO_C_GET_BIND_MODE = 132"
definition BIO_C_FILE_TELL :: int where "BIO_C_FILE_TELL = 133"
definition BIO_C_GET_SOCKS :: int where "BIO_C_GET_SOCKS = 134"
definition BIO_C_SET_SOCKS :: int where "BIO_C_SET_SOCKS = 135"
definition BIO_C_SET_WRITE_BUF_SIZE :: int where "BIO_C_SET_WRITE_BUF_SIZE = 136"
definition BIO_C_GET_WRITE_BUF_SIZE :: int where "BIO_C_GET_WRITE_BUF_SIZE = 137"
definition BIO_C_MAKE_BIO_PAIR :: int where "BIO_C_MAKE_BIO_PAIR = 138"
definition BIO_C_DESTROY_BIO_PAIR :: int where "BIO_C_DESTROY_BIO_PAIR = 139"
definition BIO_C_GET_WRITE_GUARANTEE :: int where "BIO_C_GET_WRITE_GUARANTEE = 140"
definition BIO_C_GET_READ_REQUEST :: int where "BIO_C_GET_READ_REQUEST = 141"
definition BIO_C_SHUTDOWN_WR :: int where "BIO_C_SHUTDOWN_WR = 142"
definition BIO_C_NREAD0 :: int where "BIO_C_NREAD0 = 143"
definition BIO_C_NREAD :: int where "BIO_C_NREAD = 144"
definition BIO_C_NWRITE0 :: int where "BIO_C_NWRITE0 = 145"
definition BIO_C_NWRITE :: int where "BIO_C_NWRITE = 146"
definition BIO_C_RESET_READ_REQUEST :: int where "BIO_C_RESET_READ_REQUEST = 147"
definition BIO_C_SET_MD_CTX :: int where "BIO_C_SET_MD_CTX = 148"
definition BIO_C_SET_PREFIX :: int where "BIO_C_SET_PREFIX = 149"
definition BIO_C_GET_PREFIX :: int where "BIO_C_GET_PREFIX = 150"
definition BIO_C_SET_SUFFIX :: int where "BIO_C_SET_SUFFIX = 151"
definition BIO_C_GET_SUFFIX :: int where "BIO_C_GET_SUFFIX = 152"
definition BIO_C_SET_EX_ARG :: int where "BIO_C_SET_EX_ARG = 153"
definition BIO_C_GET_EX_ARG :: int where "BIO_C_GET_EX_ARG = 154"
definition BIO_C_SET_CONNECT_MODE :: int where "BIO_C_SET_CONNECT_MODE = 155"

subsection \<open>Retry flags\<close>

text \<open>The functions on the flags of a BIO of type \<open>'b\<close>; \<open>int\<close> has 32 bits.\<close>

record 'b bio_flags =
  BIO_set_flags :: "'b \<Rightarrow> 32 word \<Rightarrow> 'b"
  BIO_test_flags :: "'b \<Rightarrow> 32 word \<Rightarrow> 32 word"
  BIO_clear_flags :: "'b \<Rightarrow> 32 word \<Rightarrow> 'b"

definition BIO_get_flags :: "'b bio_flags \<Rightarrow> 'b \<Rightarrow> 32 word" where
  "BIO_get_flags lib b = BIO_test_flags lib b (NOT 0)"

definition BIO_set_retry_special :: "'b bio_flags \<Rightarrow> 'b \<Rightarrow> 'b" where
  "BIO_set_retry_special lib b = BIO_set_flags lib b (word_of_int (BIO_FLAGS_IO_SPECIAL OR BIO_FLAGS_SHOULD_RETRY))"

definition BIO_set_retry_read :: "'b bio_flags \<Rightarrow> 'b \<Rightarrow> 'b" where
  "BIO_set_retry_read lib b = BIO_set_flags lib b (word_of_int (BIO_FLAGS_READ OR BIO_FLAGS_SHOULD_RETRY))"

definition BIO_set_retry_write :: "'b bio_flags \<Rightarrow> 'b \<Rightarrow> 'b" where
  "BIO_set_retry_write lib b = BIO_set_flags lib b (word_of_int (BIO_FLAGS_WRITE OR BIO_FLAGS_SHOULD_RETRY))"

definition BIO_clear_retry_flags :: "'b bio_flags \<Rightarrow> 'b \<Rightarrow> 'b" where
  "BIO_clear_retry_flags lib b = BIO_clear_flags lib b (word_of_int (BIO_FLAGS_RWS OR BIO_FLAGS_SHOULD_RETRY))"

definition BIO_get_retry_flags :: "'b bio_flags \<Rightarrow> 'b \<Rightarrow> 32 word" where
  "BIO_get_retry_flags lib b = BIO_test_flags lib b (word_of_int (BIO_FLAGS_RWS OR BIO_FLAGS_SHOULD_RETRY))"

definition BIO_should_read :: "'b bio_flags \<Rightarrow> 'b \<Rightarrow> 32 word" where
  "BIO_should_read lib a = BIO_test_flags lib a (word_of_int BIO_FLAGS_READ)"

definition BIO_should_write :: "'b bio_flags \<Rightarrow> 'b \<Rightarrow> 32 word" where
  "BIO_should_write lib a = BIO_test_flags lib a (word_of_int BIO_FLAGS_WRITE)"

definition BIO_should_io_special :: "'b bio_flags \<Rightarrow> 'b \<Rightarrow> 32 word" where
  "BIO_should_io_special lib a = BIO_test_flags lib a (word_of_int BIO_FLAGS_IO_SPECIAL)"

definition BIO_retry_type :: "'b bio_flags \<Rightarrow> 'b \<Rightarrow> 32 word" where
  "BIO_retry_type lib a = BIO_test_flags lib a (word_of_int BIO_FLAGS_RWS)"

definition BIO_should_retry :: "'b bio_flags \<Rightarrow> 'b \<Rightarrow> 32 word" where
  "BIO_should_retry lib a = BIO_test_flags lib a (word_of_int BIO_FLAGS_SHOULD_RETRY)"

subsection \<open>Callbacks before and after an operation\<close>

definition BIO_CB_return :: "int \<Rightarrow> int" where
  "BIO_CB_return a = a OR BIO_CB_RETURN"

definition BIO_cb_pre :: "int \<Rightarrow> bool" where
  "BIO_cb_pre a \<longleftrightarrow> a AND BIO_CB_RETURN = 0"

definition BIO_cb_post :: "int \<Rightarrow> int" where
  "BIO_cb_post a = a AND BIO_CB_RETURN"

subsection \<open>Requests\<close>

text \<open>
  The call that a macro makes on its BIO: the function, the command and its arguments, where
  \<open>'p\<close> are pointers; and the type to which the \<open>long\<close> that comes back is cast.
\<close>

datatype 'p parg = Null | Ptr 'p | Str string

datatype 'p bio_message =
    Ctrl int "64 word" "'p parg"
  | Int_ctrl int "64 word" "32 word"
  | Ptr_ctrl int "64 word"
  | Callback_ctrl int 'p

datatype bio_result = To_long | To_int | To_size | To_unsigned | To_pointer

type_synonym 'p bio_request = "'p bio_message \<times> bio_result"

fun bio_value :: "bio_result \<Rightarrow> 64 word \<Rightarrow> int" where
  "bio_value To_long r = sint r"
| "bio_value To_int r = sint (ucast r :: 32 word)"
| "bio_value To_size r = uint r"
| "bio_value To_unsigned r = uint (ucast r :: 32 word)"
| "bio_value To_pointer r = uint r"

definition BIO_set_nbio :: "64 word \<Rightarrow> 'p bio_request" where
  "BIO_set_nbio n = (Ctrl BIO_C_SET_NBIO n Null, To_long)"

definition BIO_set_conn_hostname :: "'p \<Rightarrow> 'p bio_request" where
  "BIO_set_conn_hostname name = (Ctrl BIO_C_SET_CONNECT 0 (Ptr name), To_long)"

definition BIO_set_conn_port :: "'p \<Rightarrow> 'p bio_request" where
  "BIO_set_conn_port port = (Ctrl BIO_C_SET_CONNECT 1 (Ptr port), To_long)"

definition BIO_set_conn_address :: "'p \<Rightarrow> 'p bio_request" where
  "BIO_set_conn_address addr = (Ctrl BIO_C_SET_CONNECT 2 (Ptr addr), To_long)"

definition BIO_set_conn_ip_family :: "32 word \<Rightarrow> 'p bio_request" where
  "BIO_set_conn_ip_family f = (Int_ctrl BIO_C_SET_CONNECT 3 f, To_long)"

definition BIO_get_conn_hostname :: "'p bio_request" where
  "BIO_get_conn_hostname = (Ptr_ctrl BIO_C_GET_CONNECT 0, To_pointer)"

definition BIO_get_conn_port :: "'p bio_request" where
  "BIO_get_conn_port = (Ptr_ctrl BIO_C_GET_CONNECT 1, To_pointer)"

definition BIO_get_conn_address :: "'p bio_request" where
  "BIO_get_conn_address = (Ptr_ctrl BIO_C_GET_CONNECT 2, To_pointer)"

definition BIO_get_conn_ip_family :: "'p bio_request" where
  "BIO_get_conn_ip_family = (Ctrl BIO_C_GET_CONNECT 3 Null, To_long)"

definition BIO_set_conn_mode :: "64 word \<Rightarrow> 'p bio_request" where
  "BIO_set_conn_mode n = (Ctrl BIO_C_SET_CONNECT_MODE n Null, To_long)"

definition BIO_set_accept_name :: "'p \<Rightarrow> 'p bio_request" where
  "BIO_set_accept_name name = (Ctrl BIO_C_SET_ACCEPT 0 (Ptr name), To_long)"

definition BIO_set_accept_port :: "'p \<Rightarrow> 'p bio_request" where
  "BIO_set_accept_port port = (Ctrl BIO_C_SET_ACCEPT 1 (Ptr port), To_long)"

definition BIO_get_accept_name :: "'p bio_request" where
  "BIO_get_accept_name = (Ptr_ctrl BIO_C_GET_ACCEPT 0, To_pointer)"

definition BIO_get_accept_port :: "'p bio_request" where
  "BIO_get_accept_port = (Ptr_ctrl BIO_C_GET_ACCEPT 1, To_pointer)"

definition BIO_get_peer_name :: "'p bio_request" where
  "BIO_get_peer_name = (Ptr_ctrl BIO_C_GET_ACCEPT 2, To_pointer)"

definition BIO_get_peer_port :: "'p bio_request" where
  "BIO_get_peer_port = (Ptr_ctrl BIO_C_GET_ACCEPT 3, To_pointer)"

definition BIO_set_nbio_accept :: "64 word \<Rightarrow> 'p bio_request" where
  "BIO_set_nbio_accept n = (Ctrl BIO_C_SET_ACCEPT 2 (if n \<noteq> 0 then Str ''a'' else Null), To_long)"

definition BIO_set_accept_bios :: "'p \<Rightarrow> 'p bio_request" where
  "BIO_set_accept_bios bio = (Ctrl BIO_C_SET_ACCEPT 3 (Ptr bio), To_long)"

definition BIO_set_accept_ip_family :: "32 word \<Rightarrow> 'p bio_request" where
  "BIO_set_accept_ip_family f = (Int_ctrl BIO_C_SET_ACCEPT 4 f, To_long)"

definition BIO_get_accept_ip_family :: "'p bio_request" where
  "BIO_get_accept_ip_family = (Ctrl BIO_C_GET_ACCEPT 4 Null, To_long)"

definition BIO_set_bind_mode :: "64 word \<Rightarrow> 'p bio_request" where
  "BIO_set_bind_mode mode = (Ctrl BIO_C_SET_BIND_MODE mode Null, To_long)"

definition BIO_get_bind_mode :: "'p bio_request" where
  "BIO_get_bind_mode = (Ctrl BIO_C_GET_BIND_MODE 0 Null, To_long)"

definition BIO_do_handshake :: "'p bio_request" where
  "BIO_do_handshake = (Ctrl BIO_C_DO_STATE_MACHINE 0 Null, To_long)"

definition BIO_set_fd :: "32 word \<Rightarrow> 64 word \<Rightarrow> 'p bio_request" where
  "BIO_set_fd fd c = (Int_ctrl BIO_C_SET_FD c fd, To_long)"

definition BIO_get_fd :: "'p \<Rightarrow> 'p bio_request" where
  "BIO_get_fd c = (Ctrl BIO_C_GET_FD 0 (Ptr c), To_long)"

definition BIO_set_fp :: "'p \<Rightarrow> 64 word \<Rightarrow> 'p bio_request" where
  "BIO_set_fp fp c = (Ctrl BIO_C_SET_FILE_PTR c (Ptr fp), To_long)"

definition BIO_get_fp :: "'p \<Rightarrow> 'p bio_request" where
  "BIO_get_fp fpp = (Ctrl BIO_C_GET_FILE_PTR 0 (Ptr fpp), To_long)"

definition BIO_seek :: "64 word \<Rightarrow> 'p bio_request" where
  "BIO_seek ofs = (Ctrl BIO_C_FILE_SEEK ofs Null, To_int)"

definition BIO_tell :: "'p bio_request" where
  "BIO_tell = (Ctrl BIO_C_FILE_TELL 0 Null, To_int)"

definition BIO_read_filename :: "'p \<Rightarrow> 'p bio_request" where
  "BIO_read_filename name = (Ctrl BIO_C_SET_FILENAME (word_of_int BIO_CLOSE OR word_of_int BIO_FP_READ) (Ptr name), To_int)"

definition BIO_write_filename :: "'p \<Rightarrow> 'p bio_request" where
  "BIO_write_filename name = (Ctrl BIO_C_SET_FILENAME (word_of_int BIO_CLOSE OR word_of_int BIO_FP_WRITE) (Ptr name), To_int)"

definition BIO_append_filename :: "'p \<Rightarrow> 'p bio_request" where
  "BIO_append_filename name = (Ctrl BIO_C_SET_FILENAME (word_of_int BIO_CLOSE OR word_of_int BIO_FP_APPEND) (Ptr name), To_int)"

definition BIO_rw_filename :: "'p \<Rightarrow> 'p bio_request" where
  "BIO_rw_filename name = (Ctrl BIO_C_SET_FILENAME (word_of_int BIO_CLOSE OR word_of_int BIO_FP_READ OR word_of_int BIO_FP_WRITE) (Ptr name), To_int)"

definition BIO_set_ssl :: "'p \<Rightarrow> 64 word \<Rightarrow> 'p bio_request" where
  "BIO_set_ssl ssl c = (Ctrl BIO_C_SET_SSL c (Ptr ssl), To_long)"

definition BIO_get_ssl :: "'p \<Rightarrow> 'p bio_request" where
  "BIO_get_ssl sslp = (Ctrl BIO_C_GET_SSL 0 (Ptr sslp), To_long)"

definition BIO_set_ssl_mode :: "64 word \<Rightarrow> 'p bio_request" where
  "BIO_set_ssl_mode client = (Ctrl BIO_C_SSL_MODE client Null, To_long)"

definition BIO_set_ssl_renegotiate_bytes :: "64 word \<Rightarrow> 'p bio_request" where
  "BIO_set_ssl_renegotiate_bytes num = (Ctrl BIO_C_SET_SSL_RENEGOTIATE_BYTES num Null, To_long)"

definition BIO_get_num_renegotiates :: "'p bio_request" where
  "BIO_get_num_renegotiates = (Ctrl BIO_C_GET_SSL_NUM_RENEGOTIATES 0 Null, To_long)"

definition BIO_set_ssl_renegotiate_timeout :: "64 word \<Rightarrow> 'p bio_request" where
  "BIO_set_ssl_renegotiate_timeout seconds = (Ctrl BIO_C_SET_SSL_RENEGOTIATE_TIMEOUT seconds Null, To_long)"

definition BIO_get_mem_data :: "'p \<Rightarrow> 'p bio_request" where
  "BIO_get_mem_data pp = (Ctrl BIO_CTRL_INFO 0 (Ptr pp), To_long)"

definition BIO_set_mem_buf :: "'p \<Rightarrow> 64 word \<Rightarrow> 'p bio_request" where
  "BIO_set_mem_buf bm c = (Ctrl BIO_C_SET_BUF_MEM c (Ptr bm), To_long)"

definition BIO_get_mem_ptr :: "'p \<Rightarrow> 'p bio_request" where
  "BIO_get_mem_ptr pp = (Ctrl BIO_C_GET_BUF_MEM_PTR 0 (Ptr pp), To_long)"

definition BIO_set_mem_eof_return :: "64 word \<Rightarrow> 'p bio_request" where
  "BIO_set_mem_eof_return v = (Ctrl BIO_C_SET_BUF_MEM_EOF_RETURN v Null, To_long)"

definition BIO_get_buffer_num_lines :: "'p bio_request" where
  "BIO_get_buffer_num_lines = (Ctrl BIO_C_GET_BUFF_NUM_LINES 0 Null, To_long)"

definition BIO_set_buffer_size :: "64 word \<Rightarrow> 'p bio_request" where
  "BIO_set_buffer_size sz = (Ctrl BIO_C_SET_BUFF_SIZE sz Null, To_long)"

definition BIO_set_read_buffer_size :: "64 word \<Rightarrow> 'p bio_request" where
  "BIO_set_read_buffer_size sz = (Int_ctrl BIO_C_SET_BUFF_SIZE sz 0, To_long)"

definition BIO_set_write_buffer_size :: "64 word \<Rightarrow> 'p bio_request" where
  "BIO_set_write_buffer_size sz = (Int_ctrl BIO_C_SET_BUFF_SIZE sz 1, To_long)"

definition BIO_set_buffer_read_data :: "'p \<Rightarrow> 64 word \<Rightarrow> 'p bio_request" where
  "BIO_set_buffer_read_data buf num = (Ctrl BIO_C_SET_BUFF_READ_DATA num (Ptr buf), To_long)"

definition BIO_dup_state :: "'p \<Rightarrow> 'p bio_request" where
  "BIO_dup_state ret = (Ctrl BIO_CTRL_DUP 0 (Ptr ret), To_long)"

definition BIO_reset :: "'p bio_request" where
  "BIO_reset = (Ctrl BIO_CTRL_RESET 0 Null, To_int)"

definition BIO_eof :: "'p bio_request" where
  "BIO_eof = (Ctrl BIO_CTRL_EOF 0 Null, To_int)"

definition BIO_set_close :: "64 word \<Rightarrow> 'p bio_request" where
  "BIO_set_close c = (Ctrl BIO_CTRL_SET_CLOSE c Null, To_int)"

definition BIO_get_close :: "'p bio_request" where
  "BIO_get_close = (Ctrl BIO_CTRL_GET_CLOSE 0 Null, To_int)"

definition BIO_pending :: "'p bio_request" where
  "BIO_pending = (Ctrl BIO_CTRL_PENDING 0 Null, To_int)"

definition BIO_wpending :: "'p bio_request" where
  "BIO_wpending = (Ctrl BIO_CTRL_WPENDING 0 Null, To_int)"

definition BIO_flush :: "'p bio_request" where
  "BIO_flush = (Ctrl BIO_CTRL_FLUSH 0 Null, To_int)"

definition BIO_get_info_callback :: "'p \<Rightarrow> 'p bio_request" where
  "BIO_get_info_callback cbp = (Ctrl BIO_CTRL_GET_CALLBACK 0 (Ptr cbp), To_int)"

definition BIO_set_info_callback :: "'p \<Rightarrow> 'p bio_request" where
  "BIO_set_info_callback cb = (Callback_ctrl BIO_CTRL_SET_CALLBACK cb, To_int)"

definition BIO_buffer_get_num_lines :: "'p bio_request" where
  "BIO_buffer_get_num_lines = (Ctrl BIO_CTRL_GET 0 Null, To_long)"

definition BIO_buffer_peek :: "'p \<Rightarrow> 64 word \<Rightarrow> 'p bio_request" where
  "BIO_buffer_peek s l = (Ctrl BIO_CTRL_PEEK l (Ptr s), To_long)"

definition BIO_set_write_buf_size :: "64 word \<Rightarrow> 'p bio_request" where
  "BIO_set_write_buf_size sz = (Ctrl BIO_C_SET_WRITE_BUF_SIZE sz Null, To_int)"

definition BIO_get_write_buf_size :: "64 word \<Rightarrow> 'p bio_request" where
  "BIO_get_write_buf_size sz = (Ctrl BIO_C_GET_WRITE_BUF_SIZE sz Null, To_size)"

definition BIO_make_bio_pair :: "'p \<Rightarrow> 'p bio_request" where
  "BIO_make_bio_pair b2 = (Ctrl BIO_C_MAKE_BIO_PAIR 0 (Ptr b2), To_int)"

definition BIO_destroy_bio_pair :: "'p bio_request" where
  "BIO_destroy_bio_pair = (Ctrl BIO_C_DESTROY_BIO_PAIR 0 Null, To_int)"

definition BIO_shutdown_wr :: "'p bio_request" where
  "BIO_shutdown_wr = (Ctrl BIO_C_SHUTDOWN_WR 0 Null, To_int)"

definition BIO_get_write_guarantee :: "'p bio_request" where
  "BIO_get_write_guarantee = (Ctrl BIO_C_GET_WRITE_GUARANTEE 0 Null, To_int)"

definition BIO_get_read_request :: "'p bio_request" where
  "BIO_get_read_request = (Ctrl BIO_C_GET_READ_REQUEST 0 Null, To_int)"

definition BIO_ctrl_dgram_connect :: "'p \<Rightarrow> 'p bio_request" where
  "BIO_ctrl_dgram_connect peer = (Ctrl BIO_CTRL_DGRAM_CONNECT 0 (Ptr peer), To_int)"

definition BIO_ctrl_set_connected :: "'p \<Rightarrow> 'p bio_request" where
  "BIO_ctrl_set_connected peer = (Ctrl BIO_CTRL_DGRAM_SET_CONNECTED 0 (Ptr peer), To_int)"

definition BIO_dgram_recv_timedout :: "'p bio_request" where
  "BIO_dgram_recv_timedout = (Ctrl BIO_CTRL_DGRAM_GET_RECV_TIMER_EXP 0 Null, To_int)"

definition BIO_dgram_send_timedout :: "'p bio_request" where
  "BIO_dgram_send_timedout = (Ctrl BIO_CTRL_DGRAM_GET_SEND_TIMER_EXP 0 Null, To_int)"

definition BIO_dgram_get_peer :: "'p \<Rightarrow> 'p bio_request" where
  "BIO_dgram_get_peer peer = (Ctrl BIO_CTRL_DGRAM_GET_PEER 0 (Ptr peer), To_int)"

definition BIO_dgram_set_peer :: "'p \<Rightarrow> 'p bio_request" where
  "BIO_dgram_set_peer peer = (Ctrl BIO_CTRL_DGRAM_SET_PEER 0 (Ptr peer), To_int)"

definition BIO_dgram_get_mtu_overhead :: "'p bio_request" where
  "BIO_dgram_get_mtu_overhead = (Ctrl BIO_CTRL_DGRAM_GET_MTU_OVERHEAD 0 Null, To_unsigned)"

definition BIO_set_prefix :: "'p \<Rightarrow> 'p bio_request" where
  "BIO_set_prefix p = (Ctrl BIO_CTRL_SET_PREFIX 0 (Ptr p), To_long)"

definition BIO_set_indent :: "64 word \<Rightarrow> 'p bio_request" where
  "BIO_set_indent i = (Ctrl BIO_CTRL_SET_INDENT i Null, To_long)"

definition BIO_get_indent :: "'p bio_request" where
  "BIO_get_indent = (Ctrl BIO_CTRL_GET_INDENT 0 Null, To_long)"

definition BIO_do_connect :: "'p bio_request" where
  "BIO_do_connect = BIO_do_handshake"

definition BIO_do_accept :: "'p bio_request" where
  "BIO_do_accept = BIO_do_handshake"

text \<open>All requests, with any arguments.\<close>

definition BIO_requests :: "'p \<Rightarrow> 64 word \<Rightarrow> 32 word \<Rightarrow> (string \<times> 'p bio_request) list" where
  "BIO_requests p l i = [
     (''BIO_set_nbio'', BIO_set_nbio l),
     (''BIO_set_conn_hostname'', BIO_set_conn_hostname p),
     (''BIO_set_conn_port'', BIO_set_conn_port p),
     (''BIO_set_conn_address'', BIO_set_conn_address p),
     (''BIO_set_conn_ip_family'', BIO_set_conn_ip_family i),
     (''BIO_get_conn_hostname'', BIO_get_conn_hostname),
     (''BIO_get_conn_port'', BIO_get_conn_port),
     (''BIO_get_conn_address'', BIO_get_conn_address),
     (''BIO_get_conn_ip_family'', BIO_get_conn_ip_family),
     (''BIO_set_conn_mode'', BIO_set_conn_mode l),
     (''BIO_set_accept_name'', BIO_set_accept_name p),
     (''BIO_set_accept_port'', BIO_set_accept_port p),
     (''BIO_get_accept_name'', BIO_get_accept_name),
     (''BIO_get_accept_port'', BIO_get_accept_port),
     (''BIO_get_peer_name'', BIO_get_peer_name),
     (''BIO_get_peer_port'', BIO_get_peer_port),
     (''BIO_set_nbio_accept'', BIO_set_nbio_accept l),
     (''BIO_set_accept_bios'', BIO_set_accept_bios p),
     (''BIO_set_accept_ip_family'', BIO_set_accept_ip_family i),
     (''BIO_get_accept_ip_family'', BIO_get_accept_ip_family),
     (''BIO_set_bind_mode'', BIO_set_bind_mode l),
     (''BIO_get_bind_mode'', BIO_get_bind_mode),
     (''BIO_do_handshake'', BIO_do_handshake),
     (''BIO_set_fd'', BIO_set_fd i l),
     (''BIO_get_fd'', BIO_get_fd p),
     (''BIO_set_fp'', BIO_set_fp p l),
     (''BIO_get_fp'', BIO_get_fp p),
     (''BIO_seek'', BIO_seek l),
     (''BIO_tell'', BIO_tell),
     (''BIO_read_filename'', BIO_read_filename p),
     (''BIO_write_filename'', BIO_write_filename p),
     (''BIO_append_filename'', BIO_append_filename p),
     (''BIO_rw_filename'', BIO_rw_filename p),
     (''BIO_set_ssl'', BIO_set_ssl p l),
     (''BIO_get_ssl'', BIO_get_ssl p),
     (''BIO_set_ssl_mode'', BIO_set_ssl_mode l),
     (''BIO_set_ssl_renegotiate_bytes'', BIO_set_ssl_renegotiate_bytes l),
     (''BIO_get_num_renegotiates'', BIO_get_num_renegotiates),
     (''BIO_set_ssl_renegotiate_timeout'', BIO_set_ssl_renegotiate_timeout l),
     (''BIO_get_mem_data'', BIO_get_mem_data p),
     (''BIO_set_mem_buf'', BIO_set_mem_buf p l),
     (''BIO_get_mem_ptr'', BIO_get_mem_ptr p),
     (''BIO_set_mem_eof_return'', BIO_set_mem_eof_return l),
     (''BIO_get_buffer_num_lines'', BIO_get_buffer_num_lines),
     (''BIO_set_buffer_size'', BIO_set_buffer_size l),
     (''BIO_set_read_buffer_size'', BIO_set_read_buffer_size l),
     (''BIO_set_write_buffer_size'', BIO_set_write_buffer_size l),
     (''BIO_set_buffer_read_data'', BIO_set_buffer_read_data p l),
     (''BIO_dup_state'', BIO_dup_state p),
     (''BIO_reset'', BIO_reset),
     (''BIO_eof'', BIO_eof),
     (''BIO_set_close'', BIO_set_close l),
     (''BIO_get_close'', BIO_get_close),
     (''BIO_pending'', BIO_pending),
     (''BIO_wpending'', BIO_wpending),
     (''BIO_flush'', BIO_flush),
     (''BIO_get_info_callback'', BIO_get_info_callback p),
     (''BIO_set_info_callback'', BIO_set_info_callback p),
     (''BIO_buffer_get_num_lines'', BIO_buffer_get_num_lines),
     (''BIO_buffer_peek'', BIO_buffer_peek p l),
     (''BIO_set_write_buf_size'', BIO_set_write_buf_size l),
     (''BIO_get_write_buf_size'', BIO_get_write_buf_size l),
     (''BIO_make_bio_pair'', BIO_make_bio_pair p),
     (''BIO_destroy_bio_pair'', BIO_destroy_bio_pair),
     (''BIO_shutdown_wr'', BIO_shutdown_wr),
     (''BIO_get_write_guarantee'', BIO_get_write_guarantee),
     (''BIO_get_read_request'', BIO_get_read_request),
     (''BIO_ctrl_dgram_connect'', BIO_ctrl_dgram_connect p),
     (''BIO_ctrl_set_connected'', BIO_ctrl_set_connected p),
     (''BIO_dgram_recv_timedout'', BIO_dgram_recv_timedout),
     (''BIO_dgram_send_timedout'', BIO_dgram_send_timedout),
     (''BIO_dgram_get_peer'', BIO_dgram_get_peer p),
     (''BIO_dgram_set_peer'', BIO_dgram_set_peer p),
     (''BIO_dgram_get_mtu_overhead'', BIO_dgram_get_mtu_overhead),
     (''BIO_set_prefix'', BIO_set_prefix p),
     (''BIO_set_indent'', BIO_set_indent l),
     (''BIO_get_indent'', BIO_get_indent)]"

end
