(* ===== verification/SslRequests.thy ===== *)
theory SslRequests
  imports OsslBio
begin

unbundle bit_operations_syntax

text \<open>
  The requests of \<open>openssl/ssl.h\<close> and \<open>openssl/tls1.h\<close>: macros that call \<open>SSL_ctrl\<close> for a
  connection or \<open>SSL_CTX_ctrl\<close> for the context that connections are made from, with a command
  and arguments; and the options and modes that are set on both. These two functions, and their
  variants for callbacks, are exported by the library.
\<close>

subsection \<open>Commands\<close>

definition SSL_CTRL_SET_TMP_DH :: int where "SSL_CTRL_SET_TMP_DH = 3"
definition SSL_CTRL_SET_TMP_ECDH :: int where "SSL_CTRL_SET_TMP_ECDH = 4"
definition SSL_CTRL_SET_TMP_DH_CB :: int where "SSL_CTRL_SET_TMP_DH_CB = 6"
definition SSL_CTRL_GET_CLIENT_CERT_REQUEST :: int where "SSL_CTRL_GET_CLIENT_CERT_REQUEST = 9"
definition SSL_CTRL_GET_NUM_RENEGOTIATIONS :: int where "SSL_CTRL_GET_NUM_RENEGOTIATIONS = 10"
definition SSL_CTRL_CLEAR_NUM_RENEGOTIATIONS :: int where "SSL_CTRL_CLEAR_NUM_RENEGOTIATIONS = 11"
definition SSL_CTRL_GET_TOTAL_RENEGOTIATIONS :: int where "SSL_CTRL_GET_TOTAL_RENEGOTIATIONS = 12"
definition SSL_CTRL_GET_FLAGS :: int where "SSL_CTRL_GET_FLAGS = 13"
definition SSL_CTRL_EXTRA_CHAIN_CERT :: int where "SSL_CTRL_EXTRA_CHAIN_CERT = 14"
definition SSL_CTRL_SET_MSG_CALLBACK :: int where "SSL_CTRL_SET_MSG_CALLBACK = 15"
definition SSL_CTRL_SET_MSG_CALLBACK_ARG :: int where "SSL_CTRL_SET_MSG_CALLBACK_ARG = 16"
definition SSL_CTRL_SET_MTU :: int where "SSL_CTRL_SET_MTU = 17"
definition SSL_CTRL_SESS_NUMBER :: int where "SSL_CTRL_SESS_NUMBER = 20"
definition SSL_CTRL_SESS_CONNECT :: int where "SSL_CTRL_SESS_CONNECT = 21"
definition SSL_CTRL_SESS_CONNECT_GOOD :: int where "SSL_CTRL_SESS_CONNECT_GOOD = 22"
definition SSL_CTRL_SESS_CONNECT_RENEGOTIATE :: int where "SSL_CTRL_SESS_CONNECT_RENEGOTIATE = 23"
definition SSL_CTRL_SESS_ACCEPT :: int where "SSL_CTRL_SESS_ACCEPT = 24"
definition SSL_CTRL_SESS_ACCEPT_GOOD :: int where "SSL_CTRL_SESS_ACCEPT_GOOD = 25"
definition SSL_CTRL_SESS_ACCEPT_RENEGOTIATE :: int where "SSL_CTRL_SESS_ACCEPT_RENEGOTIATE = 26"
definition SSL_CTRL_SESS_HIT :: int where "SSL_CTRL_SESS_HIT = 27"
definition SSL_CTRL_SESS_CB_HIT :: int where "SSL_CTRL_SESS_CB_HIT = 28"
definition SSL_CTRL_SESS_MISSES :: int where "SSL_CTRL_SESS_MISSES = 29"
definition SSL_CTRL_SESS_TIMEOUTS :: int where "SSL_CTRL_SESS_TIMEOUTS = 30"
definition SSL_CTRL_SESS_CACHE_FULL :: int where "SSL_CTRL_SESS_CACHE_FULL = 31"
definition SSL_CTRL_MODE :: int where "SSL_CTRL_MODE = 33"
definition SSL_CTRL_GET_READ_AHEAD :: int where "SSL_CTRL_GET_READ_AHEAD = 40"
definition SSL_CTRL_SET_READ_AHEAD :: int where "SSL_CTRL_SET_READ_AHEAD = 41"
definition SSL_CTRL_SET_SESS_CACHE_SIZE :: int where "SSL_CTRL_SET_SESS_CACHE_SIZE = 42"
definition SSL_CTRL_GET_SESS_CACHE_SIZE :: int where "SSL_CTRL_GET_SESS_CACHE_SIZE = 43"
definition SSL_CTRL_SET_SESS_CACHE_MODE :: int where "SSL_CTRL_SET_SESS_CACHE_MODE = 44"
definition SSL_CTRL_GET_SESS_CACHE_MODE :: int where "SSL_CTRL_GET_SESS_CACHE_MODE = 45"
definition SSL_CTRL_GET_MAX_CERT_LIST :: int where "SSL_CTRL_GET_MAX_CERT_LIST = 50"
definition SSL_CTRL_SET_MAX_CERT_LIST :: int where "SSL_CTRL_SET_MAX_CERT_LIST = 51"
definition SSL_CTRL_SET_MAX_SEND_FRAGMENT :: int where "SSL_CTRL_SET_MAX_SEND_FRAGMENT = 52"
definition SSL_CTRL_SET_TLSEXT_SERVERNAME_CB :: int where "SSL_CTRL_SET_TLSEXT_SERVERNAME_CB = 53"
definition SSL_CTRL_SET_TLSEXT_SERVERNAME_ARG :: int where "SSL_CTRL_SET_TLSEXT_SERVERNAME_ARG = 54"
definition SSL_CTRL_SET_TLSEXT_HOSTNAME :: int where "SSL_CTRL_SET_TLSEXT_HOSTNAME = 55"
definition SSL_CTRL_SET_TLSEXT_DEBUG_CB :: int where "SSL_CTRL_SET_TLSEXT_DEBUG_CB = 56"
definition SSL_CTRL_SET_TLSEXT_DEBUG_ARG :: int where "SSL_CTRL_SET_TLSEXT_DEBUG_ARG = 57"
definition SSL_CTRL_GET_TLSEXT_TICKET_KEYS :: int where "SSL_CTRL_GET_TLSEXT_TICKET_KEYS = 58"
definition SSL_CTRL_SET_TLSEXT_TICKET_KEYS :: int where "SSL_CTRL_SET_TLSEXT_TICKET_KEYS = 59"
definition SSL_CTRL_SET_TLSEXT_STATUS_REQ_CB :: int where "SSL_CTRL_SET_TLSEXT_STATUS_REQ_CB = 63"
definition SSL_CTRL_SET_TLSEXT_STATUS_REQ_CB_ARG :: int where "SSL_CTRL_SET_TLSEXT_STATUS_REQ_CB_ARG = 64"
definition SSL_CTRL_SET_TLSEXT_STATUS_REQ_TYPE :: int where "SSL_CTRL_SET_TLSEXT_STATUS_REQ_TYPE = 65"
definition SSL_CTRL_GET_TLSEXT_STATUS_REQ_EXTS :: int where "SSL_CTRL_GET_TLSEXT_STATUS_REQ_EXTS = 66"
definition SSL_CTRL_SET_TLSEXT_STATUS_REQ_EXTS :: int where "SSL_CTRL_SET_TLSEXT_STATUS_REQ_EXTS = 67"
definition SSL_CTRL_GET_TLSEXT_STATUS_REQ_IDS :: int where "SSL_CTRL_GET_TLSEXT_STATUS_REQ_IDS = 68"
definition SSL_CTRL_SET_TLSEXT_STATUS_REQ_IDS :: int where "SSL_CTRL_SET_TLSEXT_STATUS_REQ_IDS = 69"
definition SSL_CTRL_GET_TLSEXT_STATUS_REQ_OCSP_RESP :: int where "SSL_CTRL_GET_TLSEXT_STATUS_REQ_OCSP_RESP = 70"
definition SSL_CTRL_SET_TLSEXT_STATUS_REQ_OCSP_RESP :: int where "SSL_CTRL_SET_TLSEXT_STATUS_REQ_OCSP_RESP = 71"
definition SSL_CTRL_SET_TLSEXT_TICKET_KEY_CB :: int where "SSL_CTRL_SET_TLSEXT_TICKET_KEY_CB = 72"
definition SSL_CTRL_SET_TLS_EXT_SRP_USERNAME_CB :: int where "SSL_CTRL_SET_TLS_EXT_SRP_USERNAME_CB = 75"
definition SSL_CTRL_SET_SRP_VERIFY_PARAM_CB :: int where "SSL_CTRL_SET_SRP_VERIFY_PARAM_CB = 76"
definition SSL_CTRL_SET_SRP_GIVE_CLIENT_PWD_CB :: int where "SSL_CTRL_SET_SRP_GIVE_CLIENT_PWD_CB = 77"
definition SSL_CTRL_SET_SRP_ARG :: int where "SSL_CTRL_SET_SRP_ARG = 78"
definition SSL_CTRL_SET_TLS_EXT_SRP_USERNAME :: int where "SSL_CTRL_SET_TLS_EXT_SRP_USERNAME = 79"
definition SSL_CTRL_SET_TLS_EXT_SRP_STRENGTH :: int where "SSL_CTRL_SET_TLS_EXT_SRP_STRENGTH = 80"
definition SSL_CTRL_SET_TLS_EXT_SRP_PASSWORD :: int where "SSL_CTRL_SET_TLS_EXT_SRP_PASSWORD = 81"
definition DTLS_CTRL_GET_TIMEOUT :: int where "DTLS_CTRL_GET_TIMEOUT = 73"
definition DTLS_CTRL_HANDLE_TIMEOUT :: int where "DTLS_CTRL_HANDLE_TIMEOUT = 74"
definition SSL_CTRL_GET_RI_SUPPORT :: int where "SSL_CTRL_GET_RI_SUPPORT = 76"
definition SSL_CTRL_CLEAR_MODE :: int where "SSL_CTRL_CLEAR_MODE = 78"
definition SSL_CTRL_SET_NOT_RESUMABLE_SESS_CB :: int where "SSL_CTRL_SET_NOT_RESUMABLE_SESS_CB = 79"
definition SSL_CTRL_GET_EXTRA_CHAIN_CERTS :: int where "SSL_CTRL_GET_EXTRA_CHAIN_CERTS = 82"
definition SSL_CTRL_CLEAR_EXTRA_CHAIN_CERTS :: int where "SSL_CTRL_CLEAR_EXTRA_CHAIN_CERTS = 83"
definition SSL_CTRL_CHAIN :: int where "SSL_CTRL_CHAIN = 88"
definition SSL_CTRL_CHAIN_CERT :: int where "SSL_CTRL_CHAIN_CERT = 89"
definition SSL_CTRL_GET_GROUPS :: int where "SSL_CTRL_GET_GROUPS = 90"
definition SSL_CTRL_SET_GROUPS :: int where "SSL_CTRL_SET_GROUPS = 91"
definition SSL_CTRL_SET_GROUPS_LIST :: int where "SSL_CTRL_SET_GROUPS_LIST = 92"
definition SSL_CTRL_GET_SHARED_GROUP :: int where "SSL_CTRL_GET_SHARED_GROUP = 93"
definition SSL_CTRL_SET_SIGALGS :: int where "SSL_CTRL_SET_SIGALGS = 97"
definition SSL_CTRL_SET_SIGALGS_LIST :: int where "SSL_CTRL_SET_SIGALGS_LIST = 98"
definition SSL_CTRL_CERT_FLAGS :: int where "SSL_CTRL_CERT_FLAGS = 99"
definition SSL_CTRL_CLEAR_CERT_FLAGS :: int where "SSL_CTRL_CLEAR_CERT_FLAGS = 100"
definition SSL_CTRL_SET_CLIENT_SIGALGS :: int where "SSL_CTRL_SET_CLIENT_SIGALGS = 101"
definition SSL_CTRL_SET_CLIENT_SIGALGS_LIST :: int where "SSL_CTRL_SET_CLIENT_SIGALGS_LIST = 102"
definition SSL_CTRL_GET_CLIENT_CERT_TYPES :: int where "SSL_CTRL_GET_CLIENT_CERT_TYPES = 103"
definition SSL_CTRL_SET_CLIENT_CERT_TYPES :: int where "SSL_CTRL_SET_CLIENT_CERT_TYPES = 104"
definition SSL_CTRL_BUILD_CERT_CHAIN :: int where "SSL_CTRL_BUILD_CERT_CHAIN = 105"
definition SSL_CTRL_SET_VERIFY_CERT_STORE :: int where "SSL_CTRL_SET_VERIFY_CERT_STORE = 106"
definition SSL_CTRL_SET_CHAIN_CERT_STORE :: int where "SSL_CTRL_SET_CHAIN_CERT_STORE = 107"
definition SSL_CTRL_GET_PEER_SIGNATURE_NID :: int where "SSL_CTRL_GET_PEER_SIGNATURE_NID = 108"
definition SSL_CTRL_GET_PEER_TMP_KEY :: int where "SSL_CTRL_GET_PEER_TMP_KEY = 109"
definition SSL_CTRL_GET_RAW_CIPHERLIST :: int where "SSL_CTRL_GET_RAW_CIPHERLIST = 110"
definition SSL_CTRL_GET_EC_POINT_FORMATS :: int where "SSL_CTRL_GET_EC_POINT_FORMATS = 111"
definition SSL_CTRL_GET_CHAIN_CERTS :: int where "SSL_CTRL_GET_CHAIN_CERTS = 115"
definition SSL_CTRL_SELECT_CURRENT_CERT :: int where "SSL_CTRL_SELECT_CURRENT_CERT = 116"
definition SSL_CTRL_SET_CURRENT_CERT :: int where "SSL_CTRL_SET_CURRENT_CERT = 117"
definition SSL_CTRL_SET_DH_AUTO :: int where "SSL_CTRL_SET_DH_AUTO = 118"
definition DTLS_CTRL_SET_LINK_MTU :: int where "DTLS_CTRL_SET_LINK_MTU = 120"
definition DTLS_CTRL_GET_LINK_MIN_MTU :: int where "DTLS_CTRL_GET_LINK_MIN_MTU = 121"
definition SSL_CTRL_GET_EXTMS_SUPPORT :: int where "SSL_CTRL_GET_EXTMS_SUPPORT = 122"
definition SSL_CTRL_SET_MIN_PROTO_VERSION :: int where "SSL_CTRL_SET_MIN_PROTO_VERSION = 123"
definition SSL_CTRL_SET_MAX_PROTO_VERSION :: int where "SSL_CTRL_SET_MAX_PROTO_VERSION = 124"
definition SSL_CTRL_SET_SPLIT_SEND_FRAGMENT :: int where "SSL_CTRL_SET_SPLIT_SEND_FRAGMENT = 125"
definition SSL_CTRL_SET_MAX_PIPELINES :: int where "SSL_CTRL_SET_MAX_PIPELINES = 126"
definition SSL_CTRL_GET_TLSEXT_STATUS_REQ_TYPE :: int where "SSL_CTRL_GET_TLSEXT_STATUS_REQ_TYPE = 127"
definition SSL_CTRL_GET_TLSEXT_STATUS_REQ_CB :: int where "SSL_CTRL_GET_TLSEXT_STATUS_REQ_CB = 128"
definition SSL_CTRL_GET_TLSEXT_STATUS_REQ_CB_ARG :: int where "SSL_CTRL_GET_TLSEXT_STATUS_REQ_CB_ARG = 129"
definition SSL_CTRL_GET_MIN_PROTO_VERSION :: int where "SSL_CTRL_GET_MIN_PROTO_VERSION = 130"
definition SSL_CTRL_GET_MAX_PROTO_VERSION :: int where "SSL_CTRL_GET_MAX_PROTO_VERSION = 131"
definition SSL_CTRL_GET_SIGNATURE_NID :: int where "SSL_CTRL_GET_SIGNATURE_NID = 132"
definition SSL_CTRL_GET_TMP_KEY :: int where "SSL_CTRL_GET_TMP_KEY = 133"
definition SSL_CTRL_GET_NEGOTIATED_GROUP :: int where "SSL_CTRL_GET_NEGOTIATED_GROUP = 134"
definition SSL_CTRL_SET_RETRY_VERIFY :: int where "SSL_CTRL_SET_RETRY_VERIFY = 136"
definition SSL_CTRL_GET_VERIFY_CERT_STORE :: int where "SSL_CTRL_GET_VERIFY_CERT_STORE = 137"
definition SSL_CTRL_GET_CHAIN_CERT_STORE :: int where "SSL_CTRL_GET_CHAIN_CERT_STORE = 138"
definition SSL_CTRL_GET_SERVER_TMP_KEY :: int where "SSL_CTRL_GET_SERVER_TMP_KEY = SSL_CTRL_GET_PEER_TMP_KEY"
definition SSL_CTRL_GET_CURVES :: int where "SSL_CTRL_GET_CURVES = SSL_CTRL_GET_GROUPS"
definition SSL_CTRL_SET_CURVES :: int where "SSL_CTRL_SET_CURVES = SSL_CTRL_SET_GROUPS"
definition SSL_CTRL_SET_CURVES_LIST :: int where "SSL_CTRL_SET_CURVES_LIST = SSL_CTRL_SET_GROUPS_LIST"
definition SSL_CTRL_GET_SHARED_CURVE :: int where "SSL_CTRL_GET_SHARED_CURVE = SSL_CTRL_GET_SHARED_GROUP"

subsection \<open>Options and modes\<close>

definition SSL_OP_BIT :: "nat \<Rightarrow> 64 word" where
  "SSL_OP_BIT n = push_bit n 1"

definition SSL_OP_NO_EXTENDED_MASTER_SECRET :: "64 word" where "SSL_OP_NO_EXTENDED_MASTER_SECRET = SSL_OP_BIT 0"
definition SSL_OP_CLEANSE_PLAINTEXT :: "64 word" where "SSL_OP_CLEANSE_PLAINTEXT = SSL_OP_BIT 1"
definition SSL_OP_LEGACY_SERVER_CONNECT :: "64 word" where "SSL_OP_LEGACY_SERVER_CONNECT = SSL_OP_BIT 2"
definition SSL_OP_ENABLE_KTLS :: "64 word" where "SSL_OP_ENABLE_KTLS = SSL_OP_BIT 3"
definition SSL_OP_TLSEXT_PADDING :: "64 word" where "SSL_OP_TLSEXT_PADDING = SSL_OP_BIT 4"
definition SSL_OP_SAFARI_ECDHE_ECDSA_BUG :: "64 word" where "SSL_OP_SAFARI_ECDHE_ECDSA_BUG = SSL_OP_BIT 6"
definition SSL_OP_IGNORE_UNEXPECTED_EOF :: "64 word" where "SSL_OP_IGNORE_UNEXPECTED_EOF = SSL_OP_BIT 7"
definition SSL_OP_ALLOW_CLIENT_RENEGOTIATION :: "64 word" where "SSL_OP_ALLOW_CLIENT_RENEGOTIATION = SSL_OP_BIT 8"
definition SSL_OP_DISABLE_TLSEXT_CA_NAMES :: "64 word" where "SSL_OP_DISABLE_TLSEXT_CA_NAMES = SSL_OP_BIT 9"
definition SSL_OP_ALLOW_NO_DHE_KEX :: "64 word" where "SSL_OP_ALLOW_NO_DHE_KEX = SSL_OP_BIT 10"
definition SSL_OP_DONT_INSERT_EMPTY_FRAGMENTS :: "64 word" where "SSL_OP_DONT_INSERT_EMPTY_FRAGMENTS = SSL_OP_BIT 11"
definition SSL_OP_NO_QUERY_MTU :: "64 word" where "SSL_OP_NO_QUERY_MTU = SSL_OP_BIT 12"
definition SSL_OP_COOKIE_EXCHANGE :: "64 word" where "SSL_OP_COOKIE_EXCHANGE = SSL_OP_BIT 13"
definition SSL_OP_NO_TICKET :: "64 word" where "SSL_OP_NO_TICKET = SSL_OP_BIT 14"
definition SSL_OP_CISCO_ANYCONNECT :: "64 word" where "SSL_OP_CISCO_ANYCONNECT = SSL_OP_BIT 15"
definition SSL_OP_NO_SESSION_RESUMPTION_ON_RENEGOTIATION :: "64 word" where "SSL_OP_NO_SESSION_RESUMPTION_ON_RENEGOTIATION = SSL_OP_BIT 16"
definition SSL_OP_NO_COMPRESSION :: "64 word" where "SSL_OP_NO_COMPRESSION = SSL_OP_BIT 17"
definition SSL_OP_ALLOW_UNSAFE_LEGACY_RENEGOTIATION :: "64 word" where "SSL_OP_ALLOW_UNSAFE_LEGACY_RENEGOTIATION = SSL_OP_BIT 18"
definition SSL_OP_NO_ENCRYPT_THEN_MAC :: "64 word" where "SSL_OP_NO_ENCRYPT_THEN_MAC = SSL_OP_BIT 19"
definition SSL_OP_ENABLE_MIDDLEBOX_COMPAT :: "64 word" where "SSL_OP_ENABLE_MIDDLEBOX_COMPAT = SSL_OP_BIT 20"
definition SSL_OP_PRIORITIZE_CHACHA :: "64 word" where "SSL_OP_PRIORITIZE_CHACHA = SSL_OP_BIT 21"
definition SSL_OP_CIPHER_SERVER_PREFERENCE :: "64 word" where "SSL_OP_CIPHER_SERVER_PREFERENCE = SSL_OP_BIT 22"
definition SSL_OP_TLS_ROLLBACK_BUG :: "64 word" where "SSL_OP_TLS_ROLLBACK_BUG = SSL_OP_BIT 23"
definition SSL_OP_NO_ANTI_REPLAY :: "64 word" where "SSL_OP_NO_ANTI_REPLAY = SSL_OP_BIT 24"
definition SSL_OP_NO_SSLv3 :: "64 word" where "SSL_OP_NO_SSLv3 = SSL_OP_BIT 25"
definition SSL_OP_NO_TLSv1 :: "64 word" where "SSL_OP_NO_TLSv1 = SSL_OP_BIT 26"
definition SSL_OP_NO_TLSv1_2 :: "64 word" where "SSL_OP_NO_TLSv1_2 = SSL_OP_BIT 27"
definition SSL_OP_NO_TLSv1_1 :: "64 word" where "SSL_OP_NO_TLSv1_1 = SSL_OP_BIT 28"
definition SSL_OP_NO_TLSv1_3 :: "64 word" where "SSL_OP_NO_TLSv1_3 = SSL_OP_BIT 29"
definition SSL_OP_NO_DTLSv1 :: "64 word" where "SSL_OP_NO_DTLSv1 = SSL_OP_BIT 26"
definition SSL_OP_NO_DTLSv1_2 :: "64 word" where "SSL_OP_NO_DTLSv1_2 = SSL_OP_BIT 27"
definition SSL_OP_NO_RENEGOTIATION :: "64 word" where "SSL_OP_NO_RENEGOTIATION = SSL_OP_BIT 30"
definition SSL_OP_CRYPTOPRO_TLSEXT_BUG :: "64 word" where "SSL_OP_CRYPTOPRO_TLSEXT_BUG = SSL_OP_BIT 31"
definition SSL_OP_NO_SSL_MASK :: "64 word" where
  "SSL_OP_NO_SSL_MASK = SSL_OP_NO_SSLv3 OR SSL_OP_NO_TLSv1 OR SSL_OP_NO_TLSv1_1 OR SSL_OP_NO_TLSv1_2 OR SSL_OP_NO_TLSv1_3"
definition SSL_OP_NO_DTLS_MASK :: "64 word" where
  "SSL_OP_NO_DTLS_MASK = SSL_OP_NO_DTLSv1 OR SSL_OP_NO_DTLSv1_2"
definition SSL_OP_ALL :: "64 word" where
  "SSL_OP_ALL = SSL_OP_CRYPTOPRO_TLSEXT_BUG OR SSL_OP_DONT_INSERT_EMPTY_FRAGMENTS OR SSL_OP_TLSEXT_PADDING OR SSL_OP_SAFARI_ECDHE_ECDSA_BUG"
definition SSL_OP_MICROSOFT_SESS_ID_BUG :: "64 word" where "SSL_OP_MICROSOFT_SESS_ID_BUG = 0"
definition SSL_OP_NETSCAPE_CHALLENGE_BUG :: "64 word" where "SSL_OP_NETSCAPE_CHALLENGE_BUG = 0"
definition SSL_OP_NETSCAPE_REUSE_CIPHER_CHANGE_BUG :: "64 word" where "SSL_OP_NETSCAPE_REUSE_CIPHER_CHANGE_BUG = 0"
definition SSL_OP_SSLREF2_REUSE_CERT_TYPE_BUG :: "64 word" where "SSL_OP_SSLREF2_REUSE_CERT_TYPE_BUG = 0"
definition SSL_OP_MICROSOFT_BIG_SSLV3_BUFFER :: "64 word" where "SSL_OP_MICROSOFT_BIG_SSLV3_BUFFER = 0"
definition SSL_OP_MSIE_SSLV2_RSA_PADDING :: "64 word" where "SSL_OP_MSIE_SSLV2_RSA_PADDING = 0"
definition SSL_OP_SSLEAY_080_CLIENT_DH_BUG :: "64 word" where "SSL_OP_SSLEAY_080_CLIENT_DH_BUG = 0"
definition SSL_OP_TLS_D5_BUG :: "64 word" where "SSL_OP_TLS_D5_BUG = 0"
definition SSL_OP_TLS_BLOCK_PADDING_BUG :: "64 word" where "SSL_OP_TLS_BLOCK_PADDING_BUG = 0"
definition SSL_OP_SINGLE_ECDH_USE :: "64 word" where "SSL_OP_SINGLE_ECDH_USE = 0"
definition SSL_OP_SINGLE_DH_USE :: "64 word" where "SSL_OP_SINGLE_DH_USE = 0"
definition SSL_OP_EPHEMERAL_RSA :: "64 word" where "SSL_OP_EPHEMERAL_RSA = 0"
definition SSL_OP_NO_SSLv2 :: "64 word" where "SSL_OP_NO_SSLv2 = 0"
definition SSL_OP_PKCS1_CHECK_1 :: "64 word" where "SSL_OP_PKCS1_CHECK_1 = 0"
definition SSL_OP_PKCS1_CHECK_2 :: "64 word" where "SSL_OP_PKCS1_CHECK_2 = 0"
definition SSL_OP_NETSCAPE_CA_DN_BUG :: "64 word" where "SSL_OP_NETSCAPE_CA_DN_BUG = 0"
definition SSL_OP_NETSCAPE_DEMO_CIPHER_CHANGE_BUG :: "64 word" where "SSL_OP_NETSCAPE_DEMO_CIPHER_CHANGE_BUG = 0"

definition SSL_MODE_ENABLE_PARTIAL_WRITE :: "32 word" where "SSL_MODE_ENABLE_PARTIAL_WRITE = 1"
definition SSL_MODE_ACCEPT_MOVING_WRITE_BUFFER :: "32 word" where "SSL_MODE_ACCEPT_MOVING_WRITE_BUFFER = 2"
definition SSL_MODE_AUTO_RETRY :: "32 word" where "SSL_MODE_AUTO_RETRY = 4"
definition SSL_MODE_NO_AUTO_CHAIN :: "32 word" where "SSL_MODE_NO_AUTO_CHAIN = 8"
definition SSL_MODE_RELEASE_BUFFERS :: "32 word" where "SSL_MODE_RELEASE_BUFFERS = 0x10"
definition SSL_MODE_SEND_CLIENTHELLO_TIME :: "32 word" where "SSL_MODE_SEND_CLIENTHELLO_TIME = 0x20"
definition SSL_MODE_SEND_SERVERHELLO_TIME :: "32 word" where "SSL_MODE_SEND_SERVERHELLO_TIME = 0x40"
definition SSL_MODE_SEND_FALLBACK_SCSV :: "32 word" where "SSL_MODE_SEND_FALLBACK_SCSV = 0x80"
definition SSL_MODE_ASYNC :: "32 word" where "SSL_MODE_ASYNC = 0x100"
definition SSL_MODE_DTLS_SCTP_LABEL_LENGTH_BUG :: "32 word" where "SSL_MODE_DTLS_SCTP_LABEL_LENGTH_BUG = 0x400"

subsection \<open>Requests\<close>

text \<open>
  The call that a macro makes: one of the four functions with its command and arguments, without
  the connection or the context. A \<open>long\<close> has 64 bits; pointers \<open>'p\<close> are cast to \<open>void *\<close>.
\<close>

datatype 'p ssl_call =
    SSL_ctrl int "64 word" "'p parg"
  | SSL_CTX_ctrl int "64 word" "'p parg"
  | SSL_callback_ctrl int 'p
  | SSL_CTX_callback_ctrl int 'p

definition TLSEXT_NAMETYPE_host_name :: "64 word" where "TLSEXT_NAMETYPE_host_name = 0"


definition SSL_CTX_set_mode :: "64 word \<Rightarrow> 'p ssl_call" where
  "SSL_CTX_set_mode op = SSL_CTX_ctrl SSL_CTRL_MODE op Null"

definition SSL_CTX_clear_mode :: "64 word \<Rightarrow> 'p ssl_call" where
  "SSL_CTX_clear_mode op = SSL_CTX_ctrl SSL_CTRL_CLEAR_MODE op Null"

definition SSL_CTX_get_mode :: "'p ssl_call" where
  "SSL_CTX_get_mode = SSL_CTX_ctrl SSL_CTRL_MODE 0 Null"

definition SSL_clear_mode :: "64 word \<Rightarrow> 'p ssl_call" where
  "SSL_clear_mode op = SSL_ctrl SSL_CTRL_CLEAR_MODE op Null"

definition SSL_set_mode :: "64 word \<Rightarrow> 'p ssl_call" where
  "SSL_set_mode op = SSL_ctrl SSL_CTRL_MODE op Null"

definition SSL_get_mode :: "'p ssl_call" where
  "SSL_get_mode = SSL_ctrl SSL_CTRL_MODE 0 Null"

definition SSL_set_mtu :: "64 word \<Rightarrow> 'p ssl_call" where
  "SSL_set_mtu mtu = SSL_ctrl SSL_CTRL_SET_MTU mtu Null"

definition DTLS_set_link_mtu :: "64 word \<Rightarrow> 'p ssl_call" where
  "DTLS_set_link_mtu mtu = SSL_ctrl DTLS_CTRL_SET_LINK_MTU mtu Null"

definition DTLS_get_link_min_mtu :: "'p ssl_call" where
  "DTLS_get_link_min_mtu = SSL_ctrl DTLS_CTRL_GET_LINK_MIN_MTU 0 Null"

definition SSL_get_secure_renegotiation_support :: "'p ssl_call" where
  "SSL_get_secure_renegotiation_support = SSL_ctrl SSL_CTRL_GET_RI_SUPPORT 0 Null"

definition SSL_CTX_set_cert_flags :: "64 word \<Rightarrow> 'p ssl_call" where
  "SSL_CTX_set_cert_flags op = SSL_CTX_ctrl SSL_CTRL_CERT_FLAGS op Null"

definition SSL_set_cert_flags :: "64 word \<Rightarrow> 'p ssl_call" where
  "SSL_set_cert_flags op = SSL_ctrl SSL_CTRL_CERT_FLAGS op Null"

definition SSL_CTX_clear_cert_flags :: "64 word \<Rightarrow> 'p ssl_call" where
  "SSL_CTX_clear_cert_flags op = SSL_CTX_ctrl SSL_CTRL_CLEAR_CERT_FLAGS op Null"

definition SSL_clear_cert_flags :: "64 word \<Rightarrow> 'p ssl_call" where
  "SSL_clear_cert_flags op = SSL_ctrl SSL_CTRL_CLEAR_CERT_FLAGS op Null"

definition SSL_CTX_set_msg_callback_arg :: "'p parg \<Rightarrow> 'p ssl_call" where
  "SSL_CTX_set_msg_callback_arg arg = SSL_CTX_ctrl SSL_CTRL_SET_MSG_CALLBACK_ARG 0 arg"

definition SSL_set_msg_callback_arg :: "'p parg \<Rightarrow> 'p ssl_call" where
  "SSL_set_msg_callback_arg arg = SSL_ctrl SSL_CTRL_SET_MSG_CALLBACK_ARG 0 arg"

definition SSL_get_extms_support :: "'p ssl_call" where
  "SSL_get_extms_support = SSL_ctrl SSL_CTRL_GET_EXTMS_SUPPORT 0 Null"

definition SSL_CTX_sess_number :: "'p ssl_call" where
  "SSL_CTX_sess_number = SSL_CTX_ctrl SSL_CTRL_SESS_NUMBER 0 Null"

definition SSL_CTX_sess_connect :: "'p ssl_call" where
  "SSL_CTX_sess_connect = SSL_CTX_ctrl SSL_CTRL_SESS_CONNECT 0 Null"

definition SSL_CTX_sess_connect_good :: "'p ssl_call" where
  "SSL_CTX_sess_connect_good = SSL_CTX_ctrl SSL_CTRL_SESS_CONNECT_GOOD 0 Null"

definition SSL_CTX_sess_connect_renegotiate :: "'p ssl_call" where
  "SSL_CTX_sess_connect_renegotiate = SSL_CTX_ctrl SSL_CTRL_SESS_CONNECT_RENEGOTIATE 0 Null"

definition SSL_CTX_sess_accept :: "'p ssl_call" where
  "SSL_CTX_sess_accept = SSL_CTX_ctrl SSL_CTRL_SESS_ACCEPT 0 Null"

definition SSL_CTX_sess_accept_renegotiate :: "'p ssl_call" where
  "SSL_CTX_sess_accept_renegotiate = SSL_CTX_ctrl SSL_CTRL_SESS_ACCEPT_RENEGOTIATE 0 Null"

definition SSL_CTX_sess_accept_good :: "'p ssl_call" where
  "SSL_CTX_sess_accept_good = SSL_CTX_ctrl SSL_CTRL_SESS_ACCEPT_GOOD 0 Null"

definition SSL_CTX_sess_hits :: "'p ssl_call" where
  "SSL_CTX_sess_hits = SSL_CTX_ctrl SSL_CTRL_SESS_HIT 0 Null"

definition SSL_CTX_sess_cb_hits :: "'p ssl_call" where
  "SSL_CTX_sess_cb_hits = SSL_CTX_ctrl SSL_CTRL_SESS_CB_HIT 0 Null"

definition SSL_CTX_sess_misses :: "'p ssl_call" where
  "SSL_CTX_sess_misses = SSL_CTX_ctrl SSL_CTRL_SESS_MISSES 0 Null"

definition SSL_CTX_sess_timeouts :: "'p ssl_call" where
  "SSL_CTX_sess_timeouts = SSL_CTX_ctrl SSL_CTRL_SESS_TIMEOUTS 0 Null"

definition SSL_CTX_sess_cache_full :: "'p ssl_call" where
  "SSL_CTX_sess_cache_full = SSL_CTX_ctrl SSL_CTRL_SESS_CACHE_FULL 0 Null"

definition DTLSv1_get_timeout :: "'p parg \<Rightarrow> 'p ssl_call" where
  "DTLSv1_get_timeout arg = SSL_ctrl DTLS_CTRL_GET_TIMEOUT 0 arg"

definition DTLSv1_handle_timeout :: "'p ssl_call" where
  "DTLSv1_handle_timeout = SSL_ctrl DTLS_CTRL_HANDLE_TIMEOUT 0 Null"

definition SSL_num_renegotiations :: "'p ssl_call" where
  "SSL_num_renegotiations = SSL_ctrl SSL_CTRL_GET_NUM_RENEGOTIATIONS 0 Null"

definition SSL_clear_num_renegotiations :: "'p ssl_call" where
  "SSL_clear_num_renegotiations = SSL_ctrl SSL_CTRL_CLEAR_NUM_RENEGOTIATIONS 0 Null"

definition SSL_total_renegotiations :: "'p ssl_call" where
  "SSL_total_renegotiations = SSL_ctrl SSL_CTRL_GET_TOTAL_RENEGOTIATIONS 0 Null"

definition SSL_CTX_set_tmp_dh :: "'p parg \<Rightarrow> 'p ssl_call" where
  "SSL_CTX_set_tmp_dh dh = SSL_CTX_ctrl SSL_CTRL_SET_TMP_DH 0 dh"

definition SSL_CTX_set_dh_auto :: "64 word \<Rightarrow> 'p ssl_call" where
  "SSL_CTX_set_dh_auto onoff = SSL_CTX_ctrl SSL_CTRL_SET_DH_AUTO onoff Null"

definition SSL_set_dh_auto :: "64 word \<Rightarrow> 'p ssl_call" where
  "SSL_set_dh_auto onoff = SSL_ctrl SSL_CTRL_SET_DH_AUTO onoff Null"

definition SSL_set_tmp_dh :: "'p parg \<Rightarrow> 'p ssl_call" where
  "SSL_set_tmp_dh dh = SSL_ctrl SSL_CTRL_SET_TMP_DH 0 dh"

definition SSL_CTX_set_tmp_ecdh :: "'p parg \<Rightarrow> 'p ssl_call" where
  "SSL_CTX_set_tmp_ecdh ecdh = SSL_CTX_ctrl SSL_CTRL_SET_TMP_ECDH 0 ecdh"

definition SSL_set_tmp_ecdh :: "'p parg \<Rightarrow> 'p ssl_call" where
  "SSL_set_tmp_ecdh ecdh = SSL_ctrl SSL_CTRL_SET_TMP_ECDH 0 ecdh"

definition SSL_CTX_add_extra_chain_cert :: "'p parg \<Rightarrow> 'p ssl_call" where
  "SSL_CTX_add_extra_chain_cert x509 = SSL_CTX_ctrl SSL_CTRL_EXTRA_CHAIN_CERT 0 x509"

definition SSL_CTX_get_extra_chain_certs :: "'p parg \<Rightarrow> 'p ssl_call" where
  "SSL_CTX_get_extra_chain_certs px509 = SSL_CTX_ctrl SSL_CTRL_GET_EXTRA_CHAIN_CERTS 0 px509"

definition SSL_CTX_get_extra_chain_certs_only :: "'p parg \<Rightarrow> 'p ssl_call" where
  "SSL_CTX_get_extra_chain_certs_only px509 = SSL_CTX_ctrl SSL_CTRL_GET_EXTRA_CHAIN_CERTS 1 px509"

definition SSL_CTX_clear_extra_chain_certs :: "'p ssl_call" where
  "SSL_CTX_clear_extra_chain_certs = SSL_CTX_ctrl SSL_CTRL_CLEAR_EXTRA_CHAIN_CERTS 0 Null"

definition SSL_CTX_set0_chain :: "'p parg \<Rightarrow> 'p ssl_call" where
  "SSL_CTX_set0_chain sk = SSL_CTX_ctrl SSL_CTRL_CHAIN 0 sk"

definition SSL_CTX_set1_chain :: "'p parg \<Rightarrow> 'p ssl_call" where
  "SSL_CTX_set1_chain sk = SSL_CTX_ctrl SSL_CTRL_CHAIN 1 sk"

definition SSL_CTX_add0_chain_cert :: "'p parg \<Rightarrow> 'p ssl_call" where
  "SSL_CTX_add0_chain_cert x509 = SSL_CTX_ctrl SSL_CTRL_CHAIN_CERT 0 x509"

definition SSL_CTX_add1_chain_cert :: "'p parg \<Rightarrow> 'p ssl_call" where
  "SSL_CTX_add1_chain_cert x509 = SSL_CTX_ctrl SSL_CTRL_CHAIN_CERT 1 x509"

definition SSL_CTX_get0_chain_certs :: "'p parg \<Rightarrow> 'p ssl_call" where
  "SSL_CTX_get0_chain_certs px509 = SSL_CTX_ctrl SSL_CTRL_GET_CHAIN_CERTS 0 px509"

definition SSL_CTX_build_cert_chain :: "64 word \<Rightarrow> 'p ssl_call" where
  "SSL_CTX_build_cert_chain flags = SSL_CTX_ctrl SSL_CTRL_BUILD_CERT_CHAIN flags Null"

definition SSL_CTX_select_current_cert :: "'p parg \<Rightarrow> 'p ssl_call" where
  "SSL_CTX_select_current_cert x509 = SSL_CTX_ctrl SSL_CTRL_SELECT_CURRENT_CERT 0 x509"

definition SSL_CTX_set_current_cert :: "64 word \<Rightarrow> 'p ssl_call" where
  "SSL_CTX_set_current_cert op = SSL_CTX_ctrl SSL_CTRL_SET_CURRENT_CERT op Null"

definition SSL_CTX_set0_verify_cert_store :: "'p parg \<Rightarrow> 'p ssl_call" where
  "SSL_CTX_set0_verify_cert_store st = SSL_CTX_ctrl SSL_CTRL_SET_VERIFY_CERT_STORE 0 st"

definition SSL_CTX_set1_verify_cert_store :: "'p parg \<Rightarrow> 'p ssl_call" where
  "SSL_CTX_set1_verify_cert_store st = SSL_CTX_ctrl SSL_CTRL_SET_VERIFY_CERT_STORE 1 st"

definition SSL_CTX_get0_verify_cert_store :: "'p parg \<Rightarrow> 'p ssl_call" where
  "SSL_CTX_get0_verify_cert_store st = SSL_CTX_ctrl SSL_CTRL_GET_VERIFY_CERT_STORE 0 st"

definition SSL_CTX_set0_chain_cert_store :: "'p parg \<Rightarrow> 'p ssl_call" where
  "SSL_CTX_set0_chain_cert_store st = SSL_CTX_ctrl SSL_CTRL_SET_CHAIN_CERT_STORE 0 st"

definition SSL_CTX_set1_chain_cert_store :: "'p parg \<Rightarrow> 'p ssl_call" where
  "SSL_CTX_set1_chain_cert_store st = SSL_CTX_ctrl SSL_CTRL_SET_CHAIN_CERT_STORE 1 st"

definition SSL_CTX_get0_chain_cert_store :: "'p parg \<Rightarrow> 'p ssl_call" where
  "SSL_CTX_get0_chain_cert_store st = SSL_CTX_ctrl SSL_CTRL_GET_CHAIN_CERT_STORE 0 st"

definition SSL_set0_chain :: "'p parg \<Rightarrow> 'p ssl_call" where
  "SSL_set0_chain sk = SSL_ctrl SSL_CTRL_CHAIN 0 sk"

definition SSL_set1_chain :: "'p parg \<Rightarrow> 'p ssl_call" where
  "SSL_set1_chain sk = SSL_ctrl SSL_CTRL_CHAIN 1 sk"

definition SSL_add0_chain_cert :: "'p parg \<Rightarrow> 'p ssl_call" where
  "SSL_add0_chain_cert x509 = SSL_ctrl SSL_CTRL_CHAIN_CERT 0 x509"

definition SSL_add1_chain_cert :: "'p parg \<Rightarrow> 'p ssl_call" where
  "SSL_add1_chain_cert x509 = SSL_ctrl SSL_CTRL_CHAIN_CERT 1 x509"

definition SSL_get0_chain_certs :: "'p parg \<Rightarrow> 'p ssl_call" where
  "SSL_get0_chain_certs px509 = SSL_ctrl SSL_CTRL_GET_CHAIN_CERTS 0 px509"

definition SSL_build_cert_chain :: "64 word \<Rightarrow> 'p ssl_call" where
  "SSL_build_cert_chain flags = SSL_ctrl SSL_CTRL_BUILD_CERT_CHAIN flags Null"

definition SSL_select_current_cert :: "'p parg \<Rightarrow> 'p ssl_call" where
  "SSL_select_current_cert x509 = SSL_ctrl SSL_CTRL_SELECT_CURRENT_CERT 0 x509"

definition SSL_set_current_cert :: "64 word \<Rightarrow> 'p ssl_call" where
  "SSL_set_current_cert op = SSL_ctrl SSL_CTRL_SET_CURRENT_CERT op Null"

definition SSL_set0_verify_cert_store :: "'p parg \<Rightarrow> 'p ssl_call" where
  "SSL_set0_verify_cert_store st = SSL_ctrl SSL_CTRL_SET_VERIFY_CERT_STORE 0 st"

definition SSL_set1_verify_cert_store :: "'p parg \<Rightarrow> 'p ssl_call" where
  "SSL_set1_verify_cert_store st = SSL_ctrl SSL_CTRL_SET_VERIFY_CERT_STORE 1 st"

definition SSL_get0_verify_cert_store :: "'p parg \<Rightarrow> 'p ssl_call" where
  "SSL_get0_verify_cert_store st = SSL_ctrl SSL_CTRL_GET_VERIFY_CERT_STORE 0 st"

definition SSL_set0_chain_cert_store :: "'p parg \<Rightarrow> 'p ssl_call" where
  "SSL_set0_chain_cert_store st = SSL_ctrl SSL_CTRL_SET_CHAIN_CERT_STORE 0 st"

definition SSL_set1_chain_cert_store :: "'p parg \<Rightarrow> 'p ssl_call" where
  "SSL_set1_chain_cert_store st = SSL_ctrl SSL_CTRL_SET_CHAIN_CERT_STORE 1 st"

definition SSL_get0_chain_cert_store :: "'p parg \<Rightarrow> 'p ssl_call" where
  "SSL_get0_chain_cert_store st = SSL_ctrl SSL_CTRL_GET_CHAIN_CERT_STORE 0 st"

definition SSL_get1_groups :: "'p parg \<Rightarrow> 'p ssl_call" where
  "SSL_get1_groups glist = SSL_ctrl SSL_CTRL_GET_GROUPS 0 glist"

definition SSL_CTX_set1_groups :: "'p parg \<Rightarrow> 64 word \<Rightarrow> 'p ssl_call" where
  "SSL_CTX_set1_groups glist glistlen = SSL_CTX_ctrl SSL_CTRL_SET_GROUPS glistlen glist"

definition SSL_CTX_set1_groups_list :: "'p parg \<Rightarrow> 'p ssl_call" where
  "SSL_CTX_set1_groups_list s = SSL_CTX_ctrl SSL_CTRL_SET_GROUPS_LIST 0 s"

definition SSL_set1_groups :: "'p parg \<Rightarrow> 64 word \<Rightarrow> 'p ssl_call" where
  "SSL_set1_groups glist glistlen = SSL_ctrl SSL_CTRL_SET_GROUPS glistlen glist"

definition SSL_set1_groups_list :: "'p parg \<Rightarrow> 'p ssl_call" where
  "SSL_set1_groups_list str = SSL_ctrl SSL_CTRL_SET_GROUPS_LIST 0 str"

definition SSL_get_shared_group :: "64 word \<Rightarrow> 'p ssl_call" where
  "SSL_get_shared_group n = SSL_ctrl SSL_CTRL_GET_SHARED_GROUP n Null"

definition SSL_get_negotiated_group :: "'p ssl_call" where
  "SSL_get_negotiated_group = SSL_ctrl SSL_CTRL_GET_NEGOTIATED_GROUP 0 Null"

definition SSL_CTX_set1_sigalgs :: "'p parg \<Rightarrow> 64 word \<Rightarrow> 'p ssl_call" where
  "SSL_CTX_set1_sigalgs slist slistlen = SSL_CTX_ctrl SSL_CTRL_SET_SIGALGS slistlen slist"

definition SSL_CTX_set1_sigalgs_list :: "'p parg \<Rightarrow> 'p ssl_call" where
  "SSL_CTX_set1_sigalgs_list s = SSL_CTX_ctrl SSL_CTRL_SET_SIGALGS_LIST 0 s"

definition SSL_set1_sigalgs :: "'p parg \<Rightarrow> 64 word \<Rightarrow> 'p ssl_call" where
  "SSL_set1_sigalgs slist slistlen = SSL_ctrl SSL_CTRL_SET_SIGALGS slistlen slist"

definition SSL_set1_sigalgs_list :: "'p parg \<Rightarrow> 'p ssl_call" where
  "SSL_set1_sigalgs_list str = SSL_ctrl SSL_CTRL_SET_SIGALGS_LIST 0 str"

definition SSL_CTX_set1_client_sigalgs :: "'p parg \<Rightarrow> 64 word \<Rightarrow> 'p ssl_call" where
  "SSL_CTX_set1_client_sigalgs slist slistlen = SSL_CTX_ctrl SSL_CTRL_SET_CLIENT_SIGALGS slistlen slist"

definition SSL_CTX_set1_client_sigalgs_list :: "'p parg \<Rightarrow> 'p ssl_call" where
  "SSL_CTX_set1_client_sigalgs_list s = SSL_CTX_ctrl SSL_CTRL_SET_CLIENT_SIGALGS_LIST 0 s"

definition SSL_set1_client_sigalgs :: "'p parg \<Rightarrow> 64 word \<Rightarrow> 'p ssl_call" where
  "SSL_set1_client_sigalgs slist slistlen = SSL_ctrl SSL_CTRL_SET_CLIENT_SIGALGS slistlen slist"

definition SSL_set1_client_sigalgs_list :: "'p parg \<Rightarrow> 'p ssl_call" where
  "SSL_set1_client_sigalgs_list str = SSL_ctrl SSL_CTRL_SET_CLIENT_SIGALGS_LIST 0 str"

definition SSL_get0_certificate_types :: "'p parg \<Rightarrow> 'p ssl_call" where
  "SSL_get0_certificate_types clist = SSL_ctrl SSL_CTRL_GET_CLIENT_CERT_TYPES 0 clist"

definition SSL_CTX_set1_client_certificate_types :: "'p parg \<Rightarrow> 64 word \<Rightarrow> 'p ssl_call" where
  "SSL_CTX_set1_client_certificate_types clist clistlen = SSL_CTX_ctrl SSL_CTRL_SET_CLIENT_CERT_TYPES clistlen clist"

definition SSL_set1_client_certificate_types :: "'p parg \<Rightarrow> 64 word \<Rightarrow> 'p ssl_call" where
  "SSL_set1_client_certificate_types clist clistlen = SSL_ctrl SSL_CTRL_SET_CLIENT_CERT_TYPES clistlen clist"

definition SSL_get_signature_nid :: "'p parg \<Rightarrow> 'p ssl_call" where
  "SSL_get_signature_nid pn = SSL_ctrl SSL_CTRL_GET_SIGNATURE_NID 0 pn"

definition SSL_get_peer_signature_nid :: "'p parg \<Rightarrow> 'p ssl_call" where
  "SSL_get_peer_signature_nid pn = SSL_ctrl SSL_CTRL_GET_PEER_SIGNATURE_NID 0 pn"

definition SSL_get_peer_tmp_key :: "'p parg \<Rightarrow> 'p ssl_call" where
  "SSL_get_peer_tmp_key pk = SSL_ctrl SSL_CTRL_GET_PEER_TMP_KEY 0 pk"

definition SSL_get_tmp_key :: "'p parg \<Rightarrow> 'p ssl_call" where
  "SSL_get_tmp_key pk = SSL_ctrl SSL_CTRL_GET_TMP_KEY 0 pk"

definition SSL_get0_raw_cipherlist :: "'p parg \<Rightarrow> 'p ssl_call" where
  "SSL_get0_raw_cipherlist plst = SSL_ctrl SSL_CTRL_GET_RAW_CIPHERLIST 0 plst"

definition SSL_get0_ec_point_formats :: "'p parg \<Rightarrow> 'p ssl_call" where
  "SSL_get0_ec_point_formats plst = SSL_ctrl SSL_CTRL_GET_EC_POINT_FORMATS 0 plst"

definition SSL_CTX_set_min_proto_version :: "64 word \<Rightarrow> 'p ssl_call" where
  "SSL_CTX_set_min_proto_version version = SSL_CTX_ctrl SSL_CTRL_SET_MIN_PROTO_VERSION version Null"

definition SSL_CTX_set_max_proto_version :: "64 word \<Rightarrow> 'p ssl_call" where
  "SSL_CTX_set_max_proto_version version = SSL_CTX_ctrl SSL_CTRL_SET_MAX_PROTO_VERSION version Null"

definition SSL_CTX_get_min_proto_version :: "'p ssl_call" where
  "SSL_CTX_get_min_proto_version = SSL_CTX_ctrl SSL_CTRL_GET_MIN_PROTO_VERSION 0 Null"

definition SSL_CTX_get_max_proto_version :: "'p ssl_call" where
  "SSL_CTX_get_max_proto_version = SSL_CTX_ctrl SSL_CTRL_GET_MAX_PROTO_VERSION 0 Null"

definition SSL_set_min_proto_version :: "64 word \<Rightarrow> 'p ssl_call" where
  "SSL_set_min_proto_version version = SSL_ctrl SSL_CTRL_SET_MIN_PROTO_VERSION version Null"

definition SSL_set_max_proto_version :: "64 word \<Rightarrow> 'p ssl_call" where
  "SSL_set_max_proto_version version = SSL_ctrl SSL_CTRL_SET_MAX_PROTO_VERSION version Null"

definition SSL_get_min_proto_version :: "'p ssl_call" where
  "SSL_get_min_proto_version = SSL_ctrl SSL_CTRL_GET_MIN_PROTO_VERSION 0 Null"

definition SSL_get_max_proto_version :: "'p ssl_call" where
  "SSL_get_max_proto_version = SSL_ctrl SSL_CTRL_GET_MAX_PROTO_VERSION 0 Null"

definition SSL_CTX_sess_set_cache_size :: "64 word \<Rightarrow> 'p ssl_call" where
  "SSL_CTX_sess_set_cache_size t = SSL_CTX_ctrl SSL_CTRL_SET_SESS_CACHE_SIZE t Null"

definition SSL_CTX_sess_get_cache_size :: "'p ssl_call" where
  "SSL_CTX_sess_get_cache_size = SSL_CTX_ctrl SSL_CTRL_GET_SESS_CACHE_SIZE 0 Null"

definition SSL_CTX_set_session_cache_mode :: "64 word \<Rightarrow> 'p ssl_call" where
  "SSL_CTX_set_session_cache_mode m = SSL_CTX_ctrl SSL_CTRL_SET_SESS_CACHE_MODE m Null"

definition SSL_CTX_get_session_cache_mode :: "'p ssl_call" where
  "SSL_CTX_get_session_cache_mode = SSL_CTX_ctrl SSL_CTRL_GET_SESS_CACHE_MODE 0 Null"

definition SSL_CTX_get_read_ahead :: "'p ssl_call" where
  "SSL_CTX_get_read_ahead = SSL_CTX_ctrl SSL_CTRL_GET_READ_AHEAD 0 Null"

definition SSL_CTX_set_read_ahead :: "64 word \<Rightarrow> 'p ssl_call" where
  "SSL_CTX_set_read_ahead m = SSL_CTX_ctrl SSL_CTRL_SET_READ_AHEAD m Null"

definition SSL_CTX_get_max_cert_list :: "'p ssl_call" where
  "SSL_CTX_get_max_cert_list = SSL_CTX_ctrl SSL_CTRL_GET_MAX_CERT_LIST 0 Null"

definition SSL_CTX_set_max_cert_list :: "64 word \<Rightarrow> 'p ssl_call" where
  "SSL_CTX_set_max_cert_list m = SSL_CTX_ctrl SSL_CTRL_SET_MAX_CERT_LIST m Null"

definition SSL_get_max_cert_list :: "'p ssl_call" where
  "SSL_get_max_cert_list = SSL_ctrl SSL_CTRL_GET_MAX_CERT_LIST 0 Null"

definition SSL_set_max_cert_list :: "64 word \<Rightarrow> 'p ssl_call" where
  "SSL_set_max_cert_list m = SSL_ctrl SSL_CTRL_SET_MAX_CERT_LIST m Null"

definition SSL_CTX_set_max_send_fragment :: "64 word \<Rightarrow> 'p ssl_call" where
  "SSL_CTX_set_max_send_fragment m = SSL_CTX_ctrl SSL_CTRL_SET_MAX_SEND_FRAGMENT m Null"

definition SSL_set_max_send_fragment :: "64 word \<Rightarrow> 'p ssl_call" where
  "SSL_set_max_send_fragment m = SSL_ctrl SSL_CTRL_SET_MAX_SEND_FRAGMENT m Null"

definition SSL_CTX_set_split_send_fragment :: "64 word \<Rightarrow> 'p ssl_call" where
  "SSL_CTX_set_split_send_fragment m = SSL_CTX_ctrl SSL_CTRL_SET_SPLIT_SEND_FRAGMENT m Null"

definition SSL_set_split_send_fragment :: "64 word \<Rightarrow> 'p ssl_call" where
  "SSL_set_split_send_fragment m = SSL_ctrl SSL_CTRL_SET_SPLIT_SEND_FRAGMENT m Null"

definition SSL_CTX_set_max_pipelines :: "64 word \<Rightarrow> 'p ssl_call" where
  "SSL_CTX_set_max_pipelines m = SSL_CTX_ctrl SSL_CTRL_SET_MAX_PIPELINES m Null"

definition SSL_set_max_pipelines :: "64 word \<Rightarrow> 'p ssl_call" where
  "SSL_set_max_pipelines m = SSL_ctrl SSL_CTRL_SET_MAX_PIPELINES m Null"

definition SSL_set_tlsext_host_name :: "'p parg \<Rightarrow> 'p ssl_call" where
  "SSL_set_tlsext_host_name name = SSL_ctrl SSL_CTRL_SET_TLSEXT_HOSTNAME TLSEXT_NAMETYPE_host_name name"

definition SSL_set_tlsext_debug_callback :: "'p \<Rightarrow> 'p ssl_call" where
  "SSL_set_tlsext_debug_callback cb = SSL_callback_ctrl SSL_CTRL_SET_TLSEXT_DEBUG_CB cb"

definition SSL_set_tlsext_debug_arg :: "'p parg \<Rightarrow> 'p ssl_call" where
  "SSL_set_tlsext_debug_arg arg = SSL_ctrl SSL_CTRL_SET_TLSEXT_DEBUG_ARG 0 arg"

definition SSL_get_tlsext_status_type :: "'p ssl_call" where
  "SSL_get_tlsext_status_type = SSL_ctrl SSL_CTRL_GET_TLSEXT_STATUS_REQ_TYPE 0 Null"

definition SSL_set_tlsext_status_type :: "64 word \<Rightarrow> 'p ssl_call" where
  "SSL_set_tlsext_status_type type = SSL_ctrl SSL_CTRL_SET_TLSEXT_STATUS_REQ_TYPE type Null"

definition SSL_get_tlsext_status_exts :: "'p parg \<Rightarrow> 'p ssl_call" where
  "SSL_get_tlsext_status_exts arg = SSL_ctrl SSL_CTRL_GET_TLSEXT_STATUS_REQ_EXTS 0 arg"

definition SSL_set_tlsext_status_exts :: "'p parg \<Rightarrow> 'p ssl_call" where
  "SSL_set_tlsext_status_exts arg = SSL_ctrl SSL_CTRL_SET_TLSEXT_STATUS_REQ_EXTS 0 arg"

definition SSL_get_tlsext_status_ids :: "'p parg \<Rightarrow> 'p ssl_call" where
  "SSL_get_tlsext_status_ids arg = SSL_ctrl SSL_CTRL_GET_TLSEXT_STATUS_REQ_IDS 0 arg"

definition SSL_set_tlsext_status_ids :: "'p parg \<Rightarrow> 'p ssl_call" where
  "SSL_set_tlsext_status_ids arg = SSL_ctrl SSL_CTRL_SET_TLSEXT_STATUS_REQ_IDS 0 arg"

definition SSL_get_tlsext_status_ocsp_resp :: "'p parg \<Rightarrow> 'p ssl_call" where
  "SSL_get_tlsext_status_ocsp_resp arg = SSL_ctrl SSL_CTRL_GET_TLSEXT_STATUS_REQ_OCSP_RESP 0 arg"

definition SSL_set_tlsext_status_ocsp_resp :: "'p parg \<Rightarrow> 64 word \<Rightarrow> 'p ssl_call" where
  "SSL_set_tlsext_status_ocsp_resp arg arglen = SSL_ctrl SSL_CTRL_SET_TLSEXT_STATUS_REQ_OCSP_RESP arglen arg"

definition SSL_CTX_set_tlsext_servername_callback :: "'p \<Rightarrow> 'p ssl_call" where
  "SSL_CTX_set_tlsext_servername_callback cb = SSL_CTX_callback_ctrl SSL_CTRL_SET_TLSEXT_SERVERNAME_CB cb"

definition SSL_CTX_set_tlsext_servername_arg :: "'p parg \<Rightarrow> 'p ssl_call" where
  "SSL_CTX_set_tlsext_servername_arg arg = SSL_CTX_ctrl SSL_CTRL_SET_TLSEXT_SERVERNAME_ARG 0 arg"

definition SSL_CTX_get_tlsext_ticket_keys :: "'p parg \<Rightarrow> 64 word \<Rightarrow> 'p ssl_call" where
  "SSL_CTX_get_tlsext_ticket_keys keys keylen = SSL_CTX_ctrl SSL_CTRL_GET_TLSEXT_TICKET_KEYS keylen keys"

definition SSL_CTX_set_tlsext_ticket_keys :: "'p parg \<Rightarrow> 64 word \<Rightarrow> 'p ssl_call" where
  "SSL_CTX_set_tlsext_ticket_keys keys keylen = SSL_CTX_ctrl SSL_CTRL_SET_TLSEXT_TICKET_KEYS keylen keys"

definition SSL_CTX_get_tlsext_status_cb :: "'p parg \<Rightarrow> 'p ssl_call" where
  "SSL_CTX_get_tlsext_status_cb cb = SSL_CTX_ctrl SSL_CTRL_GET_TLSEXT_STATUS_REQ_CB 0 cb"

definition SSL_CTX_set_tlsext_status_cb :: "'p \<Rightarrow> 'p ssl_call" where
  "SSL_CTX_set_tlsext_status_cb cb = SSL_CTX_callback_ctrl SSL_CTRL_SET_TLSEXT_STATUS_REQ_CB cb"

definition SSL_CTX_get_tlsext_status_arg :: "'p parg \<Rightarrow> 'p ssl_call" where
  "SSL_CTX_get_tlsext_status_arg arg = SSL_CTX_ctrl SSL_CTRL_GET_TLSEXT_STATUS_REQ_CB_ARG 0 arg"

definition SSL_CTX_set_tlsext_status_arg :: "'p parg \<Rightarrow> 'p ssl_call" where
  "SSL_CTX_set_tlsext_status_arg arg = SSL_CTX_ctrl SSL_CTRL_SET_TLSEXT_STATUS_REQ_CB_ARG 0 arg"

definition SSL_CTX_set_tlsext_status_type :: "64 word \<Rightarrow> 'p ssl_call" where
  "SSL_CTX_set_tlsext_status_type type = SSL_CTX_ctrl SSL_CTRL_SET_TLSEXT_STATUS_REQ_TYPE type Null"

definition SSL_CTX_get_tlsext_status_type :: "'p ssl_call" where
  "SSL_CTX_get_tlsext_status_type = SSL_CTX_ctrl SSL_CTRL_GET_TLSEXT_STATUS_REQ_TYPE 0 Null"

definition SSL_CTX_set_tlsext_ticket_key_cb :: "'p \<Rightarrow> 'p ssl_call" where
  "SSL_CTX_set_tlsext_ticket_key_cb cb = SSL_CTX_callback_ctrl SSL_CTRL_SET_TLSEXT_TICKET_KEY_CB cb"

text \<open>Requests under other names.\<close>

definition SSL_CTX_clear_chain_certs :: "'p ssl_call" where
  "SSL_CTX_clear_chain_certs = SSL_CTX_set0_chain Null"

definition SSL_clear_chain_certs :: "'p ssl_call" where
  "SSL_clear_chain_certs = SSL_set0_chain Null"

definition SSL_get_server_tmp_key :: "'p parg \<Rightarrow> 'p ssl_call" where
  "SSL_get_server_tmp_key = SSL_get_peer_tmp_key"

definition SSL_get1_curves :: "'p parg \<Rightarrow> 'p ssl_call" where
  "SSL_get1_curves = SSL_get1_groups"

definition SSL_CTX_set1_curves :: "'p parg \<Rightarrow> 64 word \<Rightarrow> 'p ssl_call" where
  "SSL_CTX_set1_curves = SSL_CTX_set1_groups"

definition SSL_CTX_set1_curves_list :: "'p parg \<Rightarrow> 'p ssl_call" where
  "SSL_CTX_set1_curves_list = SSL_CTX_set1_groups_list"

definition SSL_set1_curves :: "'p parg \<Rightarrow> 64 word \<Rightarrow> 'p ssl_call" where
  "SSL_set1_curves = SSL_set1_groups"

definition SSL_set1_curves_list :: "'p parg \<Rightarrow> 'p ssl_call" where
  "SSL_set1_curves_list = SSL_set1_groups_list"

definition SSL_get_shared_curve :: "64 word \<Rightarrow> 'p ssl_call" where
  "SSL_get_shared_curve = SSL_get_shared_group"

definition SSL_CTX_get_default_read_ahead :: "'p ssl_call" where
  "SSL_CTX_get_default_read_ahead = SSL_CTX_get_read_ahead"

definition SSL_CTX_set_default_read_ahead :: "64 word \<Rightarrow> 'p ssl_call" where
  "SSL_CTX_set_default_read_ahead = SSL_CTX_set_read_ahead"

text \<open>What is left of functions that were removed.\<close>

definition SSL_CTX_need_tmp_RSA :: int where "SSL_CTX_need_tmp_RSA = 0"
definition SSL_CTX_set_tmp_rsa :: int where "SSL_CTX_set_tmp_rsa = 1"
definition SSL_need_tmp_RSA :: int where "SSL_need_tmp_RSA = 0"
definition SSL_set_tmp_rsa :: int where "SSL_set_tmp_rsa = 1"
definition SSL_CTX_set_ecdh_auto :: "int \<Rightarrow> bool" where "SSL_CTX_set_ecdh_auto onoff \<longleftrightarrow> onoff \<noteq> 0"
definition SSL_set_ecdh_auto :: "int \<Rightarrow> bool" where "SSL_set_ecdh_auto onoff \<longleftrightarrow> onoff \<noteq> 0"

text \<open>All requests of connections, with any arguments; the reading of the mode apart, which is the setting of no mode.\<close>

definition SSL_requests :: "'p parg \<Rightarrow> 64 word \<Rightarrow> 'p \<Rightarrow> (string \<times> 'p ssl_call) list" where
  "SSL_requests q l c = [
     (''clear_mode'', SSL_clear_mode l),
     (''set_mode'', SSL_set_mode l),
     (''set_mtu'', SSL_set_mtu l),
     (''DTLS_set_link_mtu'', DTLS_set_link_mtu l),
     (''DTLS_get_link_min_mtu'', DTLS_get_link_min_mtu),
     (''get_secure_renegotiation_support'', SSL_get_secure_renegotiation_support),
     (''set_cert_flags'', SSL_set_cert_flags l),
     (''clear_cert_flags'', SSL_clear_cert_flags l),
     (''set_msg_callback_arg'', SSL_set_msg_callback_arg q),
     (''get_extms_support'', SSL_get_extms_support),
     (''DTLSv1_get_timeout'', DTLSv1_get_timeout q),
     (''DTLSv1_handle_timeout'', DTLSv1_handle_timeout),
     (''num_renegotiations'', SSL_num_renegotiations),
     (''clear_num_renegotiations'', SSL_clear_num_renegotiations),
     (''total_renegotiations'', SSL_total_renegotiations),
     (''set_dh_auto'', SSL_set_dh_auto l),
     (''set_tmp_dh'', SSL_set_tmp_dh q),
     (''set_tmp_ecdh'', SSL_set_tmp_ecdh q),
     (''set0_chain'', SSL_set0_chain q),
     (''set1_chain'', SSL_set1_chain q),
     (''add0_chain_cert'', SSL_add0_chain_cert q),
     (''add1_chain_cert'', SSL_add1_chain_cert q),
     (''get0_chain_certs'', SSL_get0_chain_certs q),
     (''build_cert_chain'', SSL_build_cert_chain l),
     (''select_current_cert'', SSL_select_current_cert q),
     (''set_current_cert'', SSL_set_current_cert l),
     (''set0_verify_cert_store'', SSL_set0_verify_cert_store q),
     (''set1_verify_cert_store'', SSL_set1_verify_cert_store q),
     (''get0_verify_cert_store'', SSL_get0_verify_cert_store q),
     (''set0_chain_cert_store'', SSL_set0_chain_cert_store q),
     (''set1_chain_cert_store'', SSL_set1_chain_cert_store q),
     (''get0_chain_cert_store'', SSL_get0_chain_cert_store q),
     (''get1_groups'', SSL_get1_groups q),
     (''set1_groups'', SSL_set1_groups q l),
     (''set1_groups_list'', SSL_set1_groups_list q),
     (''get_shared_group'', SSL_get_shared_group l),
     (''get_negotiated_group'', SSL_get_negotiated_group),
     (''set1_sigalgs'', SSL_set1_sigalgs q l),
     (''set1_sigalgs_list'', SSL_set1_sigalgs_list q),
     (''set1_client_sigalgs'', SSL_set1_client_sigalgs q l),
     (''set1_client_sigalgs_list'', SSL_set1_client_sigalgs_list q),
     (''get0_certificate_types'', SSL_get0_certificate_types q),
     (''set1_client_certificate_types'', SSL_set1_client_certificate_types q l),
     (''get_signature_nid'', SSL_get_signature_nid q),
     (''get_peer_signature_nid'', SSL_get_peer_signature_nid q),
     (''get_peer_tmp_key'', SSL_get_peer_tmp_key q),
     (''get_tmp_key'', SSL_get_tmp_key q),
     (''get0_raw_cipherlist'', SSL_get0_raw_cipherlist q),
     (''get0_ec_point_formats'', SSL_get0_ec_point_formats q),
     (''set_min_proto_version'', SSL_set_min_proto_version l),
     (''set_max_proto_version'', SSL_set_max_proto_version l),
     (''get_min_proto_version'', SSL_get_min_proto_version),
     (''get_max_proto_version'', SSL_get_max_proto_version),
     (''get_max_cert_list'', SSL_get_max_cert_list),
     (''set_max_cert_list'', SSL_set_max_cert_list l),
     (''set_max_send_fragment'', SSL_set_max_send_fragment l),
     (''set_split_send_fragment'', SSL_set_split_send_fragment l),
     (''set_max_pipelines'', SSL_set_max_pipelines l),
     (''set_tlsext_host_name'', SSL_set_tlsext_host_name q),
     (''set_tlsext_debug_callback'', SSL_set_tlsext_debug_callback c),
     (''set_tlsext_debug_arg'', SSL_set_tlsext_debug_arg q),
     (''get_tlsext_status_type'', SSL_get_tlsext_status_type),
     (''set_tlsext_status_type'', SSL_set_tlsext_status_type l),
     (''get_tlsext_status_exts'', SSL_get_tlsext_status_exts q),
     (''set_tlsext_status_exts'', SSL_set_tlsext_status_exts q),
     (''get_tlsext_status_ids'', SSL_get_tlsext_status_ids q),
     (''set_tlsext_status_ids'', SSL_set_tlsext_status_ids q),
     (''get_tlsext_status_ocsp_resp'', SSL_get_tlsext_status_ocsp_resp q),
     (''set_tlsext_status_ocsp_resp'', SSL_set_tlsext_status_ocsp_resp q l)]"

text \<open>All requests of contexts, with any arguments; the reading of the mode apart, which is the setting of no mode.\<close>

definition SSL_CTX_requests :: "'p parg \<Rightarrow> 64 word \<Rightarrow> 'p \<Rightarrow> (string \<times> 'p ssl_call) list" where
  "SSL_CTX_requests q l c = [
     (''set_mode'', SSL_CTX_set_mode l),
     (''clear_mode'', SSL_CTX_clear_mode l),
     (''set_cert_flags'', SSL_CTX_set_cert_flags l),
     (''clear_cert_flags'', SSL_CTX_clear_cert_flags l),
     (''set_msg_callback_arg'', SSL_CTX_set_msg_callback_arg q),
     (''sess_number'', SSL_CTX_sess_number),
     (''sess_connect'', SSL_CTX_sess_connect),
     (''sess_connect_good'', SSL_CTX_sess_connect_good),
     (''sess_connect_renegotiate'', SSL_CTX_sess_connect_renegotiate),
     (''sess_accept'', SSL_CTX_sess_accept),
     (''sess_accept_renegotiate'', SSL_CTX_sess_accept_renegotiate),
     (''sess_accept_good'', SSL_CTX_sess_accept_good),
     (''sess_hits'', SSL_CTX_sess_hits),
     (''sess_cb_hits'', SSL_CTX_sess_cb_hits),
     (''sess_misses'', SSL_CTX_sess_misses),
     (''sess_timeouts'', SSL_CTX_sess_timeouts),
     (''sess_cache_full'', SSL_CTX_sess_cache_full),
     (''set_tmp_dh'', SSL_CTX_set_tmp_dh q),
     (''set_dh_auto'', SSL_CTX_set_dh_auto l),
     (''set_tmp_ecdh'', SSL_CTX_set_tmp_ecdh q),
     (''add_extra_chain_cert'', SSL_CTX_add_extra_chain_cert q),
     (''get_extra_chain_certs'', SSL_CTX_get_extra_chain_certs q),
     (''get_extra_chain_certs_only'', SSL_CTX_get_extra_chain_certs_only q),
     (''clear_extra_chain_certs'', SSL_CTX_clear_extra_chain_certs),
     (''set0_chain'', SSL_CTX_set0_chain q),
     (''set1_chain'', SSL_CTX_set1_chain q),
     (''add0_chain_cert'', SSL_CTX_add0_chain_cert q),
     (''add1_chain_cert'', SSL_CTX_add1_chain_cert q),
     (''get0_chain_certs'', SSL_CTX_get0_chain_certs q),
     (''build_cert_chain'', SSL_CTX_build_cert_chain l),
     (''select_current_cert'', SSL_CTX_select_current_cert q),
     (''set_current_cert'', SSL_CTX_set_current_cert l),
     (''set0_verify_cert_store'', SSL_CTX_set0_verify_cert_store q),
     (''set1_verify_cert_store'', SSL_CTX_set1_verify_cert_store q),
     (''get0_verify_cert_store'', SSL_CTX_get0_verify_cert_store q),
     (''set0_chain_cert_store'', SSL_CTX_set0_chain_cert_store q),
     (''set1_chain_cert_store'', SSL_CTX_set1_chain_cert_store q),
     (''get0_chain_cert_store'', SSL_CTX_get0_chain_cert_store q),
     (''set1_groups'', SSL_CTX_set1_groups q l),
     (''set1_groups_list'', SSL_CTX_set1_groups_list q),
     (''set1_sigalgs'', SSL_CTX_set1_sigalgs q l),
     (''set1_sigalgs_list'', SSL_CTX_set1_sigalgs_list q),
     (''set1_client_sigalgs'', SSL_CTX_set1_client_sigalgs q l),
     (''set1_client_sigalgs_list'', SSL_CTX_set1_client_sigalgs_list q),
     (''set1_client_certificate_types'', SSL_CTX_set1_client_certificate_types q l),
     (''set_min_proto_version'', SSL_CTX_set_min_proto_version l),
     (''set_max_proto_version'', SSL_CTX_set_max_proto_version l),
     (''get_min_proto_version'', SSL_CTX_get_min_proto_version),
     (''get_max_proto_version'', SSL_CTX_get_max_proto_version),
     (''sess_set_cache_size'', SSL_CTX_sess_set_cache_size l),
     (''sess_get_cache_size'', SSL_CTX_sess_get_cache_size),
     (''set_session_cache_mode'', SSL_CTX_set_session_cache_mode l),
     (''get_session_cache_mode'', SSL_CTX_get_session_cache_mode),
     (''get_read_ahead'', SSL_CTX_get_read_ahead),
     (''set_read_ahead'', SSL_CTX_set_read_ahead l),
     (''get_max_cert_list'', SSL_CTX_get_max_cert_list),
     (''set_max_cert_list'', SSL_CTX_set_max_cert_list l),
     (''set_max_send_fragment'', SSL_CTX_set_max_send_fragment l),
     (''set_split_send_fragment'', SSL_CTX_set_split_send_fragment l),
     (''set_max_pipelines'', SSL_CTX_set_max_pipelines l),
     (''set_tlsext_servername_callback'', SSL_CTX_set_tlsext_servername_callback c),
     (''set_tlsext_servername_arg'', SSL_CTX_set_tlsext_servername_arg q),
     (''get_tlsext_ticket_keys'', SSL_CTX_get_tlsext_ticket_keys q l),
     (''set_tlsext_ticket_keys'', SSL_CTX_set_tlsext_ticket_keys q l),
     (''get_tlsext_status_cb'', SSL_CTX_get_tlsext_status_cb q),
     (''set_tlsext_status_cb'', SSL_CTX_set_tlsext_status_cb c),
     (''get_tlsext_status_arg'', SSL_CTX_get_tlsext_status_arg q),
     (''set_tlsext_status_arg'', SSL_CTX_set_tlsext_status_arg q),
     (''set_tlsext_status_type'', SSL_CTX_set_tlsext_status_type l),
     (''get_tlsext_status_type'', SSL_CTX_get_tlsext_status_type),
     (''set_tlsext_ticket_key_cb'', SSL_CTX_set_tlsext_ticket_key_cb c)]"

end
