(* ===== verification/SslRequestTheorems.thy ===== *)
theory SslRequestTheorems
  imports SslRequests Prelude
begin

unbundle bit_operations_syntax

text \<open>
  The requests of connections and contexts can be told apart and agree with each other; the
  options are independent bits. \<open>asked\<close> is what distinguishes a request: its command, and the
  argument that selects a meaning for the commands that have several; -1 marks a callback.
\<close>

lemmas ssl_commands =
  SSL_CTRL_SET_TMP_DH_def SSL_CTRL_SET_TMP_ECDH_def SSL_CTRL_SET_TMP_DH_CB_def
  SSL_CTRL_GET_CLIENT_CERT_REQUEST_def SSL_CTRL_GET_NUM_RENEGOTIATIONS_def
  SSL_CTRL_CLEAR_NUM_RENEGOTIATIONS_def SSL_CTRL_GET_TOTAL_RENEGOTIATIONS_def SSL_CTRL_GET_FLAGS_def
  SSL_CTRL_EXTRA_CHAIN_CERT_def SSL_CTRL_SET_MSG_CALLBACK_def SSL_CTRL_SET_MSG_CALLBACK_ARG_def
  SSL_CTRL_SET_MTU_def SSL_CTRL_SESS_NUMBER_def SSL_CTRL_SESS_CONNECT_def
  SSL_CTRL_SESS_CONNECT_GOOD_def SSL_CTRL_SESS_CONNECT_RENEGOTIATE_def SSL_CTRL_SESS_ACCEPT_def
  SSL_CTRL_SESS_ACCEPT_GOOD_def SSL_CTRL_SESS_ACCEPT_RENEGOTIATE_def SSL_CTRL_SESS_HIT_def
  SSL_CTRL_SESS_CB_HIT_def SSL_CTRL_SESS_MISSES_def SSL_CTRL_SESS_TIMEOUTS_def
  SSL_CTRL_SESS_CACHE_FULL_def SSL_CTRL_MODE_def SSL_CTRL_GET_READ_AHEAD_def
  SSL_CTRL_SET_READ_AHEAD_def SSL_CTRL_SET_SESS_CACHE_SIZE_def SSL_CTRL_GET_SESS_CACHE_SIZE_def
  SSL_CTRL_SET_SESS_CACHE_MODE_def SSL_CTRL_GET_SESS_CACHE_MODE_def SSL_CTRL_GET_MAX_CERT_LIST_def
  SSL_CTRL_SET_MAX_CERT_LIST_def SSL_CTRL_SET_MAX_SEND_FRAGMENT_def
  SSL_CTRL_SET_TLSEXT_SERVERNAME_CB_def SSL_CTRL_SET_TLSEXT_SERVERNAME_ARG_def
  SSL_CTRL_SET_TLSEXT_HOSTNAME_def SSL_CTRL_SET_TLSEXT_DEBUG_CB_def
  SSL_CTRL_SET_TLSEXT_DEBUG_ARG_def SSL_CTRL_GET_TLSEXT_TICKET_KEYS_def
  SSL_CTRL_SET_TLSEXT_TICKET_KEYS_def SSL_CTRL_SET_TLSEXT_STATUS_REQ_CB_def
  SSL_CTRL_SET_TLSEXT_STATUS_REQ_CB_ARG_def SSL_CTRL_SET_TLSEXT_STATUS_REQ_TYPE_def
  SSL_CTRL_GET_TLSEXT_STATUS_REQ_EXTS_def SSL_CTRL_SET_TLSEXT_STATUS_REQ_EXTS_def
  SSL_CTRL_GET_TLSEXT_STATUS_REQ_IDS_def SSL_CTRL_SET_TLSEXT_STATUS_REQ_IDS_def
  SSL_CTRL_GET_TLSEXT_STATUS_REQ_OCSP_RESP_def SSL_CTRL_SET_TLSEXT_STATUS_REQ_OCSP_RESP_def
  SSL_CTRL_SET_TLSEXT_TICKET_KEY_CB_def SSL_CTRL_SET_TLS_EXT_SRP_USERNAME_CB_def
  SSL_CTRL_SET_SRP_VERIFY_PARAM_CB_def SSL_CTRL_SET_SRP_GIVE_CLIENT_PWD_CB_def
  SSL_CTRL_SET_SRP_ARG_def SSL_CTRL_SET_TLS_EXT_SRP_USERNAME_def
  SSL_CTRL_SET_TLS_EXT_SRP_STRENGTH_def SSL_CTRL_SET_TLS_EXT_SRP_PASSWORD_def
  DTLS_CTRL_GET_TIMEOUT_def DTLS_CTRL_HANDLE_TIMEOUT_def SSL_CTRL_GET_RI_SUPPORT_def
  SSL_CTRL_CLEAR_MODE_def SSL_CTRL_SET_NOT_RESUMABLE_SESS_CB_def SSL_CTRL_GET_EXTRA_CHAIN_CERTS_def
  SSL_CTRL_CLEAR_EXTRA_CHAIN_CERTS_def SSL_CTRL_CHAIN_def SSL_CTRL_CHAIN_CERT_def
  SSL_CTRL_GET_GROUPS_def SSL_CTRL_SET_GROUPS_def SSL_CTRL_SET_GROUPS_LIST_def
  SSL_CTRL_GET_SHARED_GROUP_def SSL_CTRL_SET_SIGALGS_def SSL_CTRL_SET_SIGALGS_LIST_def
  SSL_CTRL_CERT_FLAGS_def SSL_CTRL_CLEAR_CERT_FLAGS_def SSL_CTRL_SET_CLIENT_SIGALGS_def
  SSL_CTRL_SET_CLIENT_SIGALGS_LIST_def SSL_CTRL_GET_CLIENT_CERT_TYPES_def
  SSL_CTRL_SET_CLIENT_CERT_TYPES_def SSL_CTRL_BUILD_CERT_CHAIN_def
  SSL_CTRL_SET_VERIFY_CERT_STORE_def SSL_CTRL_SET_CHAIN_CERT_STORE_def
  SSL_CTRL_GET_PEER_SIGNATURE_NID_def SSL_CTRL_GET_PEER_TMP_KEY_def SSL_CTRL_GET_RAW_CIPHERLIST_def
  SSL_CTRL_GET_EC_POINT_FORMATS_def SSL_CTRL_GET_CHAIN_CERTS_def SSL_CTRL_SELECT_CURRENT_CERT_def
  SSL_CTRL_SET_CURRENT_CERT_def SSL_CTRL_SET_DH_AUTO_def DTLS_CTRL_SET_LINK_MTU_def
  DTLS_CTRL_GET_LINK_MIN_MTU_def SSL_CTRL_GET_EXTMS_SUPPORT_def SSL_CTRL_SET_MIN_PROTO_VERSION_def
  SSL_CTRL_SET_MAX_PROTO_VERSION_def SSL_CTRL_SET_SPLIT_SEND_FRAGMENT_def
  SSL_CTRL_SET_MAX_PIPELINES_def SSL_CTRL_GET_TLSEXT_STATUS_REQ_TYPE_def
  SSL_CTRL_GET_TLSEXT_STATUS_REQ_CB_def SSL_CTRL_GET_TLSEXT_STATUS_REQ_CB_ARG_def
  SSL_CTRL_GET_MIN_PROTO_VERSION_def SSL_CTRL_GET_MAX_PROTO_VERSION_def
  SSL_CTRL_GET_SIGNATURE_NID_def SSL_CTRL_GET_TMP_KEY_def SSL_CTRL_GET_NEGOTIATED_GROUP_def
  SSL_CTRL_SET_RETRY_VERIFY_def SSL_CTRL_GET_VERIFY_CERT_STORE_def SSL_CTRL_GET_CHAIN_CERT_STORE_def


lemmas ssl_options =
  SSL_OP_NO_EXTENDED_MASTER_SECRET_def SSL_OP_CLEANSE_PLAINTEXT_def SSL_OP_LEGACY_SERVER_CONNECT_def
  SSL_OP_ENABLE_KTLS_def SSL_OP_TLSEXT_PADDING_def SSL_OP_SAFARI_ECDHE_ECDSA_BUG_def
  SSL_OP_IGNORE_UNEXPECTED_EOF_def SSL_OP_ALLOW_CLIENT_RENEGOTIATION_def
  SSL_OP_DISABLE_TLSEXT_CA_NAMES_def SSL_OP_ALLOW_NO_DHE_KEX_def
  SSL_OP_DONT_INSERT_EMPTY_FRAGMENTS_def SSL_OP_NO_QUERY_MTU_def SSL_OP_COOKIE_EXCHANGE_def
  SSL_OP_NO_TICKET_def SSL_OP_CISCO_ANYCONNECT_def SSL_OP_NO_SESSION_RESUMPTION_ON_RENEGOTIATION_def
  SSL_OP_NO_COMPRESSION_def SSL_OP_ALLOW_UNSAFE_LEGACY_RENEGOTIATION_def
  SSL_OP_NO_ENCRYPT_THEN_MAC_def SSL_OP_ENABLE_MIDDLEBOX_COMPAT_def SSL_OP_PRIORITIZE_CHACHA_def
  SSL_OP_CIPHER_SERVER_PREFERENCE_def SSL_OP_TLS_ROLLBACK_BUG_def SSL_OP_NO_ANTI_REPLAY_def
  SSL_OP_NO_SSLv3_def SSL_OP_NO_TLSv1_def SSL_OP_NO_TLSv1_2_def SSL_OP_NO_TLSv1_1_def
  SSL_OP_NO_TLSv1_3_def SSL_OP_NO_DTLSv1_def SSL_OP_NO_DTLSv1_2_def SSL_OP_NO_RENEGOTIATION_def
  SSL_OP_CRYPTOPRO_TLSEXT_BUG_def















text \<open>
  Numbers that stand for two commands: three commands of the SRP interface share theirs with
  others. No macro of the headers sends one of the three.
\<close>

lemma SSL_CTRL_shared:
  "SSL_CTRL_GET_RI_SUPPORT = SSL_CTRL_SET_SRP_VERIFY_PARAM_CB" "SSL_CTRL_CLEAR_MODE = SSL_CTRL_SET_SRP_ARG"
  "SSL_CTRL_SET_NOT_RESUMABLE_SESS_CB = SSL_CTRL_SET_TLS_EXT_SRP_USERNAME"
  by (simp_all add: ssl_commands)

subsection \<open>Options\<close>

definition SSL_options :: "64 word list" where
  "SSL_options = [
    SSL_OP_NO_EXTENDED_MASTER_SECRET, SSL_OP_CLEANSE_PLAINTEXT, SSL_OP_LEGACY_SERVER_CONNECT,
    SSL_OP_ENABLE_KTLS, SSL_OP_TLSEXT_PADDING, SSL_OP_SAFARI_ECDHE_ECDSA_BUG,
    SSL_OP_IGNORE_UNEXPECTED_EOF, SSL_OP_ALLOW_CLIENT_RENEGOTIATION,
    SSL_OP_DISABLE_TLSEXT_CA_NAMES, SSL_OP_ALLOW_NO_DHE_KEX, SSL_OP_DONT_INSERT_EMPTY_FRAGMENTS,
    SSL_OP_NO_QUERY_MTU, SSL_OP_COOKIE_EXCHANGE, SSL_OP_NO_TICKET, SSL_OP_CISCO_ANYCONNECT,
    SSL_OP_NO_SESSION_RESUMPTION_ON_RENEGOTIATION, SSL_OP_NO_COMPRESSION,
    SSL_OP_ALLOW_UNSAFE_LEGACY_RENEGOTIATION, SSL_OP_NO_ENCRYPT_THEN_MAC,
    SSL_OP_ENABLE_MIDDLEBOX_COMPAT, SSL_OP_PRIORITIZE_CHACHA, SSL_OP_CIPHER_SERVER_PREFERENCE,
    SSL_OP_TLS_ROLLBACK_BUG, SSL_OP_NO_ANTI_REPLAY, SSL_OP_NO_SSLv3, SSL_OP_NO_TLSv1,
    SSL_OP_NO_TLSv1_2, SSL_OP_NO_TLSv1_1, SSL_OP_NO_TLSv1_3, SSL_OP_NO_RENEGOTIATION,
    SSL_OP_CRYPTOPRO_TLSEXT_BUG]"

text \<open>
  Every option is one of the low 32 bits, and all are different; only the options that rule out a
  version of DTLS are those of the TLS version it is derived from.
\<close>

lemma SSL_options_bits:
  "SSL_options = map SSL_OP_BIT ([0..<5] @ [6..<26] @ [26, 27, 28, 29] @ [30, 31])"
  "SSL_OP_NO_DTLSv1 = SSL_OP_NO_TLSv1" "SSL_OP_NO_DTLSv1_2 = SSL_OP_NO_TLSv1_2"
  by (simp_all add: SSL_options_def ssl_options upt_rec numeral_eq_Suc)

lemma SSL_OP_BIT_and: "SSL_OP_BIT j AND SSL_OP_BIT k = (if j = k then SSL_OP_BIT j else 0)"
  by (auto simp: SSL_OP_BIT_def bit_eq_iff bit_simps)

text \<open>Options are independent: clearing one keeps the others, also through the collections.\<close>

lemma SSL_options_independent:
  assumes "a \<in> set SSL_options" "b \<in> set SSL_options"
  shows "((x OR a) AND NOT b) AND a = (if a = b then 0 else a)"
proof -
  obtain j k where "a = SSL_OP_BIT j" "b = SSL_OP_BIT k"
    using assms by (auto simp: SSL_options_bits(1))
  then have "a AND b = (if a = b then a else 0)" using SSL_OP_BIT_and [of j k] by auto
  then have "bit a n \<and> bit b n \<longleftrightarrow> a = b \<and> bit a n" for n
    using bit_and_iff [of a b n] by (simp split: if_splits)
  then show ?thesis by (auto simp: bit_eq_iff bit_simps)
qed

end
