(* ===== verification/V8Config.thy ===== *)
theory V8Config
  imports Main
begin

text \<open>
  The configuration header \<open>v8config.h\<close>: detection of the operating system, the C library and
  the compiler, the choice of attributes, and the combinations of switches that it refuses. The
  preprocessor's macros are a map from names to values, which the sections of the header read
  and extend in order; a macro whose replacement is not a number has the value 1, as it has on
  the command line. \<open>#error\<close> is an error value. What \<open>__has_attribute\<close> and its relatives answer
  is given by the compiler. The macros that \<open>v8config\<close> starts with are those after the headers at
  its top were included: the generated \<open>v8-gn.h\<close>, which the header asks for where
  \<open>V8_GN_HEADER\<close> is defined, and the headers of the platform.
\<close>

subsection \<open>The preprocessor\<close>

type_synonym macros = "string \<Rightarrow> int option"

definition defined :: "macros \<Rightarrow> string \<Rightarrow> bool" where
  "defined e m \<longleftrightarrow> e m \<noteq> None"

text \<open>In the condition of \<open>#if\<close> a name that is not a macro counts as 0.\<close>

definition pp_value :: "macros \<Rightarrow> string \<Rightarrow> int" where
  "pp_value e m = (case e m of None \<Rightarrow> 0 | Some v \<Rightarrow> v)"

definition pp_true :: "macros \<Rightarrow> string \<Rightarrow> bool" where
  "pp_true e m \<longleftrightarrow> pp_value e m \<noteq> 0"

fun define_all :: "(string \<times> int) list \<Rightarrow> macros \<Rightarrow> macros" where
  "define_all [] e = e"
| "define_all ((m, v) # ms) e = define_all ms (e(m \<mapsto> v))"

definition ones :: "string list \<Rightarrow> (string \<times> int) list" where
  "ones ms = map (\<lambda>m. (m, 1)) ms"

definition bool_val :: "bool \<Rightarrow> int" where
  "bool_val b = (if b then 1 else 0)"

datatype config_error =
    No_known_target_OS
  | Target_OS_without_HAVE
  | Building_and_using_shared
  | Sandbox_not_available

record v8_host =
  has_attribute :: "string \<Rightarrow> int"
  has_cpp_attribute :: "(string \<Rightarrow> int) option"
  has_builtin :: "string \<Rightarrow> int"

subsection \<open>Operating system of the host\<close>

definition V8_OS :: "macros \<Rightarrow> (string list \<times> string) option" where
  "V8_OS e =
     (if defined e ''__ANDROID__'' then
        Some ([''V8_OS_ANDROID'', ''V8_OS_LINUX'', ''V8_OS_POSIX''], ''android'')
      else if defined e ''__APPLE__'' then
        if defined e ''TARGET_OS_IPHONE'' \<and> pp_true e ''TARGET_OS_IPHONE'' then
          Some ([''V8_OS_POSIX'', ''V8_OS_BSD'', ''V8_OS_DARWIN'', ''V8_OS_IOS''], ''ios'')
        else
          Some ([''V8_OS_POSIX'', ''V8_OS_BSD'', ''V8_OS_DARWIN'', ''V8_OS_MACOS''], ''macos'')
      else if defined e ''__CYGWIN__'' then
        Some ([''V8_OS_CYGWIN'', ''V8_OS_POSIX''], ''cygwin'')
      else if defined e ''__linux__'' then
        Some ([''V8_OS_LINUX'', ''V8_OS_POSIX''], ''linux'')
      else if defined e ''__sun'' then
        Some ([''V8_OS_POSIX'', ''V8_OS_SOLARIS''], ''sun'')
      else if defined e ''STARBOARD'' then
        Some ([''V8_OS_STARBOARD''], ''starboard'')
      else if defined e ''_AIX'' then
        Some ([''V8_OS_POSIX'', ''V8_OS_AIX''], ''aix'')
      else if defined e ''__FreeBSD__'' then
        Some ([''V8_OS_BSD'', ''V8_OS_FREEBSD'', ''V8_OS_POSIX''], ''freebsd'')
      else if defined e ''__Fuchsia__'' then
        Some ([''V8_OS_FUCHSIA'', ''V8_OS_POSIX''], ''fuchsia'')
      else if defined e ''__DragonFly__'' then
        Some ([''V8_OS_BSD'', ''V8_OS_DRAGONFLYBSD'', ''V8_OS_POSIX''], ''dragonflybsd'')
      else if defined e ''__NetBSD__'' then
        Some ([''V8_OS_BSD'', ''V8_OS_NETBSD'', ''V8_OS_POSIX''], ''netbsd'')
      else if defined e ''__OpenBSD__'' then
        Some ([''V8_OS_BSD'', ''V8_OS_OPENBSD'', ''V8_OS_POSIX''], ''openbsd'')
      else if defined e ''__QNXNTO__'' then
        Some ([''V8_OS_POSIX'', ''V8_OS_QNX''], ''qnx'')
      else if defined e ''_WIN32'' then
        Some ([''V8_OS_WIN''], ''windows'')
      else None)"

definition V8_OS_macros :: "macros \<Rightarrow> macros" where
  "V8_OS_macros e = (case V8_OS e of None \<Rightarrow> e | Some (ms, _) \<Rightarrow> define_all (ones ms) e)"

definition V8_OS_STRING :: "macros \<Rightarrow> string option" where
  "V8_OS_STRING e = map_option snd (V8_OS e)"

subsection \<open>Operating system of the target\<close>

text \<open>The name of the host macro and of the target macro that falls back to it.\<close>

definition V8_TARGET_OS :: "(string \<times> string) list" where
  "V8_TARGET_OS = [
     (''V8_OS_ANDROID'', ''V8_TARGET_OS_ANDROID''), (''V8_OS_FUCHSIA'', ''V8_TARGET_OS_FUCHSIA''),
     (''V8_OS_IOS'', ''V8_TARGET_OS_IOS''), (''V8_OS_LINUX'', ''V8_TARGET_OS_LINUX''),
     (''V8_OS_MACOS'', ''V8_TARGET_OS_MACOS''), (''V8_OS_WIN'', ''V8_TARGET_OS_WIN'')]"

fun target_fall_back :: "(string \<times> string) list \<Rightarrow> macros \<Rightarrow> macros" where
  "target_fall_back [] e = e"
| "target_fall_back ((host, target) # ts) e =
     target_fall_back ts (if defined e host then e(target \<mapsto> 1) else e)"

definition V8_TARGET_OS_macros :: "macros \<Rightarrow> config_error + macros" where
  "V8_TARGET_OS_macros e =
     (if defined e ''V8_HAVE_TARGET_OS'' then
        if \<not> defined e ''V8_TARGET_OS_ANDROID'' \<and> \<not> defined e ''V8_TARGET_OS_FUCHSIA''
            \<and> \<not> defined e ''V8_TARGET_OS_IOS'' \<and> \<not> defined e ''V8_TARGET_OS_LINUX''
            \<and> \<not> defined e ''V8_TARGET_OS_MACOS'' \<and> \<not> defined e ''V8_TARGET_OS_WIN''
        then Inl No_known_target_OS
        else Inr e
      else
        if defined e ''V8_TARGET_OS_ANDROID'' \<or> defined e ''V8_TARGET_OS_FUCHSIA''
            \<or> defined e ''V8_TARGET_OS_IOS'' \<or> defined e ''V8_TARGET_OS_LINUX''
            \<or> defined e ''V8_TARGET_OS_MACOS'' \<or> defined e ''V8_TARGET_OS_WIN''
        then Inl Target_OS_without_HAVE
        else Inr (target_fall_back V8_TARGET_OS e))"

definition V8_TARGET_OS_STRING :: "macros \<Rightarrow> string" where
  "V8_TARGET_OS_STRING e =
     (if defined e ''V8_TARGET_OS_ANDROID'' then ''android''
      else if defined e ''V8_TARGET_OS_FUCHSIA'' then ''fuchsia''
      else if defined e ''V8_TARGET_OS_IOS'' then ''ios''
      else if defined e ''V8_TARGET_OS_LINUX'' then ''linux''
      else if defined e ''V8_TARGET_OS_MACOS'' then ''macos''
      else if defined e ''V8_TARGET_OS_WINDOWS'' then ''windows''
      else ''unknown'')"

subsection \<open>C library\<close>

definition V8_LIBC :: "macros \<Rightarrow> (string \<times> int) list" where
  "V8_LIBC e =
     (if defined e ''_MSC_VER'' then [(''V8_LIBC_MSVCRT'', 1)]
      else if defined e ''__BIONIC__'' then [(''V8_LIBC_BIONIC'', 1), (''V8_LIBC_BSD'', 1)]
      else if defined e ''__UCLIBC__'' then [(''V8_LIBC_UCLIBC'', 1)]
      else if defined e ''__GLIBC__'' \<or> defined e ''__GNU_LIBRARY__'' then [(''V8_LIBC_GLIBC'', 1)]
      else [(''V8_LIBC_BSD'', pp_value e ''V8_OS_BSD'')])"

subsection \<open>Compiler\<close>

definition V8_HAS_CPP_ATTRIBUTE :: "v8_host \<Rightarrow> string \<Rightarrow> int" where
  "V8_HAS_CPP_ATTRIBUTE c feature = (case has_cpp_attribute c of Some f \<Rightarrow> f feature | None \<Rightarrow> 0)"

definition clang_features :: "v8_host \<Rightarrow> (string \<times> int) list" where
  "clang_features c = [
     (''V8_HAS_ATTRIBUTE_ALWAYS_INLINE'', has_attribute c ''always_inline''),
     (''V8_HAS_ATTRIBUTE_NONNULL'', has_attribute c ''nonnull''),
     (''V8_HAS_ATTRIBUTE_NOINLINE'', has_attribute c ''noinline''),
     (''V8_HAS_ATTRIBUTE_UNUSED'', has_attribute c ''unused''),
     (''V8_HAS_ATTRIBUTE_VISIBILITY'', has_attribute c ''visibility''),
     (''V8_HAS_ATTRIBUTE_WARN_UNUSED_RESULT'', has_attribute c ''warn_unused_result''),
     (''V8_HAS_CPP_ATTRIBUTE_NODISCARD'', V8_HAS_CPP_ATTRIBUTE c ''nodiscard''),
     (''V8_HAS_CPP_ATTRIBUTE_NO_UNIQUE_ADDRESS'', V8_HAS_CPP_ATTRIBUTE c ''no_unique_address''),
     (''V8_HAS_BUILTIN_ASSUME_ALIGNED'', has_builtin c ''__builtin_assume_aligned''),
     (''V8_HAS_BUILTIN_BSWAP16'', has_builtin c ''__builtin_bswap16''),
     (''V8_HAS_BUILTIN_BSWAP32'', has_builtin c ''__builtin_bswap32''),
     (''V8_HAS_BUILTIN_BSWAP64'', has_builtin c ''__builtin_bswap64''),
     (''V8_HAS_BUILTIN_CLZ'', has_builtin c ''__builtin_clz''),
     (''V8_HAS_BUILTIN_CTZ'', has_builtin c ''__builtin_ctz''),
     (''V8_HAS_BUILTIN_EXPECT'', has_builtin c ''__builtin_expect''),
     (''V8_HAS_BUILTIN_FRAME_ADDRESS'', has_builtin c ''__builtin_frame_address''),
     (''V8_HAS_BUILTIN_POPCOUNT'', has_builtin c ''__builtin_popcount''),
     (''V8_HAS_BUILTIN_SADD_OVERFLOW'', has_builtin c ''__builtin_sadd_overflow''),
     (''V8_HAS_BUILTIN_SSUB_OVERFLOW'', has_builtin c ''__builtin_ssub_overflow''),
     (''V8_HAS_BUILTIN_UADD_OVERFLOW'', has_builtin c ''__builtin_uadd_overflow''),
     (''V8_HAS_COMPUTED_GOTO'', 1)]"

definition gnu_compiler :: "macros \<Rightarrow> (string \<times> int) list" where
  "gnu_compiler e =
     [(''V8_CC_GNU'', 1)] @
     (if defined e ''__INTEL_COMPILER'' then [(''V8_CC_INTEL'', 1)] else []) @
     (if defined e ''__MINGW32__'' then [(''V8_CC_MINGW32'', 1)] else []) @
     (if defined e ''__MINGW64__'' then [(''V8_CC_MINGW64'', 1)] else [])"

definition gnu_features :: "macros \<Rightarrow> (string \<times> int) list" where
  "gnu_features e = [
     (''V8_CC_MINGW'', bool_val (pp_true e ''V8_CC_MINGW32'' \<or> pp_true e ''V8_CC_MINGW64'')),
     (''V8_HAS_ATTRIBUTE_ALWAYS_INLINE'', 1), (''V8_HAS_ATTRIBUTE_NOINLINE'', 1),
     (''V8_HAS_ATTRIBUTE_UNUSED'', 1), (''V8_HAS_ATTRIBUTE_VISIBILITY'', 1),
     (''V8_HAS_ATTRIBUTE_WARN_UNUSED_RESULT'', bool_val (\<not> pp_true e ''V8_CC_INTEL'')),
     (''V8_HAS_BUILTIN_ASSUME_ALIGNED'', 1), (''V8_HAS_BUILTIN_CLZ'', 1), (''V8_HAS_BUILTIN_CTZ'', 1),
     (''V8_HAS_BUILTIN_EXPECT'', 1), (''V8_HAS_BUILTIN_FRAME_ADDRESS'', 1),
     (''V8_HAS_BUILTIN_POPCOUNT'', 1), (''V8_HAS_COMPUTED_GOTO'', 1)]"

definition V8_CC :: "v8_host \<Rightarrow> macros \<Rightarrow> (string \<times> int) list" where
  "V8_CC c e =
     (if defined e ''__clang__'' then
        (if defined e ''__GNUC__'' then [(''V8_CC_GNU'', 1)] else []) @ clang_features c
      else if defined e ''__GNUC__'' then gnu_compiler e @ gnu_features (define_all (gnu_compiler e) e)
      else []) @
     (if defined e ''_MSC_VER'' then
        [(''V8_CC_MSVC'', 1), (''V8_HAS_DECLSPEC_NOINLINE'', 1), (''V8_HAS_DECLSPEC_SELECTANY'', 1),
         (''V8_HAS___FORCEINLINE'', 1)]
      else [])"

subsection \<open>Attributes\<close>

text \<open>The text that a macro is replaced by.\<close>

definition V8_INLINE :: "macros \<Rightarrow> string" where
  "V8_INLINE e =
     (if \<not> defined e ''DEBUG'' \<and> pp_true e ''V8_HAS_ATTRIBUTE_ALWAYS_INLINE''
      then ''inline __attribute__((always_inline))''
      else if \<not> defined e ''DEBUG'' \<and> pp_true e ''V8_HAS___FORCEINLINE'' then ''__forceinline''
      else ''inline'')"

definition V8_ASSUME_ALIGNED :: "macros \<Rightarrow> string \<Rightarrow> string \<Rightarrow> string" where
  "V8_ASSUME_ALIGNED e ptr alignment =
     (if pp_true e ''V8_HAS_BUILTIN_ASSUME_ALIGNED''
      then ''__builtin_assume_aligned(('' @ ptr @ ''), ('' @ alignment @ ''))''
      else ''('' @ ptr @ '')'')"

definition V8_NONNULL :: "macros \<Rightarrow> string \<Rightarrow> string" where
  "V8_NONNULL e args =
     (if pp_true e ''V8_HAS_ATTRIBUTE_NONNULL'' then ''__attribute__((nonnull('' @ args @ '')))'' else [])"

definition V8_NOINLINE :: "macros \<Rightarrow> string" where
  "V8_NOINLINE e =
     (if pp_true e ''V8_HAS_ATTRIBUTE_NOINLINE'' then ''__attribute__((noinline))''
      else if pp_true e ''V8_HAS_DECLSPEC_NOINLINE'' then ''__declspec(noinline)''
      else '''')"

definition V8_DEPRECATED :: "macros \<Rightarrow> string \<Rightarrow> string" where
  "V8_DEPRECATED e message =
     (if defined e ''V8_DEPRECATION_WARNINGS'' then ''[[deprecated('' @ message @ '')]]'' else [])"

definition V8_DEPRECATE_SOON :: "macros \<Rightarrow> string \<Rightarrow> string" where
  "V8_DEPRECATE_SOON e message =
     (if defined e ''V8_IMMINENT_DEPRECATION_WARNINGS'' then ''[[deprecated('' @ message @ '')]]'' else [])"

definition old_gnu :: "macros \<Rightarrow> bool" where
  "old_gnu e \<longleftrightarrow> defined e ''__GNUC__'' \<and> \<not> defined e ''__clang__'' \<and> pp_value e ''__GNUC__'' < 6"

definition V8_ENUM_DEPRECATED :: "macros \<Rightarrow> string \<Rightarrow> string" where
  "V8_ENUM_DEPRECATED e message = (if old_gnu e then [] else V8_DEPRECATED e message)"

definition V8_ENUM_DEPRECATE_SOON :: "macros \<Rightarrow> string \<Rightarrow> string" where
  "V8_ENUM_DEPRECATE_SOON e message = (if old_gnu e then [] else V8_DEPRECATE_SOON e message)"

definition V8_WARN_UNUSED_RESULT :: "macros \<Rightarrow> string" where
  "V8_WARN_UNUSED_RESULT e =
     (if pp_true e ''V8_HAS_ATTRIBUTE_WARN_UNUSED_RESULT'' then ''__attribute__((warn_unused_result))'' else '''')"

definition V8_NODISCARD :: "macros \<Rightarrow> string" where
  "V8_NODISCARD e = (if pp_true e ''V8_HAS_CPP_ATTRIBUTE_NODISCARD'' then ''[[nodiscard]]'' else '''')"

definition V8_NO_UNIQUE_ADDRESS :: "macros \<Rightarrow> string" where
  "V8_NO_UNIQUE_ADDRESS e =
     (if pp_true e ''V8_HAS_CPP_ATTRIBUTE_NO_UNIQUE_ADDRESS'' then ''[[no_unique_address]]'' else '''')"

definition V8_CLANG_NO_SANITIZE :: "v8_host \<Rightarrow> macros \<Rightarrow> string \<Rightarrow> string" where
  "V8_CLANG_NO_SANITIZE c e what =
     (if defined e ''__clang__'' \<and> defined e ''__has_attribute'' \<and> has_attribute c ''no_sanitize'' \<noteq> 0
      then ''__attribute__((no_sanitize('' @ what @ '')))'' else [])"

text \<open>
  The value of a condition under the branch predictions; \<open>__builtin_expect\<close> gives its first
  argument, which is the condition negated twice.
\<close>

definition V8_UNLIKELY :: "macros \<Rightarrow> int \<Rightarrow> int" where
  "V8_UNLIKELY e condition = (if pp_true e ''V8_HAS_BUILTIN_EXPECT'' then bool_val (condition \<noteq> 0) else condition)"

definition V8_LIKELY :: "macros \<Rightarrow> int \<Rightarrow> int" where
  "V8_LIKELY e condition = (if pp_true e ''V8_HAS_BUILTIN_EXPECT'' then bool_val (condition \<noteq> 0) else condition)"

definition V8_EXPORT :: "macros \<Rightarrow> string" where
  "V8_EXPORT e =
     (if defined e ''V8_OS_WIN'' then
        if defined e ''BUILDING_V8_SHARED'' then ''__declspec(dllexport)''
        else if pp_true e ''USING_V8_SHARED'' then ''__declspec(dllimport)''
        else ''''
      else if pp_true e ''V8_HAS_ATTRIBUTE_VISIBILITY'' then
        if defined e ''BUILDING_V8_SHARED'' then ''__attribute__ ((visibility(\"default\")))'' else ''''
      else '''')"

subsection \<open>The header\<close>

definition V8_shared_check :: "macros \<Rightarrow> config_error + macros" where
  "V8_shared_check e =
     (if defined e ''BUILDING_V8_SHARED'' \<and> defined e ''USING_V8_SHARED'' then Inl Building_and_using_shared
      else Inr e)"

definition V8_sandbox_check :: "macros \<Rightarrow> config_error + macros" where
  "V8_sandbox_check e =
     (let e = (if defined e ''V8_COMPRESS_POINTERS'' then e(''V8_SANDBOX_IS_AVAILABLE'' \<mapsto> 1) else e) in
      if defined e ''V8_SANDBOX'' \<and> \<not> defined e ''V8_SANDBOX_IS_AVAILABLE'' then Inl Sandbox_not_available
      else Inr e)"

definition V8_constexpr :: "macros \<Rightarrow> macros" where
  "V8_constexpr e =
     (if pp_value e ''__cplusplus'' < 201703 \<and> (\<not> defined e ''_MSVC_LANG'' \<or> pp_value e ''_MSVC_LANG'' < 201703)
      then e(''V8_STATIC_CONSTEXPR_VARIABLES_NEED_DEFINITIONS'' \<mapsto> 1) else e)"

record v8_header =
  final_macros :: macros
  os_string :: "string option"
  target_os_string :: string

definition and_then :: "'e + 'a \<Rightarrow> ('a \<Rightarrow> 'e + 'b) \<Rightarrow> 'e + 'b" where
  "and_then r f = (case r of Inl err \<Rightarrow> Inl err | Inr x \<Rightarrow> f x)"

definition v8config :: "v8_host \<Rightarrow> macros \<Rightarrow> config_error + v8_header" where
  "v8config c e =
     and_then (V8_TARGET_OS_macros (V8_OS_macros e)) (\<lambda>e1.
     let e2 = define_all (V8_LIBC e1) e1; e3 = define_all (V8_CC c e2) e2 in
     and_then (V8_shared_check e3) (\<lambda>e4.
     and_then (V8_sandbox_check e4) (\<lambda>e5.
     Inr \<lparr>final_macros = V8_constexpr e5, os_string = V8_OS_STRING e, target_os_string = V8_TARGET_OS_STRING e1\<rparr>)))"

end
