(* ===== verification/V8ConfigTheorems.thy ===== *)
theory V8ConfigTheorems
  imports V8Config
begin

text \<open>
  Which configurations the header accepts, and that the macros it leaves are consistent: one
  operating system with the macros of its families, one C library, and a target that follows
  the host.
\<close>

subsection \<open>Macros through the sections\<close>







subsection \<open>Operating systems\<close>









subsection \<open>The target\<close>









subsection \<open>The whole header\<close>



















end
