(* ===== verification/NodeSupport.thy ===== *)
theory NodeSupport
  imports Prelude "HOL-Library.Word" "HOL-Library.Product_Lexorder"
begin

text \<open>
  Small inline functions of several headers: the bounds test of \<open>node_buffer.h\<close>, the compiler
  version tests of \<open>node.h\<close> and \<open>v8config.h\<close>, the shared memory handles of \<open>v8-platform.h\<close> and
  the argument of weak callbacks, \<open>v8-weak-callback-info.h\<close>. \<open>size_t\<close> and pointers have 64 bits.
\<close>

subsection \<open>Buffers\<close>

definition IsWithinBounds :: "64 word \<Rightarrow> 64 word \<Rightarrow> 64 word \<Rightarrow> bool" where
  "IsWithinBounds off len maxlen = (if off > maxlen then False else if maxlen - off < len then False else True)"

text \<open>The test is exact: no sum or difference of the range wraps around.\<close>

lemma IsWithinBounds_iff: "IsWithinBounds off len maxlen \<longleftrightarrow> unat off + unat len \<le> unat maxlen"
proof -
  have "unat (maxlen - off) = unat maxlen - unat off" if "off \<le> maxlen" using that by (rule unat_sub)
  then show ?thesis by (auto simp: IsWithinBounds_def word_less_nat_alt word_le_nat_alt not_less not_le)
qed

subsection \<open>Versions of the compiler\<close>

text \<open>A version macro that is not defined is \<open>None\<close>.\<close>

record compiler =
  clang_version :: "(int \<times> int \<times> int) option"
  GNUC :: "int option"
  GNUC_MINOR :: "int option"
  GNUC_PATCHLEVEL :: "int option"
  GLIBC :: "int option"
  GLIBC_MINOR :: "int option"

definition NODE_MAKE_VERSION :: "int \<Rightarrow> int \<Rightarrow> int \<Rightarrow> int" where
  "NODE_MAKE_VERSION major minor patch = major * 0x1000 + minor * 0x100 + patch"

definition NODE_CLANG_AT_LEAST :: "compiler \<Rightarrow> int \<Rightarrow> int \<Rightarrow> int \<Rightarrow> bool" where
  "NODE_CLANG_AT_LEAST c major minor patch =
     (case clang_version c of
        Some (M, m, p) \<Rightarrow> NODE_MAKE_VERSION major minor patch \<le> NODE_MAKE_VERSION M m p
      | None \<Rightarrow> False)"

text \<open>In a condition of the preprocessor a macro that is not defined is zero.\<close>

definition NODE_GNUC_AT_LEAST :: "compiler \<Rightarrow> int \<Rightarrow> int \<Rightarrow> int \<Rightarrow> bool" where
  "NODE_GNUC_AT_LEAST c major minor patch =
     (case GNUC c of
        Some M \<Rightarrow> NODE_MAKE_VERSION major minor patch
          \<le> NODE_MAKE_VERSION M (case_option 0 id (GNUC_MINOR c)) (case_option 0 id (GNUC_PATCHLEVEL c))
      | None \<Rightarrow> False)"

definition V8_GLIBC_PREREQ :: "compiler \<Rightarrow> int \<Rightarrow> int \<Rightarrow> bool" where
  "V8_GLIBC_PREREQ c major minor =
     (case (GLIBC c, GLIBC_MINOR c) of
        (Some M, Some m) \<Rightarrow> M * 100 + m \<ge> major * 100 + minor
      | _ \<Rightarrow> False)"

definition V8_GNUC_PREREQ :: "compiler \<Rightarrow> int \<Rightarrow> int \<Rightarrow> int \<Rightarrow> bool" where
  "V8_GNUC_PREREQ c major minor patchlevel =
     (case (GNUC c, GNUC_MINOR c, GNUC_PATCHLEVEL c) of
        (Some M, Some m, Some p) \<Rightarrow> M * 10000 + m * 100 + p \<ge> major * 10000 + minor * 100 + patchlevel
      | (Some M, Some m, None) \<Rightarrow> M * 10000 + m * 100 \<ge> major * 10000 + minor * 100 + patchlevel
      | _ \<Rightarrow> False)"

text \<open>
  The tests compare version triples while the parts are small: below 100 for V8's, but minor
  versions only up to 15 for Node's, as its factor for the major version is 4096. Version 3.16
  passes as 4.0.
\<close>

lemma NODE_MAKE_VERSION_order:
  assumes "m \<in> {0..<16}" "m' \<in> {0..<16}" "p \<in> {0..<256}" "p' \<in> {0..<256}"
  shows "NODE_MAKE_VERSION M m p \<le> NODE_MAKE_VERSION M' m' p' \<longleftrightarrow> (M, m, p) \<le> (M', m', p')"
  using assms by (auto simp: NODE_MAKE_VERSION_def less_eq_prod_def)

lemma NODE_MAKE_VERSION_clash: "NODE_MAKE_VERSION 3 16 0 = NODE_MAKE_VERSION 4 0 0"
  by (simp add: NODE_MAKE_VERSION_def)

lemma V8_GNUC_PREREQ_order:
  assumes "GNUC c = Some M" "GNUC_MINOR c = Some m" "GNUC_PATCHLEVEL c = Some p"
    "m \<in> {0..<100}" "m' \<in> {0..<100}" "p \<in> {0..<100}" "p' \<in> {0..<100}"
  shows "V8_GNUC_PREREQ c M' m' p' \<longleftrightarrow> (M', m', p') \<le> (M, m, p)"
  using assms by (auto simp: V8_GNUC_PREREQ_def less_eq_prod_def)

subsection \<open>Shared memory handles\<close>

type_synonym PlatformSharedMemoryHandle = "64 word"

definition kInvalidSharedMemoryHandle :: PlatformSharedMemoryHandle where
  "kInvalidSharedMemoryHandle = - 1"

definition SharedMemoryHandleFromMachMemoryEntry :: "32 word \<Rightarrow> PlatformSharedMemoryHandle" where
  "SharedMemoryHandleFromMachMemoryEntry port = ucast port"

definition MachMemoryEntryFromSharedMemoryHandle :: "PlatformSharedMemoryHandle \<Rightarrow> 32 word" where
  "MachMemoryEntryFromSharedMemoryHandle handle = ucast handle"

definition SharedMemoryHandleFromVMO :: "32 word \<Rightarrow> PlatformSharedMemoryHandle" where
  "SharedMemoryHandleFromVMO handle = ucast handle"

definition VMOFromSharedMemoryHandle :: "PlatformSharedMemoryHandle \<Rightarrow> 32 word" where
  "VMOFromSharedMemoryHandle handle = ucast handle"

definition SharedMemoryHandleFromFileMapping :: "64 word \<Rightarrow> PlatformSharedMemoryHandle" where
  "SharedMemoryHandleFromFileMapping handle = handle"

definition FileMappingFromSharedMemoryHandle :: "PlatformSharedMemoryHandle \<Rightarrow> 64 word" where
  "FileMappingFromSharedMemoryHandle handle = handle"

definition SharedMemoryHandleFromFileDescriptor :: "32 word \<Rightarrow> PlatformSharedMemoryHandle" where
  "SharedMemoryHandleFromFileDescriptor fd = scast fd"

definition FileDescriptorFromSharedMemoryHandle :: "PlatformSharedMemoryHandle \<Rightarrow> 32 word" where
  "FileDescriptorFromSharedMemoryHandle handle = ucast handle"

lemma shared_memory_handles:
  "MachMemoryEntryFromSharedMemoryHandle (SharedMemoryHandleFromMachMemoryEntry p) = p"
  "VMOFromSharedMemoryHandle (SharedMemoryHandleFromVMO p) = p"
  "FileMappingFromSharedMemoryHandle (SharedMemoryHandleFromFileMapping h) = h"
  "FileDescriptorFromSharedMemoryHandle (SharedMemoryHandleFromFileDescriptor p) = p"
  unfolding MachMemoryEntryFromSharedMemoryHandle_def SharedMemoryHandleFromMachMemoryEntry_def
    VMOFromSharedMemoryHandle_def SharedMemoryHandleFromVMO_def FileMappingFromSharedMemoryHandle_def
    SharedMemoryHandleFromFileMapping_def FileDescriptorFromSharedMemoryHandle_def
    SharedMemoryHandleFromFileDescriptor_def
  by (rule refl bit_word_eqI; simp add: bit_ucast_iff bit_signed_iff)+

text \<open>Only the file descriptor -1 is the invalid handle; a port or a VMO never is.\<close>

lemma invalid_shared_memory_handle:
  "SharedMemoryHandleFromFileDescriptor fd = kInvalidSharedMemoryHandle \<longleftrightarrow> fd = - 1"
  "SharedMemoryHandleFromMachMemoryEntry p \<noteq> kInvalidSharedMemoryHandle"
  "SharedMemoryHandleFromVMO p \<noteq> kInvalidSharedMemoryHandle"
proof -
  have "scast fd = (- 1 :: 64 word) \<longleftrightarrow> fd = - 1"
  proof
    assume *: "scast fd = (- 1 :: 64 word)"
    show "fd = - 1"
    proof (rule bit_word_eqI)
      fix n assume "n < LENGTH(32)"
      then have "bit (scast fd :: 64 word) n \<longleftrightarrow> bit fd n"
        by (cases "n = 31") (auto simp: bit_signed_iff min_def)
      then show "bit fd n \<longleftrightarrow> bit (- 1 :: 32 word) n" using \<open>n < LENGTH(32)\<close> by (simp add: *)
    qed
  qed simp
  then show "SharedMemoryHandleFromFileDescriptor fd = kInvalidSharedMemoryHandle \<longleftrightarrow> fd = - 1"
    by (simp add: SharedMemoryHandleFromFileDescriptor_def kInvalidSharedMemoryHandle_def)
  have "ucast (q :: 32 word) \<noteq> (- 1 :: 64 word)" for q
  proof
    assume "ucast q = (- 1 :: 64 word)"
    moreover have "\<not> bit q 40" using bit_imp_le_length [of q 40] by auto
    moreover have "bit (- 1 :: 64 word) 40" by simp
    ultimately show False by (metis bit_ucast_iff)
  qed
  then show "SharedMemoryHandleFromMachMemoryEntry p \<noteq> kInvalidSharedMemoryHandle"
    "SharedMemoryHandleFromVMO p \<noteq> kInvalidSharedMemoryHandle"
    by (simp_all add: SharedMemoryHandleFromMachMemoryEntry_def SharedMemoryHandleFromVMO_def kInvalidSharedMemoryHandle_def)
qed

end
