(* ===== verification/ZlibGz.thy ===== *)
theory ZlibGz
  imports V8Memory
begin

text \<open>
  The macro \<open>gzgetc\<close> of \<open>zlib.h\<close>, which takes the next byte of a file from the buffer that the
  library exposes, and calls the function of the same name when the buffer is empty. That
  function is a parameter, \<open>slow\<close>; the part of the library's state that is not exposed is the
  field \<open>internal\<close>. The buffer lies in memory, with 64-bit addresses as in \<open>V8Memory\<close>.
\<close>

record gzFile_s =
  gz_have :: "32 word"
  gz_next :: "64 word"
  gz_pos :: "64 word"

record 'r gz =
  gzf :: gzFile_s
  buffers :: mem
  internal :: 'r

text \<open>The result is an \<open>int\<close>: the byte, without a sign, or -1.\<close>

definition gzgetc :: "('r gz \<Rightarrow> (32 word \<times> 'r gz) option) \<Rightarrow> 'r gz \<Rightarrow> (32 word \<times> 'r gz) option" where
  "gzgetc slow g =
     (if gz_have (gzf g) \<noteq> 0 then do {
        g \<leftarrow> Some (g\<lparr>gzf := (gzf g)\<lparr>gz_have := gz_have (gzf g) - 1\<rparr>\<rparr>);
        g \<leftarrow> Some (g\<lparr>gzf := (gzf g)\<lparr>gz_pos := gz_pos (gzf g) + 1\<rparr>\<rparr>);
        p \<leftarrow> Some (gz_next (gzf g));
        g \<leftarrow> Some (g\<lparr>gzf := (gzf g)\<lparr>gz_next := p + 1\<rparr>\<rparr>);
        c \<leftarrow> load (buffers g) p;
        Some (ucast (c :: 8 word), g)
      }
      else slow g)"

subsection \<open>Files as streams of bytes\<close>

text \<open>
  \<open>gz_holds rest g ds\<close>: the bytes of the file that have not been read are \<open>ds\<close>, first those in
  the exposed buffer, then those that the library still has to decompress, \<open>rest\<close>.
\<close>

definition gz_holds :: "('r \<Rightarrow> 8 word list) \<Rightarrow> 'r gz \<Rightarrow> 8 word list \<Rightarrow> bool" where
  "gz_holds rest g ds \<longleftrightarrow>
     (\<exists>bs. load_bytes (unat (gz_have (gzf g))) (buffers g) (gz_next (gzf g)) = Some bs \<and> ds = bs @ rest (internal g))"

text \<open>
  One byte is read from a stream: the head and the position after it, or -1 at the end.
  The documentation of the function promises just this; it may fill the buffer on the way.
\<close>

definition gz_reads_byte ::
    "('r \<Rightarrow> 8 word list) \<Rightarrow> 'r gz \<Rightarrow> 8 word list \<Rightarrow> (32 word \<times> 'r gz) option \<Rightarrow> bool" where
  "gz_reads_byte rest g ds res \<longleftrightarrow>
     (case ds of
        [] \<Rightarrow> \<exists>g'. res = Some (- 1, g') \<and> gz_holds rest g' [] \<and> gz_pos (gzf g') = gz_pos (gzf g)
      | d # ds' \<Rightarrow> \<exists>g'. res = Some (ucast d, g') \<and> gz_holds rest g' ds' \<and> gz_pos (gzf g') = gz_pos (gzf g) + 1)"

definition gzgetc_function :: "('r \<Rightarrow> 8 word list) \<Rightarrow> ('r gz \<Rightarrow> (32 word \<times> 'r gz) option) \<Rightarrow> bool" where
  "gzgetc_function rest slow \<longleftrightarrow>
     (\<forall>g ds. gz_have (gzf g) = 0 \<longrightarrow> gz_holds rest g ds \<longrightarrow> gz_reads_byte rest g ds (slow g))"

lemma load_byte: "load m a = m a"
proof -
  have "word_rcat [b] = b" for b :: "8 word" by (simp add: word_rcat_def)
  then show ?thesis by (cases "m a") (simp_all add: load_def)
qed

text \<open>The macro reads a byte in every state, as the function does when the buffer is empty.\<close>

lemma gzgetc_reads:
  assumes "gzgetc_function rest slow" "gz_holds rest g ds"
  shows "gz_reads_byte rest g ds (gzgetc slow g)"
proof (cases "gz_have (gzf g) = 0")
  case False
  then obtain n where n: "unat (gz_have (gzf g)) = Suc n" by (metis not0_implies_Suc unat_eq_zero)
  then have n1: "unat (gz_have (gzf g) - 1) = n" using False by (simp add: unat_minus_one)
  obtain bs where bs: "load_bytes (Suc n) (buffers g) (gz_next (gzf g)) = Some bs" "ds = bs @ rest (internal g)"
    using assms(2) n by (auto simp: gz_holds_def)
  then obtain c cs where c: "buffers g (gz_next (gzf g)) = Some c" "bs = c # cs"
    "load_bytes n (buffers g) (gz_next (gzf g) + 1) = Some cs" by (auto elim!: bind_eq_SomeE)
  then show ?thesis using False n1 bs(2) by (simp add: gzgetc_def gz_reads_byte_def gz_holds_def load_byte)
qed (use assms in \<open>simp add: gzgetc_function_def gzgetc_def\<close>)

text \<open>A client that reads \<open>n\<close> times.\<close>

fun gz_read_times :: "('r gz \<Rightarrow> (32 word \<times> 'r gz) option) \<Rightarrow> nat \<Rightarrow> 'r gz \<Rightarrow> (32 word list \<times> 'r gz) option" where
  "gz_read_times slow 0 g = Some ([], g)"
| "gz_read_times slow (Suc n) g = do {
     (c, g) \<leftarrow> gzgetc slow g;
     (cs, g) \<leftarrow> gz_read_times slow n g;
     Some (c # cs, g)
   }"

lemma byte_not_eof: "ucast (b :: 8 word) \<noteq> (- 1 :: 32 word)"
proof
  assume "ucast b = (- 1 :: 32 word)"
  moreover have "\<not> bit b 9" using bit_imp_le_length [of b 9] by auto
  moreover have "bit (- 1 :: 32 word) 9" by simp
  ultimately show False by (metis bit_ucast_iff)
qed

lemma gz_read_times_ended:
  assumes "gzgetc_function rest slow" "gz_holds rest g []"
  shows "\<exists>g'. gz_read_times slow n g = Some (replicate n (- 1), g') \<and> gz_holds rest g' [] \<and> gz_pos (gzf g') = gz_pos (gzf g)"
  using assms(2)
proof (induction n arbitrary: g)
  case (Suc n)
  obtain g1 where g1: "gzgetc slow g = Some (- 1, g1)" "gz_holds rest g1 []" "gz_pos (gzf g1) = gz_pos (gzf g)"
    using gzgetc_reads [OF assms(1) Suc.prems] by (auto simp: gz_reads_byte_def)
  then show ?case using Suc.IH [OF g1(2)] by auto
qed simp

text \<open>
  C16. Reading a file with \<open>gzgetc\<close>. If the function behind the macro reads one byte as it
  documents, then a client that calls the macro \<open>n\<close> times gets the next \<open>n\<close> bytes of the file in
  order and then -1 for every call after the end, whatever the buffer holds and however it is
  refilled; no read leaves the buffer, the position advances by the number of bytes, and the
  value -1 is never a byte.
\<close>

theorem gzgetc_correct:
  assumes "gzgetc_function rest slow" "gz_holds rest g ds"
  shows "\<exists>g'. gz_read_times slow n g = Some (map ucast (take n ds) @ replicate (n - length ds) (- 1), g') \<and>
      gz_holds rest g' (drop n ds) \<and> gz_pos (gzf g') = gz_pos (gzf g) + of_nat (min n (length ds)) \<and>
      - 1 \<notin> set (map ucast (take n ds) :: 32 word list)"
proof -
  have "\<exists>g'. gz_read_times slow n g = Some (map ucast (take n ds) @ replicate (n - length ds) (- 1), g') \<and>
      gz_holds rest g' (drop n ds) \<and> gz_pos (gzf g') = gz_pos (gzf g) + of_nat (min n (length ds))"
    using assms(2)
  proof (induction ds arbitrary: g n)
    case Nil
    then show ?case using gz_read_times_ended [OF assms(1)] by auto
  next
    case (Cons d ds)
    show ?case
    proof (cases n)
      case (Suc k)
      obtain g1 where g1: "gzgetc slow g = Some (ucast d, g1)" "gz_holds rest g1 ds" "gz_pos (gzf g1) = gz_pos (gzf g) + 1"
        using gzgetc_reads [OF assms(1) Cons.prems] by (auto simp: gz_reads_byte_def)
      then show ?thesis using Cons.IH [OF g1(2), of k] Suc by (auto simp: add.commute)
    qed (use Cons.prems in simp)
  qed
  then show ?thesis using byte_not_eof by (metis (no_types, lifting) imageE list.set_map)
qed

subsection \<open>An example\<close>

text \<open>
  A library that keeps the rest of the file as a list and refills a buffer of two bytes at the
  address 4096.
\<close>

definition refill :: "8 word list gz \<Rightarrow> (32 word \<times> 8 word list gz) option" where
  "refill g = (case internal g of
     [] \<Rightarrow> Some (- 1, g)
   | d # ds \<Rightarrow> Some (ucast d,
       \<lparr>gzf = \<lparr>gz_have = of_nat (length (take 2 ds)), gz_next = 4096, gz_pos = gz_pos (gzf g) + 1\<rparr>,
        buffers = put_bytes (take 2 ds) (buffers g) 4096, internal = drop 2 ds\<rparr>))"

lemma refill_ok: "gzgetc_function id refill"
  unfolding gzgetc_function_def
proof (intro allI impI)
  fix g :: "8 word list gz" and ds
  assume g: "gz_have (gzf g) = 0" "gz_holds id g ds"
  then have ds: "internal g = ds" by (simp add: gz_holds_def)
  show "gz_reads_byte id g ds (refill g)"
  proof (cases ds)
    case Nil
    then show ?thesis using ds g by (simp add: refill_def gz_reads_byte_def)
  next
    case (Cons c cs)
    let ?b = "take 2 cs"
    have "unat (of_nat (length ?b) :: 32 word) = length ?b" by (simp add: unsigned_of_nat take_bit_nat_eq_self_iff min_def)
    moreover have "load_bytes (length ?b) (put_bytes ?b (buffers g) 4096) 4096 = Some ?b"
      by (rule load_put_bytes) simp
    ultimately show ?thesis using Cons ds by (simp add: refill_def gz_reads_byte_def gz_holds_def)
  qed
qed

theorem gzgetc_correct_witness:
  "\<exists>g. gz_read_times refill 5 \<lparr>gzf = \<lparr>gz_have = 1, gz_next = 0, gz_pos = 7\<rparr>, buffers = [0 \<mapsto> 10], internal = [20, 30, 255]\<rparr> =
     Some ([10, 20, 30, 255, - 1], g) \<and> gz_pos (gzf g) = 11"
proof -
  let ?g = "\<lparr>gzf = \<lparr>gz_have = 1, gz_next = 0, gz_pos = 7\<rparr>, buffers = [0 \<mapsto> 10], internal = [20, 30, 255]\<rparr> :: 8 word list gz"
  have "gz_holds id ?g [10, 20, 30, 255]" by (simp add: gz_holds_def)
  moreover have "map ucast (take 5 [10 :: 8 word, 20, 30, 255]) @ replicate (5 - length [10 :: 8 word, 20, 30, 255]) (- 1) =
    [10, 20, 30, 255, - 1 :: 32 word]" by simp
  moreover have "(7 :: 64 word) + of_nat (min 5 (length [10 :: 8 word, 20, 30, 255])) = 11" by simp
  ultimately show ?thesis using gzgetc_correct [OF refill_ok, of ?g "[10, 20, 30, 255]" 5]
    by (metis gzFile_s.select_convs(3) gz.select_convs(1))
qed

end
