(* ===== verification/Spec2Isabelle.thy ===== *)
theory Spec2Isabelle
  imports UvRbTermination UvSplayTermination UvErrnoTheorems ObjectWrapTheorems V8ObjectTheorems V8Maybe ObjTheorems SslAlerts VersionTheorems V8TracedTheorems TlsCipherTheorems OsslDispatchTheorems OsslBioTheorems SslRequestTheorems V8ConfigTheorems NodeSupport ZlibGz
begin

text \<open>
  Verification of the C and C++ core logic of the repository.

  The repository is ONOS, a network controller in Java, together with the Node.js
  distribution that its web build uses (\<open>node-js/\<close>). The C code of the repository is the
  headers of that distribution, \<open>node-js/include/node/\<close>: data structures of libuv, the inline
  fast paths of V8's embedding API, Node's object wrapper, and OpenSSL. A program compiled
  against these headers compiles this code into itself; what it calls beyond them is in a
  library that the repository does not contain.

  \<^bold>\<open>The parts and their theories.\<close>

  \<^item> \<^bold>\<open>Trees\<close> (\<open>uv/tree.h\<close>). The macros generate, for each client, operations on nodes that the
    client allocates. \<open>UvRbModel\<close> models every \<open>RB_*\<close> macro and \<open>UvSplayModel\<close> every \<open>SPLAY_*\<close>
    macro, statement by statement, on a heap from addresses to nodes; definitions have the
    names of the macros, loops are definitions of their own (\<open>RB_FIND_loop\<close>). The splay's
    stack object \<open>__node\<close> is the address 0. \<open>UvRbShape\<close>, \<open>UvRbBalance\<close> and \<open>UvSplayShape\<close>,
    \<open>UvSplayFix\<close> relate heaps to trees and to functional versions of the repair loops;
    \<open>UvRbInsert\<close>, \<open>UvRbRemove\<close>, \<open>UvRbQuery\<close>, \<open>UvRbIterate\<close>, \<open>UvSplay\<close> prove each operation;
    \<open>UvRb\<close> and \<open>UvSplay\<close> show that both implement the locale \<open>ordered_index\<close> (\<open>OrderedIndex\<close>), a
    set of nodes sorted by key. The properties are in \<open>UvRbTheorems\<close>, \<open>UvSplayTheorems\<close>, for
    arbitrary comparison functions in \<open>UvRbTermination\<close>, \<open>UvSplayTermination\<close>, and here.
  \<^item> \<^bold>\<open>Values of V8\<close> (\<open>v8-internal.h\<close>, \<open>v8-value.h\<close>). \<open>V8Memory\<close> is raw memory: bytes at 64-bit
    addresses, accessed as little-endian words. \<open>V8Internal\<close> holds tagging, the encodings of
    small integers (Smis), the sandbox and external pointer tags; \<open>V8Heap\<close> class \<open>Internals\<close>
    (layout constants, raw reads and writes) and the type tests of \<open>Value\<close>. Properties:
    \<open>V8Smi\<close>, \<open>V8HeapTheorems\<close>, \<open>V8Pointers\<close>.
  \<^item> \<^bold>\<open>Accessors\<close> (\<open>v8-object.h\<close>, \<open>v8-context.h\<close>, \<open>v8-isolate.h\<close>, \<open>v8-primitive.h\<close>): \<open>V8Objects\<close>,
    properties in \<open>V8ObjectTheorems\<close>.
  \<^item> \<^bold>\<open>Callbacks\<close> (\<open>v8-function-callback.h\<close>): \<open>V8Callback\<close>, properties in \<open>V8CallbackTheorems\<close>.
  \<^item> \<^bold>\<open>Handles\<close> (\<open>v8-persistent-handle.h\<close>, \<open>v8-local-handle.h\<close>): \<open>V8Handles\<close> on a state of
    handle objects and memory (\<open>hstate\<close>); \<open>V8HandleTheorems\<close> and \<open>V8Ownership\<close> prove ownership.
    \<open>V8Traced\<close>, \<open>V8TracedOwnership\<close> and \<open>V8TracedTheorems\<close> do the same for
    \<open>v8-traced-handle.h\<close>, whose references have no destructor and leave their nodes to a tracing
    collector.
  \<^item> \<^bold>\<open>Wrapped objects\<close> (\<open>node_object_wrap.h\<close>): \<open>ObjectWrap\<close> on top of \<open>V8Handles\<close>, with the
    garbage collector as a step of the environment; \<open>ObjectWrapTheorems\<close>.
  \<^item> \<^bold>\<open>Values of the API\<close> (\<open>v8-maybe.h\<close>, \<open>v8-message.h\<close>): \<open>V8Maybe\<close>.
  \<^item> \<^bold>\<open>Tables of OpenSSL\<close>. \<open>ObjOids\<close>, \<open>ObjTable1\<close> to \<open>ObjTable3\<close>, \<open>ObjIndex\<close>: the registry of
    objects, \<open>openssl/obj_mac.h\<close>; \<open>DerOid\<close>, \<open>DerTables\<close>: the precompiled DER identifiers of
    \<open>prov/der_*.h\<close> and the encoding they should have; properties in \<open>ObjTheorems\<close>. \<open>OsslErr\<close>,
    \<open>OsslReasons\<close>: error codes (\<open>err.h\<close> and 34 headers \<open>*err.h\<close>), properties in
    \<open>OsslErrTheorems\<close>, \<open>OsslReasonTheorems\<close>. \<open>SslAlerts\<close>: alerts and their reasons.
    \<open>TlsCiphers\<close>, \<open>TlsCipherTheorems\<close>: the cipher suites of \<open>ssl3.h\<close> and \<open>tls1.h\<close>.
    \<open>OsslDispatch\<close>, \<open>OsslDispatchTheorems\<close>: the function identities of \<open>core_dispatch.h\<close>.
  \<^item> \<^bold>\<open>Requests of OpenSSL\<close>. Macros of \<open>openssl/bio.h\<close>, \<open>openssl/ssl.h\<close> and \<open>openssl/tls1.h\<close> turn a
    request into a call of \<open>BIO_ctrl\<close>, \<open>SSL_ctrl\<close>, \<open>SSL_CTX_ctrl\<close> or a relative of them with a
    command and arguments; the call is the value of the definition. \<open>OsslBio\<close>, \<open>OsslBioTheorems\<close>
    also model the retry flags by which an operation says why it should be repeated;
    \<open>SslRequests\<close>, \<open>SslRequestTheorems\<close> the options of connections.
  \<^item> \<^bold>\<open>Error codes of libuv\<close> (\<open>uv/errno.h\<close>, \<open>uv.h\<close>): \<open>UvErrno\<close>, \<open>UvErrnoTheorems\<close>.
  \<^item> \<^bold>\<open>Configuration\<close> (\<open>v8config.h\<close>): \<open>V8Config\<close> on maps from macros to values, one definition per
    section of the header; \<open>V8ConfigTheorems\<close>.
  \<^item> \<^bold>\<open>Small functions\<close> (\<open>node_buffer.h\<close>, \<open>node.h\<close>, \<open>v8config.h\<close>, \<open>v8-platform.h\<close>):
    \<open>NodeSupport\<close>. The macro \<open>gzgetc\<close> of \<open>zlib.h\<close>: \<open>ZlibGz\<close>.
  \<^item> \<^bold>\<open>Versions\<close> (\<open>node_version.h\<close>, \<open>uv/version.h\<close>, \<open>v8-version.h\<close>, \<open>openssl/opensslv.h\<close>,
    \<open>openssl/macros.h\<close>): \<open>Versions\<close>, \<open>VersionTheorems\<close>.

  \<open>Prelude\<close> holds what the components share: pointers (\<open>NULL\<close> is \<open>None\<close>), the option monad,
  lists sorted by a key, and the locale \<open>comparator\<close> of comparison functions that agree with a
  key; \<open>WordBits\<close> single bits of words; \<open>FastDistinct\<close> decides on long lists, by sorting, whether
  their elements are distinct.

  \<^bold>\<open>How code is modelled.\<close> Code that can fail returns an option: \<open>None\<close> is undefined behaviour
  (a null or dangling pointer, an access to memory that is not there, a failed assertion) and,
  for the loops that are partial functions, also a loop that does not end. So every theorem that
  says an operation returns \<open>Some\<close> says that it ends and is free of undefined behaviour; there
  is no fuel. An \<open>#error\<close> of a header is the left value of a sum. Machine integers are words of their width; constants that are only offsets,
  enumerators or preprocessor numbers are integers. Pointers have 64 bits (LP64). The
  compile-time switches of V8 are the fields of \<open>v8_config\<close>, and the theorems hold for all of
  them; \<open>node_config\<close> is the shipped configuration. Comparison functions of trees are
  parameters; where order matters they are assumed to agree with a key (\<open>comparator\<close>).

  \<^bold>\<open>What lies outside.\<close> Functions that V8 exports are the fields of the records \<open>engine\<close>,
  \<open>traced_engine\<close> and \<open>object_api\<close> or arguments of the definitions; \<open>global_handles\<close>,
  \<open>traced_handles\<close> and \<open>object_functions\<close> state what the documentation in the headers promises
  of them, as \<open>gzgetc_function\<close> does for zlib and \<open>bio_flags_ok\<close> for the flags of a BIO, and the witnesses instantiate them with
  \<open>demo_engine\<close>, \<open>pool_engine\<close>, \<open>refill\<close>, \<open>word_flags\<close> and their relatives, small models that satisfy the
  contract. The \<open>errno\<close> macros of the platform are the function \<open>errno_macro\<close>, and
  \<open>posix_errno\<close> is what POSIX says of them. What a compiler answers about its features is the
  record \<open>v8_host\<close>. The macro \<open>DER_P_OBJECT\<close> comes from a header that
  is not in the repository; its value is a parameter.

  \<^bold>\<open>What the lemmas show.\<close> For the trees: every operation on every branch, on the ordered list
  of the tree's nodes, with frame conditions; shape and balance in every reachable state, the
  height bound, termination for any comparison function, iteration with removal; and that the two
  trees cannot be told apart by a client. For V8: encodings are inverse to their decodings
  exactly on the values that fit, reads and writes touch exactly their field, callback
  arguments stay in bounds, handles own their nodes in every reachable state, wrapped objects
  live while they are attached and are freed afterwards. For the tables: that identifiers are
  unique, fit their fields, and agree between the places that repeat them. For the requests: that
  a receiver can tell any two of them apart. For the configuration: which switches are refused,
  and that the macros left by the others are consistent.

  \<^bold>\<open>Not modelled.\<close> The Java, JavaScript, Python, YANG and P4 parts of the repository; the
  declarations of functions whose code is not there (most of \<open>uv.h\<close>, \<open>v8*.h\<close>, \<open>node_api.h\<close>,
  \<open>zlib.h\<close> and \<open>openssl/*.h\<close>), with the structures and templates that only lay out data for
  them (\<open>uv/unix.h\<close>, \<open>asn1t.h\<close>); macros and templates that forward to such functions and only
  add a type (\<open>safestack.h\<close>, \<open>lhash.h\<close>) or a wrapper for registration (\<open>node.h\<close>, \<open>node_api.h\<close>); the
  functions that receive the requests of OpenSSL; the checks that \<open>V8_ENABLE_CHECKS\<close> adds, which the shipped
  configuration leaves out; the generated headers of the other platforms under
  \<open>openssl/archs\<close>, which repeat those of \<open>linux-x86_64\<close>; and concurrency: the thread-safe
  slot accesses of traced references are modelled as plain ones, as they are relaxed atomic.
\<close>

subsection \<open>The two trees implement one contract\<close>

text \<open>Both trees hold the same nodes, sorted by the same key.\<close>

definition same_index :: "(addr \<Rightarrow> 'k::linorder) \<Rightarrow> rb_state \<Rightarrow> spl_state \<Rightarrow> bool" where
  "same_index key s t \<longleftrightarrow> (\<exists>xs. rb_index key s xs \<and> spl_index key t xs)"

text \<open>
  C15. The red-black tree and the splay tree are interchangeable: from states that hold the
  same nodes, an insertion of an allocated node, a lookup, or a removal of a node that the
  lookup found returns the same result in both and leaves states that hold the same nodes.
\<close>

theorem trees_bisimilar:
  assumes "comparator cmp key" "same_index key s t"
  shows "(rb_alloc x s \<and> spl_alloc x t \<longrightarrow>
      (\<exists>r s' t'. RB_INSERT cmp x s = Some (r, s') \<and> SPLAY_INSERT cmp x t = Some (r, t') \<and> same_index key s' t')) \<and>
    (\<exists>r s' t'. rb_lookup cmp x s = Some (r, s') \<and> SPLAY_FIND cmp x t = Some (r, t') \<and> same_index key s' t' \<and>
      (\<forall>a. r = Some a \<longrightarrow> (\<exists>s'' t''. rb_remove a s' = Some (Some a, s'') \<and>
         SPLAY_REMOVE cmp a t' = Some (Some a, t'') \<and> same_index key s'' t'')))"
proof -
  obtain xs where xs: "rb_index key s xs" "spl_index key t xs" using assms(2) by (auto simp: same_index_def)
  note rb = comparator.rb_ordered_index [OF assms(1)]
  note spl = comparator.spl_ordered_index [OF assms(1)]
  have ins: "\<exists>r s' t'. RB_INSERT cmp x s = Some (r, s') \<and> SPLAY_INSERT cmp x t = Some (r, t') \<and> same_index key s' t'"
    if a: "rb_alloc x s" "spl_alloc x t"
    using ordered_index.insert_any [OF rb xs(1) a(1)] ordered_index.insert_any [OF spl xs(2) a(2)]
    unfolding same_index_def by (metis (full_types))
  obtain s1 where s1: "rb_lookup cmp x s = Some (key_find key x xs, s1)" "rb_index key s1 xs"
    using ordered_index.lookup [OF rb xs(1)] by blast
  obtain t1 where t1: "SPLAY_FIND cmp x t = Some (key_find key x xs, t1)" "spl_index key t1 xs"
    using ordered_index.lookup [OF spl xs(2)] by blast
  have "\<exists>s'' t''. rb_remove a s1 = Some (Some a, s'') \<and> SPLAY_REMOVE cmp a t1 = Some (Some a, t'') \<and>
      same_index key s'' t''" if "key_find key x xs = Some a" for a
    using ordered_index.remove [OF rb s1(2), of a] ordered_index.remove [OF spl t1(2), of a]
      ordered_index.found_in [OF rb that] unfolding same_index_def by blast
  then show ?thesis using ins s1 t1 unfolding same_index_def by blast
qed

lemma same_index_demo: "same_index int rb_demo spl_demo"
  unfolding same_index_def rb_index_def spl_index_def
  using rb_holds_demo spl_holds_demo demo_sorted by blast

theorem trees_bisimilar_witness:
  "\<exists>r s' t'. RB_INSERT by_addr 7 rb_demo = Some (r, s') \<and> SPLAY_INSERT by_addr 7 spl_demo = Some (r, t') \<and>
     same_index int s' t'"
  using trees_bisimilar [OF keyed.comparator_axioms same_index_demo, of 7] rb_demo_alloc spl_demo_alloc
  by (simp add: rb_alloc_def)

end
